(* ===== verification/Prelude.thy ===== *)
theory Prelude
  imports Complex_Main "HOL-Library.AList"
begin

text \<open>
  What the components share: the Python idioms that recur in the source (string
  normalisation, truthiness of optional numbers, rounding, insertion-ordered dictionaries,
  double-ended queues pruned from the front) and the hint collections the component proofs
  use.

  Python floats are modelled by exact real numbers. Rounding of the binary format,
  infinities and NaN are outside the model; \<open>round(x, n)\<close> of the source is modelled, with
  its ties going to the even neighbour. Text is ASCII: \<open>lower\<close>, \<open>upper\<close> and \<open>strip\<close> act
  on the ASCII letters and blanks, which is what the exchange symbols, statuses and
  identifiers of the program consist of.
\<close>

named_theorems py_simps \<open>evaluation rules of the Python idioms\<close>
named_theorems guard_defs \<open>definitions a proof about a guard unfolds\<close>

section \<open>Strings\<close>

definition py_space :: "char \<Rightarrow> bool" where
  "py_space c \<longleftrightarrow> of_char c \<in> {9, 10, 11, 12, 13, 28, 29, 30, 31, 32 :: nat}"

definition lower_char :: "char \<Rightarrow> char" where
  "lower_char c = (if 65 \<le> (of_char c :: nat) \<and> (of_char c :: nat) \<le> 90
                   then char_of ((of_char c :: nat) + 32) else c)"

definition upper_char :: "char \<Rightarrow> char" where
  "upper_char c = (if 97 \<le> (of_char c :: nat) \<and> (of_char c :: nat) \<le> 122
                   then char_of ((of_char c :: nat) - 32) else c)"

definition str_lower :: "string \<Rightarrow> string" where
  "str_lower s = map lower_char s"

definition str_upper :: "string \<Rightarrow> string" where
  "str_upper s = map upper_char s"

definition str_strip :: "string \<Rightarrow> string" where
  "str_strip s = rev (dropWhile py_space (rev (dropWhile py_space s)))"

fun str_join :: "string \<Rightarrow> string list \<Rightarrow> string" where
  "str_join sep [] = []"
| "str_join sep [x] = x"
| "str_join sep (x # xs) = x @ sep @ str_join sep xs"

definition or_empty :: "string option \<Rightarrow> string" where
  "or_empty v = (case v of None \<Rightarrow> [] | Some s \<Rightarrow> s)"

text \<open>\<open>str(value or "").strip().lower()\<close>, the normalisation of every status and reason.\<close>

definition norm_lower :: "string option \<Rightarrow> string" where
  "norm_lower v = str_lower (str_strip (or_empty v))"

lemma of_char_less_256: "(of_char c :: nat) < 256"
  using nat_of_char_less_256 by blast

lemma lower_char_idem [simp]: "lower_char (lower_char c) = lower_char c"
proof (cases "65 \<le> (of_char c :: nat) \<and> (of_char c :: nat) \<le> 90")
  case True
  then have "(of_char (lower_char c) :: nat) = of_char c + 32"
    by (simp add: lower_char_def)
  with True show ?thesis by (simp add: lower_char_def)
next
  case False
  then have "lower_char c = c" by (auto simp: lower_char_def)
  then show ?thesis by simp
qed

lemma py_space_lower_char [simp]: "py_space (lower_char c) = py_space c"
proof (cases "65 \<le> (of_char c :: nat) \<and> (of_char c :: nat) \<le> 90")
  case True
  then have "(of_char (lower_char c) :: nat) = of_char c + 32"
    by (simp add: lower_char_def)
  with True show ?thesis by (auto simp: py_space_def)
next
  case False
  then have "lower_char c = c" by (auto simp: lower_char_def)
  then show ?thesis by simp
qed

lemma str_lower_idem [simp]: "str_lower (str_lower s) = str_lower s"
  by (simp add: str_lower_def)

lemma dropWhile_idem_rev: "dropWhile P (rev (dropWhile P (rev (dropWhile P s)))) =
    rev (dropWhile P (rev (dropWhile P s)))"
proof (cases "dropWhile P s")
  case Nil
  show ?thesis unfolding Nil by simp
next
  case (Cons x xs)
  then have nx: "\<not> P x" by (metis hd_dropWhile list.distinct(1) list.sel(1))
  then have "dropWhile P (rev (x # xs)) = dropWhile P (rev xs) @ [x]"
    by (simp add: dropWhile_append3)
  with Cons nx show ?thesis by simp
qed

lemma str_strip_idem [simp]: "str_strip (str_strip s) = str_strip s"
proof -
  have "dropWhile py_space (rev (str_strip s)) = rev (str_strip s)"
    by (simp add: str_strip_def dropWhile_idem_rev)
  moreover have "dropWhile py_space (str_strip s) = str_strip s"
    by (simp add: str_strip_def dropWhile_idem_rev)
  ultimately show ?thesis by (simp add: str_strip_def [of "str_strip s"])
qed

lemma str_strip_lower: "str_strip (str_lower s) = str_lower (str_strip s)"
  by (simp add: str_strip_def str_lower_def dropWhile_map rev_map comp_def)

lemma norm_lower_idem [simp]: "norm_lower (Some (norm_lower v)) = norm_lower v"
  by (simp add: norm_lower_def or_empty_def str_strip_lower)

lemma norm_lower_None [simp]: "norm_lower None = []"
  by (simp add: norm_lower_def or_empty_def str_strip_def str_lower_def)

lemma upper_char_idem [simp]: "upper_char (upper_char c) = upper_char c"
proof (cases "97 \<le> (of_char c :: nat) \<and> (of_char c :: nat) \<le> 122")
  case True
  moreover from True have "(of_char c :: nat) - 32 < 256" by linarith
  ultimately have "(of_char (upper_char c) :: nat) = of_char c - 32"
    by (simp add: upper_char_def mod_less)
  with True show ?thesis by (auto simp: upper_char_def)
next
  case False
  then have "upper_char c = c" by (auto simp: upper_char_def)
  then show ?thesis by simp
qed

lemma py_space_upper_char [simp]: "py_space (upper_char c) = py_space c"
proof (cases "97 \<le> (of_char c :: nat) \<and> (of_char c :: nat) \<le> 122")
  case True
  moreover from True have "(of_char c :: nat) - 32 < 256" by linarith
  ultimately have "(of_char (upper_char c) :: nat) = of_char c - 32"
    by (simp add: upper_char_def mod_less)
  with True show ?thesis by (auto simp: py_space_def)
next
  case False
  then have "upper_char c = c" by (auto simp: upper_char_def)
  then show ?thesis by simp
qed

lemma str_upper_idem [simp]: "str_upper (str_upper s) = str_upper s"
  by (simp add: str_upper_def)

lemma str_strip_upper: "str_strip (str_upper s) = str_upper (str_strip s)"
  by (simp add: str_strip_def str_upper_def dropWhile_map rev_map comp_def)

lemma str_strip_Nil [simp]: "str_strip [] = []"
  by (simp add: str_strip_def)

text \<open>\<open>str.title()\<close>: the first letter of every run of letters in upper case, the rest in lower.\<close>

definition is_letter :: "char \<Rightarrow> bool" where
  "is_letter c \<longleftrightarrow> 97 \<le> (of_char (lower_char c) :: nat) \<and> (of_char (lower_char c) :: nat) \<le> 122"

fun title_from :: "bool \<Rightarrow> string \<Rightarrow> string" where
  "title_from inside [] = []"
| "title_from inside (c # cs) =
     (if is_letter c then (if inside then lower_char c else upper_char c) # title_from True cs
      else c # title_from False cs)"

definition str_title :: "string \<Rightarrow> string" where
  "str_title s = title_from False s"

text \<open>\<open>sub in s\<close> and \<open>s.replace(old, new)\<close> for a non-empty \<open>old\<close>.\<close>

definition str_contains :: "string \<Rightarrow> string \<Rightarrow> bool" where
  "str_contains sub s \<longleftrightarrow> (\<exists>i \<in> set [0..<Suc (length s)]. take (length sub) (drop i s) = sub)"

function str_replace :: "string \<Rightarrow> string \<Rightarrow> string \<Rightarrow> string" where
  "str_replace old new s =
     (case s of [] \<Rightarrow> []
      | c # cs \<Rightarrow>
          if old \<noteq> [] \<and> take (length old) s = old then new @ str_replace old new (drop (length old) s)
          else c # str_replace old new cs)"
  by pat_completeness auto
termination
  by (relation "measure (\<lambda>(old, new, s). length s)") auto

declare str_replace.simps [simp del]

text \<open>What evaluates the normalisation of a literal.\<close>

lemmas str_eval = str_lower_def str_upper_def str_strip_def or_empty_def norm_lower_def
  lower_char_def upper_char_def py_space_def char_of_def bit_0 is_letter_def str_title_def

lemma str_lower_eval: "str_lower ''SELL'' = ''sell''"
  by (simp add: str_eval)

lemma norm_lower_eval: "norm_lower (Some '' Failed '') = ''failed''"
  by (simp add: str_eval)

section \<open>Numbers\<close>

text \<open>\<open>float(x or 0.0)\<close>: an absent number and zero are the same.\<close>

definition or_zero :: "real option \<Rightarrow> real" where
  "or_zero x = (case x of None \<Rightarrow> 0 | Some v \<Rightarrow> v)"

lemma or_zero_simps [simp]: "or_zero None = 0" "or_zero (Some v) = v"
  by (simp_all add: or_zero_def)

text \<open>\<open>round(x)\<close> and \<open>round(x, n)\<close>: to the nearest, ties to even.\<close>

definition round_half_even :: "real \<Rightarrow> int" where
  "round_half_even x =
     (let f = \<lfloor>x\<rfloor>; d = x - of_int f
      in if d < 1 / 2 then f else if d > 1 / 2 then f + 1
         else if even f then f else f + 1)"

definition py_round :: "nat \<Rightarrow> real \<Rightarrow> real" where
  "py_round n x = of_int (round_half_even (x * 10 ^ n)) / 10 ^ n"

lemma round_half_even_near: "\<bar>of_int (round_half_even x) - x\<bar> \<le> 1 / 2"
proof -
  have "of_int \<lfloor>x\<rfloor> \<le> x" "x < of_int \<lfloor>x\<rfloor> + 1" by linarith+
  then show ?thesis by (auto simp: round_half_even_def Let_def abs_le_iff)
qed

lemma round_half_even_of_int [simp]: "round_half_even (of_int k) = k"
  by (simp add: round_half_even_def)

lemma round_half_even_mono: "x \<le> y \<Longrightarrow> round_half_even x \<le> round_half_even y"
proof -
  assume le: "x \<le> y"
  then have fle: "\<lfloor>x\<rfloor> \<le> \<lfloor>y\<rfloor>" by (rule floor_mono)
  show ?thesis
  proof (cases "\<lfloor>x\<rfloor> = \<lfloor>y\<rfloor>")
    case True
    with le show ?thesis by (auto simp: round_half_even_def Let_def)
  next
    case False
    with fle have "\<lfloor>x\<rfloor> + 1 \<le> \<lfloor>y\<rfloor>" by linarith
    then show ?thesis by (auto simp: round_half_even_def Let_def)
  qed
qed

lemma py_round_near: "\<bar>py_round n x - x\<bar> \<le> 1 / 2 / 10 ^ n"
proof -
  let ?p = "(10::real) ^ n"
  have "\<bar>of_int (round_half_even (x * ?p)) - x * ?p\<bar> / ?p \<le> 1 / 2 / ?p"
    by (rule divide_right_mono [OF round_half_even_near]) simp
  moreover have "py_round n x - x = (of_int (round_half_even (x * ?p)) - x * ?p) / ?p"
    by (simp add: py_round_def diff_divide_distrib)
  ultimately show ?thesis by simp
qed

lemma py_round_mono: "x \<le> y \<Longrightarrow> py_round n x \<le> py_round n y"
  by (simp add: py_round_def divide_right_mono round_half_even_mono)

lemma py_round_0 [simp]: "py_round n 0 = 0"
  using round_half_even_of_int [of 0] by (simp add: py_round_def)

lemma py_round_nonneg: "0 \<le> x \<Longrightarrow> 0 \<le> py_round n x"
  using py_round_mono [of 0 x n] by simp

lemma py_round_le: "py_round n x \<le> x + 1 / 2 / 10 ^ n"
  using py_round_near [of n x] by (simp add: abs_le_iff)

lemma py_round_ge: "x - 1 / 2 / 10 ^ n \<le> py_round n x"
  using py_round_near [of n x] by (simp add: abs_le_iff)

text \<open>\<open>min(max(x, lo), hi)\<close>.\<close>

definition clamp :: "real \<Rightarrow> real \<Rightarrow> real \<Rightarrow> real" where
  "clamp lo hi x = min (max x lo) hi"

lemma clamp_bounds: "lo \<le> hi \<Longrightarrow> lo \<le> clamp lo hi x \<and> clamp lo hi x \<le> hi"
  by (simp add: clamp_def)

section \<open>Errors\<close>

text \<open>The built-in exceptions the modelled code can raise.\<close>

datatype py_error = ZeroDivisionError | IndexError | KeyError | ValueError | AttributeError | TypeError | DatabaseError

definition py_divide :: "real \<Rightarrow> real \<Rightarrow> py_error + real" where
  "py_divide a b = (if b = 0 then Inl ZeroDivisionError else Inr (a / b))"

lemma py_divide_ok: "b \<noteq> 0 \<Longrightarrow> py_divide a b = Inr (a / b)"
  by (simp add: py_divide_def)

lemma py_divide_Inr [simp]: "py_divide a b = Inr c \<longleftrightarrow> b \<noteq> 0 \<and> c = a / b"
  by (auto simp: py_divide_def)

lemma py_divide_Inl [simp]: "py_divide a b = Inl e \<longleftrightarrow> b = 0 \<and> e = ZeroDivisionError"
  by (auto simp: py_divide_def)

definition py_index :: "'a list \<Rightarrow> nat \<Rightarrow> py_error + 'a" where
  "py_index xs i = (if i < length xs then Inr (xs ! i) else Inl IndexError)"

text \<open>\<open>xs[-n:]\<close>; for \<open>n = 0\<close> this is the whole list.\<close>

definition last_n :: "nat \<Rightarrow> 'a list \<Rightarrow> 'a list" where
  "last_n n xs = (if n = 0 then xs else drop (length xs - n) xs)"

lemma set_last_n: "set (last_n n xs) \<subseteq> set xs"
  by (auto simp: last_n_def dest: in_set_dropD)

text \<open>A loop that appends the result of a call that may raise.\<close>

fun try_map :: "('a \<Rightarrow> 'e + 'b) \<Rightarrow> 'a list \<Rightarrow> 'e + 'b list" where
  "try_map f [] = Inr []"
| "try_map f (x # xs) =
     (case f x of Inl e \<Rightarrow> Inl e
      | Inr y \<Rightarrow> (case try_map f xs of Inl e \<Rightarrow> Inl e | Inr ys \<Rightarrow> Inr (y # ys)))"

lemma try_map_Inr: "try_map f xs = Inr ys \<Longrightarrow> list_all2 (\<lambda>x y. f x = Inr y) xs ys"
  by (induction xs arbitrary: ys) (auto split: sum.splits)

lemma try_map_Inl: "try_map f xs = Inl e \<Longrightarrow> \<exists>x \<in> set xs. f x = Inl e"
  by (induction xs) (auto split: sum.splits)

section \<open>Decimal literals\<close>

text \<open>
  \<open>float(text)\<close> on decimal literals: blanks around an optional sign, digits with an optional
  fraction, and an optional exponent. The spellings of infinity and NaN and the digit
  separator are outside the model and read as \<open>ValueError\<close>.
\<close>

definition digit_value :: "char \<Rightarrow> nat option" where
  "digit_value c = (if 48 \<le> (of_char c :: nat) \<and> (of_char c :: nat) \<le> 57
                    then Some ((of_char c :: nat) - 48) else None)"

fun read_digits :: "string \<Rightarrow> nat \<times> nat \<times> string \<Rightarrow> nat \<times> nat \<times> string" where
  "read_digits [] (v, n, _) = (v, n, [])"
| "read_digits (c # cs) (v, n, _) =
     (case digit_value c of None \<Rightarrow> (v, n, c # cs)
      | Some d \<Rightarrow> read_digits cs (10 * v + d, Suc n, []))"

definition read_sign :: "string \<Rightarrow> bool \<times> string" where
  "read_sign s = (case s of [] \<Rightarrow> (False, [])
     | c # cs \<Rightarrow> if c = CHR ''-'' then (True, cs) else if c = CHR ''+'' then (False, cs) else (False, c # cs))"

definition read_exponent :: "string \<Rightarrow> int option" where
  "read_exponent s = (case s of [] \<Rightarrow> Some 0
     | c # cs \<Rightarrow>
         if lower_char c \<noteq> CHR ''e'' then None
         else let (neg, ds) = read_sign cs; (v, n, rest) = read_digits ds (0, 0, []) in
           if n = 0 \<or> rest \<noteq> [] then None else Some (if neg then - int v else int v))"

definition scale10 :: "real \<Rightarrow> int \<Rightarrow> real" where
  "scale10 x e = (if 0 \<le> e then x * 10 ^ nat e else x / 10 ^ nat (- e))"

definition py_float :: "string \<Rightarrow> py_error + real" where
  "py_float text =
     (let (neg, s) = read_sign (str_strip text);
          (v, n, rest) = read_digits s (0, 0, []);
          (w, m, tail) = (case rest of [] \<Rightarrow> (v, 0, [])
             | c # cs \<Rightarrow> if c = CHR ''.'' then read_digits cs (v, 0, []) else (v, 0, rest))
      in if n + m = 0 then Inl ValueError
         else case read_exponent tail of None \<Rightarrow> Inl ValueError
           | Some e \<Rightarrow> Inr ((if neg then - 1 else 1) * scale10 (real w) (e - int m)))"

lemmas float_eval = py_float_def read_sign_def read_exponent_def digit_value_def scale10_def
  str_strip_def py_space_def lower_char_def

lemma py_float_eval: "py_float '' -12.5e1'' = Inr (- 125)" "py_float ''abc'' = Inl ValueError"
  by (simp_all add: float_eval)

text \<open>\<open>int(text)\<close> on decimal literals, and \<open>int(x)\<close> of a float, which truncates.\<close>

definition py_int :: "string \<Rightarrow> py_error + int" where
  "py_int text =
     (let (neg, s) = read_sign (str_strip text); (v, n, rest) = read_digits s (0, 0, []) in
      if n = 0 \<or> rest \<noteq> [] then Inl ValueError else Inr (if neg then - int v else int v))"

definition py_trunc :: "real \<Rightarrow> int" where
  "py_trunc r = (if 0 \<le> r then \<lfloor>r\<rfloor> else \<lceil>r\<rceil>)"

section \<open>Dynamically typed values\<close>

text \<open>The values the program stores in its untyped snapshots.\<close>

datatype py_value = PyNone | PyBool bool | PyInt int | PyFloat real | PyStr string

fun value_float :: "py_value \<Rightarrow> py_error + real" where
  "value_float PyNone = Inl TypeError"
| "value_float (PyBool b) = Inr (if b then 1 else 0)"
| "value_float (PyInt n) = Inr (of_int n)"
| "value_float (PyFloat r) = Inr r"
| "value_float (PyStr s) = py_float s"

fun value_int :: "py_value \<Rightarrow> py_error + int" where
  "value_int PyNone = Inl TypeError"
| "value_int (PyBool b) = Inr (if b then 1 else 0)"
| "value_int (PyInt n) = Inr n"
| "value_int (PyFloat r) = Inr (py_trunc r)"
| "value_int (PyStr s) = py_int s"

text \<open>\<open>_safe_float\<close> and \<open>_safe_int\<close> of a looked-up value: zero when it is missing or no number.\<close>

definition safe_float :: "py_value option \<Rightarrow> real" where
  "safe_float v = (case v of None \<Rightarrow> 0 | Some x \<Rightarrow> (case value_float x of Inl e \<Rightarrow> 0 | Inr r \<Rightarrow> r))"

definition safe_int :: "py_value option \<Rightarrow> int" where
  "safe_int v = (case v of None \<Rightarrow> 0 | Some x \<Rightarrow> (case value_int x of Inl e \<Rightarrow> 0 | Inr r \<Rightarrow> r))"

text \<open>\<open>x or d\<close> on an optional string.\<close>

definition str_or :: "string option \<Rightarrow> string option \<Rightarrow> string option" where
  "str_or x y = (case x of None \<Rightarrow> y | Some s \<Rightarrow> if s = [] then y else x)"

section \<open>Dictionaries\<close>

text \<open>
  A Python dictionary keeps the order of first insertion: an association list with distinct
  keys, stored with \<open>AList.update\<close> (replace in place, else append) and removed with
  \<open>AList.delete\<close>.
\<close>

type_synonym ('k, 'v) dict = "('k \<times> 'v) list"

definition dict_ok :: "('k, 'v) dict \<Rightarrow> bool" where
  "dict_ok d \<longleftrightarrow> distinct (map fst d)"

abbreviation dict_get :: "('k, 'v) dict \<Rightarrow> 'k \<Rightarrow> 'v option" where
  "dict_get d k \<equiv> map_of d k"

abbreviation dict_set :: "'k \<Rightarrow> 'v \<Rightarrow> ('k, 'v) dict \<Rightarrow> ('k, 'v) dict" where
  "dict_set k v d \<equiv> AList.update k v d"

abbreviation dict_pop :: "'k \<Rightarrow> ('k, 'v) dict \<Rightarrow> ('k, 'v) dict" where
  "dict_pop k d \<equiv> AList.delete k d"

lemma dict_ok_Nil [simp]: "dict_ok []"
  by (simp add: dict_ok_def)

lemma dict_ok_set [simp]: "dict_ok d \<Longrightarrow> dict_ok (dict_set k v d)"
  by (simp add: dict_ok_def distinct_update)

lemma dict_ok_pop [simp]: "dict_ok d \<Longrightarrow> dict_ok (dict_pop k d)"
  by (simp add: dict_ok_def distinct_delete)

lemma dict_get_set: "dict_get (dict_set k v d) k' = (if k' = k then Some v else dict_get d k')"
  by (simp add: update_conv')

lemma dict_get_pop: "dict_get (dict_pop k d) k' = (if k' = k then None else dict_get d k')"
  by (simp add: delete_conv')

end
