(* ===== verification/Runs.thy ===== *)
theory Runs
  imports Prelude
begin

text \<open>
  Runs of a component: a step function folded over a list of events. The locales state the
  contract one step has to meet (it keeps an invariant, it moves a measured quantity by a
  known amount, it never lets a quantity fall) and prove once what follows for every run. The
  component theories interpret them on the program's own operations.
\<close>

fun run :: "('s \<Rightarrow> 'e \<Rightarrow> 's) \<Rightarrow> 's \<Rightarrow> 'e list \<Rightarrow> 's" where
  "run step s [] = s"
| "run step s (e # es) = run step (step s e) es"

text \<open>The sum of what each step of a run contributes, read in the state it happens in.\<close>

fun run_total :: "('s \<Rightarrow> 'e \<Rightarrow> 's) \<Rightarrow> ('s \<Rightarrow> 'e \<Rightarrow> real) \<Rightarrow> 's \<Rightarrow> 'e list \<Rightarrow> real" where
  "run_total step delta s [] = 0"
| "run_total step delta s (e # es) = delta s e + run_total step delta (step s e) es"

lemma run_append: "run step s (xs @ ys) = run step (run step s xs) ys"
  by (induction xs arbitrary: s) auto

lemma run_total_stateless:
  "run_total step (\<lambda>_ e. d e) s es = sum_list (map d es)"
  by (induction es arbitrary: s) auto

text \<open>A step that keeps an invariant on the events that are allowed.\<close>

locale guarded_run =
  fixes step :: "'s \<Rightarrow> 'e \<Rightarrow> 's"
    and ok :: "'e \<Rightarrow> bool"
    and inv :: "'s \<Rightarrow> bool"
  assumes inv_step: "inv s \<Longrightarrow> ok e \<Longrightarrow> inv (step s e)"
begin

lemma inv_run: "inv s \<Longrightarrow> list_all ok es \<Longrightarrow> inv (run step s es)"
  by (induction es arbitrary: s) (auto intro: inv_step)

end

text \<open>A step that moves a measured quantity by what the event contributes.\<close>

locale measured_run = guarded_run +
  fixes measured :: "'s \<Rightarrow> real"
    and delta :: "'s \<Rightarrow> 'e \<Rightarrow> real"
  assumes measured_step: "inv s \<Longrightarrow> ok e \<Longrightarrow> measured (step s e) = measured s + delta s e"
begin

lemma measured_run:
  "inv s \<Longrightarrow> list_all ok es \<Longrightarrow>
   measured (run step s es) = measured s + run_total step delta s es"
  by (induction es arbitrary: s) (auto simp: measured_step inv_step)

end

text \<open>A step that never lets a quantity fall.\<close>

locale growing_run =
  fixes step :: "'s \<Rightarrow> 'e \<Rightarrow> 's"
    and level :: "'s \<Rightarrow> 'b::preorder"
  assumes level_step: "level s \<le> level (step s e)"
begin

lemma level_run: "level s \<le> level (run step s es)"
proof (induction es arbitrary: s)
  case Nil
  then show ?case by simp
next
  case (Cons e es)
  from order_trans [OF level_step Cons.IH] show ?case by simp
qed

end

end
