(* ===== verification/Position_Accounting.thy ===== *)
theory Position_Accounting
  imports Runs
begin

text \<open>
  Position accounting, \<open>src/botik/risk/position.py\<close>: the signed quantity and average entry
  price of a position after a fill, and its unrealised profit in per cent of the entry.
\<close>

definition apply_fill :: "real \<Rightarrow> real \<Rightarrow> string \<Rightarrow> real \<Rightarrow> real \<Rightarrow> real \<times> real" where
  "apply_fill current_qty current_avg_entry side fill_qty fill_price =
     (if fill_qty \<le> 0 \<or> fill_price \<le> 0 then (current_qty, current_avg_entry)
      else
        let side_norm = str_lower side in
        if side_norm \<noteq> ''buy'' \<and> side_norm \<noteq> ''sell'' then (current_qty, current_avg_entry)
        else
          let signed_fill = (if side_norm = ''buy'' then fill_qty else - fill_qty) in
          if current_qty = 0 then (signed_fill, fill_price)
          else if (current_qty > 0 \<and> signed_fill > 0) \<or> (current_qty < 0 \<and> signed_fill < 0) then
            let new_qty = current_qty + signed_fill in
            if new_qty = 0 then (0, 0)
            else (new_qty,
                  (\<bar>current_qty\<bar> * current_avg_entry + \<bar>signed_fill\<bar> * fill_price) / \<bar>new_qty\<bar>)
          else if \<bar>signed_fill\<bar> < \<bar>current_qty\<bar> then
            (current_qty + signed_fill, current_avg_entry)
          else if \<bar>signed_fill\<bar> = \<bar>current_qty\<bar> then (0, 0)
          else (current_qty + signed_fill, fill_price))"

definition unrealized_pnl_pct :: "real \<Rightarrow> real \<Rightarrow> real \<Rightarrow> real option" where
  "unrealized_pnl_pct position_qty avg_entry_price mark_price =
     (if position_qty = 0 \<or> avg_entry_price \<le> 0 \<or> mark_price \<le> 0 then None
      else if position_qty > 0 then Some (mark_price / avg_entry_price - 1)
      else Some (avg_entry_price / mark_price - 1))"

section \<open>The specification: signed fills, and what a position has to satisfy\<close>

record fill =
  fill_side :: string
  fill_qty :: real
  fill_price :: real

definition fill_step :: "real \<times> real \<Rightarrow> fill \<Rightarrow> real \<times> real" where
  "fill_step p f = apply_fill (fst p) (snd p) (fill_side f) (fill_qty f) (fill_price f)"

text \<open>What a fill adds to the position: nothing when it is malformed.\<close>

definition signed_qty :: "fill \<Rightarrow> real" where
  "signed_qty f =
     (if fill_qty f \<le> 0 \<or> fill_price f \<le> 0 then 0
      else if str_lower (fill_side f) = ''buy'' then fill_qty f
      else if str_lower (fill_side f) = ''sell'' then - fill_qty f
      else 0)"

text \<open>An open position has its average entry inside the price range; a flat one has none.\<close>

definition position_within :: "real \<Rightarrow> real \<Rightarrow> real \<times> real \<Rightarrow> bool" where
  "position_within lo hi p \<longleftrightarrow>
     (if fst p = 0 then snd p = 0 else lo \<le> snd p \<and> snd p \<le> hi)"

lemma fill_step_qty: "fst (fill_step p f) = fst p + signed_qty f"
  by (auto simp: fill_step_def apply_fill_def signed_qty_def Let_def abs_if split: if_splits)

lemma weighted_mean_within:
  fixes a b lo hi x y :: real
  assumes "0 \<le> a" "0 \<le> b" "0 < a + b" "lo \<le> x" "x \<le> hi" "lo \<le> y" "y \<le> hi"
  shows "lo \<le> (a * x + b * y) / (a + b)" "(a * x + b * y) / (a + b) \<le> hi"
proof -
  have "a * lo + b * lo \<le> a * x + b * y" "a * x + b * y \<le> a * hi + b * hi"
    using assms by (auto intro: add_mono mult_left_mono)
  with assms show "lo \<le> (a * x + b * y) / (a + b)" "(a * x + b * y) / (a + b) \<le> hi"
    by (simp_all add: le_divide_eq divide_le_eq algebra_simps)
qed

lemma abs_add_same_sign:
  fixes a b :: real
  shows "(a > 0 \<and> b > 0) \<or> (a < 0 \<and> b < 0) \<Longrightarrow> \<bar>a + b\<bar> = \<bar>a\<bar> + \<bar>b\<bar>"
  by auto

lemma fill_step_within:
  assumes "position_within lo hi p" and "lo \<le> fill_price f" and "fill_price f \<le> hi"
  shows "position_within lo hi (fill_step p f)"
proof (cases "fst p \<noteq> 0 \<and> signed_qty f \<noteq> 0 \<and>
    ((fst p > 0 \<and> signed_qty f > 0) \<or> (fst p < 0 \<and> signed_qty f < 0))")
  case True
  then have step: "fill_step p f =
      (fst p + signed_qty f,
       (\<bar>fst p\<bar> * snd p + \<bar>signed_qty f\<bar> * fill_price f) / (\<bar>fst p\<bar> + \<bar>signed_qty f\<bar>))"
    by (auto simp: fill_step_def apply_fill_def signed_qty_def Let_def split: if_splits)
  have "fst p + signed_qty f \<noteq> 0" using True by auto
  with True assms show ?thesis
    by (auto simp: position_within_def step intro!: weighted_mean_within)
next
  case False
  with assms show ?thesis
    by (auto simp: position_within_def fill_step_def apply_fill_def signed_qty_def Let_def
        split: if_splits)
qed

interpretation position: measured_run
    fill_step "\<lambda>f. lo \<le> fill_price f \<and> fill_price f \<le> hi" "position_within lo hi"
    fst "\<lambda>_. signed_qty" for lo hi
  by unfold_locales (auto simp: fill_step_qty intro: fill_step_within)

section \<open>Properties\<close>

text \<open>
  C23: after any sequence of fills the position holds exactly the sum of the signed
  quantities of the well-formed fills, whichever of the branches (opening, adding, partial
  close, exact close, reversal) each of them took; and from a flat start the average entry of
  an open position lies between the lowest and the highest price of the fills, while a flat
  position carries no entry price.
\<close>

theorem position_ledger:
  assumes "\<forall>f \<in> set fills. lo \<le> fill_price f \<and> fill_price f \<le> hi"
  shows "fst (run fill_step (0, 0) fills) = sum_list (map signed_qty fills)
       \<and> position_within lo hi (run fill_step (0, 0) fills)"
proof -
  have ok: "list_all (\<lambda>f. lo \<le> fill_price f \<and> fill_price f \<le> hi) fills"
    using assms by (simp add: list_all_iff)
  have start: "position_within lo hi (0, 0)" by (simp add: position_within_def)
  from position.measured_run [OF start ok] position.inv_run [OF start ok] show ?thesis
    by (simp add: run_total_stateless)
qed

theorem position_ledger_witness:
  "position_within 90 120
     (run fill_step (0, 0)
       [\<lparr>fill_side = ''Buy'', fill_qty = 2, fill_price = 100\<rparr>,
        \<lparr>fill_side = ''SELL'', fill_qty = 3, fill_price = 110\<rparr>])
   \<and> fst (run fill_step (0, 0)
       [\<lparr>fill_side = ''Buy'', fill_qty = 2, fill_price = 100\<rparr>,
        \<lparr>fill_side = ''SELL'', fill_qty = 3, fill_price = 110\<rparr>]) = -1"
proof -
  let ?fs = "[\<lparr>fill_side = ''Buy'', fill_qty = 2, fill_price = 100\<rparr>,
        \<lparr>fill_side = ''SELL'', fill_qty = 3, fill_price = 110\<rparr>]"
  have "sum_list (map signed_qty ?fs) = -1"
    by (simp add: signed_qty_def str_eval)
  with position_ledger [of ?fs 90 120] show ?thesis by simp
qed

text \<open>
  The unrealised profit is reported exactly for an open position with positive prices,
  and its sign is right on both sides: a long position gains when the mark is above the
  entry, a short one when it is below, and both stand at zero exactly at the entry.
\<close>

theorem unrealized_pnl_sign:
  "(unrealized_pnl_pct q e m = None \<longleftrightarrow> q = 0 \<or> e \<le> 0 \<or> m \<le> 0)
   \<and> (\<forall>r. unrealized_pnl_pct q e m = Some r \<longrightarrow>
        sgn r = (if q > 0 then sgn (m - e) else sgn (e - m)) \<and> -1 < r)"
proof -
  have div: "sgn (a / b - 1) = sgn (a - b) \<and> -1 < a / b - 1"
    if "0 < a" "0 < b" for a b :: real
    using that by (auto simp: sgn_if divide_simps)
  show ?thesis
    by (auto simp: unrealized_pnl_pct_def not_le intro: div [THEN conjunct1] div [THEN conjunct2])
qed

theorem unrealized_pnl_sign_witness:
  "unrealized_pnl_pct (-2) 100 80 = Some (1 / 4) \<and> sgn (1 / 4 :: real) = sgn (100 - 80)"
  using unrealized_pnl_sign [of "-2" 100 80] by (simp add: unrealized_pnl_pct_def)

end
