(* ===== verification/Exit_Rules.thy ===== *)
theory Exit_Rules
  imports Runs
begin

text \<open>
  Exit decisions, \<open>src/botik/risk/exit_rules.py\<close>, and the spot holding rules,
  \<open>src/botik/risk/spot_rules.py\<close>: when a position is closed and for which reason, and which
  holdings the bot may sell on its own.
\<close>

section \<open>decide\_exit\_reason\<close>

record exit_config =
  hold_timeout_sec :: real
  pnl_exit_enabled :: bool
  stop_loss_pct :: real
  take_profit_pct :: real
  fallback_stoploss_bps :: real
  fallback_breakeven_bps :: real
  fallback_trailing_bps :: real
  fallback_trailing_activation_bps :: real

definition to_bps :: "real option \<Rightarrow> real option" where
  "to_bps pnl_pct = map_option (\<lambda>p. p * 10000) pnl_pct"

definition updated_peak :: "real option \<Rightarrow> real \<Rightarrow> real" where
  "updated_peak pnl_bps peak =
     (case pnl_bps of None \<Rightarrow> peak | Some b \<Rightarrow> if b > peak then b else peak)"

definition pnl_exit :: "exit_config \<Rightarrow> real option \<Rightarrow> string option" where
  "pnl_exit c pnl_pct =
     (case pnl_pct of
        None \<Rightarrow> None
      | Some p \<Rightarrow>
          if \<not> pnl_exit_enabled c then None
          else if stop_loss_pct c > 0 \<and> p \<le> - stop_loss_pct c then Some ''stop_loss''
          else if take_profit_pct c > 0 \<and> p \<ge> take_profit_pct c then Some ''take_profit''
          else None)"

definition fallback_exit :: "exit_config \<Rightarrow> real option \<Rightarrow> real \<Rightarrow> string option" where
  "fallback_exit c pnl_bps peak =
     (case pnl_bps of
        None \<Rightarrow> None
      | Some b \<Rightarrow>
          if fallback_stoploss_bps c > 0 \<and> b \<le> - \<bar>fallback_stoploss_bps c\<bar> then
            Some ''fallback_stoploss''
          else if fallback_breakeven_bps c > 0 \<and> peak \<ge> fallback_breakeven_bps c \<and> b \<le> 0 then
            Some ''fallback_breakeven''
          else if fallback_trailing_bps c > 0
               \<and> peak \<ge> max (fallback_trailing_activation_bps c) 0
               \<and> b \<le> peak - \<bar>fallback_trailing_bps c\<bar> then
            Some ''fallback_trailing''
          else None)"

definition decide_exit_reason ::
    "exit_config \<Rightarrow> real option \<Rightarrow> real \<Rightarrow> real \<Rightarrow> string option \<times> real" where
  "decide_exit_reason c pnl_pct age_sec peak_pnl_bps =
     (let pnl_bps = to_bps pnl_pct;
          peak = updated_peak pnl_bps peak_pnl_bps;
          reason = pnl_exit c pnl_pct;
          reason = (if reason = None then fallback_exit c pnl_bps peak else reason);
          reason = (if reason = None \<and> age_sec \<ge> hold_timeout_sec c then Some ''hold_timeout''
                    else reason)
      in (reason, peak))"

lemmas exit_defs = decide_exit_reason_def pnl_exit_def fallback_exit_def to_bps_def
  updated_peak_def Let_def

lemma pnl_exit_None:
  "pnl_exit c (Some p) = None \<longleftrightarrow> (pnl_exit_enabled c \<longrightarrow>
      (stop_loss_pct c > 0 \<longrightarrow> - stop_loss_pct c < p) \<and> (take_profit_pct c > 0 \<longrightarrow> p < take_profit_pct c))"
  by (auto simp: pnl_exit_def)

lemma fallback_exit_None:
  "fallback_exit c (Some b) pk = None \<longleftrightarrow>
     (fallback_stoploss_bps c > 0 \<longrightarrow> - fallback_stoploss_bps c < b)
     \<and> (fallback_breakeven_bps c > 0 \<longrightarrow> fallback_breakeven_bps c \<le> pk \<longrightarrow> 0 < b)
     \<and> (fallback_trailing_bps c > 0 \<longrightarrow>
          max (fallback_trailing_activation_bps c) 0 \<le> pk \<longrightarrow> pk - fallback_trailing_bps c < b)"
  by (auto simp: fallback_exit_def)

lemma pnl_exit_range: "pnl_exit c p \<in> {None, Some ''stop_loss'', Some ''take_profit''}"
  by (auto simp: pnl_exit_def split: option.splits)

lemma fallback_exit_trailing:
  "fallback_exit c (Some b) pk = Some ''fallback_trailing'' \<Longrightarrow>
     fallback_trailing_bps c > 0 \<and> max (fallback_trailing_activation_bps c) 0 \<le> pk
     \<and> b \<le> pk - fallback_trailing_bps c"
  by (auto simp: fallback_exit_def split: if_splits)

lemma decide_trailing:
  assumes "fst (decide_exit_reason c (Some q) a pk) = Some ''fallback_trailing''"
  shows "fallback_exit c (Some (q * 10000)) (updated_peak (Some (q * 10000)) pk)
      = Some ''fallback_trailing''"
  using assms pnl_exit_range [of c "Some q"]
  by (auto simp: decide_exit_reason_def Let_def to_bps_def split: if_splits)

text \<open>The caller keeps the peak between calls: one observation is a profit and an age.\<close>

definition exit_tick ::
    "exit_config \<Rightarrow> string option \<times> real \<Rightarrow> real option \<times> real \<Rightarrow> string option \<times> real" where
  "exit_tick c s obs = decide_exit_reason c (fst obs) (snd obs) (snd s)"

lemma exit_tick_peak: "snd (exit_tick c s obs) = updated_peak (to_bps (fst obs)) (snd s)"
  by (simp add: exit_tick_def decide_exit_reason_def Let_def)

interpretation exit_peak: growing_run "exit_tick c" snd for c
  by unfold_locales (simp add: exit_tick_peak updated_peak_def split: option.splits)

lemma exit_peak_covers:
  "(Some p, age) \<in> set obs \<Longrightarrow> p * 10000 \<le> snd (run (exit_tick c) s obs)"
proof (induction obs arbitrary: s)
  case Nil
  then show ?case by simp
next
  case (Cons ob obs)
  show ?case
  proof (cases "ob = (Some p, age)")
    case True
    then have "p * 10000 \<le> snd (exit_tick c s ob)"
      by (simp add: exit_tick_peak updated_peak_def to_bps_def)
    also have "\<dots> \<le> snd (run (exit_tick c) (exit_tick c s ob) obs)"
      by (rule exit_peak.level_run)
    finally show ?thesis by simp
  next
    case False
    with Cons show ?thesis by simp
  qed
qed

lemma exit_peak_attained:
  "snd (run (exit_tick c) s obs) = snd s
   \<or> (\<exists>p age. (Some p, age) \<in> set obs \<and> snd (run (exit_tick c) s obs) = p * 10000)"
proof (induction obs arbitrary: s)
  case Nil
  then show ?case by simp
next
  case (Cons ob obs)
  have "snd (exit_tick c s ob) = snd s \<or> (\<exists>p. fst ob = Some p \<and> snd (exit_tick c s ob) = p * 10000)"
    by (auto simp: exit_tick_peak updated_peak_def to_bps_def split: option.splits)
  with Cons [of "exit_tick c s ob"] show ?case
    by (metis (no_types, lifting) insertI1 insertI2 list.simps(15) prod.collapse run.simps(2))
qed

text \<open>
  When the decision is to keep the position, none of the rules that are switched on
  holds: the loss is inside both stop-losses, the profit below the target, the position has
  not fallen back to break-even or by the trailing distance from its peak, and the holding
  time is not over. In particular an enabled stop-loss that is hit always closes the position,
  and so does an expired holding time, whatever the rest of the configuration is.
\<close>

theorem no_exit_means_no_rule:
  assumes "fst (decide_exit_reason c (Some p) age peak) = None"
  shows "age < hold_timeout_sec c
       \<and> (pnl_exit_enabled c \<longrightarrow> stop_loss_pct c > 0 \<longrightarrow> - stop_loss_pct c < p)
       \<and> (pnl_exit_enabled c \<longrightarrow> take_profit_pct c > 0 \<longrightarrow> p < take_profit_pct c)
       \<and> (fallback_stoploss_bps c > 0 \<longrightarrow> - fallback_stoploss_bps c < p * 10000)
       \<and> (fallback_breakeven_bps c > 0 \<longrightarrow>
            fallback_breakeven_bps c \<le> max peak (p * 10000) \<longrightarrow> 0 < p)
       \<and> (fallback_trailing_bps c > 0 \<longrightarrow>
            max (fallback_trailing_activation_bps c) 0 \<le> max peak (p * 10000) \<longrightarrow>
            max peak (p * 10000) - fallback_trailing_bps c < p * 10000)"
proof -
  have peak: "updated_peak (Some (p * 10000)) peak = max peak (p * 10000)"
    by (simp add: updated_peak_def max_def)
  from assms have pe: "pnl_exit c (Some p) = None"
    and fe: "fallback_exit c (Some (p * 10000)) (max peak (p * 10000)) = None"
    and age: "age < hold_timeout_sec c"
    by (auto simp: decide_exit_reason_def Let_def to_bps_def peak split: if_splits)
  from pe fe age show ?thesis
    unfolding pnl_exit_None fallback_exit_None by simp
qed

definition sample_exit_config :: exit_config where
  "sample_exit_config = \<lparr>hold_timeout_sec = 600, pnl_exit_enabled = True, stop_loss_pct = 2 / 100,
     take_profit_pct = 3 / 100, fallback_stoploss_bps = 150, fallback_breakeven_bps = 40,
     fallback_trailing_bps = 20, fallback_trailing_activation_bps = 30\<rparr>"

theorem no_exit_means_no_rule_witness:
  "fst (decide_exit_reason sample_exit_config (Some (1 / 1000)) 10 5) = None
   \<and> (10::real) < hold_timeout_sec sample_exit_config"
proof -
  have h: "fst (decide_exit_reason sample_exit_config (Some (1 / 1000)) 10 5) = None"
    by (simp add: exit_defs sample_exit_config_def)
  from no_exit_means_no_rule [OF h] h show ?thesis by blast
qed

text \<open>
  Over any sequence of observations the peak the caller carries is the running maximum:
  it never falls, it is at least every profit that was observed, and it is either the peak the
  run started from or one of those profits. A close for the reason \<open>fallback_trailing\<close>
  therefore means that the position really was up by the activation threshold at some point
  (or started so) and has given back the trailing distance since.
\<close>

theorem exit_peak_is_running_maximum:
  "snd s \<le> snd (run (exit_tick c) s obs)
   \<and> (\<forall>p age. (Some p, age) \<in> set obs \<longrightarrow> p * 10000 \<le> snd (run (exit_tick c) s obs))
   \<and> (snd (run (exit_tick c) s obs) = snd s
      \<or> (\<exists>p age. (Some p, age) \<in> set obs \<and> snd (run (exit_tick c) s obs) = p * 10000))
   \<and> (fst (exit_tick c s (Some q, a)) = Some ''fallback_trailing'' \<longrightarrow>
        fallback_trailing_bps c > 0
        \<and> max (fallback_trailing_activation_bps c) 0 \<le> snd (exit_tick c s (Some q, a))
        \<and> q * 10000 \<le> snd (exit_tick c s (Some q, a)) - fallback_trailing_bps c)"
proof -
  have trail: "fst (exit_tick c s (Some q, a)) = Some ''fallback_trailing'' \<longrightarrow>
        fallback_trailing_bps c > 0
        \<and> max (fallback_trailing_activation_bps c) 0 \<le> snd (exit_tick c s (Some q, a))
        \<and> q * 10000 \<le> snd (exit_tick c s (Some q, a)) - fallback_trailing_bps c"
  proof
    assume t: "fst (exit_tick c s (Some q, a)) = Some ''fallback_trailing''"
    have pk: "snd (exit_tick c s (Some q, a)) = updated_peak (Some (q * 10000)) (snd s)"
      by (simp add: exit_tick_peak to_bps_def)
    from t have "fst (decide_exit_reason c (Some q) a (snd s)) = Some ''fallback_trailing''"
      by (simp add: exit_tick_def)
    from fallback_exit_trailing [OF decide_trailing [OF this]]
    show "fallback_trailing_bps c > 0
        \<and> max (fallback_trailing_activation_bps c) 0 \<le> snd (exit_tick c s (Some q, a))
        \<and> q * 10000 \<le> snd (exit_tick c s (Some q, a)) - fallback_trailing_bps c"
      unfolding pk .
  qed
  from exit_peak.level_run exit_peak_covers exit_peak_attained trail show ?thesis
    by blast
qed

theorem exit_peak_is_running_maximum_witness:
  "(30::real) \<le> snd (run (exit_tick sample_exit_config) (None, 0)
      [(Some (3 / 1000), 1), (None, 2), (Some (1 / 1000), 3)])"
proof -
  have m: "(Some (3 / 1000), 1) \<in> set [(Some (3 / 1000), 1 :: real), (None, 2), (Some (1 / 1000), 3)]"
    by simp
  from exit_peak_is_running_maximum
    [of "(None, 0)" sample_exit_config "[(Some (3 / 1000), 1), (None, 2), (Some (1 / 1000), 3)]"] m
  have "3 / 1000 * 10000 \<le> snd (run (exit_tick sample_exit_config) (None, 0)
      [(Some (3 / 1000), 1), (None, 2), (Some (1 / 1000), 3)])"
    by blast
  then show ?thesis by simp
qed

section \<open>Spot holdings\<close>

definition PROTECTED_HOLD_REASONS :: "string list" where
  "PROTECTED_HOLD_REASONS = [''manual_import'', ''unknown_recovered_from_exchange'']"

definition can_auto_sell_hold :: "string \<Rightarrow> bool \<Rightarrow> bool" where
  "can_auto_sell_hold hold_reason auto_sell_allowed =
     (let reason = str_strip hold_reason in
      if auto_sell_allowed then True else reason \<notin> set PROTECTED_HOLD_REASONS)"

definition classify_spot_state :: "string \<Rightarrow> real option \<Rightarrow> string" where
  "classify_spot_state hold_reason pnl_pct =
     (let reason = str_strip hold_reason in
      if reason = ''stale_hold'' then ''stale_hold''
      else if reason = ''unknown_recovered_from_exchange'' then ''recovered_hold''
      else case pnl_pct of
          None \<Rightarrow> ''unknown''
        | Some p \<Rightarrow> if p < 0 then ''floating_loss'' else if p > 0 then ''floating_profit'' else ''flat'')"

lemma recovered_never_auto_sold:
  "classify_spot_state r p = ''recovered_hold'' \<longleftrightarrow> str_strip r = ''unknown_recovered_from_exchange''"
  by (auto simp: classify_spot_state_def Let_def split: option.splits)

text \<open>
  A holding the bot found on the exchange without knowing where it came from is
  classified as recovered whatever its profit is, and without the explicit permission it is
  not sold automatically; the same permission lifts the block for every reason. Blanks around
  the stored reason change neither the class nor the permission.
\<close>

theorem recovered_hold_protected:
  "(classify_spot_state r p = ''recovered_hold'' \<longrightarrow> \<not> can_auto_sell_hold r False)
   \<and> (can_auto_sell_hold r False \<longleftrightarrow>
        str_strip r \<noteq> ''manual_import'' \<and> str_strip r \<noteq> ''unknown_recovered_from_exchange'')
   \<and> can_auto_sell_hold r True
   \<and> can_auto_sell_hold (str_strip r) a = can_auto_sell_hold r a
   \<and> classify_spot_state (str_strip r) p = classify_spot_state r p"
  unfolding recovered_never_auto_sold
  by (simp add: can_auto_sell_hold_def PROTECTED_HOLD_REASONS_def classify_spot_state_def Let_def)

theorem recovered_hold_protected_witness:
  "classify_spot_state '' unknown_recovered_from_exchange '' (Some (-1)) = ''recovered_hold''
   \<and> \<not> can_auto_sell_hold '' unknown_recovered_from_exchange '' False"
proof -
  have h: "classify_spot_state '' unknown_recovered_from_exchange '' (Some (-1)) = ''recovered_hold''"
    by (simp add: classify_spot_state_def Let_def str_eval)
  with recovered_hold_protected [of "'' unknown_recovered_from_exchange ''" "Some (-1)"]
  show ?thesis by blast
qed

end
