(* ===== verification/Windows.thy ===== *)
theory Windows
  imports Runs
begin

text \<open>
  Sliding windows kept in a queue: new items are appended, expired items are dropped from the
  front. The locale is the contract between the components that keep such a queue (the order
  rate limit, the spread and mid price histories, the trade tape) and the pruning loop they
  all write as \<open>while queue and expired(queue[0]): queue.popleft()\<close>.
\<close>

locale front_pruned =
  fixes prune :: "'t::linorder \<Rightarrow> 'a list \<Rightarrow> 'a list"
    and expired :: "'t \<Rightarrow> 'a \<Rightarrow> bool"
  assumes prune_loop: "prune now xs = dropWhile (expired now) xs"
    and expired_stays: "now \<le> now' \<Longrightarrow> expired now x \<Longrightarrow> expired now' x"
begin

text \<open>What is live at \<open>now\<close>, and a queue in which older items stand before newer ones.\<close>

definition live :: "'t \<Rightarrow> 'a list \<Rightarrow> 'a list" where
  "live now xs = filter (\<lambda>x. \<not> expired now x) xs"

definition in_order :: "'a list \<Rightarrow> bool" where
  "in_order xs \<longleftrightarrow> sorted_wrt (\<lambda>x y. \<forall>now. expired now y \<longrightarrow> expired now x) xs"

lemma live_prune: "now \<le> now' \<Longrightarrow> live now' (prune now xs) = live now' xs"
  by (induction xs) (auto simp: live_def prune_loop dest: expired_stays)

lemma live_append [simp]: "live now (xs @ ys) = live now xs @ live now ys"
  by (simp add: live_def)

lemma live_live: "now \<le> now' \<Longrightarrow> live now' (live now xs) = live now' xs"
  by (induction xs) (auto simp: live_def dest: expired_stays)

lemma live_shrinks: "now \<le> now' \<Longrightarrow> length (live now' xs) \<le> length (live now xs)"
  by (induction xs) (auto simp: live_def dest: expired_stays)

lemma length_live_le: "length (live now xs) \<le> length (prune now xs)"
proof -
  have "length (live now (prune now xs)) \<le> length (prune now xs)" by (simp add: live_def)
  then show ?thesis by (simp add: live_prune)
qed

lemma prune_in_order: "in_order xs \<Longrightarrow> prune now xs = live now xs"
proof (induction xs)
  case Nil
  then show ?case by (simp add: live_def prune_loop)
next
  case (Cons x xs)
  show ?case
  proof (cases "expired now x")
    case True
    with Cons show ?thesis by (simp add: live_def prune_loop in_order_def)
  next
    case False
    with Cons.prems have "\<forall>y \<in> set xs. \<not> expired now y" by (auto simp: in_order_def)
    then have "live now xs = xs" by (simp add: live_def filter_id_conv)
    with False show ?thesis by (simp add: live_def prune_loop)
  qed
qed

lemma in_order_live: "in_order xs \<Longrightarrow> in_order (live now xs)"
  unfolding in_order_def live_def by (rule sorted_wrt_filter)

text \<open>Appending and pruning keeps the queue equal to the live part of the whole history.\<close>

lemma append_prune_live:
  assumes "in_order (hist @ [x])" and "now \<le> now'"
  shows "prune now' (live now hist @ [x]) = live now' (hist @ [x])"
proof -
  have "in_order (live now hist @ [x])"
    using assms(1) by (auto simp: in_order_def sorted_wrt_append live_def sorted_wrt_filter)
  then show ?thesis using assms(2) by (simp add: prune_in_order live_live)
qed

end

end
