(* ===== verification/Risk_Manager.thy ===== *)
theory Risk_Manager
  imports Windows
begin

text \<open>
  The order gate, \<open>src/botik/risk/manager.py\<close>: \<open>RiskManager\<close> checks every entry order against
  the exposure limits, the number of open positions and the order rate, and remembers when
  orders were placed. The trading loop (\<open>src/botik/main.py\<close>) checks an entry, places it and
  registers it; its exits are registered without a check.

  \<open>time.monotonic()\<close> is a parameter \<open>now\<close>. The reasons of a refusal are constructors that
  carry the numbers the source prints into the text of the reason.
\<close>

record risk_config =
  initial_equity_usdt :: real
  max_total_exposure_pct_of_initial :: real
  max_symbol_exposure_pct :: real
  max_orders_per_minute :: int
  max_open_positions :: int

record risk_manager =
  rm_config :: risk_config
  order_timestamps :: "real list"

datatype risk_reason =
    NotionalNotPositive
  | OrderRateExceeded
  | MaxOpenPositionsReached int int
  | TotalExposureExceeded real real
  | SymbolExposureExceeded real real
  | RiskOk

record risk_check_result =
  allowed :: bool
  reason :: risk_reason

definition new_risk_manager :: "risk_config \<Rightarrow> risk_manager" where
  "new_risk_manager c = \<lparr>rm_config = c, order_timestamps = []\<rparr>"

definition max_total_exposure_usdt :: "risk_manager \<Rightarrow> real" where
  "max_total_exposure_usdt m =
     initial_equity_usdt (rm_config m) * (max_total_exposure_pct_of_initial (rm_config m) / 100)"

definition max_symbol_exposure_usdt :: "risk_manager \<Rightarrow> real" where
  "max_symbol_exposure_usdt m =
     initial_equity_usdt (rm_config m) * (max_symbol_exposure_pct (rm_config m) / 100)"

definition prune_timestamps :: "real \<Rightarrow> real list \<Rightarrow> real list" where
  "prune_timestamps now ts = dropWhile (\<lambda>t. now - t > 60) ts"

definition register_order_placed :: "real \<Rightarrow> risk_manager \<Rightarrow> risk_manager" where
  "register_order_placed now m =
     m\<lparr>order_timestamps := prune_timestamps now (order_timestamps m @ [now])\<rparr>"

definition orders_in_last_minute :: "real \<Rightarrow> risk_manager \<Rightarrow> risk_manager \<times> nat" where
  "orders_in_last_minute now m =
     (let ts = prune_timestamps now (order_timestamps m)
      in (m\<lparr>order_timestamps := ts\<rparr>, length ts))"

definition effective_leverage :: "real option \<Rightarrow> real" where
  "effective_leverage leverage =
     max (case leverage of None \<Rightarrow> 1 | Some l \<Rightarrow> l) 1"

definition refuse :: "risk_reason \<Rightarrow> risk_check_result" where
  "refuse r = \<lparr>allowed = False, reason = r\<rparr>"

definition check_order ::
    "real \<Rightarrow> real \<Rightarrow> real \<Rightarrow> real \<Rightarrow> real \<Rightarrow> int \<Rightarrow> real option \<Rightarrow> risk_manager
     \<Rightarrow> risk_manager \<times> risk_check_result" where
  "check_order now price qty current_total_exposure_usdt current_symbol_exposure_usdt
       current_open_positions leverage m =
     (let notional = price * qty * effective_leverage leverage in
      if notional \<le> 0 then (m, refuse NotionalNotPositive)
      else
        let (m', placed) = orders_in_last_minute now m; c = rm_config m in
        if int placed \<ge> max_orders_per_minute c then (m', refuse OrderRateExceeded)
        else if max_open_positions c > 0 \<and> current_open_positions \<ge> max_open_positions c then
          (m', refuse (MaxOpenPositionsReached current_open_positions (max_open_positions c)))
        else
          let new_total = current_total_exposure_usdt + notional in
          if new_total > max_total_exposure_usdt m then
            (m', refuse (TotalExposureExceeded new_total (max_total_exposure_usdt m)))
          else
            let new_symbol = current_symbol_exposure_usdt + notional;
                max_sym = max_symbol_exposure_usdt m in
            if new_symbol > max_sym then
              (m', refuse (SymbolExposureExceeded new_symbol max_sym))
            else (m', \<lparr>allowed = True, reason = RiskOk\<rparr>))"

section \<open>The trading loop around the gate\<close>

text \<open>
  An event of the loop: an entry attempt (time since the last event, the numbers the gate
  reads, whether the exchange accepted the order, and how long placing it took), or an exit
  order, which the loop registers unconditionally. \<open>entry_times\<close> records when entries were
  registered; no operation reads it.
\<close>

record entry_order =
  eo_price :: real
  eo_qty :: real
  eo_total_exposure :: real
  eo_symbol_exposure :: real
  eo_open_positions :: int
  eo_leverage :: "real option"

datatype loop_event =
    EntryAttempt real entry_order bool real
  | ExitPlaced real

record loop_state =
  clock :: real
  manager :: risk_manager
  entry_times :: "real list"

definition check_entry :: "real \<Rightarrow> entry_order \<Rightarrow> risk_manager \<Rightarrow> risk_manager \<times> risk_check_result"
  where
  "check_entry now e m = check_order now (eo_price e) (eo_qty e) (eo_total_exposure e)
     (eo_symbol_exposure e) (eo_open_positions e) (eo_leverage e) m"

fun loop_step :: "loop_state \<Rightarrow> loop_event \<Rightarrow> loop_state" where
  "loop_step s (ExitPlaced elapsed) =
     (let now = clock s + elapsed
      in s\<lparr>clock := now, manager := register_order_placed now (manager s)\<rparr>)"
| "loop_step s (EntryAttempt elapsed e accepted latency) =
     (let now = clock s + elapsed; (m, r) = check_entry now e (manager s) in
      if \<not> allowed r then s\<lparr>clock := now, manager := m\<rparr>
      else if \<not> accepted then s\<lparr>clock := now + latency, manager := m\<rparr>
      else s\<lparr>clock := now + latency,
             manager := register_order_placed (now + latency) m,
             entry_times := entry_times s @ [now + latency]\<rparr>)"

definition start_loop :: "risk_config \<Rightarrow> real \<Rightarrow> loop_state" where
  "start_loop c t0 = \<lparr>clock = t0, manager = new_risk_manager c, entry_times = []\<rparr>"

text \<open>The monotonic clock never runs backwards.\<close>

fun forward_in_time :: "loop_event \<Rightarrow> bool" where
  "forward_in_time (ExitPlaced elapsed) = (0 \<le> elapsed)"
| "forward_in_time (EntryAttempt elapsed e accepted latency) = (0 \<le> elapsed \<and> 0 \<le> latency)"

interpretation order_window: front_pruned prune_timestamps "\<lambda>now t. now - t > 60"
  by unfold_locales (simp_all add: prune_timestamps_def)

definition in_last_minute :: "real \<Rightarrow> real list \<Rightarrow> nat" where
  "in_last_minute now ts = length (filter (\<lambda>t. now - t \<le> 60) ts)"

lemma in_last_minute_live: "in_last_minute now ts = length (order_window.live now ts)"
  by (simp add: in_last_minute_def order_window.live_def not_less)

lemma in_last_minute_append [simp]:
  "in_last_minute now (xs @ ys) = in_last_minute now xs + in_last_minute now ys"
  by (simp add: in_last_minute_def)

lemma in_last_minute_single_le: "in_last_minute now [t] \<le> 1"
  by (simp add: in_last_minute_def)

lemma in_last_minute_antimono: "now \<le> now' \<Longrightarrow> in_last_minute now' ts \<le> in_last_minute now ts"
  unfolding in_last_minute_live by (rule order_window.live_shrinks)

text \<open>Pruning forgets only what no later minute contains.\<close>

lemma in_last_minute_prune:
  "now \<le> now' \<Longrightarrow> in_last_minute now' (prune_timestamps now ts) = in_last_minute now' ts"
  by (simp add: in_last_minute_live order_window.live_prune)

lemma in_last_minute_le_length: "in_last_minute now ts \<le> length (prune_timestamps now ts)"
  unfolding in_last_minute_live by (rule order_window.length_live_le)

lemma check_order_manager:
  assumes "check_order now p q te se n l m = (m', r)"
  shows "rm_config m' = rm_config m
       \<and> (order_timestamps m' = order_timestamps m
          \<or> order_timestamps m' = prune_timestamps now (order_timestamps m))"
  using assms
  by (auto simp: check_order_def orders_in_last_minute_def Let_def split: if_splits)

lemma check_order_allowed_iff:
  "allowed (snd (check_order now p q te se n l m)) \<longleftrightarrow>
     (let notional = p * q * effective_leverage l; c = rm_config m in
      0 < notional
      \<and> int (length (prune_timestamps now (order_timestamps m))) < max_orders_per_minute c
      \<and> (max_open_positions c > 0 \<longrightarrow> n < max_open_positions c)
      \<and> te + notional \<le> max_total_exposure_usdt m
      \<and> se + notional \<le> max_symbol_exposure_usdt m)"
  by (auto simp: check_order_def orders_in_last_minute_def refuse_def Let_def not_le not_less)

text \<open>The invariant: entries are among the registered orders, and never too many in a minute.\<close>

definition loop_inv :: "risk_config \<Rightarrow> loop_state \<Rightarrow> bool" where
  "loop_inv c s \<longleftrightarrow> rm_config (manager s) = c
     \<and> (\<forall>now \<ge> clock s. in_last_minute now (entry_times s)
            \<le> in_last_minute now (order_timestamps (manager s)))
     \<and> (\<forall>now \<ge> clock s. int (in_last_minute now (entry_times s)) \<le> max_orders_per_minute c)"

lemma loop_inv_forget:
  assumes "loop_inv c s" and "clock s \<le> t" and "rm_config m = c"
    and "\<And>now. t \<le> now \<Longrightarrow>
           in_last_minute now (order_timestamps (manager s)) \<le> in_last_minute now (order_timestamps m)"
  shows "loop_inv c (s\<lparr>clock := t, manager := m\<rparr>)"
proof -
  have "in_last_minute now (entry_times s) \<le> in_last_minute now (order_timestamps m)"
    if "t \<le> now" for now
    using assms(1,2) that assms(4) [OF that] by (auto simp: loop_inv_def intro: order_trans)
  with assms(1-3) show ?thesis by (simp add: loop_inv_def)
qed

lemma register_in_last_minute:
  "t \<le> now \<Longrightarrow> in_last_minute now (order_timestamps (register_order_placed t m))
      = in_last_minute now (order_timestamps m) + in_last_minute now [t]"
  by (simp add: register_order_placed_def in_last_minute_prune)

lemma check_entry_in_last_minute:
  assumes "check_entry t e m = (m', r)" and "t \<le> now"
  shows "in_last_minute now (order_timestamps m') = in_last_minute now (order_timestamps m)"
  using check_order_manager [OF assms(1) [unfolded check_entry_def]] assms(2)
  by (auto simp: in_last_minute_prune)

lemma loop_step_entry_inv:
  assumes inv: "loop_inv c s" and el: "0 \<le> elapsed" and la: "0 \<le> latency"
  shows "loop_inv c (loop_step s (EntryAttempt elapsed e accepted latency))"
proof -
  define now where "now = clock s + elapsed"
  obtain m r where chk: "check_entry now e (manager s) = (m, r)" by (cases "check_entry now e (manager s)")
  have cm: "rm_config m = c"
    using chk check_order_manager inv unfolding check_entry_def loop_inv_def by blast
  have same: "in_last_minute t (order_timestamps m) = in_last_minute t (order_timestamps (manager s))"
    if "now \<le> t" for t
    using check_entry_in_last_minute [OF chk that] .
  have le: "clock s \<le> now" using el by (simp add: now_def)
  have forget: "loop_inv c (s\<lparr>clock := t, manager := m\<rparr>)" if "now \<le> t" for t
    by (rule loop_inv_forget [OF inv]) (use le that cm same in auto)
  show ?thesis
  proof (cases "allowed r \<and> accepted")
    case False
    then show ?thesis using chk forget [of now] forget [of "now + latency"] la
      by (auto simp: Let_def simp flip: now_def)
  next
    case True
    let ?t = "now + latency" and ?es = "entry_times s" and ?ts = "order_timestamps (manager s)"
    have "allowed (snd (check_entry now e (manager s)))" using True chk by simp
    then have "int (length (prune_timestamps now ?ts)) < max_orders_per_minute c"
      using inv by (simp add: check_entry_def check_order_allowed_iff Let_def loop_inv_def)
    moreover have "in_last_minute now ?es \<le> in_last_minute now ?ts"
      using inv le by (simp add: loop_inv_def)
    ultimately have room: "int (in_last_minute now ?es) < max_orders_per_minute c"
      using in_last_minute_le_length [of now ?ts] by linarith
    have bound: "int (in_last_minute u ?es + in_last_minute u [?t]) \<le> max_orders_per_minute c"
      if "?t \<le> u" for u
    proof -
      have "in_last_minute u ?es \<le> in_last_minute now ?es"
        using that la by (intro in_last_minute_antimono) simp
      with room in_last_minute_single_le [of u ?t] show ?thesis by linarith
    qed
    have among: "in_last_minute u ?es \<le> in_last_minute u (order_timestamps m)" if "?t \<le> u" for u
      using inv le la that same [of u] by (simp add: loop_inv_def)
    have step: "loop_step s (EntryAttempt elapsed e accepted latency) =
        s\<lparr>clock := ?t, manager := register_order_placed ?t m, entry_times := ?es @ [?t]\<rparr>"
      using True chk by (simp add: Let_def flip: now_def)
    show ?thesis
      unfolding step using cm bound among
      by (simp add: loop_inv_def register_in_last_minute) (simp add: register_order_placed_def)
  qed
qed

lemma loop_step_inv:
  assumes "loop_inv c s" and "forward_in_time e"
  shows "loop_inv c (loop_step s e)"
proof (cases e)
  case (EntryAttempt elapsed eo accepted latency)
  with assms loop_step_entry_inv show ?thesis by simp
next
  case (ExitPlaced elapsed)
  let ?t = "clock s + elapsed"
  have "rm_config (register_order_placed ?t (manager s)) = c"
    using assms(1) by (simp add: loop_inv_def register_order_placed_def)
  then have "loop_inv c (s\<lparr>clock := ?t, manager := register_order_placed ?t (manager s)\<rparr>)"
    using assms ExitPlaced
    by (intro loop_inv_forget [OF assms(1)]) (simp_all add: register_in_last_minute)
  with ExitPlaced show ?thesis by (simp add: Let_def)
qed

interpretation order_loop: guarded_run loop_step forward_in_time "loop_inv c" for c
  by unfold_locales (rule loop_step_inv)

section \<open>Properties\<close>

text \<open>
  C13: an order passes the gate exactly when its leveraged notional is positive, the order
  rate and the number of open positions have room, and adding the notional keeps the total
  and the per-symbol exposure within their share of the initial equity. The check changes
  neither the configuration nor which orders any later minute contains.
\<close>

theorem check_order_within_limits:
  "(allowed (snd (check_order now p q te se n l m)) \<longleftrightarrow>
      (let notional = p * q * max (case l of None \<Rightarrow> 1 | Some v \<Rightarrow> v) 1; c = rm_config m in
        0 < notional
        \<and> int (length (prune_timestamps now (order_timestamps m))) < max_orders_per_minute c
        \<and> (0 < max_open_positions c \<longrightarrow> n < max_open_positions c)
        \<and> te + notional \<le> initial_equity_usdt c * max_total_exposure_pct_of_initial c / 100
        \<and> se + notional \<le> initial_equity_usdt c * max_symbol_exposure_pct c / 100))
   \<and> (reason (snd (check_order now p q te se n l m)) = RiskOk \<longleftrightarrow>
        allowed (snd (check_order now p q te se n l m)))
   \<and> rm_config (fst (check_order now p q te se n l m)) = rm_config m
   \<and> (\<forall>t \<ge> now. in_last_minute t (order_timestamps (fst (check_order now p q te se n l m)))
        = in_last_minute t (order_timestamps m))"
proof (intro conjI)
  obtain m' r where eq: "check_order now p q te se n l m = (m', r)"
    by (cases "check_order now p q te se n l m")
  show "allowed (snd (check_order now p q te se n l m)) \<longleftrightarrow>
      (let notional = p * q * max (case l of None \<Rightarrow> 1 | Some v \<Rightarrow> v) 1; c = rm_config m in
        0 < notional
        \<and> int (length (prune_timestamps now (order_timestamps m))) < max_orders_per_minute c
        \<and> (0 < max_open_positions c \<longrightarrow> n < max_open_positions c)
        \<and> te + notional \<le> initial_equity_usdt c * max_total_exposure_pct_of_initial c / 100
        \<and> se + notional \<le> initial_equity_usdt c * max_symbol_exposure_pct c / 100)"
    unfolding check_order_allowed_iff
    by (simp add: Let_def effective_leverage_def max_total_exposure_usdt_def
        max_symbol_exposure_usdt_def)
  show "reason (snd (check_order now p q te se n l m)) = RiskOk \<longleftrightarrow>
        allowed (snd (check_order now p q te se n l m))"
    by (simp add: check_order_def orders_in_last_minute_def refuse_def Let_def)
  show "rm_config (fst (check_order now p q te se n l m)) = rm_config m"
    using check_order_manager [OF eq] by (simp add: eq)
  show "\<forall>t \<ge> now. in_last_minute t (order_timestamps (fst (check_order now p q te se n l m)))
        = in_last_minute t (order_timestamps m)"
    using check_order_manager [OF eq] by (auto simp: eq in_last_minute_prune)
qed

definition sample_risk_config :: risk_config where
  "sample_risk_config = \<lparr>initial_equity_usdt = 1000, max_total_exposure_pct_of_initial = 50,
     max_symbol_exposure_pct = 20, max_orders_per_minute = 1, max_open_positions = 3\<rparr>"

theorem check_order_within_limits_witness:
  "allowed (snd (check_order 0 100 1 0 0 0 None (new_risk_manager sample_risk_config)))"
  using check_order_within_limits [of 0 100 1 0 0 0 None "new_risk_manager sample_risk_config"]
  by (simp add: new_risk_manager_def sample_risk_config_def prune_timestamps_def)

text \<open>
  C1: however the loop interleaves entry attempts, refusals by the exchange, slow placements
  and exits, the entries registered in any window of sixty seconds that ends now or later
  never outnumber \<open>max_orders_per_minute\<close>, although the manager forgets old timestamps and
  the placement of an order ends later than its check.
\<close>

theorem entry_rate_bounded:
  assumes "0 \<le> max_orders_per_minute c" and "list_all forward_in_time evs"
    and "clock (run loop_step (start_loop c t0) evs) \<le> now"
  shows "int (in_last_minute now (entry_times (run loop_step (start_loop c t0) evs)))
     \<le> max_orders_per_minute c"
proof -
  have "loop_inv c (start_loop c t0)"
    using assms(1) by (simp add: loop_inv_def start_loop_def new_risk_manager_def in_last_minute_def)
  from order_loop.inv_run [OF this assms(2)] assms(3) show ?thesis
    by (simp add: loop_inv_def)
qed

definition sample_entry :: entry_order where
  "sample_entry = \<lparr>eo_price = 100, eo_qty = 1, eo_total_exposure = 0, eo_symbol_exposure = 0,
     eo_open_positions = 0, eo_leverage = None\<rparr>"

theorem entry_rate_bounded_witness:
  "int (in_last_minute 13 (entry_times (run loop_step (start_loop sample_risk_config 0)
      [EntryAttempt 10 sample_entry True 1, EntryAttempt 2 sample_entry True 0]))) \<le> 1"
proof -
  let ?evs = "[EntryAttempt 10 sample_entry True 1, EntryAttempt 2 sample_entry True 0]"
  have "0 \<le> max_orders_per_minute sample_risk_config" by (simp add: sample_risk_config_def)
  moreover have "list_all forward_in_time ?evs" by simp
  moreover have "clock (run loop_step (start_loop sample_risk_config 0) ?evs) \<le> 13"
    by (simp add: start_loop_def new_risk_manager_def sample_risk_config_def sample_entry_def
        check_entry_def check_order_def orders_in_last_minute_def prune_timestamps_def
        register_order_placed_def max_total_exposure_usdt_def max_symbol_exposure_usdt_def
        effective_leverage_def refuse_def Let_def)
  ultimately have "int (in_last_minute 13
      (entry_times (run loop_step (start_loop sample_risk_config 0) ?evs)))
      \<le> max_orders_per_minute sample_risk_config"
    by (rule entry_rate_bounded)
  then show ?thesis by (simp add: sample_risk_config_def)
qed

end
