(* ===== verification/Futures_Protection.thy ===== *)
theory Futures_Protection
  imports Runs
begin

text \<open>
  Protection of futures positions: the stop-loss and take-profit plan and the entry gate
  (\<open>src/botik/risk/futures_protection.py\<close>), and the protection status machine, the
  distance to liquidation and the risk class of a position
  (\<open>src/botik/risk/futures_rules.py\<close>).
\<close>

section \<open>The protection plan\<close>

record protection_plan =
  plan_stop_loss :: real
  plan_take_profit :: real
  plan_trailing_stop :: "real option"
  plan_stop_loss_pct :: real
  plan_take_profit_pct :: real

definition validate_futures_protection_params ::
    "real option \<Rightarrow> real option \<Rightarrow> bool \<times> string" where
  "validate_futures_protection_params stop_loss_pct take_profit_pct =
     (let sl = or_zero stop_loss_pct; tp = or_zero take_profit_pct in
      if sl \<le> 0 then (False, ''missing_stop_loss'')
      else if tp \<le> 0 then (False, ''missing_take_profit'')
      else (True, ''ok''))"

definition build_futures_protection_plan ::
    "real \<Rightarrow> real \<Rightarrow> real \<Rightarrow> real \<Rightarrow> real option \<Rightarrow> protection_plan option" where
  "build_futures_protection_plan entry_price position_qty stop_loss_pct take_profit_pct trailing_stop =
     (if entry_price \<le> 0 \<or> position_qty = 0 then None
      else if \<not> fst (validate_futures_protection_params (Some stop_loss_pct) (Some take_profit_pct))
      then None
      else
        let sl = stop_loss_pct; tp = take_profit_pct;
            (stop_loss, take_profit) =
              (if position_qty > 0 then (entry_price * (1 - sl), entry_price * (1 + tp))
               else (entry_price * (1 + sl), entry_price * (1 - tp)))
        in if stop_loss \<le> 0 \<or> take_profit \<le> 0 then None
           else Some \<lparr>plan_stop_loss = stop_loss, plan_take_profit = take_profit,
                      plan_trailing_stop = trailing_stop,
                      plan_stop_loss_pct = sl, plan_take_profit_pct = tp\<rparr>)"

definition futures_entry_allowed ::
    "real option \<Rightarrow> real option \<Rightarrow> bool \<Rightarrow> bool \<times> string" where
  "futures_entry_allowed stop_loss_pct take_profit_pct has_unprotected_position =
     (let (valid, reason) = validate_futures_protection_params stop_loss_pct take_profit_pct in
      if \<not> valid then (False, reason)
      else if has_unprotected_position then (False, ''symbol_has_unprotected_position'')
      else (True, ''ok''))"

lemma validate_iff:
  "fst (validate_futures_protection_params s t) \<longleftrightarrow> 0 < or_zero s \<and> 0 < or_zero t"
  by (simp add: validate_futures_protection_params_def Let_def not_le)

text \<open>The two levels, \<open>x\<close> below and \<open>x\<close> above a positive entry price.\<close>

lemma level_below:
  fixes e x :: real
  assumes "0 < e" "0 < x"
  shows "e * (1 - x) \<le> 0 \<longleftrightarrow> 1 \<le> x" "0 < e * (1 - x) \<longleftrightarrow> x < 1" "e * (1 - x) < e"
    "\<bar>e * (1 - x) - e\<bar> = e * x"
  using assms by (simp_all add: algebra_simps abs_mult zero_less_mult_iff mult_le_0_iff
      mult_le_cancel_left_pos)

lemma level_above:
  fixes e x :: real
  assumes "0 < e" "0 < x"
  shows "\<not> e * (1 + x) \<le> 0" "0 < e * (1 + x)" "e < e * (1 + x)" "\<bar>e * (1 + x) - e\<bar> = e * x"
proof -
  show "0 < e * (1 + x)" using assms by (intro mult_pos_pos) auto
  then show "\<not> e * (1 + x) \<le> 0" by simp
  show "e < e * (1 + x)" "\<bar>e * (1 + x) - e\<bar> = e * x"
    using assms by (simp_all add: algebra_simps abs_mult)
qed

lemma plan_eq:
  assumes "0 < e \<and> q \<noteq> 0 \<and> 0 < sl \<and> 0 < tp"
  shows "build_futures_protection_plan e q sl tp ts =
     (let s = (if q > 0 then e * (1 - sl) else e * (1 + sl));
          t = (if q > 0 then e * (1 + tp) else e * (1 - tp))
      in if s \<le> 0 \<or> t \<le> 0 then None
         else Some \<lparr>plan_stop_loss = s, plan_take_profit = t, plan_trailing_stop = ts,
                    plan_stop_loss_pct = sl, plan_take_profit_pct = tp\<rparr>)"
  using assms by (auto simp: build_futures_protection_plan_def validate_iff not_le Let_def
      dest: level_above(1))

section \<open>The protection status\<close>

definition BLOCKING_PROTECTION_STATUSES :: "string list" where
  "BLOCKING_PROTECTION_STATUSES = [''pending'', ''repairing'', ''failed'', ''unprotected'']"

definition ENTRY_BLOCKING_FUTURES_RISK_STATES :: "string list" where
  "ENTRY_BLOCKING_FUTURES_RISK_STATES = [''unprotected_position'', ''soft_failure'', ''hard_failure'']"

definition normalize_protection_status :: "string option \<Rightarrow> string" where
  "normalize_protection_status v = norm_lower v"

definition is_blocking_protection_status :: "string option \<Rightarrow> bool" where
  "is_blocking_protection_status v \<longleftrightarrow>
     normalize_protection_status v \<in> set BLOCKING_PROTECTION_STATUSES"

definition is_entry_blocking_futures_risk_state :: "string option \<Rightarrow> bool" where
  "is_entry_blocking_futures_risk_state v \<longleftrightarrow>
     norm_lower v \<in> set ENTRY_BLOCKING_FUTURES_RISK_STATES"

definition compute_distance_to_liq_bps ::
    "string option \<Rightarrow> real option \<Rightarrow> real option \<Rightarrow> real option" where
  "compute_distance_to_liq_bps side mark_price liq_price =
     (let mark = or_zero mark_price; liq = or_zero liq_price in
      if mark \<le> 0 \<or> liq \<le> 0 then None
      else
        let side_norm = norm_lower side in
        if side_norm \<in> {''buy'', ''long''} then Some ((mark - liq) / mark * 10000)
        else if side_norm \<in> {''sell'', ''short''} then Some ((liq - mark) / mark * 10000)
        else Some (\<bar>mark - liq\<bar> / mark * 10000))"

definition transition_protection_status ::
    "string option \<Rightarrow> bool \<Rightarrow> bool \<Rightarrow> string option \<Rightarrow> string" where
  "transition_protection_status current_status apply_attempted apply_success verify_status =
     (let current = normalize_protection_status current_status;
          verified = normalize_protection_status verify_status in
      if \<not> apply_attempted then (if current = [] then ''pending'' else current)
      else if \<not> apply_success then ''failed''
      else if verified = ''protected'' then ''protected''
      else if verified = ''closed'' then ''closed''
      else if verified = ''failed'' then ''failed''
      else if verified = ''unprotected'' then
        (if current = ''pending'' then ''unprotected'' else ''failed'')
      else ''failed'')"

definition classify_futures_state ::
    "string option \<Rightarrow> real option \<Rightarrow> real option \<Rightarrow> string" where
  "classify_futures_state protection_status unrealized_pnl_pct distance_to_liq_bps =
     (let status = norm_lower protection_status in
      if status = ''unprotected'' then ''unprotected_position''
      else if status \<in> {''failed'', ''repairing''} then ''soft_failure''
      else if (case distance_to_liq_bps of None \<Rightarrow> False | Some d \<Rightarrow> d \<le> 50) then ''hard_failure''
      else case unrealized_pnl_pct of
          None \<Rightarrow> ''unknown''
        | Some pnl \<Rightarrow>
            if pnl \<le> - 10 / 100 then ''hard_failure''
            else if pnl < - 3 / 100 then ''soft_failure''
            else if pnl < 0 then ''floating_loss''
            else ''healthy'')"

text \<open>One attempt to protect a position: was it made, did the exchange accept it, and what did
  reading the position back report.\<close>

record protect_attempt =
  attempted :: bool
  accepted :: bool
  verified_as :: "string option"

definition protect_step :: "string \<Rightarrow> protect_attempt \<Rightarrow> string" where
  "protect_step status a =
     transition_protection_status (Some status) (attempted a) (accepted a) (verified_as a)"

definition confirmed :: "protect_attempt \<Rightarrow> bool" where
  "confirmed a \<longleftrightarrow> attempted a \<and> accepted a \<and>
     norm_lower (verified_as a) \<in> {''protected'', ''closed''}"

lemma norm_lower_statuses [simp]:
  "norm_lower (Some ''pending'') = ''pending''" "norm_lower (Some ''repairing'') = ''repairing''"
  "norm_lower (Some ''failed'') = ''failed''" "norm_lower (Some ''unprotected'') = ''unprotected''"
  "norm_lower (Some ''protected'') = ''protected''" "norm_lower (Some ''closed'') = ''closed''"
  by (simp_all add: str_eval)

lemma protect_step_unconfirmed:
  assumes "status \<in> set BLOCKING_PROTECTION_STATUSES" and "\<not> confirmed a"
  shows "protect_step status a \<in> set BLOCKING_PROTECTION_STATUSES"
  using assms
  by (auto simp: protect_step_def transition_protection_status_def confirmed_def Let_def
      normalize_protection_status_def BLOCKING_PROTECTION_STATUSES_def)

interpretation unconfirmed: guarded_run protect_step "\<lambda>a. \<not> confirmed a"
    "\<lambda>s. s \<in> set BLOCKING_PROTECTION_STATUSES"
  by unfold_locales (rule protect_step_unconfirmed)

lemma blocking_iff:
  "s \<in> set BLOCKING_PROTECTION_STATUSES \<Longrightarrow> is_blocking_protection_status (Some s)"
  by (auto simp: is_blocking_protection_status_def normalize_protection_status_def
      BLOCKING_PROTECTION_STATUSES_def)

text \<open>How severe a risk class is, for the order of the classes.\<close>

definition severity :: "string \<Rightarrow> nat" where
  "severity s = (if s = ''hard_failure'' then 3 else if s = ''soft_failure'' then 2
     else if s = ''floating_loss'' then 1 else 0)"

section \<open>Properties\<close>

text \<open>
  The plan brackets the entry on the right side: for a long position the stop-loss is
  strictly below and the take-profit strictly above the entry price, for a short one the other
  way round, and both are positive prices that realise the requested percentages. A plan
  exists exactly when the entry price and both percentages are positive, the position is not
  flat and the level on the downside stays above zero.
\<close>

theorem protection_plan_brackets_entry:
  "(build_futures_protection_plan e q sl tp ts \<noteq> None \<longleftrightarrow>
      0 < e \<and> q \<noteq> 0 \<and> 0 < sl \<and> 0 < tp \<and> (if q > 0 then sl < 1 else tp < 1))
   \<and> (\<forall>p. build_futures_protection_plan e q sl tp ts = Some p \<longrightarrow>
        0 < plan_stop_loss p \<and> 0 < plan_take_profit p
        \<and> (if q > 0 then plan_stop_loss p < e \<and> e < plan_take_profit p
           else plan_take_profit p < e \<and> e < plan_stop_loss p)
        \<and> \<bar>plan_stop_loss p - e\<bar> = e * sl \<and> \<bar>plan_take_profit p - e\<bar> = e * tp)"
proof (cases "0 < e \<and> q \<noteq> 0 \<and> 0 < sl \<and> 0 < tp")
  case False
  then show ?thesis by (auto simp: build_futures_protection_plan_def validate_iff not_le not_less)
next
  case True
  then have e: "0 < e" and sl: "0 < sl" and tp: "0 < tp" by auto
  show ?thesis
    unfolding plan_eq [OF True]
    by (simp add: level_below [OF e sl] level_below [OF e tp] level_above [OF e sl]
        level_above [OF e tp] not_le True)
qed

theorem protection_plan_brackets_entry_witness:
  "\<exists>p. build_futures_protection_plan 200 (-3) (1 / 10) (2 / 10) None = Some p
     \<and> plan_take_profit p < 200 \<and> 200 < plan_stop_loss p"
proof -
  obtain p where p: "build_futures_protection_plan 200 (-3) (1 / 10) (2 / 10) None = Some p"
    using protection_plan_brackets_entry [of 200 "-3" "1 / 10" "2 / 10" None] by auto
  with protection_plan_brackets_entry [of 200 "-3" "1 / 10" "2 / 10" None] show ?thesis
    by auto
qed

text \<open>
  C22: the status machine never reports protection it has not seen. From any status that
  blocks new entries, every sequence of attempts none of which was made, accepted and read
  back as protected (or as closed) leaves a status that still blocks new entries; and one
  step reports \<open>protected\<close> only after such a confirmation, or when nothing was attempted and
  the status was \<open>protected\<close> before.
\<close>

theorem protection_needs_confirmation:
  "(s \<in> set BLOCKING_PROTECTION_STATUSES \<longrightarrow> (\<forall>a \<in> set as. \<not> confirmed a) \<longrightarrow>
      is_blocking_protection_status (Some (run protect_step s as)))
   \<and> (transition_protection_status cur att ok ver = ''protected'' \<longleftrightarrow>
        (if att then ok \<and> norm_lower ver = ''protected'' else norm_lower cur = ''protected''))"
proof
  show "s \<in> set BLOCKING_PROTECTION_STATUSES \<longrightarrow> (\<forall>a \<in> set as. \<not> confirmed a) \<longrightarrow>
      is_blocking_protection_status (Some (run protect_step s as))"
    by (auto simp: list_all_iff intro!: blocking_iff unconfirmed.inv_run)
  show "transition_protection_status cur att ok ver = ''protected'' \<longleftrightarrow>
        (if att then ok \<and> norm_lower ver = ''protected'' else norm_lower cur = ''protected'')"
    by (simp add: transition_protection_status_def normalize_protection_status_def Let_def)
qed

theorem protection_needs_confirmation_witness:
  "is_blocking_protection_status (Some (run protect_step ''pending''
     [\<lparr>attempted = True, accepted = True, verified_as = Some ''unprotected''\<rparr>,
      \<lparr>attempted = True, accepted = False, verified_as = Some ''protected''\<rparr>]))"
proof -
  let ?as = "[\<lparr>attempted = True, accepted = True, verified_as = Some ''unprotected''\<rparr>,
      \<lparr>attempted = True, accepted = False, verified_as = Some ''protected''\<rparr>]"
  have "''pending'' \<in> set BLOCKING_PROTECTION_STATUSES"
    by (simp add: BLOCKING_PROTECTION_STATUSES_def)
  moreover have "\<forall>a \<in> set ?as. \<not> confirmed a" by (simp add: confirmed_def)
  ultimately show ?thesis
    using protection_needs_confirmation [of "''pending''" ?as None True True None] by blast
qed

text \<open>
  The risk class follows the danger. With the protection status and the distance to
  liquidation fixed, a lower unrealised profit never gives a milder class; a loss of ten per
  cent or a position within fifty basis points of liquidation always blocks new entries;
  and so does every status that the protection machine reports after a failed or unconfirmed
  attempt, except \<open>pending\<close>, which only the status gate catches.
\<close>

theorem risk_class_monotone:
  "(p \<le> p' \<longrightarrow> severity (classify_futures_state st (Some p') d)
               \<le> severity (classify_futures_state st (Some p) d))
   \<and> (p \<le> - 10 / 100 \<longrightarrow> is_entry_blocking_futures_risk_state (Some (classify_futures_state st (Some p) d)))
   \<and> ((\<exists>b \<le> 50. d = Some b) \<longrightarrow>
        is_entry_blocking_futures_risk_state (Some (classify_futures_state st q d)))
   \<and> (is_blocking_protection_status st \<longrightarrow> norm_lower st \<noteq> ''pending'' \<longrightarrow>
        is_entry_blocking_futures_risk_state (Some (classify_futures_state st q d)))
   \<and> classify_futures_state (Some ''pending'') (Some 0) None = ''healthy''"
proof -
  have norms: "norm_lower (Some ''unprotected_position'') = ''unprotected_position''"
    "norm_lower (Some ''soft_failure'') = ''soft_failure''"
    "norm_lower (Some ''hard_failure'') = ''hard_failure''"
    by (simp_all add: str_eval)
  have "p \<le> p' \<Longrightarrow> severity (classify_futures_state st (Some p') d)
               \<le> severity (classify_futures_state st (Some p) d)"
    by (simp add: classify_futures_state_def Let_def severity_def)
  moreover have "p \<le> - 10 / 100 \<Longrightarrow>
      is_entry_blocking_futures_risk_state (Some (classify_futures_state st (Some p) d))"
    by (simp add: is_entry_blocking_futures_risk_state_def ENTRY_BLOCKING_FUTURES_RISK_STATES_def
        classify_futures_state_def Let_def norms)
  moreover have "d = Some b \<Longrightarrow> b \<le> 50 \<Longrightarrow>
      is_entry_blocking_futures_risk_state (Some (classify_futures_state st q d))" for b
    by (simp add: is_entry_blocking_futures_risk_state_def ENTRY_BLOCKING_FUTURES_RISK_STATES_def
        classify_futures_state_def Let_def norms)
  moreover have "is_blocking_protection_status st \<Longrightarrow> norm_lower st \<noteq> ''pending'' \<Longrightarrow>
      is_entry_blocking_futures_risk_state (Some (classify_futures_state st q d))"
    by (auto simp: is_entry_blocking_futures_risk_state_def ENTRY_BLOCKING_FUTURES_RISK_STATES_def
        is_blocking_protection_status_def BLOCKING_PROTECTION_STATUSES_def
        normalize_protection_status_def classify_futures_state_def Let_def norms)
  moreover have "classify_futures_state (Some ''pending'') (Some 0) None = ''healthy''"
    by (simp add: classify_futures_state_def Let_def)
  ultimately show ?thesis by blast
qed

theorem risk_class_monotone_witness:
  "severity (classify_futures_state (Some ''protected'') (Some (-1 / 100)) None)
     \<le> severity (classify_futures_state (Some ''protected'') (Some (-5 / 100)) None)
   \<and> is_entry_blocking_futures_risk_state (Some (classify_futures_state (Some ''protected'') None (Some 20)))"
proof -
  have "(20::real) \<le> 50" "(-5 / 100 :: real) \<le> -1 / 100" by simp_all
  with risk_class_monotone [of "-5 / 100" "-1 / 100" "Some ''protected''" None]
    risk_class_monotone [of 0 0 "Some ''protected''" "Some 20" None]
  show ?thesis by blast
qed

end
