(* ===== verification/Trading_State.thy ===== *)
theory Trading_State
  imports Windows
begin

text \<open>
  The shared market state, \<open>src/botik/state/state.py\<close>: order book aggregates, their spread and
  mid price histories, the trade tape, and the control flags, all held per symbol in memory.
  A dictionary that is only looked up by key is a partial map; the profile dictionary, which
  is filtered item by item, is an association list. \<open>time.time()\<close> is the parameter
  \<open>now_ms\<close>.
\<close>

record orderbook_aggregate =
  ob_symbol :: string
  best_bid :: real
  best_ask :: real
  mid :: real
  spread_ticks :: int
  imbalance_top_n :: real
  best_bid_size :: real
  best_ask_size :: real
  ob_ts_ms :: int

record public_trade_event =
  tr_symbol :: string
  tr_trade_id :: string
  tr_seq :: int
  tr_ts_ms :: int
  tr_taker_side :: string
  tr_price :: real
  tr_qty :: real

type_synonym levels = "(real \<times> real) list"
type_synonym series = "(int \<times> real) list"
type_synonym snapshot = "(string, py_value) dict"

record trading_state =
  orderbooks :: "string \<rightharpoonup> orderbook_aggregate"
  orderbook_levels :: "string \<rightharpoonup> levels \<times> levels"
  symbol_tick_size :: "string \<rightharpoonup> real"
  book_snapshot_ready :: "string \<rightharpoonup> bool"
  last_book_update_ms :: "string \<rightharpoonup> int"
  last_trade_update_ms :: "string \<rightharpoonup> int"
  spread_bps_history :: "string \<rightharpoonup> series"
  mid_history :: "string \<rightharpoonup> series"
  public_trades :: "string \<rightharpoonup> public_trade_event list"
  pair_filter_snapshot :: "string \<rightharpoonup> snapshot"
  pair_gate_state :: "string \<rightharpoonup> snapshot"
  paused :: bool
  panic_requested :: bool
  active_symbols :: "string list"
  active_profiles :: "(string, string) dict"
  scanner_snapshot :: snapshot
  update_in_progress :: bool
  restart_requested :: bool
  current_version :: string
  update_message :: string

definition initial_trading_state :: trading_state where
  "initial_trading_state =
     \<lparr>orderbooks = Map.empty, orderbook_levels = Map.empty, symbol_tick_size = Map.empty,
      book_snapshot_ready = Map.empty, last_book_update_ms = Map.empty,
      last_trade_update_ms = Map.empty, spread_bps_history = Map.empty, mid_history = Map.empty,
      public_trades = Map.empty, pair_filter_snapshot = Map.empty, pair_gate_state = Map.empty,
      paused = True, panic_requested = False, active_symbols = [], active_profiles = [],
      scanner_snapshot = [], update_in_progress = False, restart_requested = False,
      current_version = [], update_message = []\<rparr>"

section \<open>Order books\<close>

definition max_age_ms :: int where
  "max_age_ms = 15 * 60 * 1000"

definition get_or_empty :: "(string \<rightharpoonup> 'a list) \<Rightarrow> string \<Rightarrow> 'a list" where
  "get_or_empty m k = (case m k of None \<Rightarrow> [] | Some xs \<Rightarrow> xs)"

definition prune_series :: "int \<Rightarrow> series \<Rightarrow> series" where
  "prune_series now_ms s = dropWhile (\<lambda>p. now_ms - fst p > max_age_ms) s"

text \<open>\<open>store.setdefault(symbol, deque()).append(item)\<close> followed by the pruning loop.\<close>

definition push_series ::
    "(string \<rightharpoonup> series) \<Rightarrow> string \<Rightarrow> int \<Rightarrow> real \<Rightarrow> (string \<rightharpoonup> series)" where
  "push_series store symbol ts_ms v =
     store(symbol \<mapsto> prune_series ts_ms (get_or_empty store symbol @ [(ts_ms, v)]))"

definition set_orderbook ::
    "int \<Rightarrow> string \<Rightarrow> orderbook_aggregate \<Rightarrow> levels option \<Rightarrow> levels option \<Rightarrow> bool
     \<Rightarrow> real option \<Rightarrow> trading_state \<Rightarrow> trading_state" where
  "set_orderbook now_ms symbol agg bids asks is_snapshot tick_size s =
     (let ts_ms = (if ob_ts_ms agg \<noteq> 0 then ob_ts_ms agg else now_ms) in
      s\<lparr>orderbooks := (orderbooks s)(symbol \<mapsto> agg),
        symbol_tick_size :=
          (case tick_size of
             Some t \<Rightarrow> if t > 0 then (symbol_tick_size s)(symbol \<mapsto> t) else symbol_tick_size s
           | None \<Rightarrow> symbol_tick_size s),
        last_book_update_ms := (last_book_update_ms s)(symbol \<mapsto> ts_ms),
        book_snapshot_ready :=
          (if is_snapshot then (book_snapshot_ready s)(symbol \<mapsto> True)
           else if book_snapshot_ready s symbol = None then (book_snapshot_ready s)(symbol \<mapsto> False)
           else book_snapshot_ready s),
        orderbook_levels :=
          (case (bids, asks) of
             (Some b, Some a) \<Rightarrow> (orderbook_levels s)(symbol \<mapsto> (b, a))
           | _ \<Rightarrow> orderbook_levels s),
        spread_bps_history :=
          (if mid agg > 0 \<and> best_ask agg > best_bid agg \<and> best_bid agg > 0 then
             push_series (spread_bps_history s) symbol ts_ms
               ((best_ask agg - best_bid agg) / mid agg * 10000)
           else spread_bps_history s),
        mid_history :=
          (if mid agg > 0 then push_series (mid_history s) symbol ts_ms (mid agg)
           else mid_history s)\<rparr>)"

definition get_orderbook :: "trading_state \<Rightarrow> string \<Rightarrow> orderbook_aggregate option" where
  "get_orderbook s symbol = orderbooks s symbol"

definition get_tick_size :: "trading_state \<Rightarrow> string \<Rightarrow> real option" where
  "get_tick_size s symbol =
     (case symbol_tick_size s symbol of None \<Rightarrow> None
      | Some v \<Rightarrow> if v \<le> 0 then None else Some v)"

definition is_book_snapshot_ready :: "trading_state \<Rightarrow> string \<Rightarrow> bool" where
  "is_book_snapshot_ready s symbol =
     (case book_snapshot_ready s symbol of None \<Rightarrow> False | Some b \<Rightarrow> b)"

definition get_spread_bps_series :: "trading_state \<Rightarrow> string \<Rightarrow> series" where
  "get_spread_bps_series s symbol = get_or_empty (spread_bps_history s) symbol"

definition get_mid_series :: "trading_state \<Rightarrow> string \<Rightarrow> series" where
  "get_mid_series s symbol = get_or_empty (mid_history s) symbol"

section \<open>The trade tape\<close>

definition cap_length :: "nat \<Rightarrow> 'a list \<Rightarrow> 'a list" where
  "cap_length n xs = drop (length xs - n) xs"

definition prune_trades :: "int \<Rightarrow> public_trade_event list \<Rightarrow> public_trade_event list" where
  "prune_trades now_ms trades = dropWhile (\<lambda>t. tr_ts_ms t < now_ms - max_age_ms) trades"

definition record_public_trade :: "public_trade_event \<Rightarrow> trading_state \<Rightarrow> trading_state" where
  "record_public_trade event s =
     (let symbol = tr_symbol event;
          trades = get_or_empty (public_trades s) symbol @ [event]
      in s\<lparr>public_trades := (public_trades s)(symbol \<mapsto>
              prune_trades (tr_ts_ms event) (cap_length 100000 trades)),
           last_trade_update_ms := (last_trade_update_ms s)(symbol \<mapsto> tr_ts_ms event)\<rparr>)"

definition get_public_trades :: "trading_state \<Rightarrow> string \<Rightarrow> public_trade_event list" where
  "get_public_trades s symbol = get_or_empty (public_trades s) symbol"

section \<open>Flags, selections and snapshots\<close>

definition set_paused :: "bool \<Rightarrow> trading_state \<Rightarrow> trading_state" where
  "set_paused v s = s\<lparr>paused := v\<rparr>"

definition set_panic_requested :: "bool \<Rightarrow> trading_state \<Rightarrow> trading_state" where
  "set_panic_requested v s = s\<lparr>panic_requested := v\<rparr>"

definition set_active_symbols :: "string list \<Rightarrow> trading_state \<Rightarrow> trading_state" where
  "set_active_symbols symbols s = s\<lparr>active_symbols := symbols\<rparr>"

definition get_active_symbols :: "trading_state \<Rightarrow> string list" where
  "get_active_symbols s = active_symbols s"

definition set_active_profiles :: "(string, string) dict \<Rightarrow> trading_state \<Rightarrow> trading_state" where
  "set_active_profiles profiles s =
     s\<lparr>active_profiles := filter (\<lambda>p. snd p \<noteq> []) profiles\<rparr>"

definition get_active_profile_id :: "trading_state \<Rightarrow> string \<Rightarrow> string option" where
  "get_active_profile_id s symbol =
     (case dict_get (active_profiles s) symbol of None \<Rightarrow> None
      | Some v \<Rightarrow> if v = [] then None else Some v)"

definition set_pair_filter_snapshot :: "string \<Rightarrow> snapshot \<Rightarrow> trading_state \<Rightarrow> trading_state" where
  "set_pair_filter_snapshot symbol snap s =
     s\<lparr>pair_filter_snapshot := (pair_filter_snapshot s)(symbol \<mapsto> snap)\<rparr>"

definition get_pair_filter_snapshot :: "trading_state \<Rightarrow> string \<Rightarrow> snapshot option" where
  "get_pair_filter_snapshot s symbol = pair_filter_snapshot s symbol"

definition set_pair_gate_state :: "string \<Rightarrow> snapshot \<Rightarrow> trading_state \<Rightarrow> trading_state" where
  "set_pair_gate_state symbol st s = s\<lparr>pair_gate_state := (pair_gate_state s)(symbol \<mapsto> st)\<rparr>"

definition get_pair_gate_state :: "trading_state \<Rightarrow> string \<Rightarrow> snapshot" where
  "get_pair_gate_state s symbol = get_or_empty (pair_gate_state s) symbol"

definition set_scanner_snapshot :: "snapshot \<Rightarrow> trading_state \<Rightarrow> trading_state" where
  "set_scanner_snapshot snap s = s\<lparr>scanner_snapshot := snap\<rparr>"

definition get_scanner_snapshot :: "trading_state \<Rightarrow> snapshot" where
  "get_scanner_snapshot s = scanner_snapshot s"

definition set_update_in_progress :: "bool \<Rightarrow> string option \<Rightarrow> trading_state \<Rightarrow> trading_state" where
  "set_update_in_progress v message s =
     (let s' = s\<lparr>update_in_progress := v\<rparr> in
      case message of None \<Rightarrow> s' | Some m \<Rightarrow> s'\<lparr>update_message := m\<rparr>)"

definition set_restart_requested :: "bool \<Rightarrow> trading_state \<Rightarrow> trading_state" where
  "set_restart_requested v s = s\<lparr>restart_requested := v\<rparr>"

definition set_current_version :: "string \<Rightarrow> trading_state \<Rightarrow> trading_state" where
  "set_current_version version s = s\<lparr>current_version := str_strip version\<rparr>"

section \<open>Imbalance\<close>

definition compute_imbalance :: "levels \<Rightarrow> levels \<Rightarrow> nat \<Rightarrow> real" where
  "compute_imbalance bids asks top_n =
     (let b_vol = sum_list (map snd (take top_n bids));
          a_vol = sum_list (map snd (take top_n asks));
          total = b_vol + a_vol
      in if total \<le> 0 then 0 else (b_vol - a_vol) / total)"

lemma volume_nonneg:
  fixes ls :: levels
  assumes "\<forall>l \<in> set ls. 0 \<le> snd l"
  shows "0 \<le> sum_list (map snd (take n ls))"
proof (rule sum_list_nonneg)
  fix x assume "x \<in> set (map snd (take n ls))"
  with assms show "0 \<le> x" by (metis (no_types, lifting) imageE in_set_takeD list.set_map)
qed

section \<open>The windows\<close>

interpretation price_window: front_pruned prune_series "\<lambda>now p. now - fst p > max_age_ms"
  by unfold_locales (simp_all add: prune_series_def)

interpretation tape_window: front_pruned prune_trades "\<lambda>now t. tr_ts_ms t < now - max_age_ms"
  by unfold_locales (auto simp: prune_trades_def)

lemma price_in_order: "sorted (map fst xs) \<Longrightarrow> price_window.in_order xs"
  unfolding price_window.in_order_def sorted_map
  by (erule sorted_wrt_mono_rel [rotated]) auto

lemma get_or_empty_upd [simp]:
  "get_or_empty (m(k \<mapsto> v)) k' = (if k' = k then v else get_or_empty m k')"
  by (simp add: get_or_empty_def)

text \<open>
  A feed of book updates for one symbol: the time stamp the update carries (not zero) and the
  aggregate. \<open>quoted_mids\<close> is the complete history the window is taken from.
\<close>

record book_update =
  bu_agg :: orderbook_aggregate
  bu_snapshot :: bool
  bu_tick :: "real option"

definition feed_step :: "string \<Rightarrow> trading_state \<Rightarrow> book_update \<Rightarrow> trading_state" where
  "feed_step symbol s u =
     set_orderbook 0 symbol (bu_agg u) None None (bu_snapshot u) (bu_tick u) s"

definition quoted_mids :: "book_update list \<Rightarrow> series" where
  "quoted_mids us = map (\<lambda>u. (ob_ts_ms (bu_agg u), mid (bu_agg u)))
     (filter (\<lambda>u. mid (bu_agg u) > 0) us)"

lemma feed_step_mids:
  "ob_ts_ms (bu_agg u) \<noteq> 0 \<Longrightarrow> get_mid_series (feed_step symbol s u) symbol =
     (if mid (bu_agg u) > 0
      then prune_series (ob_ts_ms (bu_agg u))
             (get_mid_series s symbol @ [(ob_ts_ms (bu_agg u), mid (bu_agg u))])
      else get_mid_series s symbol)"
  by (auto simp: feed_step_def set_orderbook_def Let_def get_mid_series_def push_series_def
      split: option.splits)

lemma quoted_mids_snoc [simp]: "quoted_mids (us @ [u]) = quoted_mids us @
    (if mid (bu_agg u) > 0 then [(ob_ts_ms (bu_agg u), mid (bu_agg u))] else [])"
  by (simp add: quoted_mids_def)

lemma feed_mids:
  assumes "sorted (map fst (quoted_mids us))" and "\<forall>u \<in> set us. ob_ts_ms (bu_agg u) \<noteq> 0"
  shows "get_mid_series (run (feed_step symbol) initial_trading_state us) symbol =
    (if quoted_mids us = [] then []
     else price_window.live (fst (last (quoted_mids us))) (quoted_mids us))"
  using assms
proof (induction us rule: rev_induct)
  case Nil
  then show ?case
    by (simp add: quoted_mids_def get_mid_series_def get_or_empty_def initial_trading_state_def)
next
  case (snoc u us)
  let ?t = "ob_ts_ms (bu_agg u)" and ?q = "quoted_mids us"
  let ?s = "run (feed_step symbol) initial_trading_state us"
  from snoc have IH: "get_mid_series ?s symbol =
      (if ?q = [] then [] else price_window.live (fst (last ?q)) ?q)"
    by (simp add: sorted_append split: if_splits)
  show ?case
  proof (cases "mid (bu_agg u) > 0")
    case False
    with snoc.prems IH show ?thesis by (simp add: run_append feed_step_mids)
  next
    case True
    let ?x = "(?t, mid (bu_agg u))"
    from snoc.prems True have ord: "price_window.in_order (?q @ [?x])"
      by (intro price_in_order) simp
    from snoc.prems True have new: "get_mid_series (feed_step symbol ?s u) symbol =
        prune_series ?t (get_mid_series ?s symbol @ [?x])"
      by (simp add: feed_step_mids)
    have "prune_series ?t (get_mid_series ?s symbol @ [?x]) = price_window.live ?t (?q @ [?x])"
    proof (cases "?q = []")
      case True
      with IH show ?thesis
        using price_window.prune_in_order [OF ord] by simp
    next
      case False
      then have "fst (last ?q) \<le> ?t"
        using snoc.prems True \<open>mid (bu_agg u) > 0\<close> by (simp add: sorted_append)
      from price_window.append_prune_live [OF ord this] IH False show ?thesis by simp
    qed
    with True new show ?thesis by (simp add: run_append)
  qed
qed

section \<open>What every operation keeps\<close>

definition tape_bounded :: "trading_state \<Rightarrow> bool" where
  "tape_bounded s \<longleftrightarrow> (\<forall>symbol. length (get_public_trades s symbol) \<le> 100000)"

definition all_positive :: "series \<Rightarrow> bool" where
  "all_positive xs \<longleftrightarrow> (\<forall>p \<in> set xs. 0 < snd p)"

definition spreads_positive :: "trading_state \<Rightarrow> bool" where
  "spreads_positive s \<longleftrightarrow> (\<forall>symbol.
     all_positive (get_spread_bps_series s symbol) \<and> all_positive (get_mid_series s symbol))"

datatype market_event =
    BookEvent int string orderbook_aggregate "levels option" "levels option" bool "real option"
  | TradeEvent public_trade_event

fun market_step :: "trading_state \<Rightarrow> market_event \<Rightarrow> trading_state" where
  "market_step s (BookEvent now symbol agg bids asks snap tick) =
     set_orderbook now symbol agg bids asks snap tick s"
| "market_step s (TradeEvent event) = record_public_trade event s"

lemma all_positive_push: "all_positive xs \<Longrightarrow> 0 < v \<Longrightarrow> all_positive (prune_series now (xs @ [(t, v)]))"
  by (auto simp: all_positive_def prune_series_def dest!: set_dropWhileD)

lemma length_tape_step: "length (prune_trades now (cap_length n xs)) \<le> n"
  unfolding prune_trades_def cap_length_def
  by (rule order_trans [OF length_dropWhile_le]) simp

text \<open>The parts of \<open>set_orderbook\<close>, field by field.\<close>

lemma set_orderbook_mids:
  "get_mid_series (set_orderbook now sy agg b a snap t s) k =
     (if k = sy \<and> mid agg > 0 then
        prune_series (if ob_ts_ms agg \<noteq> 0 then ob_ts_ms agg else now)
          (get_mid_series s sy @ [(if ob_ts_ms agg \<noteq> 0 then ob_ts_ms agg else now, mid agg)])
      else get_mid_series s k)"
  by (simp add: set_orderbook_def Let_def get_mid_series_def push_series_def)

lemma set_orderbook_spreads:
  "get_spread_bps_series (set_orderbook now sy agg b a snap t s) k =
     (if k = sy \<and> mid agg > 0 \<and> best_ask agg > best_bid agg \<and> best_bid agg > 0 then
        prune_series (if ob_ts_ms agg \<noteq> 0 then ob_ts_ms agg else now)
          (get_spread_bps_series s sy @
           [(if ob_ts_ms agg \<noteq> 0 then ob_ts_ms agg else now,
             (best_ask agg - best_bid agg) / mid agg * 10000)])
      else get_spread_bps_series s k)"
  by (simp add: set_orderbook_def Let_def get_spread_bps_series_def push_series_def)

lemma set_orderbook_trades:
  "get_public_trades (set_orderbook now sy agg b a snap t s) k = get_public_trades s k"
  by (simp add: set_orderbook_def Let_def get_public_trades_def)

lemma set_orderbook_ready:
  "is_book_snapshot_ready (set_orderbook now sy agg b a snap t s) k =
     (is_book_snapshot_ready s k \<or> (k = sy \<and> snap))"
  by (auto simp: set_orderbook_def Let_def is_book_snapshot_ready_def)

lemmas set_orderbook_series = set_orderbook_mids set_orderbook_spreads set_orderbook_trades
  set_orderbook_ready

lemma record_trade_series:
  "get_mid_series (record_public_trade e s) k = get_mid_series s k"
  "get_spread_bps_series (record_public_trade e s) k = get_spread_bps_series s k"
  "is_book_snapshot_ready (record_public_trade e s) k = is_book_snapshot_ready s k"
  "get_public_trades (record_public_trade e s) k =
     (if k = tr_symbol e then prune_trades (tr_ts_ms e)
        (cap_length 100000 (get_public_trades s k @ [e])) else get_public_trades s k)"
  by (auto simp: record_public_trade_def Let_def get_mid_series_def get_spread_bps_series_def
      get_public_trades_def is_book_snapshot_ready_def)

lemma market_step_inv:
  "tape_bounded s \<and> spreads_positive s \<Longrightarrow>
   tape_bounded (market_step s e) \<and> spreads_positive (market_step s e)"
proof (cases e)
  case (TradeEvent ev)
  assume "tape_bounded s \<and> spreads_positive s"
  with TradeEvent show ?thesis
    by (auto simp: tape_bounded_def spreads_positive_def record_trade_series length_tape_step)
next
  case (BookEvent now sy agg b a snap t)
  assume "tape_bounded s \<and> spreads_positive s"
  with BookEvent show ?thesis
    by (simp add: tape_bounded_def spreads_positive_def set_orderbook_series all_positive_push)
qed

interpretation market: guarded_run market_step "\<lambda>_. True"
    "\<lambda>s. tape_bounded s \<and> spreads_positive s"
  by unfold_locales (rule market_step_inv)

interpretation snapshot_flag: growing_run market_step "\<lambda>s. is_book_snapshot_ready s symbol" for symbol
proof
  fix s e
  show "is_book_snapshot_ready s symbol \<le> is_book_snapshot_ready (market_step s e) symbol"
    by (cases e) (auto simp: set_orderbook_series record_trade_series)
qed

section \<open>Properties\<close>

text \<open>
  The mid price history of a symbol is exactly the last fifteen minutes of everything
  that was quoted: for a feed with non-decreasing time stamps, dropping expired points from
  the front at every update leaves precisely the quotes not older than fifteen minutes
  before the last one, in their order, with no quote lost and none kept too long.
\<close>

theorem mid_history_is_window:
  assumes "sorted (map fst (quoted_mids us))" and "\<forall>u \<in> set us. ob_ts_ms (bu_agg u) \<noteq> 0"
    and "quoted_mids us \<noteq> []"
  shows "get_mid_series (run (feed_step symbol) initial_trading_state us) symbol =
    filter (\<lambda>p. fst (last (quoted_mids us)) - fst p \<le> 15 * 60 * 1000) (quoted_mids us)"
  using feed_mids [OF assms(1,2), of symbol] assms(3)
  by (simp add: price_window.live_def not_less) (simp add: max_age_ms_def)

definition sample_update :: "int \<Rightarrow> real \<Rightarrow> book_update" where
  "sample_update ts m = \<lparr>bu_agg = \<lparr>ob_symbol = ''BTCUSDT'', best_bid = m - 1, best_ask = m + 1,
     mid = m, spread_ticks = 2, imbalance_top_n = 0, best_bid_size = 1, best_ask_size = 1,
     ob_ts_ms = ts\<rparr>, bu_snapshot = True, bu_tick = None\<rparr>"

theorem mid_history_is_window_witness:
  "get_mid_series (run (feed_step ''BTCUSDT'') initial_trading_state
      [sample_update 1 100, sample_update 2 101, sample_update 900002 102]) ''BTCUSDT''
   = [(2, 101), (900002, 102)]"
  using mid_history_is_window
    [of "[sample_update 1 100, sample_update 2 101, sample_update 900002 102]" "''BTCUSDT''"]
  by (simp add: quoted_mids_def sample_update_def)

text \<open>
  Whatever books and trades arrive, in whatever order and with whatever time stamps, the
  trade tape of a symbol never holds more than one hundred thousand trades, the spread and mid
  histories hold only positive values, and a book that has been declared ready by a snapshot
  stays ready.
\<close>

theorem market_state_invariant:
  "length (get_public_trades (run market_step initial_trading_state es) symbol) \<le> 100000
   \<and> (\<forall>p \<in> set (get_spread_bps_series (run market_step initial_trading_state es) symbol). 0 < snd p)
   \<and> (\<forall>p \<in> set (get_mid_series (run market_step initial_trading_state es) symbol). 0 < snd p)
   \<and> (is_book_snapshot_ready (run market_step initial_trading_state es) symbol \<longrightarrow>
        is_book_snapshot_ready (run market_step initial_trading_state (es @ es')) symbol)"
proof -
  have "tape_bounded initial_trading_state \<and> spreads_positive initial_trading_state"
    by (simp add: tape_bounded_def spreads_positive_def get_public_trades_def get_mid_series_def
        get_spread_bps_series_def get_or_empty_def initial_trading_state_def all_positive_def)
  then have "tape_bounded (run market_step initial_trading_state es)
      \<and> spreads_positive (run market_step initial_trading_state es)"
    by (rule market.inv_run) (simp add: list_all_iff)
  moreover have "is_book_snapshot_ready (run market_step initial_trading_state es) symbol \<le>
      is_book_snapshot_ready (run market_step (run market_step initial_trading_state es) es') symbol"
    by (rule snapshot_flag.level_run)
  ultimately show ?thesis
    by (simp add: tape_bounded_def spreads_positive_def all_positive_def run_append le_bool_def)
qed

theorem market_state_invariant_witness:
  "is_book_snapshot_ready (run market_step initial_trading_state
     ([BookEvent 5 ''A'' (bu_agg (sample_update 1 100)) None None True None] @
      [BookEvent 6 ''A'' (bu_agg (sample_update 2 100)) None None False None])) ''A''"
proof -
  have "is_book_snapshot_ready (run market_step initial_trading_state
     [BookEvent 5 ''A'' (bu_agg (sample_update 1 100)) None None True None]) ''A''"
    by (simp add: set_orderbook_series)
  with market_state_invariant [of "[BookEvent 5 ''A'' (bu_agg (sample_update 1 100)) None None True None]"
      "''A''" "[BookEvent 6 ''A'' (bu_agg (sample_update 2 100)) None None False None]"]
  show ?thesis by blast
qed

text \<open>
  The imbalance of a book with non-negative sizes lies between -1 and 1 and changes its
  sign when the two sides are exchanged.
\<close>

theorem imbalance_bounds:
  assumes "\<forall>l \<in> set bids. 0 \<le> snd l" and "\<forall>l \<in> set asks. 0 \<le> snd l"
  shows "-1 \<le> compute_imbalance bids asks n \<and> compute_imbalance bids asks n \<le> 1
       \<and> compute_imbalance asks bids n = - compute_imbalance bids asks n"
proof -
  have "0 \<le> sum_list (map snd (take n bids))" "0 \<le> sum_list (map snd (take n asks))"
    by (rule volume_nonneg [OF assms(1)], rule volume_nonneg [OF assms(2)])
  then show ?thesis
    by (auto simp: compute_imbalance_def Let_def divide_simps add.commute)
qed

theorem imbalance_bounds_witness:
  "compute_imbalance [(100, 3), (99, 1)] [(101, 1)] 1 = 1 / 2
   \<and> compute_imbalance [(101, 1)] [(100, 3), (99, 1)] 1 = - (1 / 2)"
  using imbalance_bounds [of "[(100, 3), (99, 1)]" "[(101, 1)]" 1]
  by (simp add: compute_imbalance_def)

end
