(* ===== verification/Position_Sizer.thy ===== *)
theory Position_Sizer
  imports Prelude
begin

text \<open>
  Position sizing, \<open>src/botik/position/sizer.py\<close>: the average true range, the stop-loss and
  take-profit levels with their minimal reward to risk ratio, and the quantity by fixed risk
  or by the Kelly criterion. Divisions and index accesses that Python would refuse are
  \<open>Inl\<close> results.
\<close>

definition DEFAULT_ATR_SL_MULT :: real where
  "DEFAULT_ATR_SL_MULT = 15 / 10"

definition DEFAULT_ATR_TP_MULT :: real where
  "DEFAULT_ATR_TP_MULT = 25 / 10"

definition DEFAULT_RISK_PCT :: real where
  "DEFAULT_RISK_PCT = 1 / 100"

definition MIN_RR_RATIO :: real where
  "MIN_RR_RATIO = 15 / 10"

text \<open>One candle: high - low, and the distances of high and low to the previous close.\<close>

definition true_range :: "real list \<Rightarrow> real list \<Rightarrow> real list \<Rightarrow> nat \<Rightarrow> py_error + real" where
  "true_range highs lows closes i =
     (case py_index highs i of Inl e \<Rightarrow> Inl e | Inr h \<Rightarrow>
      case py_index lows i of Inl e \<Rightarrow> Inl e | Inr l \<Rightarrow>
      case py_index closes (i - 1) of Inl e \<Rightarrow> Inl e | Inr c \<Rightarrow>
      Inr (max (max (h - l) \<bar>h - c\<bar>) \<bar>l - c\<bar>))"

definition calc_atr :: "real list \<Rightarrow> real list \<Rightarrow> real list \<Rightarrow> nat \<Rightarrow> py_error + real" where
  "calc_atr highs lows closes period =
     (if length highs < period + 1 then Inr 0
      else case try_map (true_range highs lows closes) [1..<length highs] of
          Inl e \<Rightarrow> Inl e
        | Inr true_ranges \<Rightarrow>
            let recent = last_n period true_ranges in
            Inr (if recent = [] then 0 else sum_list recent / real (length recent)))"

record position_sizer =
  risk_pct :: real
  atr_sl_mult :: real
  atr_tp_mult :: real
  max_position_pct :: real

definition default_sizer :: position_sizer where
  "default_sizer = \<lparr>risk_pct = DEFAULT_RISK_PCT, atr_sl_mult = DEFAULT_ATR_SL_MULT,
     atr_tp_mult = DEFAULT_ATR_TP_MULT, max_position_pct = 20 / 100\<rparr>"

definition calc_sl_tp ::
    "position_sizer \<Rightarrow> real \<Rightarrow> real \<Rightarrow> string \<Rightarrow> real option \<Rightarrow> real option \<Rightarrow> py_error + (real \<times> real)"
  where
  "calc_sl_tp z entry atr direction sl_mult tp_mult =
     (let sm = (case sl_mult of Some v \<Rightarrow> v | None \<Rightarrow> atr_sl_mult z);
          tm = (case tp_mult of Some v \<Rightarrow> v | None \<Rightarrow> atr_tp_mult z)
      in case py_divide tm sm of
          Inl e \<Rightarrow> Inl e
        | Inr ratio \<Rightarrow>
            let tm = (if ratio < MIN_RR_RATIO then sm * MIN_RR_RATIO else tm);
                (sl, tp) = (if direction = ''long'' then (entry - sm * atr, entry + tm * atr)
                            else (entry + sm * atr, entry - tm * atr))
            in Inr (py_round 8 sl, py_round 8 tp))"

definition risk_qty :: "position_sizer \<Rightarrow> real \<Rightarrow> real \<Rightarrow> real \<Rightarrow> real" where
  "risk_qty z balance entry stop_loss =
     (let stop_distance = \<bar>entry - stop_loss\<bar> in
      if stop_distance = 0 \<or> entry = 0 then 0
      else
        let risk_amount = balance * risk_pct z;
            qty = risk_amount / stop_distance;
            max_qty = (balance * max_position_pct z) / entry
        in py_round 8 (min qty max_qty))"

definition kelly_qty ::
    "position_sizer \<Rightarrow> real \<Rightarrow> real \<Rightarrow> real \<Rightarrow> real \<Rightarrow> real \<Rightarrow> real \<Rightarrow> real \<Rightarrow> py_error + real" where
  "kelly_qty z balance entry stop_loss win_rate avg_win avg_loss kelly_fraction =
     (if avg_loss = 0 \<or> win_rate \<le> 0 then Inr (risk_qty z balance entry stop_loss)
      else
        let rr = avg_win / avg_loss in
        case py_divide (1 - win_rate) rr of
          Inl e \<Rightarrow> Inl e
        | Inr d \<Rightarrow>
            let full_kelly = win_rate - d in
            if full_kelly \<le> 0 then Inr (risk_qty z balance entry stop_loss)
            else
              let fractional = full_kelly * kelly_fraction in
              case py_divide (balance * fractional) entry of
                Inl e \<Rightarrow> Inl e
              | Inr qty \<Rightarrow>
                  let max_qty = (balance * max_position_pct z) / entry in
                  Inr (py_round 8 (min qty max_qty)))"

definition calc_qty ::
    "position_sizer \<Rightarrow> real \<Rightarrow> real \<Rightarrow> real \<Rightarrow> bool \<Rightarrow> real \<Rightarrow> real \<Rightarrow> real \<Rightarrow> py_error + real" where
  "calc_qty z balance entry stop_loss is_trained win_rate avg_win avg_loss =
     (if is_trained \<and> win_rate > 1 / 2 \<and> avg_win > 0 \<and> avg_loss > 0
      then kelly_qty z balance entry stop_loss win_rate avg_win avg_loss (25 / 100)
      else Inr (risk_qty z balance entry stop_loss))"

section \<open>Lemmas\<close>

lemma true_range_nonneg: "true_range h l c i = Inr r \<Longrightarrow> 0 \<le> r"
  by (auto simp: true_range_def le_max_iff_disj split: sum.splits)

lemma true_range_Inl: "true_range h l c i = Inl e \<Longrightarrow>
    e = IndexError \<and> (length h \<le> i \<or> length l \<le> i \<or> length c \<le> i - 1)"
  by (auto simp: true_range_def py_index_def split: sum.splits if_splits)

lemma mean_nonneg:
  fixes xs :: "real list"
  shows "\<forall>x \<in> set xs. 0 \<le> x \<Longrightarrow> 0 \<le> sum_list xs / real (length xs)"
  by (simp add: sum_list_nonneg)

text \<open>The two upper bounds of a rounded minimum.\<close>

lemma py_round_min_le:
  assumes "0 \<le> c"
  shows "py_round n (min a b) * c \<le> a * c + c / 2 / 10 ^ n"
    and "py_round n (min a b) * c \<le> b * c + c / 2 / 10 ^ n"
proof -
  have near: "py_round n (min a b) \<le> min a b + 1 / 2 / 10 ^ n" by (rule py_round_le)
  have "py_round n (min a b) * c \<le> (x + 1 / 2 / 10 ^ n) * c" if "min a b \<le> x" for x
    using near that by (intro mult_right_mono assms) linarith
  from this [of a] this [of b] show
    "py_round n (min a b) * c \<le> a * c + c / 2 / 10 ^ n"
    "py_round n (min a b) * c \<le> b * c + c / 2 / 10 ^ n"
    by (simp_all add: algebra_simps)
qed

lemma risk_qty_bounds:
  assumes "0 \<le> balance" "0 < entry" "0 \<le> risk_pct z" "0 \<le> max_position_pct z"
  shows "0 \<le> risk_qty z balance entry stop"
    and "risk_qty z balance entry stop * entry \<le> balance * max_position_pct z + entry / 2 / 10 ^ 8"
    and "risk_qty z balance entry stop * \<bar>entry - stop\<bar>
           \<le> balance * risk_pct z + \<bar>entry - stop\<bar> / 2 / 10 ^ 8"
proof -
  let ?d = "\<bar>entry - stop\<bar>"
  show "0 \<le> risk_qty z balance entry stop"
    using assms by (auto simp: risk_qty_def Let_def intro!: py_round_nonneg)
  show "risk_qty z balance entry stop * entry \<le> balance * max_position_pct z + entry / 2 / 10 ^ 8"
    using py_round_min_le(2) [of entry 8 "balance * risk_pct z / ?d"
        "balance * max_position_pct z / entry"] assms
    by (simp add: risk_qty_def Let_def)
  show "risk_qty z balance entry stop * ?d \<le> balance * risk_pct z + ?d / 2 / 10 ^ 8"
    using py_round_min_le(1) [of ?d 8 "balance * risk_pct z / ?d"
        "balance * max_position_pct z / entry"] assms
    by (cases "entry = stop") (simp_all add: risk_qty_def Let_def)
qed

lemma kelly_qty_total:
  "entry \<noteq> 0 \<Longrightarrow> aw \<noteq> 0 \<Longrightarrow> \<exists>q. kelly_qty z balance entry stop wr aw al f = Inr q"
  by (simp add: kelly_qty_def Let_def py_divide_ok)

lemma kelly_qty_bounds:
  assumes "0 \<le> balance" "0 < entry" "0 \<le> risk_pct z" "0 \<le> max_position_pct z" "0 \<le> f"
    and "kelly_qty z balance entry stop wr aw al f = Inr q"
  shows "0 \<le> q" and "q * entry \<le> balance * max_position_pct z + entry / 2 / 10 ^ 8"
proof -
  have cap: "py_round 8 (min a (balance * max_position_pct z / entry)) * entry
      \<le> balance * max_position_pct z + entry / 2 / 10 ^ 8" for a
    using py_round_min_le(2) [of entry 8 a "balance * max_position_pct z / entry"] assms by simp
  show "q * entry \<le> balance * max_position_pct z + entry / 2 / 10 ^ 8"
    using assms(6) risk_qty_bounds(2) [OF assms(1-4)] cap
    by (auto simp: kelly_qty_def Let_def split: if_splits sum.splits)
  show "0 \<le> q"
    using assms risk_qty_bounds(1) [OF assms(1-4)]
    by (auto simp: kelly_qty_def Let_def split: if_splits sum.splits intro!: py_round_nonneg)
qed

lemma calc_sl_tp_Inr:
  assumes "calc_sl_tp z e a d so to = Inr (sl, tp)"
    and "0 < (case so of Some v \<Rightarrow> v | None \<Rightarrow> atr_sl_mult z)" (is "0 < ?sm")
  shows "\<exists>tm. MIN_RR_RATIO * ?sm \<le> tm \<and>
    (if d = ''long'' then sl = py_round 8 (e - ?sm * a) \<and> tp = py_round 8 (e + tm * a)
     else sl = py_round 8 (e + ?sm * a) \<and> tp = py_round 8 (e - tm * a))"
proof -
  let ?t = "case to of Some v \<Rightarrow> v | None \<Rightarrow> atr_tp_mult z"
  let ?tm = "if ?t / ?sm < MIN_RR_RATIO then ?sm * MIN_RR_RATIO else ?t"
  have ge: "MIN_RR_RATIO * ?sm \<le> ?tm"
    using assms(2) by (auto simp: not_less le_divide_eq mult.commute)
  have "py_divide ?t ?sm = Inr (?t / ?sm)" using assms(2) by simp
  with assms(1) have "if d = ''long'' then sl = py_round 8 (e - ?sm * a) \<and> tp = py_round 8 (e + ?tm * a)
     else sl = py_round 8 (e + ?sm * a) \<and> tp = py_round 8 (e - ?tm * a)"
    by (cases "d = ''long''"; cases "?t / ?sm < MIN_RR_RATIO")
      (simp_all add: calc_sl_tp_def Let_def)
  with ge show ?thesis by blast
qed

section \<open>Properties\<close>

text \<open>
  The quantity the sizer answers, by either method, is never negative, never commits
  more than \<open>max_position_pct\<close> of the balance at the entry price, and with the fixed-risk
  method never risks more than \<open>risk_pct\<close> of the balance down to the stop; both bounds hold
  up to the half unit in the eighth decimal that the final rounding can add. With a positive
  entry price neither method raises.
\<close>

theorem sizer_respects_caps:
  assumes "0 \<le> balance" "0 < entry" "0 \<le> risk_pct z" "0 \<le> max_position_pct z"
  shows "\<exists>q. calc_qty z balance entry stop trained wr aw al = Inr q
      \<and> 0 \<le> q
      \<and> q * entry \<le> balance * max_position_pct z + entry * (5 / 10 ^ 9)
      \<and> (\<not> trained \<longrightarrow> q * \<bar>entry - stop\<bar> \<le> balance * risk_pct z + \<bar>entry - stop\<bar> * (5 / 10 ^ 9))"
proof (cases "trained \<and> wr > 1 / 2 \<and> aw > 0 \<and> al > 0")
  case False
  then have "calc_qty z balance entry stop trained wr aw al = Inr (risk_qty z balance entry stop)"
    by (auto simp: calc_qty_def)
  with risk_qty_bounds [OF assms, of stop] show ?thesis by simp
next
  case True
  then have "calc_qty z balance entry stop trained wr aw al
      = kelly_qty z balance entry stop wr aw al (25 / 100)"
    by (simp add: calc_qty_def)
  moreover obtain q where q: "kelly_qty z balance entry stop wr aw al (25 / 100) = Inr q"
    using kelly_qty_total [of entry aw] True assms(2) by blast
  ultimately show ?thesis
    using kelly_qty_bounds [OF assms _ q] True by simp
qed

theorem sizer_respects_caps_witness:
  "\<exists>q. calc_qty default_sizer 10000 100 98 False 0 0 0 = Inr q
     \<and> q * 100 \<le> 2000 + 100 * (5 / 10 ^ 9) \<and> q * 2 \<le> 100 + 2 * (5 / 10 ^ 9)"
proof -
  have params: "risk_pct default_sizer = 1 / 100" "max_position_pct default_sizer = 20 / 100"
    by (simp_all add: default_sizer_def DEFAULT_RISK_PCT_def)
  then have "0 \<le> risk_pct default_sizer" "0 \<le> max_position_pct default_sizer" by simp_all
  from sizer_respects_caps [OF _ _ this, of 10000 100 98 False 0 0 0]
  obtain q where "calc_qty default_sizer 10000 100 98 False 0 0 0 = Inr q"
    "q * 100 \<le> 2000 + 100 * (5 / 10 ^ 9)" "q * 2 \<le> 100 + 2 * (5 / 10 ^ 9)"
    by (auto simp: params)
  then show ?thesis by blast
qed

text \<open>
  The levels keep the minimal reward to risk ratio: whatever multipliers are asked for,
  the take-profit is at least one and a half times as far from the entry as the stop-loss, on
  the other side of it, up to the rounding of the two prices to eight decimals.
\<close>

theorem sl_tp_reward_ratio:
  assumes "calc_sl_tp z entry atr direction so to = Inr (sl, tp)" and "0 \<le> atr"
    and "0 < (case so of Some v \<Rightarrow> v | None \<Rightarrow> atr_sl_mult z)"
  shows "if direction = ''long''
         then 15 / 10 * (entry - sl) \<le> (tp - entry) + 2 / 10 ^ 8 \<and> sl \<le> entry + 5 / 10 ^ 9
         else 15 / 10 * (sl - entry) \<le> (entry - tp) + 2 / 10 ^ 8 \<and> entry \<le> sl + 5 / 10 ^ 9"
proof -
  define sm where "sm = (case so of Some v \<Rightarrow> v | None \<Rightarrow> atr_sl_mult z)"
  obtain tm where tm: "MIN_RR_RATIO * sm \<le> tm"
    and eqs: "if direction = ''long'' then sl = py_round 8 (entry - sm * atr) \<and> tp = py_round 8 (entry + tm * atr)
       else sl = py_round 8 (entry + sm * atr) \<and> tp = py_round 8 (entry - tm * atr)"
    using calc_sl_tp_Inr [OF assms(1,3)] unfolding sm_def by blast
  have "MIN_RR_RATIO * sm * atr \<le> tm * atr" by (rule mult_right_mono [OF tm assms(2)])
  then have gap: "15 / 10 * (sm * atr) \<le> tm * atr" by (simp add: MIN_RR_RATIO_def)
  have nonneg: "0 \<le> sm * atr" using assms(2,3) unfolding sm_def by simp
  note near = py_round_le [of 8] py_round_ge [of _ 8]
  show ?thesis
  proof (cases "direction = ''long''")
    case True
    with eqs near [of "entry - sm * atr"] near [of "entry + tm * atr"] gap nonneg
    show ?thesis by simp
  next
    case False
    with eqs near [of "entry + sm * atr"] near [of "entry - tm * atr"] gap nonneg
    show ?thesis by simp
  qed
qed

theorem sl_tp_reward_ratio_witness:
  "\<exists>sl tp. calc_sl_tp default_sizer 100 2 ''long'' (Some 3) (Some 1) = Inr (sl, tp)
     \<and> 15 / 10 * (100 - sl) \<le> (tp - 100) + 2 / 10 ^ 8"
proof -
  have r: "calc_sl_tp default_sizer 100 2 ''long'' (Some 3) (Some 1) =
      Inr (py_round 8 94, py_round 8 109)"
    by (simp add: calc_sl_tp_def py_divide_def MIN_RR_RATIO_def)
  from sl_tp_reward_ratio [OF r] have
    "15 / 10 * (100 - py_round 8 94) \<le> (py_round 8 109 - 100) + 2 / 10 ^ 8"
    by simp
  with r show ?thesis by blast
qed

text \<open>
  The average true range is never negative, is zero while there are not enough candles,
  and raises only \<open>IndexError\<close>, and only when the lows or closes are shorter than the highs.
\<close>

theorem atr_result:
  "(length highs < period + 1 \<longrightarrow> calc_atr highs lows closes period = Inr 0)
   \<and> (\<forall>a. calc_atr highs lows closes period = Inr a \<longrightarrow> 0 \<le> a)
   \<and> (\<forall>e. calc_atr highs lows closes period = Inl e \<longrightarrow>
        e = IndexError \<and> (length lows < length highs \<or> length closes + 1 < length highs))"
proof (intro conjI allI impI)
  show "calc_atr highs lows closes period = Inr 0" if "length highs < period + 1"
    using that by (simp add: calc_atr_def)
next
  fix a assume "calc_atr highs lows closes period = Inr a"
  moreover have "0 \<le> sum_list (last_n period trs) / real (length (last_n period trs))"
    if "try_map (true_range highs lows closes) [1..<length highs] = Inr trs" for trs
  proof (rule mean_nonneg, rule ballI)
    fix x assume "x \<in> set (last_n period trs)"
    then have "x \<in> set trs" by (rule subsetD [OF set_last_n])
    then obtain k where k: "k < length trs" "trs ! k = x" by (auto simp: in_set_conv_nth)
    from list_all2_nthD2 [OF try_map_Inr [OF that] k(1)] k(2)
    have "true_range highs lows closes ([1..<length highs] ! k) = Inr x" by simp
    then show "0 \<le> x" by (rule true_range_nonneg)
  qed
  ultimately show "0 \<le> a"
    by (auto simp: calc_atr_def Let_def split: if_splits sum.splits)
next
  fix e assume "calc_atr highs lows closes period = Inl e"
  then have "try_map (true_range highs lows closes) [1..<length highs] = Inl e"
    by (auto simp: calc_atr_def Let_def split: if_splits sum.splits)
  then obtain i where "i \<in> set [1..<length highs]" "true_range highs lows closes i = Inl e"
    by (auto dest: try_map_Inl)
  then show "e = IndexError" "length lows < length highs \<or> length closes + 1 < length highs"
    using true_range_Inl [of highs lows closes i e] by auto
qed

theorem atr_result_witness:
  "calc_atr [12, 13] [10, 11] [11, 12] 1 = Inr 2 \<and> calc_atr [12] [10] [11] 1 = Inr 0"
proof -
  have "length [12 :: real] < 1 + 1" by simp
  with atr_result [of "[12]" 1 "[10]" "[11]"] have "calc_atr [12] [10] [11] 1 = Inr 0" by blast
  then show ?thesis
    by (simp add: calc_atr_def true_range_def py_index_def last_n_def)
qed

end
