(* ===== verification/Stores.thy ===== *)
theory Stores
  imports Prelude
begin

text \<open>
  The contract of a keyed store, as the components that keep one rely on it: what a lookup
  returns after an insertion or a removal, and which keys are present. Order books of the
  paper client, holdings of the spot engine and the job store are such stores.
\<close>

locale keyed_store =
  fixes lookup :: "'s \<Rightarrow> 'k \<Rightarrow> 'v option"
    and insert_at :: "'k \<Rightarrow> 'v \<Rightarrow> 's \<Rightarrow> 's"
    and remove_at :: "'k \<Rightarrow> 's \<Rightarrow> 's"
    and invar :: "'s \<Rightarrow> bool"
  assumes lookup_insert: "lookup (insert_at k v s) k' = (if k' = k then Some v else lookup s k')"
    and lookup_remove: "invar s \<Longrightarrow> lookup (remove_at k s) k' = (if k' = k then None else lookup s k')"
    and invar_insert: "invar s \<Longrightarrow> invar (insert_at k v s)"
    and invar_remove: "invar s \<Longrightarrow> invar (remove_at k s)"
begin

definition stored_keys :: "'s \<Rightarrow> 'k set" where
  "stored_keys s = {k. lookup s k \<noteq> None}"

lemma stored_keys_insert: "stored_keys (insert_at k v s) = insert k (stored_keys s)"
  by (auto simp: stored_keys_def lookup_insert)

lemma stored_keys_remove: "invar s \<Longrightarrow> stored_keys (remove_at k s) = stored_keys s - {k}"
  by (auto simp: stored_keys_def lookup_remove)

text \<open>Removing a list of keys, as a loop over a snapshot of them does.\<close>

lemma invar_remove_all: "invar s \<Longrightarrow> invar (fold remove_at ks s)"
  by (induction ks arbitrary: s) (auto intro: invar_remove)

lemma lookup_remove_all:
  "invar s \<Longrightarrow> lookup (fold remove_at ks s) k = (if k \<in> set ks then None else lookup s k)"
  by (induction ks arbitrary: s) (auto simp: lookup_remove invar_remove)

end

text \<open>Python dictionaries meet the contract.\<close>

interpretation dict: keyed_store dict_get dict_set dict_pop dict_ok
  by unfold_locales (auto simp: dict_get_set dict_get_pop)

lemma dict_stored_keys: "dict.stored_keys d = fst ` set d"
  by (auto simp: dict.stored_keys_def map_of_eq_None_iff)

lemma set_dict_pop: "set (dict_pop k d) = {p \<in> set d. fst p \<noteq> k}"
  by (auto simp: AList.delete_eq)

lemma dict_pop_fresh: "k \<notin> fst ` set d \<Longrightarrow> dict_pop k d = d"
  by (force simp: AList.delete_eq filter_id_conv)

lemma dict_set_fresh: "k \<notin> fst ` set d \<Longrightarrow> dict_set k v d = d @ [(k, v)]"
  by (induction d) auto

text \<open>Sums over the values of a dictionary.\<close>

definition dict_sum :: "('v \<Rightarrow> real) \<Rightarrow> ('k, 'v) dict \<Rightarrow> real" where
  "dict_sum f d = sum_list (map (\<lambda>p. f (snd p)) d)"

lemma dict_sum_set_fresh: "dict_get d k = None \<Longrightarrow> dict_sum f (dict_set k v d) = dict_sum f d + f v"
  by (induction d) (auto simp: dict_sum_def)

lemma dict_sum_set: "dict_get d k = Some v \<Longrightarrow> dict_sum f (dict_set k v' d) = dict_sum f d - f v + f v'"
  by (induction d) (auto simp: dict_sum_def)

lemma dict_sum_pop: "dict_ok d \<Longrightarrow> dict_get d k = Some v \<Longrightarrow> dict_sum f (dict_pop k d) = dict_sum f d - f v"
proof (induction d)
  case Nil
  then show ?case by simp
next
  case (Cons p d)
  show ?case
  proof (cases "fst p = k")
    case True
    with Cons.prems have "k \<notin> fst ` set d" by (auto simp: dict_ok_def)
    with True Cons.prems show ?thesis by (simp add: dict_pop_fresh dict_sum_def)
  next
    case False
    with Cons show ?thesis by (auto simp: dict_sum_def dict_ok_def)
  qed
qed

end
