(* ===== verification/Paper_Client.thy ===== *)
theory Paper_Client
  imports Trading_State Stores
begin

text \<open>
  The paper trading client, \<open>src/botik/execution/paper.py\<close>: it keeps open orders and
  executions in memory and fills an order at placement when it is a market order or crosses
  the opposite best price. The order and execution identifiers, which the source draws from
  the clock and \<open>uuid4\<close>, are parameters. The responses carry only the fields that vary.
\<close>

record paper_order =
  po_symbol :: string
  po_side :: string
  po_qty :: string
  po_price :: string
  po_order_id :: string
  po_order_link_id :: string
  po_time_in_force :: string
  po_order_type :: string

record execution =
  ex_symbol :: string
  ex_side :: string
  ex_order_id :: string
  ex_order_link_id :: string
  ex_exec_id :: string
  ex_qty :: string
  ex_price :: string

record paper_client =
  pc_state :: trading_state
  fill_on_cross :: bool
  open_orders :: "(string, paper_order) dict"
  executions :: "execution list"

definition new_paper_client :: "trading_state \<Rightarrow> bool \<Rightarrow> paper_client" where
  "new_paper_client st foc =
     \<lparr>pc_state = st, fill_on_cross = foc, open_orders = [], executions = []\<rparr>"

definition is_marketable :: "paper_client \<Rightarrow> string \<Rightarrow> string \<Rightarrow> real \<Rightarrow> bool" where
  "is_marketable c symbol side price =
     (case get_orderbook (pc_state c) symbol of None \<Rightarrow> False
      | Some ob \<Rightarrow> if side = ''Buy'' then price \<ge> best_ask ob else price \<le> best_bid ob)"

definition record_execution :: "string \<Rightarrow> paper_order \<Rightarrow> paper_client \<Rightarrow> paper_client" where
  "record_execution exec_id order c = c\<lparr>executions := executions c @
     [\<lparr>ex_symbol = po_symbol order, ex_side = po_side order, ex_order_id = po_order_id order,
       ex_order_link_id = po_order_link_id order, ex_exec_id = exec_id,
       ex_qty = po_qty order, ex_price = po_price order\<rparr>]\<rparr>"

definition normalized_order_type :: "string \<Rightarrow> string" where
  "normalized_order_type order_type =
     (let t = str_title (str_strip (if order_type = [] then ''Limit'' else order_type)) in
      if t \<noteq> ''Limit'' \<and> t \<noteq> ''Market'' then ''Limit'' else t)"

text \<open>\<open>float(price or 0.0)\<close>; the price is parsed only when the order type leaves it open.\<close>

definition price_value :: "string \<Rightarrow> py_error + real" where
  "price_value price = (if price = [] then Inr 0 else py_float price)"

definition order_marketable :: "paper_client \<Rightarrow> paper_order \<Rightarrow> py_error + bool" where
  "order_marketable c order =
     (if po_order_type order = ''Market'' then Inr True
      else if \<not> fill_on_cross c then Inr False
      else case price_value (po_price order) of Inl e \<Rightarrow> Inl e
        | Inr p \<Rightarrow> Inr (is_marketable c (po_symbol order) (po_side order) p))"

definition place_order ::
    "string \<Rightarrow> string \<Rightarrow> string \<Rightarrow> string \<Rightarrow> string \<Rightarrow> string \<Rightarrow> string \<Rightarrow> string \<Rightarrow> string
     \<Rightarrow> paper_client \<Rightarrow> py_error + paper_client" where
  "place_order order_id exec_id symbol side qty price order_link_id time_in_force order_type c =
     (let order = \<lparr>po_symbol = symbol, po_side = side, po_qty = qty, po_price = price,
                   po_order_id = order_id, po_order_link_id = order_link_id,
                   po_time_in_force = time_in_force,
                   po_order_type = normalized_order_type order_type\<rparr>
      in case order_marketable c order of
          Inl e \<Rightarrow> Inl e
        | Inr marketable \<Rightarrow>
            if marketable \<and> (time_in_force \<noteq> ''PostOnly'' \<or> po_order_type order = ''Market'')
            then Inr (record_execution exec_id order c)
            else Inr (c\<lparr>open_orders := dict_set order_id order (open_orders c)\<rparr>))"

text \<open>The first open order with this symbol and link, in the order of placement.\<close>

fun find_by_link :: "string \<Rightarrow> string \<Rightarrow> (string, paper_order) dict \<Rightarrow> string option" where
  "find_by_link symbol link [] = None"
| "find_by_link symbol link ((oid, order) # rest) =
     (if po_order_link_id order = link \<and> po_symbol order = symbol then Some oid
      else find_by_link symbol link rest)"

definition cancel_target ::
    "string \<Rightarrow> string option \<Rightarrow> string option \<Rightarrow> (string, paper_order) dict \<Rightarrow> string option" where
  "cancel_target symbol order_link_id order_id orders =
     (case order_id of Some oid \<Rightarrow> Some oid
      | None \<Rightarrow> (case order_link_id of None \<Rightarrow> None
          | Some link \<Rightarrow> if link = [] then None else find_by_link symbol link orders))"

definition cancel_order ::
    "string \<Rightarrow> string option \<Rightarrow> string option \<Rightarrow> paper_client \<Rightarrow> paper_client" where
  "cancel_order symbol order_link_id order_id c =
     (case cancel_target symbol order_link_id order_id (open_orders c) of
        None \<Rightarrow> c
      | Some oid \<Rightarrow>
          if oid \<noteq> [] \<and> dict_get (open_orders c) oid \<noteq> None
          then c\<lparr>open_orders := dict_pop oid (open_orders c)\<rparr> else c)"

definition cancel_all_orders :: "string option \<Rightarrow> paper_client \<Rightarrow> paper_client" where
  "cancel_all_orders symbol c =
     (case symbol of None \<Rightarrow> c\<lparr>open_orders := []\<rparr>
      | Some s \<Rightarrow>
          let to_delete = map fst (filter (\<lambda>p. po_symbol (snd p) = s) (open_orders c)) in
          c\<lparr>open_orders := fold dict_pop to_delete (open_orders c)\<rparr>)"

definition get_open_orders :: "string option \<Rightarrow> paper_client \<Rightarrow> paper_order list" where
  "get_open_orders symbol c =
     (let all_orders = map snd (open_orders c) in
      case symbol of None \<Rightarrow> all_orders
      | Some s \<Rightarrow> if s = [] then all_orders else filter (\<lambda>o'. po_symbol o' = s) all_orders)"

definition get_execution_list ::
    "string \<Rightarrow> string option \<Rightarrow> string option \<Rightarrow> nat \<Rightarrow> paper_client \<Rightarrow> execution list" where
  "get_execution_list symbol order_id order_link_id limit c =
     (let items = filter (\<lambda>e. ex_symbol e = symbol) (executions c);
          items = (case order_id of None \<Rightarrow> items | Some oid \<Rightarrow>
                     if oid = [] then items else filter (\<lambda>e. ex_order_id e = oid) items);
          items = (case order_link_id of None \<Rightarrow> items | Some link \<Rightarrow>
                     if link = [] then items else filter (\<lambda>e. ex_order_link_id e = link) items)
      in last_n limit items)"

section \<open>Runs of the client\<close>

datatype client_call =
    Place string string string string string string string string string
  | Cancel string "string option" "string option"
  | CancelAll "string option"

text \<open>A call that raises leaves the client as it was.\<close>

fun client_step :: "paper_client \<Rightarrow> client_call \<Rightarrow> paper_client" where
  "client_step c (Place oid eid symbol side qty price link tif otype) =
     (case place_order oid eid symbol side qty price link tif otype c of Inl e \<Rightarrow> c | Inr c' \<Rightarrow> c')"
| "client_step c (Cancel symbol link oid) = cancel_order symbol link oid c"
| "client_step c (CancelAll symbol) = cancel_all_orders symbol c"

fun placed_id :: "client_call \<Rightarrow> string list" where
  "placed_id (Place oid eid symbol side qty price link tif otype) = [oid]"
| "placed_id (Cancel symbol link oid) = []"
| "placed_id (CancelAll symbol) = []"

definition placed_ids :: "client_call list \<Rightarrow> string list" where
  "placed_ids calls = concat (map placed_id calls)"

text \<open>The orders the client knows: executed ones, then open ones.\<close>

definition known_ids :: "paper_client \<Rightarrow> string list" where
  "known_ids c = map ex_order_id (executions c) @ map fst (open_orders c)"

lemma cancel_all_filter:
  "open_orders (cancel_all_orders (Some s) c) = filter (\<lambda>p. po_symbol (snd p) \<noteq> s) (open_orders c)"
  if "dict_ok (open_orders c)"
proof -
  have pop_all: "fold dict_pop ks d = filter (\<lambda>p. fst p \<notin> set ks) d" for ks and d :: "(string, paper_order) dict"
    by (induction ks arbitrary: d) (auto simp: AList.delete_eq filter_filter intro: filter_cong)
  have "po_symbol (snd p) = s \<longleftrightarrow> fst p \<in> fst ` {q \<in> set (open_orders c). po_symbol (snd q) = s}"
    if "p \<in> set (open_orders c)" for p
    using that \<open>dict_ok (open_orders c)\<close>
    by (auto simp: dict_ok_def distinct_map inj_on_def)
  then show ?thesis
    by (auto simp: cancel_all_orders_def pop_all intro!: filter_cong)
qed

lemma place_order_Inr:
  assumes "place_order oid eid symbol side qty price link tif otype c = Inr c'"
  shows "\<exists>order. po_order_id order = oid \<and> po_symbol order = symbol \<and> po_qty order = qty \<and>
     po_price order = price \<and> po_order_type order = normalized_order_type otype \<and>
     (c' = record_execution eid order c \<or>
      c' = c\<lparr>open_orders := dict_set oid order (open_orders c)\<rparr>)"
proof -
  let ?o = "\<lparr>po_symbol = symbol, po_side = side, po_qty = qty, po_price = price,
                   po_order_id = oid, po_order_link_id = link, po_time_in_force = tif,
                   po_order_type = normalized_order_type otype\<rparr>"
  from assms have "c' = record_execution eid ?o c \<or>
      c' = c\<lparr>open_orders := dict_set oid ?o (open_orders c)\<rparr>"
    by (auto simp: place_order_def Let_def split: sum.splits if_splits)
  then show ?thesis by (intro exI [of _ ?o]) simp
qed

text \<open>A placement inserts the new identifier, and nothing else.\<close>

lemma known_ids_place:
  assumes "oid \<notin> set (known_ids c)"
    and "place_order oid eid symbol side qty price link tif otype c = Inr c'"
  shows "\<exists>xs ys. known_ids c = xs @ ys \<and> known_ids c' = xs @ oid # ys"
proof -
  from assms(1) have "oid \<notin> fst ` set (open_orders c)" by (simp add: known_ids_def)
  then have fresh: "dict_set oid v (open_orders c) = open_orders c @ [(oid, v)]" for v
    by (rule dict_set_fresh)
  from place_order_Inr [OF assms(2)] obtain order where id: "po_order_id order = oid"
    and c': "c' = record_execution eid order c \<or> c' = c\<lparr>open_orders := dict_set oid order (open_orders c)\<rparr>"
    by blast
  from c' show ?thesis
  proof
    assume "c' = record_execution eid order c"
    with id show ?thesis
      by (intro exI [of _ "map ex_order_id (executions c)"] exI [of _ "map fst (open_orders c)"])
        (simp add: known_ids_def record_execution_def)
  next
    assume "c' = c\<lparr>open_orders := dict_set oid order (open_orders c)\<rparr>"
    with fresh show ?thesis
      by (intro exI [of _ "known_ids c"] exI [of _ "[]"]) (simp add: known_ids_def)
  qed
qed

lemma known_ids_drop:
  assumes "open_orders c' = filter P (open_orders c)" and "executions c' = executions c"
    and "distinct (known_ids c)"
  shows "distinct (known_ids c') \<and> set (known_ids c') \<subseteq> set (known_ids c)"
  using assms by (auto simp: known_ids_def distinct_map_filter)

lemma client_step_drop:
  assumes "distinct (known_ids c)" and "placed_id e = []"
  shows "distinct (known_ids (client_step c e)) \<and> set (known_ids (client_step c e)) \<subseteq> set (known_ids c)"
proof (cases e)
  case (Place oid eid symbol side qty price link tif otype)
  with assms(2) show ?thesis by simp
next
  case (Cancel symbol link oid)
  have "\<exists>P. open_orders (client_step c e) = filter P (open_orders c)"
    unfolding Cancel
    by (auto simp: cancel_order_def AList.delete_eq split: option.splits
        intro: exI [of _ "\<lambda>_. True"])
  moreover have "executions (client_step c e) = executions c"
    unfolding Cancel by (simp add: cancel_order_def split: option.splits)
  ultimately show ?thesis using known_ids_drop assms(1) by blast
next
  case (CancelAll s)
  have ok: "dict_ok (open_orders c)" using assms(1) by (simp add: known_ids_def dict_ok_def)
  have "\<exists>P. open_orders (client_step c e) = filter P (open_orders c)"
  proof (cases s)
    case None
    then show ?thesis using CancelAll
      by (auto simp: cancel_all_orders_def intro: exI [of _ "\<lambda>_. False"])
  next
    case (Some sy)
    then show ?thesis using CancelAll cancel_all_filter [OF ok] by auto
  qed
  moreover have "executions (client_step c e) = executions c"
    unfolding CancelAll by (simp add: cancel_all_orders_def Let_def split: option.splits)
  ultimately show ?thesis using known_ids_drop assms(1) by blast
qed

lemma client_run_ids:
  "distinct (known_ids c @ placed_ids calls) \<Longrightarrow>
   distinct (known_ids (run client_step c calls))
   \<and> set (known_ids (run client_step c calls)) \<subseteq> set (known_ids c) \<union> set (placed_ids calls)"
proof (induction calls arbitrary: c)
  case Nil
  then show ?case by (simp add: placed_ids_def)
next
  case (Cons e calls)
  have step: "distinct (known_ids (client_step c e)) \<and>
      set (known_ids (client_step c e)) \<subseteq> set (known_ids c) \<union> set (placed_id e)"
  proof (cases "placed_id e = []")
    case True
    with Cons.prems client_step_drop [of c e] show ?thesis by auto
  next
    case False
    then obtain oid eid symbol side qty price link tif otype where
      e: "e = Place oid eid symbol side qty price link tif otype" by (cases e) auto
    show ?thesis
    proof (cases "place_order oid eid symbol side qty price link tif otype c")
      case (Inl err)
      with e Cons.prems show ?thesis by auto
    next
      case (Inr c')
      have "oid \<notin> set (known_ids c)" using Cons.prems e by (auto simp: placed_ids_def)
      from known_ids_place [OF this Inr] Cons.prems show ?thesis
        using \<open>oid \<notin> set (known_ids c)\<close> Inr e by auto
    qed
  qed
  then have "distinct (known_ids (client_step c e) @ placed_ids calls)"
    using Cons.prems by (auto simp: placed_ids_def)
  from Cons.IH [OF this] step show ?case by (auto simp: placed_ids_def)
qed

section \<open>Properties\<close>

text \<open>
  C27: an order is never open and executed at once, no order executes twice and none appears
  from nowhere: in every run from a fresh client whose calls carry fresh order identifiers,
  the identifiers of the executions and of the open orders are pairwise distinct and all come
  from the placed orders.
\<close>

theorem paper_orders_execute_once:
  assumes "distinct (placed_ids calls)"
  shows "distinct (map ex_order_id (executions (run client_step (new_paper_client st foc) calls)))
   \<and> distinct (map fst (open_orders (run client_step (new_paper_client st foc) calls)))
   \<and> set (map ex_order_id (executions (run client_step (new_paper_client st foc) calls)))
       \<inter> set (map fst (open_orders (run client_step (new_paper_client st foc) calls))) = {}
   \<and> set (map ex_order_id (executions (run client_step (new_paper_client st foc) calls)))
       \<union> set (map fst (open_orders (run client_step (new_paper_client st foc) calls)))
       \<subseteq> set (placed_ids calls)"
proof -
  have none: "known_ids (new_paper_client st foc) = []"
    by (simp add: known_ids_def new_paper_client_def)
  from assms none have d: "distinct (known_ids (new_paper_client st foc) @ placed_ids calls)"
    by simp
  from client_run_ids [OF d] none show ?thesis by (auto simp: known_ids_def)
qed

theorem paper_orders_execute_once_witness:
  "set (map ex_order_id (executions (run client_step (new_paper_client initial_trading_state True)
      [Place ''1'' ''e'' ''X'' ''Buy'' ''1'' ''5'' ''l'' ''GTC'' ''market'', CancelAll None])))
    \<subseteq> {''1''}"
proof -
  let ?calls = "[Place ''1'' ''e'' ''X'' ''Buy'' ''1'' ''5'' ''l'' ''GTC'' ''market'', CancelAll None]"
  have d: "distinct (placed_ids ?calls)" by (simp add: placed_ids_def)
  have ids: "set (placed_ids ?calls) = {''1''}" by (simp add: placed_ids_def)
  from paper_orders_execute_once [OF d, of initial_trading_state True] ids show ?thesis
    by (metis (no_types, lifting) Un_subset_iff)
qed

text \<open>
  What a placement does. A market order executes at once whatever its time in force; a
  limit order that is post-only never executes at placement, and any other limit order executes
  exactly when crossing is switched on and its price reaches the opposite best price of a known
  book; an order that does not execute is stored under its identifier. A limit order whose
  price is no number is refused with \<open>ValueError\<close>, but only while crossing is switched on.
\<close>

theorem place_order_outcome:
  assumes "c' = place_order oid eid symbol side qty price link tif otype c"
  shows "(normalized_order_type otype = ''Market'' \<longrightarrow>
            (\<exists>d. c' = Inr d \<and> length (executions d) = Suc (length (executions c))))
    \<and> (normalized_order_type otype = ''Limit'' \<longrightarrow> tif = ''PostOnly'' \<longrightarrow>
         (\<forall>d. c' = Inr d \<longrightarrow> executions d = executions c \<and> dict_get (open_orders d) oid \<noteq> None))
    \<and> (normalized_order_type otype = ''Limit'' \<longrightarrow> tif \<noteq> ''PostOnly'' \<longrightarrow>
         (\<forall>p d. price_value price = Inr p \<longrightarrow> c' = Inr d \<longrightarrow>
            (executions d \<noteq> executions c \<longleftrightarrow> fill_on_cross c \<and>
              (\<exists>ob. get_orderbook (pc_state c) symbol = Some ob
                 \<and> (if side = ''Buy'' then best_ask ob \<le> p else p \<le> best_bid ob)))))
    \<and> (\<forall>err. c' = Inl err \<longleftrightarrow> normalized_order_type otype = ''Limit'' \<and> fill_on_cross c
         \<and> price_value price = Inl err)"
proof -
  have otype: "normalized_order_type otype = ''Limit'' \<or> normalized_order_type otype = ''Market''"
    by (simp add: normalized_order_type_def Let_def)
  show ?thesis
    unfolding assms using otype
    by (auto simp: place_order_def order_marketable_def record_execution_def is_marketable_def Let_def
        dict_get_set split: sum.splits option.splits if_splits)
qed

theorem place_order_outcome_witness:
  "\<exists>d. place_order ''1'' ''e'' ''X'' ''Buy'' ''1'' ''5'' ''l'' ''PostOnly'' '' market''
         (new_paper_client initial_trading_state True) = Inr d \<and> length (executions d) = 1"
proof -
  have t: "normalized_order_type '' market'' = ''Market''"
    by (simp add: normalized_order_type_def str_eval)
  from place_order_outcome [OF refl, where oid = "''1''" and eid = "''e''" and symbol = "''X''"
      and side = "''Buy''" and qty = "''1''" and price = "''5''" and link = "''l''"
      and tif = "''PostOnly''" and otype = "'' market''"
      and c = "new_paper_client initial_trading_state True"] t
  show ?thesis by (simp add: new_paper_client_def)
qed

end
