(* ===== verification/Position_Policy.thy ===== *)
theory Position_Policy
  imports Runs
begin

text \<open>
  Position policies, \<open>src/botik/position/base_policy.py\<close> and
  \<open>src/botik/position/simple_exit.py\<close>: the snapshot of a position the engines hand to a
  policy, the action it answers, and the policy that exits on stop-loss, take-profit or a
  timeout. The abstract class is the locale \<open>position_policy\<close>; the two hooks \<open>on_open\<close> and
  \<open>on_close\<close> do nothing in the base class and are left out.
\<close>

record position =
  p_trade_id :: string
  p_symbol :: string
  p_side :: string
  p_entry_price :: real
  p_qty :: real
  p_stop_loss :: real
  p_take_profit :: real
  p_mark_price :: real
  p_opened_at_ms :: int
  p_partial_closed_qty :: real

definition unrealized_pnl :: "position \<Rightarrow> real" where
  "unrealized_pnl p =
     (let size = p_qty p - p_partial_closed_qty p in
      if p_side p = ''long'' then (p_mark_price p - p_entry_price p) * size
      else (p_entry_price p - p_mark_price p) * size)"

definition pnl_pct :: "position \<Rightarrow> real" where
  "pnl_pct p =
     (if p_entry_price p = 0 then 0
      else if p_side p = ''long'' then (p_mark_price p - p_entry_price p) / p_entry_price p * 100
      else (p_entry_price p - p_mark_price p) / p_entry_price p * 100)"

record policy_action =
  pa_action :: string
  pa_qty_pct :: real
  pa_reason :: string

definition HOLD :: policy_action where
  "HOLD = \<lparr>pa_action = ''hold'', pa_qty_pct = 1, pa_reason = []\<rparr>"

definition close_all :: "string \<Rightarrow> policy_action" where
  "close_all reason = \<lparr>pa_action = ''close_all'', pa_qty_pct = 1, pa_reason = reason\<rparr>"

definition simple_on_tick :: "int \<Rightarrow> int \<Rightarrow> position \<Rightarrow> policy_action" where
  "simple_on_tick hold_timeout_ms now_ms pos =
     (let price = p_mark_price pos; sl = p_stop_loss pos; tp = p_take_profit pos; side = p_side pos in
      if side = ''long'' \<and> price \<le> sl then close_all ''sl_hit''
      else if side = ''short'' \<and> price \<ge> sl then close_all ''sl_hit''
      else if side = ''long'' \<and> price \<ge> tp then close_all ''tp_hit''
      else if side = ''short'' \<and> price \<le> tp then close_all ''tp_hit''
      else if hold_timeout_ms > 0 \<and> now_ms - p_opened_at_ms pos \<ge> hold_timeout_ms
      then close_all ''timeout''
      else HOLD)"

text \<open>
  What an engine relies on: the action is one of the documented ones and a partial action
  names a share of the position.
\<close>

locale position_policy =
  fixes on_tick :: "int \<Rightarrow> position \<Rightarrow> policy_action"
  assumes action_kind: "pa_action (on_tick now p) \<in>
      {''hold'', ''close_all'', ''close_partial'', ''add'', ''hedge''}"
    and share_nonneg: "0 \<le> pa_qty_pct (on_tick now p)"
    and share_le_one: "pa_qty_pct (on_tick now p) \<le> 1"

interpretation simple_exit: position_policy "simple_on_tick timeout" for timeout
  by unfold_locales (auto simp: simple_on_tick_def Let_def close_all_def HOLD_def)

section \<open>Properties\<close>

text \<open>
  The exit policy holds a position exactly while the price is strictly between the two
  levels (for a long position the stop below and the target above, for a short one the other
  way round) and the holding time, when one is set, is not over. The stop-loss takes
  precedence: a price that is beyond both levels closes with the reason \<open>sl_hit\<close>.
\<close>

theorem simple_exit_holds_iff:
  assumes "p_side p = ''long'' \<or> p_side p = ''short''"
  shows "(pa_action (simple_on_tick timeout now p) = ''hold'' \<longleftrightarrow>
           (if p_side p = ''long''
            then p_stop_loss p < p_mark_price p \<and> p_mark_price p < p_take_profit p
            else p_take_profit p < p_mark_price p \<and> p_mark_price p < p_stop_loss p)
           \<and> (0 < timeout \<longrightarrow> now - p_opened_at_ms p < timeout))
    \<and> (pa_reason (simple_on_tick timeout now p) = ''sl_hit'' \<longleftrightarrow>
         (if p_side p = ''long'' then p_mark_price p \<le> p_stop_loss p
          else p_stop_loss p \<le> p_mark_price p))
    \<and> (pa_action (simple_on_tick timeout now p) = ''hold''
       \<or> pa_action (simple_on_tick timeout now p) = ''close_all'')"
  using assms
  by (auto simp: simple_on_tick_def Let_def close_all_def HOLD_def not_le)

theorem simple_exit_holds_iff_witness:
  "pa_action (simple_on_tick 1000 500 \<lparr>p_trade_id = ''t'', p_symbol = ''X'', p_side = ''short'',
     p_entry_price = 100, p_qty = 1, p_stop_loss = 105, p_take_profit = 90, p_mark_price = 95,
     p_opened_at_ms = 0, p_partial_closed_qty = 0\<rparr>) = ''hold''"
  using simple_exit_holds_iff [of "\<lparr>p_trade_id = ''t'', p_symbol = ''X'', p_side = ''short'',
     p_entry_price = 100, p_qty = 1, p_stop_loss = 105, p_take_profit = 90, p_mark_price = 95,
     p_opened_at_ms = 0, p_partial_closed_qty = 0\<rparr>" 1000 500]
  by simp

end
