(* ===== verification/Spot_Paper.thy ===== *)
theory Spot_Paper
  imports Position_Policy Stores
begin

text \<open>
  The spot paper engine, \<open>src/botik/execution/spot_paper.py\<close>: virtual cash, holdings cached per
  symbol, their stop-loss and take-profit levels, and the rows it writes to the tables
  \<open>spot_holdings\<close>, \<open>spot_orders\<close> and \<open>spot_fills\<close>.

  A database transaction either commits or leaves the tables unchanged; the flag \<open>db_ok\<close> says
  which, because the source swallows the exception and goes on. Identifiers and the clock are
  parameters. Columns that only carry text for display and time stamps of rows are left out,
  and the alerts and log lines with them. The account type is the constant \<open>SPOT_PAPER\<close>.
\<close>

definition SPOT_FEE_RATE :: real where
  "SPOT_FEE_RATE = 1 / 1000"

record holding =
  h_trade_id :: string
  h_symbol :: string
  h_base_asset :: string
  h_qty :: real
  h_avg_entry_price :: real
  h_current_price :: real
  h_entry_fee :: real
  h_purchase_value_usdt :: real
  h_opened_at_ms :: int

record holding_row =
  r_free_qty :: real
  r_avg_entry_price :: "real option"
  r_current_price :: "real option"
  r_purchase_value_usdt :: "real option"
  r_current_value_usdt :: real
  r_unrealized_pnl :: real
  r_unrealized_pnl_pct :: real

record order_row =
  so_symbol :: string
  so_order_id :: string
  so_order_link_id :: string
  so_side :: string
  so_price :: "real option"
  so_qty :: real

record fill_row =
  sf_exec_id :: string
  sf_order_id :: string
  sf_order_link_id :: string
  sf_symbol :: string
  sf_side :: string
  sf_exec_price :: real
  sf_exec_qty :: real
  sf_exec_fee :: real
  sf_exec_time_ms :: int

record spot_db =
  t_holdings :: "(string \<times> string, holding_row) dict"
  t_orders :: "order_row list"
  t_fills :: "fill_row list"

record spot_engine =
  sp_balance :: real
  sp_holdings :: "(string, holding) dict"
  sp_protection :: "string \<rightharpoonup> real \<times> real"
  sp_db :: spot_db

record closed_trade =
  ct_symbol :: string
  ct_entry_price :: real
  ct_exit_price :: real
  ct_qty :: real
  ct_net_pnl :: real
  ct_hold_time_ms :: int
  ct_exit_reason :: string

definition base_asset_of :: "string \<Rightarrow> string" where
  "base_asset_of symbol =
     (if str_contains ''USDT'' symbol
      then str_replace ''BTC'' ''BTC'' (str_replace ''USDT'' [] symbol)
      else take 3 symbol)"

section \<open>Tables\<close>

text \<open>\<open>INSERT ... ON CONFLICT DO UPDATE\<close>: the price column keeps its old value on a conflict.\<close>

definition upsert_holding ::
    "string \<times> string \<Rightarrow> real \<Rightarrow> real \<Rightarrow> real \<Rightarrow> spot_db \<Rightarrow> spot_db" where
  "upsert_holding key qty entry_price cost db = db\<lparr>t_holdings := dict_set key
     (case dict_get (t_holdings db) key of
        None \<Rightarrow> \<lparr>r_free_qty = qty, r_avg_entry_price = Some entry_price,
                 r_current_price = Some entry_price, r_purchase_value_usdt = Some cost,
                 r_current_value_usdt = cost, r_unrealized_pnl = 0, r_unrealized_pnl_pct = 0\<rparr>
      | Some r \<Rightarrow> r\<lparr>r_free_qty := qty, r_avg_entry_price := Some entry_price,
                    r_purchase_value_usdt := Some cost\<rparr>) (t_holdings db)\<rparr>"

text \<open>\<open>INSERT\<close>: a second row with the same \<open>order_link_id\<close> is an integrity error.\<close>

definition insert_order :: "order_row \<Rightarrow> spot_db \<Rightarrow> spot_db option" where
  "insert_order row db =
     (if so_order_link_id row \<in> so_order_link_id ` set (t_orders db) then None
      else Some (db\<lparr>t_orders := t_orders db @ [row]\<rparr>))"

text \<open>\<open>INSERT OR IGNORE\<close> on the unique \<open>exec_id\<close>.\<close>

definition insert_fill :: "fill_row \<Rightarrow> spot_db \<Rightarrow> spot_db" where
  "insert_fill row db =
     (if sf_exec_id row \<in> sf_exec_id ` set (t_fills db) then db
      else db\<lparr>t_fills := t_fills db @ [row]\<rparr>)"

definition delete_holding :: "string \<times> string \<Rightarrow> spot_db \<Rightarrow> spot_db" where
  "delete_holding key db = db\<lparr>t_holdings := dict_pop key (t_holdings db)\<rparr>"

text \<open>A body that raises (\<open>None\<close>), or a connection that fails, leaves the tables as they were.\<close>

definition transaction :: "bool \<Rightarrow> (spot_db \<Rightarrow> spot_db option) \<Rightarrow> spot_db \<Rightarrow> spot_db" where
  "transaction db_ok body db =
     (if db_ok then (case body db of None \<Rightarrow> db | Some db' \<Rightarrow> db') else db)"

section \<open>Operations\<close>

definition buy ::
    "string \<Rightarrow> int \<Rightarrow> bool \<Rightarrow> string \<Rightarrow> real \<Rightarrow> real \<Rightarrow> real \<Rightarrow> real
     \<Rightarrow> spot_engine \<Rightarrow> spot_engine \<times> string option" where
  "buy trade_id now_ms db_ok symbol qty entry_price stop_loss take_profit s =
     (if dict_get (sp_holdings s) symbol \<noteq> None then (s, None)
      else
        let cost = entry_price * qty; fee = cost * SPOT_FEE_RATE; total_cost = cost + fee in
        if total_cost > sp_balance s then (s, None)
        else
          let base_asset = base_asset_of symbol;
              h = \<lparr>h_trade_id = trade_id, h_symbol = symbol, h_base_asset = base_asset, h_qty = qty,
                   h_avg_entry_price = entry_price, h_current_price = entry_price,
                   h_entry_fee = fee, h_purchase_value_usdt = cost, h_opened_at_ms = now_ms\<rparr>;
              row = \<lparr>so_symbol = symbol, so_order_id = trade_id, so_order_link_id = trade_id,
                     so_side = ''Buy'', so_price = Some entry_price, so_qty = qty\<rparr>
          in (s\<lparr>sp_holdings := dict_set symbol h (sp_holdings s),
                sp_protection := (sp_protection s)(symbol \<mapsto> (stop_loss, take_profit)),
                sp_balance := sp_balance s - total_cost,
                sp_db := transaction db_ok (\<lambda>db. insert_order row
                           (upsert_holding (symbol, base_asset) qty entry_price cost db)) (sp_db s)\<rparr>,
              Some trade_id))"

definition sell ::
    "string \<Rightarrow> string \<Rightarrow> int \<Rightarrow> bool \<Rightarrow> string \<Rightarrow> real \<Rightarrow> string
     \<Rightarrow> spot_engine \<Rightarrow> spot_engine \<times> closed_trade option" where
  "sell exec_id sell_order_id now_ms db_ok symbol exit_price exit_reason s =
     (case dict_get (sp_holdings s) symbol of
        None \<Rightarrow> (s, None)
      | Some h \<Rightarrow>
          let qty = h_qty h; avg_entry = h_avg_entry_price h;
              gross = exit_price * qty; sell_fee = gross * SPOT_FEE_RATE;
              net_proceeds = gross - sell_fee;
              cost_basis = avg_entry * qty + h_entry_fee h;
              net_pnl = net_proceeds - cost_basis;
              order = \<lparr>so_symbol = symbol, so_order_id = sell_order_id,
                       so_order_link_id = sell_order_id, so_side = ''Sell'',
                       so_price = Some exit_price, so_qty = qty\<rparr>;
              fill = \<lparr>sf_exec_id = exec_id, sf_order_id = sell_order_id,
                      sf_order_link_id = sell_order_id, sf_symbol = symbol, sf_side = ''Sell'',
                      sf_exec_price = exit_price, sf_exec_qty = qty, sf_exec_fee = sell_fee,
                      sf_exec_time_ms = now_ms\<rparr>
          in (s\<lparr>sp_holdings := dict_pop symbol (sp_holdings s),
                sp_protection := (sp_protection s)(symbol := None),
                sp_balance := sp_balance s + net_proceeds,
                sp_db := transaction db_ok (\<lambda>db. map_option (insert_fill fill) (insert_order order
                           (delete_holding (symbol, h_base_asset h) db))) (sp_db s)\<rparr>,
              Some \<lparr>ct_symbol = symbol, ct_entry_price = avg_entry, ct_exit_price = exit_price,
                    ct_qty = qty, ct_net_pnl = net_pnl,
                    ct_hold_time_ms = now_ms - h_opened_at_ms h, ct_exit_reason = exit_reason\<rparr>))"

definition update_holding_pnl :: "bool \<Rightarrow> string \<Rightarrow> real \<Rightarrow> holding \<Rightarrow> spot_db \<Rightarrow> spot_db" where
  "update_holding_pnl db_ok symbol price h db =
     (let current_value = price * h_qty h;
          cost_basis = h_avg_entry_price h * h_qty h;
          pnl = current_value - cost_basis;
          pct = (if cost_basis > 0 then pnl / cost_basis else 0);
          key = (symbol, h_base_asset h)
      in transaction db_ok (\<lambda>db. case dict_get (t_holdings db) key of None \<Rightarrow> Some db
           | Some r \<Rightarrow> Some (db\<lparr>t_holdings := dict_set key
               (r\<lparr>r_current_price := Some price, r_current_value_usdt := current_value,
                  r_unrealized_pnl := pnl, r_unrealized_pnl_pct := pct\<rparr>) (t_holdings db)\<rparr>)) db)"

definition position_of :: "spot_engine \<Rightarrow> string \<Rightarrow> real \<Rightarrow> holding \<Rightarrow> position" where
  "position_of s symbol price h =
     (let (sl, tp) = (case sp_protection s symbol of None \<Rightarrow> (0, 0) | Some p \<Rightarrow> p) in
      \<lparr>p_trade_id = h_trade_id h, p_symbol = symbol, p_side = ''long'',
       p_entry_price = h_avg_entry_price h, p_qty = h_qty h, p_stop_loss = sl, p_take_profit = tp,
       p_mark_price = price, p_opened_at_ms = h_opened_at_ms h, p_partial_closed_qty = 0\<rparr>)"

definition on_price_tick ::
    "(int \<Rightarrow> position \<Rightarrow> policy_action) \<Rightarrow> string \<Rightarrow> string \<Rightarrow> int \<Rightarrow> bool \<Rightarrow> bool \<Rightarrow> string \<Rightarrow> real
     \<Rightarrow> spot_engine \<Rightarrow> spot_engine \<times> closed_trade list" where
  "on_price_tick on_tick exec_id sell_order_id now_ms db_ok db_ok' symbol price s =
     (case dict_get (sp_holdings s) symbol of
        None \<Rightarrow> (s, [])
      | Some h \<Rightarrow>
          let h = h\<lparr>h_current_price := price\<rparr>;
              s = s\<lparr>sp_holdings := dict_set symbol h (sp_holdings s),
                    sp_db := update_holding_pnl db_ok symbol price h (sp_db s)\<rparr>;
              action = on_tick now_ms (position_of s symbol price h)
          in if pa_action action = ''close_all'' then
               (case sell exec_id sell_order_id now_ms db_ok' symbol price (pa_reason action) s of
                  (s', None) \<Rightarrow> (s', [])
                | (s', Some trade) \<Rightarrow> (s', [trade]))
             else (s, []))"

text \<open>\<open>float(x or y or 0)\<close>.\<close>

definition first_truthy :: "real option \<Rightarrow> real option \<Rightarrow> real" where
  "first_truthy x y = (if or_zero x \<noteq> 0 then or_zero x else or_zero y)"

definition loaded_holding :: "int \<Rightarrow> string \<Rightarrow> string \<times> string \<Rightarrow> holding_row \<Rightarrow> holding" where
  "loaded_holding now_ms trade_id key r =
     \<lparr>h_trade_id = trade_id, h_symbol = fst key, h_base_asset = snd key, h_qty = r_free_qty r,
      h_avg_entry_price = or_zero (r_avg_entry_price r),
      h_current_price = first_truthy (r_current_price r) (r_avg_entry_price r),
      h_entry_fee = or_zero (r_purchase_value_usdt r) * SPOT_FEE_RATE,
      h_purchase_value_usdt = or_zero (r_purchase_value_usdt r),
      h_opened_at_ms = now_ms\<rparr>"

text \<open>\<open>ids\<close> stands for the fresh identifier of each row.\<close>

definition load_row :: "int \<Rightarrow> (string \<Rightarrow> string) \<Rightarrow> (string \<times> string) \<times> holding_row
    \<Rightarrow> (string, holding) dict \<Rightarrow> (string, holding) dict" where
  "load_row now_ms ids kr holdings =
     dict_set (fst (fst kr)) (loaded_holding now_ms (ids (fst (fst kr))) (fst kr) (snd kr)) holdings"

definition load_holdings_from_db ::
    "int \<Rightarrow> (string \<Rightarrow> string) \<Rightarrow> spot_db \<Rightarrow> (string, holding) dict" where
  "load_holdings_from_db now_ms ids db = fold (load_row now_ms ids) (t_holdings db) []"

text \<open>The constructor; a failing query loads nothing.\<close>

definition new_spot_engine :: "int \<Rightarrow> (string \<Rightarrow> string) \<Rightarrow> bool \<Rightarrow> real \<Rightarrow> spot_db \<Rightarrow> spot_engine" where
  "new_spot_engine now_ms ids db_ok balance_usdt db =
     \<lparr>sp_balance = balance_usdt,
      sp_holdings = (if db_ok then load_holdings_from_db now_ms ids db else []),
      sp_protection = Map.empty, sp_db = db\<rparr>"

text \<open>\<open>get_holdings\<close>: all holdings when the symbol is missing or empty.\<close>

definition get_holdings :: "string option \<Rightarrow> spot_engine \<Rightarrow> holding list" where
  "get_holdings symbol s =
     (case symbol of
        None \<Rightarrow> map snd (sp_holdings s)
      | Some sy \<Rightarrow>
          if sy = [] then map snd (sp_holdings s)
          else (case dict_get (sp_holdings s) sy of None \<Rightarrow> [] | Some h \<Rightarrow> [h]))"

section \<open>Statistics\<close>

record spot_stats =
  st_total :: nat
  st_wins :: nat
  st_total_pnl :: real

text \<open>The join of the sell fills with the orders that have the same link, the latest 500.\<close>

definition joined_fills :: "spot_db \<Rightarrow> (fill_row \<times> order_row) list" where
  "joined_fills db =
     [(f, r). f \<leftarrow> filter (\<lambda>f. sf_side f = ''Sell'') (t_fills db),
              r \<leftarrow> filter (\<lambda>r. so_order_link_id r = sf_order_link_id f) (t_orders db)]"

definition stats_rows :: "spot_db \<Rightarrow> (real \<times> real \<times> real) list" where
  "stats_rows db = map (\<lambda>(f, r). (sf_exec_price f, sf_exec_qty f, or_zero (so_price r)))
     (take 500 (sort_key (\<lambda>p. - sf_exec_time_ms (fst p)) (joined_fills db)))"

definition row_pnl :: "real \<times> real \<times> real \<Rightarrow> real" where
  "row_pnl row = (let (exit_p, qty, entry_p) = row in
     if entry_p > 0 then (exit_p - entry_p) * qty else 0)"

definition get_stats :: "spot_db \<Rightarrow> spot_stats" where
  "get_stats db =
     (let rows = stats_rows db in
      \<lparr>st_total = length rows,
       st_wins = length (filter (\<lambda>r. row_pnl r > 0) rows),
       st_total_pnl = sum_list (map row_pnl rows)\<rparr>)"

section \<open>Runs of the engine\<close>

datatype spot_event =
    BuyEvent string int bool string real real real real
  | SellEvent string string int bool string real string
  | TickEvent string string int bool bool string real

fun spot_op :: "(int \<Rightarrow> position \<Rightarrow> policy_action) \<Rightarrow> spot_engine \<Rightarrow> spot_event
    \<Rightarrow> spot_engine \<times> closed_trade list" where
  "spot_op on_tick s (BuyEvent tid now ok sy qty price sl tp) =
     (fst (buy tid now ok sy qty price sl tp s), [])"
| "spot_op on_tick s (SellEvent eid oid now ok sy price why) =
     (case sell eid oid now ok sy price why s of
        (s', None) \<Rightarrow> (s', []) | (s', Some trade) \<Rightarrow> (s', [trade]))"
| "spot_op on_tick s (TickEvent eid oid now ok ok' sy price) =
     on_price_tick on_tick eid oid now ok ok' sy price s"

definition spot_step :: "(int \<Rightarrow> position \<Rightarrow> policy_action) \<Rightarrow> spot_engine \<Rightarrow> spot_event \<Rightarrow> spot_engine"
  where "spot_step on_tick s e = fst (spot_op on_tick s e)"

definition realised :: "(int \<Rightarrow> position \<Rightarrow> policy_action) \<Rightarrow> spot_engine \<Rightarrow> spot_event \<Rightarrow> real" where
  "realised on_tick s e = sum_list (map ct_net_pnl (snd (spot_op on_tick s e)))"

definition holding_cost :: "holding \<Rightarrow> real" where
  "holding_cost h = h_avg_entry_price h * h_qty h + h_entry_fee h"

text \<open>Cash plus what the open holdings cost.\<close>

definition book_value :: "spot_engine \<Rightarrow> real" where
  "book_value s = sp_balance s + dict_sum holding_cost (sp_holdings s)"

text \<open>A tick is a price refresh followed, if the policy asks for it, by a sale.\<close>

definition refresh_price :: "bool \<Rightarrow> string \<Rightarrow> real \<Rightarrow> holding \<Rightarrow> spot_engine \<Rightarrow> spot_engine" where
  "refresh_price db_ok symbol price h s =
     (let h' = h\<lparr>h_current_price := price\<rparr> in
      s\<lparr>sp_holdings := dict_set symbol h' (sp_holdings s),
        sp_db := update_holding_pnl db_ok symbol price h' (sp_db s)\<rparr>)"

lemma refresh_get:
  "dict_get (sp_holdings (refresh_price ok sy price h s)) sy = Some (h\<lparr>h_current_price := price\<rparr>)"
  by (simp add: refresh_price_def Let_def dict_get_set)

lemma tick_none: "dict_get (sp_holdings s) sy = None \<Longrightarrow>
    on_price_tick on_tick eid oid now ok ok' sy price s = (s, [])"
  by (simp add: on_price_tick_def)

definition with_trades :: "'s \<times> 'a option \<Rightarrow> 's \<times> 'a list" where
  "with_trades r = (fst r, (case snd r of None \<Rightarrow> [] | Some t \<Rightarrow> [t]))"

lemma spot_op_sell:
  "spot_op on_tick s (SellEvent eid oid now ok sy price why) = with_trades (sell eid oid now ok sy price why s)"
  by (simp add: with_trades_def split: option.splits prod.splits)

lemma tick_some:
  assumes "dict_get (sp_holdings s) sy = Some h"
  shows "on_price_tick on_tick eid oid now ok ok' sy price s =
    (let s1 = refresh_price ok sy price h s;
         a = on_tick now (position_of s1 sy price (h\<lparr>h_current_price := price\<rparr>))
     in if pa_action a = ''close_all'' then with_trades (sell eid oid now ok' sy price (pa_reason a) s1)
        else (s1, []))"
  using assms by (simp add: on_price_tick_def refresh_price_def Let_def with_trades_def split: option.splits prod.splits)

lemma sell_book_value:
  assumes "dict_ok (sp_holdings s)"
  shows "dict_ok (sp_holdings (fst (sell eid oid now ok sy p why s)))"
    and "book_value (fst (sell eid oid now ok sy p why s)) = book_value s +
      sum_list (map ct_net_pnl (snd (with_trades (sell eid oid now ok sy p why s))))"
  using assms
  by (auto simp: sell_def Let_def book_value_def dict_sum_pop holding_cost_def with_trades_def split: option.splits)

lemma buy_book_value:
  assumes "dict_ok (sp_holdings s)"
  shows "dict_ok (sp_holdings (fst (buy tid now ok sy q p sl tp s)))"
    and "book_value (fst (buy tid now ok sy q p sl tp s)) = book_value s"
  using assms
  by (auto simp: buy_def Let_def book_value_def dict_sum_set_fresh holding_cost_def)

lemma refresh_book_value:
  assumes "dict_ok (sp_holdings s)" and "dict_get (sp_holdings s) sy = Some h"
  shows "dict_ok (sp_holdings (refresh_price ok sy p h s))"
    and "book_value (refresh_price ok sy p h s) = book_value s"
  using assms
  by (auto simp: refresh_price_def Let_def book_value_def dict_sum_set holding_cost_def)

lemma spot_step_book_value:
  assumes "dict_ok (sp_holdings s)"
  shows "dict_ok (sp_holdings (spot_step on_tick s e))
       \<and> book_value (spot_step on_tick s e) = book_value s + realised on_tick s e"
proof (cases e)
  case (BuyEvent tid now ok sy q p sl tp)
  with buy_book_value [OF assms] show ?thesis by (simp add: spot_step_def realised_def)
next
  case (SellEvent eid oid now ok sy p why)
  with sell_book_value [OF assms, of eid oid now ok sy p why] show ?thesis
    by (simp add: spot_step_def realised_def spot_op_sell del: spot_op.simps(2)) (simp add: with_trades_def)
next
  case (TickEvent eid oid now ok ok' sy p)
  show ?thesis
  proof (cases "dict_get (sp_holdings s) sy")
    case None
    with TickEvent assms show ?thesis by (simp add: spot_step_def realised_def tick_none)
  next
    case (Some h)
    note r = refresh_book_value [OF assms Some, of ok p]
    from r sell_book_value [OF r(1), of eid oid now ok' sy p] TickEvent show ?thesis
      by (simp add: spot_step_def realised_def tick_some [OF Some] Let_def) (simp add: with_trades_def)
  qed
qed

interpretation spot_ledger: measured_run "spot_step on_tick" "\<lambda>_. True"
    "\<lambda>s. dict_ok (sp_holdings s)" book_value "realised on_tick" for on_tick
  by unfold_locales (simp_all add: spot_step_book_value)

text \<open>Events with the prices and quantities the engine is meant for, and the funds they need.\<close>

fun sane_spot :: "spot_event \<Rightarrow> bool" where
  "sane_spot (BuyEvent tid now ok sy qty price sl tp) \<longleftrightarrow> 0 < qty \<and> 0 < price"
| "sane_spot (SellEvent eid oid now ok sy price why) \<longleftrightarrow> 0 < price"
| "sane_spot (TickEvent eid oid now ok ok' sy price) \<longleftrightarrow> 0 < price"

definition solvent :: "spot_engine \<Rightarrow> bool" where
  "solvent s \<longleftrightarrow> 0 \<le> sp_balance s \<and> (\<forall>p \<in> set (sp_holdings s). 0 < h_qty (snd p))"

lemma solvent_sell: "solvent s \<Longrightarrow> 0 < p \<Longrightarrow> solvent (fst (sell eid oid now ok sy p why s))"
  by (auto simp: solvent_def sell_def Let_def SPOT_FEE_RATE_def set_dict_pop
      dest!: map_of_SomeD split: option.splits)

lemma solvent_buy: "solvent s \<Longrightarrow> 0 < q \<Longrightarrow> solvent (fst (buy tid now ok sy q p sl tp s))"
  by (auto simp: solvent_def buy_def Let_def dict_set_fresh map_of_eq_None_iff)

lemma set_dict_set: "x \<in> set (dict_set k v d) \<Longrightarrow> x = (k, v) \<or> x \<in> set d"
  by (induction d) (auto split: if_splits)

lemma solvent_refresh:
  assumes "solvent s" and "dict_get (sp_holdings s) sy = Some h"
  shows "solvent (refresh_price ok sy p h s)"
  using assms map_of_SomeD [OF assms(2)]
  by (auto simp: solvent_def refresh_price_def Let_def dest!: set_dict_set)

lemma solvent_step: "solvent s \<Longrightarrow> sane_spot e \<Longrightarrow> solvent (spot_step on_tick s e)"
proof (cases e)
  case (TickEvent eid oid now ok ok' sy p)
  assume "solvent s" "sane_spot e"
  with TickEvent show ?thesis
    by (cases "dict_get (sp_holdings s) sy")
      (simp_all add: spot_step_def tick_none tick_some Let_def with_trades_def solvent_sell solvent_refresh)
qed (simp_all add: spot_step_def spot_op_sell with_trades_def solvent_sell solvent_buy
       del: spot_op.simps(2))

interpretation spot_solvency: guarded_run "spot_step on_tick" sane_spot solvent for on_tick
  by unfold_locales (rule solvent_step)

end
