(* ===== verification/Spot_Ledger.thy ===== *)
theory Spot_Ledger
  imports Spot_Paper
begin

text \<open>
  What the spot paper engine promises over whole runs: the cash ledger, the agreement of the
  cached holdings with the rows of the database and what a restart makes of them, and the
  statistics computed from the tables.
\<close>

section \<open>The order and fill tables\<close>

definition order_links :: "spot_db \<Rightarrow> string set" where
  "order_links db = so_order_link_id ` set (t_orders db)"

text \<open>Every fill is a sale that carries the link and the price of an order of its own.\<close>

definition own_orders :: "spot_db \<Rightarrow> bool" where
  "own_orders db \<longleftrightarrow> distinct (map so_order_link_id (t_orders db))
    \<and> (\<forall>f \<in> set (t_fills db). sf_side f = ''Sell'' \<and> (\<exists>r \<in> set (t_orders db).
         so_order_link_id r = sf_order_link_id f \<and> so_price r = Some (sf_exec_price f)))"

lemma update_holding_tables [simp]:
  "t_orders (update_holding_pnl ok sy p h db) = t_orders db"
  "t_fills (update_holding_pnl ok sy p h db) = t_fills db"
  by (auto simp: update_holding_pnl_def Let_def transaction_def split: option.splits)

lemma own_orders_update [simp]: "own_orders (update_holding_pnl ok sy p h db) = own_orders db"
  by (simp add: own_orders_def)

lemma own_orders_sell: "own_orders (sp_db s) \<Longrightarrow> own_orders (sp_db (fst (sell eid oid now ok sy p why s)))"
  by (auto simp: own_orders_def sell_def Let_def transaction_def insert_order_def insert_fill_def
      delete_holding_def split: option.splits)

lemma own_orders_buy: "own_orders (sp_db s) \<Longrightarrow> own_orders (sp_db (fst (buy tid now ok sy q p sl tp s)))"
  by (auto simp: own_orders_def buy_def Let_def transaction_def insert_order_def upsert_holding_def
      split: option.splits)

lemma own_orders_step: "own_orders (sp_db s) \<Longrightarrow> own_orders (sp_db (spot_step on_tick s e))"
proof (cases e)
  case (TickEvent eid oid now ok ok' sy p)
  assume inv: "own_orders (sp_db s)"
  have "own_orders (sp_db (refresh_price ok sy p h s))" for h
    using inv by (simp add: refresh_price_def Let_def)
  with TickEvent inv show ?thesis
    by (cases "dict_get (sp_holdings s) sy")
      (simp_all add: spot_step_def tick_none tick_some Let_def with_trades_def own_orders_sell)
qed (simp_all add: spot_step_def spot_op_sell with_trades_def own_orders_sell own_orders_buy
       del: spot_op.simps(2))

interpretation spot_tables: guarded_run "spot_step on_tick" "\<lambda>_. True" "\<lambda>s. own_orders (sp_db s)" for on_tick
  by unfold_locales (rule own_orders_step)

lemma filter_key_singleton:
  "distinct (map k xs) \<Longrightarrow> r \<in> set xs \<Longrightarrow> filter (\<lambda>x. k x = k r) xs = [r]"
proof (induction xs)
  case Nil
  then show ?case by simp
next
  case (Cons x xs)
  show ?case
  proof (cases "x = r")
    case True
    with Cons.prems have "\<forall>y \<in> set xs. k y \<noteq> k r" by (auto simp: image_iff)
    with True show ?thesis by simp
  next
    case False
    with Cons show ?thesis by (auto simp: image_iff)
  qed
qed

lemma joined_own:
  assumes "own_orders db" and "f \<in> set (t_fills db)"
  obtains r where "filter (\<lambda>r. so_order_link_id r = sf_order_link_id f) (t_orders db) = [r]"
    and "so_price r = Some (sf_exec_price f)"
proof -
  from assms obtain r where r: "r \<in> set (t_orders db)" "so_order_link_id r = sf_order_link_id f"
      "so_price r = Some (sf_exec_price f)"
    by (auto simp: own_orders_def)
  with assms(1) filter_key_singleton [of so_order_link_id "t_orders db" r] that show ?thesis
    by (auto simp: own_orders_def)
qed

lemma joined_fills_own:
  assumes "own_orders db"
  shows "length (joined_fills db) = length (t_fills db)"
    and "\<forall>(f, r) \<in> set (joined_fills db). so_price r = Some (sf_exec_price f)"
proof -
  have sells: "filter (\<lambda>f. sf_side f = ''Sell'') (t_fills db) = t_fills db"
    using assms by (simp add: own_orders_def filter_id_conv)
  have one: "length (filter (\<lambda>r. so_order_link_id r = sf_order_link_id f) (t_orders db)) = 1"
    if "f \<in> set (t_fills db)" for f
    using joined_own [OF assms that] by (metis length_Cons list.size(3) One_nat_def)
  have "sum_list (map (\<lambda>f. length (filter (\<lambda>r. so_order_link_id r = sf_order_link_id f) (t_orders db))) fs)
      = length fs" if "set fs \<subseteq> set (t_fills db)" for fs
    using that one by (induction fs) auto
  from this [OF subset_refl] show "length (joined_fills db) = length (t_fills db)"
    by (simp add: joined_fills_def sells length_concat comp_def)
  show "\<forall>(f, r) \<in> set (joined_fills db). so_price r = Some (sf_exec_price f)"
  proof (clarsimp simp: joined_fills_def)
    fix f r
    assume f: "f \<in> set (t_fills db)" and r: "r \<in> set (t_orders db)" "so_order_link_id r = sf_order_link_id f"
    obtain r' where one: "filter (\<lambda>r. so_order_link_id r = sf_order_link_id f) (t_orders db) = [r']"
      and price: "so_price r' = Some (sf_exec_price f)"
      using joined_own [OF assms f] .
    have "r \<in> set (filter (\<lambda>r. so_order_link_id r = sf_order_link_id f) (t_orders db))"
      using r by simp
    then have "r = r'" unfolding one by simp
    with price show "so_price r = Some (sf_exec_price f)" by simp
  qed
qed

lemma stats_rows_own:
  assumes "own_orders db" and "row \<in> set (stats_rows db)"
  shows "row_pnl row = 0"
proof -
  from assms(2) obtain f r where "(f, r) \<in> set (joined_fills db)"
    and row: "row = (sf_exec_price f, sf_exec_qty f, or_zero (so_price r))"
    by (auto simp: stats_rows_def dest!: in_set_takeD)
  with joined_fills_own(2) [OF assms(1)] have "so_price r = Some (sf_exec_price f)" by auto
  with row show ?thesis by (simp add: row_pnl_def or_zero_def)
qed

section \<open>The holdings and their rows\<close>

definition mirrors_row :: "holding \<Rightarrow> holding_row \<Rightarrow> bool" where
  "mirrors_row h r \<longleftrightarrow> r_free_qty r = h_qty h \<and> r_avg_entry_price r = Some (h_avg_entry_price h)
    \<and> r_current_price r = Some (h_current_price h)
    \<and> r_purchase_value_usdt r = Some (h_purchase_value_usdt h)
    \<and> h_entry_fee h = h_purchase_value_usdt h * SPOT_FEE_RATE"

text \<open>Each cached holding has its row, and there is no other row.\<close>

definition mirrors :: "spot_engine \<Rightarrow> bool" where
  "mirrors s \<longleftrightarrow> dict_ok (sp_holdings s) \<and> dict_ok (t_holdings (sp_db s))
    \<and> (\<forall>sy h. dict_get (sp_holdings s) sy = Some h \<longrightarrow> h_symbol h = sy \<and> h_base_asset h = base_asset_of sy)
    \<and> (\<forall>sy b. case dict_get (t_holdings (sp_db s)) (sy, b) of
         None \<Rightarrow> b = base_asset_of sy \<longrightarrow> dict_get (sp_holdings s) sy = None
       | Some r \<Rightarrow> b = base_asset_of sy \<and>
           (\<exists>h. dict_get (sp_holdings s) sy = Some h \<and> mirrors_row h r))"

fun event_id :: "spot_event \<Rightarrow> string" where
  "event_id (BuyEvent tid now ok sy qty price sl tp) = tid"
| "event_id (SellEvent eid oid now ok sy price why) = oid"
| "event_id (TickEvent eid oid now ok ok' sy price) = oid"

fun committed :: "spot_event \<Rightarrow> bool" where
  "committed (BuyEvent tid now ok sy qty price sl tp) = ok"
| "committed (SellEvent eid oid now ok sy price why) = ok"
| "committed (TickEvent eid oid now ok ok' sy price) \<longleftrightarrow> ok \<and> ok'"

lemma mirrorsI:
  assumes "dict_ok (sp_holdings s)" "dict_ok (t_holdings (sp_db s))"
    and "\<And>sy h. dict_get (sp_holdings s) sy = Some h \<Longrightarrow> h_symbol h = sy \<and> h_base_asset h = base_asset_of sy"
    and "\<And>sy. dict_get (t_holdings (sp_db s)) (sy, base_asset_of sy) = None \<Longrightarrow> dict_get (sp_holdings s) sy = None"
    and "\<And>sy b r. dict_get (t_holdings (sp_db s)) (sy, b) = Some r \<Longrightarrow> b = base_asset_of sy \<and>
           (\<exists>h. dict_get (sp_holdings s) sy = Some h \<and> mirrors_row h r)"
  shows "mirrors s"
  using assms by (auto simp: mirrors_def split: option.splits)

lemma mirrorsD:
  assumes "mirrors s"
  shows "dict_ok (sp_holdings s)" "dict_ok (t_holdings (sp_db s))"
    and "\<And>sy h. dict_get (sp_holdings s) sy = Some h \<Longrightarrow> h_symbol h = sy \<and> h_base_asset h = base_asset_of sy"
    and "\<And>sy. dict_get (t_holdings (sp_db s)) (sy, base_asset_of sy) = None \<Longrightarrow> dict_get (sp_holdings s) sy = None"
    and "\<And>sy b r. dict_get (t_holdings (sp_db s)) (sy, b) = Some r \<Longrightarrow> b = base_asset_of sy \<and>
           (\<exists>h. dict_get (sp_holdings s) sy = Some h \<and> mirrors_row h r)"
  using assms unfolding mirrors_def by (force split: option.splits)+

lemma mirrors_held:
  assumes "mirrors s" and "dict_get (sp_holdings s) sy = Some h"
  obtains r where "dict_get (t_holdings (sp_db s)) (sy, base_asset_of sy) = Some r" and "mirrors_row h r"
proof (cases "dict_get (t_holdings (sp_db s)) (sy, base_asset_of sy)")
  case None
  with mirrorsD(4) [OF assms(1)] assms(2) show ?thesis by simp
next
  case (Some r)
  with mirrorsD(5) [OF assms(1) Some] assms(2) that show ?thesis by simp
qed

text \<open>Writing a holding and its row together keeps them in step.\<close>

lemma mirrors_set:
  assumes m: "mirrors s" and row: "mirrors_row h r"
    and h: "h_symbol h = sy" "h_base_asset h = base_asset_of sy"
    and "sp_holdings s' = dict_set sy h (sp_holdings s)"
    and "t_holdings (sp_db s') = dict_set (sy, base_asset_of sy) r (t_holdings (sp_db s))"
  shows "mirrors s'"
proof (rule mirrorsI)
  show "dict_ok (sp_holdings s')" "dict_ok (t_holdings (sp_db s'))"
    using assms(5,6) mirrorsD(1,2) [OF m] by simp_all
next
  fix sy' b r'
  assume r': "dict_get (t_holdings (sp_db s')) (sy', b) = Some r'"
  show "b = base_asset_of sy' \<and> (\<exists>h. dict_get (sp_holdings s') sy' = Some h \<and> mirrors_row h r')"
  proof (cases "(sy', b) = (sy, base_asset_of sy)")
    case True
    with r' row assms(5,6) show ?thesis by (simp add: dict_get_set)
  next
    case False
    with r' assms(6) have "dict_get (t_holdings (sp_db s)) (sy', b) = Some r'"
      by (auto simp: dict_get_set split: if_splits)
    from mirrorsD(5) [OF m this] False assms(5) show ?thesis by (auto simp: dict_get_set)
  qed
qed (use assms mirrorsD(3,4) [OF m] in \<open>auto simp: dict_get_set split: if_splits\<close>)

lemma mirrors_buy:
  assumes m: "mirrors s" and new: "tid \<notin> order_links (sp_db s)"
  shows "mirrors (fst (buy tid now True sy q p sl tp s))"
proof (cases "dict_get (sp_holdings s) sy = None \<and> p * q + p * q * SPOT_FEE_RATE \<le> sp_balance s")
  case False
  with m show ?thesis by (auto simp: buy_def Let_def)
next
  case True
  have "dict_get (t_holdings (sp_db s)) (sy, base_asset_of sy) = None"
    using True mirrorsD(5) [OF m, of sy "base_asset_of sy"] by fastforce
  with True new show ?thesis
    by (intro mirrors_set [OF m, where sy = sy
          and h = "\<lparr>h_trade_id = tid, h_symbol = sy, h_base_asset = base_asset_of sy, h_qty = q,
                h_avg_entry_price = p, h_current_price = p, h_entry_fee = p * q * SPOT_FEE_RATE,
                h_purchase_value_usdt = p * q, h_opened_at_ms = now\<rparr>"
          and r = "\<lparr>r_free_qty = q, r_avg_entry_price = Some p, r_current_price = Some p,
                r_purchase_value_usdt = Some (p * q), r_current_value_usdt = p * q,
                r_unrealized_pnl = 0, r_unrealized_pnl_pct = 0\<rparr>"])
      (simp_all add: buy_def Let_def transaction_def insert_order_def order_links_def
        upsert_holding_def mirrors_row_def)
qed

lemma mirrors_sell:
  assumes m: "mirrors s" and new: "oid \<notin> order_links (sp_db s)"
  shows "mirrors (fst (sell eid oid now True sy p why s))"
proof (cases "dict_get (sp_holdings s) sy")
  case None
  with m show ?thesis by (simp add: sell_def)
next
  case (Some h)
  have base: "h_base_asset h = base_asset_of sy" using mirrorsD(3) [OF m Some] by simp
  show ?thesis
    using Some new base mirrorsD [OF m]
    by (auto intro!: mirrorsI simp: sell_def Let_def transaction_def insert_order_def order_links_def
        delete_holding_def insert_fill_def dict_get_pop split: if_splits)
qed

lemma mirrors_refresh:
  assumes m: "mirrors s" and h: "dict_get (sp_holdings s) sy = Some h"
  shows "mirrors (refresh_price True sy p h s)"
proof -
  obtain r where r: "dict_get (t_holdings (sp_db s)) (sy, base_asset_of sy) = Some r" "mirrors_row h r"
    using mirrors_held [OF m h] .
  have base: "h_symbol h = sy" "h_base_asset h = base_asset_of sy" using mirrorsD(3) [OF m h] by simp_all
  let ?v = "p * h_qty h" and ?c = "h_avg_entry_price h * h_qty h"
  show ?thesis
    using r base
    by (intro mirrors_set [OF m, where sy = sy and h = "h\<lparr>h_current_price := p\<rparr>"
          and r = "r\<lparr>r_current_price := Some p, r_current_value_usdt := ?v, r_unrealized_pnl := ?v - ?c,
                    r_unrealized_pnl_pct := if 0 < ?c then (?v - ?c) / ?c else 0\<rparr>"])
      (simp_all add: refresh_price_def Let_def transaction_def update_holding_pnl_def mirrors_row_def)
qed

lemma refresh_links [simp]: "order_links (sp_db (refresh_price ok sy p h s)) = order_links (sp_db s)"
  by (simp add: refresh_price_def Let_def order_links_def)

lemma mirrors_step:
  assumes "mirrors s" and "committed e" and "event_id e \<notin> order_links (sp_db s)"
  shows "mirrors (spot_step on_tick s e)"
proof (cases e)
  case (TickEvent eid oid now ok ok' sy p)
  with assms show ?thesis
    by (cases "dict_get (sp_holdings s) sy")
      (simp_all add: spot_step_def tick_none tick_some Let_def with_trades_def mirrors_sell mirrors_refresh)
qed (use assms in \<open>simp_all add: spot_step_def spot_op_sell with_trades_def mirrors_sell mirrors_buy
       del: spot_op.simps(2)\<close>)

lemma sell_links: "order_links (sp_db (fst (sell eid oid now ok sy p why s))) \<subseteq> insert oid (order_links (sp_db s))"
  by (auto simp: sell_def Let_def transaction_def insert_order_def insert_fill_def delete_holding_def
      order_links_def split: option.splits if_splits)

lemma buy_links: "order_links (sp_db (fst (buy tid now ok sy q p sl tp s))) \<subseteq> insert tid (order_links (sp_db s))"
  by (auto simp: buy_def Let_def transaction_def insert_order_def upsert_holding_def
      order_links_def split: option.splits if_splits)

lemma step_links: "order_links (sp_db (spot_step on_tick s e)) \<subseteq> insert (event_id e) (order_links (sp_db s))"
proof (cases e)
  case (TickEvent eid oid now ok ok' sy p)
  show ?thesis
  proof (cases "dict_get (sp_holdings s) sy")
    case None
    with TickEvent show ?thesis by (auto simp: spot_step_def tick_none)
  next
    case (Some h)
    with TickEvent sell_links [of eid oid now ok' sy p _ "refresh_price ok sy p h s"] show ?thesis
      by (auto simp: spot_step_def tick_some Let_def with_trades_def)
  qed
qed (use sell_links buy_links in \<open>simp_all add: spot_step_def spot_op_sell with_trades_def
       del: spot_op.simps(2)\<close>)

lemma disjoint_insert_sub: "x \<notin> A \<Longrightarrow> A \<inter> B = {} \<Longrightarrow> C \<subseteq> insert x B \<Longrightarrow> A \<inter> C = {}"
  by blast

lemma mirrors_run:
  "mirrors s \<Longrightarrow> list_all committed es \<Longrightarrow> distinct (map event_id es) \<Longrightarrow>
   event_id ` set es \<inter> order_links (sp_db s) = {} \<Longrightarrow> mirrors (run (spot_step on_tick) s es)"
proof (induction es arbitrary: s)
  case Nil
  then show ?case by simp
next
  case (Cons e es)
  have "mirrors (spot_step on_tick s e)" using Cons.prems by (intro mirrors_step) auto
  moreover have "event_id ` set es \<inter> order_links (sp_db (spot_step on_tick s e)) = {}"
  proof -
    have "event_id e \<notin> event_id ` set es" "event_id ` set es \<inter> order_links (sp_db s) = {}"
      using Cons.prems by auto
    then show ?thesis by (rule disjoint_insert_sub [OF _ _ step_links])
  qed
  ultimately show ?case using Cons.IH Cons.prems(2,3) by simp
qed

section \<open>Loading the holdings\<close>

lemma load_other: "sy \<notin> (\<lambda>kr. fst (fst kr)) ` set rows \<Longrightarrow>
    dict_get (fold (load_row now ids) rows d) sy = dict_get d sy"
  by (induction rows arbitrary: d) (auto simp: load_row_def dict_get_set)

lemma load_row_found:
  "distinct (map (\<lambda>kr. fst (fst kr)) rows) \<Longrightarrow> ((sy, b), r) \<in> set rows \<Longrightarrow>
   dict_get (fold (load_row now ids) rows d) sy = Some (loaded_holding now (ids sy) (sy, b) r)"
proof (induction rows arbitrary: d)
  case Nil
  then show ?case by simp
next
  case (Cons kr rows)
  show ?case
  proof (cases "kr = ((sy, b), r)")
    case True
    with Cons.prems have "sy \<notin> (\<lambda>kr. fst (fst kr)) ` set rows" by simp
    then have "dict_get (fold (load_row now ids) rows (load_row now ids kr d)) sy
        = dict_get (load_row now ids kr d) sy" by (rule load_other)
    also have "\<dots> = Some (loaded_holding now (ids sy) (sy, b) r)"
      using True by (simp add: load_row_def dict_get_set)
    finally show ?thesis by simp
  next
    case False
    with Cons show ?thesis by auto
  qed
qed

lemma mirrors_rows_distinct:
  assumes "mirrors s"
  shows "distinct (map (\<lambda>kr. fst (fst kr)) (t_holdings (sp_db s)))"
proof -
  have base: "snd (fst kr) = base_asset_of (fst (fst kr))" if "kr \<in> set (t_holdings (sp_db s))" for kr
    using that mirrorsD(2) [OF assms] mirrorsD(5) [OF assms, of "fst (fst kr)" "snd (fst kr)" "snd kr"]
    by (simp add: dict_ok_def)
  have "inj_on fst (fst ` set (t_holdings (sp_db s)))"
  proof (rule inj_onI)
    fix x y
    assume "x \<in> fst ` set (t_holdings (sp_db s))" "y \<in> fst ` set (t_holdings (sp_db s))" "fst x = fst y"
    then show "x = y" using base by (metis imageE prod_eqI)
  qed
  then have "distinct (map fst (map fst (t_holdings (sp_db s))))"
    using mirrorsD(2) [OF assms] by (simp only: distinct_map dict_ok_def set_map)
  then show ?thesis by (simp add: comp_def)
qed


lemma reload_mirrors:
  assumes m: "mirrors s"
  shows "dict_get (load_holdings_from_db now ids (sp_db s)) sy =
    (case dict_get (sp_holdings s) sy of None \<Rightarrow> None
     | Some h \<Rightarrow> Some \<lparr>h_trade_id = ids sy, h_symbol = sy, h_base_asset = h_base_asset h, h_qty = h_qty h,
         h_avg_entry_price = h_avg_entry_price h,
         h_current_price = first_truthy (Some (h_current_price h)) (Some (h_avg_entry_price h)),
         h_entry_fee = h_entry_fee h, h_purchase_value_usdt = h_purchase_value_usdt h,
         h_opened_at_ms = now\<rparr>)"
proof (cases "dict_get (sp_holdings s) sy")
  case None
  have "sy \<notin> (\<lambda>kr. fst (fst kr)) ` set (t_holdings (sp_db s))"
  proof
    assume "sy \<in> (\<lambda>kr. fst (fst kr)) ` set (t_holdings (sp_db s))"
    then obtain b r where "((sy, b), r) \<in> set (t_holdings (sp_db s))" by auto
    with mirrorsD(2) [OF m] have "dict_get (t_holdings (sp_db s)) (sy, b) = Some r"
      by (simp add: dict_ok_def)
    from mirrorsD(5) [OF m this] None show False by simp
  qed
  from load_other [OF this] None show ?thesis by (simp add: load_holdings_from_db_def)
next
  case (Some h)
  then obtain r where r: "dict_get (t_holdings (sp_db s)) (sy, base_asset_of sy) = Some r" "mirrors_row h r"
    using mirrors_held [OF m] by blast
  from load_row_found [OF mirrors_rows_distinct [OF m] map_of_SomeD [OF r(1)], of now ids] r(2) Some
    mirrorsD(3) [OF m Some]
  show ?thesis by (simp add: load_holdings_from_db_def loaded_holding_def mirrors_row_def)
qed

section \<open>Properties\<close>

definition empty_spot_db :: spot_db where
  "empty_spot_db = \<lparr>t_holdings = [], t_orders = [], t_fills = []\<rparr>"

lemma mirrors_fresh: "mirrors (new_spot_engine now ids ok balance empty_spot_db)"
  by (simp add: mirrors_def new_spot_engine_def empty_spot_db_def load_holdings_from_db_def)

text \<open>
  C3: the cash ledger of the spot engine. Over any run of purchases, sales and price ticks,
  under any exit policy and with any pattern of failing database transactions, the cash plus
  what the open holdings cost (price and entry fee) moves by exactly the net profits of the
  trades the engine reported. With positive prices and quantities the cash never goes below
  zero.
\<close>

theorem spot_cash_ledger:
  assumes "dict_ok (sp_holdings s)"
  shows "book_value (run (spot_step on_tick) s es) =
      book_value s + run_total (spot_step on_tick) (realised on_tick) s es
    \<and> (solvent s \<and> list_all sane_spot es \<longrightarrow> 0 \<le> sp_balance (run (spot_step on_tick) s es))"
  using spot_ledger.measured_run [OF assms, of es on_tick]
    spot_solvency.inv_run [of s es on_tick]
  by (simp add: list_all_iff solvent_def)

abbreviation demo_spot :: spot_engine where
  "demo_spot \<equiv> new_spot_engine 0 (\<lambda>_. ''u'') True 10000 empty_spot_db"

abbreviation demo_trades :: "spot_event list" where
  "demo_trades \<equiv> [BuyEvent ''a'' 1 True ''ETHUSDT'' 2 1000 990 1100,
     TickEvent ''e'' ''b'' 2 True True ''ETHUSDT'' 1050, SellEvent ''f'' ''c'' 3 True ''ETHUSDT'' 1080 ''manual'']"

theorem spot_cash_ledger_witness:
  "book_value (run (spot_step (simple_on_tick 0)) demo_spot demo_trades) =
     book_value demo_spot + run_total (spot_step (simple_on_tick 0)) (realised (simple_on_tick 0)) demo_spot demo_trades
   \<and> 0 \<le> sp_balance (run (spot_step (simple_on_tick 0)) demo_spot demo_trades)"
  using spot_cash_ledger [of demo_spot "simple_on_tick 0" demo_trades]
  by (simp add: new_spot_engine_def empty_spot_db_def load_holdings_from_db_def solvent_def)

text \<open>
  C21: the database follows the cache. After any run from an empty database in which every
  transaction commits and every order has an identifier of its own, an engine started on the
  tables holds the same symbols as the engine that wrote them, with the same quantity, entry
  price, entry fee and purchase value, and the last price unless that is zero.
\<close>

theorem spot_restart_roundtrip:
  fixes on_tick now ids ok balance
  assumes "list_all committed es" and "distinct (map event_id es)"
  defines "s \<equiv> run (spot_step on_tick) (new_spot_engine now ids ok balance empty_spot_db) es"
  shows "dict_get (sp_holdings (new_spot_engine now' ids' True balance' (sp_db s))) sy =
    map_option (\<lambda>h. h\<lparr>h_trade_id := ids' sy, h_opened_at_ms := now',
        h_current_price := if h_current_price h = 0 then h_avg_entry_price h else h_current_price h\<rparr>)
      (dict_get (sp_holdings s) sy)"
proof -
  have "mirrors s"
    unfolding s_def using assms(1,2)
    by (intro mirrors_run mirrors_fresh) (simp_all add: new_spot_engine_def order_links_def empty_spot_db_def)
  from reload_mirrors [OF this, of now' ids' sy] mirrorsD(3) [OF this, of sy]
  show ?thesis by (cases "dict_get (sp_holdings s) sy") (simp_all add: new_spot_engine_def first_truthy_def)
qed

theorem spot_restart_roundtrip_witness:
  "map_option h_qty (dict_get (sp_holdings (new_spot_engine 9 (\<lambda>_. ''v'') True 0
      (sp_db (run (spot_step (simple_on_tick 0)) demo_spot (take 2 demo_trades))))) ''ETHUSDT'') = Some 2"
proof -
  have held: "map_option h_qty (dict_get (sp_holdings
      (run (spot_step (simple_on_tick 0)) demo_spot (take 2 demo_trades))) ''ETHUSDT'') = Some 2"
    by (simp add: spot_step_def new_spot_engine_def empty_spot_db_def load_holdings_from_db_def buy_def
        SPOT_FEE_RATE_def on_price_tick_def simple_on_tick_def position_of_def Let_def HOLD_def)
  show ?thesis
    using held spot_restart_roundtrip [of "take 2 demo_trades" 9 "\<lambda>_. ''v''" 0 "simple_on_tick 0" 0
        "\<lambda>_. ''u''" True 10000 "''ETHUSDT''"]
    by (simp add: option.map_comp comp_def)
qed

text \<open>
  A restart drops the protection. The constructor loads the holdings but not their
  stop-loss and take-profit levels, so the levels read as zero; whatever the levels were and
  whatever the price has done, the first price tick of a held symbol after a restart sells the
  holding with the reason \<open>tp_hit\<close>.
\<close>

theorem spot_restart_sells_on_first_tick:
  fixes now ids balance db
  defines "s \<equiv> new_spot_engine now ids True balance db"
  assumes "dict_get (sp_holdings s) sy = Some h" and "0 < price"
  shows "map ct_exit_reason (snd (on_price_tick (simple_on_tick timeout) eid oid now' ok ok' sy price s)) = [''tp_hit'']
    \<and> dict_get (sp_holdings (fst (on_price_tick (simple_on_tick timeout) eid oid now' ok ok' sy price s))) sy = None"
proof -
  have none: "sp_protection (refresh_price ok sy price h s) = Map.empty"
    by (simp add: refresh_price_def s_def new_spot_engine_def Let_def)
  have "simple_on_tick timeout now' (position_of (refresh_price ok sy price h s) sy price (h\<lparr>h_current_price := price\<rparr>))
      = close_all ''tp_hit''"
    using assms(3) by (simp add: simple_on_tick_def position_of_def none Let_def)
  then show ?thesis
    by (simp add: tick_some [OF assms(2)] Let_def with_trades_def close_all_def)
      (simp add: sell_def refresh_get Let_def dict_get_pop)
qed

abbreviation held_row :: "(string \<times> string) \<times> holding_row" where
  "held_row \<equiv> ((''ETHUSDT'', ''ETH''), \<lparr>r_free_qty = 2, r_avg_entry_price = Some 1000,
     r_current_price = Some 1005, r_purchase_value_usdt = Some 2000, r_current_value_usdt = 2010,
     r_unrealized_pnl = 10, r_unrealized_pnl_pct = 1 / 200\<rparr>)"

theorem spot_restart_sells_on_first_tick_witness:
  "map ct_exit_reason (snd (on_price_tick (simple_on_tick 28800000) ''e'' ''o'' 7 True True ''ETHUSDT'' 1005
     (new_spot_engine 0 (\<lambda>_. ''u'') True 10000 (empty_spot_db\<lparr>t_holdings := [held_row]\<rparr>)))) = [''tp_hit'']"
  using spot_restart_sells_on_first_tick [of 0 "\<lambda>_. ''u''" 10000 "empty_spot_db\<lparr>t_holdings := [held_row]\<rparr>"
      "''ETHUSDT''" "loaded_holding 0 ''u'' (fst held_row) (snd held_row)" 1005 28800000 "''e''" "''o''" 7 True True]
  by (simp add: new_spot_engine_def load_holdings_from_db_def load_row_def)

text \<open>
  The statistics see no profit. The query joins a sell fill with the order that carries
  the same link, which is the sell order itself, so entry and exit price are the same: after any
  run from an empty database the statistics count every recorded sale (up to the limit of the
  query), no win, and a total profit of zero.
\<close>

theorem spot_stats_always_zero:
  fixes on_tick now ids ok balance es
  defines "db \<equiv> sp_db (run (spot_step on_tick) (new_spot_engine now ids ok balance empty_spot_db) es)"
  shows "get_stats db = \<lparr>st_total = min 500 (length (t_fills db)), st_wins = 0, st_total_pnl = 0\<rparr>"
proof -
  have own: "own_orders db"
    unfolding db_def
    by (rule spot_tables.inv_run) (simp_all add: new_spot_engine_def own_orders_def empty_spot_db_def list_all_iff)
  have "sum_list (map row_pnl (stats_rows db)) = 0"
    using stats_rows_own [OF own] by (intro sum_list_nonneg_eq_0_iff [THEN iffD2]) auto
  moreover have "filter (\<lambda>r. 0 < row_pnl r) (stats_rows db) = []"
    using stats_rows_own [OF own] by (auto simp: filter_empty_conv)
  moreover have "length (stats_rows db) = min 500 (length (t_fills db))"
    using joined_fills_own(1) [OF own] by (simp add: stats_rows_def)
  ultimately show ?thesis by (simp add: get_stats_def)
qed

end
