(* ===== verification/Futures_Paper.thy ===== *)
theory Futures_Paper
  imports Position_Policy Stores
begin

text \<open>
  The futures paper engine, \<open>src/botik/execution/futures_paper.py\<close>. The engine keeps no cache:
  its state are the tables \<open>futures_positions\<close> (unique per account, symbol and side),
  \<open>futures_paper_trades\<close> (unique trade id; a row is open while \<open>closed_at_utc\<close> is NULL) and
  \<open>futures_protection_orders\<close> (unique per symbol and side).

  Time stamps of rows have a resolution of one second and are kept as that number of seconds;
  the clock in milliseconds is a separate parameter. Columns the code only writes (leverage,
  strategy owner, spike data, model version) are left out, and the alerts and log lines with them.
  A database call either commits or raises, in which case the source logs the error and goes on.
\<close>

record futures_position_row =
  fr_size :: real
  fr_entry_price :: real
  fr_mark_price :: real
  fr_unrealised_pnl :: real

record futures_trade =
  ft_trade_id :: string
  ft_symbol :: string
  ft_side :: string
  ft_entry_price :: real
  ft_qty :: real
  ft_model_scope :: string
  ft_opened_at :: int
  ft_exit_price :: "real option"
  ft_gross_pnl :: "real option"
  ft_net_pnl :: "real option"
  ft_hold_time_ms :: "int option"
  ft_exit_reason :: "string option"
  ft_was_profitable :: "bool option"
  ft_closed_at :: "int option"

record futures_db =
  f_positions :: "(string \<times> string \<times> string, futures_position_row) dict"
  f_trades :: "futures_trade list"
  f_protection :: "(string \<times> string, real \<times> real) dict"

record close_result =
  cr_trade_id :: string
  cr_symbol :: string
  cr_side :: string
  cr_exit_price :: real
  cr_net_pnl :: real
  cr_exit_reason :: string
  cr_was_profitable :: bool

definition TAKER_FEE :: real where
  "TAKER_FEE = 55 / 100000"

section \<open>Operations\<close>

definition new_trade :: "string \<Rightarrow> string \<Rightarrow> string \<Rightarrow> real \<Rightarrow> real \<Rightarrow> string \<Rightarrow> int \<Rightarrow> futures_trade" where
  "new_trade trade_id symbol side entry_price qty model_scope now_s =
     \<lparr>ft_trade_id = trade_id, ft_symbol = symbol, ft_side = side, ft_entry_price = entry_price,
      ft_qty = qty, ft_model_scope = model_scope, ft_opened_at = now_s, ft_exit_price = None,
      ft_gross_pnl = None, ft_net_pnl = None, ft_hold_time_ms = None, ft_exit_reason = None,
      ft_was_profitable = None, ft_closed_at = None\<rparr>"

text \<open>A second row with the same trade id is an integrity error: the transaction rolls back.\<close>

definition open_position ::
    "string \<Rightarrow> int \<Rightarrow> bool \<Rightarrow> string \<Rightarrow> string \<Rightarrow> string \<Rightarrow> string \<Rightarrow> real \<Rightarrow> real
     \<Rightarrow> futures_db \<Rightarrow> futures_db \<times> string" where
  "open_position trade_id now_s db_ok account_type model_scope symbol side entry_price qty db =
     (if \<not> db_ok \<or> trade_id \<in> ft_trade_id ` set (f_trades db) then (db, [])
      else (db\<lparr>f_positions := dict_set (account_type, symbol, side)
                  \<lparr>fr_size = qty, fr_entry_price = entry_price, fr_mark_price = entry_price,
                   fr_unrealised_pnl = 0\<rparr> (f_positions db),
               f_trades := f_trades db @ [new_trade trade_id symbol side entry_price qty model_scope now_s]\<rparr>,
            trade_id))"

definition gross_pnl :: "string \<Rightarrow> real \<Rightarrow> real \<Rightarrow> real \<Rightarrow> real" where
  "gross_pnl side entry_price exit_price qty_closed =
     (if side = ''long'' then (exit_price - entry_price) * qty_closed
      else (entry_price - exit_price) * qty_closed)"

definition net_pnl :: "string \<Rightarrow> real \<Rightarrow> real \<Rightarrow> real \<Rightarrow> real" where
  "net_pnl side entry_price exit_price qty_closed =
     gross_pnl side entry_price exit_price qty_closed - exit_price * qty_closed * TAKER_FEE"

text \<open>The columns the update of a closed trade writes.\<close>

definition close_row ::
    "string \<Rightarrow> real \<Rightarrow> real \<Rightarrow> real \<Rightarrow> string \<Rightarrow> int option \<Rightarrow> int \<Rightarrow> futures_trade \<Rightarrow> futures_trade" where
  "close_row side entry_price exit_price qty_closed exit_reason hold_ms now_s t =
     t\<lparr>ft_exit_price := Some exit_price,
       ft_gross_pnl := Some (gross_pnl side entry_price exit_price qty_closed),
       ft_net_pnl := Some (net_pnl side entry_price exit_price qty_closed),
       ft_hold_time_ms := hold_ms, ft_exit_reason := Some exit_reason,
       ft_was_profitable := Some (net_pnl side entry_price exit_price qty_closed > 0),
       ft_closed_at := Some now_s\<rparr>"

definition close_position ::
    "int \<Rightarrow> int \<Rightarrow> bool \<Rightarrow> string \<Rightarrow> string \<Rightarrow> string \<Rightarrow> string \<Rightarrow> real \<Rightarrow> real \<Rightarrow> string \<Rightarrow> real
     \<Rightarrow> int option \<Rightarrow> futures_db \<Rightarrow> futures_db \<times> close_result" where
  "close_position now_s now_ms db_ok account_type trade_id symbol side exit_price qty_closed
       exit_reason entry_price opened_at_ms db =
     (let net = net_pnl side entry_price exit_price qty_closed;
          hold_ms = (case opened_at_ms of None \<Rightarrow> None
                     | Some t \<Rightarrow> if t = 0 then None else Some (now_ms - t));
          key = (account_type, symbol, side);
          db' = (if db_ok then
                   db\<lparr>f_trades := map (\<lambda>t. if ft_trade_id t = trade_id
                         then close_row side entry_price exit_price qty_closed exit_reason hold_ms now_s t
                         else t) (f_trades db),
                      f_positions := (case dict_get (f_positions db) key of None \<Rightarrow> f_positions db
                         | Some r \<Rightarrow> dict_set key (r\<lparr>fr_size := 0, fr_unrealised_pnl := 0\<rparr>) (f_positions db))\<rparr>
                 else db)
      in (db', \<lparr>cr_trade_id = trade_id, cr_symbol = symbol, cr_side = side, cr_exit_price = exit_price,
                cr_net_pnl = net, cr_exit_reason = exit_reason, cr_was_profitable = (net > 0)\<rparr>))"

text \<open>\<open>get_open_positions\<close>: an empty symbol means all of them; a failing query yields no row.\<close>

definition get_open_positions :: "bool \<Rightarrow> string option \<Rightarrow> futures_db \<Rightarrow> futures_trade list" where
  "get_open_positions db_ok symbol db =
     (if \<not> db_ok then []
      else case symbol of
          None \<Rightarrow> filter (\<lambda>t. ft_closed_at t = None) (f_trades db)
        | Some sy \<Rightarrow> filter (\<lambda>t. (sy = [] \<or> ft_symbol t = sy) \<and> ft_closed_at t = None) (f_trades db))"

text \<open>
  \<open>_load_open_positions\<close>: the open trades of the symbol, each with the protection levels of its
  symbol and side if there are any. Both joins are over unique keys, so they add at most one
  row each, and the column of \<open>futures_positions\<close> is not used.
\<close>

definition load_open_positions ::
    "bool \<Rightarrow> string \<Rightarrow> futures_db \<Rightarrow> (futures_trade \<times> (real \<times> real) option) list" where
  "load_open_positions db_ok symbol db =
     (if db_ok then
        map (\<lambda>t. (t, dict_get (f_protection db) (ft_symbol t, ft_side t)))
          (filter (\<lambda>t. ft_symbol t = symbol \<and> ft_closed_at t = None) (f_trades db))
      else [])"

definition update_mark_price ::
    "bool \<Rightarrow> string \<Rightarrow> string \<Rightarrow> string \<Rightarrow> real \<Rightarrow> real \<Rightarrow> futures_db \<Rightarrow> futures_db" where
  "update_mark_price db_ok account_type symbol side mark pnl db =
     (if \<not> db_ok then db
      else case dict_get (f_positions db) (account_type, symbol, side) of
          None \<Rightarrow> db
        | Some r \<Rightarrow> db\<lparr>f_positions := dict_set (account_type, symbol, side)
            (r\<lparr>fr_mark_price := mark, fr_unrealised_pnl := pnl\<rparr>) (f_positions db)\<rparr>)"

definition save_protection :: "bool \<Rightarrow> string \<Rightarrow> string \<Rightarrow> real \<Rightarrow> real \<Rightarrow> futures_db \<Rightarrow> futures_db" where
  "save_protection db_ok symbol side sl tp db =
     (if db_ok then db\<lparr>f_protection := dict_set (symbol, side) (sl, tp) (f_protection db)\<rparr> else db)"

definition row_position ::
    "string \<Rightarrow> real \<Rightarrow> futures_trade \<times> (real \<times> real) option \<Rightarrow> position" where
  "row_position symbol mark row =
     (let t = fst row in
      \<lparr>p_trade_id = ft_trade_id t, p_symbol = symbol, p_side = ft_side t,
       p_entry_price = ft_entry_price t, p_qty = ft_qty t,
       p_stop_loss = (case snd row of None \<Rightarrow> 0 | Some (sl, tp) \<Rightarrow> sl),
       p_take_profit = (case snd row of None \<Rightarrow> 0 | Some (sl, tp) \<Rightarrow> tp),
       p_mark_price = mark, p_opened_at_ms = ft_opened_at t * 1000, p_partial_closed_qty = 0\<rparr>)"

text \<open>
  One iteration of the loop of \<open>on_price_tick\<close>. \<open>faults\<close> says for each trade id whether the two
  transactions of its iteration commit.
\<close>

definition tick_row ::
    "(int \<Rightarrow> position \<Rightarrow> policy_action) \<Rightarrow> (string \<Rightarrow> bool \<times> bool) \<Rightarrow> int \<Rightarrow> int \<Rightarrow> string \<Rightarrow> string \<Rightarrow> real
     \<Rightarrow> futures_trade \<times> (real \<times> real) option \<Rightarrow> futures_db \<times> close_result list
     \<Rightarrow> futures_db \<times> close_result list" where
  "tick_row on_tick faults now_s now_ms account_type symbol mark row dc =
     (let (db, closed) = dc;
          pos = row_position symbol mark row;
          action = on_tick now_ms pos;
          (ok1, ok2) = faults (p_trade_id pos);
          db = update_mark_price ok1 account_type symbol (p_side pos) mark (unrealized_pnl pos) db
      in if pa_action action \<in> {''close_all'', ''close_partial''} then
           let qty = (if pa_action action = ''close_all'' then p_qty pos else p_qty pos * pa_qty_pct action);
               (db, result) = close_position now_s now_ms ok2 account_type (p_trade_id pos) symbol
                  (p_side pos) mark qty (pa_reason action) (p_entry_price pos) None db
           in (db, closed @ [result])
         else (db, closed))"

definition on_futures_tick ::
    "(int \<Rightarrow> position \<Rightarrow> policy_action) \<Rightarrow> bool \<Rightarrow> (string \<Rightarrow> bool \<times> bool) \<Rightarrow> int \<Rightarrow> int \<Rightarrow> string \<Rightarrow> string
     \<Rightarrow> real \<Rightarrow> futures_db \<Rightarrow> futures_db \<times> close_result list" where
  "on_futures_tick on_tick load_ok faults now_s now_ms account_type symbol mark db =
     fold (tick_row on_tick faults now_s now_ms account_type symbol mark)
       (load_open_positions load_ok symbol db) (db, [])"

section \<open>Statistics\<close>

definition closed_in_scope :: "string \<Rightarrow> futures_db \<Rightarrow> futures_trade list" where
  "closed_in_scope scope db =
     filter (\<lambda>t. ft_closed_at t \<noteq> None \<and> ft_model_scope t = scope) (f_trades db)"

definition known_values :: "(futures_trade \<Rightarrow> real option) \<Rightarrow> futures_trade list \<Rightarrow> real list" where
  "known_values col ts = List.map_filter col ts"

text \<open>
  The one row of the aggregate query: the count, the number of profitable trades, the sum and
  the average of the net profits. An aggregate over no value is NULL.
\<close>

definition stats_row :: "string \<Rightarrow> futures_db \<Rightarrow> real option list" where
  "stats_row scope db =
     (let ts = closed_in_scope scope db; pnl = known_values ft_net_pnl ts in
      [Some (real (length ts)),
       (if ts = [] then None else Some (real (length (filter (\<lambda>t. ft_was_profitable t = Some True) ts)))),
       (if pnl = [] then None else Some (sum_list pnl)),
       (if pnl = [] then None else Some (sum_list pnl / real (length pnl)))])"

text \<open>
  \<open>get_stats\<close>: the result is a dictionary; any exception is logged and answered with the empty
  one. The keys are read from the row by position, as the code does.
\<close>

definition futures_get_stats :: "bool \<Rightarrow> string \<Rightarrow> futures_db \<Rightarrow> (string, real) dict" where
  "futures_get_stats db_ok scope db =
     (if \<not> db_ok then []
      else
        let row = stats_row scope db in
        if or_zero (row ! 0) = 0
        then [(''total'', 0), (''wins'', 0), (''win_rate'', 0), (''total_pnl'', 0)]
        else
          let total = or_zero (row ! 0); wins = or_zero (row ! 1) in
          case (py_index row 3, py_index row 4) of
            (Inr c3, Inr c4) \<Rightarrow>
              [(''total'', total), (''wins'', wins), (''win_rate'', py_round 1 (wins / total * 100)),
               (''total_pnl'', py_round 4 (or_zero c3)), (''avg_pnl'', py_round 4 (or_zero c4))]
          | _ \<Rightarrow> [])"

section \<open>The loop as one pass\<close>

text \<open>What the policy decides for an open row, and the row the engine makes of it.\<close>

definition exit_action ::
    "(int \<Rightarrow> position \<Rightarrow> policy_action) \<Rightarrow> int \<Rightarrow> string \<Rightarrow> real \<Rightarrow> futures_trade \<times> (real \<times> real) option \<Rightarrow> policy_action" where
  "exit_action on_tick now_ms symbol mark row = on_tick now_ms (row_position symbol mark row)"

definition exits :: "policy_action \<Rightarrow> bool" where
  "exits a \<longleftrightarrow> pa_action a \<in> {''close_all'', ''close_partial''}"

definition exit_share :: "policy_action \<Rightarrow> real" where
  "exit_share a = (if pa_action a = ''close_all'' then 1 else pa_qty_pct a)"

definition exited :: "policy_action \<Rightarrow> int \<Rightarrow> real \<Rightarrow> futures_trade \<Rightarrow> futures_trade" where
  "exited a now_s mark t =
     close_row (ft_side t) (ft_entry_price t) mark (ft_qty t * exit_share a) (pa_reason a) None now_s t"

definition exit_result :: "policy_action \<Rightarrow> string \<Rightarrow> real \<Rightarrow> futures_trade \<Rightarrow> close_result" where
  "exit_result a symbol mark t =
     (let net = net_pnl (ft_side t) (ft_entry_price t) mark (ft_qty t * exit_share a) in
      \<lparr>cr_trade_id = ft_trade_id t, cr_symbol = symbol, cr_side = ft_side t, cr_exit_price = mark,
       cr_net_pnl = net, cr_exit_reason = pa_reason a, cr_was_profitable = (net > 0)\<rparr>)"

lemma row_position_sel [simp]:
  "p_trade_id (row_position sy m row) = ft_trade_id (fst row)"
  "p_side (row_position sy m row) = ft_side (fst row)"
  "p_entry_price (row_position sy m row) = ft_entry_price (fst row)"
  "p_qty (row_position sy m row) = ft_qty (fst row)"
  by (simp_all add: row_position_def Let_def)

lemma close_row_sel [simp]:
  "ft_trade_id (close_row sd e x q r h n t) = ft_trade_id t"
  "ft_symbol (close_row sd e x q r h n t) = ft_symbol t"
  "ft_side (close_row sd e x q r h n t) = ft_side t"
  "ft_closed_at (close_row sd e x q r h n t) = Some n"
  "ft_model_scope (close_row sd e x q r h n t) = ft_model_scope t"
  by (simp_all add: close_row_def)

lemma update_mark_trades [simp]:
  "f_trades (update_mark_price ok acc sy sd m pnl db) = f_trades db"
  "f_protection (update_mark_price ok acc sy sd m pnl db) = f_protection db"
  by (simp_all add: update_mark_price_def split: option.splits)

lemma close_position_trades:
  "f_trades (fst (close_position s ms True acc tid sy sd x q r e None db)) =
     map (\<lambda>t. if ft_trade_id t = tid then close_row sd e x q r None s t else t) (f_trades db)"
  "f_protection (fst (close_position s ms ok acc tid sy sd x q r e op db)) = f_protection db"
  by (simp_all add: close_position_def Let_def)

definition close_one :: "(int \<Rightarrow> position \<Rightarrow> policy_action) \<Rightarrow> int \<Rightarrow> int \<Rightarrow> string \<Rightarrow> real
    \<Rightarrow> futures_trade \<times> (real \<times> real) option \<Rightarrow> futures_trade \<Rightarrow> futures_trade" where
  "close_one on_tick now_s now_ms symbol mark row t =
     (let a = exit_action on_tick now_ms symbol mark row; r = fst row in
      if exits a \<and> ft_trade_id t = ft_trade_id r
      then close_row (ft_side r) (ft_entry_price r) mark (ft_qty r * exit_share a) (pa_reason a) None now_s t
      else t)"

lemma close_one_stays: "\<not> exits (exit_action on_tick ms sy m row) \<Longrightarrow> close_one on_tick s ms sy m row = (\<lambda>t. t)"
  by (rule ext) (simp add: close_one_def Let_def)

lemma tick_row_trades:
  "f_trades (fst (tick_row on_tick (\<lambda>_. (True, True)) s ms acc sy m row (db, cl))) =
     map (close_one on_tick s ms sy m row) (f_trades db)"
  "snd (tick_row on_tick f s ms acc sy m row (db, cl)) =
     cl @ (if exits (exit_action on_tick ms sy m row)
           then [exit_result (exit_action on_tick ms sy m row) sy m (fst row)] else [])"
proof -
  show "f_trades (fst (tick_row on_tick (\<lambda>_. (True, True)) s ms acc sy m row (db, cl))) =
     map (close_one on_tick s ms sy m row) (f_trades db)"
  proof (cases "exits (exit_action on_tick ms sy m row)")
    case True
    then show ?thesis
      by (auto simp: tick_row_def Let_def close_one_def exit_action_def exits_def exit_share_def close_position_def)
  next
    case False
    then show ?thesis
      by (simp add: close_one_stays) (simp add: tick_row_def Let_def exit_action_def exits_def)
  qed
qed (auto simp: tick_row_def Let_def exit_action_def exits_def exit_share_def exit_result_def
      close_position_def split: prod.splits)

lemma tick_rows_trades:
  "f_trades (fst (fold (tick_row on_tick (\<lambda>_. (True, True)) s ms acc sy m) rows (db, cl))) =
     map (\<lambda>t. fold (close_one on_tick s ms sy m) rows t) (f_trades db)"
proof (induction rows arbitrary: db cl)
  case Nil
  then show ?case by simp
next
  case (Cons row rows)
  obtain db' cl' where step: "tick_row on_tick (\<lambda>_. (True, True)) s ms acc sy m row (db, cl) = (db', cl')"
    by fastforce
  with tick_row_trades(1) [of on_tick s ms acc sy m row db cl] Cons [of db' cl']
  show ?case by (simp add: comp_def)
qed

lemma tick_rows_results:
  "snd (fold (tick_row on_tick f s ms acc sy m) rows (db, cl)) =
     cl @ map (\<lambda>row. exit_result (exit_action on_tick ms sy m row) sy m (fst row))
            (filter (\<lambda>row. exits (exit_action on_tick ms sy m row)) rows)"
proof (induction rows arbitrary: db cl)
  case Nil
  then show ?case by simp
next
  case (Cons row rows)
  obtain db' cl' where step: "tick_row on_tick f s ms acc sy m row (db, cl) = (db', cl')"
    by fastforce
  with tick_row_trades(2) [of on_tick f s ms acc sy m row db cl] Cons [of db' cl']
  show ?case by simp
qed

lemma fold_close_other:
  "ft_trade_id t \<notin> (\<lambda>row. ft_trade_id (fst row)) ` set rows \<Longrightarrow> fold (close_one on_tick s ms sy m) rows t = t"
  by (induction rows) (auto simp: close_one_def Let_def)

lemma close_one_id [simp]: "ft_trade_id (close_one on_tick s ms sy m row t) = ft_trade_id t"
  by (simp add: close_one_def Let_def)

lemma fold_close_own:
  "distinct (map (\<lambda>row. ft_trade_id (fst row)) rows) \<Longrightarrow> row \<in> set rows \<Longrightarrow> fst row = t \<Longrightarrow>
   fold (close_one on_tick s ms sy m) rows t = close_one on_tick s ms sy m row t"
proof (induction rows)
  case Nil
  then show ?case by simp
next
  case (Cons r rows)
  show ?case
  proof (cases "r = row")
    case True
    with Cons.prems have "ft_trade_id (close_one on_tick s ms sy m row t) \<notin> (\<lambda>row. ft_trade_id (fst row)) ` set rows"
      by simp
    from fold_close_other [OF this] True show ?thesis by simp
  next
    case False
    with Cons.prems have "ft_trade_id t \<noteq> ft_trade_id (fst r)" by (auto simp: image_iff)
    then have "close_one on_tick s ms sy m r t = t" by (simp add: close_one_def Let_def)
    with Cons False show ?thesis by simp
  qed
qed

section \<open>Properties\<close>

text \<open>
  C12: one tick is one pass over the table. When every transaction commits and trade ids are
  unique, a price tick changes exactly the open trades of its symbol for which the policy, asked
  with the levels of their symbol and side, wants to close all or a part; each of them becomes
  closed with the profit of that share net of the fee, and the list returned has one result for
  each of them, in table order. A partial exit closes the whole row, and the holding time of
  every row the loop closes stays NULL.
\<close>

theorem futures_tick_closes_exactly:
  fixes on_tick now_ms now_s sy mark acc
  assumes "distinct (map ft_trade_id (f_trades db))"
  defines "act \<equiv> \<lambda>t. exit_action on_tick now_ms sy mark (t, dict_get (f_protection db) (ft_symbol t, ft_side t))"
    and "r \<equiv> on_futures_tick on_tick True (\<lambda>_. (True, True)) now_s now_ms acc sy mark db"
    and "is_open \<equiv> \<lambda>t. ft_symbol t = sy \<and> ft_closed_at t = None"
  shows "f_trades (fst r) = map (\<lambda>t. if is_open t \<and> exits (act t) then exited (act t) now_s mark t else t) (f_trades db)
    \<and> snd r = map (\<lambda>t. exit_result (act t) sy mark t) (filter (\<lambda>t. is_open t \<and> exits (act t)) (f_trades db))
    \<and> (\<forall>t. ft_hold_time_ms (exited (act t) now_s mark t) = None)"
proof (intro conjI)
  let ?lev = "\<lambda>t. (t, dict_get (f_protection db) (ft_symbol t, ft_side t))"
  let ?rows = "map ?lev (filter is_open (f_trades db))"
  have rows: "load_open_positions True sy db = ?rows"
    by (simp add: load_open_positions_def is_open_def)
  have "distinct (map ft_trade_id (filter is_open (f_trades db)))"
    using assms(1) by (rule distinct_map_filter)
  then have dist: "distinct (map (\<lambda>row. ft_trade_id (fst row)) ?rows)" by (simp add: comp_def)
  have "fold (close_one on_tick now_s now_ms sy mark) ?rows t =
      (if is_open t \<and> exits (act t) then exited (act t) now_s mark t else t)" if t: "t \<in> set (f_trades db)" for t
  proof (cases "is_open t")
    case True
    with t have "?lev t \<in> set ?rows" by simp
    from fold_close_own [OF dist this, of t] True show ?thesis
      by (simp add: close_one_def Let_def act_def exited_def)
  next
    case False
    have "ft_trade_id t \<noteq> ft_trade_id u" if "u \<in> set (f_trades db)" "is_open u" for u
      using that t False assms(1) by (auto simp: distinct_map dest: inj_onD)
    then have "ft_trade_id t \<notin> (\<lambda>row. ft_trade_id (fst row)) ` set ?rows"
      by (simp add: image_iff)
    from fold_close_other [OF this] False show ?thesis by simp
  qed
  then show "f_trades (fst r) = map (\<lambda>t. if is_open t \<and> exits (act t) then exited (act t) now_s mark t else t) (f_trades db)"
    by (simp add: r_def on_futures_tick_def rows tick_rows_trades)
  show "snd r = map (\<lambda>t. exit_result (act t) sy mark t) (filter (\<lambda>t. is_open t \<and> exits (act t)) (f_trades db))"
    by (simp add: r_def on_futures_tick_def rows tick_rows_results filter_map comp_def act_def conj_commute)
  show "\<forall>t. ft_hold_time_ms (exited (act t) now_s mark t) = None"
    by (simp add: exited_def close_row_def)
qed

abbreviation demo_futures :: futures_db where
  "demo_futures \<equiv> \<lparr>f_positions = [((''PAPER'', ''BTCUSDT'', ''long''),
       \<lparr>fr_size = 2, fr_entry_price = 100, fr_mark_price = 100, fr_unrealised_pnl = 0\<rparr>)],
     f_trades = [new_trade ''t1'' ''BTCUSDT'' ''long'' 100 2 ''futures'' 10,
                 new_trade ''t2'' ''ETHUSDT'' ''short'' 50 1 ''futures'' 11],
     f_protection = [((''BTCUSDT'', ''long''), (95, 110))]\<rparr>"

theorem futures_tick_closes_exactly_witness:
  "map ft_net_pnl (f_trades (fst (on_futures_tick (simple_on_tick 0) True (\<lambda>_. (True, True)) 20 20000
       ''PAPER'' ''BTCUSDT'' 110 demo_futures))) = [Some (20 - 220 * TAKER_FEE), None]"
  using futures_tick_closes_exactly [where db = demo_futures and on_tick = "simple_on_tick 0"
      and now_ms = 20000 and now_s = 20 and sy = "''BTCUSDT''" and mark = 110 and acc = "''PAPER''"]
  by (simp add: new_trade_def exit_action_def simple_on_tick_def row_position_def Let_def exits_def
      exited_def close_row_def net_pnl_def gross_pnl_def close_all_def exit_share_def)

text \<open>
  A position without stored levels does not survive its first tick. Opening a position
  stores no stop-loss and take-profit; until they are saved in a separate call, they read as zero,
  and the next price tick closes a new position at once, a long one as a hit of the target and a
  short one as a hit of the stop.
\<close>

theorem open_without_protection_closes:
  fixes db now_s acc scope entry q
  assumes "tid \<noteq> []" and "tid \<notin> ft_trade_id ` set (f_trades db)"
    and "get_open_positions True (Some sy) db = []"
    and "dict_get (f_protection db) (sy, sd) = None"
    and "sd = ''long'' \<or> sd = ''short''" and "0 < mark" and "sy \<noteq> []"
  defines "db' \<equiv> fst (open_position tid now_s True acc scope sy sd entry q db)"
  shows "map cr_exit_reason (snd (on_futures_tick (simple_on_tick timeout) True faults s ms acc sy mark db')) =
    [if sd = ''long'' then ''tp_hit'' else ''sl_hit'']"
proof -
  let ?t = "new_trade tid sy sd entry q scope now_s"
  have "filter (\<lambda>t. ft_symbol t = sy \<and> ft_closed_at t = None) (f_trades db) = []"
    using assms(3,7) by (simp add: get_open_positions_def)
  then have rows: "load_open_positions True sy db' = [(?t, None)]"
    using assms(2,4) by (simp add: db'_def open_position_def load_open_positions_def new_trade_def)
  have "exit_action (simple_on_tick timeout) ms sy mark (?t, None) =
      close_all (if sd = ''long'' then ''tp_hit'' else ''sl_hit'')"
    using assms(5,6) by (auto simp: exit_action_def simple_on_tick_def row_position_def new_trade_def Let_def)
  then show ?thesis
    by (simp add: on_futures_tick_def rows tick_row_trades exits_def exit_result_def close_all_def Let_def)
qed

theorem open_without_protection_closes_witness:
  "map cr_exit_reason (snd (on_futures_tick (simple_on_tick 0) True (\<lambda>_. (True, True)) 20 20000
      ''PAPER'' ''SOLUSDT'' 30 (fst (open_position ''t3'' 19 True ''PAPER'' ''futures'' ''SOLUSDT'' ''short'' 30 5
        demo_futures)))) = [''sl_hit'']"
  using open_without_protection_closes [where db = demo_futures and tid = "''t3''" and sy = "''SOLUSDT''"
      and sd = "''short''" and mark = 30 and timeout = 0 and faults = "\<lambda>_. (True, True)" and s = 20 and ms = 20000
      and acc = "''PAPER''" and now_s = 19 and scope = "''futures''" and entry = 30 and q = 5]
  by (simp add: new_trade_def get_open_positions_def)

text \<open>
  The statistics are lost. The summary reads the fifth column of a four-column row, so as
  soon as a trade of the scope is closed the call answers with the empty dictionary; only the
  summary of an empty history is ever returned.
\<close>

theorem futures_stats_empty:
  "futures_get_stats db_ok scope db =
     (if db_ok \<and> closed_in_scope scope db = []
      then [(''total'', 0), (''wins'', 0), (''win_rate'', 0), (''total_pnl'', 0)] else [])"
proof -
  have "py_index (stats_row scope db) 4 = Inl IndexError"
    by (simp add: py_index_def stats_row_def Let_def)
  moreover have "or_zero (stats_row scope db ! 0) = real (length (closed_in_scope scope db))"
    by (simp add: stats_row_def Let_def)
  ultimately show ?thesis
    by (simp add: futures_get_stats_def Let_def split: sum.splits)
qed

end
