(* ===== verification/Event_Publisher.thy ===== *)
theory Event_Publisher
  imports Runs Stores
begin

text \<open>
  The event publisher of the application service, \<open>jobs/event_publisher.py\<close>: a bounded buffer
  of recent payloads and one unbounded queue per subscriber. \<open>subscribe\<close> is an asynchronous
  generator: its first step registers the queue and takes a snapshot of the buffer, which it
  yields before it reads the queue. A put on an unbounded queue never suspends, so a
  publication is one atomic step. \<open>sb_seen\<close> records what a subscriber has been given and
  \<open>sb_waiting\<close> whether it is suspended in \<open>queue.get\<close>.
\<close>

record 'e subscriber =
  sb_replay :: "'e list"
  sb_queue :: "'e list"
  sb_waiting :: bool
  sb_seen :: "'e list"

record 'e publisher =
  pb_size :: nat
  pb_recent :: "'e list"
  pb_subscribers :: "(nat, 'e subscriber) dict"
  pb_stopped :: bool

definition new_publisher :: "nat \<Rightarrow> 'e publisher" where
  "new_publisher buffer_size = \<lparr>pb_size = buffer_size, pb_recent = [], pb_subscribers = [], pb_stopped = False\<rparr>"

text \<open>\<open>deque(maxlen=n).append\<close>.\<close>

definition deque_append :: "nat \<Rightarrow> 'a \<Rightarrow> 'a list \<Rightarrow> 'a list" where
  "deque_append n x xs = (let ys = xs @ [x] in drop (length ys - n) ys)"

definition enqueue :: "'e \<Rightarrow> 'e subscriber \<Rightarrow> 'e subscriber" where
  "enqueue e sb = sb\<lparr>sb_queue := sb_queue sb @ [e]\<rparr>"

definition publish :: "'e \<Rightarrow> 'e publisher \<Rightarrow> 'e publisher" where
  "publish e p = p\<lparr>pb_recent := deque_append (pb_size p) e (pb_recent p),
                   pb_subscribers := map (\<lambda>(i, sb). (i, enqueue e sb)) (pb_subscribers p)\<rparr>"

definition subscribe :: "nat \<Rightarrow> 'e publisher \<Rightarrow> 'e publisher" where
  "subscribe i p = p\<lparr>pb_subscribers := dict_set i
     \<lparr>sb_replay = pb_recent p, sb_queue = [], sb_waiting = False, sb_seen = []\<rparr> (pb_subscribers p)\<rparr>"

definition unsubscribe :: "nat \<Rightarrow> 'e publisher \<Rightarrow> 'e publisher" where
  "unsubscribe i p = p\<lparr>pb_subscribers := dict_pop i (pb_subscribers p)\<rparr>"

definition stop_publisher :: "'e publisher \<Rightarrow> 'e publisher" where
  "stop_publisher p = p\<lparr>pb_stopped := True\<rparr>"

text \<open>The generator is resumed: it yields the next payload, suspends on an empty queue, or ends.\<close>

definition advance :: "bool \<Rightarrow> 'e subscriber \<Rightarrow> 'e subscriber option" where
  "advance stopped sb =
     (case sb_replay sb of
        e # es \<Rightarrow> Some (sb\<lparr>sb_replay := es, sb_seen := sb_seen sb @ [e]\<rparr>)
      | [] \<Rightarrow>
          if stopped \<and> \<not> sb_waiting sb then None
          else (case sb_queue sb of
                  [] \<Rightarrow> Some (sb\<lparr>sb_waiting := True\<rparr>)
                | e # es \<Rightarrow> Some (sb\<lparr>sb_queue := es, sb_waiting := False, sb_seen := sb_seen sb @ [e]\<rparr>)))"

definition receive :: "nat \<Rightarrow> 'e publisher \<Rightarrow> 'e publisher" where
  "receive i p =
     (case dict_get (pb_subscribers p) i of
        None \<Rightarrow> p
      | Some sb \<Rightarrow> (case advance (pb_stopped p) sb of
            None \<Rightarrow> unsubscribe i p
          | Some sb' \<Rightarrow> p\<lparr>pb_subscribers := dict_set i sb' (pb_subscribers p)\<rparr>))"

datatype 'e pub_event = Publish 'e | Subscribe nat | Receive nat | Unsubscribe nat | Stop

fun pub_step :: "'e publisher \<Rightarrow> 'e pub_event \<Rightarrow> 'e publisher" where
  "pub_step p (Publish e) = publish e p"
| "pub_step p (Subscribe i) = subscribe i p"
| "pub_step p (Receive i) = receive i p"
| "pub_step p (Unsubscribe i) = unsubscribe i p"
| "pub_step p Stop = stop_publisher p"

section \<open>Lemmas\<close>

lemma dict_get_map_values: "dict_get (map (\<lambda>(i, v). (i, f v)) d) k = map_option f (dict_get d k)"
  by (induction d) auto

lemma length_deque_append: "length (deque_append n x xs) \<le> n"
  by (simp add: deque_append_def Let_def)

lemma deque_append_short: "length xs < n \<Longrightarrow> deque_append n x xs = xs @ [x]"
  by (simp add: deque_append_def)

lemma deque_append_last: "0 < n \<Longrightarrow> last (deque_append n x xs) = x"
  by (simp add: deque_append_def Let_def)

lemma pub_size_step [simp]: "pb_size (pub_step p e) = pb_size p"
  by (cases e) (simp_all add: publish_def subscribe_def receive_def unsubscribe_def stop_publisher_def
      split: option.splits)

interpretation publisher_buffer: guarded_run pub_step "\<lambda>_. True"
    "\<lambda>p. length (pb_recent p) \<le> pb_size p"
proof unfold_locales
  fix p :: "'a publisher" and e
  assume "length (pb_recent p) \<le> pb_size p"
  then show "length (pb_recent (pub_step p e)) \<le> pb_size (pub_step p e)"
    by (cases e) (simp_all add: publish_def subscribe_def receive_def unsubscribe_def stop_publisher_def
        length_deque_append split: option.splits)
qed

text \<open>What a subscriber has been given and what it is still going to be given.\<close>

definition stream_of :: "'e subscriber \<Rightarrow> 'e list" where
  "stream_of sb = sb_seen sb @ sb_replay sb @ sb_queue sb"

definition subscribed :: "nat \<Rightarrow> 'e publisher \<Rightarrow> 'e list \<Rightarrow> bool" where
  "subscribed i p es \<longleftrightarrow> \<not> pb_stopped p \<and> (\<exists>sb. dict_get (pb_subscribers p) i = Some sb \<and> stream_of sb = es)"

lemma stream_advance: "advance stopped sb = Some sb' \<Longrightarrow> stream_of sb' = stream_of sb"
  by (auto simp: advance_def stream_of_def split: list.splits if_splits)

lemma advance_running: "advance False sb \<noteq> None"
  by (simp add: advance_def split: list.splits)

fun published_by :: "'e pub_event \<Rightarrow> 'e list" where
  "published_by (Publish e) = [e]"
| "published_by _ = []"

fun keeps_subscription :: "nat \<Rightarrow> 'e pub_event \<Rightarrow> bool" where
  "keeps_subscription i (Subscribe j) \<longleftrightarrow> j \<noteq> i"
| "keeps_subscription i (Unsubscribe j) \<longleftrightarrow> j \<noteq> i"
| "keeps_subscription i Stop \<longleftrightarrow> False"
| "keeps_subscription i _ \<longleftrightarrow> True"

lemma subscribed_step:
  assumes "subscribed i p es" and "keeps_subscription i e" and "dict_ok (pb_subscribers p)"
  shows "subscribed i (pub_step p e) (es @ published_by e)"
proof -
  from assms(1) obtain sb where sb: "dict_get (pb_subscribers p) i = Some sb" "stream_of sb = es"
    and run: "\<not> pb_stopped p" by (auto simp: subscribed_def)
  show ?thesis
  proof (cases e)
    case (Publish x)
    with sb run show ?thesis
      by (simp add: subscribed_def publish_def dict_get_map_values) (simp add: enqueue_def stream_of_def)
  next
    case (Receive j)
    show ?thesis
    proof (cases "dict_get (pb_subscribers p) j")
      case None
      with Receive assms(1) show ?thesis by (simp add: receive_def)
    next
      case (Some sj)
      with run advance_running [of sj] obtain sj' where a: "advance (pb_stopped p) sj = Some sj'" by auto
      from stream_advance [OF a] Receive Some a sb run show ?thesis
        by (auto simp: receive_def subscribed_def dict_get_set)
    qed
  qed (use assms sb run in \<open>auto simp: subscribed_def subscribe_def unsubscribe_def dict_get_set dict_get_pop\<close>)
qed

lemma dict_ok_map_values: "dict_ok d \<Longrightarrow> dict_ok (map (\<lambda>(i, v). (i, f v)) d)"
  by (simp add: dict_ok_def comp_def case_prod_beta)

lemma pub_ok_step: "dict_ok (pb_subscribers p) \<Longrightarrow> dict_ok (pb_subscribers (pub_step p e))"
  by (cases e) (simp_all add: publish_def subscribe_def receive_def unsubscribe_def stop_publisher_def
      dict_ok_map_values split: option.splits)

lemma subscribed_run:
  "subscribed i p es \<Longrightarrow> dict_ok (pb_subscribers p) \<Longrightarrow> list_all (keeps_subscription i) evs \<Longrightarrow>
   subscribed i (run pub_step p evs) (es @ concat (map published_by evs))"
proof (induction evs arbitrary: p es)
  case Nil
  then show ?case by simp
next
  case (Cons e evs)
  from subscribed_step [of i p es e] pub_ok_step [of p e] Cons.prems
    Cons.IH [of "pub_step p e" "es @ published_by e"]
  show ?case by simp
qed

section \<open>Properties\<close>

text \<open>
  C29: a subscription has no gap and no duplicate. From the moment it is taken, until it is
  closed or the publisher stops, what a subscriber has received, followed by what is waiting for
  it, is exactly the buffer at that moment followed by every payload published since, in order,
  whatever other subscribers do in between. The buffer never exceeds its size.
\<close>

theorem subscription_gapless:
  assumes "dict_ok (pb_subscribers p)" and "\<not> pb_stopped p" and "list_all (keeps_subscription i) evs"
    and "length (pb_recent p) \<le> pb_size p"
  shows "(\<exists>sb. dict_get (pb_subscribers (run pub_step (subscribe i p) evs)) i = Some sb
            \<and> sb_seen sb @ sb_replay sb @ sb_queue sb = pb_recent p @ concat (map published_by evs))
    \<and> length (pb_recent (run pub_step (subscribe i p) evs)) \<le> pb_size (run pub_step (subscribe i p) evs)"
proof
  have "subscribed i (subscribe i p) (pb_recent p)"
    using assms(2) by (simp add: subscribed_def subscribe_def dict_get_set stream_of_def)
  from subscribed_run [OF this _ assms(3)] assms(1)
  show "\<exists>sb. dict_get (pb_subscribers (run pub_step (subscribe i p) evs)) i = Some sb
            \<and> sb_seen sb @ sb_replay sb @ sb_queue sb = pb_recent p @ concat (map published_by evs)"
    by (simp add: subscribe_def) (auto simp: subscribed_def stream_of_def)
  show "length (pb_recent (run pub_step (subscribe i p) evs)) \<le> pb_size (run pub_step (subscribe i p) evs)"
    using assms(4) by (intro publisher_buffer.inv_run) (simp_all add: subscribe_def list_all_iff)
qed

theorem subscription_gapless_witness:
  "\<exists>sb. dict_get (pb_subscribers (run pub_step (subscribe 1 (publish ''a'' (new_publisher 2)))
       [Publish ''b'', Receive 1, Subscribe 2, Publish ''c'', Receive 1])) 1 = Some sb
     \<and> sb_seen sb @ sb_replay sb @ sb_queue sb = [''a'', ''b'', ''c'']"
  using subscription_gapless [of "publish ''a'' (new_publisher 2)" 1
      "[Publish ''b'', Receive 1, Subscribe 2, Publish ''c'', Receive 1]"]
  by (simp add: publish_def new_publisher_def deque_append_def)

end
