(* ===== verification/Job_Store.thy ===== *)
theory Job_Store
  imports Runs Stores
begin

text \<open>
  The data of the job service: \<open>contracts/jobs.py\<close>, \<open>contracts/events.py\<close>, the store of
  \<open>jobs/store.py\<close> and the registry of \<open>jobs/registry.py\<close>. Instants are milliseconds; the
  identifier and the time stamp every event draws for itself are left out.
\<close>

datatype job_state = QUEUED | STARTING | RUNNING | STOPPING | COMPLETED | FAILED | CANCELLED | ORPHANED

record job_details =
  jd_job_id :: string
  jd_job_type :: string
  jd_state :: job_state
  jd_progress :: real
  jd_started_at :: "int option"
  jd_updated_at :: int
  jd_exit_code :: "int option"
  jd_last_error :: "string option"
  jd_log_stream_id :: "string option"

record job_summary =
  js_job_id :: string
  js_job_type :: string
  js_state :: job_state
  js_progress :: real
  js_updated_at :: int

definition details_to_summary :: "job_details \<Rightarrow> job_summary" where
  "details_to_summary d = \<lparr>js_job_id = jd_job_id d, js_job_type = jd_job_type d, js_state = jd_state d,
     js_progress = jd_progress d, js_updated_at = jd_updated_at d\<rparr>"

record start_request =
  sr_job_type :: string
  sr_payload :: "(string, py_value) dict"

record job_event =
  je_job_id :: string
  je_job_type :: string
  je_state :: job_state
  je_progress :: real
  je_message :: "string option"
  je_phase :: "string option"
  je_symbol :: "string option"
  je_category :: "string option"
  je_interval :: "string option"
  je_completed_units :: "int option"
  je_total_units :: "int option"
  je_rows_written :: "int option"

record log_event =
  le_job_id :: "string option"
  le_level :: string
  le_message :: string

datatype app_event = JobEvent job_event | LogEvent log_event | SystemEvent string

text \<open>A job event with the fields of the job and a message.\<close>

definition event_of :: "job_details \<Rightarrow> string option \<Rightarrow> job_event" where
  "event_of d message = \<lparr>je_job_id = jd_job_id d, je_job_type = jd_job_type d, je_state = jd_state d,
     je_progress = jd_progress d, je_message = message, je_phase = None, je_symbol = None,
     je_category = None, je_interval = None, je_completed_units = None, je_total_units = None,
     je_rows_written = None\<rparr>"

definition log_of :: "string \<Rightarrow> string \<Rightarrow> string \<Rightarrow> app_event" where
  "log_of job_id level message = LogEvent \<lparr>le_job_id = Some job_id, le_level = level, le_message = message\<rparr>"

section \<open>The store\<close>

type_synonym job_store = "(string, job_details) dict"

definition store_create :: "job_details \<Rightarrow> job_store \<Rightarrow> job_store" where
  "store_create d st = dict_set (jd_job_id d) d st"

definition store_get :: "job_store \<Rightarrow> string \<Rightarrow> job_details option" where
  "store_get st job_id = dict_get st job_id"

definition touched :: "int \<Rightarrow> (job_details \<Rightarrow> job_details) \<Rightarrow> job_details \<Rightarrow> job_details" where
  "touched now changes d = (changes d)\<lparr>jd_updated_at := now\<rparr>"

definition store_update ::
    "string \<Rightarrow> int \<Rightarrow> (job_details \<Rightarrow> job_details) \<Rightarrow> job_store \<Rightarrow> py_error + job_details \<times> job_store" where
  "store_update job_id now changes st =
     (case dict_get st job_id of
        None \<Rightarrow> Inl KeyError
      | Some current \<Rightarrow> let updated = touched now changes current in
          Inr (updated, dict_set job_id updated st))"

text \<open>Latest change first; the sort is stable.\<close>

definition store_list :: "job_store \<Rightarrow> job_details list" where
  "store_list st = sort_key (\<lambda>d. - jd_updated_at d) (map snd st)"

text \<open>
  The interface \<open>JobStoreProtocol\<close> the supervisor and the manager rely on: an update of a known
  job succeeds, changes that job only, and an unknown job is an error.
\<close>

locale job_store_protocol =
  fixes create :: "job_details \<Rightarrow> 's \<Rightarrow> 's"
    and get :: "'s \<Rightarrow> string \<Rightarrow> job_details option"
    and update :: "string \<Rightarrow> int \<Rightarrow> (job_details \<Rightarrow> job_details) \<Rightarrow> 's \<Rightarrow> py_error + job_details \<times> 's"
  assumes get_create: "get (create d st) j = (if j = jd_job_id d then Some d else get st j)"
    and update_unknown: "get st j = None \<Longrightarrow> update j now f st = Inl KeyError"
    and update_known: "get st j = Some d \<Longrightarrow>
          \<exists>st'. update j now f st = Inr (touched now f d, st') \<and> get st' = (get st)(j \<mapsto> touched now f d)"
begin

lemma update_Inr: "update j now f st = Inr (d', st') \<Longrightarrow>
    (\<exists>d. get st j = Some d \<and> d' = touched now f d) \<and> get st' = (get st)(j \<mapsto> d')"
  using update_unknown [of st j now f] update_known [of st j _ now f] by (cases "get st j") force+

text \<open>An update that keeps a property of single jobs keeps it for all of them.\<close>

lemma update_keeps:
  assumes "update j now f st = Inr (d', st')" and "\<And>k d. get st k = Some d \<Longrightarrow> P k d" and "P j d'"
  shows "get st' k = Some d \<Longrightarrow> P k d"
  using update_Inr [OF assms(1)] assms(2,3) by (auto split: if_splits)

lemma create_keeps:
  assumes "\<And>k d. get st k = Some d \<Longrightarrow> P k d" and "P (jd_job_id d') d'"
  shows "get (create d' st) k = Some d \<Longrightarrow> P k d"
  using assms by (auto simp: get_create split: if_splits)

end

interpretation store: job_store_protocol store_create store_get store_update
  by unfold_locales (auto simp: store_create_def store_get_def store_update_def Let_def dict_get_set fun_eq_iff)

lemma store_list_set: "dict_ok st \<Longrightarrow> set (store_list st) = {d. \<exists>j. store_get st j = Some d}"
  by (force simp: store_list_def store_get_def dict_ok_def)

section \<open>The registry\<close>

record launch_spec =
  ls_command :: "string list"
  ls_cwd :: "string option"
  ls_control_file :: "string option"

text \<open>A launcher may raise; \<open>Inl\<close> carries the text of the exception.\<close>

record job_definition =
  df_job_type :: string
  df_description :: string
  df_launcher :: "(start_request \<Rightarrow> job_details \<Rightarrow> string + launch_spec) option"

type_synonym job_registry = "(string, job_definition) dict"

definition register :: "job_definition \<Rightarrow> job_registry \<Rightarrow> job_registry" where
  "register df reg = dict_set (df_job_type df) df reg"

definition registry_get :: "job_registry \<Rightarrow> string \<Rightarrow> job_definition option" where
  "registry_get reg job_type = dict_get reg job_type"

end
