(* ===== verification/Json.thy ===== *)
theory Json
  imports Prelude
begin

text \<open>
  Decoded JSON values and how the source reads them: \<open>get\<close> on an object, truthiness, indexing and
  slicing of arrays, conversion to numbers. The decoder itself is part of the standard library and
  is a parameter where text is decoded; numbers are exact reals, keys of an object are distinct.
\<close>

datatype json = JNull | JBool bool | JNum real | JStr string | JArr "json list" | JObj "(string, json) dict"

text \<open>\<open>float(v)\<close> and \<open>int(v)\<close>.\<close>

fun json_float :: "json \<Rightarrow> py_error + real" where
  "json_float (JNum r) = Inr r"
| "json_float (JBool b) = Inr (if b then 1 else 0)"
| "json_float (JStr s) = py_float s"
| "json_float _ = Inl TypeError"

fun json_int :: "json \<Rightarrow> py_error + int" where
  "json_int (JNum r) = Inr (py_trunc r)"
| "json_int (JBool b) = Inr (if b then 1 else 0)"
| "json_int (JStr s) = py_int s"
| "json_int _ = Inl TypeError"

text \<open>\<open>v.get(key, default)\<close>; only an object has \<open>get\<close>.\<close>

fun json_get :: "json \<Rightarrow> string \<Rightarrow> json \<Rightarrow> py_error + json" where
  "json_get (JObj d) key other = Inr (case dict_get d key of None \<Rightarrow> other | Some v \<Rightarrow> v)"
| "json_get _ key other = Inl AttributeError"

fun json_truthy :: "json \<Rightarrow> bool" where
  "json_truthy JNull = False"
| "json_truthy (JBool b) = b"
| "json_truthy (JNum r) = (r \<noteq> 0)"
| "json_truthy (JStr s) = (s \<noteq> [])"
| "json_truthy (JArr xs) = (xs \<noteq> [])"
| "json_truthy (JObj d) = (d \<noteq> [])"

text \<open>\<open>v[i]\<close> with a non-negative integer, and the elements of \<open>v[:n]\<close>.\<close>

fun json_index :: "json \<Rightarrow> nat \<Rightarrow> py_error + json" where
  "json_index (JArr xs) i = py_index xs i"
| "json_index (JStr s) i = map_sum id (\<lambda>c. JStr [c]) (py_index s i)"
| "json_index (JObj d) i = Inl KeyError"
| "json_index _ i = Inl TypeError"

fun json_head :: "json \<Rightarrow> nat \<Rightarrow> py_error + json list" where
  "json_head (JArr xs) n = Inr (take n xs)"
| "json_head (JStr s) n = Inr (map (\<lambda>c. JStr [c]) (take n s))"
| "json_head _ n = Inl TypeError"

text \<open>\<open>float(v.get(key, 0))\<close>.\<close>

definition json_number :: "json \<Rightarrow> string \<Rightarrow> py_error + real" where
  "json_number v key = (case json_get v key (JNum 0) of Inl e \<Rightarrow> Inl e | Inr x \<Rightarrow> json_float x)"

text \<open>
  \<open>x or y\<close>, \<open>str(x)\<close> and \<open>d.get(key)\<close>. The text \<open>str\<close> gives for a value that is no
  string is a parameter.
\<close>

definition json_or :: "json \<Rightarrow> json \<Rightarrow> json" where
  "json_or x y = (if json_truthy x then x else y)"

definition json_text :: "(json \<Rightarrow> string) \<Rightarrow> json \<Rightarrow> string" where
  "json_text str_of v = (case v of JStr s \<Rightarrow> s | _ \<Rightarrow> str_of v)"

definition json_key :: "(string, json) dict \<Rightarrow> string \<Rightarrow> json" where
  "json_key d key = (case dict_get d key of None \<Rightarrow> JNull | Some v \<Rightarrow> v)"

text \<open>Iterating over a decoded value.\<close>

fun json_items :: "json \<Rightarrow> py_error + json list" where
  "json_items (JArr xs) = Inr xs"
| "json_items (JStr s) = Inr (map (\<lambda>c. JStr [c]) s)"
| "json_items (JObj d) = Inr (map (\<lambda>p. JStr (fst p)) d)"
| "json_items _ = Inl TypeError"

text \<open>\<open>v == 0\<close>, which the return code of an accepted request satisfies.\<close>

definition ret_code_ok :: "json \<Rightarrow> bool" where
  "ret_code_ok v \<longleftrightarrow> v = JNum 0 \<or> v = JBool False"

end
