(* ===== verification/Job_Supervisor.thy ===== *)
theory Job_Supervisor
  imports Job_Store Json
begin

text \<open>
  The supervisor and the manager of background jobs, \<open>jobs/supervisor.py\<close> and
  \<open>jobs/manager.py\<close>. Between two suspension points a coroutine runs without interleaving, and
  publishing never suspends, so \<open>spawn\<close>, the first part of \<open>terminate\<close>, the handling of one
  worker line and the epilogue of \<open>_wait_for_completion\<close> are atomic steps; the steps of different
  tasks interleave freely.

  \<open>sv_runs\<close> is the table of managed runs, \<open>sv_readers\<close> the jobs whose task reading the standard
  output of the worker is alive, \<open>sv_files\<close> the control files that exist. The processes themselves,
  the JSON decoder and \<open>str\<close> of a decoded value are parameters. An operation yields the new
  state, the events it published and its result or the exception it raised.
\<close>

datatype job_error = Raised py_error | UnknownJobTypeError string | JobNotFoundError string
  | NoLauncher string | CancelledError

record managed_run =
  mr_job_id :: string
  mr_job_type :: string
  mr_control_file :: "string option"
  mr_stop_requested :: bool
  mr_termination_reason :: "string option"

record supervisor =
  sv_store :: job_store
  sv_runs :: "(string, managed_run) dict"
  sv_readers :: "string set"
  sv_files :: "string set"

type_synonym 'a job_outcome = "supervisor \<times> app_event list \<times> (job_error + 'a)"

definition new_supervisor :: supervisor where
  "new_supervisor = \<lparr>sv_store = [], sv_runs = [], sv_readers = {}, sv_files = {}\<rparr>"

section \<open>Decoded values\<close>

text \<open>\<open>int(v) if v is not None else None\<close> on a key of the payload.\<close>

definition count_field :: "(string, json) dict \<Rightarrow> string \<Rightarrow> py_error + int option" where
  "count_field payload key =
     (case dict_get payload key of
        None \<Rightarrow> Inr None | Some JNull \<Rightarrow> Inr None
      | Some v \<Rightarrow> (case json_int v of Inl e \<Rightarrow> Inl e | Inr n \<Rightarrow> Inr (Some n)))"

text \<open>A field declared \<open>str | None\<close>: validation rejects any other value.\<close>

definition text_field :: "(string, json) dict \<Rightarrow> string \<Rightarrow> py_error + string option" where
  "text_field payload key =
     (case dict_get payload key of
        None \<Rightarrow> Inr None | Some JNull \<Rightarrow> Inr None | Some (JStr s) \<Rightarrow> Inr (Some s)
      | Some _ \<Rightarrow> Inl ValueError)"

text \<open>The event a progress line is turned into; its arguments are evaluated before it is validated.\<close>

definition progress_event :: "job_details \<Rightarrow> (string, json) dict \<Rightarrow> py_error + job_event" where
  "progress_event d payload =
     (case try_map (count_field payload) [''completed_units'', ''total_units'', ''rows_written''] of
        Inl e \<Rightarrow> Inl e
      | Inr counts \<Rightarrow>
          (case try_map (text_field payload) [''message'', ''phase'', ''symbol'', ''category'', ''interval''] of
             Inl e \<Rightarrow> Inl e
           | Inr texts \<Rightarrow> Inr ((event_of d (texts ! 0))\<lparr>je_phase := texts ! 1, je_symbol := texts ! 2,
               je_category := texts ! 3, je_interval := texts ! 4, je_completed_units := counts ! 0,
               je_total_units := counts ! 1, je_rows_written := counts ! 2\<rparr>)))"

section \<open>Operations of the supervisor\<close>

definition starting_details :: "int \<Rightarrow> job_details \<Rightarrow> job_details" where
  "starting_details now d = d\<lparr>jd_state := STARTING, jd_started_at := Some now, jd_progress := 0,
     jd_exit_code := None, jd_last_error := None\<rparr>"

text \<open>
  \<open>spawn\<close>. \<open>start\<close> stands for the process adapter: it answers the text of an exception or
  starts the process.
\<close>

definition spawn ::
    "(launch_spec \<Rightarrow> string option) \<Rightarrow> int \<Rightarrow> job_definition \<Rightarrow> start_request \<Rightarrow> job_details
     \<Rightarrow> supervisor \<Rightarrow> job_details job_outcome" where
  "spawn start now df request details s =
     (case df_launcher df of
        None \<Rightarrow> (s, [], Inl (NoLauncher (df_job_type df)))
      | Some launcher \<Rightarrow>
         (case store_update (jd_job_id details) now (starting_details now) (sv_store s) of
            Inl e \<Rightarrow> (s, [], Inl (Raised e))
          | Inr (starting, st) \<Rightarrow>
             (let begin = [JobEvent (event_of starting (Some ''Starting worker process.''))];
                  launched = (case launcher request starting of Inl exc \<Rightarrow> Inl exc
                    | Inr spec \<Rightarrow> (case start spec of Some exc \<Rightarrow> Inl exc | None \<Rightarrow> Inr spec))
              in case launched of
                Inl exc \<Rightarrow>
                  (case store_update (jd_job_id details) now
                       (\<lambda>d. d\<lparr>jd_state := FAILED, jd_exit_code := Some (- 1), jd_last_error := Some exc\<rparr>) st of
                     Inl e \<Rightarrow> (s\<lparr>sv_store := st\<rparr>, begin, Inl (Raised e))
                   | Inr (failed, st') \<Rightarrow>
                      (s\<lparr>sv_store := st'\<rparr>,
                       begin @ [JobEvent (event_of failed (Some ''Worker failed to start.'')),
                                log_of (jd_job_id failed) ''ERROR'' (''Failed to start worker: '' @ exc)],
                       Inr failed))
              | Inr spec \<Rightarrow>
                  (case store_update (jd_job_id details) now
                       (\<lambda>d. d\<lparr>jd_state := RUNNING, jd_started_at := jd_started_at starting, jd_progress := 0\<rparr>) st of
                     Inl e \<Rightarrow> (s\<lparr>sv_store := st\<rparr>, begin, Inl (Raised e))
                   | Inr (running, st') \<Rightarrow>
                      (s\<lparr>sv_store := st',
                         sv_runs := dict_set (jd_job_id details)
                           \<lparr>mr_job_id = jd_job_id details, mr_job_type = jd_job_type details,
                            mr_control_file = ls_control_file spec, mr_stop_requested = False,
                            mr_termination_reason = None\<rparr> (sv_runs s),
                         sv_readers := insert (jd_job_id details) (sv_readers s)\<rparr>,
                       begin @ [JobEvent (event_of running (Some ''Worker is running.'')),
                                log_of (jd_job_id running) ''INFO'' (''Started job '' @ jd_job_type running @ ''.'')],
                       Inr running)))))"

text \<open>\<open>reason or default\<close>.\<close>

definition text_or :: "string option \<Rightarrow> string \<Rightarrow> string" where
  "text_or x y = (case x of None \<Rightarrow> y | Some s \<Rightarrow> if s = [] then y else s)"

text \<open>
  \<open>terminate\<close> up to its first suspension: the request is recorded and announced, and the
  control file, if there is one, is written. What follows only signals the process and waits.
\<close>

definition terminate :: "int \<Rightarrow> job_details \<Rightarrow> string option \<Rightarrow> supervisor \<Rightarrow> job_details job_outcome" where
  "terminate now details reason s =
     (case dict_get (sv_runs s) (jd_job_id details) of
        None \<Rightarrow> (s, [], Inr details)
      | Some mrun \<Rightarrow>
          let mrun = mrun\<lparr>mr_stop_requested := True, mr_termination_reason := reason\<rparr>;
              s = s\<lparr>sv_runs := dict_set (jd_job_id details) mrun (sv_runs s)\<rparr>
          in case store_update (jd_job_id details) now (\<lambda>d. d\<lparr>jd_state := STOPPING\<rparr>) (sv_store s) of
               Inl e \<Rightarrow> (s, [], Inl (Raised e))
             | Inr (stopping, st) \<Rightarrow>
                 (s\<lparr>sv_store := st,
                    sv_files := (case mr_control_file mrun of None \<Rightarrow> sv_files s
                                 | Some f \<Rightarrow> insert f (sv_files s))\<rparr>,
                  [JobEvent (event_of stopping (Some ''Stop requested.'')),
                   log_of (jd_job_id stopping) ''WARNING'' (''Stop requested for '' @ jd_job_type stopping
                     @ '': '' @ text_or (mr_termination_reason mrun) ''user-request'')],
                  Inr stopping))"

text \<open>The \<open>finally\<close> block of \<open>_wait_for_completion\<close>.\<close>

definition drop_run :: "managed_run \<Rightarrow> supervisor \<Rightarrow> supervisor" where
  "drop_run mrun s =
     s\<lparr>sv_runs := dict_pop (mr_job_id mrun) (sv_runs s),
       sv_files := (case mr_control_file mrun of None \<Rightarrow> sv_files s | Some f \<Rightarrow> sv_files s - {f})\<rparr>"

text \<open>
  The rest of \<open>terminate\<close> when the worker does not end in time. \<open>wait_for\<close> cancels the task it
  waits for, whose \<open>finally\<close> block drops the run; waiting for the cancelled task again raises
  the cancellation. If the task was already waiting for the readers, they are cancelled with it.
\<close>

definition terminate_timeout :: "bool \<Rightarrow> string \<Rightarrow> supervisor \<Rightarrow> job_details job_outcome" where
  "terminate_timeout exited job_id s =
     (case dict_get (sv_runs s) job_id of
        None \<Rightarrow> (s, [], Inl CancelledError)
      | Some mrun \<Rightarrow>
          (let s = drop_run mrun s in
           (if exited then s\<lparr>sv_readers := sv_readers s - {job_id}\<rparr> else s, [], Inl CancelledError)))"

text \<open>
  \<open>cleanup\<close> kills the process and waits; a wait that times out cancels the task in the same way,
  else the task ends by itself.
\<close>

definition cleanup :: "bool \<Rightarrow> string \<Rightarrow> supervisor \<Rightarrow> supervisor" where
  "cleanup timed_out job_id s =
     (case dict_get (sv_runs s) job_id of
        None \<Rightarrow> s | Some mrun \<Rightarrow> if timed_out then drop_run mrun s else s)"

text \<open>A progress message: a job that is stopping stays so.\<close>

definition handle_progress :: "int \<Rightarrow> string \<Rightarrow> (string, json) dict \<Rightarrow> supervisor \<Rightarrow> unit job_outcome" where
  "handle_progress now job_id payload s =
     (case (case dict_get payload ''progress'' of None \<Rightarrow> Inr 0 | Some v \<Rightarrow> json_float v) of
        Inl e \<Rightarrow> (s, [], Inl (Raised e))
      | Inr r \<Rightarrow>
         let progress = max 0 (min r 1);
             next_state = (case store_get (sv_store s) job_id of None \<Rightarrow> RUNNING
               | Some current \<Rightarrow> if jd_state current = STOPPING then STOPPING else RUNNING)
         in case store_update job_id now (\<lambda>d. d\<lparr>jd_progress := progress, jd_state := next_state\<rparr>) (sv_store s) of
              Inl e \<Rightarrow> (s, [], Inl (Raised e))
            | Inr (updated, st) \<Rightarrow>
                (case progress_event updated payload of
                   Inl e \<Rightarrow> (s\<lparr>sv_store := st\<rparr>, [], Inl (Raised e))
                 | Inr ev \<Rightarrow> (s\<lparr>sv_store := st\<rparr>, [JobEvent ev], Inr ())))"

text \<open>\<open>_handle_worker_line\<close> for a line of the standard output, already stripped.\<close>

definition handle_worker_line ::
    "(string \<Rightarrow> json option) \<Rightarrow> (json \<Rightarrow> string) \<Rightarrow> int \<Rightarrow> string \<Rightarrow> string \<Rightarrow> supervisor \<Rightarrow> unit job_outcome" where
  "handle_worker_line loads str_of now job_id line s =
     (if line = [] then (s, [], Inr ())
      else case loads line of
          None \<Rightarrow> (s, [log_of job_id ''INFO'' line], Inr ())
        | Some (JObj payload) \<Rightarrow>
            if dict_get payload ''type'' = Some (JStr ''progress'') then handle_progress now job_id payload s
            else if dict_get payload ''type'' = Some (JStr ''log'') then
              (s, [log_of job_id
                     (str_upper (case dict_get payload ''level'' of None \<Rightarrow> ''INFO'' | Some v \<Rightarrow> str_of v))
                     (case dict_get payload ''message'' of None \<Rightarrow> [] | Some v \<Rightarrow> str_of v)], Inr ())
            else (s, [log_of job_id ''INFO'' line], Inr ())
        | Some _ \<Rightarrow> (s, [], Inl (Raised AttributeError)))"

text \<open>The stream task: an exception of the handler ends it and is never retrieved.\<close>

definition stdout_line ::
    "(string \<Rightarrow> json option) \<Rightarrow> (json \<Rightarrow> string) \<Rightarrow> int \<Rightarrow> string \<Rightarrow> string \<Rightarrow> supervisor \<Rightarrow> unit job_outcome" where
  "stdout_line loads str_of now job_id line s =
     (if job_id \<notin> sv_readers s then (s, [], Inr ())
      else case handle_worker_line loads str_of now job_id (str_strip line) s of
          (s', evs, Inl e) \<Rightarrow> (s'\<lparr>sv_readers := sv_readers s' - {job_id}\<rparr>, evs, Inl e)
        | (s', evs, Inr u) \<Rightarrow> (s', evs, Inr u))"

definition stderr_line :: "string \<Rightarrow> string \<Rightarrow> supervisor \<Rightarrow> unit job_outcome" where
  "stderr_line job_id line s =
     (s, if str_strip line = [] then [] else [log_of job_id ''ERROR'' (str_strip line)], Inr ())"

definition finished_details :: "managed_run \<Rightarrow> int \<Rightarrow> (int \<Rightarrow> string) \<Rightarrow> real \<Rightarrow> job_details \<Rightarrow> job_details" where
  "finished_details mrun exit_code show_int progress d =
     (if mr_stop_requested mrun
      then d\<lparr>jd_state := CANCELLED, jd_exit_code := Some exit_code, jd_last_error := mr_termination_reason mrun\<rparr>
      else if exit_code = 0
      then d\<lparr>jd_state := COMPLETED, jd_progress := max progress 1, jd_exit_code := Some exit_code,
             jd_last_error := None\<rparr>
      else d\<lparr>jd_state := FAILED, jd_exit_code := Some exit_code,
             jd_last_error := Some (''Process exited with code '' @ show_int exit_code)\<rparr>)"

definition finished_events :: "managed_run \<Rightarrow> int \<Rightarrow> (int \<Rightarrow> string) \<Rightarrow> job_details \<Rightarrow> app_event list" where
  "finished_events mrun exit_code show_int d =
     (if mr_stop_requested mrun
      then [JobEvent (event_of d (Some ''Job stopped.'')),
            log_of (jd_job_id d) ''WARNING'' (''Job stopped with exit code '' @ show_int exit_code @ ''.'')]
      else if exit_code = 0
      then [JobEvent (event_of d (Some ''Job completed.'')),
            log_of (jd_job_id d) ''INFO'' ''Job completed successfully.'']
      else [JobEvent (event_of d (Some ''Job failed.'')),
            log_of (jd_job_id d) ''ERROR'' (text_or (jd_last_error d) ''Unknown job failure.'')])"

text \<open>
  \<open>_wait_for_completion\<close> once the process has exited and the readers have ended; it does
  nothing while the standard output is still being read.
\<close>

definition wait_for_completion :: "(int \<Rightarrow> string) \<Rightarrow> int \<Rightarrow> string \<Rightarrow> int \<Rightarrow> supervisor \<Rightarrow> unit job_outcome" where
  "wait_for_completion show_int now job_id exit_code s =
     (case dict_get (sv_runs s) job_id of
        None \<Rightarrow> (s, [], Inr ())
      | Some mrun \<Rightarrow>
          if job_id \<in> sv_readers s then (s, [], Inr ())
          else case store_get (sv_store s) (mr_job_id mrun) of
              None \<Rightarrow> (drop_run mrun s, [], Inr ())
            | Some current \<Rightarrow>
               (case store_update (mr_job_id mrun) now
                    (finished_details mrun exit_code show_int (jd_progress current)) (sv_store s) of
                  Inl e \<Rightarrow> (drop_run mrun s, [], Inl (Raised e))
                | Inr (updated, st) \<Rightarrow>
                    (drop_run mrun (s\<lparr>sv_store := st\<rparr>), finished_events mrun exit_code show_int updated, Inr ())))"

section \<open>Operations of the manager\<close>

definition manager_get :: "supervisor \<Rightarrow> string \<Rightarrow> job_error + job_details" where
  "manager_get s job_id =
     (case store_get (sv_store s) job_id of None \<Rightarrow> Inl (JobNotFoundError job_id) | Some d \<Rightarrow> Inr d)"

definition queued_job :: "string \<Rightarrow> string \<Rightarrow> int \<Rightarrow> string \<Rightarrow> job_details" where
  "queued_job job_id log_id now job_type =
     \<lparr>jd_job_id = job_id, jd_job_type = job_type, jd_state = QUEUED, jd_progress = 0, jd_started_at = None,
      jd_updated_at = now, jd_exit_code = None, jd_last_error = None, jd_log_stream_id = Some log_id\<rparr>"

definition manager_start ::
    "job_registry \<Rightarrow> (launch_spec \<Rightarrow> string option) \<Rightarrow> string \<Rightarrow> string \<Rightarrow> int \<Rightarrow> start_request
     \<Rightarrow> supervisor \<Rightarrow> job_details job_outcome" where
  "manager_start reg start job_id log_id now request s =
     (case registry_get reg (sr_job_type request) of
        None \<Rightarrow> (s, [], Inl (UnknownJobTypeError (sr_job_type request)))
      | Some df \<Rightarrow>
          let details = queued_job job_id log_id now (df_job_type df);
              s = s\<lparr>sv_store := store_create details (sv_store s)\<rparr>;
              queued = [JobEvent (event_of details None)]
          in case spawn start now df request details s of
               (s', evs, Inl e) \<Rightarrow> (s', queued @ evs, Inl e)
             | (s', evs, Inr d) \<Rightarrow> (s', queued @ evs, manager_get s' job_id))"

definition manager_stop :: "int \<Rightarrow> string \<Rightarrow> string option \<Rightarrow> supervisor \<Rightarrow> job_details job_outcome" where
  "manager_stop now job_id reason s =
     (case manager_get s job_id of
        Inl e \<Rightarrow> (s, [], Inl e)
      | Inr details \<Rightarrow> terminate now details reason s)"

text \<open>The jobs \<open>shutdown\<close> stops, read from the list as it is when it begins.\<close>

definition shutdown_targets :: "supervisor \<Rightarrow> string list" where
  "shutdown_targets s = map jd_job_id
     (filter (\<lambda>d. jd_state d \<in> {QUEUED, STARTING, RUNNING, STOPPING}) (store_list (sv_store s)))"

definition list_summaries :: "supervisor \<Rightarrow> job_summary list" where
  "list_summaries s = map details_to_summary (store_list (sv_store s))"

section \<open>Steps\<close>

record job_env =
  en_registry :: job_registry
  en_start :: "launch_spec \<Rightarrow> string option"
  en_loads :: "string \<Rightarrow> json option"
  en_str_of :: "json \<Rightarrow> string"
  en_show_int :: "int \<Rightarrow> string"

datatype job_action =
    StartJob string string int start_request
  | StopJob string int "string option"
  | StopTimeout bool string
  | StdoutLine string int string
  | StderrLine string string
  | StdoutEnd string
  | ProcessExit string int int

fun job_op :: "job_env \<Rightarrow> supervisor \<Rightarrow> job_action \<Rightarrow> supervisor \<times> app_event list" where
  "job_op env s (StartJob job_id log_id now request) =
     (let (s', evs, r) = manager_start (en_registry env) (en_start env) job_id log_id now request s in (s', evs))"
| "job_op env s (StopJob job_id now reason) = (let (s', evs, r) = manager_stop now job_id reason s in (s', evs))"
| "job_op env s (StopTimeout exited job_id) =
     (case dict_get (sv_runs s) job_id of
        None \<Rightarrow> (s, [])
      | Some mrun \<Rightarrow> if mr_stop_requested mrun
                     then (let (s', evs, r) = terminate_timeout exited job_id s in (s', evs)) else (s, []))"
| "job_op env s (StdoutLine job_id now line) =
     (let (s', evs, r) = stdout_line (en_loads env) (en_str_of env) now job_id line s in (s', evs))"
| "job_op env s (StderrLine job_id line) = (let (s', evs, r) = stderr_line job_id line s in (s', evs))"
| "job_op env s (StdoutEnd job_id) = (s\<lparr>sv_readers := sv_readers s - {job_id}\<rparr>, [])"
| "job_op env s (ProcessExit job_id now exit_code) =
     (let (s', evs, r) = wait_for_completion (en_show_int env) now job_id exit_code s in (s', evs))"

definition job_step :: "job_env \<Rightarrow> supervisor \<Rightarrow> job_action \<Rightarrow> supervisor" where
  "job_step env s a = fst (job_op env s a)"

fun job_trace :: "job_env \<Rightarrow> supervisor \<Rightarrow> job_action list \<Rightarrow> app_event list" where
  "job_trace env s [] = []"
| "job_trace env s (a # as) = snd (job_op env s a) @ job_trace env (job_step env s a) as"

end
