(* ===== verification/Job_Lifecycle.thy ===== *)
theory Job_Lifecycle
  imports Job_Supervisor
begin

text \<open>
  What the job service promises over all interleavings of its tasks: the life cycle of a job as
  an abstract transition system that the states published for it follow, the final states, the
  bounds of the progress, and what becomes of a stop request.
\<close>

section \<open>The abstract life cycle\<close>

inductive lifecycle :: "job_state \<Rightarrow> job_state \<Rightarrow> bool" where
  "lifecycle QUEUED STARTING"
| "lifecycle STARTING RUNNING"
| "lifecycle STARTING FAILED"
| "lifecycle RUNNING STOPPING"
| "lifecycle RUNNING COMPLETED"
| "lifecycle RUNNING FAILED"
| "lifecycle STOPPING CANCELLED"

code_pred lifecycle .

inductive_cases lifecycle_from_stopping: "lifecycle STOPPING y"
inductive_cases lifecycle_from_completed: "lifecycle COMPLETED y"
inductive_cases lifecycle_from_failed: "lifecycle FAILED y"
inductive_cases lifecycle_from_cancelled: "lifecycle CANCELLED y"

definition terminal :: "job_state \<Rightarrow> bool" where
  "terminal x \<longleftrightarrow> x \<in> {COMPLETED, FAILED, CANCELLED}"

lemma terminal_no_successor: "terminal x \<Longrightarrow> \<not> lifecycle x y"
  by (auto simp: terminal_def elim: lifecycle_from_completed lifecycle_from_failed lifecycle_from_cancelled)

text \<open>A job comes into being queued; then it moves along the life cycle or repeats its state.\<close>

inductive moves :: "job_state option \<Rightarrow> job_state \<Rightarrow> bool" where
  "moves None QUEUED"
| "moves (Some x) x"
| "lifecycle x y \<Longrightarrow> moves (Some x) y"

inductive_simps moves_None: "moves None y"
inductive_simps moves_Some: "moves (Some x) y"

fun follows :: "job_state option \<Rightarrow> job_state list \<Rightarrow> bool" where
  "follows x [] \<longleftrightarrow> True"
| "follows x (y # ys) \<longleftrightarrow> moves x y \<and> follows (Some y) ys"

definition reached :: "job_state option \<Rightarrow> job_state list \<Rightarrow> job_state option" where
  "reached x ys = (if ys = [] then x else Some (last ys))"

lemma reached_simps [simp]: "reached x [] = x" "reached x (y # ys) = reached (Some y) ys"
  by (simp_all add: reached_def)

lemma follows_append: "follows x (ys @ zs) \<longleftrightarrow> follows x ys \<and> follows (reached x ys) zs"
  by (induction ys arbitrary: x) auto

lemma reached_append: "reached x (ys @ zs) = reached (reached x ys) zs"
  by (simp add: reached_def)

fun states_of :: "string \<Rightarrow> app_event list \<Rightarrow> job_state list" where
  "states_of i [] = []"
| "states_of i (JobEvent e # evs) = (if je_job_id e = i then je_state e # states_of i evs else states_of i evs)"
| "states_of i (_ # evs) = states_of i evs"

lemma states_of_append: "states_of i (xs @ ys) = states_of i xs @ states_of i ys"
  by (induction i xs rule: states_of.induct) auto

lemma states_of_log [simp]: "states_of i (log_of j l m # evs) = states_of i evs"
  by (simp add: log_of_def)

section \<open>The invariant\<close>

abbreviation job_at :: "supervisor \<Rightarrow> string \<Rightarrow> job_details option" where
  "job_at s i \<equiv> dict_get (sv_store s) i"

abbreviation run_at :: "supervisor \<Rightarrow> string \<Rightarrow> managed_run option" where
  "run_at s i \<equiv> dict_get (sv_runs s) i"

definition state_at :: "supervisor \<Rightarrow> string \<Rightarrow> job_state option" where
  "state_at s i = map_option jd_state (job_at s i)"

definition proper_details :: "string \<Rightarrow> job_details \<Rightarrow> bool" where
  "proper_details i d \<longleftrightarrow> jd_job_id d = i \<and> 0 \<le> jd_progress d \<and> jd_progress d \<le> 1"

definition run_state :: "managed_run \<Rightarrow> job_state" where
  "run_state r = (if mr_stop_requested r then STOPPING else RUNNING)"

text \<open>
  A managed run is that of a job that is running, or stopping once a stop was requested; a reader
  outlives its run only for a job that is stopping.
\<close>

definition jobs_ok :: "supervisor \<Rightarrow> bool" where
  "jobs_ok s \<longleftrightarrow> dict_ok (sv_runs s)
    \<and> (\<forall>i d. job_at s i = Some d \<longrightarrow> proper_details i d)
    \<and> (\<forall>i r. run_at s i = Some r \<longrightarrow> mr_job_id r = i \<and> state_at s i = Some (run_state r))
    \<and> (\<forall>i \<in> sv_readers s. state_at s i = Some STOPPING \<or> run_at s i \<noteq> None)"

definition advances :: "supervisor \<Rightarrow> supervisor \<times> app_event list \<Rightarrow> bool" where
  "advances s r \<longleftrightarrow> jobs_ok (fst r)
    \<and> (\<forall>i. follows (state_at s i) (states_of i (snd r)) \<and> reached (state_at s i) (states_of i (snd r)) = state_at (fst r) i)"

lemma advances_same: "jobs_ok s \<Longrightarrow> (\<And>i. states_of i evs = []) \<Longrightarrow> advances s (s, evs)"
  by (simp add: advances_def)

lemma store_update_simp:
  "job_at s i = Some d \<Longrightarrow> store_update i now f (sv_store s) =
     Inr (touched now f d, dict_set i (touched now f d) (sv_store s))"
  by (simp add: store_update_def Let_def)

text \<open>
  One job changes: its details, its managed run and its reader change, nothing else does, and
  the events are those of that job.
\<close>

lemma advances_one:
  assumes ok: "jobs_ok s" and d: "proper_details i d"
    and store: "sv_store s' = dict_set i d (sv_store s)"
    and runs: "dict_ok (sv_runs s')" "\<And>j. j \<noteq> i \<Longrightarrow> run_at s' j = run_at s j"
    and run_none: "run_at s' i = None \<Longrightarrow> i \<in> sv_readers s' \<Longrightarrow> jd_state d = STOPPING"
    and run_some: "\<And>r. run_at s' i = Some r \<Longrightarrow> mr_job_id r = i \<and> jd_state d = run_state r"
    and readers: "\<And>j. j \<in> sv_readers s' \<Longrightarrow> j \<noteq> i \<Longrightarrow> j \<in> sv_readers s"
    and own: "follows (state_at s i) (states_of i evs)" "reached (state_at s i) (states_of i evs) = Some (jd_state d)"
    and other: "\<And>j. j \<noteq> i \<Longrightarrow> states_of j evs = []"
  shows "advances s (s', evs)"
proof -
  have st: "state_at s' j = (if j = i then Some (jd_state d) else state_at s j)" for j
    by (simp add: state_at_def store dict_get_set)
  have "jobs_ok s'"
    unfolding jobs_ok_def
  proof (intro conjI allI ballI impI)
    show "dict_ok (sv_runs s')" by (rule runs)
  next
    fix j d' assume "job_at s' j = Some d'"
    then show "proper_details j d'" using ok d by (auto simp: store dict_get_set jobs_ok_def split: if_splits)
  next
    fix j r assume r: "run_at s' j = Some r"
    show "mr_job_id r = j" and "state_at s' j = Some (run_state r)"
      using r runs(2) [of j] run_some [of r] ok st [of j] by (cases "j = i"; auto simp: jobs_ok_def)+
  next
    fix j assume j: "j \<in> sv_readers s'"
    show "state_at s' j = Some STOPPING \<or> run_at s' j \<noteq> None"
      using j readers [OF j] runs(2) [of j] run_none ok st [of j]
      by (cases "j = i") (auto simp: jobs_ok_def)
  qed
  moreover have "follows (state_at s j) (states_of j evs) \<and> reached (state_at s j) (states_of j evs) = state_at s' j" for j
    using own other [of j] st [of j] by (cases "j = i") simp_all
  ultimately show ?thesis by (simp add: advances_def)
qed

section \<open>Every step keeps it\<close>

lemma follows_one: "moves (Some x) y \<Longrightarrow> follows (Some x) [y] \<and> reached (Some x) [y] = Some y"
  by simp

lemma jobs_okD:
  assumes "jobs_ok s"
  shows "job_at s i = Some d \<Longrightarrow> proper_details i d"
    and "run_at s i = Some r \<Longrightarrow> mr_job_id r = i \<and> (\<exists>d. job_at s i = Some d \<and> jd_state d = run_state r)"
    and "i \<in> sv_readers s \<Longrightarrow> \<exists>d. job_at s i = Some d \<and>
           (jd_state d = STOPPING \<or> (\<exists>r. run_at s i = Some r \<and> jd_state d = run_state r))"
  using assms by (fastforce simp: jobs_ok_def state_at_def)+

lemma advances_terminate:
  assumes ok: "jobs_ok s"
  shows "advances s (case manager_stop now i reason s of (s', evs, r) \<Rightarrow> (s', evs))"
proof (cases "run_at s i")
  case None
  show ?thesis
  proof (cases "job_at s i")
    case none: None
    then show ?thesis by (simp add: manager_stop_def manager_get_def store_get_def advances_same ok)
  next
    case (Some d)
    with jobs_okD(1) [OF ok Some] None show ?thesis
      by (simp add: manager_stop_def manager_get_def store_get_def terminate_def proper_details_def advances_same ok)
  qed
next
  case (Some r)
  with jobs_okD(2) [OF ok Some] obtain d where d: "job_at s i = Some d" "jd_state d = run_state r" and r: "mr_job_id r = i"
    by auto
  from jobs_okD(1) [OF ok d(1)] have p: "proper_details i d" .
  then have id: "jd_job_id d = i" by (simp add: proper_details_def)
  let ?d = "touched now (\<lambda>d. d\<lparr>jd_state := STOPPING\<rparr>) d"
  let ?r = "r\<lparr>mr_stop_requested := True, mr_termination_reason := reason\<rparr>"
  let ?s = "s\<lparr>sv_store := dict_set i ?d (sv_store s), sv_runs := dict_set i ?r (sv_runs s),
      sv_files := (case mr_control_file r of None \<Rightarrow> sv_files s | Some f \<Rightarrow> insert f (sv_files s))\<rparr>"
  have op: "(case manager_stop now i reason s of (s', evs, r) \<Rightarrow> (s', evs)) =
      (?s, [JobEvent (event_of ?d (Some ''Stop requested.'')),
           log_of (jd_job_id ?d) ''WARNING'' (''Stop requested for '' @ jd_job_type ?d @ '': '' @ text_or reason ''user-request'')])"
    using Some d id
    by (simp add: manager_stop_def manager_get_def store_get_def terminate_def store_update_simp Let_def
        split: option.splits)
  have runs: "dict_ok (sv_runs s)" using ok by (simp add: jobs_ok_def)
  show ?thesis
    unfolding op
    by (rule advances_one [OF ok, where i = i and d = ?d])
      (use runs d p r in \<open>auto simp: touched_def proper_details_def run_state_def event_of_def state_at_def
        moves_Some lifecycle.simps dict_get_set\<close>)
qed

lemma advances_timeout:
  assumes ok: "jobs_ok s"
  shows "advances s (job_op env s (StopTimeout exited i))"
proof (cases "\<exists>r. run_at s i = Some r \<and> mr_stop_requested r")
  case False
  then show ?thesis by (auto simp: advances_same ok split: option.splits)
next
  case True
  then obtain r where r: "run_at s i = Some r" "mr_stop_requested r" by blast
  with ok have id: "mr_job_id r = i" and st: "state_at s i = Some STOPPING"
    by (auto simp: jobs_ok_def run_state_def)
  let ?s = "if exited then (drop_run r s)\<lparr>sv_readers := sv_readers s - {i}\<rparr> else drop_run r s"
  have op: "job_op env s (StopTimeout exited i) = (?s, [])"
    using r id by (simp add: terminate_timeout_def Let_def drop_run_def)
  have "jobs_ok ?s"
    using ok st id by (auto simp: jobs_ok_def drop_run_def dict_get_pop state_at_def)
  moreover have "state_at ?s j = state_at s j" for j by (simp add: state_at_def drop_run_def)
  ultimately show ?thesis by (simp only: op advances_def) simp
qed

lemma advances_exit:
  assumes ok: "jobs_ok s"
  shows "advances s (case wait_for_completion si now i c s of (s', evs, r) \<Rightarrow> (s', evs))"
proof (cases "\<exists>r. run_at s i = Some r \<and> i \<notin> sv_readers s")
  case False
  then show ?thesis by (auto simp: wait_for_completion_def advances_same ok split: option.splits)
next
  case True
  then obtain r where r: "run_at s i = Some r" "i \<notin> sv_readers s" by blast
  from jobs_okD(2) [OF ok r(1)] obtain d where d: "job_at s i = Some d" "jd_state d = run_state r" and id: "mr_job_id r = i"
    by auto
  from jobs_okD(1) [OF ok d(1)] have p: "proper_details i d" .
  let ?d = "touched now (finished_details r c si (jd_progress d)) d"
  let ?s = "drop_run r (s\<lparr>sv_store := dict_set i ?d (sv_store s)\<rparr>)"
  have op: "wait_for_completion si now i c s = (?s, finished_events r c si ?d, Inr ())"
    using r d id by (simp add: wait_for_completion_def store_get_def store_update_simp)
  have "advances s (?s, finished_events r c si ?d)"
    by (rule advances_one [OF ok, where i = i and d = ?d])
      (use ok r d p id in \<open>auto simp: jobs_ok_def dict_get_pop touched_def proper_details_def finished_details_def finished_events_def
        run_state_def event_of_def state_at_def drop_run_def moves_Some lifecycle.simps\<close>)
  with op show ?thesis by simp
qed

lemma advances_start:
  assumes ok: "jobs_ok s" and new: "job_at s i = None"
  shows "advances s (case manager_start reg start i l now req s of (s', evs, r) \<Rightarrow> (s', evs))"
proof -
  have norun: "run_at s i = None" and noread: "i \<notin> sv_readers s"
    using new jobs_okD(2) [OF ok, of i] jobs_okD(3) [OF ok, of i] by (cases "run_at s i"; auto)+
  have runs: "dict_ok (sv_runs s)" using ok by (simp add: jobs_ok_def)
  note defs = manager_start_def spawn_def store_create_def registry_get_def manager_get_def store_get_def
    store_update_def Let_def dict_get_set touched_def starting_details_def queued_job_def
  show ?thesis
  proof (cases "dict_get reg (sr_job_type req)")
    case None
    then show ?thesis by (simp add: defs advances_same ok)
  next
    case (Some df)
    let ?q = "queued_job i l now (df_job_type df)"
    let ?evs = "\<lambda>ds. map (\<lambda>(d, m). JobEvent (event_of d m)) ds"
    have one: "advances s (s', evs)"
      if "sv_store s' = dict_set i d (sv_store s)" "proper_details i d"
        "\<And>j. j \<noteq> i \<Longrightarrow> states_of j evs = []" "follows None (states_of i evs)"
        "reached None (states_of i evs) = Some (jd_state d)"
        "sv_runs s' = sv_runs s \<and> sv_readers s' = sv_readers s \<or>
         (\<exists>r. sv_runs s' = dict_set i r (sv_runs s) \<and> sv_readers s' = insert i (sv_readers s)
            \<and> mr_job_id r = i \<and> jd_state d = run_state r)" for s' evs d
      by (rule advances_one [OF ok, where i = i and d = d])
        (use that norun noread runs new in \<open>auto simp: state_at_def dict_get_set\<close>)
    show ?thesis
    proof (cases "df_launcher df")
      case None
      with Some show ?thesis
        by (auto intro!: one [where d = ?q] simp: defs proper_details_def event_of_def moves_None)
    next
      case (Some la)
      let ?st = "starting_details now ?q\<lparr>jd_updated_at := now\<rparr>"
      consider (fails) exc where "la req ?st = Inl exc"
        | (refused) spec exc where "la req ?st = Inr spec" "start spec = Some exc"
        | (runs) spec where "la req ?st = Inr spec" "start spec = None"
        by (cases "la req ?st"; cases "start (projr (la req ?st))") auto
      then show ?thesis
      proof cases
        case fails
        with \<open>dict_get reg _ = _\<close> Some show ?thesis
          by (auto intro!: one simp: defs proper_details_def event_of_def moves_None moves_Some lifecycle.simps)
      next
        case refused
        with \<open>dict_get reg _ = _\<close> Some show ?thesis
          by (auto intro!: one simp: defs proper_details_def event_of_def moves_None moves_Some lifecycle.simps)
      next
        case runs
        with \<open>dict_get reg _ = _\<close> Some show ?thesis
          by (auto intro!: one simp: defs proper_details_def event_of_def moves_None moves_Some lifecycle.simps
              run_state_def)
      qed
    qed
  qed
qed

lemma advances_drop_reader:
  "advances s (s', evs) \<Longrightarrow> advances s (s'\<lparr>sv_readers := sv_readers s' - {i}\<rparr>, evs)"
  by (simp add: advances_def jobs_ok_def state_at_def)

lemma progress_event_sel:
  "progress_event d p = Inr e \<Longrightarrow> je_job_id e = jd_job_id d \<and> je_state e = jd_state d \<and> je_progress e = jd_progress d"
  by (auto simp: progress_event_def event_of_def split: sum.splits)

lemma advances_progress:
  fixes now :: int
  assumes ok: "jobs_ok s" and i: "i \<in> sv_readers s" and d: "job_at s i = Some d"
    and pr: "0 \<le> pr" "pr \<le> 1"
    and evs: "evs = [] \<or> (\<exists>e. evs = [JobEvent e] \<and> je_job_id e = i \<and> je_state e = jd_state d)"
  defines "d' \<equiv> touched now (\<lambda>d. d\<lparr>jd_progress := pr, jd_state := if jd_state d = STOPPING then STOPPING else RUNNING\<rparr>) d"
  shows "advances s (s\<lparr>sv_store := dict_set i d' (sv_store s)\<rparr>, evs)"
proof -
  from jobs_okD(3) [OF ok i] d have st: "jd_state d = STOPPING \<or> (\<exists>r. run_at s i = Some r \<and> jd_state d = run_state r)"
    by auto
  then have same: "jd_state d' = jd_state d" by (auto simp: d'_def touched_def run_state_def)
  show ?thesis
  proof (rule advances_one [OF ok, where i = i and d = d'])
    show "proper_details i d'"
      using jobs_okD(1) [OF ok d] pr by (simp add: proper_details_def d'_def touched_def)
    show "dict_ok (sv_runs (s\<lparr>sv_store := dict_set i d' (sv_store s)\<rparr>))" using ok by (simp add: jobs_ok_def)
    show "mr_job_id r = i \<and> jd_state d' = run_state r"
      if "run_at (s\<lparr>sv_store := dict_set i d' (sv_store s)\<rparr>) i = Some r" for r
      using that jobs_okD(2) [OF ok, of i r] d same by simp
  qed (use st same evs d in \<open>auto simp: state_at_def moves_Some\<close>)
qed

lemma advances_line:
  assumes ok: "jobs_ok s" and i: "i \<in> sv_readers s"
  shows "advances s (case handle_worker_line loads str_of now i line s of (s', evs, r) \<Rightarrow> (s', evs))"
proof -
  from jobs_okD(3) [OF ok i] obtain d where d: "job_at s i = Some d" by auto
  have id: "jd_job_id d = i" using jobs_okD(1) [OF ok d] by (simp add: proper_details_def)
  let ?d = "\<lambda>pr. touched now (\<lambda>d. d\<lparr>jd_progress := pr, jd_state := if jd_state d = STOPPING then STOPPING else RUNNING\<rparr>) d"
  have st: "jd_state d = STOPPING \<or> jd_state d = RUNNING"
    using jobs_okD(3) [OF ok i] d by (auto simp: run_state_def split: if_splits)
  have clamp: "0 \<le> max 0 (min r 1)" "max 0 (min r 1) \<le> 1" for r :: real by simp_all
  have progress: "advances s (case handle_progress now i p s of (s', evs, r) \<Rightarrow> (s', evs))" for p
  proof (cases "case dict_get p ''progress'' of None \<Rightarrow> Inr 0 | Some v \<Rightarrow> json_float v")
    case (Inl e)
    then show ?thesis by (simp add: handle_progress_def advances_same ok)
  next
    case (Inr r)
    let ?pr = "max 0 (min r 1)"
    have upd: "store_update i now (\<lambda>e. e\<lparr>jd_progress := ?pr, jd_state := if jd_state d = STOPPING then STOPPING else RUNNING\<rparr>)
        (sv_store s) = Inr (?d ?pr, dict_set i (?d ?pr) (sv_store s))"
      using d by (simp add: store_update_simp touched_def)
    note adv = advances_progress [OF ok i d clamp(1) [of r] clamp(2) [of r], where now = now]
    show ?thesis
    proof (cases "progress_event (?d ?pr) p")
      case (Inl e)
      with Inr upd d adv [of "[]"] show ?thesis by (simp add: handle_progress_def Let_def store_get_def)
    next
      case e: (Inr e)
      have "je_job_id e = i \<and> je_state e = jd_state d"
        using progress_event_sel [OF e] id st by (auto simp: touched_def)
      with e Inr upd d adv [of "[JobEvent e]"] show ?thesis
        by (simp add: handle_progress_def Let_def store_get_def)
    qed
  qed
  then show ?thesis
    by (auto simp: handle_worker_line_def advances_same ok split: option.split json.split)
qed

lemma advances_stdout:
  assumes ok: "jobs_ok s"
  shows "advances s (case stdout_line loads str_of now i line s of (s', evs, r) \<Rightarrow> (s', evs))"
proof (cases "i \<in> sv_readers s")
  case False
  then show ?thesis by (simp add: stdout_line_def advances_same ok)
next
  case True
  from advances_line [OF ok True, of loads str_of now "str_strip line"] True show ?thesis
    by (auto simp: stdout_line_def split: prod.splits sum.splits intro: advances_drop_reader)
qed

fun starts :: "job_action \<Rightarrow> string list" where
  "starts (StartJob i l now req) = [i]"
| "starts _ = []"

lemma advances_op:
  assumes ok: "jobs_ok s" and new: "\<And>i. i \<in> set (starts a) \<Longrightarrow> job_at s i = None"
  shows "advances s (job_op env s a)"
proof (cases a)
  case (StartJob i l now req)
  with advances_start [OF ok, of i "en_registry env" "en_start env" l now req] new show ?thesis by simp
next
  case (StopJob i now reason)
  with advances_terminate [OF ok, of now i reason] show ?thesis by simp
next
  case (StopTimeout exited i)
  with advances_timeout [OF ok, of env exited i] show ?thesis by (simp only:)
next
  case (StdoutLine i now line)
  with advances_stdout [OF ok, of "en_loads env" "en_str_of env" now i line] show ?thesis by simp
next
  case (StderrLine i line)
  then show ?thesis by (simp add: stderr_line_def advances_same ok)
next
  case (StdoutEnd i)
  with advances_drop_reader [OF advances_same [OF ok, of "[]"], of i] show ?thesis by simp
next
  case (ProcessExit i now c)
  with advances_exit [OF ok, of "en_show_int env" now i c] show ?thesis by simp
qed

section \<open>Jobs without a managed run\<close>

text \<open>A job that no task works for keeps its details.\<close>

definition unmanaged :: "string \<Rightarrow> supervisor \<Rightarrow> bool" where
  "unmanaged i s \<longleftrightarrow> run_at s i = None \<and> i \<notin> sv_readers s"

lemmas dict_simps = dict_get_set dict_get_pop store_update_def store_get_def Let_def

lemma unmanaged_start:
  assumes "unmanaged i s" and "j \<noteq> i" and "manager_start reg start j l now req s = (s', evs, r)"
  shows "unmanaged i s' \<and> job_at s' i = job_at s i"
  using assms
  by (auto simp: manager_start_def spawn_def store_create_def queued_job_def registry_get_def unmanaged_def
      dict_simps split: option.splits sum.splits prod.splits)

lemma unmanaged_stop:
  assumes "unmanaged i s" and "jobs_ok s" and "manager_stop now j reason s = (s', evs, r)"
  shows "unmanaged i s' \<and> job_at s' i = job_at s i"
proof (cases "job_at s j")
  case None
  with assms show ?thesis by (simp add: manager_stop_def manager_get_def store_get_def)
next
  case (Some d)
  with jobs_okD(1) [OF assms(2) Some] have "jd_job_id d = j" by (simp add: proper_details_def)
  with assms Some show ?thesis
    by (auto simp: manager_stop_def manager_get_def terminate_def unmanaged_def dict_simps
        split: option.splits sum.splits if_splits)
qed

lemma progress_frame:
  "fst (handle_progress now j p s) = s \<or>
   (\<exists>f d st. store_update j now f (sv_store s) = Inr (d, st) \<and> fst (handle_progress now j p s) = s\<lparr>sv_store := st\<rparr>)"
proof (cases "case dict_get p ''progress'' of None \<Rightarrow> Inr 0 | Some v \<Rightarrow> json_float v")
  case (Inl e)
  then show ?thesis by (simp add: handle_progress_def)
next
  case (Inr r)
  let ?next = "case store_get (sv_store s) j of None \<Rightarrow> RUNNING
               | Some current \<Rightarrow> if jd_state current = STOPPING then STOPPING else RUNNING"
  let ?f = "\<lambda>d. d\<lparr>jd_progress := max 0 (min r 1), jd_state := ?next\<rparr>"
  have *: "fst (handle_progress now j p s) =
      (case store_update j now ?f (sv_store s) of Inl e \<Rightarrow> s | Inr (d, st) \<Rightarrow> s\<lparr>sv_store := st\<rparr>)"
    using Inr by (simp add: handle_progress_def Let_def split: sum.split prod.split)
  show ?thesis
    by (cases "store_update j now ?f (sv_store s)") (auto simp: *)
qed

lemma handle_frame:
  "fst (handle_worker_line loads str_of now j line s) = s \<or>
   (\<exists>f d st. store_update j now f (sv_store s) = Inr (d, st)
      \<and> fst (handle_worker_line loads str_of now j line s) = s\<lparr>sv_store := st\<rparr>)"
  using progress_frame [of now j _ s]
  by (simp add: handle_worker_line_def split: option.split json.split)

lemma unmanaged_stdout:
  assumes "unmanaged i s" and "stdout_line loads str_of now j line s = (s', evs, r)"
  shows "unmanaged i s' \<and> job_at s' i = job_at s i"
proof (cases "j \<in> sv_readers s")
  case False
  with assms show ?thesis by (simp add: stdout_line_def)
next
  case True
  with assms(1) have ij: "i \<noteq> j" by (auto simp: unmanaged_def)
  let ?h = "fst (handle_worker_line loads str_of now j (str_strip line) s)"
  have "s' = ?h \<or> s' = ?h\<lparr>sv_readers := sv_readers ?h - {j}\<rparr>"
    using assms(2) True by (auto simp: stdout_line_def split: prod.splits sum.splits)
  moreover have "unmanaged i ?h \<and> job_at ?h i = job_at s i"
    using handle_frame [of loads str_of now j "str_strip line" s]
  proof (elim disjE exE conjE)
    fix f d st
    assume "store_update j now f (sv_store s) = Inr (d, st)" and h: "?h = s\<lparr>sv_store := st\<rparr>"
    from store.update_Inr [OF this(1)] ij have "store_get st i = store_get (sv_store s) i" by simp
    with assms(1) show ?thesis unfolding h by (simp add: unmanaged_def store_get_def)
  qed (use assms(1) in simp)
  ultimately show ?thesis by (auto simp: unmanaged_def)
qed

lemma unmanaged_exit:
  assumes "unmanaged i s" and "jobs_ok s" and "wait_for_completion si now j c s = (s', evs, r)"
  shows "unmanaged i s' \<and> job_at s' i = job_at s i"
proof (cases "run_at s j")
  case None
  with assms show ?thesis by (simp add: wait_for_completion_def)
next
  case (Some mr)
  with assms(1) have ij: "i \<noteq> j" by (auto simp: unmanaged_def)
  from jobs_okD(2) [OF assms(2) Some] obtain d where d: "mr_job_id mr = j" "job_at s j = Some d" by auto
  have "dict_ok (sv_runs s)" using assms(2) by (simp add: jobs_ok_def)
  with Some d ij assms(1,3) show ?thesis
    by (cases "j \<in> sv_readers s") (auto simp: wait_for_completion_def drop_run_def unmanaged_def dict_simps)
qed

lemma unmanaged_op:
  assumes "unmanaged i s" and ok: "jobs_ok s" and "i \<notin> set (starts a)"
  shows "unmanaged i (job_step env s a) \<and> job_at (job_step env s a) i = job_at s i"
proof (cases a)
  case (StartJob j l now req)
  obtain s' evs r where op: "manager_start (en_registry env) (en_start env) j l now req s = (s', evs, r)"
    by (metis prod_cases3)
  from assms(3) StartJob have "j \<noteq> i" by auto
  from unmanaged_start [OF assms(1) this op] op StartJob show ?thesis by (simp add: job_step_def)
next
  case (StopJob j now reason)
  obtain s' evs r where op: "manager_stop now j reason s = (s', evs, r)"
    by (metis prod_cases3)
  from unmanaged_stop [OF assms(1) ok op] op StopJob show ?thesis by (simp add: job_step_def)
next
  case (StopTimeout exited j)
  then show ?thesis
    using assms jobs_okD(2) [OF ok, of j]
    by (auto simp: job_step_def terminate_timeout_def drop_run_def unmanaged_def jobs_ok_def dict_simps
        split: option.splits)
next
  case (StdoutLine j now line)
  obtain s' evs r where op: "stdout_line (en_loads env) (en_str_of env) now j line s = (s', evs, r)"
    by (metis prod_cases3)
  from unmanaged_stdout [OF assms(1) op] op StdoutLine show ?thesis by (simp add: job_step_def)
next
  case (StderrLine j line)
  with assms show ?thesis by (simp add: job_step_def stderr_line_def)
next
  case (StdoutEnd j)
  with assms show ?thesis by (simp add: job_step_def unmanaged_def)
next
  case (ProcessExit j now c)
  obtain s' evs r where op: "wait_for_completion (en_show_int env) now j c s = (s', evs, r)"
    by (metis prod_cases3)
  from unmanaged_exit [OF assms(1) ok op] op ProcessExit show ?thesis by (simp add: job_step_def)
qed

lemma terminal_unmanaged:
  assumes "jobs_ok s" and "job_at s i = Some d" and "terminal (jd_state d)"
  shows "unmanaged i s"
proof -
  have "run_at s i = None"
    using assms jobs_okD(2) [OF assms(1), of i] by (cases "run_at s i") (auto simp: terminal_def run_state_def split: if_splits)
  moreover have "i \<notin> sv_readers s"
    using assms jobs_okD(3) [OF assms(1), of i] calculation by (auto simp: terminal_def)
  ultimately show ?thesis by (simp add: unmanaged_def)
qed

section \<open>Runs\<close>

lemma jobs_ok_new: "jobs_ok new_supervisor"
  by (simp add: jobs_ok_def new_supervisor_def)

lemma op_new_jobs:
  assumes "jobs_ok s" and "job_at s i = None" and "i \<notin> set (starts a)"
  shows "job_at (job_step env s a) i = None"
proof -
  have "unmanaged i s"
    using assms(2) jobs_okD(2) [OF assms(1), of i] jobs_okD(3) [OF assms(1), of i]
    by (cases "run_at s i") (auto simp: unmanaged_def)
  from unmanaged_op [OF this assms(1,3)] assms(2) show ?thesis by simp
qed

text \<open>Identifiers are drawn fresh: no identifier is used by two starts, none is in use already.\<close>

definition fresh_starts :: "supervisor \<Rightarrow> job_action list \<Rightarrow> bool" where
  "fresh_starts s as \<longleftrightarrow> distinct (concat (map starts as)) \<and> (\<forall>i \<in> set (concat (map starts as)). job_at s i = None)"

lemma fresh_starts_step:
  assumes "jobs_ok s" and "fresh_starts s (a # as)"
  shows "fresh_starts (job_step env s a) as"
  using assms op_new_jobs [OF assms(1), of _ a env]
  by (auto simp: fresh_starts_def)

lemma jobs_run:
  "jobs_ok s \<Longrightarrow> fresh_starts s as \<Longrightarrow>
     jobs_ok (run (job_step env) s as)
     \<and> follows (state_at s i) (states_of i (job_trace env s as))
     \<and> reached (state_at s i) (states_of i (job_trace env s as)) = state_at (run (job_step env) s as) i"
proof (induction as arbitrary: s)
  case Nil
  then show ?case by simp
next
  case (Cons a as)
  have "advances s (job_op env s a)"
    using Cons.prems by (intro advances_op) (auto simp: fresh_starts_def)
  then have step: "jobs_ok (job_step env s a)" "follows (state_at s i) (states_of i (snd (job_op env s a)))"
      "reached (state_at s i) (states_of i (snd (job_op env s a))) = state_at (job_step env s a) i"
    by (simp_all add: advances_def job_step_def)
  from Cons.IH [OF step(1) fresh_starts_step [OF Cons.prems]] step(2,3)
  show ?case by (simp add: states_of_append follows_append reached_append)
qed

lemma unmanaged_run:
  "unmanaged i s \<Longrightarrow> jobs_ok s \<Longrightarrow> fresh_starts s as \<Longrightarrow> i \<notin> set (concat (map starts as)) \<Longrightarrow>
     job_at (run (job_step env) s as) i = job_at s i"
proof (induction as arbitrary: s)
  case Nil
  then show ?case by simp
next
  case (Cons a as)
  have "jobs_ok (job_step env s a)"
    using jobs_run [of s "[a]" env] Cons.prems by (simp add: fresh_starts_def)
  with Cons.IH [of "job_step env s a"] unmanaged_op [OF Cons.prems(1,2), of a env] Cons.prems
    fresh_starts_step [OF Cons.prems(2,3)]
  show ?case by simp
qed

section \<open>Frames\<close>

text \<open>A progress message keeps the state of the job whose reader delivers it.\<close>

lemma progress_state:
  assumes ok: "jobs_ok s" and i: "j \<in> sv_readers s"
  shows "state_at (fst (handle_progress now j p s)) i = state_at s i"
proof -
  from jobs_okD(3) [OF ok i] obtain d where d: "job_at s j = Some d" "jd_state d = STOPPING \<or> jd_state d = RUNNING"
    by (auto simp: run_state_def split: if_splits)
  then show ?thesis
    by (auto simp: handle_progress_def Let_def store_update_simp store_get_def touched_def state_at_def dict_get_set
        split: sum.split option.split)
qed

lemma stdout_state:
  assumes ok: "jobs_ok s"
  shows "state_at (fst (stdout_line loads str_of now j line s)) i = state_at s i"
proof (cases "j \<in> sv_readers s")
  case False
  then show ?thesis by (simp add: stdout_line_def)
next
  case True
  have "state_at (fst (handle_worker_line loads str_of now j (str_strip line) s)) i = state_at s i"
    using progress_state [OF ok True] by (simp add: handle_worker_line_def split: option.split json.split)
  moreover obtain s' evs r where "handle_worker_line loads str_of now j (str_strip line) s = (s', evs, r)"
    by (metis prod_cases3)
  ultimately show ?thesis
    using True by (cases r) (simp_all add: stdout_line_def state_at_def)
qed

lemma stdout_runs: "sv_runs (fst (stdout_line loads str_of now j line s)) = sv_runs s"
proof -
  have "sv_runs (fst (handle_worker_line loads str_of now j (str_strip line) s)) = sv_runs s"
    using handle_frame [of loads str_of now j "str_strip line" s] by auto
  moreover obtain s' evs r where "handle_worker_line loads str_of now j (str_strip line) s = (s', evs, r)"
    by (metis prod_cases3)
  ultimately show ?thesis by (cases r) (simp_all add: stdout_line_def)
qed

text \<open>The run of a job only changes by the actions that name the job and manage its run.\<close>

fun manages :: "string \<Rightarrow> job_action \<Rightarrow> bool" where
  "manages i (StartJob j l now req) \<longleftrightarrow> j = i"
| "manages i (StopJob j now reason) \<longleftrightarrow> j = i"
| "manages i (StopTimeout exited j) \<longleftrightarrow> j = i"
| "manages i (ProcessExit j now c) \<longleftrightarrow> j = i"
| "manages i _ \<longleftrightarrow> False"

lemma start_frame:
  assumes "j \<noteq> i"
  shows "run_at (fst (manager_start reg start j l now req s)) i = run_at s i
     \<and> state_at (fst (manager_start reg start j l now req s)) i = state_at s i"
  using assms
  by (simp add: manager_start_def spawn_def store_create_def queued_job_def registry_get_def state_at_def
      dict_simps split: option.split sum.split prod.split)

lemma stop_frame:
  assumes "j \<noteq> i" and ok: "jobs_ok s"
  shows "run_at (fst (manager_stop now j reason s)) i = run_at s i
     \<and> state_at (fst (manager_stop now j reason s)) i = state_at s i"
proof (cases "job_at s j")
  case None
  then show ?thesis by (simp add: manager_stop_def manager_get_def store_get_def)
next
  case (Some d)
  with jobs_okD(1) [OF ok Some] have "jd_job_id d = j" by (simp add: proper_details_def)
  with assms Some show ?thesis
    by (simp add: manager_stop_def manager_get_def terminate_def state_at_def dict_simps
        split: option.split sum.split prod.split)
qed

lemma exit_frame:
  assumes "j \<noteq> i" and ok: "jobs_ok s"
  shows "run_at (fst (wait_for_completion si now j c s)) i = run_at s i
     \<and> state_at (fst (wait_for_completion si now j c s)) i = state_at s i"
proof (cases "run_at s j")
  case None
  then show ?thesis by (simp add: wait_for_completion_def)
next
  case (Some mr)
  from jobs_okD(2) [OF ok Some] obtain d where d: "mr_job_id mr = j" "job_at s j = Some d" by auto
  have "dict_ok (sv_runs s)" using ok by (simp add: jobs_ok_def)
  with Some d assms(1) show ?thesis
    by (cases "j \<in> sv_readers s") (simp_all add: wait_for_completion_def drop_run_def state_at_def dict_simps)
qed

lemma manages_frame:
  assumes ok: "jobs_ok s" and "\<not> manages i a"
  shows "run_at (job_step env s a) i = run_at s i \<and> state_at (job_step env s a) i = state_at s i"
proof (cases a)
  case (StartJob j l now req)
  with assms(2) start_frame [of j i] show ?thesis by (simp add: job_step_def case_prod_beta)
next
  case (StopJob j now reason)
  with assms stop_frame [of j i] show ?thesis by (simp add: job_step_def case_prod_beta)
next
  case (StopTimeout exited j)
  show ?thesis
  proof (cases "\<exists>r. run_at s j = Some r \<and> mr_stop_requested r")
    case False
    with StopTimeout show ?thesis by (auto simp: job_step_def split: option.split)
  next
    case True
    then obtain r where r: "run_at s j = Some r" "mr_stop_requested r" by blast
    with ok have "mr_job_id r = j" "dict_ok (sv_runs s)" by (auto simp: jobs_ok_def)
    with r StopTimeout assms(2) show ?thesis
      by (simp add: job_step_def terminate_timeout_def drop_run_def state_at_def Let_def dict_get_pop)
  qed
next
  case (StdoutLine j now line)
  with stdout_runs stdout_state [OF ok] show ?thesis by (simp add: job_step_def case_prod_beta)
next
  case (StderrLine j line)
  then show ?thesis by (simp add: job_step_def stderr_line_def)
next
  case (StdoutEnd j)
  then show ?thesis by (simp add: job_step_def state_at_def)
next
  case (ProcessExit j now c)
  with assms exit_frame [of j i] show ?thesis by (simp add: job_step_def case_prod_beta)
qed

lemma manages_run:
  "jobs_ok s \<Longrightarrow> fresh_starts s as \<Longrightarrow> list_all (\<lambda>a. \<not> manages i a) as \<Longrightarrow>
     run_at (run (job_step env) s as) i = run_at s i \<and> state_at (run (job_step env) s as) i = state_at s i"
proof (induction as arbitrary: s)
  case Nil
  then show ?case by simp
next
  case (Cons a as)
  have "jobs_ok (job_step env s a)"
    using jobs_run [of s "[a]" env] Cons.prems by (simp add: fresh_starts_def)
  with Cons.IH [of "job_step env s a"] manages_frame [OF Cons.prems(1), of i a env] Cons.prems
    fresh_starts_step [OF Cons.prems(1,2)]
  show ?case by simp
qed

text \<open>A job that is stopping and has lost its run stays so.\<close>

lemma stranded_op:
  assumes ok: "jobs_ok s" and "run_at s i = None" and "state_at s i = Some STOPPING" and "i \<notin> set (starts a)"
  shows "run_at (job_step env s a) i = None \<and> state_at (job_step env s a) i = Some STOPPING"
proof (cases "manages i a")
  case False
  with manages_frame [OF ok] assms show ?thesis by simp
next
  case True
  from assms(3) obtain d where d: "job_at s i = Some d" by (auto simp: state_at_def)
  with jobs_okD(1) [OF ok d] have "jd_job_id d = i" by (simp add: proper_details_def)
  with d True assms show ?thesis
    by (cases a) (auto simp: job_step_def manager_stop_def manager_get_def store_get_def terminate_def
        wait_for_completion_def)
qed

lemma stranded_run:
  "jobs_ok s \<Longrightarrow> fresh_starts s as \<Longrightarrow> run_at s i = None \<Longrightarrow> state_at s i = Some STOPPING \<Longrightarrow>
     state_at (run (job_step env) s as) i = Some STOPPING"
proof (induction as arbitrary: s)
  case Nil
  then show ?case by simp
next
  case (Cons a as)
  have "jobs_ok (job_step env s a)"
    using jobs_run [of s "[a]" env] Cons.prems by (simp add: fresh_starts_def)
  moreover have "i \<notin> set (starts a)"
    using Cons.prems by (auto simp: fresh_starts_def state_at_def)
  ultimately show ?case
    using Cons.IH [of "job_step env s a"] stranded_op [OF Cons.prems(1,3,4), of a env]
      fresh_starts_step [OF Cons.prems(1,2)] by simp
qed

lemma fresh_starts_append:
  "jobs_ok s \<Longrightarrow> fresh_starts s (as @ bs) \<Longrightarrow> fresh_starts (run (job_step env) s as) bs \<and> fresh_starts s as"
proof (induction as arbitrary: s)
  case Nil
  then show ?case by (simp add: fresh_starts_def)
next
  case (Cons a as)
  have one: "fresh_starts s (a # as)" using Cons.prems(2) by (auto simp: fresh_starts_def)
  have "jobs_ok (job_step env s a)"
    using jobs_run [of s "[a]" env] Cons.prems by (simp add: fresh_starts_def)
  with Cons.IH [of "job_step env s a"] fresh_starts_step [of s a "as @ bs" env] Cons.prems one
  show ?case by simp
qed

lemma follows_terminal: "terminal x \<Longrightarrow> follows (Some x) ys \<Longrightarrow> set ys \<subseteq> {x}"
  by (induction ys) (auto simp: moves_Some terminal_no_successor)

lemma stop_live:
  assumes ok: "jobs_ok s" and r: "run_at s i = Some r"
  shows "run_at (job_step env s (StopJob i now why)) i = Some (r\<lparr>mr_stop_requested := True, mr_termination_reason := why\<rparr>)
     \<and> state_at (job_step env s (StopJob i now why)) i = Some STOPPING
     \<and> jobs_ok (job_step env s (StopJob i now why))"
proof -
  from jobs_okD(2) [OF ok r] obtain d where d: "job_at s i = Some d" by auto
  with jobs_okD(1) [OF ok d] have "jd_job_id d = i" by (simp add: proper_details_def)
  moreover have "advances s (job_op env s (StopJob i now why))" by (rule advances_op [OF ok]) simp
  ultimately show ?thesis
    using d r
    by (simp add: job_step_def advances_def manager_stop_def manager_get_def store_get_def terminate_def
        store_update_simp Let_def dict_get_set state_at_def touched_def case_prod_beta)
qed

section \<open>Properties\<close>

abbreviation demo_env :: job_env where
  "demo_env \<equiv> \<lparr>en_registry = [(''import'', \<lparr>df_job_type = ''import'', df_description = [],
       df_launcher = Some (\<lambda>_ _. Inr \<lparr>ls_command = [''worker''], ls_cwd = None, ls_control_file = Some ''stop.flag''\<rparr>)\<rparr>)],
     en_start = (\<lambda>_. None),
     en_loads = (\<lambda>l. if l = ''half'' then Some (JObj [(''type'', JStr ''progress''), (''progress'', JNum (1 / 2))])
                    else if l = ''123'' then Some (JNum 123) else None),
     en_str_of = (\<lambda>_. []), en_show_int = (\<lambda>_. [])\<rparr>"

abbreviation demo_start :: job_action where
  "demo_start \<equiv> StartJob ''j'' ''l'' 0 \<lparr>sr_job_type = ''import'', sr_payload = []\<rparr>"

lemma demo_run: "run_at (run (job_step demo_env) new_supervisor [demo_start]) ''j'' =
    Some \<lparr>mr_job_id = ''j'', mr_job_type = ''import'', mr_control_file = Some ''stop.flag'',
          mr_stop_requested = False, mr_termination_reason = None\<rparr>"
  by (simp add: job_step_def manager_start_def registry_get_def spawn_def store_create_def new_supervisor_def
      queued_job_def store_update_def touched_def starting_details_def Let_def)

text \<open>
  C2: the published states of every job follow the life cycle. Whatever the interleaving of
  starts, stop requests, worker lines, stream ends, exits and time-outs, as long as the
  identifiers are fresh: the states published for a job begin with queued and each is the one
  before it or a successor of it, the last one is the state in the store, and every stored job
  has its own identifier and a progress between zero and one.
\<close>

theorem jobs_follow_lifecycle:
  assumes "fresh_starts new_supervisor as"
  shows "follows None (states_of i (job_trace env new_supervisor as))
    \<and> reached None (states_of i (job_trace env new_supervisor as)) = state_at (run (job_step env) new_supervisor as) i
    \<and> (\<forall>d. job_at (run (job_step env) new_supervisor as) i = Some d \<longrightarrow> proper_details i d)"
proof -
  have "state_at new_supervisor i = None" by (simp add: state_at_def new_supervisor_def)
  with jobs_run [OF jobs_ok_new assms, of env i] jobs_okD(1) show ?thesis by metis
qed

theorem jobs_follow_lifecycle_witness:
  "follows None (states_of ''j'' (job_trace demo_env new_supervisor
     [demo_start, StdoutLine ''j'' 1 ''half'', StopJob ''j'' 2 None, StdoutEnd ''j'', ProcessExit ''j'' 3 0]))"
  using jobs_follow_lifecycle [of "[demo_start, StdoutLine ''j'' 1 ''half'', StopJob ''j'' 2 None, StdoutEnd ''j'',
      ProcessExit ''j'' 3 0]" "''j''" demo_env]
  by (simp add: fresh_starts_def new_supervisor_def)

text \<open>
  A final state is final. Once a job is completed, failed or cancelled, its details never
  change again, and no other state is published for it.
\<close>

theorem terminal_job_is_final:
  assumes "fresh_starts new_supervisor (as @ bs)"
    and "job_at (run (job_step env) new_supervisor as) i = Some d" and "terminal (jd_state d)"
  shows "job_at (run (job_step env) new_supervisor (as @ bs)) i = Some d
    \<and> set (states_of i (job_trace env (run (job_step env) new_supervisor as) bs)) \<subseteq> {jd_state d}"
proof -
  let ?s = "run (job_step env) new_supervisor as"
  note fresh = fresh_starts_append [OF jobs_ok_new assms(1), of env]
  have ok: "jobs_ok ?s" using jobs_run [OF jobs_ok_new] fresh by blast
  have "i \<notin> set (concat (map starts bs))" using fresh assms(2) by (auto simp: fresh_starts_def)
  with unmanaged_run [OF terminal_unmanaged [OF ok assms(2,3)] ok] fresh assms(2)
  have "job_at (run (job_step env) ?s bs) i = Some d" by simp
  moreover have "follows (Some (jd_state d)) (states_of i (job_trace env ?s bs))"
    using jobs_run [OF ok, of bs env i] fresh assms(2) by (simp add: state_at_def)
  ultimately show ?thesis using follows_terminal [OF assms(3)] by (simp add: run_append)
qed

theorem terminal_job_is_final_witness:
  "state_at (run (job_step demo_env) new_supervisor ([demo_start, StdoutEnd ''j'', ProcessExit ''j'' 3 0] @
      [StopJob ''j'' 4 None, StdoutLine ''j'' 5 ''half''])) ''j'' = Some COMPLETED"
proof -
  let ?as = "[demo_start, StdoutEnd ''j'', ProcessExit ''j'' 3 0]" and ?bs = "[StopJob ''j'' 4 None, StdoutLine ''j'' 5 ''half'']"
  have "\<exists>d. job_at (run (job_step demo_env) new_supervisor ?as) ''j'' = Some d \<and> jd_state d = COMPLETED"
    by (simp add: job_step_def manager_start_def registry_get_def spawn_def store_create_def new_supervisor_def
        queued_job_def store_update_def touched_def starting_details_def wait_for_completion_def store_get_def
        drop_run_def finished_details_def Let_def)
  then obtain d where d: "job_at (run (job_step demo_env) new_supervisor ?as) ''j'' = Some d" "jd_state d = COMPLETED"
    by blast
  have fresh: "fresh_starts new_supervisor (?as @ ?bs)" by (simp add: fresh_starts_def new_supervisor_def)
  have "terminal (jd_state d)" using d(2) by (simp add: terminal_def)
  from terminal_job_is_final [OF fresh d(1) this] d(2) show ?thesis unfolding state_at_def by (metis option.simps(9))
qed

text \<open>
  C18: a stop request is honoured. Once a live job was asked to stop, then, whatever lines
  its worker still sends and whatever happens to other jobs, as long as the wait does not time
  out, the exit of the worker with any code makes the job cancelled, with that exit code and with the
  reason of the request, and its run is gone.
\<close>

theorem stop_request_cancels:
  fixes env as why now t c
  assumes "fresh_starts new_supervisor (as @ bs)"
    and "run_at (run (job_step env) new_supervisor as) i = Some r"
    and "list_all (\<lambda>a. \<not> manages i a) bs"
  defines "s \<equiv> run (job_step env) (job_step env (run (job_step env) new_supervisor as) (StopJob i now why))
      (bs @ [StdoutEnd i, ProcessExit i t c])"
  shows "(\<exists>d. job_at s i = Some d \<and> jd_state d = CANCELLED \<and> jd_exit_code d = Some c \<and> jd_last_error d = why)
    \<and> run_at s i = None"
proof -
  let ?s0 = "run (job_step env) new_supervisor as"
  let ?s1 = "job_step env ?s0 (StopJob i now why)"
  let ?s2 = "run (job_step env) ?s1 bs"
  note fresh = fresh_starts_append [OF jobs_ok_new assms(1), of env]
  have ok: "jobs_ok ?s0" using jobs_run [OF jobs_ok_new] fresh by blast
  note stop = stop_live [OF ok assms(2), of env now why]
  have fresh1: "fresh_starts ?s1 bs"
    using fresh_starts_step [OF ok, of "StopJob i now why" bs env] fresh by (simp add: fresh_starts_def)
  have ok2: "jobs_ok ?s2" using jobs_run [of ?s1 bs env] stop fresh1 by blast
  have run2: "run_at ?s2 i = Some (r\<lparr>mr_stop_requested := True, mr_termination_reason := why\<rparr>)"
    using manages_run [of ?s1 bs i env] stop fresh1 assms(3) by simp
  from jobs_okD(2) [OF ok2 run2] obtain d where "mr_job_id r = i" "job_at ?s2 i = Some d" by auto
  moreover have "dict_ok (sv_runs ?s2)" using ok2 by (simp add: jobs_ok_def)
  ultimately show ?thesis
    using run2
    by (simp add: s_def run_append) (simp add: job_step_def wait_for_completion_def store_get_def store_update_simp
        drop_run_def finished_details_def touched_def dict_get_set dict_get_pop)
qed

theorem stop_request_cancels_witness:
  "state_at (run (job_step demo_env) (job_step demo_env (run (job_step demo_env) new_supervisor [demo_start])
     (StopJob ''j'' 5 (Some ''user''))) ([StdoutLine ''j'' 6 ''half''] @ [StdoutEnd ''j'', ProcessExit ''j'' 7 0])) ''j''
   = Some CANCELLED"
  using stop_request_cancels [of "[demo_start]" "[StdoutLine ''j'' 6 ''half'']" demo_env "''j''", OF _ demo_run,
      of 5 "Some ''user''" 7 0]
  by (auto simp: fresh_starts_def new_supervisor_def state_at_def)

text \<open>
  A stop that times out strands the job. The wait for the worker is not shielded, so the
  time-out cancels the task that would record the end of the job: whatever happens afterwards,
  also when the worker exits or is asked to stop again, the job stays in the state stopping
  and never reaches a final one.
\<close>

theorem stop_timeout_strands:
  fixes env as why now exited
  assumes "fresh_starts new_supervisor (as @ bs)"
    and "run_at (run (job_step env) new_supervisor as) i = Some r"
  defines "s \<equiv> job_step env (job_step env (run (job_step env) new_supervisor as) (StopJob i now why)) (StopTimeout exited i)"
  shows "state_at (run (job_step env) s bs) i = Some STOPPING"
proof -
  let ?s0 = "run (job_step env) new_supervisor as"
  let ?s1 = "job_step env ?s0 (StopJob i now why)"
  note fresh = fresh_starts_append [OF jobs_ok_new assms(1), of env]
  have ok: "jobs_ok ?s0" using jobs_run [OF jobs_ok_new] fresh by blast
  note stop = stop_live [OF ok assms(2), of env now why]
  have fresh2: "fresh_starts ?s0 (StopJob i now why # StopTimeout exited i # bs)"
    using fresh by (simp add: fresh_starts_def)
  have "fresh_starts ?s1 (StopTimeout exited i # bs)"
    using fresh_starts_step [OF ok fresh2] .
  with stop have fresh_s: "fresh_starts s bs" unfolding s_def using fresh_starts_step by blast
  have "advances ?s1 (job_op env ?s1 (StopTimeout exited i))"
    using stop by (intro advances_op) simp_all
  then have ok_s: "jobs_ok s" by (simp add: s_def advances_def job_step_def)
  have "mr_job_id r = i" using jobs_okD(2) [OF ok assms(2)] by simp
  moreover have "dict_ok (sv_runs ?s1)" using stop by (simp add: jobs_ok_def)
  ultimately have "run_at s i = None \<and> state_at s i = Some STOPPING"
    using stop unfolding s_def
    by (subst (1 2) job_step_def) (simp add: terminate_timeout_def drop_run_def Let_def dict_get_pop state_at_def)
  with stranded_run [OF ok_s fresh_s] show ?thesis by simp
qed

theorem stop_timeout_strands_witness:
  "state_at (run (job_step demo_env) (job_step demo_env (job_step demo_env (run (job_step demo_env) new_supervisor
      [demo_start]) (StopJob ''j'' 5 None)) (StopTimeout False ''j'')) [StdoutEnd ''j'', ProcessExit ''j'' 9 0]) ''j''
   = Some STOPPING"
  using stop_timeout_strands [of "[demo_start]" "[StdoutEnd ''j'', ProcessExit ''j'' 9 0]" demo_env "''j''", OF _ demo_run,
      of 5 None False]
  by (simp add: fresh_starts_def new_supervisor_def)

text \<open>
  C40: a line that is valid JSON but not an object ends the reader. The handler asks the decoded
  value for a key it cannot have; the exception ends the task that reads the output and is never
  seen: the line and every later line of the worker leave no trace in the store or the events.
\<close>

theorem non_object_line_ends_reader:
  assumes "i \<in> sv_readers s" and "str_strip line \<noteq> []"
    and "en_loads env (str_strip line) = Some v" and "\<forall>p. v \<noteq> JObj p"
  shows "run (job_step env) s (StdoutLine i now line # map (\<lambda>(t, l). StdoutLine i t l) ls) =
      s\<lparr>sv_readers := sv_readers s - {i}\<rparr>
    \<and> job_trace env s (StdoutLine i now line # map (\<lambda>(t, l). StdoutLine i t l) ls) = []"
proof -
  let ?s = "s\<lparr>sv_readers := sv_readers s - {i}\<rparr>"
  have "job_op env s (StdoutLine i now line) = (?s, [])"
    using assms by (cases v) (simp_all add: stdout_line_def handle_worker_line_def)
  moreover have "run (job_step env) ?s (map (\<lambda>(t, l). StdoutLine i t l) ls) = ?s
      \<and> job_trace env ?s (map (\<lambda>(t, l). StdoutLine i t l) ls) = []"
    by (induction ls) (auto simp: job_step_def stdout_line_def)
  ultimately show ?thesis by (simp add: job_step_def)
qed

theorem non_object_line_ends_reader_witness:
  "job_trace demo_env (new_supervisor\<lparr>sv_readers := {''j''}\<rparr>)
     (StdoutLine ''j'' 1 ''123'' # map (\<lambda>(t, l). StdoutLine ''j'' t l) [(2, ''half'')]) = []"
proof -
  have "str_strip ''123'' = ''123''" by (simp add: str_eval)
  then show ?thesis
    using non_object_line_ends_reader [of "''j''" "new_supervisor\<lparr>sv_readers := {''j''}\<rparr>" "''123''" demo_env
        "JNum 123" 1 "[(2, ''half'')]"]
    by simp
qed

text \<open>
  What a start amounts to, on every branch. An unknown type is refused and changes nothing; a
  job whose definition has no launcher stays queued and the caller gets an error; a launcher or a
  process that fails leaves the job failed with exit code -1 and the text of the exception; else
  the job is running, managed and read.
\<close>

theorem start_outcomes:
  fixes reg start i log now req s
  defines "q \<equiv> \<lambda>df. queued_job i log now (df_job_type df)"
  defines "st \<equiv> \<lambda>df. (starting_details now (q df))\<lparr>jd_updated_at := now\<rparr>"
  defines "r \<equiv> manager_start reg start i log now req s"
  shows "case registry_get reg (sr_job_type req) of
      None \<Rightarrow> r = (s, [], Inl (UnknownJobTypeError (sr_job_type req)))
    | Some df \<Rightarrow> (case df_launcher df of
        None \<Rightarrow> snd (snd r) = Inl (NoLauncher (df_job_type df)) \<and> job_at (fst r) i = Some (q df)
      | Some launcher \<Rightarrow>
          (case (case launcher req (st df) of Inl exc \<Rightarrow> Inl exc
             | Inr spec \<Rightarrow> (case start spec of Some exc \<Rightarrow> Inl exc | None \<Rightarrow> Inr spec)) of
             Inl exc \<Rightarrow> sv_runs (fst r) = sv_runs s \<and> job_at (fst r) i =
               Some ((st df)\<lparr>jd_state := FAILED, jd_exit_code := Some (- 1), jd_last_error := Some exc\<rparr>)
           | Inr spec \<Rightarrow> i \<in> sv_readers (fst r) \<and> map_option mr_control_file (run_at (fst r) i) = Some (ls_control_file spec)
               \<and> job_at (fst r) i = Some ((st df)\<lparr>jd_state := RUNNING\<rparr>)))"
  unfolding r_def st_def q_def
  by (simp add: manager_start_def spawn_def registry_get_def store_create_def queued_job_def touched_def
      starting_details_def manager_get_def dict_simps split: option.split sum.split prod.split)

end
