(* ===== verification/Bandit.thy ===== *)
theory Bandit
  imports Stores Runs
begin

text \<open>
  The Gaussian Thompson bandit that picks an action profile per symbol,
  \<open>src/botik/learning/bandit.py\<close>. Its state are the rows of \<open>bandit_state\<close> (unique per symbol
  and profile, no NULLs) and the rows of \<open>signals\<close> it reads. The random numbers are
  parameters: \<open>explore\<close> and \<open>pick\<close> for the epsilon branch, and a standard normal \<open>z\<close> per
  symbol and profile, so that \<open>random.gauss(mu, sigma)\<close> is \<open>mu + sigma * z\<close>.
\<close>

record arm_state =
  arm_n :: nat
  arm_mean :: real
  arm_m2 :: real

record bandit =
  bd_profile_ids :: "string list"
  bd_epsilon :: real
  bd_prior_std :: real

type_synonym bandit_table = "(string \<times> string, arm_state) dict"

definition new_bandit :: "string list \<Rightarrow> real \<Rightarrow> real \<Rightarrow> bandit" where
  "new_bandit profile_ids epsilon prior_std =
     (let unique_profiles = filter (\<lambda>p. p \<noteq> []) (map str_strip profile_ids) in
      \<lparr>bd_profile_ids = (if unique_profiles = [] then [''default''] else unique_profiles),
       bd_epsilon = min (max epsilon 0) 1, bd_prior_std = max prior_std (1 / 100)\<rparr>)"

definition load_state :: "bandit_table \<Rightarrow> string \<Rightarrow> string \<Rightarrow> arm_state" where
  "load_state t symbol profile_id =
     (case dict_get t (symbol, profile_id) of
        None \<Rightarrow> \<lparr>arm_n = 0, arm_mean = 0, arm_m2 = 0\<rparr> | Some a \<Rightarrow> a)"

definition upsert_state :: "string \<Rightarrow> string \<Rightarrow> arm_state \<Rightarrow> bandit_table \<Rightarrow> bandit_table" where
  "upsert_state symbol profile_id a t = dict_set (symbol, profile_id) a t"

definition update_arm :: "string \<Rightarrow> string \<Rightarrow> real \<Rightarrow> bandit_table \<Rightarrow> bandit_table" where
  "update_arm symbol profile_id reward_bps t =
     (let state = load_state t symbol profile_id;
          n1 = arm_n state + 1;
          delta = reward_bps - arm_mean state;
          mean1 = arm_mean state + delta / real n1;
          m2_1 = arm_m2 state + delta * (reward_bps - mean1)
      in upsert_state symbol profile_id \<lparr>arm_n = n1, arm_mean = mean1, arm_m2 = m2_1\<rparr> t)"

text \<open>\<open>update\<close>: the symbol and the profile come from the row of the signal.\<close>

definition update_signal ::
    "bandit \<Rightarrow> (string, string \<times> string) dict \<Rightarrow> string \<Rightarrow> real option \<Rightarrow> bandit_table \<Rightarrow> bandit_table" where
  "update_signal b signals signal_id reward_bps t =
     (case reward_bps of None \<Rightarrow> t
      | Some reward \<Rightarrow> (case dict_get signals signal_id of None \<Rightarrow> t
          | Some row \<Rightarrow>
              let symbol = str_strip (str_upper (fst row)); profile_id = str_strip (snd row) in
              if symbol = [] then t
              else update_arm symbol (if profile_id = [] then hd (bd_profile_ids b) else profile_id) reward t))"

definition arm_sigma :: "bandit \<Rightarrow> arm_state \<Rightarrow> real" where
  "arm_sigma b state =
     (if arm_n state < 2 then bd_prior_std b
      else let variance = max (arm_m2 state / real (max (arm_n state - 1) 1)) (1 / 10 ^ 6)
           in sqrt (variance / real (max (arm_n state) 1)))"

definition spread_adjust :: "real \<Rightarrow> real" where
  "spread_adjust spread_bps = min (max spread_bps (- 25)) 25 * (1 / 100)"

text \<open>The loop over the profiles: the first strictly best sample wins.\<close>

fun best_profile :: "(string \<Rightarrow> real) \<Rightarrow> string list \<Rightarrow> string \<times> real \<Rightarrow> string \<times> real" where
  "best_profile score [] best = best"
| "best_profile score (p # ps) (bp, bs) =
     (if score p > bs then best_profile score ps (p, score p) else best_profile score ps (bp, bs))"

definition sampled :: "bandit \<Rightarrow> bandit_table \<Rightarrow> (string \<Rightarrow> real) \<Rightarrow> string \<Rightarrow> string \<Rightarrow> real" where
  "sampled b t z symbol profile_id =
     (let state = load_state t symbol profile_id in arm_mean state + arm_sigma b state * z profile_id)"

definition select_one ::
    "bandit \<Rightarrow> bandit_table \<Rightarrow> real \<Rightarrow> nat \<Rightarrow> (string \<Rightarrow> real) \<Rightarrow> real \<Rightarrow> string \<Rightarrow> string" where
  "select_one b t explore pick z spread_bps symbol =
     (if length (bd_profile_ids b) = 1 then hd (bd_profile_ids b)
      else if explore < bd_epsilon b then bd_profile_ids b ! (pick mod length (bd_profile_ids b))
      else fst (best_profile (\<lambda>p. sampled b t z symbol p + spread_adjust spread_bps) (bd_profile_ids b)
             (hd (bd_profile_ids b), - (10 ^ 9))))"

text \<open>\<open>ctx\<close> gives the median spread of a symbol, zero when it is missing.\<close>

definition select ::
    "bandit \<Rightarrow> bandit_table \<Rightarrow> (string \<Rightarrow> real) \<Rightarrow> (string \<Rightarrow> nat) \<Rightarrow> (string \<Rightarrow> string \<Rightarrow> real)
     \<Rightarrow> (string \<Rightarrow> real option) \<Rightarrow> string list \<Rightarrow> (string, string) dict" where
  "select b t explore pick z ctx pass_symbols =
     fold (\<lambda>symbol d. dict_set symbol
        (select_one b t (explore symbol) (pick symbol) (z symbol) (or_zero (ctx symbol)) symbol) d) pass_symbols []"

section \<open>The running moments\<close>

definition mean_of :: "real list \<Rightarrow> real" where
  "mean_of xs = sum_list xs / real (length xs)"

definition dev_of :: "real list \<Rightarrow> real" where
  "dev_of xs = sum_list (map (\<lambda>x. (x - mean_of xs) ^ 2) xs)"

lemma dev_shift: "sum_list (map (\<lambda>x. (x - c) ^ 2) xs) =
    dev_of xs + real (length xs) * (mean_of xs - c) ^ 2" if "xs \<noteq> []"
proof -
  let ?n = "real (length xs)" and ?m = "mean_of xs"
  have n: "?n > 0" using that by simp
  have sum: "sum_list xs = ?n * ?m" using n by (simp add: mean_of_def)
  have sq: "sum_list (map (\<lambda>x. (x - a) ^ 2) xs) = sum_list (map (\<lambda>x. x ^ 2) xs) - 2 * a * sum_list xs + ?n * a ^ 2" for a
    by (induction xs) (auto simp: algebra_simps power2_eq_square)
  show ?thesis
    unfolding dev_of_def sq sum by (simp add: algebra_simps power2_eq_square)
qed

lemma mean_snoc: "mean_of (xs @ [x]) = mean_of xs + (x - mean_of xs) / real (length xs + 1)"
proof (cases "xs = []")
  case True
  then show ?thesis by (simp add: mean_of_def)
next
  case False
  define n where "n = real (length xs)"
  have n: "n > 0" using False by (simp add: n_def)
  have sum: "sum_list xs = n * mean_of xs" using n by (simp add: mean_of_def n_def)
  have len: "real (length (xs @ [x])) = n + 1" "real (length xs + 1) = n + 1" by (simp_all add: n_def)
  have "mean_of (xs @ [x]) = (n * mean_of xs + x) / (n + 1)"
    unfolding mean_of_def [of "xs @ [x]"] len using sum by simp
  also have "\<dots> = mean_of xs + (x - mean_of xs) / (n + 1)" using n by (simp add: field_simps)
  finally show ?thesis unfolding len .
qed

lemma dev_snoc: "dev_of (xs @ [x]) = dev_of xs + (x - mean_of xs) * (x - mean_of (xs @ [x]))"
proof (cases "xs = []")
  case True
  then show ?thesis by (simp add: dev_of_def mean_of_def)
next
  case False
  let ?n = "real (length xs)" and ?m = "mean_of xs" and ?m' = "mean_of (xs @ [x])"
  have "dev_of (xs @ [x]) = sum_list (map (\<lambda>y. (y - ?m') ^ 2) xs) + (x - ?m') ^ 2"
    by (simp add: dev_of_def)
  also have "\<dots> = dev_of xs + (?n * (?m - ?m') ^ 2 + (x - ?m') ^ 2)"
    using dev_shift [OF False, of ?m'] by simp
  also have "?n * (?m - ?m') ^ 2 + (x - ?m') ^ 2 = (x - ?m) * (x - ?m')"
  proof -
    define d where "d = x - ?m"
    define K where "K = ?n + 1"
    have K: "K > 0" by (simp add: K_def)
    have m': "?m' = ?m + d / K" by (simp add: mean_snoc d_def K_def add.commute)
    have a: "?m - ?m' = - d / K" and b: "x - ?m' = d * (K - 1) / K" and n: "?n = K - 1"
      using K by (simp_all add: m' d_def K_def field_simps)
    have c: "x - ?m = d" by (simp add: d_def)
    show ?thesis
      unfolding a b c n using K by (simp add: field_simps power2_eq_square)
  qed
  finally show ?thesis .
qed

lemma dev_nonneg: "0 \<le> dev_of xs"
  unfolding dev_of_def by (rule sum_list_nonneg) auto

section \<open>Choosing a profile\<close>

lemma best_profile_in: "fst (best_profile score ps (bp, bs)) \<in> insert bp (set ps)"
  by (induction ps arbitrary: bp bs) auto

lemma best_profile_max:
  "score bp = bs \<Longrightarrow> snd (best_profile score ps (bp, bs)) = score (fst (best_profile score ps (bp, bs)))
     \<and> (\<forall>p \<in> insert bp (set ps). score p \<le> snd (best_profile score ps (bp, bs)))"
proof (induction ps arbitrary: bp bs)
  case Nil
  then show ?case by simp
next
  case (Cons p ps)
  show ?case
  proof (cases "bs < score p")
    case True
    with Cons.IH [of p "score p"] Cons.prems show ?thesis by force
  next
    case False
    with Cons.IH [of bp bs] Cons.prems show ?thesis by force
  qed
qed

lemma best_profile_shift:
  "fst (best_profile (\<lambda>p. score p + c) ps (bp, bs + c)) = fst (best_profile score ps (bp, bs))"
  by (induction ps arbitrary: bp bs) auto

lemma best_profile_first:
  "bs < score p \<Longrightarrow> best_profile score (p # ps) (bp, bs) = best_profile score ps (p, score p)"
  by simp

lemma new_bandit_profiles: "bd_profile_ids (new_bandit ids e s) \<noteq> []"
  by (simp add: new_bandit_def Let_def)

lemma select_get:
  "dict_get (select b t explore pick z ctx symbols) sy =
     (if sy \<in> set symbols then Some (select_one b t (explore sy) (pick sy) (z sy) (or_zero (ctx sy)) sy) else None)"
proof -
  have "dict_get (fold (\<lambda>s d. dict_set s (f s) d) symbols d) sy = (if sy \<in> set symbols then Some (f sy) else dict_get d sy)"
    for f :: "string \<Rightarrow> string" and d
    by (induction symbols arbitrary: d) (auto simp: dict_get_set)
  then show ?thesis by (simp add: select_def)
qed

section \<open>Properties\<close>

text \<open>
  The incremental statistics are the statistics of the rewards. After rewards for any arms in
  any order, starting from an empty table, the row of an arm holds the number, the mean and the
  sum of squared deviations from that mean of exactly the rewards given to that arm, so that
  the variance it is sampled with is the sample variance.
\<close>

theorem bandit_arm_moments:
  fixes rewards :: "((string \<times> string) \<times> real) list"
  defines "t \<equiv> run (\<lambda>t (arm, r). update_arm (fst arm) (snd arm) r t) [] rewards"
    and "own \<equiv> \<lambda>arm. map snd (filter (\<lambda>x. fst x = arm) rewards)"
  shows "load_state t (fst arm) (snd arm) =
    \<lparr>arm_n = length (own arm), arm_mean = mean_of (own arm), arm_m2 = dev_of (own arm)\<rparr>"
  unfolding t_def own_def
proof (induction rewards rule: rev_induct)
  case Nil
  then show ?case by (simp add: load_state_def mean_of_def dev_of_def)
next
  case (snoc x xs)
  obtain a r where x: "x = (a, r)" by fastforce
  let ?t = "run (\<lambda>t (arm, r). update_arm (fst arm) (snd arm) r t) [] xs"
  show ?case
  proof (cases "a = arm")
    case True
    with x snoc show ?thesis
      by (simp add: run_append update_arm_def Let_def upsert_state_def)
        (simp add: load_state_def dict_get_set mean_snoc dev_snoc)
  next
    case False
    then have "\<not> (fst arm = fst a \<and> snd arm = snd a)" by (auto simp: prod_eq_iff)
    with x snoc False show ?thesis
      by (simp add: run_append update_arm_def Let_def upsert_state_def)
        (simp add: load_state_def dict_get_set)
  qed
qed

text \<open>
  The choice does not depend on the context. The selection answers, for exactly the symbols
  asked for, one of the configured profiles, and where it does not explore, one whose sampled reward is
  the highest. The spread of the context is added to every sample alike, so as long as no sample is
  below minus one billion it never changes the choice.
\<close>

theorem bandit_choice_ignores_context:
  assumes "bd_profile_ids b \<noteq> []" and "sy \<in> set symbols"
    and "\<forall>p \<in> set (bd_profile_ids b). - (10 ^ 9) + 1 < sampled b t (z sy) sy p"
  shows "dict_get (select b t explore pick z ctx symbols) sy = dict_get (select b t explore pick z ctx' symbols) sy
    \<and> (\<exists>p \<in> set (bd_profile_ids b). dict_get (select b t explore pick z ctx symbols) sy = Some p
        \<and> (bd_epsilon b \<le> explore sy \<longrightarrow>
             (\<forall>q \<in> set (bd_profile_ids b). sampled b t (z sy) sy q \<le> sampled b t (z sy) sy p)))"
proof -
  obtain p ps where ids: "bd_profile_ids b = p # ps" using assms(1) by (cases "bd_profile_ids b") auto
  let ?f = "sampled b t (z sy) sy"
  have adj: "\<bar>spread_adjust x\<bar> \<le> 1 / 4" for x by (simp add: spread_adjust_def)
  have loop: "fst (best_profile (\<lambda>q. ?f q + spread_adjust x) (p # ps) (p, - 1000000000)) = fst (best_profile ?f ps (p, ?f p))" for x
  proof -
    have "- 1000000000 < ?f p + spread_adjust x" using assms(3) adj [of x] ids by auto
    then show ?thesis using best_profile_shift [of ?f "spread_adjust x" ps p "?f p"] by simp
  qed
  have one: "select_one b t e k (z sy) x sy = select_one b t e k (z sy) y sy" for e k x y
    by (simp add: select_one_def ids loop del: best_profile.simps)
  have pick: "bd_profile_ids b ! (k mod length (bd_profile_ids b)) \<in> set (bd_profile_ids b)" for k
    using ids by (intro nth_mem) simp
  let ?s = "select_one b t (explore sy) (pick sy) (z sy) (or_zero (ctx sy)) sy"
  have "?s \<in> set (bd_profile_ids b)"
    using pick [of "pick sy"] best_profile_in [of ?f ps p "?f p"] ids
    by (simp add: select_one_def loop del: best_profile.simps)
  moreover have "bd_epsilon b \<le> explore sy \<longrightarrow> (\<forall>q \<in> set (bd_profile_ids b). ?f q \<le> ?f ?s)"
    using best_profile_max [of ?f p "?f p" ps] ids
    by (auto simp: select_one_def loop simp del: best_profile.simps)
  ultimately show ?thesis using one assms(2) by (auto simp: select_get)
qed

theorem bandit_choice_ignores_context_witness:
  "dict_get (select (new_bandit [''a'', ''b''] 0 3) [] (\<lambda>_. 1) (\<lambda>_. 0) (\<lambda>_ p. if p = ''a'' then 0 else 1)
     (\<lambda>_. Some 12) [''X'']) ''X'' =
   dict_get (select (new_bandit [''a'', ''b''] 0 3) [] (\<lambda>_. 1) (\<lambda>_. 0) (\<lambda>_ p. if p = ''a'' then 0 else 1)
     (\<lambda>_. None) [''X'']) ''X''"
  using bandit_choice_ignores_context [of "new_bandit [''a'', ''b''] 0 3" "''X''" "[''X'']" "[]"
      "\<lambda>_ p. if p = ''a'' then 0 else 1" "\<lambda>_. 1" "\<lambda>_. 0" "\<lambda>_. Some 12" "\<lambda>_. None"]
  by (simp add: new_bandit_def str_eval sampled_def load_state_def arm_sigma_def)

end
