(* ===== verification/Strategy_Base.thy ===== *)
theory Strategy_Base
  imports Trading_State
begin

text \<open>
  What the quoting strategies share: the order intent of \<open>src/botik/risk/manager.py\<close>, the action
  profiles and the strategy settings of \<open>src/botik/config.py\<close> they read, and the choice of the symbols to
  look at. Identifiers drawn with \<open>uuid4\<close> are parameters.
\<close>

record order_intent =
  oi_symbol :: string
  oi_side :: string
  oi_price :: real
  oi_qty :: real
  oi_order_link_id :: string
  oi_profile_id :: "string option"
  oi_model_version :: "string option"
  oi_entry_tick_offset :: "int option"
  oi_order_qty_base :: "real option"
  oi_target_profit :: "real option"
  oi_safety_buffer :: "real option"
  oi_min_top_book_qty :: "real option"
  oi_stop_loss_pct :: "real option"
  oi_take_profit_pct :: "real option"
  oi_hold_timeout_sec :: "int option"
  oi_maker_only :: "bool option"

record action_profile =
  ap_profile_id :: string
  ap_entry_tick_offset :: int
  ap_order_qty_base :: real
  ap_target_profit :: real
  ap_safety_buffer :: real
  ap_min_top_book_qty :: real
  ap_stop_loss_pct :: "real option"
  ap_take_profit_pct :: "real option"
  ap_hold_timeout_sec :: "int option"
  ap_maker_only :: "bool option"

record strategy_config =
  sc_symbols :: "string list"
  sc_maker_rate :: real
  sc_taker_rate :: real
  sc_strict_pair_filter :: bool
  sc_scanner_enabled :: bool
  sc_min_spread_ticks :: int
  sc_min_spread_bps :: real
  sc_replace_interval_ms :: int
  sc_default_tick_size :: real
  sc_order_qty_base :: real
  sc_entry_tick_offset :: int
  sc_target_profit :: real
  sc_safety_buffer :: real
  sc_min_top_book_qty :: real
  sc_position_hold_timeout_sec :: int
  sc_stop_loss_pct :: real
  sc_take_profit_pct :: real
  sc_action_profiles :: "action_profile list"
  sc_max_order_notional_usdt :: real
  sc_order_notional_quote :: real
  sc_bootstrap_fee_entry_bps :: real
  sc_bootstrap_fee_exit_bps :: real
  sc_spike_threshold_bps :: real
  sc_spike_burst_enabled :: bool
  sc_spike_burst_slices :: int
  sc_spike_burst_qty_scale :: real
  sc_spike_burst_tick_step :: int
  sc_spike_profile_id :: string
  sc_spike_reversal_reverse :: bool
  sc_spike_reversal_taker :: bool
  sc_spike_reversal_min_strength_bps :: real
  sc_spike_reversal_entry_offset_ticks :: int
  sc_spike_reversal_qty_scale :: real
  sc_spike_reversal_max_symbols :: int
  sc_spike_reversal_cooldown_sec :: real

text \<open>The scanner's selection counts, even when empty, once the scanner has reported.\<close>

definition candidate_symbols :: "strategy_config \<Rightarrow> trading_state \<Rightarrow> string list" where
  "candidate_symbols c st =
     (let active = get_active_symbols st in
      if sc_scanner_enabled c \<and> get_scanner_snapshot st \<noteq> [] then active
      else if active = [] then sc_symbols c else active)"

definition profiles_by_id :: "strategy_config \<Rightarrow> (string, action_profile) dict" where
  "profiles_by_id c = fold (\<lambda>p d. dict_set (str_strip (ap_profile_id p)) p d)
     (filter (\<lambda>p. str_strip (ap_profile_id p) \<noteq> []) (sc_action_profiles c)) []"

definition default_profile_id :: "strategy_config \<Rightarrow> string option" where
  "default_profile_id c = (case profiles_by_id c of [] \<Rightarrow> None | p # ps \<Rightarrow> Some (fst p))"

definition active_profile_id :: "strategy_config \<Rightarrow> trading_state \<Rightarrow> string \<Rightarrow> string option" where
  "active_profile_id c st symbol = str_or (get_active_profile_id st symbol) (default_profile_id c)"

definition find_profile :: "strategy_config \<Rightarrow> string option \<Rightarrow> action_profile option" where
  "find_profile c pid = dict_get (profiles_by_id c) (case pid of None \<Rightarrow> [] | Some s \<Rightarrow> s)"

definition snapshot_of :: "trading_state \<Rightarrow> string \<Rightarrow> snapshot" where
  "snapshot_of st symbol = (case get_pair_filter_snapshot st symbol of None \<Rightarrow> [] | Some s \<Rightarrow> s)"

text \<open>\<open>state.get_tick_size(symbol) or default\<close>.\<close>

definition tick_size_of :: "strategy_config \<Rightarrow> trading_state \<Rightarrow> string \<Rightarrow> real" where
  "tick_size_of c st symbol = (case get_tick_size st symbol of None \<Rightarrow> sc_default_tick_size c | Some t \<Rightarrow> t)"

lemma tick_size_pos: "0 < sc_default_tick_size c \<Longrightarrow> 0 < tick_size_of c st symbol"
  by (auto simp: tick_size_of_def get_tick_size_def split: option.splits)

text \<open>\<open>round(price / tick) * tick\<close>.\<close>

definition to_grid :: "real \<Rightarrow> real \<Rightarrow> py_error + real" where
  "to_grid tick price = (case py_divide price tick of Inl e \<Rightarrow> Inl e | Inr q \<Rightarrow> Inr (of_int (round_half_even q) * tick))"

lemma to_grid_multiple: "tick \<noteq> 0 \<Longrightarrow> to_grid tick (of_int k * tick) = Inr (of_int k * tick)"
  by (simp add: to_grid_def py_divide_ok round_half_even_of_int)

text \<open>The times at which a strategy acts on a symbol, over a sequence of calls.\<close>

fun act_times ::
    "('s \<Rightarrow> 'e \<Rightarrow> string list) \<Rightarrow> ('s \<Rightarrow> 'e \<Rightarrow> 's) \<Rightarrow> ('e \<Rightarrow> real) \<Rightarrow> string \<Rightarrow> 's \<Rightarrow> 'e list \<Rightarrow> real list" where
  "act_times acted call clock sy s [] = []"
| "act_times acted call clock sy s (e # es) =
     (if sy \<in> set (acted s e) then clock e # act_times acted call clock sy (call s e) es
      else act_times acted call clock sy (call s e) es)"

text \<open>
  A quoting strategy is throttled per symbol: it stamps the symbols it acts on, and acts on a symbol
  only when the stamp is old enough. The locale holds what the stamps promise over a run of calls.
\<close>

locale throttled =
  fixes stamp :: "'s \<Rightarrow> string \<Rightarrow> real option"
    and acted :: "'s \<Rightarrow> 'e \<Rightarrow> string list"
    and call :: "'s \<Rightarrow> 'e \<Rightarrow> 's"
    and clock :: "'e \<Rightarrow> real"
    and interval :: real
  assumes stamped: "sy \<in> set (acted s e) \<Longrightarrow> stamp (call s e) sy = Some (clock e)"
    and kept: "sy \<notin> set (acted s e) \<Longrightarrow> stamp (call s e) sy = stamp s sy"
    and waits: "sy \<in> set (acted s e) \<Longrightarrow> stamp s sy = Some t \<Longrightarrow> interval \<le> clock e - t"
begin

lemma acts_spaced:
  "successively (\<lambda>a b. interval \<le> b - a)
     (case stamp s sy of None \<Rightarrow> act_times acted call clock sy s es | Some t \<Rightarrow> t # act_times acted call clock sy s es)"
proof (induction es arbitrary: s)
  case Nil
  then show ?case by (simp split: option.split)
next
  case (Cons e es)
  have IH: "successively (\<lambda>a b. interval \<le> b - a)
      (case stamp (call s e) sy of None \<Rightarrow> act_times acted call clock sy (call s e) es
       | Some t \<Rightarrow> t # act_times acted call clock sy (call s e) es)"
    by (rule Cons.IH)
  show ?case
  proof (cases "sy \<in> set (acted s e)")
    case True
    with IH stamped [OF True] waits [OF True] show ?thesis by (auto split: option.split)
  next
    case False
    with IH kept [OF False] show ?thesis by (cases "stamp s sy") simp_all
  qed
qed

lemma acts_interval: "successively (\<lambda>a b. interval \<le> b - a) (act_times acted call clock sy s es)"
  using acts_spaced [where s = s and sy = sy and es = es]
  by (cases "stamp s sy"; cases "act_times acted call clock sy s es") auto

end

text \<open>A configuration and a market with one book, for concrete evaluations.\<close>

definition sample_config :: "string list \<Rightarrow> strategy_config" where
  "sample_config symbols =
     \<lparr>sc_symbols = symbols, sc_maker_rate = 0, sc_taker_rate = 0, sc_strict_pair_filter = False,
      sc_scanner_enabled = False, sc_min_spread_ticks = 2, sc_min_spread_bps = 0,
      sc_replace_interval_ms = 200, sc_default_tick_size = 1, sc_order_qty_base = 1,
      sc_entry_tick_offset = 1, sc_target_profit = 1 / 100, sc_safety_buffer = 0,
      sc_min_top_book_qty = 0, sc_position_hold_timeout_sec = 180, sc_stop_loss_pct = 1 / 100,
      sc_take_profit_pct = 1 / 100, sc_action_profiles = [], sc_max_order_notional_usdt = 100,
      sc_order_notional_quote = 40, sc_bootstrap_fee_entry_bps = 0, sc_bootstrap_fee_exit_bps = 0,
      sc_spike_threshold_bps = 10, sc_spike_burst_enabled = False, sc_spike_burst_slices = 4,
      sc_spike_burst_qty_scale = 1, sc_spike_burst_tick_step = 1, sc_spike_profile_id = [],
      sc_spike_reversal_reverse = True, sc_spike_reversal_taker = True,
      sc_spike_reversal_min_strength_bps = 12, sc_spike_reversal_entry_offset_ticks = 1,
      sc_spike_reversal_qty_scale = 1, sc_spike_reversal_max_symbols = 3,
      sc_spike_reversal_cooldown_sec = 2\<rparr>"

definition sample_book :: "string \<Rightarrow> real \<Rightarrow> real \<Rightarrow> orderbook_aggregate" where
  "sample_book symbol bid ask =
     \<lparr>ob_symbol = symbol, best_bid = bid, best_ask = ask, mid = (bid + ask) / 2,
      spread_ticks = \<lfloor>ask - bid\<rfloor>, imbalance_top_n = 0, best_bid_size = 5, best_ask_size = 5, ob_ts_ms = 0\<rparr>"

definition sample_market :: "string \<Rightarrow> real \<Rightarrow> real \<Rightarrow> trading_state" where
  "sample_market symbol bid ask = initial_trading_state
     \<lparr>orderbooks := [symbol \<mapsto> sample_book symbol bid ask], paused := False, active_symbols := [symbol]\<rparr>"

end
