(* ===== verification/Micro_Spread.thy ===== *)
theory Micro_Spread
  imports Strategy_Base
begin

text \<open>
  The market-making strategy: the spread scanner \<open>src/botik/strategy/spread_scanner.py\<close> and
  \<open>src/botik/strategy/micro_spread.py\<close>. The strategy's state are the times a symbol was last
  quoted; \<open>now\<close> is the monotonic clock in seconds and \<open>uid\<close> the random part of an order link.
\<close>

section \<open>The spread scanner\<close>

record scan_result =
  sr_tradable :: bool
  sr_reason :: string
  sr_entry_price :: real
  sr_exit_price :: real
  sr_net_edge :: real
  sr_required_edge :: real

definition compute_net_edge :: "real \<Rightarrow> real \<Rightarrow> real \<Rightarrow> real \<Rightarrow> real" where
  "compute_net_edge entry_price exit_price buy_fee sell_fee =
     (if entry_price \<le> 0 \<or> exit_price \<le> 0 then - 1
      else let denominator = entry_price * (1 + max buy_fee 0) in
        if denominator \<le> 0 then - 1
        else exit_price * (1 - max sell_fee 0) / denominator - 1)"

definition scan_spread ::
    "real \<Rightarrow> real \<Rightarrow> real \<Rightarrow> real \<Rightarrow> real \<Rightarrow> int \<Rightarrow> real \<Rightarrow> real \<Rightarrow> real \<Rightarrow> real \<Rightarrow> real \<Rightarrow> scan_result" where
  "scan_spread bid ask bid_size ask_size tick_size entry_tick_offset buy_fee sell_fee
       target_profit safety_buffer min_top_book_qty =
     (let required = target_profit + safety_buffer in
      if bid \<le> 0 \<or> ask \<le> 0 \<or> ask \<le> bid then
        \<lparr>sr_tradable = False, sr_reason = ''invalid_top_of_book'', sr_entry_price = 0,
         sr_exit_price = 0, sr_net_edge = - 1, sr_required_edge = required\<rparr>
      else
        let tick = max tick_size 0 * of_int (max entry_tick_offset 0);
            entry = bid + tick; exit = ask - tick;
            refused = (\<lambda>r. \<lparr>sr_tradable = False, sr_reason = r, sr_entry_price = entry,
                            sr_exit_price = exit, sr_net_edge = - 1, sr_required_edge = required\<rparr>) in
        if min_top_book_qty > 0 \<and> (bid_size < min_top_book_qty \<or> ask_size < min_top_book_qty)
        then refused ''top_book_liquidity_too_low''
        else if entry \<le> 0 \<or> exit \<le> 0 \<or> exit \<le> entry
        then refused ''invalid_entry_exit_after_tick''
        else
          let net_edge = compute_net_edge entry exit buy_fee sell_fee in
          \<lparr>sr_tradable = (net_edge > required),
           sr_reason = (if net_edge > required then ''ok'' else ''net_edge_below_threshold''),
           sr_entry_price = entry, sr_exit_price = exit, sr_net_edge = net_edge,
           sr_required_edge = required\<rparr>)"

lemma tradable_scan:
  assumes "sr_tradable (scan_spread bid ask bs as tick off bf sf tp sb mq)"
  defines "t \<equiv> max tick 0 * of_int (max off 0)"
  shows "sr_entry_price (scan_spread bid ask bs as tick off bf sf tp sb mq) = bid + t"
    and "sr_exit_price (scan_spread bid ask bs as tick off bf sf tp sb mq) = ask - t"
    and "0 < bid + t" and "bid + t < ask - t" and "0 < bid"
    and "compute_net_edge (bid + t) (ask - t) bf sf > tp + sb"
  using assms
  by (auto simp: scan_spread_def t_def Let_def split: if_splits)

lemma net_edge_profit:
  assumes "compute_net_edge entry exit bf sf > required" and "0 < entry" and "0 < exit"
  shows "entry * (1 + max bf 0) * (1 + required) < exit * (1 - max sf 0)"
proof -
  have d: "0 < entry * (1 + max bf 0)" using assms(2) by (simp add: add_pos_nonneg)
  then have "required + 1 < exit * (1 - max sf 0) / (entry * (1 + max bf 0))"
    using assms d leD [OF less_imp_le] by (auto simp: compute_net_edge_def Let_def split: if_splits)
  with d show ?thesis by (simp add: pos_less_divide_eq mult.commute add.commute)
qed

section \<open>The quotes of one symbol\<close>

datatype quote_outcome =
    NoOrderbook | SpreadReject | CooldownReject | EdgeReject | InvalidQuoteReject | MakerGuardReject
  | Quoted bool "order_intent list"

definition spike_trigger :: "strategy_config \<Rightarrow> snapshot \<Rightarrow> bool" where
  "spike_trigger c snap \<longleftrightarrow> sc_spike_burst_enabled c
     \<and> \<bar>safe_int (dict_get snap ''spike_direction'')\<bar> = 1
     \<and> safe_float (dict_get snap ''spike_strength_bps'') \<ge> max (sc_spike_threshold_bps c) 0"

text \<open>The profile a symbol is quoted with; a spike is routed to its own profile id.\<close>

definition quote_profile ::
    "strategy_config \<Rightarrow> trading_state \<Rightarrow> string \<Rightarrow> string option \<times> action_profile option" where
  "quote_profile c st symbol =
     (let pid = active_profile_id c st symbol; profile = find_profile c pid;
          spike_pid = str_strip (sc_spike_profile_id c) in
      if spike_trigger c (snapshot_of st symbol) \<and> spike_pid \<noteq> [] then
        (Some spike_pid,
         (case dict_get (profiles_by_id c) spike_pid of None \<Rightarrow> profile | Some p \<Rightarrow> Some p))
      else (pid, profile))"

definition via :: "action_profile option \<Rightarrow> (action_profile \<Rightarrow> 'a) \<Rightarrow> 'a \<Rightarrow> 'a" where
  "via profile sel fallback = (case profile of None \<Rightarrow> fallback | Some p \<Rightarrow> sel p)"

definition quote_qty :: "strategy_config \<Rightarrow> action_profile option \<Rightarrow> orderbook_aggregate \<Rightarrow> real" where
  "quote_qty c profile ob =
     (let ref_price = (if mid ob > 0 then mid ob else best_bid ob);
          max_notional = max (sc_max_order_notional_usdt c) 1 in
      if ref_price > 0 then max (max_notional / ref_price) (1 / 10 ^ 12)
      else via profile ap_order_qty_base (sc_order_qty_base c))"

definition scan_fees :: "strategy_config \<Rightarrow> real \<times> real" where
  "scan_fees c =
     (let fee = sc_maker_rate c in
      if sc_strict_pair_filter c then
        let buy = max (sc_bootstrap_fee_entry_bps c) 0 / 10000;
            sell = max (sc_bootstrap_fee_exit_bps c) 0 / 10000 in
        (if buy > 0 then max (max fee 0) buy else max fee 0,
         if sell > 0 then max (max fee 0) sell else max fee 0)
      else (fee, fee))"

definition live_spread_bps :: "orderbook_aggregate \<Rightarrow> real" where
  "live_spread_bps ob =
     (if mid ob > 0 \<and> best_ask ob \<ge> best_bid ob then (best_ask ob - best_bid ob) / mid ob * 10000 else 0)"

definition link_id :: "bool \<Rightarrow> string \<Rightarrow> string \<Rightarrow> string \<Rightarrow> string" where
  "link_id spike symbol side uid =
     (if spike then ''spk'' else ''mm'') @ ''-'' @ symbol @ ''-'' @ side @ ''-'' @ uid"

definition quote_intent ::
    "strategy_config \<Rightarrow> string option \<times> action_profile option \<Rightarrow> string \<Rightarrow> string \<Rightarrow> real \<Rightarrow> real \<Rightarrow> string \<Rightarrow> order_intent"
  where "quote_intent c pp symbol side price qty link =
     (let profile = snd pp in
      \<lparr>oi_symbol = symbol, oi_side = side, oi_price = price, oi_qty = qty, oi_order_link_id = link,
       oi_profile_id = fst pp, oi_model_version = Some ''rules-v1'',
       oi_entry_tick_offset = Some (via profile ap_entry_tick_offset (sc_entry_tick_offset c)),
       oi_order_qty_base = Some qty,
       oi_target_profit = Some (via profile ap_target_profit (sc_target_profit c)),
       oi_safety_buffer = Some (via profile ap_safety_buffer (sc_safety_buffer c)),
       oi_min_top_book_qty = Some (via profile ap_min_top_book_qty (sc_min_top_book_qty c)),
       oi_stop_loss_pct = via profile ap_stop_loss_pct None,
       oi_take_profit_pct = via profile ap_take_profit_pct None,
       oi_hold_timeout_sec = via profile ap_hold_timeout_sec None,
       oi_maker_only = Some True\<rparr>)"

text \<open>The ladder of slices: each one a tick step further from the middle; crossed ones are left out.\<close>

definition slice ::
    "strategy_config \<Rightarrow> string option \<times> action_profile option \<Rightarrow> bool \<Rightarrow> (nat \<Rightarrow> string \<Rightarrow> string)
     \<Rightarrow> string \<Rightarrow> real \<Rightarrow> real \<Rightarrow> real \<Rightarrow> nat \<Rightarrow> real \<Rightarrow> order_intent list" where
  "slice c pp spike uid symbol bid_price ask_price qty i px_shift =
     (let bid_px = bid_price - px_shift; ask_px = ask_price + px_shift in
      if bid_px \<le> 0 \<or> ask_px \<le> 0 \<or> ask_px \<le> bid_px then []
      else [quote_intent c pp symbol ''Buy'' bid_px qty (link_id spike symbol ''bid'' (uid i ''bid'')),
            quote_intent c pp symbol ''Sell'' ask_px qty (link_id spike symbol ''ask'' (uid i ''ask''))])"

definition slices ::
    "strategy_config \<Rightarrow> string option \<times> action_profile option \<Rightarrow> bool \<Rightarrow> (nat \<Rightarrow> string \<Rightarrow> string)
     \<Rightarrow> string \<Rightarrow> real \<Rightarrow> real \<Rightarrow> real \<Rightarrow> real \<Rightarrow> order_intent list" where
  "slices c pp spike uid symbol tick bid_price ask_price qty =
     (let slice_count = (if spike then nat (min (max (sc_spike_burst_slices c) 1) 8) else 1);
          tick_step = (if spike then max (sc_spike_burst_tick_step c) 1 else 1);
          qty_per_slice = (if spike then max (qty * max (sc_spike_burst_qty_scale c) (1 / 100)) (1 / 10 ^ 12) else qty) in
      concat (map (\<lambda>i. slice c pp spike uid symbol bid_price ask_price qty_per_slice i
                         (of_int (int i * tick_step) * tick)) [0..<slice_count]))"

definition quote_symbol ::
    "strategy_config \<Rightarrow> trading_state \<Rightarrow> real \<Rightarrow> (nat \<Rightarrow> string \<Rightarrow> string) \<Rightarrow> (string \<rightharpoonup> real) \<Rightarrow> string
     \<Rightarrow> py_error + quote_outcome" where
  "quote_symbol c st now uid stamps symbol =
     (case get_orderbook st symbol of
        None \<Rightarrow> Inr NoOrderbook
      | Some ob \<Rightarrow>
         (let pp = quote_profile c st symbol; spike = spike_trigger c (snapshot_of st symbol);
              tick = tick_size_of c st symbol; (buy_fee, sell_fee) = scan_fees c in
          if spread_ticks ob < sc_min_spread_ticks c then Inr SpreadReject
          else if live_spread_bps ob < max (sc_min_spread_bps c) 0 then Inr SpreadReject
          else if now - or_zero (stamps symbol) < of_int (sc_replace_interval_ms c) / 1000 then Inr CooldownReject
          else
            let scan = scan_spread (best_bid ob) (best_ask ob) (best_bid_size ob) (best_ask_size ob) tick
                  (via (snd pp) ap_entry_tick_offset (sc_entry_tick_offset c)) buy_fee sell_fee
                  (via (snd pp) ap_target_profit (sc_target_profit c))
                  (via (snd pp) ap_safety_buffer (sc_safety_buffer c))
                  (via (snd pp) ap_min_top_book_qty (sc_min_top_book_qty c)) in
            if \<not> sr_tradable scan then Inr EdgeReject
            else case to_grid tick (sr_entry_price scan) of Inl e \<Rightarrow> Inl e
              | Inr bid_price \<Rightarrow> (case to_grid tick (sr_exit_price scan) of Inl e \<Rightarrow> Inl e
                  | Inr ask_price \<Rightarrow>
                      if bid_price \<le> 0 \<or> ask_price \<le> 0 \<or> ask_price \<le> bid_price then Inr InvalidQuoteReject
                      else if bid_price \<ge> best_ask ob \<or> ask_price \<le> best_bid ob then Inr MakerGuardReject
                      else Inr (Quoted spike (slices c pp spike uid symbol tick bid_price ask_price
                                   (quote_qty c (snd pp) ob))))))"

section \<open>The strategy\<close>

record micro_spread =
  ms_last_replace :: "string \<rightharpoonup> real"
  ms_last_summary :: "(string, int) dict"

definition outcome_count :: "(quote_outcome \<Rightarrow> bool) \<Rightarrow> quote_outcome list \<Rightarrow> int" where
  "outcome_count P os = int (length (filter P os))"

fun quoted_intents :: "quote_outcome \<Rightarrow> order_intent list" where
  "quoted_intents (Quoted spike intents) = intents"
| "quoted_intents _ = []"

definition micro_summary :: "strategy_config \<Rightarrow> string list \<Rightarrow> quote_outcome list \<Rightarrow> (string, int) dict" where
  "micro_summary c symbols os =
     [(''symbols_total'', int (length symbols)), (''universe_total'', int (length (sc_symbols c))),
      (''no_orderbook'', outcome_count (\<lambda>x. x = NoOrderbook) os),
      (''spread_reject'', outcome_count (\<lambda>x. x = SpreadReject) os),
      (''cooldown_reject'', outcome_count (\<lambda>x. x = CooldownReject) os),
      (''edge_or_liquidity_reject'', outcome_count (\<lambda>x. x = EdgeReject) os),
      (''invalid_quote_reject'', outcome_count (\<lambda>x. x = InvalidQuoteReject) os),
      (''maker_guard_reject'', outcome_count (\<lambda>x. x = MakerGuardReject) os),
      (''symbols_quoted'', outcome_count (\<lambda>x. case x of Quoted b qs \<Rightarrow> True | _ \<Rightarrow> False) os),
      (''spike_burst_symbols'', outcome_count (\<lambda>x. case x of Quoted True qs \<Rightarrow> True | _ \<Rightarrow> False) os),
      (''spike_burst_intents'',
         int (length (concat (map (\<lambda>x. case x of Quoted True qs \<Rightarrow> qs | _ \<Rightarrow> []) os)))),
      (''intents'', int (length (concat (map quoted_intents os))))]"

text \<open>
  The loop over the symbols: a quoted symbol is stamped before the next one is looked at; an
  exception ends the call, and the stamps made so far stay.
\<close>

fun quote_loop ::
    "strategy_config \<Rightarrow> trading_state \<Rightarrow> real \<Rightarrow> (string \<Rightarrow> nat \<Rightarrow> string \<Rightarrow> string) \<Rightarrow> string list
     \<Rightarrow> (string \<rightharpoonup> real) \<Rightarrow> (string \<rightharpoonup> real) \<times> (py_error + (string \<times> quote_outcome) list)" where
  "quote_loop c st now uid [] stamps = (stamps, Inr [])"
| "quote_loop c st now uid (sy # sys) stamps =
     (case quote_symbol c st now (uid sy) stamps sy of
        Inl e \<Rightarrow> (stamps, Inl e)
      | Inr out \<Rightarrow>
         (let stamps1 = (case out of Quoted b qs \<Rightarrow> stamps(sy \<mapsto> now) | _ \<Rightarrow> stamps);
              (stamps2, r) = quote_loop c st now uid sys stamps1
          in (stamps2, case r of Inl e \<Rightarrow> Inl e | Inr os \<Rightarrow> Inr ((sy, out) # os))))"

definition micro_get_intents ::
    "strategy_config \<Rightarrow> trading_state \<Rightarrow> real \<Rightarrow> (string \<Rightarrow> nat \<Rightarrow> string \<Rightarrow> string) \<Rightarrow> micro_spread
     \<Rightarrow> micro_spread \<times> (py_error + order_intent list)" where
  "micro_get_intents c st now uid m =
     (if paused st then (m\<lparr>ms_last_summary := [(''paused'', 1)]\<rparr>, Inr [])
      else
        let symbols = candidate_symbols c st in
        case quote_loop c st now uid symbols (ms_last_replace m) of
          (stamps, Inl e) \<Rightarrow> (m\<lparr>ms_last_replace := stamps\<rparr>, Inl e)
        | (stamps, Inr os) \<Rightarrow>
            (m\<lparr>ms_last_replace := stamps, ms_last_summary := micro_summary c symbols (map snd os)\<rparr>,
             Inr (concat (map (quoted_intents \<circ> snd) os))))"

section \<open>What a quote promises\<close>

text \<open>A bid below the best ask, or an ask above the best bid, marked maker-only.\<close>

definition resting :: "orderbook_aggregate \<Rightarrow> order_intent \<Rightarrow> bool" where
  "resting ob i \<longleftrightarrow> 0 < oi_price i \<and> oi_maker_only i = Some True
     \<and> (oi_side i = ''Buy'' \<and> oi_price i < best_ask ob \<or> oi_side i = ''Sell'' \<and> best_bid ob < oi_price i)"

definition quote_within :: "string \<Rightarrow> real \<Rightarrow> real \<Rightarrow> order_intent \<Rightarrow> bool" where
  "quote_within symbol b a i \<longleftrightarrow> oi_symbol i = symbol \<and> 0 < oi_price i \<and> oi_maker_only i = Some True
    \<and> (oi_side i = ''Buy'' \<and> oi_price i \<le> b \<or> oi_side i = ''Sell'' \<and> a \<le> oi_price i)"

lemma slice_within:
  "i \<in> set (slice c pp spike uid symbol b a q k sh) \<Longrightarrow> 0 \<le> sh \<Longrightarrow> quote_within symbol b a i"
  by (auto simp: slice_def quote_within_def quote_intent_def Let_def split: if_splits)

lemma slices_within:
  assumes "i \<in> set (slices c pp spike uid symbol tick b a q)" and "0 < tick"
  shows "quote_within symbol b a i"
proof -
  from assms(1) obtain k :: nat and step :: int and q' where "step = (if spike then max (sc_spike_burst_tick_step c) 1 else 1)"
    and i: "i \<in> set (slice c pp spike uid symbol b a q' k (of_int (int k * step) * tick))"
    by (auto simp only: slices_def Let_def set_concat set_map UN_iff)
  then have "0 \<le> of_int (int k * step) * tick" using assms(2) by (auto intro!: mult_nonneg_nonneg)
  with slice_within [OF i] show ?thesis .
qed

definition quote_scan :: "strategy_config \<Rightarrow> trading_state \<Rightarrow> string \<Rightarrow> orderbook_aggregate \<Rightarrow> scan_result" where
  "quote_scan c st symbol ob =
     (let profile = snd (quote_profile c st symbol) in
      scan_spread (best_bid ob) (best_ask ob) (best_bid_size ob) (best_ask_size ob) (tick_size_of c st symbol)
        (via profile ap_entry_tick_offset (sc_entry_tick_offset c)) (fst (scan_fees c)) (snd (scan_fees c))
        (via profile ap_target_profit (sc_target_profit c)) (via profile ap_safety_buffer (sc_safety_buffer c))
        (via profile ap_min_top_book_qty (sc_min_top_book_qty c)))"

lemma quote_symbol_quoted:
  assumes "quote_symbol c st now uid stamps sy = Inr (Quoted spike qs)"
  obtains ob b a where "get_orderbook st sy = Some ob"
    and "of_int (sc_replace_interval_ms c) / 1000 \<le> now - or_zero (stamps sy)"
    and "sr_tradable (quote_scan c st sy ob)"
    and "to_grid (tick_size_of c st sy) (sr_entry_price (quote_scan c st sy ob)) = Inr b"
    and "to_grid (tick_size_of c st sy) (sr_exit_price (quote_scan c st sy ob)) = Inr a"
    and "b < best_ask ob" and "best_bid ob < a"
    and "qs = slices c (quote_profile c st sy) spike uid sy (tick_size_of c st sy) b a
          (quote_qty c (snd (quote_profile c st sy)) ob)"
  using assms
  by (auto simp: quote_symbol_def quote_scan_def Let_def not_less not_le
      split: option.splits if_splits sum.splits prod.splits)

lemma quote_loop_outcomes:
  "snd (quote_loop c st now uid sys stamps) = Inr os \<Longrightarrow> (sy, out) \<in> set os \<Longrightarrow>
     sy \<in> set sys \<and> (\<exists>stamps'. quote_symbol c st now (uid sy) stamps' sy = Inr out)"
proof (induction sys arbitrary: stamps os)
  case Nil
  then show ?case by simp
next
  case (Cons x sys)
  from Cons.prems(1) obtain o1 where o1: "quote_symbol c st now (uid x) stamps x = Inr o1"
    by (auto split: sum.splits)
  define stamps1 where "stamps1 = (case o1 of Quoted b qs \<Rightarrow> stamps(x \<mapsto> now) | _ \<Rightarrow> stamps)"
  obtain s2 r where l: "quote_loop c st now uid sys stamps1 = (s2, r)" by fastforce
  from Cons.prems(1) obtain os1 where os1: "r = Inr os1" "os = (x, o1) # os1"
    by (cases r) (simp_all add: o1 stamps1_def [symmetric] l)
  show ?case
  proof (cases "(sy, out) = (x, o1)")
    case True
    with o1 show ?thesis by auto
  next
    case False
    with Cons.prems(2) os1 have "(sy, out) \<in> set os1" by auto
    with Cons.IH [of stamps1 os1] l os1 show ?thesis by simp
  qed
qed

text \<open>The symbols a call stamps, also when it ends with an exception.\<close>

fun stamped_symbols ::
    "strategy_config \<Rightarrow> trading_state \<Rightarrow> real \<Rightarrow> (string \<Rightarrow> nat \<Rightarrow> string \<Rightarrow> string) \<Rightarrow> string list
     \<Rightarrow> (string \<rightharpoonup> real) \<Rightarrow> string list" where
  "stamped_symbols c st now uid [] stamps = []"
| "stamped_symbols c st now uid (sy # sys) stamps =
     (case quote_symbol c st now (uid sy) stamps sy of
        Inl e \<Rightarrow> []
      | Inr (Quoted b qs) \<Rightarrow> sy # stamped_symbols c st now uid sys (stamps(sy \<mapsto> now))
      | Inr _ \<Rightarrow> stamped_symbols c st now uid sys stamps)"

lemma quote_loop_stamps:
  "fst (quote_loop c st now uid sys stamps) sy =
     (if sy \<in> set (stamped_symbols c st now uid sys stamps) then Some now else stamps sy)"
  by (induction sys arbitrary: stamps) (simp_all add: case_prod_beta Let_def split: sum.split quote_outcome.split)

lemma stamped_waits:
  "sy \<in> set (stamped_symbols c st now uid sys stamps) \<Longrightarrow>
     of_int (sc_replace_interval_ms c) / 1000 \<le> now - or_zero (stamps sy)"
proof (induction sys arbitrary: stamps)
  case Nil
  then show ?case by simp
next
  case (Cons x sys)
  show ?case
  proof (cases "sy = x")
    case False
    show ?thesis
    proof (cases "quote_symbol c st now (uid x) stamps x")
      case (Inl e)
      with Cons.prems show ?thesis by simp
    next
      case (Inr out)
      from False have "(stamps(x \<mapsto> now)) sy = stamps sy" by simp
      note IH = Cons.IH [of "stamps(x \<mapsto> now)", unfolded this]
      from Inr False Cons.prems Cons.IH [of stamps] IH show ?thesis
        by (cases out) (simp_all del: fun_upd_apply)
    qed
  next
    case True
    show ?thesis
    proof (cases "\<exists>b qs. quote_symbol c st now (uid x) stamps x = Inr (Quoted b qs)")
      case quoted: True
      then obtain b qs where q: "quote_symbol c st now (uid x) stamps x = Inr (Quoted b qs)" by blast
      from quote_symbol_quoted [OF q] True show ?thesis by metis
    next
      case unquoted: False
      show ?thesis
      proof (cases "quote_symbol c st now (uid x) stamps x")
        case (Inl e)
        with Cons.prems show ?thesis by simp
      next
        case (Inr out)
        with unquoted Cons.prems Cons.IH [of stamps] show ?thesis by (cases out) simp_all
      qed
    qed
  qed
qed

lemma quote_loop_quoted:
  "snd (quote_loop c st now uid sys stamps) = Inr os \<Longrightarrow> (sy, Quoted spike qs) \<in> set os \<Longrightarrow>
     sy \<in> set (stamped_symbols c st now uid sys stamps)"
proof (induction sys arbitrary: stamps os)
  case Nil
  then show ?case by simp
next
  case (Cons x sys)
  from Cons.prems(1) obtain o1 where o1: "quote_symbol c st now (uid x) stamps x = Inr o1"
    by (auto split: sum.splits)
  define stamps1 where "stamps1 = (case o1 of Quoted b qs \<Rightarrow> stamps(x \<mapsto> now) | _ \<Rightarrow> stamps)"
  obtain s2 r where l: "quote_loop c st now uid sys stamps1 = (s2, r)" by fastforce
  from Cons.prems(1) obtain os1 where os1: "r = Inr os1" "os = (x, o1) # os1"
    by (cases r) (simp_all add: o1 stamps1_def [symmetric] l)
  have IH: "(sy, Quoted spike qs) \<in> set os1 \<Longrightarrow> sy \<in> set (stamped_symbols c st now uid sys stamps1)"
    using Cons.IH [of stamps1 os1] l os1 by simp
  show ?case
    using IH Cons.prems(2) os1(2) o1 by (cases o1) (auto simp: stamps1_def simp del: fun_upd_apply)
qed

definition micro_stamped ::
    "strategy_config \<Rightarrow> micro_spread \<Rightarrow> trading_state \<times> real \<times> (string \<Rightarrow> nat \<Rightarrow> string \<Rightarrow> string) \<Rightarrow> string list" where
  "micro_stamped c m e = (let (st, now, uid) = e in
     if paused st then [] else stamped_symbols c st now uid (candidate_symbols c st) (ms_last_replace m))"

definition micro_call ::
    "strategy_config \<Rightarrow> micro_spread \<Rightarrow> trading_state \<times> real \<times> (string \<Rightarrow> nat \<Rightarrow> string \<Rightarrow> string) \<Rightarrow> micro_spread" where
  "micro_call c m e = (let (st, now, uid) = e in fst (micro_get_intents c st now uid m))"

lemma micro_call_stamps:
  "ms_last_replace (micro_call c m (st, now, uid)) sy =
     (if sy \<in> set (micro_stamped c m (st, now, uid)) then Some now else ms_last_replace m sy)"
proof -
  obtain stamps r where l: "quote_loop c st now uid (candidate_symbols c st) (ms_last_replace m) = (stamps, r)"
    by fastforce
  then show ?thesis
    using quote_loop_stamps [of c st now uid "candidate_symbols c st" "ms_last_replace m" sy]
    by (cases r) (simp_all add: micro_call_def micro_get_intents_def micro_stamped_def Let_def)
qed

interpretation micro_throttle: throttled ms_last_replace "micro_stamped c" "micro_call c" "\<lambda>e. fst (snd e)"
    "of_int (sc_replace_interval_ms c) / 1000" for c
proof unfold_locales
  fix sy m and e :: "trading_state \<times> real \<times> (string \<Rightarrow> nat \<Rightarrow> string \<Rightarrow> string)"
  obtain st now uid where e: "e = (st, now, uid)" by (metis prod_cases3)
  show "sy \<in> set (micro_stamped c m e) \<Longrightarrow> ms_last_replace (micro_call c m e) sy = Some (fst (snd e))"
    and "sy \<notin> set (micro_stamped c m e) \<Longrightarrow> ms_last_replace (micro_call c m e) sy = ms_last_replace m sy"
    unfolding e by (simp_all add: micro_call_stamps)
  show "of_int (sc_replace_interval_ms c) / 1000 \<le> fst (snd e) - t"
    if "sy \<in> set (micro_stamped c m e)" "ms_last_replace m sy = Some t" for t
    using that stamped_waits [of sy c st now uid "candidate_symbols c st" "ms_last_replace m"]
    by (simp add: e micro_stamped_def split: if_splits)
qed

section \<open>Properties\<close>

text \<open>
  C34: quotes rest on the book and pay for their fees. Every intent of a call is a maker-only order
  for a candidate symbol with a book: a bid below the best ask or an ask above the best bid. When the
  best prices are multiples of the tick, every bid and every ask a call quotes for a symbol keep
  the promised edge: buying at the bid and selling at the ask, both with fees, returns more
  than the sum of target profit and safety buffer of the profile.
\<close>

theorem micro_quotes_rest_and_pay:
  assumes call: "snd (micro_get_intents c st now uid m) = Inr intents" and tick: "0 < sc_default_tick_size c"
    and i: "i \<in> set intents"
  defines "profile \<equiv> \<lambda>sy. snd (quote_profile c st sy)"
  defines "required \<equiv> \<lambda>sy. via (profile sy) ap_target_profit (sc_target_profit c)
      + via (profile sy) ap_safety_buffer (sc_safety_buffer c)"
  shows "\<exists>ob. get_orderbook st (oi_symbol i) = Some ob \<and> resting ob i \<and> oi_symbol i \<in> set (candidate_symbols c st)
    \<and> (\<forall>k l. best_bid ob = of_int k * tick_size_of c st (oi_symbol i) \<and> best_ask ob = of_int l * tick_size_of c st (oi_symbol i)
         \<and> - 1 \<le> required (oi_symbol i) \<longrightarrow>
         (\<forall>j \<in> set intents. oi_symbol j = oi_symbol i \<and> oi_side i = ''Buy'' \<and> oi_side j = ''Sell'' \<longrightarrow>
            oi_price i * (1 + max (fst (scan_fees c)) 0) * (1 + required (oi_symbol i))
              < oi_price j * (1 - max (snd (scan_fees c)) 0)))"
proof -
  have np: "\<not> paused st" using call i by (auto simp: micro_get_intents_def)
  obtain stamps r where loop: "quote_loop c st now uid (candidate_symbols c st) (ms_last_replace m) = (stamps, r)"
    by fastforce
  with call np obtain os where os: "r = Inr os" "intents = concat (map (quoted_intents \<circ> snd) os)"
    by (cases r) (auto simp: micro_get_intents_def Let_def)
  have facts: "\<exists>ob b a. get_orderbook st (oi_symbol j) = Some ob \<and> oi_symbol j \<in> set (candidate_symbols c st)
      \<and> sr_tradable (quote_scan c st (oi_symbol j) ob)
      \<and> to_grid (tick_size_of c st (oi_symbol j)) (sr_entry_price (quote_scan c st (oi_symbol j) ob)) = Inr b
      \<and> to_grid (tick_size_of c st (oi_symbol j)) (sr_exit_price (quote_scan c st (oi_symbol j) ob)) = Inr a
      \<and> b < best_ask ob \<and> best_bid ob < a \<and> quote_within (oi_symbol j) b a j" if "j \<in> set intents" for j
  proof -
    from that os(2) obtain sy out where out: "(sy, out) \<in> set os" "j \<in> set (quoted_intents out)" by auto
    then obtain spike qs where q: "out = Quoted spike qs" "j \<in> set qs" by (cases out) auto
    with quote_loop_outcomes [of c st now uid "candidate_symbols c st" "ms_last_replace m" os sy out] out loop os(1)
    obtain stamps' where sy: "sy \<in> set (candidate_symbols c st)"
      and one: "quote_symbol c st now (uid sy) stamps' sy = Inr (Quoted spike qs)" by auto
    from quote_symbol_quoted [OF one] obtain ob b a where ob: "get_orderbook st sy = Some ob"
        "sr_tradable (quote_scan c st sy ob)"
        "to_grid (tick_size_of c st sy) (sr_entry_price (quote_scan c st sy ob)) = Inr b"
        "to_grid (tick_size_of c st sy) (sr_exit_price (quote_scan c st sy ob)) = Inr a"
        "b < best_ask ob" "best_bid ob < a"
      and qs: "qs = slices c (quote_profile c st sy) spike (uid sy) sy (tick_size_of c st sy) b a
          (quote_qty c (snd (quote_profile c st sy)) ob)" by metis
    from slices_within [OF _ tick_size_pos [OF tick]] q(2) qs have "quote_within sy b a j" by metis
    moreover from this have "oi_symbol j = sy" by (simp add: quote_within_def)
    ultimately show ?thesis using ob sy by auto
  qed
  let ?sy = "oi_symbol i" let ?t = "tick_size_of c st (oi_symbol i)"
  from facts [OF i] obtain ob b a where ob: "get_orderbook st ?sy = Some ob" "?sy \<in> set (candidate_symbols c st)"
      and tr: "sr_tradable (quote_scan c st ?sy ob)"
      and ba: "to_grid ?t (sr_entry_price (quote_scan c st ?sy ob)) = Inr b"
        "to_grid ?t (sr_exit_price (quote_scan c st ?sy ob)) = Inr a" "b < best_ask ob" "best_bid ob < a"
      and within: "quote_within ?sy b a i" by blast
  have t: "0 < ?t" by (rule tick_size_pos [OF tick])
  have "resting ob i" using within ba(3,4) by (auto simp: quote_within_def resting_def)
  moreover have "oi_price i * (1 + max (fst (scan_fees c)) 0) * (1 + required ?sy)
      < oi_price j * (1 - max (snd (scan_fees c)) 0)"
    if grid: "best_bid ob = of_int k * ?t" "best_ask ob = of_int l * ?t" and req: "- 1 \<le> required ?sy"
      and j: "j \<in> set intents" "oi_symbol j = ?sy" "oi_side i = ''Buy''" "oi_side j = ''Sell''" for k l j
  proof -
    let ?off = "max (via (profile ?sy) ap_entry_tick_offset (sc_entry_tick_offset c)) 0"
    note tr' = tradable_scan [OF tr [unfolded quote_scan_def Let_def]]
    have entry: "sr_entry_price (quote_scan c st ?sy ob) = of_int (k + ?off) * ?t"
      and exit: "sr_exit_price (quote_scan c st ?sy ob) = of_int (l - ?off) * ?t"
      using tr'(1,2) grid t by (simp_all add: quote_scan_def Let_def profile_def algebra_simps)
    have b: "b = sr_entry_price (quote_scan c st ?sy ob)" and a: "a = sr_exit_price (quote_scan c st ?sy ob)"
      using ba(1,2) unfolding entry exit to_grid_multiple [OF t [THEN less_imp_neq, symmetric]] by simp_all
    have edge: "b * (1 + max (fst (scan_fees c)) 0) * (1 + required ?sy) < a * (1 - max (snd (scan_fees c)) 0)"
      unfolding b a required_def profile_def
      using net_edge_profit [OF tr'(6)] tr'(1-4) by (simp add: quote_scan_def Let_def)
    have pos: "0 < b" using tr'(1,3) unfolding b by (simp add: quote_scan_def Let_def)
    from facts [OF j(1)] ob(1) ba(1,2) j(2) have "quote_within ?sy b a j" by auto
    with j within have le: "oi_price i \<le> b" "a \<le> oi_price j" by (auto simp: quote_within_def)
    have nn: "0 \<le> (1 + max (fst (scan_fees c)) 0) * (1 + required ?sy)" using req by simp
    have "0 \<le> b * (1 + max (fst (scan_fees c)) 0) * (1 + required ?sy)"
      using mult_nonneg_nonneg [OF less_imp_le [OF pos] nn] by (simp only: mult.assoc)
    with edge have "0 < a * (1 - max (snd (scan_fees c)) 0)" by simp
    moreover have "0 < a" using tr'(2,3,4) unfolding a by (simp add: quote_scan_def Let_def)
    ultimately have "0 \<le> 1 - max (snd (scan_fees c)) 0" by (simp add: zero_less_mult_iff)
    from mult_right_mono [OF le(2) this] mult_right_mono [OF le(1) nn] edge show ?thesis by (simp add: mult.assoc)
  qed
  ultimately show ?thesis using ob by blast
qed

theorem micro_quotes_rest_and_pay_witness:
  "map oi_price (case snd (micro_get_intents (sample_config [''A'']) (sample_market ''A'' 100 104) 1 (\<lambda>s i d. [])
      \<lparr>ms_last_replace = Map.empty, ms_last_summary = []\<rparr>) of Inl e \<Rightarrow> [] | Inr qs \<Rightarrow> qs) = [101, 103]
   \<and> resting (sample_book ''A'' 100 104)
       (quote_intent (sample_config [''A'']) (None, None) ''A'' ''Buy'' 101 (100 / 102) ''mm-A-bid-'')"
proof -
  let ?c = "sample_config [''A'']" and ?st = "sample_market ''A'' 100 104"
  let ?q = "quote_intent ?c (None, None) ''A''"
  let ?m = "\<lparr>ms_last_replace = Map.empty, ms_last_summary = []\<rparr>"
  have tick: "tick_size_of ?c ?st ''A'' = 1" and pp: "quote_profile ?c ?st ''A'' = (None, None)"
    and sp: "spike_trigger ?c (snapshot_of ?st ''A'') = False" and fee: "scan_fees ?c = (0, 0)"
    by (simp_all add: sample_config_def sample_market_def initial_trading_state_def tick_size_of_def
        get_tick_size_def quote_profile_def spike_trigger_def scan_fees_def Let_def active_profile_id_def
        get_active_profile_id_def default_profile_id_def find_profile_def profiles_by_id_def str_or_def)
  have cand: "candidate_symbols ?c ?st = [''A'']" and ob: "get_orderbook ?st ''A'' = Some (sample_book ''A'' 100 104)"
    by (simp_all add: candidate_symbols_def sample_config_def sample_market_def get_active_symbols_def
        get_orderbook_def Let_def)
  have one: "quote_symbol ?c ?st 1 (\<lambda>i d. []) Map.empty ''A''
      = Inr (Quoted False [?q ''Buy'' 101 (100 / 102) ''mm-A-bid-'', ?q ''Sell'' 103 (100 / 102) ''mm-A-ask-''])"
    using to_grid_multiple [of 1 101] to_grid_multiple [of 1 103]
    by (simp add: quote_symbol_def ob pp sp tick fee Let_def)
      (simp add: sample_config_def sample_book_def live_spread_bps_def scan_spread_def compute_net_edge_def via_def
        slices_def slice_def quote_qty_def Let_def link_id_def)
  have call: "snd (micro_get_intents ?c ?st 1 (\<lambda>s i d. []) ?m)
      = Inr [?q ''Buy'' 101 (100 / 102) ''mm-A-bid-'', ?q ''Sell'' 103 (100 / 102) ''mm-A-ask-'']"
    by (simp add: micro_get_intents_def cand one Let_def) (simp add: sample_market_def)
  from micro_quotes_rest_and_pay [OF call, of "?q ''Buy'' 101 (100 / 102) ''mm-A-bid-''"] call ob
  show ?thesis by (simp add: quote_intent_def) (simp add: sample_config_def)
qed

text \<open>
  A symbol is requoted at most once per replace interval. Over any sequence of calls, with any
  market states, clock readings and order link ids, the times at which a symbol is quoted are at
  least the configured interval apart; and every order a call returns is for a symbol it quoted
  at its time.
\<close>

theorem micro_requote_interval:
  "successively (\<lambda>a b. of_int (sc_replace_interval_ms c) / 1000 \<le> b - a)
     (act_times (micro_stamped c) (micro_call c) (\<lambda>e. fst (snd e)) sy m calls)
   \<and> oi_symbol ` set (case snd (micro_get_intents c st now uid m) of Inl e \<Rightarrow> [] | Inr qs \<Rightarrow> qs)
     \<subseteq> set (micro_stamped c m (st, now, uid))"
proof
  show "successively (\<lambda>a b. of_int (sc_replace_interval_ms c) / 1000 \<le> b - a)
     (act_times (micro_stamped c) (micro_call c) (\<lambda>e. fst (snd e)) sy m calls)"
    by (rule micro_throttle.acts_interval)
  show "oi_symbol ` set (case snd (micro_get_intents c st now uid m) of Inl e \<Rightarrow> [] | Inr qs \<Rightarrow> qs)
     \<subseteq> set (micro_stamped c m (st, now, uid))"
  proof (cases "paused st \<or> (\<exists>e. snd (micro_get_intents c st now uid m) = Inl e)")
    case True
    then show ?thesis by (auto simp: micro_get_intents_def)
  next
    case False
    obtain stamps r where loop: "quote_loop c st now uid (candidate_symbols c st) (ms_last_replace m) = (stamps, r)"
      by fastforce
    with False obtain os where r: "r = Inr os" by (cases r) (auto simp: micro_get_intents_def Let_def)
    have "oi_symbol j \<in> set (stamped_symbols c st now uid (candidate_symbols c st) (ms_last_replace m))"
      if "out \<in> set os" "j \<in> set (quoted_intents (snd out))" for j out
    proof -
      from that(2) obtain spike qs where q: "out = (fst out, Quoted spike qs)" "j \<in> set qs"
        by (cases out; cases "snd out") auto
      with that(1) have mem: "(fst out, Quoted spike qs) \<in> set os" by simp
      from quote_loop_quoted [of c st now uid "candidate_symbols c st" "ms_last_replace m" os] mem loop r
      have s: "fst out \<in> set (stamped_symbols c st now uid (candidate_symbols c st) (ms_last_replace m))" by simp
      from quote_loop_outcomes [of c st now uid "candidate_symbols c st" "ms_last_replace m" os] mem loop r
      obtain stamps' where "quote_symbol c st now (uid (fst out)) stamps' (fst out) = Inr (Quoted spike qs)" by auto
      then have "oi_symbol j = fst out"
        using q(2) by (elim quote_symbol_quoted) (auto simp: slices_def slice_def quote_intent_def Let_def split: if_splits)
      with s show ?thesis by simp
    qed
    with False loop r show ?thesis by (auto simp: micro_get_intents_def micro_stamped_def Let_def)
  qed
qed

end
