(* ===== verification/Pair_Admission.thy ===== *)
theory Pair_Admission
  imports Strategy_Base
begin

text \<open>
  The pair admission filter \<open>src/botik/strategy/pair_admission.py\<close>: what it measures of a symbol's
  market data, the conditions it checks, and the gate that lets a pair pass only after the
  conditions have held for a while and the last rejection has cooled down. An infinite gap is \<open>None\<close>;
  \<open>now\<close> is the clock in milliseconds; the calibration file's content is an argument.
\<close>

section \<open>Settings and results\<close>

record admission_config =
  ac_maker_rate :: real
  ac_taker_rate :: real
  ac_min_fills_for_autocalibration :: int
  ac_max_book_silence_ms :: int
  ac_max_trade_silence_ms :: int
  ac_spread_window_sec :: int
  ac_trade_window_sec :: int
  ac_vol_window_sec :: int
  ac_spike_window_sec :: int
  ac_spike_threshold_bps :: real
  ac_spike_min_trades_per_min :: real
  ac_depth_band_bps :: real
  ac_max_total_slippage_bps :: real
  ac_order_notional_quote :: real
  ac_bootstrap_fee_entry_bps :: real
  ac_bootstrap_fee_exit_bps :: real
  ac_maker_only_entry :: bool
  ac_safety_buffer_bps :: real
  ac_target_edge_bps :: real
  ac_min_depth_multiplier :: real
  ac_min_trades_per_min :: real
  ac_max_p95_trade_gap_ms :: int
  ac_max_max_gap_ms :: int
  ac_min_spread_bps :: real
  ac_max_vol_to_spread_ratio :: real
  ac_min_hold_seconds :: int
  ac_cooldown_seconds :: int

record pair_decision =
  pd_symbol :: string
  pd_status :: string
  pd_reason :: string
  pd_stale_data :: bool
  pd_data_age_ms :: int
  pd_metrics :: snapshot

section \<open>Statistics\<close>

definition percentile :: "real list \<Rightarrow> real \<Rightarrow> real" where
  "percentile values p =
     (if values = [] then 0
      else
        let vals = sort values in
        if length vals = 1 then hd vals
        else
          let rank = max 0 (min 100 p) / 100 * (real (length vals) - 1);
              lo = nat (py_trunc rank); hi = min (lo + 1) (length vals - 1);
              frac = rank - real lo in
          vals ! lo * (1 - frac) + vals ! hi * frac)"

definition median :: "real list \<Rightarrow> real" where
  "median values =
     (let vals = sort values; n = length vals in
      if odd n then vals ! (n div 2) else (vals ! (n div 2 - 1) + vals ! (n div 2)) / 2)"

definition pstdev :: "real list \<Rightarrow> real" where
  "pstdev values =
     (let n = real (length values); mean = sum_list values / n in
      sqrt (sum_list (map (\<lambda>v. (v - mean)\<^sup>2) values) / n))"

fun vwap_walk :: "levels \<Rightarrow> real \<times> real \<times> real \<Rightarrow> real \<times> real \<times> real" where
  "vwap_walk [] acc = acc"
| "vwap_walk ((price, qty) # levels) (remaining, total_base, total_quote) =
     (if price \<le> 0 \<or> qty \<le> 0 \<or> remaining \<le> 0
      then vwap_walk levels (remaining, total_base, total_quote)
      else
        let level_quote = price * qty; take_quote = min remaining level_quote; take_base = take_quote / price;
            acc = (remaining - take_quote, total_base + take_base, total_quote + take_quote) in
        if remaining - take_quote \<le> 0 then acc else vwap_walk levels acc)"

definition simulate_vwap_buy :: "levels \<Rightarrow> real \<Rightarrow> real option" where
  "simulate_vwap_buy asks order_notional_quote =
     (case vwap_walk asks (order_notional_quote, 0, 0) of (remaining, total_base, total_quote) \<Rightarrow>
        if remaining > 0 \<or> total_base \<le> 0 then None else Some (total_quote / total_base))"

definition simulate_vwap_sell :: "levels \<Rightarrow> real \<Rightarrow> real option" where
  "simulate_vwap_sell bids order_notional_quote =
     (case vwap_walk bids (order_notional_quote, 0, 0) of (remaining, total_base, total_quote) \<Rightarrow>
        if remaining > 0 \<or> total_base \<le> 0 then None else Some (total_quote / total_base))"

definition depth_near_mid_quote :: "levels \<Rightarrow> levels \<Rightarrow> real \<Rightarrow> real \<Rightarrow> real \<times> real" where
  "depth_near_mid_quote bids asks middle depth_band_bps =
     (if middle \<le> 0 then (0, 0)
      else
        let band = max depth_band_bps 0 / 10000; low = middle * (1 - band); high = middle * (1 + band) in
        (sum_list (map (\<lambda>l. fst l * snd l) (filter (\<lambda>l. low \<le> fst l \<and> fst l \<le> middle) bids)),
         sum_list (map (\<lambda>l. fst l * snd l) (filter (\<lambda>l. middle \<le> fst l \<and> fst l \<le> high) asks))))"

text \<open>The last positive middle price of every second, in the order of the seconds.\<close>

definition second_mids :: "series \<Rightarrow> (int, real) dict" where
  "second_mids mid_series = sort_key fst
     (fold (\<lambda>p d. if snd p > 0 then dict_set (fst p div 1000) (snd p) d else d) mid_series [])"

definition bps_changes_from_mid_series :: "series \<Rightarrow> real list" where
  "bps_changes_from_mid_series mid_series =
     (let points = second_mids mid_series in
      map (\<lambda>(a, b). (snd b - snd a) / snd a * 10000)
        (filter (\<lambda>(a, b). snd a > 0) (zip points (tl points))))"

definition impulse_bps_from_mid_series :: "series \<Rightarrow> int \<Rightarrow> real" where
  "impulse_bps_from_mid_series mid_series lookback_ms =
     (if length mid_series < 2 then 0
      else
        let (latest_ts, latest_mid) = last mid_series in
        if latest_mid \<le> 0 then 0
        else
          let target_ts = latest_ts - max lookback_ms 1 in
          case find (\<lambda>p. fst p \<le> target_ts \<and> snd p > 0) (rev mid_series) of
            Some p \<Rightarrow> (latest_mid - snd p) / snd p * 10000
          | None \<Rightarrow>
              let first_mid = snd (hd mid_series) in
              if first_mid \<le> 0 then 0 else (latest_mid - first_mid) / first_mid * 10000)"

section \<open>What an evaluation measures\<close>

record measures =
  am_stale_data :: bool
  am_book_age_ms :: int
  am_trade_age_ms :: int
  am_spreads :: "real list"
  am_trades :: "public_trade_event list"
  am_best_bid :: real
  am_best_ask :: real
  am_mid :: real
  am_depth_bid :: real
  am_depth_ask :: real
  am_max_slippage :: real
  am_slippage_buy :: real
  am_slippage_sell :: real
  am_fee_entry :: real
  am_fee_exit :: real
  am_mids :: series

definition age_ms :: "int \<Rightarrow> int option \<Rightarrow> int" where
  "age_ms now ts = (case ts of None \<Rightarrow> 10 ^ 9 | Some t \<Rightarrow> now - t)"

definition recent :: "int \<Rightarrow> int \<Rightarrow> int \<Rightarrow> bool" where
  "recent now window_sec ts \<longleftrightarrow> now - ts \<le> max window_sec 1 * 1000"

text \<open>\<open>autocalib.get(key) or 0\<close>, as an integer.\<close>

definition py_truthy :: "py_value \<Rightarrow> bool" where
  "py_truthy v = (case v of PyNone \<Rightarrow> False | PyBool b \<Rightarrow> b | PyInt n \<Rightarrow> n \<noteq> 0 | PyFloat r \<Rightarrow> r \<noteq> 0 | PyStr s \<Rightarrow> s \<noteq> [])"

definition calibration_ready :: "admission_config \<Rightarrow> snapshot \<Rightarrow> py_error + bool" where
  "calibration_ready c autocalib =
     (let v = (case dict_get autocalib ''sample_fills'' of None \<Rightarrow> PyInt 0
               | Some v \<Rightarrow> if py_truthy v then v else PyInt 0) in
      case value_int v of Inl e \<Rightarrow> Inl e | Inr n \<Rightarrow> Inr (n \<ge> ac_min_fills_for_autocalibration c))"

definition present :: "py_value option \<Rightarrow> py_value option" where
  "present v = (case v of Some PyNone \<Rightarrow> None | _ \<Rightarrow> v)"

definition max_total_slippage :: "admission_config \<Rightarrow> bool \<Rightarrow> snapshot \<Rightarrow> real" where
  "max_total_slippage c ready autocalib =
     (let own = max (ac_max_total_slippage_bps c) 0;
          recommended = (case present (dict_get autocalib ''recommended_total_slippage_bps'') of
               None \<Rightarrow> present (dict_get autocalib ''recommended_max_total_slippage_bps'')
             | Some v \<Rightarrow> Some v) in
      if ready then
        case recommended of None \<Rightarrow> own
        | Some v \<Rightarrow> (case value_float v of Inl e \<Rightarrow> own | Inr r \<Rightarrow> max r 0)
      else own)"

text \<open>The two recommended fees are read in turn; a malformed one ends the reading.\<close>

definition bootstrap_fees :: "admission_config \<Rightarrow> bool \<Rightarrow> snapshot \<Rightarrow> real \<times> real" where
  "bootstrap_fees c ready autocalib =
     (let entry = max (ac_bootstrap_fee_entry_bps c) 0; exit = max (ac_bootstrap_fee_exit_bps c) 0 in
      if \<not> ready then (entry, exit)
      else
        case map_option value_float (present (dict_get autocalib ''recommended_fee_entry_bps'')) of
          Some (Inl e) \<Rightarrow> (entry, exit)
        | r1 \<Rightarrow>
            let entry1 = (case r1 of Some (Inr r) \<Rightarrow> max r 0 | _ \<Rightarrow> entry) in
            case map_option value_float (present (dict_get autocalib ''recommended_fee_exit_bps'')) of
              Some (Inr r) \<Rightarrow> (entry1, max r 0)
            | _ \<Rightarrow> (entry1, exit))"

definition slippage_buy_bps :: "real \<Rightarrow> levels \<Rightarrow> real \<Rightarrow> real \<Rightarrow> real" where
  "slippage_buy_bps notional asks best max_slippage =
     (case if asks = [] then None else simulate_vwap_buy asks notional of
        Some v \<Rightarrow> if best > 0 then (v - best) / best * 10000 else max_slippage / 2
      | None \<Rightarrow> max_slippage / 2)"

definition slippage_sell_bps :: "real \<Rightarrow> levels \<Rightarrow> real \<Rightarrow> real \<Rightarrow> real" where
  "slippage_sell_bps notional bids best max_slippage =
     (case if bids = [] then None else simulate_vwap_sell bids notional of
        Some v \<Rightarrow> if best > 0 then (best - v) / best * 10000 else max_slippage / 2
      | None \<Rightarrow> max_slippage / 2)"

definition measure_market :: "admission_config \<Rightarrow> bool \<Rightarrow> snapshot \<Rightarrow> trading_state \<Rightarrow> string \<Rightarrow> int \<Rightarrow> measures" where
  "measure_market c ready autocalib st symbol now =
     (let ob = get_orderbook st symbol; levels = orderbook_levels st symbol;
          book_age = age_ms now (last_book_update_ms st symbol);
          trade_age = age_ms now (last_trade_update_ms st symbol);
          (bids, asks) = (case levels of None \<Rightarrow> ([], []) | Some l \<Rightarrow> l);
          bid = (case ob of None \<Rightarrow> 0 | Some b \<Rightarrow> best_bid b);
          ask = (case ob of None \<Rightarrow> 0 | Some b \<Rightarrow> best_ask b);
          middle = (case ob of None \<Rightarrow> 0 | Some b \<Rightarrow> mid b);
          depth = (if bids \<noteq> [] \<and> asks \<noteq> [] \<and> middle > 0
                   then depth_near_mid_quote bids asks middle (ac_depth_band_bps c) else (0, 0));
          max_slippage = max_total_slippage c ready autocalib;
          fees = bootstrap_fees c ready autocalib;
          configured = (if ac_maker_only_entry c then max (ac_maker_rate c) 0 * 10000
                        else max (ac_taker_rate c) 0 * 10000) in
      \<lparr>am_stale_data = (\<not> is_book_snapshot_ready st symbol \<or> book_age > ac_max_book_silence_ms c
         \<or> trade_age > ac_max_trade_silence_ms c \<or> ob = None \<or> levels = None),
       am_book_age_ms = book_age, am_trade_age_ms = trade_age,
       am_spreads = map snd (filter (\<lambda>p. recent now (ac_spread_window_sec c) (fst p)) (get_spread_bps_series st symbol)),
       am_trades = filter (\<lambda>t. recent now (ac_trade_window_sec c) (tr_ts_ms t)) (get_public_trades st symbol),
       am_best_bid = bid, am_best_ask = ask, am_mid = middle,
       am_depth_bid = fst depth, am_depth_ask = snd depth,
       am_max_slippage = max_slippage,
       am_slippage_buy = slippage_buy_bps (ac_order_notional_quote c) asks ask max_slippage,
       am_slippage_sell = slippage_sell_bps (ac_order_notional_quote c) bids bid max_slippage,
       am_fee_entry = max (fst fees) configured, am_fee_exit = max (snd fees) configured,
       am_mids = filter (\<lambda>p. recent now (ac_vol_window_sec c) (fst p)) (get_mid_series st symbol)\<rparr>)"

definition median_spread :: "measures \<Rightarrow> real" where
  "median_spread m = (if am_spreads m = [] then 0 else median (am_spreads m))"

definition live_spread :: "measures \<Rightarrow> real" where
  "live_spread m = (if am_mid m > 0 \<and> am_best_ask m \<ge> am_best_bid m
     then (am_best_ask m - am_best_bid m) / am_mid m * 10000 else 0)"

definition trades_per_min :: "admission_config \<Rightarrow> measures \<Rightarrow> real" where
  "trades_per_min c m = real (length (am_trades m)) * 60 / max (of_int (ac_trade_window_sec c)) 1"

definition trade_gaps_ms :: "measures \<Rightarrow> real list" where
  "trade_gaps_ms m = map (\<lambda>(a, b). of_int (tr_ts_ms b - tr_ts_ms a)) (zip (am_trades m) (tl (am_trades m)))"

definition or_infinite :: "(real list \<Rightarrow> real) \<Rightarrow> real list \<Rightarrow> real option" where
  "or_infinite f gaps = (if gaps = [] then None else Some (f gaps))"

definition p95_trade_gap :: "measures \<Rightarrow> real option" where
  "p95_trade_gap m = or_infinite (\<lambda>gaps. percentile gaps 95) (trade_gaps_ms m)"

definition max_trade_gap :: "measures \<Rightarrow> real option" where
  "max_trade_gap m = or_infinite (\<lambda>gaps. fold max (tl gaps) (hd gaps)) (trade_gaps_ms m)"

definition total_slippage :: "measures \<Rightarrow> real" where
  "total_slippage m = max (am_slippage_buy m) 0 + max (am_slippage_sell m) 0"

definition min_required_spread :: "admission_config \<Rightarrow> measures \<Rightarrow> real" where
  "min_required_spread c m = am_fee_entry m + am_fee_exit m + max (am_slippage_buy m) 0
     + max (am_slippage_sell m) 0 + ac_safety_buffer_bps c + ac_target_edge_bps c"

definition vol_1s :: "measures \<Rightarrow> real" where
  "vol_1s m = (let moves = bps_changes_from_mid_series (am_mids m) in
     if length moves \<ge> 2 then pstdev moves else 0)"

definition spike_window_ms :: "admission_config \<Rightarrow> int" where
  "spike_window_ms c = max (ac_spike_window_sec c) 1 * 1000"

definition impulse :: "admission_config \<Rightarrow> measures \<Rightarrow> real" where
  "impulse c m = impulse_bps_from_mid_series (am_mids m) (spike_window_ms c)"

definition short_trades_per_min :: "admission_config \<Rightarrow> measures \<Rightarrow> int \<Rightarrow> real" where
  "short_trades_per_min c m now =
     real (length (filter (\<lambda>t. now - tr_ts_ms t \<le> spike_window_ms c) (am_trades m))) * 60
       / of_int (max (ac_spike_window_sec c) 1)"

definition spike_direction :: "admission_config \<Rightarrow> measures \<Rightarrow> int \<Rightarrow> int" where
  "spike_direction c m now =
     (if short_trades_per_min c m now \<ge> max (ac_spike_min_trades_per_min c) 0 then
        if impulse c m \<ge> max (ac_spike_threshold_bps c) 0 then 1
        else if impulse c m \<le> - max (ac_spike_threshold_bps c) 0 then - 1 else 0
      else 0)"

section \<open>Conditions and gate\<close>

definition gap_within :: "real option \<Rightarrow> real \<Rightarrow> bool" where
  "gap_within gap limit = (case gap of None \<Rightarrow> False | Some g \<Rightarrow> g \<le> limit)"

definition depth_floor :: "admission_config \<Rightarrow> real" where
  "depth_floor c = ac_order_notional_quote c * ac_min_depth_multiplier c"

text \<open>The names of the conditions that fail, in the order they are checked.\<close>

definition failed_conditions :: "admission_config \<Rightarrow> measures \<Rightarrow> string list" where
  "failed_conditions c m =
     map snd (filter (\<lambda>p. \<not> fst p)
       [(trades_per_min c m \<ge> ac_min_trades_per_min c, ''trades_per_min''),
        (gap_within (p95_trade_gap m) (of_int (ac_max_p95_trade_gap_ms c)), ''p95_trade_gap''),
        (gap_within (max_trade_gap m) (of_int (ac_max_max_gap_ms c)), ''max_trade_gap''),
        (min (am_depth_bid m) (am_depth_ask m) \<ge> depth_floor c, ''depth''),
        (total_slippage m \<le> am_max_slippage m, ''slippage''),
        (live_spread m \<ge> max (ac_min_spread_bps c) 0, ''min_spread''),
        (median_spread m \<ge> min_required_spread c m, ''spread''),
        (vol_1s m \<le> (if median_spread m > 0 then median_spread m * ac_max_vol_to_spread_ratio c else 0), ''vol'')])"

definition critical_failure :: "admission_config \<Rightarrow> measures \<Rightarrow> bool" where
  "critical_failure c m \<longleftrightarrow> am_stale_data m
     \<or> \<not> min (am_depth_bid m) (am_depth_ask m) \<ge> depth_floor c
         \<and> min (am_depth_bid m) (am_depth_ask m) < depth_floor c * (1 / 2)
     \<or> \<not> gap_within (max_trade_gap m) (of_int (ac_max_max_gap_ms c))
         \<and> \<not> gap_within (max_trade_gap m) (of_int (ac_max_max_gap_ms c) * (3 / 2))
     \<or> \<not> total_slippage m \<le> am_max_slippage m \<and> total_slippage m > am_max_slippage m * (3 / 2)"

definition gate_int :: "snapshot \<Rightarrow> string \<Rightarrow> py_error + int" where
  "gate_int gate key = (case dict_get gate key of None \<Rightarrow> Inr 0 | Some v \<Rightarrow> value_int v)"

text \<open>The gate after an evaluation, and the status and reason of the decision.\<close>

definition gate_step ::
    "admission_config \<Rightarrow> measures \<Rightarrow> int \<Rightarrow> int \<Rightarrow> int \<Rightarrow> snapshot \<Rightarrow> snapshot \<times> string \<times> string" where
  "gate_step c m now cooldown_until pass_since gate =
     (let failed = failed_conditions c m in
      if \<not> am_stale_data m \<and> failed = [] then
        let pass_since = (if pass_since \<le> 0 then now else pass_since);
            gate = dict_set ''pass_since_ms'' (PyInt pass_since) gate in
        if now < cooldown_until then (gate, ''WATCH'', ''COOLDOWN'')
        else if now - pass_since < max (ac_min_hold_seconds c) 0 * 1000 then (gate, ''WATCH'', ''PASS_HOLD'')
        else (gate, ''PASS'', ''OK'')
      else
        let gate = dict_set ''pass_since_ms'' (PyInt 0) gate in
        if critical_failure c m then
          (dict_set ''cooldown_until_ms'' (PyInt (now + max (ac_cooldown_seconds c) 0 * 1000)) gate,
           ''REJECT'',
           if am_stale_data m then ''STALE_DATA''
           else if failed \<noteq> [] then ''CRITICAL_'' @ str_join '','' (take 3 failed) else ''CRITICAL'')
        else (gate, ''WATCH'', if failed \<noteq> [] then ''WATCH_'' @ str_join '','' (take 3 failed) else ''WATCH''))"

definition or_no_gap :: "real option \<Rightarrow> py_value" where
  "or_no_gap g = PyFloat (case g of None \<Rightarrow> 0 | Some v \<Rightarrow> v)"

definition admission_metrics ::
    "admission_config \<Rightarrow> bool \<Rightarrow> measures \<Rightarrow> string \<Rightarrow> int \<Rightarrow> string \<Rightarrow> string \<Rightarrow> snapshot" where
  "admission_metrics c ready m symbol now status reason =
     [(''symbol'', PyStr symbol), (''status'', PyStr status), (''reason'', PyStr reason),
      (''best_bid'', PyFloat (am_best_bid m)), (''best_ask'', PyFloat (am_best_ask m)),
      (''mid'', PyFloat (am_mid m)), (''live_spread_bps'', PyFloat (live_spread m)),
      (''min_spread_bps'', PyFloat (ac_min_spread_bps c)),
      (''median_spread_bps'', PyFloat (median_spread m)),
      (''p25_spread_bps'', PyFloat (percentile (am_spreads m) 25)),
      (''p75_spread_bps'', PyFloat (percentile (am_spreads m) 75)),
      (''trades_per_min'', PyFloat (trades_per_min c m)),
      (''median_trade_gap_ms'', or_no_gap (or_infinite median (trade_gaps_ms m))),
      (''p95_trade_gap_ms'', or_no_gap (p95_trade_gap m)),
      (''max_trade_gap_ms_window'', or_no_gap (max_trade_gap m)),
      (''depth_bid_quote'', PyFloat (am_depth_bid m)), (''depth_ask_quote'', PyFloat (am_depth_ask m)),
      (''slippage_buy_bps'', PyFloat (am_slippage_buy m)), (''slippage_sell_bps'', PyFloat (am_slippage_sell m)),
      (''vol_1s_bps'', PyFloat (vol_1s m)),
      (''p95_abs_move_1s_bps'', PyFloat (percentile (map abs (bps_changes_from_mid_series (am_mids m))) 95)),
      (''impulse_bps'', PyFloat (impulse c m)),
      (''short_trades_per_min'', PyFloat (short_trades_per_min c m now)),
      (''spike_direction'', PyInt (spike_direction c m now)),
      (''spike_strength_bps'', PyFloat \<bar>impulse c m\<bar>),
      (''spike_window_sec'', PyInt (max (ac_spike_window_sec c) 1)),
      (''spike_threshold_bps'', PyFloat (max (ac_spike_threshold_bps c) 0)),
      (''fee_entry_bps'', PyFloat (am_fee_entry m)), (''fee_exit_bps'', PyFloat (am_fee_exit m)),
      (''max_total_slippage_bps'', PyFloat (am_max_slippage m)),
      (''autocalibration_applied'', PyBool ready),
      (''min_required_spread_bps'', PyFloat (min_required_spread c m)),
      (''stale_data'', PyBool (am_stale_data m)),
      (''data_age_ms'', PyInt (max (am_book_age_ms m) (am_trade_age_ms m))),
      (''book_age_ms'', PyInt (am_book_age_ms m)), (''trade_age_ms'', PyInt (am_trade_age_ms m))]"

text \<open>An exception while reading the calibration or the gate leaves the state as it was.\<close>

definition evaluate_pair_admission ::
    "admission_config \<Rightarrow> snapshot \<Rightarrow> string \<Rightarrow> int \<Rightarrow> trading_state \<Rightarrow> trading_state \<times> (py_error + pair_decision)" where
  "evaluate_pair_admission c autocalib symbol now st =
     (case calibration_ready c autocalib of Inl e \<Rightarrow> (st, Inl e)
      | Inr ready \<Rightarrow>
          (let m = measure_market c ready autocalib st symbol now; gate = get_pair_gate_state st symbol in
           case gate_int gate ''cooldown_until_ms'' of Inl e \<Rightarrow> (st, Inl e)
           | Inr cooldown_until \<Rightarrow>
               (case gate_int gate ''pass_since_ms'' of Inl e \<Rightarrow> (st, Inl e)
                | Inr pass_since \<Rightarrow>
                    (let (gate1, status, reason) = gate_step c m now cooldown_until pass_since gate;
                         metrics = admission_metrics c ready m symbol now status reason in
                     (set_pair_filter_snapshot symbol metrics (set_pair_gate_state symbol gate1 st),
                      Inr \<lparr>pd_symbol = symbol, pd_status = status, pd_reason = reason,
                           pd_stale_data = am_stale_data m,
                           pd_data_age_ms = max (am_book_age_ms m) (am_trade_age_ms m),
                           pd_metrics = metrics\<rparr>)))))"

section \<open>The calibration file\<close>

text \<open>
  The cached reader of the calibration file. What the file system says of a path is an argument:
  the modification time of the file, the resolved name, and the object the text decodes to.
\<close>

record file_view =
  fv_exists :: bool
  fv_mtime :: "real option"
  fv_resolved :: string
  fv_object :: "snapshot option"

definition load_autocalibration ::
    "(string \<Rightarrow> file_view) \<Rightarrow> string \<Rightarrow> (string \<rightharpoonup> real \<times> snapshot) \<Rightarrow> (string \<rightharpoonup> real \<times> snapshot) \<times> snapshot" where
  "load_autocalibration fs path cache =
     (if path = [] then (cache, [])
      else let f = fs path in
        if \<not> fv_exists f then (cache, [])
        else case fv_mtime f of None \<Rightarrow> (cache, [])
          | Some mtime \<Rightarrow>
              let fresh = (case fv_object f of None \<Rightarrow> (cache, [])
                    | Some payload \<Rightarrow> (cache(fv_resolved f \<mapsto> (mtime, payload)), payload)) in
              case cache (fv_resolved f) of
                Some (t, payload) \<Rightarrow> if t = mtime then (cache, payload) else fresh
              | None \<Rightarrow> fresh)"

section \<open>The simulated order\<close>

text \<open>The quote value of the levels an order can take.\<close>

definition fillable_quote :: "levels \<Rightarrow> real" where
  "fillable_quote ls = sum_list (map (\<lambda>l. fst l * snd l) (filter (\<lambda>l. 0 < fst l \<and> 0 < snd l) ls))"

lemma fillable_quote_simps [simp]:
  "fillable_quote [] = 0"
  "fillable_quote ((p, q) # ls) = (if 0 < p \<and> 0 < q then p * q + fillable_quote ls else fillable_quote ls)"
  by (simp_all add: fillable_quote_def)

lemma fillable_quote_nonneg [simp]: "0 \<le> fillable_quote ls"
  by (auto simp: fillable_quote_def intro!: sum_list_nonneg)

definition priced_between :: "real \<Rightarrow> real \<Rightarrow> levels \<Rightarrow> bool" where
  "priced_between lo hi ls \<longleftrightarrow> (\<forall>l \<in> set ls. 0 < fst l \<and> 0 < snd l \<longrightarrow> lo \<le> fst l \<and> fst l \<le> hi)"

lemma take_between:
  fixes t :: real
  assumes "0 < p" "lo \<le> p" "p \<le> hi" "0 \<le> t"
  shows "lo * (t / p) \<le> t" "t \<le> hi * (t / p)"
proof -
  have "0 \<le> t / p" using assms by simp
  then have "lo * (t / p) \<le> p * (t / p)" and "p * (t / p) \<le> hi * (t / p)"
    by (rule mult_right_mono [OF assms(2)], rule mult_right_mono [OF assms(3)])
  moreover have "p * (t / p) = t" using assms(1) by simp
  ultimately show "lo * (t / p) \<le> t" "t \<le> hi * (t / p)" by (simp_all only:)
qed

lemma vwap_walk_spec:
  assumes "0 < n" and "priced_between lo hi ls" and "vwap_walk ls (n, b0, q0) = (r, b, q)"
  shows "r = max 0 (n - fillable_quote ls) \<and> q = q0 + (n - r) \<and> lo * (b - b0) \<le> q - q0 \<and> q - q0 \<le> hi * (b - b0)"
  using assms
proof (induction ls arbitrary: n b0 q0)
  case Nil
  then show ?case by simp
next
  case (Cons l ls)
  obtain p a where l: "l = (p, a)" by fastforce
  have between: "priced_between lo hi ls" using Cons.prems(2) by (simp add: priced_between_def)
  show ?case
  proof (cases "p \<le> 0 \<or> a \<le> 0")
    case True
    with Cons.prems Cons.IH [OF Cons.prems(1) between, of b0 q0] show ?thesis by (auto simp: l)
  next
    case False
    then have p: "0 < p" "0 < a" "lo \<le> p" "p \<le> hi" "0 < p * a" using Cons.prems(2) by (auto simp: l priced_between_def)
    show ?thesis
    proof (cases "n \<le> p * a")
      case True
      with Cons.prems p have "r = 0" "b = b0 + n / p" "q = q0 + n" by (auto simp: l Let_def min_def)
      with True take_between [OF p(1,3,4)] Cons.prems(1) show ?thesis by (simp add: l p add_increasing2)
    next
      case False
      define n1 b1 q1 where "n1 = n - p * a" and "b1 = b0 + a" and "q1 = q0 + p * a"
      have "vwap_walk ls (n1, b1, q1) = (r, b, q)" and "0 < n1"
        using Cons.prems False p by (simp_all add: l Let_def min_def n1_def b1_def q1_def)
      from Cons.IH [OF this(2) between this(1)]
      have r: "r = max 0 (n1 - fillable_quote ls)" "q = q1 + (n1 - r)"
        and le: "lo * (b - b1) \<le> q - q1" "q - q1 \<le> hi * (b - b1)" by auto
      have own: "lo * a \<le> p * a" "p * a \<le> hi * a" using p by (auto intro!: mult_right_mono)
      from le own have "lo * (b - b0) \<le> q - q0" "q - q0 \<le> hi * (b - b0)"
        by (simp_all add: b1_def q1_def algebra_simps)
      with r p show ?thesis by (simp add: l n1_def q1_def algebra_simps)
    qed
  qed
qed

lemma simulate_vwap_sides: "simulate_vwap_sell ls n = simulate_vwap_buy ls n"
  by (simp add: simulate_vwap_sell_def simulate_vwap_buy_def)

lemma exists_between: "\<exists>lo hi. 0 < lo \<and> 0 < hi \<and> priced_between lo hi ls"
proof (induction ls)
  case Nil
  have "(0::real) < 1 \<and> priced_between 1 1 []" by (simp add: priced_between_def)
  then show ?case by fastforce
next
  case (Cons l ls)
  then obtain lo hi where lh: "0 < lo" "0 < hi" "priced_between lo hi ls" by auto
  show ?case
  proof (cases "0 < fst l \<and> 0 < snd l")
    case True
    with lh have "0 < min lo (fst l) \<and> 0 < max hi (fst l) \<and> priced_between (min lo (fst l)) (max hi (fst l)) (l # ls)"
      by (auto simp: priced_between_def min_le_iff_disj le_max_iff_disj)
    then show ?thesis by blast
  next
    case False
    with lh have "0 < lo \<and> 0 < hi \<and> priced_between lo hi (l # ls)" by (auto simp: priced_between_def)
    then show ?thesis by blast
  qed
qed

lemma simulate_vwap_facts:
  assumes "0 < n"
  shows "simulate_vwap_buy ls n = None \<longleftrightarrow> fillable_quote ls < n"
    and "simulate_vwap_buy ls n = Some v \<Longrightarrow> 0 < lo \<Longrightarrow> priced_between lo hi ls \<Longrightarrow> lo \<le> v \<and> v \<le> hi"
proof -
  obtain r b q where w: "vwap_walk ls (n, 0, 0) = (r, b, q)" by (metis prod_cases3)
  obtain l1 h1 where lh: "0 < l1" "0 < h1" "priced_between l1 h1 ls" using exists_between by blast
  have pos: "0 < b" if "r < n"
  proof -
    from vwap_walk_spec [OF assms lh(3) w] that have "0 < h1 * b" by auto
    with lh(2) show ?thesis by (simp add: zero_less_mult_iff)
  qed
  from vwap_walk_spec [OF assms lh(3) w] have r: "r = max 0 (n - fillable_quote ls)" by simp
  show "simulate_vwap_buy ls n = None \<longleftrightarrow> fillable_quote ls < n"
  proof (cases "fillable_quote ls < n")
    case True
    with r show ?thesis by (simp add: simulate_vwap_buy_def w)
  next
    case False
    with r assms have "r = 0" by simp
    with pos assms False show ?thesis by (simp add: simulate_vwap_buy_def w)
  qed
  assume some: "simulate_vwap_buy ls n = Some v" and lo: "0 < lo" "priced_between lo hi ls"
  then have "0 < b" "v = q / b" by (auto simp: simulate_vwap_buy_def w split: if_splits)
  with vwap_walk_spec [OF assms lo(2) w] show "lo \<le> v \<and> v \<le> hi"
    by (simp add: pos_le_divide_eq pos_divide_le_eq)
qed

text \<open>What lies near the middle can be taken.\<close>

lemma near_fillable:
  assumes "\<forall>l \<in> set ls. P l \<longrightarrow> 0 < fst l"
  shows "sum_list (map (\<lambda>l. fst l * snd l) (filter P ls)) \<le> fillable_quote ls"
  using assms
proof (induction ls)
  case Nil
  then show ?case by simp
next
  case (Cons l ls)
  obtain p a where l: "l = (p, a)" by fastforce
  from Cons have IH: "sum_list (map (\<lambda>l. fst l * snd l) (filter P ls)) \<le> fillable_quote ls" by simp
  show ?case
  proof (cases "P l")
    case True
    with Cons.prems have "0 < p" by (simp add: l)
    then have "p * a \<le> (if 0 < a then p * a else 0)" by (auto simp: mult_le_0_iff)
    with IH True \<open>0 < p\<close> show ?thesis by (auto simp: l)
  next
    case False
    have "fillable_quote ls \<le> fillable_quote (l # ls)" by (simp add: l)
    with IH False show ?thesis by simp
  qed
qed

lemma depth_fillable:
  assumes "band < 10000"
  shows "fst (depth_near_mid_quote bids asks m band) \<le> fillable_quote bids"
    and "snd (depth_near_mid_quote bids asks m band) \<le> fillable_quote asks"
proof -
  have "0 < m * (1 - max band 0 / 10000)" if "0 < m" using assms that by (auto intro!: mult_pos_pos)
  then show "fst (depth_near_mid_quote bids asks m band) \<le> fillable_quote bids"
    and "snd (depth_near_mid_quote bids asks m band) \<le> fillable_quote asks"
    unfolding depth_near_mid_quote_def Let_def
    by (cases "m \<le> 0"; auto intro!: near_fillable; fastforce)+
qed

section \<open>What a decision promises\<close>

text \<open>All conditions held: the pair passes, holds or cools down.\<close>

definition conditions_held :: "pair_decision \<Rightarrow> bool" where
  "conditions_held d \<longleftrightarrow> pd_reason d \<in> {''OK'', ''PASS_HOLD'', ''COOLDOWN''}"

lemma gate_step_reason:
  assumes "gate_step c m now cu ps gate = (g, status, reason)"
  shows "reason \<in> {''OK'', ''PASS_HOLD'', ''COOLDOWN''} \<longleftrightarrow> \<not> am_stale_data m \<and> failed_conditions c m = []"
    and "status = ''PASS'' \<longleftrightarrow> reason = ''OK''"
  using assms by (auto simp: gate_step_def Let_def split: if_splits)

lemma no_failed_conditions:
  assumes "failed_conditions c m = []"
  shows "depth_floor c \<le> am_depth_bid m" "depth_floor c \<le> am_depth_ask m"
    and "total_slippage m \<le> am_max_slippage m" and "min_required_spread c m \<le> median_spread m"
  using assms by (simp_all add: failed_conditions_def not_le split: if_splits)

lemma evaluated:
  assumes "evaluate_pair_admission c autocalib sy now st = (st', Inr d)"
  obtains ready cu ps g where "calibration_ready c autocalib = Inr ready"
    and "gate_int (get_pair_gate_state st sy) ''cooldown_until_ms'' = Inr cu"
    and "gate_int (get_pair_gate_state st sy) ''pass_since_ms'' = Inr ps"
    and "gate_step c (measure_market c ready autocalib st sy now) now cu ps (get_pair_gate_state st sy)
           = (g, pd_status d, pd_reason d)"
    and "pd_symbol d = sy"
    and "st' = set_pair_filter_snapshot sy (pd_metrics d) (set_pair_gate_state sy g st)"
  using assms
  by (auto simp: evaluate_pair_admission_def Let_def split: sum.splits prod.splits)

lemma evaluate_failed: "evaluate_pair_admission c autocalib sy now st = (st', Inl e) \<Longrightarrow> st' = st"
  by (auto simp: evaluate_pair_admission_def Let_def split: sum.splits prod.splits)

lemma fresh_measures:
  assumes "\<not> am_stale_data (measure_market c ready autocalib st sy now)"
  shows "\<exists>ob bids asks. get_orderbook st sy = Some ob \<and> orderbook_levels st sy = Some (bids, asks)"
  using assms by (auto simp: measure_market_def Let_def split: prod.splits)

lemma measured:
  fixes c ready autocalib st sy now
  assumes "get_orderbook st sy = Some ob" and "orderbook_levels st sy = Some (bids, asks)"
  defines "m \<equiv> measure_market c ready autocalib st sy now"
  shows "am_stale_data m \<longleftrightarrow> \<not> is_book_snapshot_ready st sy
      \<or> age_ms now (last_book_update_ms st sy) > ac_max_book_silence_ms c
      \<or> age_ms now (last_trade_update_ms st sy) > ac_max_trade_silence_ms c"
    and "ac_depth_band_bps c < 10000 \<Longrightarrow> am_depth_bid m \<le> fillable_quote bids \<and> am_depth_ask m \<le> fillable_quote asks"
    and "asks \<noteq> [] \<Longrightarrow> 0 < best_ask ob \<Longrightarrow> simulate_vwap_buy asks (ac_order_notional_quote c) = Some v \<Longrightarrow>
      am_slippage_buy m = (v - best_ask ob) / best_ask ob * 10000"
    and "bids \<noteq> [] \<Longrightarrow> 0 < best_bid ob \<Longrightarrow> simulate_vwap_sell bids (ac_order_notional_quote c) = Some u \<Longrightarrow>
      am_slippage_sell m = (best_bid ob - u) / best_bid ob * 10000"
    and "max (if ac_maker_only_entry c then ac_maker_rate c else ac_taker_rate c) 0 * 10000
      \<le> min (am_fee_entry m) (am_fee_exit m)"
    and "am_spreads m = map snd (filter (\<lambda>p. recent now (ac_spread_window_sec c) (fst p)) (get_spread_bps_series st sy))"
    and "am_depth_bid m \<noteq> 0 \<Longrightarrow> bids \<noteq> [] \<and> asks \<noteq> []"
  using depth_fillable [of "ac_depth_band_bps c" bids asks "mid ob"]
  by (auto simp: m_def measure_market_def assms(1,2) slippage_buy_bps_def slippage_sell_bps_def Let_def)

section \<open>The gate over time\<close>

text \<open>Market updates and evaluations in any order; the trail keeps the decisions with their times.\<close>

datatype admission_event = Market market_event | Evaluate string int snapshot

fun admission_step ::
    "admission_config \<Rightarrow> trading_state \<times> (int \<times> pair_decision) list \<Rightarrow> admission_event
     \<Rightarrow> trading_state \<times> (int \<times> pair_decision) list" where
  "admission_step c (st, trail) (Market e) = (market_step st e, trail)"
| "admission_step c (st, trail) (Evaluate symbol now autocalib) =
     (case evaluate_pair_admission c autocalib symbol now st of
        (st', Inl e) \<Rightarrow> (st', trail)
      | (st', Inr d) \<Rightarrow> (st', trail @ [(now, d)]))"

definition history :: "string \<Rightarrow> (int \<times> pair_decision) list \<Rightarrow> (int \<times> pair_decision) list" where
  "history symbol trail = filter (\<lambda>x. pd_symbol (snd x) = symbol) trail"

text \<open>The unbroken run of evaluations, ending with the last one, whose conditions held.\<close>

definition streak :: "(int \<times> pair_decision) list \<Rightarrow> (int \<times> pair_decision) list" where
  "streak hist = takeWhile (\<lambda>x. conditions_held (snd x)) (rev hist)"

definition last_rejection :: "(int \<times> pair_decision) list \<Rightarrow> int option" where
  "last_rejection hist = map_option fst (find (\<lambda>x. pd_status (snd x) = ''REJECT'') (rev hist))"

definition hold_ms :: "admission_config \<Rightarrow> int" where
  "hold_ms c = max (ac_min_hold_seconds c) 0 * 1000"

definition cooldown_ms :: "admission_config \<Rightarrow> int" where
  "cooldown_ms c = max (ac_cooldown_seconds c) 0 * 1000"

definition gate_inv :: "admission_config \<Rightarrow> (int \<times> pair_decision) list \<Rightarrow> snapshot \<Rightarrow> bool" where
  "gate_inv c hist gate \<longleftrightarrow>
     gate_int gate ''cooldown_until_ms''
       = Inr (case last_rejection hist of None \<Rightarrow> 0 | Some t \<Rightarrow> t + cooldown_ms c)
     \<and> (\<exists>p. gate_int gate ''pass_since_ms'' = Inr p \<and> (p = 0 \<or> p \<in> fst ` set (streak hist)))"

lemma gate_int_set: "gate_int (dict_set k (PyInt v) gate) k' = (if k' = k then Inr v else gate_int gate k')"
  by (simp add: gate_int_def dict_get_set)

lemma streak_snoc: "streak (hist @ [x]) = (if conditions_held (snd x) then x # streak hist else [])"
  by (simp add: streak_def)

lemma last_rejection_snoc:
  "last_rejection (hist @ [x]) = (if pd_status (snd x) = ''REJECT'' then Some (fst x) else last_rejection hist)"
  by (simp add: last_rejection_def)

lemma gate_inv_step:
  assumes inv: "gate_inv c hist gate"
    and ints: "gate_int gate ''cooldown_until_ms'' = Inr cu" "gate_int gate ''pass_since_ms'' = Inr ps"
    and "step": "gate_step c m now cu ps gate = (g, pd_status d, pd_reason d)"
  shows "gate_inv c (hist @ [(now, d)]) g"
    and "pd_status d = ''PASS'' \<Longrightarrow>
      (\<exists>t \<in> fst ` set (streak (hist @ [(now, d)])). hold_ms c \<le> now - t)
      \<and> (\<forall>t. last_rejection hist = Some t \<longrightarrow> cooldown_ms c \<le> now - t)"
proof -
  have held: "conditions_held d \<longleftrightarrow> \<not> am_stale_data m \<and> failed_conditions c m = []"
    using gate_step_reason(1) [OF "step"] by (simp add: conditions_held_def)
  from inv ints have cu: "cu = (case last_rejection hist of None \<Rightarrow> 0 | Some t \<Rightarrow> t + cooldown_ms c)"
    and ps: "ps = 0 \<or> ps \<in> fst ` set (streak hist)" by (auto simp: gate_inv_def)
  let ?since = "if ps \<le> 0 then now else ps"
  have ok: "g = dict_set ''pass_since_ms'' (PyInt ?since) gate \<and> pd_status d \<noteq> ''REJECT''
      \<and> (pd_status d = ''PASS'' \<longrightarrow> cu \<le> now \<and> hold_ms c \<le> now - ?since)" if "conditions_held d"
    using that "step" unfolding held gate_step_def Let_def by (auto simp: hold_ms_def split: if_splits)
  have bad: "pd_status d \<noteq> ''PASS'' \<and> gate_int g ''pass_since_ms'' = Inr 0
      \<and> gate_int g ''cooldown_until_ms'' = Inr (if pd_status d = ''REJECT'' then now + cooldown_ms c else cu)"
    if "\<not> conditions_held d"
    using that "step" ints(1) unfolding held gate_step_def Let_def
    by (auto simp: cooldown_ms_def gate_int_set split: if_splits)
  have since: "?since \<in> fst ` set (streak (hist @ [(now, d)]))" if "conditions_held d"
    using that ps by (auto simp: streak_snoc)
  show "gate_inv c (hist @ [(now, d)]) g"
  proof (cases "conditions_held d")
    case True
    with ok since cu ints(1) show ?thesis by (auto simp: gate_inv_def gate_int_set last_rejection_snoc)
  next
    case False
    with bad cu show ?thesis by (auto simp: gate_inv_def last_rejection_snoc)
  qed
  assume pass: "pd_status d = ''PASS''"
  with bad have "conditions_held d" by blast
  with ok since pass have "cu \<le> now" "\<exists>t \<in> fst ` set (streak (hist @ [(now, d)])). hold_ms c \<le> now - t" by blast+
  with cu show "(\<exists>t \<in> fst ` set (streak (hist @ [(now, d)])). hold_ms c \<le> now - t)
      \<and> (\<forall>t. last_rejection hist = Some t \<longrightarrow> cooldown_ms c \<le> now - t)" by auto
qed

lemma gate_frame:
  "get_pair_gate_state (market_step st e) sy = get_pair_gate_state st sy"
  "get_pair_gate_state (set_pair_filter_snapshot k s1 (set_pair_gate_state k g st)) sy
     = (if sy = k then g else get_pair_gate_state st sy)"
  by (cases e) (simp_all add: get_pair_gate_state_def set_orderbook_def record_public_trade_def Let_def
      get_or_empty_def set_pair_filter_snapshot_def set_pair_gate_state_def)

lemma history_snoc: "history k (trail @ [(now, d)]) = (if pd_symbol d = k then history k trail @ [(now, d)] else history k trail)"
  by (simp add: history_def)

definition gates_inv :: "admission_config \<Rightarrow> trading_state \<times> (int \<times> pair_decision) list \<Rightarrow> bool" where
  "gates_inv c s \<longleftrightarrow> (\<forall>sy. gate_inv c (history sy (snd s)) (get_pair_gate_state (fst s) sy))"

interpretation admission: guarded_run "admission_step c" "\<lambda>_. True" "gates_inv c" for c
proof unfold_locales
  fix s :: "trading_state \<times> (int \<times> pair_decision) list" and e
  assume inv: "gates_inv c s"
  obtain st trail where s: "s = (st, trail)" by fastforce
  show "gates_inv c (admission_step c s e)"
  proof (cases e)
    case (Market x)
    with inv s show ?thesis by (simp add: gates_inv_def gate_frame)
  next
    case (Evaluate sy now autocalib)
    obtain st' r where ev: "evaluate_pair_admission c autocalib sy now st = (st', r)" by fastforce
    show ?thesis
    proof (cases r)
      case (Inl x)
      with ev evaluate_failed [of c autocalib sy now st st' x] inv show ?thesis by (simp add: Evaluate s)
    next
      case (Inr d)
      from evaluated [OF ev [unfolded Inr]] obtain ready cu ps g
        where ints: "gate_int (get_pair_gate_state st sy) ''cooldown_until_ms'' = Inr cu"
            "gate_int (get_pair_gate_state st sy) ''pass_since_ms'' = Inr ps"
          and "step": "gate_step c (measure_market c ready autocalib st sy now) now cu ps (get_pair_gate_state st sy)
            = (g, pd_status d, pd_reason d)"
          and st': "pd_symbol d = sy" "st' = set_pair_filter_snapshot sy (pd_metrics d) (set_pair_gate_state sy g st)"
        by metis
      from inv s have "gate_inv c (history sy trail) (get_pair_gate_state st sy)" by (simp add: gates_inv_def)
      from gate_inv_step(1) [OF this ints "step"] inv show ?thesis
        by (simp add: Evaluate s ev Inr gates_inv_def history_snoc st' gate_frame)
    qed
  qed
qed

section \<open>Properties\<close>

text \<open>
  The simulated order price. For a positive notional the simulation fails exactly when the levels with
  a positive price and quantity are worth less than the notional, on both sides of the book alike; the
  price it returns lies between the lowest and the highest price of those levels.
\<close>

theorem simulated_order_price:
  assumes "0 < n"
  shows "(simulate_vwap_buy ls n = None \<longleftrightarrow> fillable_quote ls < n)
    \<and> simulate_vwap_sell ls n = simulate_vwap_buy ls n
    \<and> (\<forall>v lo hi. simulate_vwap_buy ls n = Some v \<and> 0 < lo \<and> priced_between lo hi ls \<longrightarrow> lo \<le> v \<and> v \<le> hi)"
proof (intro conjI)
  show "simulate_vwap_buy ls n = None \<longleftrightarrow> fillable_quote ls < n" by (rule simulate_vwap_facts(1) [OF assms])
  show "simulate_vwap_sell ls n = simulate_vwap_buy ls n" by (rule simulate_vwap_sides)
  show "\<forall>v lo hi. simulate_vwap_buy ls n = Some v \<and> 0 < lo \<and> priced_between lo hi ls \<longrightarrow> lo \<le> v \<and> v \<le> hi"
    using simulate_vwap_facts(2) [OF assms] by blast
qed

theorem simulated_order_price_witness:
  "simulate_vwap_buy [(100, 1), (0, 9), (110, 2)] 210 = Some 105 \<and> (100::real) \<le> 105 \<and> (105::real) \<le> 110
   \<and> simulate_vwap_sell [(100, 1)] 101 = None"
proof -
  have "simulate_vwap_buy [(100, 1), (0, 9), (110, 2)] 210 = Some 105"
    by (simp add: simulate_vwap_buy_def Let_def min_def)
  moreover have "priced_between 100 110 [(100, 1), (0, 9), (110, 2)]" by (simp add: priced_between_def)
  moreover have "simulate_vwap_sell [(100, 1)] 101 = None"
    using simulated_order_price [of 101 "[(100, 1)]"] by simp
  ultimately show ?thesis
    using simulated_order_price [of 210 "[(100, 1), (0, 9), (110, 2)]"] by simp
qed

text \<open>
  An admitted pair can be traded at the promised cost. When the conditions of an evaluation
  held, the depth multiplier is at least one, the depth band is below 100 percent and the notional
  is positive, then the book is a fresh snapshot with both sides, the notional can be bought
  and sold from it, and the median spread pays for both fees, both slippages of those simulated
  orders, the safety buffer and the target edge.
\<close>

theorem admitted_order_is_fillable:
  assumes ev: "evaluate_pair_admission c autocalib sy now st = (st', Inr d)" and held: "conditions_held d"
    and n: "0 < ac_order_notional_quote c" and mult: "1 \<le> ac_min_depth_multiplier c"
    and band: "ac_depth_band_bps c < 10000"
  defines "fee \<equiv> max (if ac_maker_only_entry c then ac_maker_rate c else ac_taker_rate c) 0 * 10000"
    and "spreads \<equiv> map snd (filter (\<lambda>p. recent now (ac_spread_window_sec c) (fst p)) (get_spread_bps_series st sy))"
  shows "\<exists>ob bids asks v u. get_orderbook st sy = Some ob \<and> orderbook_levels st sy = Some (bids, asks)
    \<and> is_book_snapshot_ready st sy
    \<and> age_ms now (last_book_update_ms st sy) \<le> ac_max_book_silence_ms c
    \<and> age_ms now (last_trade_update_ms st sy) \<le> ac_max_trade_silence_ms c
    \<and> simulate_vwap_buy asks (ac_order_notional_quote c) = Some v
    \<and> simulate_vwap_sell bids (ac_order_notional_quote c) = Some u
    \<and> (0 < best_bid ob \<and> 0 < best_ask ob \<longrightarrow>
        2 * fee + max ((v - best_ask ob) / best_ask ob * 10000) 0 + max ((best_bid ob - u) / best_bid ob * 10000) 0
          + ac_safety_buffer_bps c + ac_target_edge_bps c \<le> (if spreads = [] then 0 else median spreads))"
proof -
  from evaluated [OF ev] obtain ready cu ps g
    where "step": "gate_step c (measure_market c ready autocalib st sy now) now cu ps (get_pair_gate_state st sy)
       = (g, pd_status d, pd_reason d)" by metis
  let ?m = "measure_market c ready autocalib st sy now"
  from gate_step_reason(1) [OF "step"] held have fresh: "\<not> am_stale_data ?m" and none: "failed_conditions c ?m = []"
    by (simp_all add: conditions_held_def)
  from fresh_measures [OF fresh] obtain ob bids asks
    where ob: "get_orderbook st sy = Some ob" and levels: "orderbook_levels st sy = Some (bids, asks)" by blast
  note m = measured [OF ob levels, where c = c and ready = ready and autocalib = autocalib and now = now]
  have "1 * ac_order_notional_quote c \<le> ac_min_depth_multiplier c * ac_order_notional_quote c"
    using mult n by (intro mult_right_mono) simp_all
  then have floor: "ac_order_notional_quote c \<le> depth_floor c" by (simp add: depth_floor_def mult.commute)
  note depth = no_failed_conditions(1,2) [OF none]
  have "\<not> fillable_quote asks < ac_order_notional_quote c" "\<not> fillable_quote bids < ac_order_notional_quote c"
    using m(2) band floor depth by linarith+
  then obtain v u where v: "simulate_vwap_buy asks (ac_order_notional_quote c) = Some v"
    and u: "simulate_vwap_sell bids (ac_order_notional_quote c) = Some u"
    using simulate_vwap_facts(1) [OF n] by (metis not_None_eq simulate_vwap_sides)
  from floor depth n m(7) have sides: "bids \<noteq> []" "asks \<noteq> []" by linarith+
  have "2 * fee + max ((v - best_ask ob) / best_ask ob * 10000) 0 + max ((best_bid ob - u) / best_bid ob * 10000) 0
      + ac_safety_buffer_bps c + ac_target_edge_bps c \<le> (if spreads = [] then 0 else median spreads)"
    if "0 < best_bid ob \<and> 0 < best_ask ob"
  proof -
    have "min_required_spread c ?m \<le> (if spreads = [] then 0 else median spreads)"
      using no_failed_conditions(4) [OF none] by (simp only: median_spread_def m(6) spreads_def)
    moreover have "2 * fee \<le> am_fee_entry ?m + am_fee_exit ?m" using m(5) unfolding fee_def by linarith
    moreover have "am_slippage_buy ?m = (v - best_ask ob) / best_ask ob * 10000"
      "am_slippage_sell ?m = (best_bid ob - u) / best_bid ob * 10000"
      using m(3) [OF sides(2) _ v] m(4) [OF sides(1) _ u] that by blast+
    ultimately show ?thesis unfolding min_required_spread_def by linarith
  qed
  with ob levels v u fresh m(1) show ?thesis by (auto simp: not_less)
qed

text \<open>A market with two trades and a wide, deep book, and settings it meets.\<close>

definition sample_admission :: admission_config where
  "sample_admission =
     \<lparr>ac_maker_rate = 0, ac_taker_rate = 0, ac_min_fills_for_autocalibration = 20,
      ac_max_book_silence_ms = 5000, ac_max_trade_silence_ms = 12000, ac_spread_window_sec = 60,
      ac_trade_window_sec = 300, ac_vol_window_sec = 60, ac_spike_window_sec = 3,
      ac_spike_threshold_bps = 12, ac_spike_min_trades_per_min = 8, ac_depth_band_bps = 200,
      ac_max_total_slippage_bps = 4, ac_order_notional_quote = 50, ac_bootstrap_fee_entry_bps = 2,
      ac_bootstrap_fee_exit_bps = 2, ac_maker_only_entry = True, ac_safety_buffer_bps = 1 / 2,
      ac_target_edge_bps = 1, ac_min_depth_multiplier = 8, ac_min_trades_per_min = 0,
      ac_max_p95_trade_gap_ms = 12000, ac_max_max_gap_ms = 30000, ac_min_spread_bps = 0,
      ac_max_vol_to_spread_ratio = 1, ac_min_hold_seconds = 1, ac_cooldown_seconds = 60\<rparr>"

definition sample_trade :: "int \<Rightarrow> public_trade_event" where
  "sample_trade ts = \<lparr>tr_symbol = ''A'', tr_trade_id = [], tr_seq = 0, tr_ts_ms = ts, tr_taker_side = ''Buy'',
     tr_price = 100, tr_qty = 1\<rparr>"

definition sample_updates :: "admission_event list" where
  "sample_updates =
     [Market (BookEvent 1000 ''A'' (sample_book ''A'' 99 101) (Some [(99, 10)]) (Some [(101, 10)]) True (Some 1)),
      Market (TradeEvent (sample_trade 1000)), Market (TradeEvent (sample_trade 2000))]"

definition sample_state :: trading_state where
  "sample_state = fst (run (admission_step sample_admission) (initial_trading_state, []) sample_updates)"

lemma sample_state_reads:
  "get_orderbook sample_state ''A'' = Some (sample_book ''A'' 99 101)"
  "orderbook_levels sample_state ''A'' = Some ([(99, 10)], [(101, 10)])"
  "is_book_snapshot_ready sample_state ''A''"
  "last_book_update_ms sample_state ''A'' = Some 1000"
  "last_trade_update_ms sample_state ''A'' = Some 2000"
  "get_spread_bps_series sample_state ''A'' = [(1000, 200)]"
  "get_mid_series sample_state ''A'' = [(1000, 100)]"
  "get_public_trades sample_state ''A'' = [sample_trade 1000, sample_trade 2000]"
  "get_pair_gate_state sample_state ''A'' = []"
  by (simp_all add: sample_state_def sample_updates_def set_orderbook_def record_public_trade_def Let_def
      sample_book_def sample_trade_def initial_trading_state_def get_orderbook_def is_book_snapshot_ready_def
      get_spread_bps_series_def get_mid_series_def get_public_trades_def get_pair_gate_state_def push_series_def
      prune_series_def prune_trades_def cap_length_def get_or_empty_def max_age_ms_def)

definition sample_measures :: "int \<Rightarrow> measures" where
  "sample_measures now = \<lparr>am_stale_data = False, am_book_age_ms = now - 1000, am_trade_age_ms = now - 2000,
     am_spreads = [200], am_trades = [sample_trade 1000, sample_trade 2000], am_best_bid = 99, am_best_ask = 101,
     am_mid = 100, am_depth_bid = 990, am_depth_ask = 1010, am_max_slippage = 4, am_slippage_buy = 0,
     am_slippage_sell = 0, am_fee_entry = 2, am_fee_exit = 2, am_mids = [(1000, 100)]\<rparr>"

lemma sample_measured:
  assumes "now \<in> {2000, 3000}"
  shows "measure_market sample_admission False [] sample_state ''A'' now = sample_measures now"
  using assms
  by (auto simp: measure_market_def sample_state_reads sample_measures_def sample_admission_def Let_def age_ms_def
      recent_def sample_trade_def sample_book_def depth_near_mid_quote_def max_total_slippage_def bootstrap_fees_def
      slippage_buy_bps_def slippage_sell_bps_def simulate_vwap_buy_def simulate_vwap_sell_def)

lemma sample_conditions:
  "failed_conditions sample_admission (sample_measures now) = []" "\<not> am_stale_data (sample_measures now)"
  by (simp_all add: failed_conditions_def sample_measures_def sample_admission_def trades_per_min_def gap_within_def
      p95_trade_gap_def max_trade_gap_def or_infinite_def trade_gaps_ms_def sample_trade_def percentile_def
      depth_floor_def total_slippage_def live_spread_def median_spread_def median_def min_required_spread_def
      vol_1s_def bps_changes_from_mid_series_def second_mids_def Let_def)

lemma measure_frame:
  "measure_market c ready autocalib (set_pair_filter_snapshot k s1 (set_pair_gate_state k g st)) sy now
     = measure_market c ready autocalib st sy now"
proof -
  let ?s = "set_pair_filter_snapshot k s1 (set_pair_gate_state k g st)"
  have "get_orderbook ?s sy = get_orderbook st sy" "orderbook_levels ?s sy = orderbook_levels st sy"
    "is_book_snapshot_ready ?s sy = is_book_snapshot_ready st sy"
    "last_book_update_ms ?s sy = last_book_update_ms st sy" "last_trade_update_ms ?s sy = last_trade_update_ms st sy"
    "get_spread_bps_series ?s sy = get_spread_bps_series st sy" "get_mid_series ?s sy = get_mid_series st sy"
    "get_public_trades ?s sy = get_public_trades st sy"
    by (simp_all add: set_pair_filter_snapshot_def set_pair_gate_state_def get_orderbook_def is_book_snapshot_ready_def
        get_spread_bps_series_def get_mid_series_def get_public_trades_def)
  then show ?thesis by (simp only: measure_market_def)
qed

lemma sample_pass_hold:
  "\<exists>st' d. evaluate_pair_admission sample_admission [] ''A'' 2000 sample_state = (st', Inr d)
     \<and> pd_reason d = ''PASS_HOLD'' \<and> pd_status d = ''WATCH'' \<and> pd_symbol d = ''A''
     \<and> st' = set_pair_filter_snapshot ''A'' (pd_metrics d) (set_pair_gate_state ''A'' [(''pass_since_ms'', PyInt 2000)] sample_state)"
proof -
  have ready: "calibration_ready sample_admission [] = Inr False"
    by (simp add: calibration_ready_def sample_admission_def)
  have g: "gate_step sample_admission (sample_measures 2000) 2000 0 0 [] = ([(''pass_since_ms'', PyInt 2000)], ''WATCH'', ''PASS_HOLD'')"
    using sample_conditions [of 2000] by (simp add: gate_step_def Let_def) (simp add: sample_admission_def)
  show ?thesis
    by (simp add: evaluate_pair_admission_def ready sample_measured sample_state_reads gate_int_def g Let_def)
qed

theorem admitted_order_is_fillable_witness:
  "\<exists>st' d. evaluate_pair_admission sample_admission [] ''A'' 2000 sample_state = (st', Inr d)
     \<and> is_book_snapshot_ready sample_state ''A'' \<and> age_ms 2000 (last_book_update_ms sample_state ''A'') \<le> 5000"
proof -
  obtain st' d where ev: "evaluate_pair_admission sample_admission [] ''A'' 2000 sample_state = (st', Inr d)"
    and "pd_reason d = ''PASS_HOLD''" using sample_pass_hold by blast
  then have "conditions_held d" by (simp add: conditions_held_def)
  from admitted_order_is_fillable [OF ev this] ev show ?thesis by (simp add: sample_admission_def) blast
qed

text \<open>
  A pair passes only after holding and cooling down. After any sequence of market updates and evaluations
  from the initial state, an evaluation that answers PASS for a symbol belongs to an unbroken run of evaluations
  of that symbol whose conditions all held, and this run holds an evaluation at least the hold time old; and if
  the symbol was ever rejected, the cooldown has passed since its last rejection.
\<close>

theorem pass_needs_hold_and_cooldown:
  assumes "run (admission_step c) (initial_trading_state, []) es = (st, trail)"
    and ev: "evaluate_pair_admission c autocalib sy now st = (st', Inr d)" and pass: "pd_status d = ''PASS''"
  shows "(\<exists>t \<in> fst ` set (streak (history sy trail @ [(now, d)])). hold_ms c \<le> now - t)
    \<and> (\<forall>t. last_rejection (history sy trail) = Some t \<longrightarrow> cooldown_ms c \<le> now - t)"
proof -
  have "gates_inv c (initial_trading_state, [])"
    by (simp add: gates_inv_def gate_inv_def gate_int_def get_pair_gate_state_def get_or_empty_def
        initial_trading_state_def history_def last_rejection_def streak_def)
  from admission.inv_run [OF this, of es] assms(1) have "gates_inv c (st, trail)" by (simp add: list_all_iff)
  then have inv: "gate_inv c (history sy trail) (get_pair_gate_state st sy)" by (simp add: gates_inv_def)
  from evaluated [OF ev] obtain m cu ps g
    where "gate_int (get_pair_gate_state st sy) ''cooldown_until_ms'' = Inr cu"
      "gate_int (get_pair_gate_state st sy) ''pass_since_ms'' = Inr ps"
      "gate_step c m now cu ps (get_pair_gate_state st sy) = (g, pd_status d, pd_reason d)" by metis
  from gate_inv_step(2) [OF inv this pass] show ?thesis .
qed

theorem pass_needs_hold_and_cooldown_witness:
  "\<exists>st trail st' d. run (admission_step sample_admission) (initial_trading_state, [])
       (sample_updates @ [Evaluate ''A'' 2000 []]) = (st, trail)
     \<and> evaluate_pair_admission sample_admission [] ''A'' 3000 st = (st', Inr d) \<and> pd_status d = ''PASS''
     \<and> (\<exists>t \<in> fst ` set (streak (history ''A'' trail @ [(3000, d)])). 1000 \<le> 3000 - t)"
proof -
  obtain st d0 where ev0: "evaluate_pair_admission sample_admission [] ''A'' 2000 sample_state = (st, Inr d0)"
    and st: "st = set_pair_filter_snapshot ''A'' (pd_metrics d0) (set_pair_gate_state ''A'' [(''pass_since_ms'', PyInt 2000)] sample_state)"
    using sample_pass_hold by blast
  have "snd (run (admission_step sample_admission) (initial_trading_state, []) sample_updates) = []"
    by (simp add: sample_updates_def)
  then have "run (admission_step sample_admission) (initial_trading_state, []) sample_updates = (sample_state, [])"
    by (simp add: sample_state_def prod_eq_iff)
  then have r: "run (admission_step sample_admission) (initial_trading_state, [])
      (sample_updates @ [Evaluate ''A'' 2000 []]) = (st, [(2000, d0)])"
    by (simp add: run_append ev0)
  have frame: "measure_market sample_admission False [] st ''A'' 3000 = sample_measures 3000"
    using sample_measured [of 3000] by (simp only: st measure_frame) simp
  have ready: "calibration_ready sample_admission [] = Inr False"
    by (simp add: calibration_ready_def sample_admission_def)
  have g: "gate_step sample_admission (sample_measures 3000) 3000 0 2000 [(''pass_since_ms'', PyInt 2000)]
      = ([(''pass_since_ms'', PyInt 2000)], ''PASS'', ''OK'')"
    using sample_conditions [of 3000] by (simp add: gate_step_def Let_def) (simp add: sample_admission_def)
  have gate: "get_pair_gate_state st ''A'' = [(''pass_since_ms'', PyInt 2000)]" by (simp add: st gate_frame)
  obtain st' d where ev: "evaluate_pair_admission sample_admission [] ''A'' 3000 st = (st', Inr d)"
    and pass: "pd_status d = ''PASS''"
    by (simp add: evaluate_pair_admission_def ready frame gate gate_int_def g Let_def)
  have "hold_ms sample_admission = 1000" by (simp add: hold_ms_def sample_admission_def)
  with pass_needs_hold_and_cooldown [OF r ev pass] r ev pass show ?thesis by auto
qed

end
