(* ===== verification/Spike_Strategies.thy ===== *)
theory Spike_Strategies
  imports Strategy_Base
begin

text \<open>
  The two spike strategies, \<open>src/botik/strategy/spike_reversal.py\<close> (orders against, or with, a spike
  the admission filter has measured) and \<open>src/botik/strategy/futures_spike_reversal.py\<close> (its own spike and
  imbalance detection). Both keep the time of the last trigger of every symbol; \<open>now\<close> is the
  monotonic clock in seconds, \<open>uid\<close> the random part of an order link and the model of the futures strategy a
  function of the feature vector.
\<close>

section \<open>Spike reversal\<close>

datatype reversal_outcome =
    RevNoOrderbook | RevInvalidQuote | RevBelowThreshold | RevCooldown | RevMakerGuard | Triggered order_intent

definition spike_direction_of :: "trading_state \<Rightarrow> string \<Rightarrow> int" where
  "spike_direction_of st symbol = safe_int (dict_get (snapshot_of st symbol) ''spike_direction'')"

definition spike_strength_of :: "trading_state \<Rightarrow> string \<Rightarrow> real" where
  "spike_strength_of st symbol = safe_float (dict_get (snapshot_of st symbol) ''spike_strength_bps'')"

text \<open>The symbols with the strongest spikes; sorting is stable, with the strongest first.\<close>

definition ordered_symbols :: "strategy_config \<Rightarrow> trading_state \<Rightarrow> string list" where
  "ordered_symbols c st =
     take (nat (max (sc_spike_reversal_max_symbols c) 1))
       (sort_key (\<lambda>sy. - \<bar>spike_strength_of st sy\<bar>) (candidate_symbols c st))"

definition min_strength :: "strategy_config \<Rightarrow> real" where
  "min_strength c = max (max (sc_spike_reversal_min_strength_bps c) (sc_spike_threshold_bps c)) 0"

definition reversal_side :: "strategy_config \<Rightarrow> int \<Rightarrow> string" where
  "reversal_side c direction =
     (if sc_spike_reversal_reverse c then (if direction > 0 then ''Sell'' else ''Buy'')
      else (if direction > 0 then ''Buy'' else ''Sell''))"

definition reversal_tick :: "strategy_config \<Rightarrow> trading_state \<Rightarrow> string \<Rightarrow> real" where
  "reversal_tick c st symbol =
     max (case get_tick_size st symbol of None \<Rightarrow> max (sc_default_tick_size c) (1 / 10 ^ 12) | Some t \<Rightarrow> t) (1 / 10 ^ 12)"

definition reversal_target :: "bool \<Rightarrow> string \<Rightarrow> real \<Rightarrow> orderbook_aggregate \<Rightarrow> real" where
  "reversal_target maker_only side shift ob =
     (if maker_only then
        if side = ''Buy'' then
          (if best_bid ob + shift \<ge> best_ask ob then best_bid ob else best_bid ob + shift)
        else (if best_ask ob - shift \<le> best_bid ob then best_ask ob else best_ask ob - shift)
      else if side = ''Buy'' then best_ask ob + shift else best_bid ob - shift)"

definition reversal_price :: "strategy_config \<Rightarrow> trading_state \<Rightarrow> string \<Rightarrow> orderbook_aggregate \<Rightarrow> string \<Rightarrow> real" where
  "reversal_price c st symbol ob side =
     (let tick = reversal_tick c st symbol;
          shift = of_int (max (sc_spike_reversal_entry_offset_ticks c) 0) * tick;
          target = reversal_target (\<not> sc_spike_reversal_taker c) side shift ob in
      of_int (round_half_even (target / tick)) * tick)"

definition reversal_intent ::
    "strategy_config \<Rightarrow> trading_state \<Rightarrow> string \<Rightarrow> string \<Rightarrow> string \<Rightarrow> real \<Rightarrow> order_intent" where
  "reversal_intent c st uid symbol side price =
     (let pid = active_profile_id c st symbol; profile = find_profile c pid;
          target_notional = max (sc_order_notional_quote c) 1 * max (sc_spike_reversal_qty_scale c) (1 / 100);
          qty = max (target_notional / price) (1 / 10 ^ 12) in
      \<lparr>oi_symbol = symbol, oi_side = side, oi_price = price, oi_qty = qty,
       oi_order_link_id = ''spkrev-'' @ symbol @ ''-'' @ uid, oi_profile_id = pid,
       oi_model_version = Some ''spike-reversal-v1'',
       oi_entry_tick_offset = Some (max (sc_spike_reversal_entry_offset_ticks c) 0),
       oi_order_qty_base = Some qty, oi_target_profit = Some (sc_target_profit c),
       oi_safety_buffer = Some (sc_safety_buffer c), oi_min_top_book_qty = Some (sc_min_top_book_qty c),
       oi_stop_loss_pct = (case profile of None \<Rightarrow> Some (sc_stop_loss_pct c) | Some p \<Rightarrow> ap_stop_loss_pct p),
       oi_take_profit_pct = (case profile of None \<Rightarrow> Some (sc_take_profit_pct c) | Some p \<Rightarrow> ap_take_profit_pct p),
       oi_hold_timeout_sec = (case profile of None \<Rightarrow> Some (sc_position_hold_timeout_sec c) | Some p \<Rightarrow> ap_hold_timeout_sec p),
       oi_maker_only = Some (\<not> sc_spike_reversal_taker c)\<rparr>)"

definition reversal_symbol ::
    "strategy_config \<Rightarrow> trading_state \<Rightarrow> real \<Rightarrow> string \<Rightarrow> (string \<rightharpoonup> real) \<Rightarrow> string \<Rightarrow> reversal_outcome" where
  "reversal_symbol c st now uid stamps symbol =
     (case get_orderbook st symbol of
        None \<Rightarrow> RevNoOrderbook
      | Some ob \<Rightarrow>
          if best_bid ob \<le> 0 \<or> best_ask ob \<le> 0 \<or> best_ask ob \<le> best_bid ob then RevInvalidQuote
          else
            let direction = spike_direction_of st symbol in
            if \<bar>direction\<bar> \<noteq> 1 \<or> spike_strength_of st symbol < min_strength c then RevBelowThreshold
            else if now - or_zero (stamps symbol) < max (sc_spike_reversal_cooldown_sec c) (1 / 10) then RevCooldown
            else
              let maker_only = \<not> sc_spike_reversal_taker c; side = reversal_side c direction;
                  price = reversal_price c st symbol ob side in
              if price \<le> 0 then RevInvalidQuote
              else if maker_only \<and> (side = ''Buy'' \<and> price \<ge> best_ask ob \<or> side = ''Sell'' \<and> price \<le> best_bid ob)
              then RevMakerGuard
              else Triggered (reversal_intent c st uid symbol side price))"

record spike_reversal =
  sr_last_trigger :: "string \<rightharpoonup> real"
  sr_last_summary :: "(string, int) dict"

fun reversal_loop ::
    "strategy_config \<Rightarrow> trading_state \<Rightarrow> real \<Rightarrow> (string \<Rightarrow> string) \<Rightarrow> string list \<Rightarrow> (string \<rightharpoonup> real)
     \<Rightarrow> (string \<rightharpoonup> real) \<times> reversal_outcome list" where
  "reversal_loop c st now uid [] stamps = (stamps, [])"
| "reversal_loop c st now uid (sy # sys) stamps =
     (let out = reversal_symbol c st now (uid sy) stamps sy;
          stamps1 = (case out of Triggered i \<Rightarrow> stamps(sy \<mapsto> now) | _ \<Rightarrow> stamps);
          (stamps2, os) = reversal_loop c st now uid sys stamps1 in
      (stamps2, out # os))"

fun triggered_intents :: "reversal_outcome \<Rightarrow> order_intent list" where
  "triggered_intents (Triggered i) = [i]"
| "triggered_intents _ = []"

definition reversal_count :: "reversal_outcome \<Rightarrow> reversal_outcome list \<Rightarrow> int" where
  "reversal_count x os = int (length (filter (\<lambda>y. y = x) os))"

definition reversal_summary :: "string list \<Rightarrow> string list \<Rightarrow> reversal_outcome list \<Rightarrow> (string, int) dict" where
  "reversal_summary symbols selected os =
     (let n = int (length (concat (map triggered_intents os))) in
      [(''symbols_total'', int (length symbols)), (''symbols_selected'', int (length selected)),
       (''no_orderbook'', reversal_count RevNoOrderbook os), (''below_threshold'', reversal_count RevBelowThreshold os),
       (''cooldown_reject'', reversal_count RevCooldown os), (''invalid_quote_reject'', reversal_count RevInvalidQuote os),
       (''maker_guard_reject'', reversal_count RevMakerGuard os), (''symbols_triggered'', n), (''intents'', n)])"

definition reversal_get_intents ::
    "strategy_config \<Rightarrow> trading_state \<Rightarrow> real \<Rightarrow> (string \<Rightarrow> string) \<Rightarrow> spike_reversal
     \<Rightarrow> spike_reversal \<times> order_intent list" where
  "reversal_get_intents c st now uid m =
     (if paused st then (m\<lparr>sr_last_summary := [(''paused'', 1)]\<rparr>, [])
      else
        let selected = ordered_symbols c st;
            (stamps, os) = reversal_loop c st now uid selected (sr_last_trigger m) in
        (m\<lparr>sr_last_trigger := stamps, sr_last_summary := reversal_summary (candidate_symbols c st) selected os\<rparr>,
         concat (map triggered_intents os)))"

section \<open>Spike reversal on futures\<close>

record futures_strategy =
  fs_spike_threshold_bps :: real
  fs_imbalance_threshold :: real
  fs_cooldown_sec :: real
  fs_max_open_positions :: int
  fs_model :: "(real list \<Rightarrow> real option) option"
  fs_last_trigger :: "string \<rightharpoonup> real"
  fs_last_summary :: "(string, int) dict"

text \<open>
  The price history is derived from the median spread of the admission snapshot; any exception in
  it leaves the history empty.
\<close>

definition spike_prices :: "trading_state \<Rightarrow> string \<Rightarrow> real \<Rightarrow> nat \<Rightarrow> real list" where
  "spike_prices st symbol current_price lookback =
     (case pair_filter_snapshot st symbol of None \<Rightarrow> []
      | Some s \<Rightarrow>
          let ref = safe_float (dict_get s ''median_spread_bps'') in
          if ref = 0 \<or> current_price = 0 then []
          else case try_map (\<lambda>i. py_divide current_price (1 + ref * real i / 10000)) [0..<lookback] of
              Inl e \<Rightarrow> [] | Inr prices \<Rightarrow> prices)"

definition detect_spike :: "trading_state \<Rightarrow> string \<Rightarrow> real \<Rightarrow> real \<times> int" where
  "detect_spike st symbol current_price =
     (let prices = spike_prices st symbol current_price 5 in
      if length prices < 2 then (0, 0)
      else
        let ref_price = last prices in
        if ref_price = 0 then (0, 0)
        else
          let spike_bps = (current_price - ref_price) / ref_price * 10000 in
          (spike_bps, if spike_bps > 0 then 1 else - 1))"

text \<open>
  \<open>getattr(ob, "bids", [])\<close>: an order book of the market state has no such attributes, so the two
  lists are always the default.
\<close>

definition book_sides :: "orderbook_aggregate \<Rightarrow> levels \<times> levels" where
  "book_sides ob = ([], [])"

definition calc_imbalance :: "orderbook_aggregate \<Rightarrow> real" where
  "calc_imbalance ob =
     (let (bids, asks) = book_sides ob;
          bid_vol = sum_list (map snd (take 5 bids)); ask_vol = sum_list (map snd (take 5 asks));
          total = bid_vol + ask_vol in
      if total = 0 then 1 / 2 else bid_vol / total)"

definition build_features :: "real \<Rightarrow> int \<Rightarrow> real \<Rightarrow> real \<Rightarrow> real list" where
  "build_features spike_bps spike_direction imbalance mid_price = [spike_bps, of_int spike_direction, imbalance, mid_price]"

definition futures_intent :: "string \<Rightarrow> string \<Rightarrow> string \<Rightarrow> real \<Rightarrow> real \<Rightarrow> order_intent" where
  "futures_intent uid symbol side entry spike_bps =
     \<lparr>oi_symbol = symbol, oi_side = side, oi_price = entry, oi_qty = 0, oi_order_link_id = ''fsr-'' @ uid,
      oi_profile_id = Some ''futures_spike_reversal'', oi_model_version = None,
      oi_entry_tick_offset = Some (py_trunc \<bar>spike_bps\<bar>), oi_order_qty_base = None, oi_target_profit = None,
      oi_safety_buffer = None, oi_min_top_book_qty = None, oi_stop_loss_pct = Some (15 / 1000),
      oi_take_profit_pct = Some (25 / 1000), oi_hold_timeout_sec = Some (4 * 3600), oi_maker_only = None\<rparr>"

definition evaluate_symbol ::
    "futures_strategy \<Rightarrow> trading_state \<Rightarrow> string \<Rightarrow> string \<Rightarrow> orderbook_aggregate \<Rightarrow> order_intent option" where
  "evaluate_symbol f st uid symbol ob =
     (if best_bid ob \<le> 0 \<or> best_ask ob \<le> 0 then None
      else
        let mid_price = (best_bid ob + best_ask ob) / 2; (spike_bps, direction) = detect_spike st symbol mid_price in
        if \<bar>spike_bps\<bar> < fs_spike_threshold_bps f then None
        else
          let imbalance = calc_imbalance ob;
              signal = (if direction < 0 \<and> imbalance > fs_imbalance_threshold f then Some (''Buy'', best_ask ob)
                        else if direction > 0 \<and> imbalance < 1 - fs_imbalance_threshold f then Some (''Sell'', best_bid ob)
                        else None) in
          case signal of None \<Rightarrow> None
          | Some (side, entry) \<Rightarrow>
              (let rejected = (case fs_model f of None \<Rightarrow> False
                     | Some model \<Rightarrow> (case model (build_features spike_bps direction imbalance mid_price) of
                           None \<Rightarrow> True | Some confidence \<Rightarrow> confidence < 55 / 100)) in
               if rejected then None else Some (futures_intent uid symbol side entry spike_bps)))"

fun futures_loop ::
    "futures_strategy \<Rightarrow> trading_state \<Rightarrow> real \<Rightarrow> (string \<Rightarrow> string) \<Rightarrow> string list
     \<Rightarrow> (string \<rightharpoonup> real) \<times> order_intent list \<Rightarrow> (string \<rightharpoonup> real) \<times> order_intent list" where
  "futures_loop f st now uid [] acc = acc"
| "futures_loop f st now uid (sy # sys) (stamps, intents) =
     (if int (length intents) \<ge> fs_max_open_positions f then (stamps, intents)
      else if now - or_zero (stamps sy) < fs_cooldown_sec f then futures_loop f st now uid sys (stamps, intents)
      else case get_orderbook st sy of
          None \<Rightarrow> futures_loop f st now uid sys (stamps, intents)
        | Some ob \<Rightarrow> (case evaluate_symbol f st (uid sy) sy ob of
              None \<Rightarrow> futures_loop f st now uid sys (stamps, intents)
            | Some intent \<Rightarrow> futures_loop f st now uid sys (stamps(sy \<mapsto> now), intents @ [intent])))"

definition futures_get_intents ::
    "trading_state \<Rightarrow> real \<Rightarrow> (string \<Rightarrow> string) \<Rightarrow> futures_strategy \<Rightarrow> futures_strategy \<times> order_intent list" where
  "futures_get_intents st now uid f =
     (let symbols = get_active_symbols st in
      if paused st then (f\<lparr>fs_last_summary := [(''paused'', 1)]\<rparr>, [])
      else if symbols = [] then (f\<lparr>fs_last_summary := [(''no_symbols'', 1)]\<rparr>, [])
      else
        let (stamps, intents) = futures_loop f st now uid symbols (fs_last_trigger f, []) in
        (f\<lparr>fs_last_trigger := stamps,
           fs_last_summary := [(''evaluated'', int (length symbols)), (''intents'', int (length intents))]\<rparr>, intents))"

section \<open>What a reversal order promises\<close>

definition reversal_order :: "strategy_config \<Rightarrow> trading_state \<Rightarrow> order_intent \<Rightarrow> bool" where
  "reversal_order c st i \<longleftrightarrow> (\<exists>ob. get_orderbook st (oi_symbol i) = Some ob
     \<and> \<bar>spike_direction_of st (oi_symbol i)\<bar> = 1 \<and> min_strength c \<le> spike_strength_of st (oi_symbol i)
     \<and> oi_side i = reversal_side c (spike_direction_of st (oi_symbol i))
     \<and> 0 < oi_price i
     \<and> max (sc_order_notional_quote c) 1 * max (sc_spike_reversal_qty_scale c) (1 / 100) \<le> oi_qty i * oi_price i
     \<and> (oi_maker_only i = Some True \<longrightarrow> (if oi_side i = ''Buy'' then oi_price i < best_ask ob else best_bid ob < oi_price i)))"

lemma reversal_side_cases: "reversal_side c d = ''Buy'' \<or> reversal_side c d = ''Sell''"
  by (simp add: reversal_side_def)

lemma reversal_intent_sel [simp]:
  "oi_symbol (reversal_intent c st uid sy side price) = sy"
  "oi_side (reversal_intent c st uid sy side price) = side"
  "oi_price (reversal_intent c st uid sy side price) = price"
  "oi_maker_only (reversal_intent c st uid sy side price) = Some (\<not> sc_spike_reversal_taker c)"
  by (simp_all add: reversal_intent_def Let_def)

lemma reversal_notional:
  assumes "0 < price"
  shows "max (sc_order_notional_quote c) 1 * max (sc_spike_reversal_qty_scale c) (1 / 100)
    \<le> oi_qty (reversal_intent c st uid sy side price) * price" (is "?n \<le> _")
proof -
  have "?n / price \<le> oi_qty (reversal_intent c st uid sy side price)"
    by (simp add: reversal_intent_def Let_def)
  with assms show ?thesis by (simp add: pos_divide_le_eq)
qed

lemma reversal_symbol_triggered:
  assumes "reversal_symbol c st now uid stamps sy = Triggered i"
  shows "oi_symbol i = sy" and "reversal_order c st i"
    and "max (sc_spike_reversal_cooldown_sec c) (1 / 10) \<le> now - or_zero (stamps sy)"
proof -
  from assms obtain ob where ob: "get_orderbook st sy = Some ob"
    by (auto simp: reversal_symbol_def split: option.splits)
  let ?side = "reversal_side c (spike_direction_of st sy)" 
  let ?price = "reversal_price c st sy ob ?side"
  from assms have i: "i = reversal_intent c st uid sy ?side ?price"
    and guard: "\<bar>spike_direction_of st sy\<bar> = 1" "min_strength c \<le> spike_strength_of st sy" "0 < ?price"
      "\<not> sc_spike_reversal_taker c \<longrightarrow> (?side = ''Buy'' \<longrightarrow> ?price < best_ask ob) \<and> (?side = ''Sell'' \<longrightarrow> best_bid ob < ?price)"
    and wait: "max (sc_spike_reversal_cooldown_sec c) (1 / 10) \<le> now - or_zero (stamps sy)"
    by (auto simp: reversal_symbol_def ob Let_def not_less not_le split: if_splits)
  show "oi_symbol i = sy" by (simp add: i)
  show "max (sc_spike_reversal_cooldown_sec c) (1 / 10) \<le> now - or_zero (stamps sy)" by (rule wait)
  show "reversal_order c st i"
    using ob guard reversal_notional [OF guard(3)] reversal_side_cases [of c "spike_direction_of st sy"]
    unfolding reversal_order_def i by auto
qed

lemma reversal_loop_intents:
  "i \<in> set (concat (map triggered_intents (snd (reversal_loop c st now uid sys stamps)))) \<Longrightarrow>
     reversal_order c st i \<and> oi_symbol i \<in> set sys"
proof (induction sys arbitrary: stamps)
  case Nil
  then show ?case by simp
next
  case (Cons x sys)
  let ?out = "reversal_symbol c st now (uid x) stamps x"
  let ?stamps = "case ?out of Triggered i \<Rightarrow> stamps(x \<mapsto> now) | _ \<Rightarrow> stamps"
  from Cons.prems have "i \<in> set (triggered_intents ?out)
      \<or> i \<in> set (concat (map triggered_intents (snd (reversal_loop c st now uid sys ?stamps))))"
    by (simp add: case_prod_beta Let_def)
  then show ?case
  proof
    assume "i \<in> set (triggered_intents ?out)"
    then have "?out = Triggered i" by (cases ?out) simp_all
    from reversal_symbol_triggered [OF this] show ?thesis by simp
  next
    assume "i \<in> set (concat (map triggered_intents (snd (reversal_loop c st now uid sys ?stamps))))"
    from Cons.IH [OF this] show ?thesis by simp
  qed
qed

lemma length_reversal_loop: "length (snd (reversal_loop c st now uid sys stamps)) = length sys"
  by (induction sys arbitrary: stamps) (simp_all add: case_prod_beta Let_def)

lemma length_triggered: "length (concat (map triggered_intents os)) \<le> length os"
proof (induction os)
  case (Cons x os)
  then show ?case by (cases x) simp_all
qed simp

text \<open>The symbols a call orders, and the times they are ordered at.\<close>

fun triggered_symbols ::
    "strategy_config \<Rightarrow> trading_state \<Rightarrow> real \<Rightarrow> (string \<Rightarrow> string) \<Rightarrow> string list \<Rightarrow> (string \<rightharpoonup> real) \<Rightarrow> string list" where
  "triggered_symbols c st now uid [] stamps = []"
| "triggered_symbols c st now uid (sy # sys) stamps =
     (case reversal_symbol c st now (uid sy) stamps sy of
        Triggered i \<Rightarrow> sy # triggered_symbols c st now uid sys (stamps(sy \<mapsto> now))
      | _ \<Rightarrow> triggered_symbols c st now uid sys stamps)"

lemma triggered_symbols_eq:
  "map oi_symbol (concat (map triggered_intents (snd (reversal_loop c st now uid sys stamps))))
     = triggered_symbols c st now uid sys stamps"
  by (induction sys arbitrary: stamps)
    (auto simp: case_prod_beta Let_def reversal_symbol_triggered(1) split: reversal_outcome.split)

lemma reversal_loop_stamps:
  "fst (reversal_loop c st now uid sys stamps) sy =
     (if sy \<in> set (triggered_symbols c st now uid sys stamps) then Some now else stamps sy)"
  by (induction sys arbitrary: stamps) (simp_all add: case_prod_beta Let_def split: reversal_outcome.split)

lemma triggered_waits:
  "sy \<in> set (triggered_symbols c st now uid sys stamps) \<Longrightarrow>
     max (sc_spike_reversal_cooldown_sec c) (1 / 10) \<le> now - or_zero (stamps sy)"
proof (induction sys arbitrary: stamps)
  case Nil
  then show ?case by simp
next
  case (Cons x sys)
  show ?case
  proof (cases "\<exists>i. reversal_symbol c st now (uid x) stamps x = Triggered i")
    case True
    then obtain i where i: "reversal_symbol c st now (uid x) stamps x = Triggered i" by blast
    show ?thesis
    proof (cases "sy = x")
      case True
      with reversal_symbol_triggered(3) [OF i] show ?thesis by simp
    next
      case False
      then have "(stamps(x \<mapsto> now)) sy = stamps sy" by simp
      note IH = Cons.IH [of "stamps(x \<mapsto> now)", unfolded this]
      from False Cons.prems have "sy \<in> set (triggered_symbols c st now uid sys (stamps(x \<mapsto> now)))"
        by (simp add: i del: fun_upd_apply)
      from IH [OF this] show ?thesis .
    qed
  next
    case False
    with Cons.prems have "sy \<in> set (triggered_symbols c st now uid sys stamps)"
      by (cases "reversal_symbol c st now (uid x) stamps x") simp_all
    from Cons.IH [OF this] show ?thesis .
  qed
qed

type_synonym reversal_call = "trading_state \<times> real \<times> (string \<Rightarrow> string)"

definition reversal_acted :: "strategy_config \<Rightarrow> spike_reversal \<Rightarrow> reversal_call \<Rightarrow> string list" where
  "reversal_acted c m e = (let (st, now, uid) = e in map oi_symbol (snd (reversal_get_intents c st now uid m)))"

definition reversal_step :: "strategy_config \<Rightarrow> spike_reversal \<Rightarrow> reversal_call \<Rightarrow> spike_reversal" where
  "reversal_step c m e = (let (st, now, uid) = e in fst (reversal_get_intents c st now uid m))"

lemma reversal_acted_eq:
  "reversal_acted c m (st, now, uid) =
     (if paused st then [] else triggered_symbols c st now uid (ordered_symbols c st) (sr_last_trigger m))"
  by (simp add: reversal_acted_def reversal_get_intents_def Let_def case_prod_beta triggered_symbols_eq)

interpretation reversal_throttle: throttled sr_last_trigger "reversal_acted c" "reversal_step c" "\<lambda>e. fst (snd e)"
    "max (sc_spike_reversal_cooldown_sec c) (1 / 10)" for c
proof unfold_locales
  fix sy m and e :: reversal_call
  obtain st now uid where e: "e = (st, now, uid)" by (metis prod_cases3)
  have stamps: "sr_last_trigger (reversal_step c m e) sy =
      (if sy \<in> set (reversal_acted c m e) then Some now else sr_last_trigger m sy)"
    using reversal_loop_stamps [of c st now uid "ordered_symbols c st" "sr_last_trigger m" sy]
    by (simp add: e reversal_step_def reversal_get_intents_def Let_def case_prod_beta reversal_acted_eq)
  show "sy \<in> set (reversal_acted c m e) \<Longrightarrow> sr_last_trigger (reversal_step c m e) sy = Some (fst (snd e))"
    and "sy \<notin> set (reversal_acted c m e) \<Longrightarrow> sr_last_trigger (reversal_step c m e) sy = sr_last_trigger m sy"
    using stamps by (simp_all add: e)
  show "max (sc_spike_reversal_cooldown_sec c) (1 / 10) \<le> fst (snd e) - t"
    if "sy \<in> set (reversal_acted c m e)" "sr_last_trigger m sy = Some t" for t
    using that triggered_waits [of sy c st now uid "ordered_symbols c st" "sr_last_trigger m"]
    by (simp add: e reversal_acted_eq split: if_splits)
qed

section \<open>The futures detection\<close>

text \<open>The spike is four times the median spread itself, and never a move of the price.\<close>

lemma detect_spike_eq:
  assumes "pair_filter_snapshot st sy = Some s" and "0 < safe_float (dict_get s ''median_spread_bps'')" and "0 < p"
  shows "detect_spike st sy p = (4 * safe_float (dict_get s ''median_spread_bps''), 1)"
proof -
  let ?r = "safe_float (dict_get s ''median_spread_bps'')"
  have pos: "0 < 1 + ?r * real i / 10000" for i :: nat
    using assms(2) by (simp add: add_pos_nonneg)
  have "try_map (\<lambda>i. py_divide p (1 + ?r * real i / 10000)) is
      = Inr (map (\<lambda>i. p / (1 + ?r * real i / 10000)) is)" for "is"
    using pos by (induction "is") (simp_all add: py_divide_def less_imp_neq [symmetric])
  then have prices: "spike_prices st sy p 5 = map (\<lambda>i. p / (1 + ?r * real i / 10000)) [0..<5]"
    using assms by (simp add: spike_prices_def Let_def)
  have l: "last (map (\<lambda>i. p / (1 + ?r * real i / 10000)) [0..<5]) = p / (1 + ?r * 4 / 10000)"
    by (simp add: upt_rec)
  have nz: "1 + ?r * 4 / 10000 \<noteq> 0" using pos [of 4] by simp
  have "p / (1 + ?r * 4 / 10000) \<noteq> 0" using assms(3) nz by simp
  moreover have "(p - p / (1 + ?r * 4 / 10000)) / (p / (1 + ?r * 4 / 10000)) * 10000 = 4 * ?r"
  proof -
    have "(p - p / d) / (p / d) = d - 1" if "d \<noteq> 0" for d using assms(3) that by (simp add: field_simps)
    note eq = this [OF nz]
    show ?thesis unfolding eq by simp
  qed
  ultimately show ?thesis
    using assms(2) by (simp add: detect_spike_def prices l Let_def)
qed

lemma evaluate_symbol_None: "1 / 2 \<le> fs_imbalance_threshold f \<Longrightarrow> evaluate_symbol f st uid sy ob = None"
  by (auto simp: evaluate_symbol_def calc_imbalance_def book_sides_def Let_def split: prod.split option.split)

lemma futures_loop_silent:
  "1 / 2 \<le> fs_imbalance_threshold f \<Longrightarrow> futures_loop f st now uid sys (stamps, intents) = (stamps, intents)"
  by (induction sys) (simp_all add: evaluate_symbol_None split: option.split)

section \<open>Properties\<close>

text \<open>
  Spike reversal orders are justified and throttled. Every order of a call is for a selected
  symbol whose admission snapshot shows a directed spike of at least the minimal strength, on the
  configured side of it, with the configured notional, and rests on the book when it is a maker order;
  a call makes at most the configured number of orders; and over any sequence of calls the orders
  of a symbol are at least the cooldown apart.
\<close>

theorem reversal_orders:
  "(\<forall>i \<in> set (snd (reversal_get_intents c st now uid m)). reversal_order c st i \<and> oi_symbol i \<in> set (ordered_symbols c st))
   \<and> length (snd (reversal_get_intents c st now uid m)) \<le> nat (max (sc_spike_reversal_max_symbols c) 1)
   \<and> successively (\<lambda>a b. max (sc_spike_reversal_cooldown_sec c) (1 / 10) \<le> b - a)
       (act_times (reversal_acted c) (reversal_step c) (\<lambda>e. fst (snd e)) sy m calls)"
proof (intro conjI ballI)
  let ?os = "snd (reversal_loop c st now uid (ordered_symbols c st) (sr_last_trigger m))"
  have intents: "snd (reversal_get_intents c st now uid m) = (if paused st then [] else concat (map triggered_intents ?os))"
    by (simp add: reversal_get_intents_def Let_def case_prod_beta)
  show "reversal_order c st i" "oi_symbol i \<in> set (ordered_symbols c st)"
    if "i \<in> set (snd (reversal_get_intents c st now uid m))" for i
    using that reversal_loop_intents [of i c st now uid "ordered_symbols c st" "sr_last_trigger m"]
    by (auto simp: intents split: if_splits)
  have "length (ordered_symbols c st) \<le> nat (max (sc_spike_reversal_max_symbols c) 1)"
    by (simp add: ordered_symbols_def)
  with length_triggered [of ?os] show "length (snd (reversal_get_intents c st now uid m)) \<le> nat (max (sc_spike_reversal_max_symbols c) 1)"
    by (simp add: intents length_reversal_loop)
  show "successively (\<lambda>a b. max (sc_spike_reversal_cooldown_sec c) (1 / 10) \<le> b - a)
     (act_times (reversal_acted c) (reversal_step c) (\<lambda>e. fst (snd e)) sy m calls)"
    by (rule reversal_throttle.acts_interval)
qed

theorem reversal_orders_witness:
  "\<exists>i. snd (reversal_get_intents ((sample_config [''A''])\<lparr>sc_spike_reversal_taker := False\<rparr>)
      (sample_market ''A'' 100 104
        \<lparr>pair_filter_snapshot := [''A'' \<mapsto> [(''spike_direction'', PyInt 1), (''spike_strength_bps'', PyFloat 20)]]\<rparr>)
      5 (\<lambda>s. []) \<lparr>sr_last_trigger = Map.empty, sr_last_summary = []\<rparr>) = [i]
    \<and> oi_side i = ''Sell'' \<and> oi_price i = 103 \<and> 40 \<le> oi_qty i * oi_price i"
proof -
  let ?c = "(sample_config [''A''])\<lparr>sc_spike_reversal_taker := False\<rparr>"
  let ?snap = "[(''spike_direction'', PyInt 1), (''spike_strength_bps'', PyFloat 20)]"
  let ?st = "sample_market ''A'' 100 104\<lparr>pair_filter_snapshot := [''A'' \<mapsto> ?snap]\<rparr>"
  let ?m = "\<lparr>sr_last_trigger = Map.empty, sr_last_summary = []\<rparr>"
  have ob: "get_orderbook ?st ''A'' = Some (sample_book ''A'' 100 104)"
    by (simp add: sample_market_def get_orderbook_def)
  have sel: "ordered_symbols ?c ?st = [''A'']"
    by (simp add: ordered_symbols_def candidate_symbols_def sample_config_def sample_market_def get_active_symbols_def Let_def)
  have spike: "spike_direction_of ?st ''A'' = 1" "spike_strength_of ?st ''A'' = 20"
    by (simp_all add: spike_direction_of_def spike_strength_of_def snapshot_of_def get_pair_filter_snapshot_def
        safe_int_def safe_float_def)
  have tick: "reversal_tick ?c ?st ''A'' = 1"
    by (simp add: reversal_tick_def get_tick_size_def sample_market_def sample_config_def initial_trading_state_def)
  have price: "reversal_price ?c ?st ''A'' (sample_book ''A'' 100 104) ''Sell'' = 103"
    using round_half_even_of_int [of 103]
    by (simp add: reversal_price_def tick Let_def) (simp add: reversal_target_def sample_config_def sample_book_def)
  have side: "reversal_side ?c 1 = ''Sell''" by (simp add: reversal_side_def sample_config_def)
  have "reversal_symbol ?c ?st 5 [] Map.empty ''A'' = Triggered (reversal_intent ?c ?st [] ''A'' ''Sell'' 103)"
    by (simp add: reversal_symbol_def ob spike side price Let_def) (simp add: min_strength_def sample_config_def sample_book_def)
  then have call: "snd (reversal_get_intents ?c ?st 5 (\<lambda>s. []) ?m) = [reversal_intent ?c ?st [] ''A'' ''Sell'' 103]"
    by (simp add: reversal_get_intents_def sel Let_def) (simp add: sample_market_def)
  with reversal_orders [of ?c ?st 5 "\<lambda>s. []" ?m "[]" "[]"]
  have "reversal_order ?c ?st (reversal_intent ?c ?st [] ''A'' ''Sell'' 103)" by simp
  then have "max (sc_order_notional_quote ?c) 1 * max (sc_spike_reversal_qty_scale ?c) (1 / 100)
      \<le> oi_qty (reversal_intent ?c ?st [] ''A'' ''Sell'' 103) * oi_price (reversal_intent ?c ?st [] ''A'' ''Sell'' 103)"
    unfolding reversal_order_def by blast
  moreover have "sc_order_notional_quote ?c = 40" "sc_spike_reversal_qty_scale ?c = 1"
    by (simp_all add: sample_config_def)
  ultimately have "40 \<le> oi_qty (reversal_intent ?c ?st [] ''A'' ''Sell'' 103) * 103" by simp
  with call show ?thesis by simp
qed

text \<open>
  The futures strategy never signals. Its spike is four times the median spread of the
  admission snapshot, always upwards, and its imbalance is the neutral one half, because an order book of the
  market state has no level lists; so with an imbalance threshold of one half or more (the
  default is 0.65) no call ever returns an order, and no trigger time is ever recorded.
\<close>

theorem futures_strategy_never_signals:
  assumes "1 / 2 \<le> fs_imbalance_threshold f"
  shows "snd (futures_get_intents st now uid f) = []
    \<and> fs_last_trigger (fst (futures_get_intents st now uid f)) = fs_last_trigger f
    \<and> (\<forall>s p. pair_filter_snapshot st sy = Some s \<and> 0 < safe_float (dict_get s ''median_spread_bps'') \<and> 0 < p \<longrightarrow>
         detect_spike st sy p = (4 * safe_float (dict_get s ''median_spread_bps''), 1))"
  using futures_loop_silent [OF assms] detect_spike_eq
  by (auto simp: futures_get_intents_def Let_def)

theorem futures_strategy_never_signals_witness:
  "detect_spike (sample_market ''A'' 100 104\<lparr>pair_filter_snapshot := [''A'' \<mapsto> [(''median_spread_bps'', PyFloat 30)]]\<rparr>)
      ''A'' 102 = (120, 1)"
proof -
  let ?f = "\<lparr>fs_spike_threshold_bps = 80, fs_imbalance_threshold = 65 / 100, fs_cooldown_sec = 120, fs_max_open_positions = 3,
      fs_model = None, fs_last_trigger = Map.empty, fs_last_summary = []\<rparr>"
  let ?st = "sample_market ''A'' 100 104\<lparr>pair_filter_snapshot := [''A'' \<mapsto> [(''median_spread_bps'', PyFloat 30)]]\<rparr>"
  have "1 / 2 \<le> fs_imbalance_threshold ?f" by simp
  from futures_strategy_never_signals [OF this, of ?st 0 "\<lambda>s. []" "''A''"] show ?thesis
    by (simp add: safe_float_def)
qed

end
