(* ===== verification/Symbol_Scanner.thy ===== *)
theory Symbol_Scanner
  imports Pair_Admission "HOL-Library.Multiset"
begin

text \<open>
  The scanner worker \<open>src/botik/strategy/symbol_scanner.py\<close>: every configured symbol goes through the
  admission filter, the passing ones are ranked by the excess of their median spread over the
  required one, and the best are selected. \<open>clock\<close> and \<open>calib\<close> give the time and the calibration read
  at each evaluation.
\<close>

definition metric_float :: "pair_decision \<Rightarrow> string \<Rightarrow> py_error + real" where
  "metric_float d key = (case dict_get (pd_metrics d) key of None \<Rightarrow> Inr 0 | Some v \<Rightarrow> value_float v)"

definition score_bps :: "pair_decision \<Rightarrow> py_error + real" where
  "score_bps d =
     (case metric_float d ''median_spread_bps'' of Inl e \<Rightarrow> Inl e
      | Inr a \<Rightarrow> (case metric_float d ''min_required_spread_bps'' of Inl e \<Rightarrow> Inl e | Inr b \<Rightarrow> Inr (a - b)))"

definition passes :: "pair_decision \<Rightarrow> bool" where
  "passes d \<longleftrightarrow> str_upper (pd_status d) = ''PASS''"

text \<open>The loop: the decisions with their scores (zero for a symbol that does not pass).\<close>

fun scan_symbols ::
    "admission_config \<Rightarrow> (nat \<Rightarrow> int) \<Rightarrow> (nat \<Rightarrow> snapshot) \<Rightarrow> nat \<Rightarrow> string list \<Rightarrow> trading_state
     \<Rightarrow> trading_state \<times> (py_error + (pair_decision \<times> real) list)" where
  "scan_symbols c clock calib n [] st = (st, Inr [])"
| "scan_symbols c clock calib n (sy # sys) st =
     (case evaluate_pair_admission c (calib n) sy (clock n) st of
        (st1, Inl e) \<Rightarrow> (st1, Inl e)
      | (st1, Inr d) \<Rightarrow>
          (case (if passes d then score_bps d else Inr 0) of
             Inl e \<Rightarrow> (st1, Inl e)
           | Inr score \<Rightarrow>
               (case scan_symbols c clock calib (Suc n) sys st1 of
                  (st2, Inl e) \<Rightarrow> (st2, Inl e)
                | (st2, Inr ds) \<Rightarrow> (st2, Inr ((d, score) # ds)))))"

record scan_summary =
  ss_universe_total :: nat
  ss_pass :: nat
  ss_watch :: nat
  ss_reject :: nat
  ss_stale :: nat
  ss_selected :: nat
  ss_top_symbol :: string
  ss_top_score_bps :: real

definition pick_active_symbols ::
    "admission_config \<Rightarrow> string list \<Rightarrow> int \<Rightarrow> (nat \<Rightarrow> int) \<Rightarrow> (nat \<Rightarrow> snapshot) \<Rightarrow> trading_state
     \<Rightarrow> trading_state \<times> (py_error + string list \<times> scan_summary)" where
  "pick_active_symbols c symbols scanner_top_k clock calib st =
     (case scan_symbols c clock calib 0 symbols st of
        (st1, Inl e) \<Rightarrow> (st1, Inl e)
      | (st1, Inr ds) \<Rightarrow>
          (let passed = filter (\<lambda>p. passes (fst p)) ds;
               watched = filter (\<lambda>p. \<not> passes (fst p) \<and> str_upper (pd_status (fst p)) = ''WATCH'') ds;
               selected = take (nat (max scanner_top_k 1)) (sort_key (\<lambda>p. - snd p) passed) in
           (st1, Inr (map (\<lambda>p. pd_symbol (fst p)) selected,
              \<lparr>ss_universe_total = length symbols, ss_pass = length passed, ss_watch = length watched,
               ss_reject = length ds - length passed - length watched,
               ss_stale = length (filter (\<lambda>p. pd_stale_data (fst p)) ds), ss_selected = length selected,
               ss_top_symbol = (case selected of [] \<Rightarrow> [] | p # ps \<Rightarrow> pd_symbol (fst p)),
               ss_top_score_bps = (case selected of [] \<Rightarrow> 0 | p # ps \<Rightarrow> snd p)\<rparr>))))"

section \<open>Lemmas\<close>

lemma gate_status: "gate_step c m now cu ps gate = (g, status, reason) \<Longrightarrow> status \<in> {''PASS'', ''WATCH'', ''REJECT''}"
  by (auto simp: gate_step_def Let_def split: if_splits)

lemma status_upper:
  "s \<in> {''PASS'', ''WATCH'', ''REJECT''} \<Longrightarrow> str_upper s = s"
  by (auto simp: str_eval)

lemma passing_score:
  assumes "evaluate_pair_admission c autocalib sy now st = (st', Inr d)" and "passes d"
  shows "\<exists>r \<ge> 0. score_bps d = Inr r"
proof -
  from assms(1) obtain ready cu ps g where step: "gate_step c (measure_market c ready autocalib st sy now) now cu ps
        (get_pair_gate_state st sy) = (g, pd_status d, pd_reason d)"
    and m: "pd_metrics d = admission_metrics c ready (measure_market c ready autocalib st sy now) sy now (pd_status d) (pd_reason d)"
    by (auto simp: evaluate_pair_admission_def Let_def split: sum.splits prod.splits)
  from assms(2) gate_status [OF step] have "pd_status d = ''PASS''" by (simp add: passes_def status_upper)
  with gate_step_reason [OF step] have "failed_conditions c (measure_market c ready autocalib st sy now) = []" by simp
  from no_failed_conditions(4) [OF this] show ?thesis
    by (simp add: score_bps_def metric_float_def m admission_metrics_def)
qed

lemma scan_symbols_results:
  "scan_symbols c clock calib n sys st = (st', Inr ds) \<Longrightarrow>
     map (\<lambda>p. pd_symbol (fst p)) ds = sys
     \<and> (\<forall>p \<in> set ds. pd_status (fst p) \<in> {''PASS'', ''WATCH'', ''REJECT''}
          \<and> (passes (fst p) \<longrightarrow> score_bps (fst p) = Inr (snd p) \<and> 0 \<le> snd p))"
proof (induction sys arbitrary: n st ds)
  case Nil
  then show ?case by simp
next
  case (Cons sy sys)
  obtain st1 r where ev: "evaluate_pair_admission c (calib n) sy (clock n) st = (st1, r)" by fastforce
  with Cons.prems obtain d where d: "r = Inr d" by (cases r) auto
  note ev = ev [unfolded d]
  from Cons.prems ev obtain score where score: "(if passes d then score_bps d else Inr 0) = Inr score"
    by (auto split: sum.splits)
  obtain st2 r2 where rest: "scan_symbols c clock calib (Suc n) sys st1 = (st2, r2)" by fastforce
  with Cons.prems ev score obtain ds2 where ds2: "r2 = Inr ds2" "ds = (d, score) # ds2" and st2: "st2 = st'"
    by (cases r2) auto
  from Cons.IH [OF rest [unfolded ds2(1) st2]] have IH: "map (\<lambda>p. pd_symbol (fst p)) ds2 = sys"
    "\<forall>p \<in> set ds2. pd_status (fst p) \<in> {''PASS'', ''WATCH'', ''REJECT''}
          \<and> (passes (fst p) \<longrightarrow> score_bps (fst p) = Inr (snd p) \<and> 0 \<le> snd p)" by auto
  from evaluated [OF ev] have "pd_symbol d = sy" "pd_status d \<in> {''PASS'', ''WATCH'', ''REJECT''}"
    using gate_status by metis+
  moreover have "passes d \<longrightarrow> score_bps d = Inr score \<and> 0 \<le> score"
    using passing_score [OF ev] score by auto
  ultimately show ?case using IH ds2 by simp
qed

lemma sorted_take_best:
  fixes key :: "'a \<Rightarrow> real"
  assumes "x \<in> set (take k (sort_key key xs))" and "y \<in> set (drop k (sort_key key xs))"
  shows "key x \<le> key y"
proof -
  have "sorted (map key (take k (sort_key key xs) @ drop k (sort_key key xs)))" by simp
  then show ?thesis using assms unfolding map_append sorted_append by auto
qed

section \<open>Properties\<close>

text \<open>
  The scanner selects the best passing symbols. Every symbol is evaluated once; the
  passing decisions split into the selected ones and the rest; the selected ones are as many as the limit
  allows, ordered by falling score, no score of the rest is higher, and every selected score is
  at least zero, since a passing pair earns what it requires; and the three counts of the
  summary add up to the number of symbols.
\<close>

theorem scanner_selects_best:
  assumes "pick_active_symbols c symbols k clock calib st = (st', Inr (selected, summary))"
  shows "\<exists>ds top rest. scan_symbols c clock calib 0 symbols st = (st', Inr ds)
    \<and> map (\<lambda>p. pd_symbol (fst p)) ds = symbols
    \<and> mset (top @ rest) = mset (filter (\<lambda>p. passes (fst p)) ds)
    \<and> selected = map (\<lambda>p. pd_symbol (fst p)) top
    \<and> length top = min (nat (max k 1)) (length (filter (\<lambda>p. passes (fst p)) ds))
    \<and> sorted_wrt (\<lambda>p q. snd q \<le> snd p) top
    \<and> (\<forall>p \<in> set top. 0 \<le> snd p \<and> score_bps (fst p) = Inr (snd p) \<and> (\<forall>q \<in> set rest. snd q \<le> snd p))
    \<and> ss_pass summary + ss_watch summary + ss_reject summary = length symbols"
proof -
  obtain st1 r where scan: "scan_symbols c clock calib 0 symbols st = (st1, r)" by fastforce
  with assms obtain ds where r: "r = Inr ds" "st1 = st'"
    by (cases r) (auto simp: pick_active_symbols_def Let_def)
  let ?passed = "filter (\<lambda>p. passes (fst p)) ds" and ?n = "nat (max k 1)"
  let ?watched = "filter (\<lambda>p. \<not> passes (fst p) \<and> str_upper (pd_status (fst p)) = ''WATCH'') ds"
  let ?top = "take ?n (sort_key (\<lambda>p. - snd p) ?passed)" and ?rest = "drop ?n (sort_key (\<lambda>p. - snd p) ?passed)"
  note res = scan_symbols_results [OF scan [unfolded r(1)]]
  from assms scan r have sel: "selected = map (\<lambda>p. pd_symbol (fst p)) ?top"
    and counts: "ss_pass summary = length ?passed" "ss_watch summary = length ?watched"
      "ss_reject summary = length ds - length ?passed - length ?watched"
    by (auto simp: pick_active_symbols_def Let_def)
  have "mset (?top @ ?rest) = mset ?passed" by (simp del: mset_append)
  moreover have "sorted_wrt (\<lambda>p q. snd q \<le> snd p) ?top"
  proof -
    have "sorted (map (\<lambda>p. - snd p) ?top)" by (simp add: take_map [symmetric] sorted_wrt_take)
    then show ?thesis by (simp add: sorted_map)
  qed
  moreover have "0 \<le> snd p \<and> score_bps (fst p) = Inr (snd p) \<and> (\<forall>q \<in> set ?rest. snd q \<le> snd p)" if "p \<in> set ?top" for p
  proof -
    from that have "p \<in> set ?passed" by (auto dest: in_set_takeD)
    with res have "0 \<le> snd p" "score_bps (fst p) = Inr (snd p)" by auto
    with sorted_take_best [OF that] show ?thesis by auto
  qed
  moreover have "ss_pass summary + ss_watch summary + ss_reject summary = length symbols"
  proof -
    have "length ?passed + length ?watched \<le> length ds"
      by (induction ds) auto
    moreover have "length ds = length symbols" using res by (metis length_map)
    ultimately show ?thesis using counts by simp
  qed
  moreover have "length ?top = min ?n (length ?passed)" by (simp add: min.commute)
  ultimately show ?thesis using scan r sel res by blast
qed

theorem scanner_selects_best_witness:
  "\<exists>st' selected summary. pick_active_symbols sample_admission [''A''] 5 (\<lambda>n. 2000) (\<lambda>n. []) sample_state
      = (st', Inr (selected, summary)) \<and> ss_pass summary + ss_watch summary + ss_reject summary = 1"
proof -
  obtain st' d where ev: "evaluate_pair_admission sample_admission [] ''A'' 2000 sample_state = (st', Inr d)"
    and d: "pd_status d = ''WATCH''" using sample_pass_hold by blast
  have "\<not> passes d" by (simp add: passes_def d status_upper)
  with ev obtain selected summary where pick: "pick_active_symbols sample_admission [''A''] 5 (\<lambda>n. 2000) (\<lambda>n. []) sample_state
      = (st', Inr (selected, summary))" by (simp add: pick_active_symbols_def Let_def)
  from scanner_selects_best [OF pick] pick show ?thesis by auto
qed

end
