(* ===== verification/Model_Registry.thy ===== *)
theory Model_Registry
  imports Runs "HOL-Library.Char_ord" "HOL-Library.List_Lexorder"
begin

text \<open>
  The model registry, \<open>src/botik/ml/registry.py\<close>: files of the model directory and of the checkpoint
  directory by name, and the table of training runs. The content of a file is \<open>None\<close> when it cannot be read
  back. Models are of an arbitrary type. Listing a directory sorts the names as strings, as the source does.
  The log table \<open>model_stats\<close>, which only grows, is left out.
\<close>

section \<open>Names and numbers\<close>

fun show_nat :: "nat \<Rightarrow> string" where
  "show_nat n = (if n < 10 then [char_of (48 + n)] else show_nat (n div 10) @ [char_of (48 + n mod 10)])"

declare show_nat.simps [simp del]

definition model_path :: "string \<Rightarrow> string \<Rightarrow> nat \<Rightarrow> string" where
  "model_path scope name version = scope @ ''_'' @ name @ ''_v'' @ show_nat version @ ''.joblib''"

definition checkpoint_path :: "string \<Rightarrow> string \<Rightarrow> nat \<Rightarrow> string" where
  "checkpoint_path scope name k = scope @ ''_'' @ name @ ''_step_'' @ show_nat k @ ''.joblib''"

text \<open>\<open>sorted(dir.glob(prefix + "*" + suffix))\<close>.\<close>

definition glob_matches :: "string \<Rightarrow> string \<Rightarrow> string \<Rightarrow> bool" where
  "glob_matches prefix suffix f \<longleftrightarrow> take (length prefix) f = prefix
     \<and> length prefix + length suffix \<le> length f \<and> drop (length f - length suffix) f = suffix"

definition sorted_glob :: "string \<Rightarrow> string \<Rightarrow> (string, 'v) dict \<Rightarrow> string list" where
  "sorted_glob prefix suffix dir = sort (filter (glob_matches prefix suffix) (map fst dir))"

text \<open>The text after the last occurrence of \<open>sub\<close>, which is the last item of \<open>s.split(sub)\<close>.\<close>

fun after_last :: "string \<Rightarrow> string \<Rightarrow> string option" where
  "after_last sub [] = None"
| "after_last sub (c # cs) =
     (case after_last sub cs of Some t \<Rightarrow> Some t
      | None \<Rightarrow> if take (length sub) (c # cs) = sub then Some (drop (length sub) (c # cs)) else None)"

definition split_last :: "string \<Rightarrow> string \<Rightarrow> string" where
  "split_last sub s = (case after_last sub s of None \<Rightarrow> s | Some t \<Rightarrow> t)"

definition is_digits :: "string \<Rightarrow> bool" where
  "is_digits s \<longleftrightarrow> s \<noteq> [] \<and> list_all (\<lambda>c. digit_value c \<noteq> None) s"

definition digits_nat :: "string \<Rightarrow> nat" where
  "digits_nat s = fst (read_digits s (0, 0, []))"

section \<open>State\<close>

record 'm model_payload =
  mp_model :: 'm
  mp_accuracy :: real
  mp_trade_count :: nat

record training_run =
  tn_run_id :: string
  tn_scope :: string
  tn_version :: string
  tn_accuracy :: real
  tn_trade_count :: nat
  tn_is_trained :: bool
  tn_finished_at :: int

record 'm registry =
  rg_files :: "(string, 'm model_payload option) dict"
  rg_checkpoints :: "(string, ('m \<times> nat) option) dict"
  rg_runs :: "training_run list"

section \<open>Operations\<close>

text \<open>Insert, or update the row with the same run id; a failing database leaves the table as it is.\<close>

definition registry_write_db ::
    "bool \<Rightarrow> int \<Rightarrow> string \<Rightarrow> string \<Rightarrow> nat \<Rightarrow> real \<Rightarrow> nat \<Rightarrow> bool \<Rightarrow> 'm registry \<Rightarrow> 'm registry" where
  "registry_write_db db_ok now run_id scope version accuracy trade_count is_trained g =
     (if \<not> db_ok then g
      else if run_id \<in> tn_run_id ` set (rg_runs g)
      then g\<lparr>rg_runs := map (\<lambda>r. if tn_run_id r = run_id
               then r\<lparr>tn_accuracy := accuracy, tn_trade_count := trade_count, tn_is_trained := is_trained, tn_finished_at := now\<rparr>
               else r) (rg_runs g)\<rparr>
      else g\<lparr>rg_runs := rg_runs g @ [\<lparr>tn_run_id = run_id, tn_scope = scope, tn_version = ''v'' @ show_nat version,
               tn_accuracy = accuracy, tn_trade_count = trade_count, tn_is_trained = is_trained, tn_finished_at = now\<rparr>]\<rparr>)"

definition registry_save ::
    "bool \<Rightarrow> int \<Rightarrow> string \<Rightarrow> string \<Rightarrow> string \<Rightarrow> nat \<Rightarrow> real \<Rightarrow> nat \<Rightarrow> bool \<Rightarrow> 'm \<Rightarrow> 'm registry \<Rightarrow> 'm registry" where
  "registry_save db_ok now run_id scope name version accuracy trade_count is_trained model g =
     registry_write_db db_ok now run_id scope version accuracy trade_count is_trained
       (g\<lparr>rg_files := dict_set (model_path scope name version)
            (Some \<lparr>mp_model = model, mp_accuracy = accuracy, mp_trade_count = trade_count\<rparr>) (rg_files g)\<rparr>)"

definition save_checkpoint :: "string \<Rightarrow> string \<Rightarrow> nat \<Rightarrow> 'm \<Rightarrow> 'm registry \<Rightarrow> 'm registry" where
  "save_checkpoint scope name k model g =
     g\<lparr>rg_checkpoints := dict_set (checkpoint_path scope name k) (Some (model, k)) (rg_checkpoints g)\<rparr>"

text \<open>The fallback when no file is found: the latest trained run of the scope, whatever the name.\<close>

definition db_version :: "bool \<Rightarrow> string \<Rightarrow> 'm registry \<Rightarrow> nat option" where
  "db_version db_ok scope g =
     (if \<not> db_ok then None
      else case sort_key (\<lambda>r. - tn_finished_at r) (filter (\<lambda>r. tn_scope r = scope \<and> tn_is_trained r) (rg_runs g)) of
          [] \<Rightarrow> None
        | r # rs \<Rightarrow>
            let v_str = dropWhile (\<lambda>c. c = CHR ''v'') (tn_version r) in
            if is_digits v_str then Some (digits_nat v_str) else None)"

definition stem :: "string \<Rightarrow> string" where
  "stem f = take (length f - length ''.joblib'') f"

definition version_prefix :: "string \<Rightarrow> string \<Rightarrow> string" where
  "version_prefix scope name = scope @ ''_'' @ name @ ''_v''"

definition get_latest_version :: "bool \<Rightarrow> string \<Rightarrow> string \<Rightarrow> 'm registry \<Rightarrow> nat option" where
  "get_latest_version db_ok scope name g =
     (let files = sorted_glob (version_prefix scope name) ''.joblib'' (rg_files g) in
      if files = [] then db_version db_ok scope g
      else
        let v_str = split_last ''_v'' (stem (last files)) in
        if is_digits v_str then Some (digits_nat v_str) else db_version db_ok scope g)"

definition get_version :: "bool \<Rightarrow> string \<Rightarrow> string \<Rightarrow> 'm registry \<Rightarrow> nat" where
  "get_version db_ok scope name g = (case get_latest_version db_ok scope name g of None \<Rightarrow> 0 | Some v \<Rightarrow> v)"

definition next_version :: "bool \<Rightarrow> string \<Rightarrow> string \<Rightarrow> 'm registry \<Rightarrow> nat" where
  "next_version db_ok scope name g = get_version db_ok scope name g + 1"

definition registry_load :: "bool \<Rightarrow> string \<Rightarrow> string \<Rightarrow> 'm registry \<Rightarrow> ('m \<times> real \<times> nat) option" where
  "registry_load db_ok scope name g =
     (case get_latest_version db_ok scope name g of None \<Rightarrow> None
      | Some version \<Rightarrow>
          (case dict_get (rg_files g) (model_path scope name version) of
             Some (Some p) \<Rightarrow> Some (mp_model p, mp_accuracy p, mp_trade_count p)
           | _ \<Rightarrow> None))"

definition load_checkpoint :: "string \<Rightarrow> string \<Rightarrow> 'm registry \<Rightarrow> ('m \<times> nat) option" where
  "load_checkpoint scope name g =
     (let checkpoints = sorted_glob (scope @ ''_'' @ name @ ''_step_'') ''.joblib'' (rg_checkpoints g) in
      if checkpoints = [] then None
      else case dict_get (rg_checkpoints g) (last checkpoints) of Some (Some p) \<Rightarrow> Some p | _ \<Rightarrow> None)"

section \<open>Lemmas on names\<close>

lemma of_char_of_digit [simp]: "k < 10 \<Longrightarrow> (of_char (char_of (48 + k) :: char) :: nat) = 48 + k"
  by simp

lemma digit_value_digit: "k < 10 \<Longrightarrow> digit_value (char_of (48 + k)) = Some k"
  by (simp add: digit_value_def)

lemma show_nat_digits: "is_digits (show_nat n)"
proof (induction n rule: show_nat.induct)
  case (1 n)
  show ?case
  proof (cases "n < 10")
    case True
    then show ?thesis by (subst show_nat.simps) (simp add: is_digits_def digit_value_digit)
  next
    case False
    with 1 have "is_digits (show_nat (n div 10))" by simp
    with False show ?thesis
      by (subst show_nat.simps) (simp add: is_digits_def digit_value_digit)
  qed
qed

lemma read_digits_snoc:
  "is_digits s \<Longrightarrow> k < 10 \<Longrightarrow> fst (read_digits (s @ [char_of (48 + k)]) (v, n, r)) = 10 * fst (read_digits s (v, n, r)) + k"
proof (induction s arbitrary: v n r)
  case Nil
  then show ?case by (simp add: is_digits_def)
next
  case (Cons c s)
  then obtain d where d: "digit_value c = Some d" by (auto simp: is_digits_def)
  show ?case
  proof (cases "s = []")
    case True
    with Cons.prems d show ?thesis by (simp add: digit_value_digit)
  next
    case False
    with Cons d show ?thesis by (simp add: is_digits_def)
  qed
qed

lemma digits_nat_show [simp]: "digits_nat (show_nat n) = n"
proof (induction n rule: show_nat.induct)
  case (1 n)
  show ?case
  proof (cases "n < 10")
    case True
    then show ?thesis by (subst show_nat.simps) (simp add: digits_nat_def digit_value_digit)
  next
    case False
    with 1 have "digits_nat (show_nat (n div 10)) = n div 10" by simp
    with False show ?thesis
      using read_digits_snoc [OF show_nat_digits, of "n mod 10" "n div 10" 0 0 "[]"]
      by (subst show_nat.simps) (simp add: digits_nat_def)
  qed
qed

lemma after_last_none: "sub \<noteq> [] \<Longrightarrow> hd sub \<notin> set t \<Longrightarrow> after_last sub t = None"
proof (induction t)
  case (Cons c t)
  then have "take (length sub) (c # t) \<noteq> sub" by (cases sub) auto
  with Cons show ?case by simp
qed simp

lemma after_last_append: "after_last sub s = Some t \<Longrightarrow> after_last sub (p @ s) = Some t"
  by (induction p) simp_all

lemma is_digits_no_underscore: "is_digits s \<Longrightarrow> CHR ''_'' \<notin> set s"
  by (auto simp: is_digits_def list_all_iff digit_value_def)

lemma version_text: "split_last ''_v'' (stem (model_path scope name v)) = show_nat v"
proof -
  have "stem (x @ ''.joblib'') = x" for x by (simp add: stem_def)
  from this [of "(scope @ ''_'' @ name) @ ''_v'' @ show_nat v"]
  have st: "stem (model_path scope name v) = (scope @ ''_'' @ name) @ ''_v'' @ show_nat v"
    by (simp add: model_path_def)
  have "CHR ''_'' \<notin> set (show_nat v)" by (rule is_digits_no_underscore [OF show_nat_digits])
  then have "after_last ''_v'' (''_v'' @ show_nat v) = Some (show_nat v)"
    by (simp add: after_last_none)
  from after_last_append [OF this, of "scope @ ''_'' @ name"] show ?thesis
    unfolding split_last_def st by simp
qed

lemma prefix_le: "(p @ x \<le> p @ y) \<longleftrightarrow> x \<le> (y :: string)"
  by (induction p) simp_all

lemma show_nat_small: "k < 10 \<Longrightarrow> show_nat k = [char_of (48 + k)]"
  by (subst show_nat.simps) simp

lemma show_nat_10: "show_nat 10 = ''10''"
  by (simp add: show_nat.simps char_of_def bit_0)

lemma digit_char_less: "(i :: nat) < 10 \<Longrightarrow> j < 10 \<Longrightarrow> (char_of (48 + i) :: char) < char_of (48 + j) \<longleftrightarrow> i < j"
  by (simp add: less_char_def)

text \<open>As names, version ten stands right after version one, and nine is the last.\<close>

lemma version_order:
  assumes "1 \<le> i" and "i \<le> k" and "k \<le> 10"
  shows "model_path scope name i \<le> model_path scope name (min k 9)"
proof -
  have "show_nat i @ ''.joblib'' \<le> show_nat (min k 9) @ ''.joblib''"
  proof (cases "i < 10")
    case True
    then show ?thesis
      using assms by (cases "i = min k 9") (auto simp: show_nat_small digit_char_less)
  next
    case False
    with assms have "i = 10" "min k 9 = 9" by auto
    then show ?thesis by (simp add: show_nat_10 show_nat_small less_char_def)
  qed
  then show ?thesis by (simp add: model_path_def prefix_le)
qed

lemma last_sort:
  assumes "x \<in> set xs" and "\<And>y. y \<in> set xs \<Longrightarrow> y \<le> (x :: 'a :: linorder)"
  shows "last (sort xs) = x"
proof -
  from assms(1) have ne: "sort xs \<noteq> []" by (cases xs) auto
  then have "last (sort xs) \<le> x" using assms(2) last_in_set [OF ne] by simp
  moreover have "x \<le> last (sort xs)"
  proof -
    have "sorted (butlast (sort xs) @ [last (sort xs)])" using ne by simp
    moreover have "x \<in> set (butlast (sort xs) @ [last (sort xs)])" using ne assms(1) by simp
    ultimately show ?thesis by (auto simp: sorted_append)
  qed
  ultimately show ?thesis by simp
qed

section \<open>Publishing versions\<close>

definition version_files :: "string \<Rightarrow> string \<Rightarrow> 'm registry \<Rightarrow> string set" where
  "version_files scope name g =
     set (filter (glob_matches (version_prefix scope name) ''.joblib'') (map fst (rg_files g)))"

text \<open>Versions 1 to \<open>k\<close> are on disk, with the models \<open>h\<close>.\<close>

definition published :: "string \<Rightarrow> string \<Rightarrow> nat \<Rightarrow> (nat \<Rightarrow> 'm) \<Rightarrow> 'm registry \<Rightarrow> bool" where
  "published scope name k h g \<longleftrightarrow> k \<le> 10 \<and> version_files scope name g = model_path scope name ` {1..k}
     \<and> (\<forall>i \<in> {1..k}. \<exists>p. dict_get (rg_files g) (model_path scope name i) = Some (Some p) \<and> mp_model p = h i)"

lemma glob_matches_path: "glob_matches (version_prefix scope name) ''.joblib'' (model_path scope name v)"
proof -
  have "glob_matches p q (p @ x @ q)" for p q x by (simp add: glob_matches_def)
  from this [of "scope @ ''_'' @ name @ ''_v''" "''.joblib''" "show_nat v"] show ?thesis
    by (simp add: model_path_def version_prefix_def)
qed

lemma model_path_eq [simp]: "model_path scope name i = model_path scope name j \<longleftrightarrow> i = j"
proof
  assume "model_path scope name i = model_path scope name j"
  then have "digits_nat (show_nat i) = digits_nat (show_nat j)" by (simp add: model_path_def)
  then show "i = j" by simp
qed simp

lemma latest_published:
  assumes "published scope name k h g" and "k = 0 \<longrightarrow> rg_runs g = []"
  shows "get_latest_version db_ok scope name g = (if k = 0 then None else Some (min k 9))"
proof (cases "k = 0")
  case True
  with assms have "sorted_glob (version_prefix scope name) ''.joblib'' (rg_files g) = []"
    by (simp add: published_def version_files_def sorted_glob_def)
  with True assms show ?thesis
    by (simp add: get_latest_version_def Let_def db_version_def published_def)
next
  case False
  let ?files = "filter (glob_matches (version_prefix scope name) ''.joblib'') (map fst (rg_files g))"
  have files: "set ?files = model_path scope name ` {1..k}" and k: "k \<le> 10"
    using assms by (simp_all add: published_def version_files_def)
  have "last (sort ?files) = model_path scope name (min k 9)"
  proof (rule last_sort)
    show "model_path scope name (min k 9) \<in> set ?files" unfolding files using False by (intro imageI) simp
    show "y \<le> model_path scope name (min k 9)" if "y \<in> set ?files" for y
      using that version_order [OF _ _ k] unfolding files by auto
  qed
  moreover have "sort ?files \<noteq> []" using files False by (cases ?files) auto
  ultimately show ?thesis
    using False show_nat_digits by (simp add: get_latest_version_def sorted_glob_def version_text Let_def)
qed

lemma registry_write_db_files [simp]: "rg_files (registry_write_db ok now rid scope v acc tc tr g) = rg_files g"
  by (simp add: registry_write_db_def)

lemma registry_save_files [simp]:
  "rg_files (registry_save ok now rid scope name v acc tc tr m g) = dict_set (model_path scope name v)
     (Some \<lparr>mp_model = m, mp_accuracy = acc, mp_trade_count = tc\<rparr>) (rg_files g)"
  by (simp add: registry_save_def)

lemma version_files_save:
  "version_files scope name (registry_save ok now rid scope' name' v acc tc tr m g) =
     (if glob_matches (version_prefix scope name) ''.joblib'' (model_path scope' name' v)
      then insert (model_path scope' name' v) (version_files scope name g) else version_files scope name g)"
  by (auto simp: version_files_def update_keys)

text \<open>The version that follows \<open>k\<close> published ones.\<close>

definition version_after :: "nat \<Rightarrow> nat" where
  "version_after k = (if k = 0 then 1 else min k 9 + 1)"

lemma next_published:
  "published scope name k h g \<Longrightarrow> k = 0 \<longrightarrow> rg_runs g = [] \<Longrightarrow> next_version db_ok scope name g = version_after k"
  by (simp add: next_version_def get_version_def latest_published version_after_def)

lemma save_next_published:
  fixes m :: 'm
  assumes "published scope name k h g"
  shows "published scope name (min (Suc k) 10) (h(version_after k := m))
    (registry_save ok now rid scope name (version_after k) acc tc tr m g)"
proof -
  let ?v = "version_after k"
  have v: "?v = (if k = 0 then 1 else min k 9 + 1)" by (simp add: version_after_def)
  from assms have k: "k \<le> 10" and files: "version_files scope name g = model_path scope name ` {1..k}"
    and models: "\<forall>i \<in> {1..k}. \<exists>p. dict_get (rg_files g) (model_path scope name i) = Some (Some p) \<and> mp_model p = h i"
    by (simp_all add: published_def)
  have range: "insert ?v {1..k} = {1..min (Suc k) 10}" using v k by auto
  let ?g = "registry_save ok now rid scope name ?v acc tc tr m g"
  have "version_files scope name ?g = model_path scope name ` {1..min (Suc k) 10}"
    by (simp only: version_files_save glob_matches_path files if_True image_insert [symmetric] range)
  moreover have "\<exists>p. dict_get (rg_files ?g) (model_path scope name i) = Some (Some p) \<and> mp_model p = (h(?v := m)) i"
    if "i \<in> {1..min (Suc k) 10}" for i
  proof (cases "i = ?v")
    case True
    then show ?thesis by (simp add: dict_get_set)
  next
    case False
    with that range have "i \<in> {1..k}" by blast
    with models False show ?thesis by (simp add: dict_get_set)
  qed
  ultimately show ?thesis by (simp add: published_def)
qed

lemma save_other_published:
  assumes "published scope name k h g"
    and "\<not> glob_matches (version_prefix scope name) ''.joblib'' (model_path scope' name' v)"
  shows "published scope name k h (registry_save ok now rid scope' name' v acc tc tr m g)"
proof -
  let ?g = "registry_save ok now rid scope' name' v acc tc tr m g"
  have other: "model_path scope name i \<noteq> model_path scope' name' v" for i
    using assms(2) glob_matches_path by metis
  have "version_files scope name ?g = version_files scope name g"
    by (simp only: version_files_save assms(2) if_False)
  moreover have "dict_get (rg_files ?g) (model_path scope name i) = dict_get (rg_files g) (model_path scope name i)" for i
    using other by (simp add: dict_get_set)
  ultimately show ?thesis using assms(1) by (simp add: published_def)
qed

end
