(* ===== verification/Outcome_Learner.thy ===== *)
theory Outcome_Learner
  imports Runs
begin

text \<open>
  The feedback from closed trades, \<open>src/botik/ml/outcome_learner.py\<close>: the window of the last trades,
  the statistics over it, and the suggestions for the entry threshold and the stop and target
  multiples. Time stamps of trades and the multiples stored with them are never read and are left
  out; the rows of the trades table are an argument of \<open>load_from_db\<close>.
\<close>

definition RETRAIN_EVERY_N :: nat where "RETRAIN_EVERY_N = 50"
definition MIN_SAMPLES :: nat where "MIN_SAMPLES = 30"
definition THRESHOLD_STEP :: real where "THRESHOLD_STEP = 2 / 100"
definition MAX_THRESHOLD :: real where "MAX_THRESHOLD = 75 / 100"
definition MIN_THRESHOLD :: real where "MIN_THRESHOLD = 45 / 100"
definition WINDOW :: nat where "WINDOW = 200"

record outcome =
  ou_pnl :: real
  ou_hold_ms :: int
  ou_exit :: string

record outcome_stats =
  os_total :: nat
  os_wins :: nat
  os_win_rate :: real
  os_avg_win :: real
  os_avg_loss :: real
  os_total_pnl :: real
  os_avg_hold_ms :: real
  os_sl_mult :: real
  os_tp_mult :: real

record outcome_learner =
  ol_trades :: "outcome list"
  ol_since_last_update :: nat
  ol_stats :: outcome_stats

definition new_outcome_learner :: outcome_learner where
  "new_outcome_learner =
     \<lparr>ol_trades = [], ol_since_last_update = 0,
      ol_stats = \<lparr>os_total = 0, os_wins = 0, os_win_rate = 0, os_avg_win = 0, os_avg_loss = 0, os_total_pnl = 0,
                  os_avg_hold_ms = 0, os_sl_mult = 15 / 10, os_tp_mult = 25 / 10\<rparr>\<rparr>"

section \<open>Operations\<close>

text \<open>Appending to the bounded queue drops the oldest trade.\<close>

definition append_trade :: "outcome \<Rightarrow> outcome list \<Rightarrow> outcome list" where
  "append_trade t ts = drop (Suc (length ts) - WINDOW) (ts @ [t])"

definition exit_ratio :: "string \<Rightarrow> outcome list \<Rightarrow> real" where
  "exit_ratio reason ts = real (length (filter (\<lambda>t. ou_exit t = reason) ts)) / real (length ts)"

definition next_sl_mult :: "real \<Rightarrow> real \<Rightarrow> real \<Rightarrow> real" where
  "next_sl_mult sl_ratio tp_ratio sl_mult =
     (if sl_ratio > 6 / 10 then min (sl_mult + 2 / 10) 3
      else if sl_ratio < 2 / 10 \<and> tp_ratio < 3 / 10 then max (sl_mult - 1 / 10) (8 / 10)
      else sl_mult)"

definition next_tp_mult :: "real \<Rightarrow> real \<Rightarrow> real \<Rightarrow> real" where
  "next_tp_mult timeout_ratio tp_ratio tp_mult =
     (if timeout_ratio > 4 / 10 then max (tp_mult - 3 / 10) (15 / 10)
      else if tp_ratio > 5 / 10 then min (tp_mult + 2 / 10) 4
      else tp_mult)"

definition suggest_sl_tp_mult :: "outcome_learner \<Rightarrow> real \<times> real" where
  "suggest_sl_tp_mult l =
     (let ts = ol_trades l in
      if length ts < MIN_SAMPLES then (15 / 10, 25 / 10)
      else (py_round 2 (next_sl_mult (exit_ratio ''sl_hit'' ts) (exit_ratio ''tp_hit'' ts) (os_sl_mult (ol_stats l))),
            py_round 2 (next_tp_mult (exit_ratio ''timeout'' ts) (exit_ratio ''tp_hit'' ts) (os_tp_mult (ol_stats l)))))"

definition mean_or_zero :: "real list \<Rightarrow> real" where
  "mean_or_zero xs = (if xs = [] then 0 else sum_list xs / real (length xs))"

definition update_stats :: "outcome_learner \<Rightarrow> outcome_learner" where
  "update_stats l =
     (let ts = ol_trades l in
      if ts = [] then l
      else
        let pnls = map ou_pnl ts; wins = filter (\<lambda>p. p > 0) pnls; losses = filter (\<lambda>p. p \<le> 0) pnls;
            stats = \<lparr>os_total = length ts, os_wins = length wins, os_win_rate = real (length wins) / real (length ts),
                     os_avg_win = mean_or_zero wins, os_avg_loss = \<bar>mean_or_zero losses\<bar>,
                     os_total_pnl = sum_list pnls,
                     os_avg_hold_ms = of_int (sum_list (map ou_hold_ms ts)) / real (length ts),
                     os_sl_mult = os_sl_mult (ol_stats l), os_tp_mult = os_tp_mult (ol_stats l)\<rparr>;
            l = l\<lparr>ol_stats := stats\<rparr>; (sl_mult, tp_mult) = suggest_sl_tp_mult l in
        l\<lparr>ol_stats := stats\<lparr>os_sl_mult := sl_mult, os_tp_mult := tp_mult\<rparr>\<rparr>)"

definition record_trade :: "real \<Rightarrow> int \<Rightarrow> string \<Rightarrow> outcome_learner \<Rightarrow> outcome_learner \<times> bool" where
  "record_trade net_pnl hold_time_ms exit_reason l =
     (let l = l\<lparr>ol_trades := append_trade \<lparr>ou_pnl = net_pnl, ou_hold_ms = hold_time_ms, ou_exit = exit_reason\<rparr> (ol_trades l),
                ol_since_last_update := Suc (ol_since_last_update l)\<rparr> in
      if ol_since_last_update l \<ge> RETRAIN_EVERY_N \<and> length (ol_trades l) \<ge> MIN_SAMPLES
      then ((update_stats l)\<lparr>ol_since_last_update := 0\<rparr>, True)
      else (l, False))"

definition needs_retrain :: "outcome_learner \<Rightarrow> bool" where
  "needs_retrain l \<longleftrightarrow> ol_since_last_update l \<ge> RETRAIN_EVERY_N \<and> length (ol_trades l) \<ge> MIN_SAMPLES"

definition get_outcome_stats :: "outcome_learner \<Rightarrow> outcome_learner \<times> outcome_stats" where
  "get_outcome_stats l =
     (let l = (if length (ol_trades l) \<ge> MIN_SAMPLES then update_stats l else l) in (l, ol_stats l))"

definition get_kelly_params :: "outcome_learner \<Rightarrow> outcome_learner \<times> (real \<times> real \<times> real)" where
  "get_kelly_params l =
     (let (l, s) = get_outcome_stats l in (l, (os_win_rate s, os_avg_win s, os_avg_loss s)))"

definition suggest_threshold :: "real \<Rightarrow> outcome_learner \<Rightarrow> outcome_learner \<times> real" where
  "suggest_threshold current_threshold l =
     (let (l, s) = get_outcome_stats l in
      (l, if os_total s < MIN_SAMPLES then current_threshold
          else if os_win_rate s < 45 / 100 then min (current_threshold + THRESHOLD_STEP) MAX_THRESHOLD
          else if os_win_rate s > 60 / 100 \<and> os_total s \<ge> 100
          then max (current_threshold - THRESHOLD_STEP * (1 / 2)) MIN_THRESHOLD
          else current_threshold))"

text \<open>
  \<open>load_from_db\<close>: the query answers the latest rows first (\<open>None\<close> when it raises), they are
  appended in the order of time, whatever the queue already holds.
\<close>

type_synonym outcome_row = "real option \<times> int option \<times> string option"

definition loaded_outcome :: "outcome_row \<Rightarrow> outcome" where
  "loaded_outcome row =
     (case row of (net_pnl, hold_ms, reason) \<Rightarrow>
        \<lparr>ou_pnl = or_zero net_pnl, ou_hold_ms = (case hold_ms of None \<Rightarrow> 0 | Some h \<Rightarrow> h), ou_exit = or_empty reason\<rparr>)"

definition load_from_db :: "outcome_row list option \<Rightarrow> outcome_learner \<Rightarrow> outcome_learner" where
  "load_from_db result l =
     (case result of None \<Rightarrow> l
      | Some rows \<Rightarrow>
          let l = l\<lparr>ol_trades := fold (\<lambda>row ts. append_trade (loaded_outcome row) ts) (rev rows) (ol_trades l)\<rparr> in
          if ol_trades l = [] then l else update_stats l)"

section \<open>The window\<close>

lemma length_append_trade: "length ts \<le> WINDOW \<Longrightarrow> length (append_trade t ts) \<le> WINDOW"
  by (simp add: append_trade_def)

lemma append_trade_last:
  "append_trade t (drop (length xs - WINDOW) xs) = drop (Suc (length xs) - WINDOW) (xs @ [t])"
  by (cases "length xs \<le> WINDOW") (auto simp: append_trade_def Suc_diff_le drop_Suc_Cons [symmetric] not_le)

lemma append_trades_short:
  "length ts + length us \<le> WINDOW \<Longrightarrow> fold (\<lambda>u ts. append_trade (f u) ts) us ts = ts @ map f us"
  by (induction us arbitrary: ts) (simp_all add: append_trade_def)

lemma length_append_trades: "length ts \<le> WINDOW \<Longrightarrow> length (fold (\<lambda>u ts. append_trade (f u) ts) us ts) \<le> WINDOW"
  by (induction us arbitrary: ts) (simp_all add: length_append_trade)

lemma length_append_trade_ge: "length ts \<le> WINDOW \<Longrightarrow> min WINDOW (Suc (length ts)) \<le> length (append_trade t ts)"
  by (simp add: append_trade_def)

lemma length_append_trades_ge: "length ts \<le> WINDOW \<Longrightarrow> length ts \<le> length (fold (\<lambda>u ts. append_trade (f u) ts) us ts)"
proof (induction us arbitrary: ts)
  case (Cons u us)
  from Cons.IH [OF length_append_trade [OF Cons.prems, of "f u"]] length_append_trade_ge [OF Cons.prems, of "f u"] Cons.prems
  show ?case by simp
qed simp

section \<open>The invariant\<close>

lemma py_round_exact: "py_round n (of_int k / 10 ^ n) = of_int k / 10 ^ n"
  by (simp add: py_round_def)

lemma py_round_within:
  assumes "of_int a / 100 \<le> x" and "x \<le> of_int b / 100"
  shows "of_int a / 100 \<le> py_round 2 x \<and> py_round 2 x \<le> of_int b / 100"
  using py_round_mono [OF assms(1), of 2] py_round_mono [OF assms(2), of 2]
    py_round_exact [of 2 a] py_round_exact [of 2 b] by simp

definition mults_ok :: "real \<times> real \<Rightarrow> bool" where
  "mults_ok m \<longleftrightarrow> 8 / 10 \<le> fst m \<and> fst m \<le> 3 \<and> 15 / 10 \<le> snd m \<and> snd m \<le> 4"

lemma suggest_mults_ok:
  assumes "mults_ok (os_sl_mult (ol_stats l), os_tp_mult (ol_stats l))"
  shows "mults_ok (suggest_sl_tp_mult l)"
proof (cases "length (ol_trades l) < MIN_SAMPLES")
  case True
  then show ?thesis by (simp add: suggest_sl_tp_mult_def mults_ok_def)
next
  case False
  from assms have b: "8 / 10 \<le> os_sl_mult (ol_stats l)" "os_sl_mult (ol_stats l) \<le> 3"
    "15 / 10 \<le> os_tp_mult (ol_stats l)" "os_tp_mult (ol_stats l) \<le> 4" by (simp_all add: mults_ok_def)
  then have "of_int 80 / 100 \<le> next_sl_mult u v (os_sl_mult (ol_stats l))" "next_sl_mult u v (os_sl_mult (ol_stats l)) \<le> of_int 300 / 100"
    "of_int 150 / 100 \<le> next_tp_mult u v (os_tp_mult (ol_stats l))" "next_tp_mult u v (os_tp_mult (ol_stats l)) \<le> of_int 400 / 100" for u v
    by (auto simp: next_sl_mult_def next_tp_mult_def min_def max_def)
  note bounds = py_round_within [OF this(1,2)] py_round_within [OF this(3,4)]
  show ?thesis using False bounds by (simp add: suggest_sl_tp_mult_def mults_ok_def Let_def)
qed

definition stats_sane :: "outcome_stats \<Rightarrow> bool" where
  "stats_sane s \<longleftrightarrow> os_wins s \<le> os_total s \<and> os_total s \<le> WINDOW \<and> 0 \<le> os_win_rate s \<and> os_win_rate s \<le> 1
     \<and> 0 \<le> os_avg_win s \<and> 0 \<le> os_avg_loss s \<and> mults_ok (os_sl_mult s, os_tp_mult s)"

definition learner_inv :: "outcome_learner \<Rightarrow> bool" where
  "learner_inv l \<longleftrightarrow> length (ol_trades l) \<le> WINDOW \<and> ol_since_last_update l < RETRAIN_EVERY_N
     \<and> ol_since_last_update l \<le> length (ol_trades l) \<and> stats_sane (ol_stats l)"

lemma update_stats_frame [simp]:
  "ol_trades (update_stats l) = ol_trades l" "ol_since_last_update (update_stats l) = ol_since_last_update l"
  by (simp_all add: update_stats_def Let_def split: prod.split)

lemma mean_or_zero_nonneg: "\<forall>x \<in> set xs. 0 \<le> x \<Longrightarrow> 0 \<le> mean_or_zero xs"
  by (simp add: mean_or_zero_def sum_list_nonneg)

lemma update_stats_sane:
  assumes "stats_sane (ol_stats l)" and "length (ol_trades l) \<le> WINDOW"
  shows "stats_sane (ol_stats (update_stats l))"
proof (cases "ol_trades l = []")
  case True
  with assms show ?thesis by (simp add: update_stats_def)
next
  case False
  let ?wins = "filter (\<lambda>p. p > 0) (map ou_pnl (ol_trades l))"
  have "length ?wins \<le> length (map ou_pnl (ol_trades l))" by (rule length_filter_le)
  then have wins: "length ?wins \<le> length (ol_trades l)" by simp
  have "0 \<le> mean_or_zero ?wins" by (rule mean_or_zero_nonneg) simp
  moreover have "mults_ok (os_sl_mult (ol_stats (update_stats l)), os_tp_mult (ol_stats (update_stats l)))"
  proof -
    from assms(1) have "mults_ok (os_sl_mult (ol_stats l), os_tp_mult (ol_stats l))" by (simp add: stats_sane_def)
    with False show ?thesis
      using suggest_mults_ok [of "l\<lparr>ol_stats := s\<rparr>" for s]
      by (simp add: update_stats_def Let_def case_prod_beta)
  qed
  ultimately show ?thesis
    using assms(2) wins False by (simp add: stats_sane_def update_stats_def Let_def split: prod.split)
qed

section \<open>Runs\<close>

datatype learner_event =
    RecordTrade real int string | ReadKelly | SuggestThreshold real | LoadFromDb "outcome_row list option"

fun learner_step :: "outcome_learner \<Rightarrow> learner_event \<Rightarrow> outcome_learner" where
  "learner_step l (RecordTrade pnl hold reason) = fst (record_trade pnl hold reason l)"
| "learner_step l ReadKelly = fst (get_kelly_params l)"
| "learner_step l (SuggestThreshold t) = fst (suggest_threshold t l)"
| "learner_step l (LoadFromDb rows) = load_from_db rows l"

lemma learner_inv_new: "learner_inv new_outcome_learner"
  by (simp add: learner_inv_def new_outcome_learner_def stats_sane_def mults_ok_def RETRAIN_EVERY_N_def)

lemma update_stats_inv: "learner_inv l \<Longrightarrow> learner_inv (update_stats l)"
  by (simp add: learner_inv_def update_stats_sane)

lemma get_outcome_stats_inv: "learner_inv l \<Longrightarrow> learner_inv (fst (get_outcome_stats l))"
  by (simp add: get_outcome_stats_def update_stats_inv Let_def)

lemma record_trade_inv:
  assumes "learner_inv l"
  shows "learner_inv (fst (record_trade pnl hold reason l))"
    and "snd (record_trade pnl hold reason l) \<longleftrightarrow> Suc (ol_since_last_update l) = RETRAIN_EVERY_N"
    and "ol_since_last_update (fst (record_trade pnl hold reason l))
           = (if Suc (ol_since_last_update l) = RETRAIN_EVERY_N then 0 else Suc (ol_since_last_update l))"
proof -
  let ?t = "\<lparr>ou_pnl = pnl, ou_hold_ms = hold, ou_exit = reason\<rparr>"
  let ?l = "l\<lparr>ol_trades := append_trade ?t (ol_trades l), ol_since_last_update := Suc (ol_since_last_update l)\<rparr>"
  from assms have len: "length (ol_trades l) \<le> WINDOW" and since: "ol_since_last_update l < RETRAIN_EVERY_N"
    "ol_since_last_update l \<le> length (ol_trades l)" and stats: "stats_sane (ol_stats l)"
    by (simp_all add: learner_inv_def)
  note ge = length_append_trade_ge [OF len, of ?t] and le = length_append_trade [OF len, of ?t]
  have full: "Suc (ol_since_last_update l) \<le> length (append_trade ?t (ol_trades l))"
    using ge since by (simp add: RETRAIN_EVERY_N_def WINDOW_def)
  have sane: "stats_sane (ol_stats (update_stats ?l))" using stats le by (intro update_stats_sane) simp_all
  have due: "RETRAIN_EVERY_N \<le> Suc (ol_since_last_update l) \<and> MIN_SAMPLES \<le> length (append_trade ?t (ol_trades l))
      \<longleftrightarrow> Suc (ol_since_last_update l) = RETRAIN_EVERY_N"
    using since full by (auto simp: MIN_SAMPLES_def RETRAIN_EVERY_N_def)
  show "learner_inv (fst (record_trade pnl hold reason l))"
    using due sane stats le full since
    by (auto simp: record_trade_def Let_def learner_inv_def RETRAIN_EVERY_N_def)
  show "snd (record_trade pnl hold reason l) \<longleftrightarrow> Suc (ol_since_last_update l) = RETRAIN_EVERY_N"
    using due by (simp add: record_trade_def Let_def)
  show "ol_since_last_update (fst (record_trade pnl hold reason l))
      = (if Suc (ol_since_last_update l) = RETRAIN_EVERY_N then 0 else Suc (ol_since_last_update l))"
    using due by (simp add: record_trade_def Let_def)
qed

lemma load_from_db_inv: "learner_inv l \<Longrightarrow> learner_inv (load_from_db rows l)"
proof (cases rows)
  case (Some rs)
  assume inv: "learner_inv l"
  let ?l = "l\<lparr>ol_trades := fold (\<lambda>row ts. append_trade (loaded_outcome row) ts) (rev rs) (ol_trades l)\<rparr>"
  from inv have "learner_inv ?l"
    using length_append_trades_ge [of "ol_trades l" loaded_outcome "rev rs"]
    by (simp add: learner_inv_def length_append_trades)
  with Some update_stats_inv [of ?l] show ?thesis by (auto simp: load_from_db_def Let_def)
qed (simp add: load_from_db_def)

interpretation learner: guarded_run learner_step "\<lambda>_. True" learner_inv
proof unfold_locales
  fix l e
  assume inv: "learner_inv l"
  show "learner_inv (learner_step l e)"
  proof (cases e)
    case (RecordTrade pnl hold reason)
    with record_trade_inv(1) [OF inv] show ?thesis by simp
  next
    case ReadKelly
    with get_outcome_stats_inv [OF inv] show ?thesis by (simp add: get_kelly_params_def case_prod_beta)
  next
    case (SuggestThreshold t)
    with get_outcome_stats_inv [OF inv] show ?thesis by (simp add: suggest_threshold_def case_prod_beta Let_def)
  next
    case (LoadFromDb rows)
    with load_from_db_inv [OF inv] show ?thesis by simp
  qed
qed

section \<open>Properties\<close>

text \<open>
  The learner's invariant. After any sequence of recorded trades, reads, suggestions and loads the window
  holds at most 200 trades, the statistics are rates and averages in range, the stop
  multiple stays in [0.8, 3] and the target multiple in [1.5, 4], fewer than fifty trades are waiting (so
  \<open>needs_retrain\<close> never answers yes), and recording one more trade updates the parameters exactly when it
  is the fiftieth since the last update.
\<close>

theorem outcome_learner_invariant:
  defines "l es \<equiv> run learner_step new_outcome_learner es"
  shows "length (ol_trades (l es)) \<le> WINDOW \<and> stats_sane (ol_stats (l es)) \<and> \<not> needs_retrain (l es)
    \<and> (snd (record_trade pnl hold reason (l es)) \<longleftrightarrow> Suc (ol_since_last_update (l es)) = RETRAIN_EVERY_N)
    \<and> ol_since_last_update (l (es @ [RecordTrade pnl hold reason]))
        = (if Suc (ol_since_last_update (l es)) = RETRAIN_EVERY_N then 0 else Suc (ol_since_last_update (l es)))"
proof -
  have inv: "learner_inv (l es)"
    unfolding l_def by (rule learner.inv_run [OF learner_inv_new]) (simp add: list_all_iff)
  with record_trade_inv [OF inv] show ?thesis
    by (simp add: l_def run_append) (simp add: learner_inv_def needs_retrain_def)
qed

text \<open>
  Reading the statistics changes them. When the window has enough trades and more than 60
  percent of them hit the stop, every call of \<open>get_kelly_params\<close>, a getter, widens the stop multiple by
  0.2 without a new trade, up to its maximum.
\<close>

theorem reading_stats_drifts:
  assumes "MIN_SAMPLES \<le> length (ol_trades l)" and "exit_ratio ''sl_hit'' (ol_trades l) > 6 / 10"
    and "os_sl_mult (ol_stats l) = 15 / 10"
  defines "after n \<equiv> run learner_step l (replicate n ReadKelly)"
  shows "os_sl_mult (ol_stats (after n)) = min (15 / 10 + 2 / 10 * real n) 3 \<and> ol_trades (after n) = ol_trades l"
proof (induction n)
  case 0
  show ?case using assms(3) by (simp add: after_def)
next
  case (Suc n)
  let ?l = "after n"
  have after: "after (Suc n) = update_stats ?l"
    using assms(1) Suc unfolding after_def
    by (simp add: replicate_append_same [symmetric] run_append get_kelly_params_def get_outcome_stats_def Let_def)
  have ne: "ol_trades ?l \<noteq> []" using assms(1) Suc by (auto simp: MIN_SAMPLES_def)
  let ?x = "min (15 / 10 + 2 / 10 * real n) 3"
  have "os_sl_mult (ol_stats (update_stats ?l)) = py_round 2 (min (?x + 2 / 10) 3)"
    using ne Suc assms(1,2)
    by (simp add: update_stats_def suggest_sl_tp_mult_def next_sl_mult_def Let_def not_less)
  also have "min (?x + 2 / 10) 3 = of_int (min (150 + 20 * int (Suc n)) 300) / 10 ^ 2"
    by (simp add: min_def)
  also have "py_round 2 (of_int (min (150 + 20 * int (Suc n)) 300) / 10 ^ 2)
      = of_int (min (150 + 20 * int (Suc n)) 300) / 10 ^ 2" by (rule py_round_exact)
  also have "\<dots> = min (15 / 10 + 2 / 10 * real (Suc n)) 3"
    unfolding of_int_min by (auto simp: min_def field_simps)
  finally show ?case using Suc by (simp add: after)
qed

theorem reading_stats_drifts_witness:
  "os_sl_mult (ol_stats (run learner_step
      (new_outcome_learner\<lparr>ol_trades := replicate 30 \<lparr>ou_pnl = - 1, ou_hold_ms = 0, ou_exit = ''sl_hit''\<rparr>\<rparr>)
      (replicate 8 ReadKelly))) = 3"
proof -
  let ?l = "new_outcome_learner\<lparr>ol_trades := replicate 30 \<lparr>ou_pnl = - 1, ou_hold_ms = 0, ou_exit = ''sl_hit''\<rparr>\<rparr>"
  have "exit_ratio ''sl_hit'' (ol_trades ?l) > 6 / 10" by (simp add: exit_ratio_def)
  moreover have "MIN_SAMPLES \<le> length (ol_trades ?l)" by (simp add: MIN_SAMPLES_def)
  ultimately show ?thesis using reading_stats_drifts [of ?l 8] by (simp add: new_outcome_learner_def)
qed

text \<open>
  A retraining counts trades twice. Loading the table appends its rows to whatever the window already
  holds; with at most a hundred rows, a second load (every incremental training does one) leaves each
  of them twice in the window and in the statistics.
\<close>

theorem reload_counts_twice:
  assumes "rows \<noteq> []" and "length rows \<le> 100"
  defines "l \<equiv> run learner_step new_outcome_learner [LoadFromDb (Some rows), LoadFromDb (Some rows)]"
  shows "ol_trades l = map loaded_outcome (rev rows) @ map loaded_outcome (rev rows)
    \<and> os_total (ol_stats l) = 2 * length rows"
proof -
  have load: "load_from_db (Some rows) k = update_stats (k\<lparr>ol_trades := ol_trades k @ map loaded_outcome (rev rows)\<rparr>)"
    if "length (ol_trades k) \<le> 100" for k
    using assms(1,2) that append_trades_short [of "ol_trades k" "rev rows" loaded_outcome]
    by (simp add: load_from_db_def Let_def WINDOW_def)
  let ?k = "load_from_db (Some rows) new_outcome_learner"
  have k: "ol_trades ?k = map loaded_outcome (rev rows)"
    using load [of new_outcome_learner] by (simp add: new_outcome_learner_def)
  have l: "l = update_stats (?k\<lparr>ol_trades := ol_trades ?k @ map loaded_outcome (rev rows)\<rparr>)"
    using load [of ?k] assms(2) by (simp add: l_def k)
  have total: "ol_trades j \<noteq> [] \<Longrightarrow> os_total (ol_stats (update_stats j)) = length (ol_trades j)" for j
    by (simp add: update_stats_def Let_def case_prod_beta)
  show ?thesis using assms(1) by (simp add: l total k)
qed

theorem reload_counts_twice_witness:
  "os_total (ol_stats (run learner_step new_outcome_learner
      [LoadFromDb (Some [(Some 5, None, None)]), LoadFromDb (Some [(Some 5, None, None)])])) = 2"
  using reload_counts_twice [of "[(Some 5, None, None)]"] by simp

end
