(* ===== verification/Model_Trainer.thy ===== *)
theory Model_Trainer
  imports Model_Registry Outcome_Learner
begin

text \<open>
  The learned models and their trainer: \<open>src/botik/ml/base_model.py\<close>, \<open>src/botik/ml/historian.py\<close>,
  \<open>src/botik/ml/predictor.py\<close> and \<open>src/botik/ml/trainer.py\<close>. The classifiers of the third-party library are an
  argument: a record of the calls the source makes. A fit changes the classifier in place and may raise
  after that; the other calls answer \<open>None\<close> when they raise. The labelled samples a training reads
  are an argument too.
\<close>

type_synonym sample = "real list \<times> int \<times> real"

record 'm sklearn =
  sk_new :: "string \<Rightarrow> 'm"
  sk_grow :: "'m \<Rightarrow> 'm"
  sk_fit :: "'m \<Rightarrow> sample list \<Rightarrow> 'm \<times> bool"
  sk_fit_regimes :: "'m \<Rightarrow> (real list \<times> string) list \<Rightarrow> 'm \<times> bool"
  sk_cross_val :: "'m \<Rightarrow> sample list \<Rightarrow> nat \<Rightarrow> real option"
  sk_split :: "sample list \<Rightarrow> (sample list \<times> sample list) option"
  sk_accuracy :: "'m \<Rightarrow> sample list \<Rightarrow> real option"
  sk_proba :: "'m \<Rightarrow> real list \<Rightarrow> real list option"
  sk_regime :: "'m \<Rightarrow> real list \<Rightarrow> string option"

section \<open>Models\<close>

record 'm base_model =
  bm_fitted :: bool
  bm_accuracy :: real
  bm_trade_count :: nat
  bm_model :: "'m option"

record 'm historian = "'m base_model" +
  hi_regime_model :: "'m option"
  hi_pattern_model :: "'m option"

record 'm predictor = "'m base_model" +
  pr_entry_threshold :: real

definition is_ready :: "real \<Rightarrow> nat \<Rightarrow> ('m, 'z) base_model_scheme \<Rightarrow> bool" where
  "is_ready min_accuracy min_trades b \<longleftrightarrow>
     bm_fitted b \<and> bm_accuracy b \<ge> min_accuracy \<and> bm_trade_count b \<ge> min_trades"

definition set_model_object :: "'m \<Rightarrow> real \<Rightarrow> nat \<Rightarrow> ('m, 'z) base_model_scheme \<Rightarrow> ('m, 'z) base_model_scheme" where
  "set_model_object obj accuracy trade_count b =
     b\<lparr>bm_model := Some obj, bm_fitted := True, bm_accuracy := accuracy, bm_trade_count := trade_count\<rparr>"

definition new_historian :: "'m historian" where
  "new_historian = \<lparr>bm_fitted = False, bm_accuracy = 0, bm_trade_count = 0, bm_model = None,
     hi_regime_model = None, hi_pattern_model = None\<rparr>"

definition new_predictor :: "'m predictor" where
  "new_predictor = \<lparr>bm_fitted = False, bm_accuracy = 0, bm_trade_count = 0, bm_model = None,
     pr_entry_threshold = 55 / 100\<rparr>"

text \<open>The heuristic regime of a feature vector; missing features have their defaults.\<close>

definition feature_or :: "real list \<Rightarrow> nat \<Rightarrow> real \<Rightarrow> real" where
  "feature_or row i d = (if length row > i then row ! i else d)"

definition classify_regime :: "real list \<Rightarrow> string" where
  "classify_regime row =
     (let pc20 = feature_or row 2 0; atr = feature_or row 3 0; vr5 = feature_or row 6 1;
          spike = \<bar>feature_or row 13 0\<bar> in
      if spike > 80 \<and> vr5 > 2 then ''spike''
      else if \<bar>pc20\<bar> > 150 \<and> atr > 1 / 100 then ''trend''
      else if atr < 3 / 1000 then ''chop''
      else ''trend'')"

definition positive_proba :: "real list option \<Rightarrow> real \<Rightarrow> real" where
  "positive_proba proba d =
     (case proba of None \<Rightarrow> d | Some [] \<Rightarrow> d | Some [p] \<Rightarrow> p | Some (p # q # ps) \<Rightarrow> q)"

text \<open>
  \<open>Historian.fit\<close>: the result is the accuracy and the number of samples. When a step raises, the
  accuracy is zero, and what was changed before it stays changed.
\<close>

definition historian_fit :: "'m sklearn \<Rightarrow> sample list \<Rightarrow> 'm historian \<Rightarrow> 'm historian \<times> real \<times> nat" where
  "historian_fit sk data h =
     (if length data < 100 then (h, 0, length data)
      else
        let h = h\<lparr>hi_regime_model := Some (sk_new sk ''regime''), hi_pattern_model := Some (sk_new sk ''pattern'')\<rparr>;
            regimes = map (\<lambda>s. classify_regime (fst s)) data;
            (pattern, ok) = sk_fit sk (sk_new sk ''pattern'') data;
            h = h\<lparr>hi_pattern_model := Some pattern\<rparr> in
        if \<not> ok then (h, 0, length data)
        else case sk_cross_val sk pattern data (min 5 (length data div 20)) of
            None \<Rightarrow> (h, 0, length data)
          | Some accuracy \<Rightarrow>
              let (regime, ok) = (if length (remdups regimes) > 1
                    then sk_fit_regimes sk (sk_new sk ''regime'') (zip (map fst data) regimes)
                    else (sk_new sk ''regime'', True));
                  h = h\<lparr>hi_regime_model := Some regime\<rparr> in
              if \<not> ok then (h, 0, length data)
              else (h\<lparr>bm_fitted := True, bm_accuracy := accuracy, bm_trade_count := length data,
                      bm_model := Some pattern\<rparr>, accuracy, length data))"

definition historian_predict :: "'m sklearn \<Rightarrow> 'm historian \<Rightarrow> real list \<Rightarrow> real" where
  "historian_predict sk h features =
     (if \<not> bm_fitted h then 1 / 2
      else case hi_pattern_model h of None \<Rightarrow> 1 / 2
        | Some m \<Rightarrow> positive_proba (sk_proba sk m features) (1 / 2))"

definition predict_regime :: "'m sklearn \<Rightarrow> 'm historian \<Rightarrow> real list \<Rightarrow> string" where
  "predict_regime sk h features =
     (if \<not> bm_fitted h then ''unknown''
      else case hi_regime_model h of None \<Rightarrow> ''unknown''
        | Some m \<Rightarrow> (case sk_regime sk m features of None \<Rightarrow> ''unknown'' | Some r \<Rightarrow> r))"

definition predictor_fit :: "'m sklearn \<Rightarrow> sample list \<Rightarrow> 'm predictor \<Rightarrow> 'm predictor \<times> real \<times> nat" where
  "predictor_fit sk data p =
     (if length data < 50 then (p, 0, length data)
      else case sk_split sk data of
          None \<Rightarrow> (p, 0, length data)
        | Some (train, validation) \<Rightarrow>
            let m = (case bm_model p of None \<Rightarrow> sk_new sk ''predictor'' | Some m \<Rightarrow> sk_grow sk m);
                (m, ok) = sk_fit sk m train; p = p\<lparr>bm_model := Some m\<rparr> in
            if \<not> ok then (p, 0, length data)
            else case sk_accuracy sk m validation of
                None \<Rightarrow> (p, 0, length data)
              | Some accuracy \<Rightarrow>
                  (p\<lparr>bm_fitted := True, bm_accuracy := accuracy, bm_trade_count := length data\<rparr>, accuracy, length data))"

definition predictor_predict :: "'m sklearn \<Rightarrow> 'm predictor \<Rightarrow> real list \<Rightarrow> real" where
  "predictor_predict sk p features =
     (if \<not> bm_fitted p then 0
      else case bm_model p of None \<Rightarrow> 0 | Some m \<Rightarrow> positive_proba (sk_proba sk m features) 0)"

definition should_enter :: "'m sklearn \<Rightarrow> 'm predictor \<Rightarrow> real list \<Rightarrow> real \<Rightarrow> bool" where
  "should_enter sk p features pattern_score \<longleftrightarrow> \<not> bm_fitted p
     \<or> predictor_predict sk p features * (7 / 10) + pattern_score * (3 / 10) \<ge> pr_entry_threshold p"

section \<open>The trainer\<close>

definition MIN_ACCURACY_TO_DEPLOY :: real where
  "MIN_ACCURACY_TO_DEPLOY = 52 / 100"

record 'm trainer =
  tt_scope :: string
  tt_registry :: "'m registry"
  tt_historian :: "'m historian"
  tt_predictor :: "'m predictor"
  tt_outcome :: outcome_learner

text \<open>The clock, the two fresh run ids and the two database outcomes of a deployment.\<close>

record deploy_env =
  de_now :: int
  de_ids :: "string \<times> string"
  de_query_ok :: bool
  de_write_ok :: "bool \<times> bool"

definition deploy_models ::
    "deploy_env \<Rightarrow> string \<Rightarrow> 'm \<times> real \<times> nat \<Rightarrow> 'm \<times> real \<times> nat \<Rightarrow> 'm registry \<Rightarrow> 'm registry" where
  "deploy_models env scope h p g =
     (let v = next_version (de_query_ok env) scope ''historian'' g; (hm, hacc, hcount) = h; (pm, pacc, pcount) = p;
          g = registry_save (fst (de_write_ok env)) (de_now env) (fst (de_ids env)) scope ''historian'' v hacc hcount True hm g in
      registry_save (snd (de_write_ok env)) (de_now env) (snd (de_ids env)) scope ''predictor'' v pacc pcount True pm g)"

text \<open>
  \<open>_maybe_deploy\<close>. The stored objects are those of the two models; the accuracies are the results of
  the fits, so after a successful fit the objects are present.
\<close>

definition maybe_deploy :: "deploy_env \<Rightarrow> real \<times> nat \<Rightarrow> real \<times> nat \<Rightarrow> 'm trainer \<Rightarrow> 'm trainer \<times> bool" where
  "maybe_deploy env h_result p_result t =
     (if fst h_result \<ge> MIN_ACCURACY_TO_DEPLOY \<and> fst p_result \<ge> MIN_ACCURACY_TO_DEPLOY
      then case (bm_model (tt_historian t), bm_model (tt_predictor t)) of
          (Some hm, Some pm) \<Rightarrow>
            (t\<lparr>tt_registry := deploy_models env (tt_scope t) (hm, h_result) (pm, p_result) (tt_registry t)\<rparr>, True)
        | _ \<Rightarrow> (t, True)
      else (t, False))"

datatype train_outcome = NotEnoughData | Trained bool real real

definition incremental ::
    "'m sklearn \<Rightarrow> deploy_env \<Rightarrow> outcome_row list option \<Rightarrow> sample list \<Rightarrow> 'm trainer \<Rightarrow> 'm trainer \<times> train_outcome" where
  "incremental sk env rows data t =
     (if length data < 50 then (t, NotEnoughData)
      else
        let (h, h_result) = historian_fit sk data (tt_historian t);
            (p, p_result) = predictor_fit sk data (tt_predictor t);
            (l, threshold) = suggest_threshold (pr_entry_threshold p) (load_from_db rows (tt_outcome t));
            t = t\<lparr>tt_historian := h, tt_predictor := p\<lparr>pr_entry_threshold := threshold\<rparr>, tt_outcome := l\<rparr>;
            (t, deployed) = maybe_deploy env h_result p_result t in
        (t, Trained deployed (fst h_result) (fst p_result)))"

text \<open>\<open>bootstrap\<close>: \<open>labelled\<close> are the numbers of samples the labelling of each symbol reports.\<close>

definition bootstrap ::
    "'m sklearn \<Rightarrow> deploy_env \<Rightarrow> nat list \<Rightarrow> sample list \<Rightarrow> 'm trainer \<Rightarrow> 'm trainer \<times> train_outcome" where
  "bootstrap sk env labelled data t =
     (if sum_list labelled < 100 then (t, NotEnoughData)
      else if length data < 100 then (t, NotEnoughData)
      else
        let (h, h_result) = historian_fit sk data (tt_historian t);
            (p, p_result) = predictor_fit sk data (tt_predictor t);
            (t, deployed) = maybe_deploy env h_result p_result (t\<lparr>tt_historian := h, tt_predictor := p\<rparr>) in
        (t, Trained deployed (fst h_result) (fst p_result)))"

definition get_predict_fn :: "'m sklearn \<Rightarrow> 'm trainer \<Rightarrow> (real list \<Rightarrow> real) option" where
  "get_predict_fn sk t =
     (if \<not> is_ready (52 / 100) 50 (tt_predictor t) then None
      else Some (\<lambda>features. predictor_predict sk (tt_predictor t) features * (7 / 10)
                          + historian_predict sk (tt_historian t) features * (3 / 10)))"

definition try_load_models :: "bool \<Rightarrow> outcome_row list option \<Rightarrow> 'm trainer \<Rightarrow> 'm trainer" where
  "try_load_models db_ok rows t =
     (let t = (case registry_load db_ok (tt_scope t) ''historian'' (tt_registry t) of None \<Rightarrow> t
               | Some (m, acc, n) \<Rightarrow> t\<lparr>tt_historian := set_model_object m acc n (tt_historian t)\<rparr>);
          t = (case registry_load db_ok (tt_scope t) ''predictor'' (tt_registry t) of None \<Rightarrow> t
               | Some (m, acc, n) \<Rightarrow> t\<lparr>tt_predictor := set_model_object m acc n (tt_predictor t)\<rparr>) in
      t\<lparr>tt_outcome := load_from_db rows (tt_outcome t)\<rparr>)"

definition new_trainer :: "bool \<Rightarrow> outcome_row list option \<Rightarrow> string \<Rightarrow> 'm registry \<Rightarrow> 'm trainer" where
  "new_trainer db_ok rows scope g =
     try_load_models db_ok rows
       \<lparr>tt_scope = scope, tt_registry = g, tt_historian = new_historian, tt_predictor = new_predictor,
        tt_outcome = new_outcome_learner\<rparr>"

section \<open>Deployments\<close>

lemma predictor_path_differs:
  "\<not> glob_matches (version_prefix scope ''historian'') ''.joblib'' (model_path scope ''predictor'' v)"
  "\<not> glob_matches (version_prefix scope ''predictor'') ''.joblib'' (model_path scope ''historian'' v)"
  by (simp_all add: glob_matches_def version_prefix_def model_path_def)

definition both_published :: "string \<Rightarrow> nat \<Rightarrow> (nat \<Rightarrow> 'm) \<Rightarrow> (nat \<Rightarrow> 'm) \<Rightarrow> 'm registry \<Rightarrow> bool" where
  "both_published scope k h p g \<longleftrightarrow>
     published scope ''historian'' k h g \<and> published scope ''predictor'' k p g \<and> (k = 0 \<longrightarrow> rg_runs g = [])"

lemma deploy_both_published:
  assumes "both_published scope k h p g"
  shows "both_published scope (min (Suc k) 10) (h(version_after k := fst hm)) (p(version_after k := fst pm))
    (deploy_models env scope hm pm g)"
proof -
  obtain m1 a1 c1 m2 a2 c2 where hm: "hm = (m1, a1, c1)" and pm: "pm = (m2, a2, c2)" by (metis prod_cases3)
  let ?v = "version_after k"
  have v: "next_version (de_query_ok env) scope ''historian'' g = ?v"
    using assms next_published [of scope "''historian''" k h g] by (simp add: both_published_def)
  let ?g1 = "registry_save (fst (de_write_ok env)) (de_now env) (fst (de_ids env)) scope ''historian'' ?v a1 c1 True m1 g"
  let ?g2 = "registry_save (snd (de_write_ok env)) (de_now env) (snd (de_ids env)) scope ''predictor'' ?v a2 c2 True m2 ?g1"
  from assms have ph: "published scope ''historian'' k h g" and pp: "published scope ''predictor'' k p g"
    by (simp_all add: both_published_def)
  have "published scope ''historian'' (min (Suc k) 10) (h(?v := m1)) ?g2"
    by (rule save_other_published [OF save_next_published [OF ph] predictor_path_differs(1)])
  moreover have "published scope ''predictor'' (min (Suc k) 10) (p(?v := m2)) ?g2"
    by (rule save_next_published [OF save_other_published [OF pp predictor_path_differs(2)]])
  moreover have "deploy_models env scope hm pm g = ?g2" by (simp add: deploy_models_def v hm pm Let_def)
  ultimately show ?thesis by (simp add: both_published_def hm pm)
qed

text \<open>The threshold an incremental training leaves.\<close>

lemma suggest_threshold_within:
  assumes "45 / 100 \<le> t" and "t \<le> 75 / 100"
  shows "45 / 100 \<le> snd (suggest_threshold t l) \<and> snd (suggest_threshold t l) \<le> 75 / 100"
  using assms
  by (auto simp: suggest_threshold_def case_prod_beta Let_def THRESHOLD_STEP_def MAX_THRESHOLD_def MIN_THRESHOLD_def
      min_def max_def)

lemma predictor_fit_threshold [simp]: "pr_entry_threshold (fst (predictor_fit sk data p)) = pr_entry_threshold p"
  by (simp add: predictor_fit_def Let_def case_prod_beta split: option.split)

lemma maybe_deploy_frame [simp]:
  "tt_predictor (fst (maybe_deploy env h p t)) = tt_predictor t"
  "tt_historian (fst (maybe_deploy env h p t)) = tt_historian t"
  "tt_outcome (fst (maybe_deploy env h p t)) = tt_outcome t"
  "tt_scope (fst (maybe_deploy env h p t)) = tt_scope t"
  by (simp_all add: maybe_deploy_def split: option.split)

definition threshold_ok :: "'m trainer \<Rightarrow> bool" where
  "threshold_ok t \<longleftrightarrow> 45 / 100 \<le> pr_entry_threshold (tt_predictor t) \<and> pr_entry_threshold (tt_predictor t) \<le> 75 / 100
     \<and> learner_inv (tt_outcome t)"

lemma suggest_threshold_inv: "learner_inv l \<Longrightarrow> learner_inv (fst (suggest_threshold t l))"
  using get_outcome_stats_inv by (simp add: suggest_threshold_def case_prod_beta Let_def)

lemma incremental_threshold:
  assumes "threshold_ok t"
  shows "threshold_ok (fst (incremental sk env rows data t))"
proof (cases "length data < 50")
  case True
  with assms show ?thesis by (simp add: incremental_def)
next
  case False
  let ?l = "load_from_db rows (tt_outcome t)" and ?p = "fst (predictor_fit sk data (tt_predictor t))"
  from assms have "learner_inv ?l" by (simp add: threshold_ok_def load_from_db_inv)
  then have "learner_inv (fst (suggest_threshold (pr_entry_threshold ?p) ?l))" by (rule suggest_threshold_inv)
  with False assms suggest_threshold_within [of "pr_entry_threshold (tt_predictor t)" ?l] show ?thesis
    by (simp add: incremental_def case_prod_beta Let_def threshold_ok_def)
qed

definition training_step ::
    "'m sklearn \<Rightarrow> 'm trainer \<Rightarrow> deploy_env \<times> outcome_row list option \<times> sample list \<Rightarrow> 'm trainer" where
  "training_step sk t e = (case e of (env, rows, data) \<Rightarrow> fst (incremental sk env rows data t))"

interpretation trainings: guarded_run "training_step sk" "\<lambda>_. True" threshold_ok for sk
  by unfold_locales (auto simp: training_step_def incremental_threshold split: prod.split)

section \<open>Properties\<close>

text \<open>
  Deployments after the ninth are lost. Starting from an empty registry, the newest version on disk is
  found by sorting file names, in which version ten stands before version two: after any number of
  deployments the registry loads the models of the ninth one at best, and every deployment from the
  tenth on overwrites version ten.
\<close>

theorem deployments_stick_at_nine:
  fixes ds :: "(deploy_env \<times> ('m \<times> real \<times> nat) \<times> ('m \<times> real \<times> nat)) list" and scope :: string
  assumes "ds \<noteq> []"
  defines "g \<equiv> run (\<lambda>g (env, h, p). deploy_models env scope h p g)
      \<lparr>rg_files = [], rg_checkpoints = [], rg_runs = []\<rparr> ds"
  shows "map_option fst (registry_load db_ok scope ''historian'' g) = Some (fst (fst (snd (ds ! (min (length ds) 9 - 1)))))
    \<and> map_option fst (registry_load db_ok scope ''predictor'' g) = Some (fst (snd (snd (ds ! (min (length ds) 9 - 1)))))
    \<and> next_version db_ok scope ''historian'' g = min (length ds) 9 + 1"
proof -
  define hs where "hs ds i = fst (fst (snd (ds ! (i - 1))))" for ds :: "(deploy_env \<times> ('m \<times> real \<times> nat) \<times> ('m \<times> real \<times> nat)) list" and i :: nat
  define ps where "ps ds i = fst (snd (snd (ds ! (i - 1))))" for ds :: "(deploy_env \<times> ('m \<times> real \<times> nat) \<times> ('m \<times> real \<times> nat)) list" and i :: nat
  let ?step = "\<lambda>g (env, h, p). deploy_models env scope h p g"
  have "\<exists>h p. both_published scope (min (length ds) 10) h p (run ?step \<lparr>rg_files = [], rg_checkpoints = [], rg_runs = []\<rparr> ds)
      \<and> (\<forall>i \<in> {1..min (length ds) 9}. h i = hs ds i \<and> p i = ps ds i)"
  proof (induction ds rule: rev_induct)
    case Nil
    have "published scope name 0 h \<lparr>rg_files = [], rg_checkpoints = [], rg_runs = []\<rparr>" for name and h :: "nat \<Rightarrow> 'm"
      by (simp add: published_def version_files_def)
    then show ?case by (auto simp: both_published_def)
  next
    case (snoc d ds)
    obtain env hm pm where d: "d = (env, hm, pm)" by (metis prod_cases3)
    let ?k = "min (length ds) 10"
    from snoc obtain h p where IH: "both_published scope ?k h p (run ?step \<lparr>rg_files = [], rg_checkpoints = [], rg_runs = []\<rparr> ds)"
      "\<forall>i \<in> {1..min (length ds) 9}. h i = hs ds i \<and> p i = ps ds i" by blast
    let ?h = "h(version_after ?k := fst hm)" and ?p = "p(version_after ?k := fst pm)"
    have "min (Suc ?k) 10 = min (length (ds @ [d])) 10" by auto
    with deploy_both_published [OF IH(1), of hm pm env]
    have "both_published scope (min (length (ds @ [d])) 10) ?h ?p
        (run ?step \<lparr>rg_files = [], rg_checkpoints = [], rg_runs = []\<rparr> (ds @ [d]))"
      by (simp add: run_append d)
    moreover have "?h i = hs (ds @ [d]) i \<and> ?p i = ps (ds @ [d]) i" if i: "i \<in> {1..min (length (ds @ [d])) 9}" for i
    proof (cases "i \<le> min (length ds) 9")
      case True
      then have "i \<noteq> version_after ?k" by (auto simp: version_after_def)
      with True i IH(2) show ?thesis by (auto simp: hs_def ps_def nth_append)
    next
      case False
      with i have "i = Suc (length ds)" "length ds < 9" by auto
      then show ?thesis by (auto simp: hs_def ps_def version_after_def d)
    qed
    ultimately show ?case by blast
  qed
  then obtain h p where both: "both_published scope (min (length ds) 10) h p g"
    and models: "\<forall>i \<in> {1..min (length ds) 9}. h i = hs ds i \<and> p i = ps ds i"
    unfolding g_def by blast
  have pos: "0 < length ds" using assms(1) by simp
  have m9: "min (min (length ds) 10) 9 = min (length ds) 9" by simp
  have load: "map_option fst (registry_load db_ok scope name g) = Some (f (min (length ds) 9))"
    if "published scope name (min (length ds) 10) f g" for name f
  proof -
    have "get_latest_version db_ok scope name g = Some (min (length ds) 9)"
    proof -
      have nz: "min (length ds) 10 \<noteq> 0" using pos by simp
      then show ?thesis using latest_published [OF that, of db_ok] unfolding m9 by (simp only: simp_thms if_False)
    qed
    moreover have "min (length ds) 9 \<in> {1..min (length ds) 10}" using pos by (cases "length ds") auto
    with that obtain q where "dict_get (rg_files g) (model_path scope name (min (length ds) 9)) = Some (Some q)"
      "mp_model q = f (min (length ds) 9)" unfolding published_def by blast
    ultimately show ?thesis by (simp add: registry_load_def)
  qed
  have "min (length ds) 9 \<in> {1..min (length ds) 9}" using pos by (cases "length ds") auto
  with models have "h (min (length ds) 9) = hs ds (min (length ds) 9)" "p (min (length ds) 9) = ps ds (min (length ds) 9)"
    by blast+
  moreover have "next_version db_ok scope ''historian'' g = version_after (min (length ds) 10)"
    using both unfolding both_published_def by (intro next_published [where h = h]) blast+
  moreover have "version_after (min (length ds) 10) = min (length ds) 9 + 1"
    using pos unfolding version_after_def m9 by simp
  moreover note load [of "''historian''" h] load [of "''predictor''" p]
  ultimately show ?thesis
    using both by (simp only: both_published_def hs_def ps_def simp_thms)
qed

theorem deployments_stick_at_nine_witness:
  "map_option fst (registry_load True ''futures'' ''historian''
     (run (\<lambda>g (env, h, p). deploy_models env ''futures'' h p g) \<lparr>rg_files = [], rg_checkpoints = [], rg_runs = []\<rparr>
       (map (\<lambda>i. (\<lparr>de_now = 0, de_ids = ([], []), de_query_ok = True, de_write_ok = (True, True)\<rparr>,
                  (i :: nat, 6 / 10, 100), (i, 6 / 10, 100))) [0..<30]))) = Some 8"
  using deployments_stick_at_nine [where ds = "map (\<lambda>i. (\<lparr>de_now = 0, de_ids = ([], []), de_query_ok = True, de_write_ok = (True, True)\<rparr>,
                  (i :: nat, 6 / 10, 100), (i, 6 / 10, 100))) [0..<30]" and db_ok = True and scope = "''futures''"]
  by (simp del: upt_rec upt_Suc)

text \<open>
  A loaded historian is blind. A trainer restarted on a registry restores the historian's main object but not
  the pattern model its prediction reads, so the historian scores every feature vector one half and the prediction
  function, when there is one, is 0.7 times the predictor plus the constant 0.15.
\<close>

theorem loaded_historian_is_neutral:
  "historian_predict sk (tt_historian (new_trainer db_ok rows scope g)) x = 1 / 2
   \<and> (case get_predict_fn sk (new_trainer db_ok rows scope g) of
        None \<Rightarrow> \<not> is_ready (52 / 100) 50 (tt_predictor (new_trainer db_ok rows scope g))
      | Some f \<Rightarrow> f x = predictor_predict sk (tt_predictor (new_trainer db_ok rows scope g)) x * (7 / 10) + 15 / 100)"
proof -
  let ?t = "new_trainer db_ok rows scope g"
  have "hi_pattern_model (tt_historian ?t) = None"
    by (simp add: new_trainer_def try_load_models_def new_historian_def set_model_object_def Let_def split: option.split)
  then have "historian_predict sk (tt_historian ?t) = (\<lambda>y. 1 / 2)" by (auto simp: historian_predict_def)
  then show ?thesis by (simp add: get_predict_fn_def)
qed

text \<open>
  The entry threshold stays in range. Whatever registry and trades table a trainer starts on, and whatever the
  classifiers, the data and the tables of its later trainings are, the threshold of its predictor
  stays between 0.45 and 0.75.
\<close>

theorem entry_threshold_bounded:
  "45 / 100 \<le> pr_entry_threshold (tt_predictor (run (training_step sk) (new_trainer db_ok rows scope g) es))
   \<and> pr_entry_threshold (tt_predictor (run (training_step sk) (new_trainer db_ok rows scope g) es)) \<le> 75 / 100"
proof -
  have "pr_entry_threshold (tt_predictor (new_trainer db_ok rows scope g)) = 55 / 100"
    by (simp add: new_trainer_def try_load_models_def new_predictor_def set_model_object_def Let_def split: option.split)
  moreover have "learner_inv (tt_outcome (new_trainer db_ok rows scope g))"
    by (simp add: new_trainer_def try_load_models_def Let_def load_from_db_inv learner_inv_new split: option.split)
  ultimately have "threshold_ok (new_trainer db_ok rows scope g)" by (simp add: threshold_ok_def)
  from trainings.inv_run [OF this, of es sk] show ?thesis by (simp add: threshold_ok_def list_all_iff)
qed

end
