(* ===== verification/Feature_Engine.thy ===== *)
theory Feature_Engine
  imports Prelude
begin

text \<open>
  The feature vectors of the learned models, \<open>src/botik/ml/feature_engine.py\<close>: price momentum,
  volatility, volume, candle shape, relative strength and position in the recent range, read
  from a list of candles whose last one is the current one. A candle is a dictionary; a missing
  key raises, a value that is no number reads as zero. The vectors are lists of exact reals: the
  rounding to 32-bit floats at the end is outside the model, as are infinities, which the exact
  arithmetic does not produce because every divisor is guarded.
\<close>

type_synonym candle = "(string, py_value) dict"

definition FUTURES_FEATURE_DIM :: nat where "FUTURES_FEATURE_DIM = 18"
definition SPOT_FEATURE_DIM :: nat where "SPOT_FEATURE_DIM = 14"

section \<open>Helpers\<close>

text \<open>\<open>xs[-n]\<close> for \<open>1 \<le> n \<le> len(xs)\<close>.\<close>

definition from_end :: "nat \<Rightarrow> 'a list \<Rightarrow> 'a" where
  "from_end n xs = xs ! (length xs - n)"

definition calc_rsi :: "real list \<Rightarrow> nat \<Rightarrow> real" where
  "calc_rsi closes period =
     (if length closes < period + 1 then 1 / 2
      else
        let ds = map (\<lambda>i. closes ! i - closes ! (i - 1)) [1..<length closes];
            gains = last_n period (map (\<lambda>d. max d 0) ds);
            losses = last_n period (map (\<lambda>d. max (- d) 0) ds);
            avg_gain = sum_list gains / real period;
            avg_loss = sum_list losses / real period in
        if avg_loss = 0 then 1
        else let rs = avg_gain / avg_loss in py_round 4 (rs / (1 + rs)))"

definition range_at :: "real list \<Rightarrow> real list \<Rightarrow> real list \<Rightarrow> nat \<Rightarrow> real" where
  "range_at highs lows closes i =
     max (max (highs ! i - lows ! i) \<bar>highs ! i - closes ! (i - 1)\<bar>) \<bar>lows ! i - closes ! (i - 1)\<bar>"

definition calc_atr_norm :: "real list \<Rightarrow> real list \<Rightarrow> real list \<Rightarrow> nat \<Rightarrow> real" where
  "calc_atr_norm highs lows closes period =
     (if length highs < period + 1 \<or> last closes = 0 then 0
      else
        let trs = map (range_at highs lows closes) [1..<length highs];
            atr = sum_list (last_n period trs) / real period in
        py_round 6 (atr / last closes))"

section \<open>Columns of the candles\<close>

definition candle_value :: "string \<Rightarrow> candle \<Rightarrow> py_error + real" where
  "candle_value k c = (case dict_get c k of None \<Rightarrow> Inl KeyError | Some v \<Rightarrow> Inr (safe_float (Some v)))"

record columns =
  k_closes :: "real list"
  k_highs :: "real list"
  k_lows :: "real list"
  k_vols :: "real list"
  k_opens :: "real list"

definition read_columns :: "candle list \<Rightarrow> py_error + columns" where
  "read_columns candles =
     (case try_map (candle_value ''close'') candles of Inl e \<Rightarrow> Inl e | Inr closes \<Rightarrow>
      case try_map (candle_value ''high'') candles of Inl e \<Rightarrow> Inl e | Inr highs \<Rightarrow>
      case try_map (candle_value ''low'') candles of Inl e \<Rightarrow> Inl e | Inr lows \<Rightarrow>
      case try_map (candle_value ''volume'') candles of Inl e \<Rightarrow> Inl e | Inr vols \<Rightarrow>
      case try_map (candle_value ''open'') candles of Inl e \<Rightarrow> Inl e | Inr opens \<Rightarrow>
      Inr \<lparr>k_closes = closes, k_highs = highs, k_lows = lows, k_vols = vols, k_opens = opens\<rparr>)"

section \<open>Single features\<close>

definition price_change :: "nat \<Rightarrow> real list \<Rightarrow> real" where
  "price_change n closes =
     (let ref = from_end (Suc n) closes in if ref \<noteq> 0 then (last closes - ref) / ref * 10000 else 0)"

text \<open>\<open>sum(vols[-(n+1):-1]) / n\<close>, the mean volume before the current candle.\<close>

definition avg_volume :: "nat \<Rightarrow> real list \<Rightarrow> real" where
  "avg_volume n vols =
     (if length vols \<ge> Suc n then sum_list (butlast (last_n (Suc n) vols)) / real n else 1)"

definition volume_ratio :: "nat \<Rightarrow> real list \<Rightarrow> real" where
  "volume_ratio n vols = (if avg_volume n vols > 0 then last vols / avg_volume n vols else 1)"

definition volume_trend :: "real list \<Rightarrow> real" where
  "volume_trend vols =
     (if avg_volume 20 vols > 0 then (avg_volume 5 vols - avg_volume 20 vols) / avg_volume 20 vols else 0)"

definition high_low :: "columns \<Rightarrow> real" where
  "high_low k = last (k_highs k) - last (k_lows k)"

definition high_low_range :: "columns \<Rightarrow> real" where
  "high_low_range k = (if last (k_closes k) \<noteq> 0 then high_low k / last (k_closes k) else 0)"

definition body_ratio :: "columns \<Rightarrow> real" where
  "body_ratio k = (if high_low k > 0 then \<bar>last (k_closes k) - last (k_opens k)\<bar> / high_low k else 0)"

definition upper_shadow :: "columns \<Rightarrow> real" where
  "upper_shadow k = (if high_low k > 0
     then (last (k_highs k) - max (last (k_closes k)) (last (k_opens k))) / high_low k else 0)"

definition lower_shadow :: "columns \<Rightarrow> real" where
  "lower_shadow k = (if high_low k > 0
     then (min (last (k_closes k)) (last (k_opens k)) - last (k_lows k)) / high_low k else 0)"

definition high20 :: "columns \<Rightarrow> real" where
  "high20 k = Max (set (last_n 20 (k_highs k)))"

definition low20 :: "columns \<Rightarrow> real" where
  "low20 k = Min (set (last_n 20 (k_lows k)))"

definition price_vs_high20 :: "columns \<Rightarrow> real" where
  "price_vs_high20 k = (if high20 k - low20 k > 0
     then (high20 k - last (k_closes k)) / (high20 k - low20 k) else 1 / 2)"

definition price_vs_low20 :: "columns \<Rightarrow> real" where
  "price_vs_low20 k = (if high20 k - low20 k > 0
     then (last (k_closes k) - low20 k) / (high20 k - low20 k) else 1 / 2)"

section \<open>The vectors\<close>

definition futures_vector :: "columns \<Rightarrow> real \<Rightarrow> real list" where
  "futures_vector k ob_imbalance =
     (let closes = k_closes k; highs = k_highs k; lows = k_lows k; vols = k_vols k;
          spike_bps = price_change 1 closes in
      [price_change 1 closes, price_change 5 closes, price_change 20 closes,
       calc_atr_norm highs lows closes 14,
       calc_atr_norm (last_n 6 highs) (last_n 6 lows) (last_n 6 closes) 5,
       high_low_range k,
       volume_ratio 5 vols, volume_ratio 20 vols, volume_trend vols,
       body_ratio k, upper_shadow k, lower_shadow k,
       spike_bps, (if spike_bps > 0 then 1 else - 1),
       calc_rsi closes 14,
       price_vs_high20 k, price_vs_low20 k,
       ob_imbalance])"

definition build_futures_features :: "candle list \<Rightarrow> real \<Rightarrow> py_error + real list option" where
  "build_futures_features candles ob_imbalance =
     (if length candles < 21 then Inr None
      else case read_columns candles of
          Inl e \<Rightarrow> Inl e
        | Inr k \<Rightarrow> Inr (if last (k_closes k) = 0 then None else Some (futures_vector k ob_imbalance)))"

definition spot_vector :: "columns \<Rightarrow> real \<Rightarrow> real \<Rightarrow> real \<Rightarrow> real \<Rightarrow> real \<Rightarrow> real list" where
  "spot_vector k spread_bps ob_imbalance ask_depth bid_depth trades_per_min =
     (let closes = k_closes k in
      [spread_bps, ob_imbalance, trades_per_min,
       price_change 1 closes, price_change 5 closes,
       volume_ratio 5 (k_vols k), calc_atr_norm (k_highs k) (k_lows k) closes 14, body_ratio k, calc_rsi closes 14,
       price_vs_high20 k, price_vs_low20 k,
       ob_imbalance,
       ask_depth, bid_depth])"

definition build_spot_features ::
    "candle list \<Rightarrow> real \<Rightarrow> real \<Rightarrow> real \<Rightarrow> real \<Rightarrow> real \<Rightarrow> py_error + real list option" where
  "build_spot_features candles spread_bps ob_imbalance ask_depth bid_depth trades_per_min =
     (if length candles < 21 then Inr None
      else case read_columns candles of
          Inl e \<Rightarrow> Inl e
        | Inr k \<Rightarrow> Inr (if last (k_closes k) = 0 then None
            else Some (spot_vector k spread_bps ob_imbalance ask_depth bid_depth trades_per_min)))"

section \<open>Candles of the database\<close>

text \<open>A row of \<open>price_history\<close>: its key, the open time and the five columns.\<close>

record price_row =
  ph_symbol :: string
  ph_category :: string
  ph_interval :: string
  ph_open_time_ms :: int
  ph_open :: "real option"
  ph_high :: "real option"
  ph_low :: "real option"
  ph_close :: "real option"
  ph_volume :: "real option"

definition sql_value :: "real option \<Rightarrow> py_value" where
  "sql_value v = (case v of None \<Rightarrow> PyNone | Some r \<Rightarrow> PyFloat r)"

definition row_candle :: "price_row \<Rightarrow> candle" where
  "row_candle r = [(''open'', sql_value (ph_open r)), (''high'', sql_value (ph_high r)),
     (''low'', sql_value (ph_low r)), (''close'', sql_value (ph_close r)), (''volume'', sql_value (ph_volume r))]"

definition load_candles_from_db ::
    "bool \<Rightarrow> price_row list \<Rightarrow> string \<Rightarrow> string \<Rightarrow> string \<Rightarrow> nat \<Rightarrow> candle list" where
  "load_candles_from_db db_ok table symbol category interval limit =
     (if \<not> db_ok then []
      else map row_candle (rev (take limit (sort_key (\<lambda>r. - ph_open_time_ms r)
        (filter (\<lambda>r. ph_symbol r = symbol \<and> ph_category r = category \<and> ph_interval r = interval) table)))))"


section \<open>Columns of database candles\<close>

definition row_columns :: "price_row list \<Rightarrow> columns" where
  "row_columns rs =
     \<lparr>k_closes = map (\<lambda>r. or_zero (ph_close r)) rs, k_highs = map (\<lambda>r. or_zero (ph_high r)) rs,
      k_lows = map (\<lambda>r. or_zero (ph_low r)) rs, k_vols = map (\<lambda>r. or_zero (ph_volume r)) rs,
      k_opens = map (\<lambda>r. or_zero (ph_open r)) rs\<rparr>"

lemma try_map_ok: "(\<And>x. x \<in> set xs \<Longrightarrow> f x = Inr (g x)) \<Longrightarrow> try_map f xs = Inr (map g xs)"
  by (induction xs) auto

lemma safe_float_sql [simp]: "safe_float (Some (sql_value v)) = or_zero v"
  by (simp add: safe_float_def sql_value_def split: option.splits)

lemma read_row_columns [simp]: "read_columns (map row_candle rs) = Inr (row_columns rs)"
proof -
  have c: "candle_value ''close'' (row_candle r) = Inr (or_zero (ph_close r))"
    "candle_value ''high'' (row_candle r) = Inr (or_zero (ph_high r))"
    "candle_value ''low'' (row_candle r) = Inr (or_zero (ph_low r))"
    "candle_value ''volume'' (row_candle r) = Inr (or_zero (ph_volume r))"
    "candle_value ''open'' (row_candle r) = Inr (or_zero (ph_open r))" for r
    by (simp_all add: candle_value_def row_candle_def)
  have col: "try_map (candle_value ''close'') (map row_candle rs) = Inr (map (\<lambda>r. or_zero (ph_close r)) rs)"
    "try_map (candle_value ''high'') (map row_candle rs) = Inr (map (\<lambda>r. or_zero (ph_high r)) rs)"
    "try_map (candle_value ''low'') (map row_candle rs) = Inr (map (\<lambda>r. or_zero (ph_low r)) rs)"
    "try_map (candle_value ''volume'') (map row_candle rs) = Inr (map (\<lambda>r. or_zero (ph_volume r)) rs)"
    "try_map (candle_value ''open'') (map row_candle rs) = Inr (map (\<lambda>r. or_zero (ph_open r)) rs)"
    by (induction rs) (simp_all add: c)
  show ?thesis by (simp add: read_columns_def col row_columns_def)
qed

lemma build_futures_rows:
  "build_futures_features (map row_candle rs) imb =
     Inr (if length rs < 21 \<or> last (k_closes (row_columns rs)) = 0 then None else Some (futures_vector (row_columns rs) imb))"
  by (simp add: build_futures_features_def)

lemma build_spot_rows:
  "build_spot_features (map row_candle rs) sp imb ad bd tpm =
     Inr (if length rs < 21 \<or> last (k_closes (row_columns rs)) = 0 then None
          else Some (spot_vector (row_columns rs) sp imb ad bd tpm))"
  by (simp add: build_spot_features_def)

section \<open>Change of units\<close>

text \<open>Prices in another unit of money (\<open>a\<close>) and volumes in another unit of quantity (\<open>b\<close>).\<close>

definition rescaled :: "real \<Rightarrow> real \<Rightarrow> price_row \<Rightarrow> price_row" where
  "rescaled a b r =
     r\<lparr>ph_open := map_option ((*) a) (ph_open r), ph_high := map_option ((*) a) (ph_high r),
       ph_low := map_option ((*) a) (ph_low r), ph_close := map_option ((*) a) (ph_close r),
       ph_volume := map_option ((*) b) (ph_volume r)\<rparr>"

definition rescaled_columns :: "real \<Rightarrow> real \<Rightarrow> columns \<Rightarrow> columns" where
  "rescaled_columns a b k =
     \<lparr>k_closes = map ((*) a) (k_closes k), k_highs = map ((*) a) (k_highs k), k_lows = map ((*) a) (k_lows k),
      k_vols = map ((*) b) (k_vols k), k_opens = map ((*) a) (k_opens k)\<rparr>"

named_theorems units \<open>features under a change of units\<close>

lemma or_zero_scaled [simp]: "or_zero (map_option ((*) a) v) = a * or_zero v"
  by (cases v) auto

lemma row_columns_rescaled: "row_columns (map (rescaled a b) rs) = rescaled_columns a b (row_columns rs)"
  by (simp add: row_columns_def rescaled_columns_def rescaled_def)

lemma last_n_map: "last_n n (map f xs) = map f (last_n n xs)"
  by (simp add: last_n_def drop_map)

lemma length_last_n [simp]: "length (last_n n xs) = (if n = 0 then length xs else min n (length xs))"
  by (auto simp: last_n_def)

lemma last_n_Nil [simp]: "last_n n xs = [] \<longleftrightarrow> xs = []"
  by (cases xs) (auto simp: last_n_def)

lemma last_map_mult [units]: "xs \<noteq> [] \<Longrightarrow> last (map ((*) a) xs) = a * last (xs :: real list)"
  by (simp add: last_map)

lemma sum_scaled: "sum_list (map ((*) a) xs) = a * sum_list (xs :: real list)"
  by (induction xs) (auto simp: algebra_simps)

lemma price_change_scaled [units]:
  "0 < a \<Longrightarrow> n < length xs \<Longrightarrow> price_change n (map ((*) a) xs) = price_change n xs"
proof -
  assume a: "0 < a" and n: "n < length xs"
  then have ne: "xs \<noteq> []" and f: "from_end (Suc n) (map ((*) a) xs) = a * from_end (Suc n) xs"
    by (auto simp: from_end_def)
  have "(a * l - a * r) / (a * r) = (l - r) / r" for l r :: real
    using a by (simp add: right_diff_distrib [symmetric])
  with a show ?thesis by (simp add: price_change_def Let_def f last_map ne)
qed

lemma avg_volume_scaled:
  "n < length vs \<Longrightarrow> avg_volume n (map ((*) b) vs) = b * avg_volume n vs"
  by (simp add: avg_volume_def last_n_map map_butlast [symmetric] sum_scaled)

lemma volume_ratio_scaled [units]:
  "0 < b \<Longrightarrow> n < length vs \<Longrightarrow> volume_ratio n (map ((*) b) vs) = volume_ratio n vs"
  by (cases "vs = []") (auto simp: volume_ratio_def avg_volume_scaled last_map zero_less_mult_iff)

lemma volume_trend_scaled [units]:
  assumes "0 < b" and "20 < length vs"
  shows "volume_trend (map ((*) b) vs) = volume_trend vs"
proof -
  have "avg_volume 20 (map ((*) b) vs) = b * avg_volume 20 vs" "avg_volume 5 (map ((*) b) vs) = b * avg_volume 5 vs"
    using assms(2) by (simp_all add: avg_volume_scaled)
  then show ?thesis using assms(1) by (simp add: volume_trend_def right_diff_distrib [symmetric] zero_less_mult_iff)
qed

lemma range_at_scaled:
  assumes "0 < a" and "i < length hs" and "i < length ls" and "i \<le> length cs" and "0 < i"
  shows "range_at (map ((*) a) hs) (map ((*) a) ls) (map ((*) a) cs) i = a * range_at hs ls cs i"
  using assms
  by (simp add: range_at_def max_mult_distrib_left abs_mult right_diff_distrib [symmetric])

lemma calc_atr_norm_scaled [units]:
  assumes "0 < a" and "cs \<noteq> []" and "length ls = length hs" and "length cs = length hs"
  shows "calc_atr_norm (map ((*) a) hs) (map ((*) a) ls) (map ((*) a) cs) n = calc_atr_norm hs ls cs n"
proof -
  have "map (range_at (map ((*) a) hs) (map ((*) a) ls) (map ((*) a) cs)) [1..<length hs] =
      map ((*) a) (map (range_at hs ls cs) [1..<length hs])"
    using assms by (auto simp: range_at_scaled)
  with assms show ?thesis
    by (simp add: calc_atr_norm_def Let_def last_map last_n_map sum_scaled del: map_map)
qed

lemma calc_rsi_scaled [units]:
  assumes "0 < a"
  shows "calc_rsi (map ((*) a) xs) n = calc_rsi xs n"
proof -
  let ?d = "\<lambda>xs. map (\<lambda>i. xs ! i - xs ! (i - 1)) [1..<length xs]"
  have d: "?d (map ((*) a) xs) = map ((*) a) (?d xs)"
    by (auto simp: right_diff_distrib [symmetric])
  have "map (\<lambda>d. max d 0) (map ((*) a) ds) = map ((*) a) (map (\<lambda>d. max d 0) ds)"
    and "map (\<lambda>d. max (- d) 0) (map ((*) a) ds) = map ((*) a) (map (\<lambda>d. max (- d) 0) ds)" for ds
    using assms by (auto simp: max_def mult_le_0_iff zero_le_mult_iff)
  with assms show ?thesis
    unfolding calc_rsi_def Let_def d by (simp add: last_n_map sum_scaled del: map_map)
qed

lemma high20_scaled:
  assumes "0 < a" and "k_highs k \<noteq> []"
  shows "high20 (rescaled_columns a b k) = a * high20 k"
proof -
  have "mono ((*) a)" using assms(1) by (simp add: mono_def)
  moreover have "set (last_n 20 (k_highs k)) \<noteq> {}" using assms(2) by simp
  ultimately show ?thesis
    by (simp add: high20_def rescaled_columns_def last_n_map mono_Max_commute)
qed

lemma low20_scaled:
  assumes "0 < a" and "k_lows k \<noteq> []"
  shows "low20 (rescaled_columns a b k) = a * low20 k"
proof -
  have "mono ((*) a)" using assms(1) by (simp add: mono_def)
  moreover have "set (last_n 20 (k_lows k)) \<noteq> {}" using assms(2) by simp
  ultimately show ?thesis
    by (simp add: low20_def rescaled_columns_def last_n_map mono_Min_commute)
qed


lemma rescaled_sel [units]:
  "k_closes (rescaled_columns a b k) = map ((*) a) (k_closes k)" "k_highs (rescaled_columns a b k) = map ((*) a) (k_highs k)"
  "k_lows (rescaled_columns a b k) = map ((*) a) (k_lows k)" "k_vols (rescaled_columns a b k) = map ((*) b) (k_vols k)"
  "k_opens (rescaled_columns a b k) = map ((*) a) (k_opens k)"
  by (simp_all add: rescaled_columns_def)

text \<open>Columns of one length, as they are read from a list of candles.\<close>

definition aligned :: "nat \<Rightarrow> columns \<Rightarrow> bool" where
  "aligned n k \<longleftrightarrow> length (k_closes k) = n \<and> length (k_highs k) = n \<and> length (k_lows k) = n
     \<and> length (k_vols k) = n \<and> length (k_opens k) = n"

lemma aligned_row_columns [simp]: "aligned (length rs) (row_columns rs)"
  by (simp add: aligned_def row_columns_def)

lemma aligned_nonempty: "aligned n k \<Longrightarrow> 0 < n \<Longrightarrow> k_closes k \<noteq> [] \<and> k_highs k \<noteq> [] \<and> k_lows k \<noteq> [] \<and> k_vols k \<noteq> [] \<and> k_opens k \<noteq> []"
  by (auto simp: aligned_def)

lemma max_scaled:
  "0 < a \<Longrightarrow> max (a * x) (a * y) = a * max x (y :: real)" "0 < a \<Longrightarrow> min (a * x) (a * y) = a * min x (y :: real)"
  by (auto simp: max_def min_def)

lemma shape_scaled [units]:
  assumes "0 < a" and "aligned n k" and "0 < n"
  shows "high_low (rescaled_columns a b k) = a * high_low k"
    and "high_low_range (rescaled_columns a b k) = high_low_range k"
    and "body_ratio (rescaled_columns a b k) = body_ratio k"
    and "upper_shadow (rescaled_columns a b k) = upper_shadow k"
    and "lower_shadow (rescaled_columns a b k) = lower_shadow k"
    and "price_vs_high20 (rescaled_columns a b k) = price_vs_high20 k"
    and "price_vs_low20 (rescaled_columns a b k) = price_vs_low20 k"
proof -
  note ne = aligned_nonempty [OF assms(2,3)]
  show hl: "high_low (rescaled_columns a b k) = a * high_low k"
    using ne by (simp add: high_low_def units right_diff_distrib)
  show "high_low_range (rescaled_columns a b k) = high_low_range k"
    using ne assms(1) by (simp add: high_low_range_def hl) (simp add: units)
  show "body_ratio (rescaled_columns a b k) = body_ratio k"
    using ne assms(1)
    by (simp add: body_ratio_def hl zero_less_mult_iff) (simp add: units right_diff_distrib [symmetric] abs_mult)
  show "upper_shadow (rescaled_columns a b k) = upper_shadow k"
    using ne assms(1)
    by (simp add: upper_shadow_def hl zero_less_mult_iff)
      (simp add: units max_scaled right_diff_distrib [symmetric])
  show "lower_shadow (rescaled_columns a b k) = lower_shadow k"
    using ne assms(1)
    by (simp add: lower_shadow_def hl zero_less_mult_iff)
      (simp add: units max_scaled right_diff_distrib [symmetric])
  have h: "high20 (rescaled_columns a b k) = a * high20 k" and l: "low20 (rescaled_columns a b k) = a * low20 k"
    using ne assms(1) by (simp_all add: high20_scaled low20_scaled)
  show "price_vs_high20 (rescaled_columns a b k) = price_vs_high20 k"
    using ne assms(1)
    by (simp add: price_vs_high20_def h l right_diff_distrib [symmetric] zero_less_mult_iff) (simp add: units right_diff_distrib [symmetric])
  show "price_vs_low20 (rescaled_columns a b k) = price_vs_low20 k"
    using ne assms(1)
    by (simp add: price_vs_low20_def h l right_diff_distrib [symmetric] zero_less_mult_iff) (simp add: units right_diff_distrib [symmetric])
qed

lemma futures_vector_rescaled:
  assumes "0 < a" and "0 < b" and "aligned n k" and "21 \<le> n"
  shows "futures_vector (rescaled_columns a b k) imb = futures_vector k imb"
proof -
  have n: "0 < n" using assms(4) by simp
  have len: "length (k_closes k) = n" "length (k_highs k) = n" "length (k_lows k) = n" "length (k_vols k) = n"
    using assms(3) by (simp_all add: aligned_def)
  show ?thesis
    using assms len aligned_nonempty [OF assms(3) n] shape_scaled [OF assms(1,3) n, of b]
    by (simp add: futures_vector_def Let_def rescaled_sel price_change_scaled volume_ratio_scaled
        volume_trend_scaled calc_atr_norm_scaled calc_rsi_scaled last_n_map)
qed

lemma spot_vector_rescaled:
  assumes "0 < a" and "0 < b" and "aligned n k" and "21 \<le> n"
  shows "spot_vector (rescaled_columns a b k) sp imb ad bd tpm = spot_vector k sp imb ad bd tpm"
proof -
  have n: "0 < n" using assms(4) by simp
  have len: "length (k_closes k) = n" "length (k_highs k) = n" "length (k_lows k) = n" "length (k_vols k) = n"
    using assms(3) by (simp_all add: aligned_def)
  show ?thesis
    using assms len aligned_nonempty [OF assms(3) n] shape_scaled [OF assms(1,3) n, of b]
    by (simp add: spot_vector_def Let_def rescaled_sel price_change_scaled volume_ratio_scaled
        calc_atr_norm_scaled calc_rsi_scaled)
qed

section \<open>Ranges\<close>

text \<open>A candle as an exchange reports it.\<close>

definition sane_row :: "price_row \<Rightarrow> bool" where
  "sane_row r \<longleftrightarrow> 0 < or_zero (ph_low r) \<and> or_zero (ph_low r) \<le> or_zero (ph_open r) \<and> or_zero (ph_low r) \<le> or_zero (ph_close r)
     \<and> or_zero (ph_open r) \<le> or_zero (ph_high r) \<and> or_zero (ph_close r) \<le> or_zero (ph_high r) \<and> 0 \<le> or_zero (ph_volume r)"

lemma py_round_1 [simp]: "py_round n 1 = 1"
proof -
  have "round_half_even ((10::real) ^ n) = 10 ^ n"
    using round_half_even_of_int [of "10 ^ n"] by simp
  then show ?thesis by (simp add: py_round_def)
qed

lemma sum_nonneg_last_n: "(\<And>x. x \<in> set xs \<Longrightarrow> 0 \<le> (x :: real)) \<Longrightarrow> 0 \<le> sum_list (last_n n xs)"
  using set_last_n [of n xs] by (intro sum_list_nonneg) auto

lemma round_share: "0 \<le> x \<Longrightarrow> 0 \<le> py_round n (x / (1 + x)) \<and> py_round n (x / (1 + x)) \<le> 1"
proof -
  assume x: "0 \<le> x"
  then have "x / (1 + x) \<le> 1" "0 \<le> x / (1 + x)" by (simp_all add: divide_le_eq)
  from py_round_mono [OF this(1), of n] py_round_nonneg [OF this(2), of n] show ?thesis by simp
qed

lemma calc_rsi_range: "0 \<le> calc_rsi xs n \<and> calc_rsi xs n \<le> 1"
proof -
  let ?ds = "map (\<lambda>i. xs ! i - xs ! (i - 1)) [1..<length xs]"
  let ?g = "sum_list (last_n n (map (\<lambda>d. max d 0) ?ds)) / real n"
  let ?l = "sum_list (last_n n (map (\<lambda>d. max (- d) 0) ?ds)) / real n"
  have "0 \<le> sum_list (last_n n (map (\<lambda>d. max d 0) ?ds))" by (rule sum_nonneg_last_n) auto
  moreover have "0 \<le> sum_list (last_n n (map (\<lambda>d. max (- d) 0) ?ds))" by (rule sum_nonneg_last_n) auto
  ultimately have "0 \<le> ?g / ?l" by simp
  note share = round_share [OF this, of 4]
  have "calc_rsi xs n = (if length xs < n + 1 then 1 / 2 else if ?l = 0 then 1 else py_round 4 (?g / ?l / (1 + ?g / ?l)))"
    by (simp only: calc_rsi_def Let_def)
  with share show ?thesis by (simp only: split: if_splits) auto
qed

lemma atr_norm_nonneg: "0 \<le> last cs \<Longrightarrow> 0 \<le> calc_atr_norm hs ls cs n"
proof -
  assume c: "0 \<le> last cs"
  have "0 \<le> sum_list (last_n n (map (range_at hs ls cs) [1..<length hs]))"
    by (rule sum_nonneg_last_n) (auto simp: range_at_def le_max_iff_disj)
  with c show ?thesis by (simp add: calc_atr_norm_def Let_def py_round_nonneg)
qed

lemma last_columns:
  assumes "rs \<noteq> []"
  shows "last (k_closes (row_columns rs)) = or_zero (ph_close (last rs))"
    and "last (k_highs (row_columns rs)) = or_zero (ph_high (last rs))"
    and "last (k_lows (row_columns rs)) = or_zero (ph_low (last rs))"
    and "last (k_vols (row_columns rs)) = or_zero (ph_volume (last rs))"
    and "last (k_opens (row_columns rs)) = or_zero (ph_open (last rs))"
  using assms by (simp_all add: row_columns_def last_map)

lemma last_in_last_n: "xs \<noteq> [] \<Longrightarrow> last xs \<in> set (last_n n xs)"
  by (metis last_in_set last_drop last_n_def last_n_Nil drop_eq_Nil2 not_le)

lemma recent_range:
  assumes "rs \<noteq> []" and "sane_row (last rs)"
  defines "k \<equiv> row_columns rs"
  shows "low20 k \<le> last (k_closes k) \<and> last (k_closes k) \<le> high20 k"
proof -
  have ne: "k_highs k \<noteq> []" "k_lows k \<noteq> []" using assms(1) by (simp_all add: k_def row_columns_def)
  have "last (k_highs k) \<le> high20 k" unfolding high20_def by (rule Max_ge) (simp_all add: last_in_last_n ne)
  moreover have "low20 k \<le> last (k_lows k)" unfolding low20_def by (rule Min_le) (simp_all add: last_in_last_n ne)
  ultimately show ?thesis
    using assms(2) by (auto simp: k_def last_columns [OF assms(1)] sane_row_def)
qed

lemma position_range:
  assumes "low20 k \<le> last (k_closes k)" and "last (k_closes k) \<le> high20 k"
  shows "0 \<le> price_vs_high20 k \<and> 0 \<le> price_vs_low20 k \<and> price_vs_high20 k + price_vs_low20 k = 1"
  using assms by (auto simp: price_vs_high20_def price_vs_low20_def add_divide_distrib [symmetric])

lemma shape_range:
  assumes "last (k_lows k) \<le> min (last (k_opens k)) (last (k_closes k))"
    and "max (last (k_opens k)) (last (k_closes k)) \<le> last (k_highs k)"
  shows "0 \<le> body_ratio k \<and> 0 \<le> upper_shadow k \<and> 0 \<le> lower_shadow k
    \<and> body_ratio k + upper_shadow k + lower_shadow k = (if high_low k > 0 then 1 else 0)"
proof -
  have "\<bar>last (k_closes k) - last (k_opens k)\<bar> + (last (k_highs k) - max (last (k_closes k)) (last (k_opens k)))
      + (min (last (k_closes k)) (last (k_opens k)) - last (k_lows k)) = high_low k"
    by (auto simp: high_low_def max_def min_def)
  with assms show ?thesis
    by (auto simp: body_ratio_def upper_shadow_def lower_shadow_def add_divide_distrib [symmetric] max.commute min.commute)
qed

section \<open>Properties\<close>

text \<open>
  The features have no unit. On rows of the price table, measuring prices in another currency
  unit and volumes in another unit of quantity changes neither vector, so a model trained on one
  instrument reads another one, however expensive, on the same scale.
\<close>

theorem features_have_no_unit:
  assumes "0 < a" and "0 < b"
  shows "build_futures_features (map (row_candle \<circ> rescaled a b) rs) imb = build_futures_features (map row_candle rs) imb
    \<and> build_spot_features (map (row_candle \<circ> rescaled a b) rs) sp imb ad bd tpm
      = build_spot_features (map row_candle rs) sp imb ad bd tpm"
proof (cases "length rs < 21")
  case True
  then show ?thesis by (simp add: build_futures_features_def build_spot_features_def)
next
  case False
  let ?k = "row_columns rs"
  have "last (k_closes (rescaled_columns a b ?k)) = a * last (k_closes ?k)"
    using False by (cases "rs = []") (auto simp: rescaled_sel last_map row_columns_def)
  moreover have "21 \<le> length rs" using False by simp
  note futures_vector_rescaled [OF assms aligned_row_columns this] spot_vector_rescaled [OF assms aligned_row_columns this]
  ultimately show ?thesis
    using assms build_futures_rows [of "map (rescaled a b) rs"] build_spot_rows [of "map (rescaled a b) rs"]
    by (simp add: row_columns_rescaled build_futures_rows build_spot_rows)
qed

abbreviation flat_row :: price_row where
  "flat_row \<equiv> \<lparr>ph_symbol = ''X'', ph_category = ''linear'', ph_interval = ''1'', ph_open_time_ms = 0,
     ph_open = Some 10, ph_high = Some 12, ph_low = Some 9, ph_close = Some 11, ph_volume = Some 5\<rparr>"

theorem features_have_no_unit_witness:
  "build_futures_features (map (row_candle \<circ> rescaled 1000 2) (replicate 21 flat_row)) (1 / 2)
     = build_futures_features (map row_candle (replicate 21 flat_row)) (1 / 2)"
  using features_have_no_unit [of 1000 2 "replicate 21 flat_row" "1 / 2"] by simp

text \<open>
  The shape and the ranges of a vector. From at least twenty-one candles of the kind an
  exchange reports, a vector of eighteen features is built; the three shares of the last candle
  are not negative and make up the whole range, the relative strength and the two positions in the
  recent range lie between zero and one, the two positions add up to one, and volatilities and
  volume ratios are not negative. From fewer candles nothing is built.
\<close>

theorem futures_features_bounded:
  assumes "\<forall>r \<in> set rs. sane_row r"
  shows "(length rs < 21 \<longrightarrow> build_futures_features (map row_candle rs) imb = Inr None)
    \<and> (21 \<le> length rs \<longrightarrow> (\<exists>v. build_futures_features (map row_candle rs) imb = Inr (Some v)
        \<and> length v = FUTURES_FEATURE_DIM
        \<and> 0 \<le> v ! 3 \<and> 0 \<le> v ! 6 \<and> 0 \<le> v ! 7
        \<and> 0 \<le> v ! 9 \<and> 0 \<le> v ! 10 \<and> 0 \<le> v ! 11 \<and> v ! 9 + v ! 10 + v ! 11 \<in> {0, 1}
        \<and> v ! 13 \<in> {- 1, 1}
        \<and> v ! 14 \<in> {0..1} \<and> v ! 15 \<in> {0..1} \<and> v ! 16 \<in> {0..1} \<and> v ! 15 + v ! 16 = 1
        \<and> v ! 17 = imb))"
proof (intro conjI impI)
  assume "length rs < 21"
  then show "build_futures_features (map row_candle rs) imb = Inr None" by (simp add: build_futures_features_def)
next
  assume len: "21 \<le> length rs"
  then have ne: "rs \<noteq> []" by auto
  let ?k = "row_columns rs"
  have sane: "sane_row (last rs)" using assms ne by simp
  have close: "0 < last (k_closes ?k)" using sane by (simp add: last_columns [OF ne] sane_row_def)
  have ratio: "0 \<le> volume_ratio n (k_vols ?k)" for n
    using sane by (simp add: volume_ratio_def last_columns [OF ne] sane_row_def)
  have shape: "last (k_lows ?k) \<le> min (last (k_opens ?k)) (last (k_closes ?k))"
    "max (last (k_opens ?k)) (last (k_closes ?k)) \<le> last (k_highs ?k)"
    using sane by (simp_all add: last_columns [OF ne] sane_row_def)
  note facts = shape_range [OF shape] position_range [OF recent_range [OF ne sane, THEN conjunct1]
      recent_range [OF ne sane, THEN conjunct2]] calc_rsi_range [of "k_closes ?k" 14] ratio
      atr_norm_nonneg [of "k_closes ?k" "k_highs ?k" "k_lows ?k" 14]
  have "build_futures_features (map row_candle rs) imb = Inr (Some (futures_vector ?k imb))"
    using len close by (simp add: build_futures_rows)
  then show "\<exists>v. build_futures_features (map row_candle rs) imb = Inr (Some v)
      \<and> length v = FUTURES_FEATURE_DIM \<and> 0 \<le> v ! 3 \<and> 0 \<le> v ! 6 \<and> 0 \<le> v ! 7
      \<and> 0 \<le> v ! 9 \<and> 0 \<le> v ! 10 \<and> 0 \<le> v ! 11 \<and> v ! 9 + v ! 10 + v ! 11 \<in> {0, 1}
      \<and> v ! 13 \<in> {- 1, 1} \<and> v ! 14 \<in> {0..1} \<and> v ! 15 \<in> {0..1} \<and> v ! 16 \<in> {0..1} \<and> v ! 15 + v ! 16 = 1
      \<and> v ! 17 = imb"
    using facts close by (auto simp: futures_vector_def Let_def FUTURES_FEATURE_DIM_def)
qed

theorem futures_features_bounded_witness:
  "\<exists>v. build_futures_features (map row_candle (replicate 21 flat_row)) 0 = Inr (Some v) \<and> length v = 18"
proof -
  have "\<forall>r \<in> set (replicate 21 flat_row). sane_row r" by (simp add: sane_row_def)
  from futures_features_bounded [OF this, of 0] show ?thesis by (auto simp: FUTURES_FEATURE_DIM_def)
qed

end
