(* ===== verification/Labeler.thy ===== *)
theory Labeler
  imports Feature_Engine Model_Trainer
begin

text \<open>
  The labelling of price history, \<open>src/botik/ml/labeler.py\<close>: a window slides over the candles of a
  symbol, each position becomes a feature vector of the candles before it and a label read from the
  candles after it, and the samples are stored in the table \<open>labeled_samples\<close>, unique by the hash of
  their features. The hash is an argument; the text form of the vector in the table is kept as the
  vector itself, since printing and reading a float back is exact.
\<close>

definition FORWARD_CANDLES :: nat where "FORWARD_CANDLES = 5"
definition PROFIT_TARGET :: real where "PROFIT_TARGET = 8 / 1000"
definition LIVE_WEIGHT_MULT :: real where "LIVE_WEIGHT_MULT = 3"
definition MIN_CANDLES :: nat where "MIN_CANDLES = 25"

record labeler =
  lb_scope :: string
  lb_forward :: nat
  lb_profit_target :: real

definition default_labeler :: "string \<Rightarrow> labeler" where
  "default_labeler scope = \<lparr>lb_scope = scope, lb_forward = FORWARD_CANDLES, lb_profit_target = PROFIT_TARGET\<rparr>"

definition lb_category :: "labeler \<Rightarrow> string" where
  "lb_category lb = (if lb_scope lb = ''futures'' then ''linear'' else ''spot'')"

record labeled_sample =
  ls_hash :: string
  ls_symbol :: string
  ls_scope :: string
  ls_features :: "real list"
  ls_label :: int
  ls_source :: string
  ls_weight :: real
  ls_created_at :: int

section \<open>One position of the window\<close>

text \<open>\<open>float(c[k])\<close>: unlike in the features, a value that is no number raises here.\<close>

definition candle_float :: "string \<Rightarrow> candle \<Rightarrow> py_error + real" where
  "candle_float k c = (case dict_get c k of None \<Rightarrow> Inl KeyError | Some v \<Rightarrow> value_float v)"

definition move_label :: "real \<Rightarrow> real \<Rightarrow> real list \<Rightarrow> real list \<Rightarrow> int option" where
  "move_label target entry_close future_highs future_lows =
     (let max_move = (Max (set future_highs) - entry_close) / entry_close;
          min_move = (Min (set future_lows) - entry_close) / entry_close in
      if max_move \<ge> target then Some 1 else if min_move \<le> - target then Some 0 else None)"

definition window_features :: "labeler \<Rightarrow> candle list \<Rightarrow> py_error + real list option" where
  "window_features lb window =
     (if lb_scope lb = ''futures'' then build_futures_features window (1 / 2)
      else build_spot_features window 0 (1 / 2) 0 0 0)"

definition label_at :: "labeler \<Rightarrow> candle list \<Rightarrow> nat \<Rightarrow> py_error + (real list \<times> int) option" where
  "label_at lb candles i =
     (let window = take MIN_CANDLES (drop (i - MIN_CANDLES) candles);
          future = take (lb_forward lb) (drop i candles) in
      case window_features lb window of
        Inl e \<Rightarrow> Inl e
      | Inr None \<Rightarrow> Inr None
      | Inr (Some vec) \<Rightarrow>
          (case candle_float ''close'' (candles ! (i - 1)) of
             Inl e \<Rightarrow> Inl e
           | Inr entry_close \<Rightarrow>
               if entry_close = 0 then Inr None
               else
                 case try_map (candle_float ''high'') future of Inl e \<Rightarrow> Inl e | Inr highs \<Rightarrow>
                 case try_map (candle_float ''low'') future of Inl e \<Rightarrow> Inl e | Inr lows \<Rightarrow>
                 if future = [] then Inl ValueError
                 else Inr (map_option (\<lambda>l. (vec, l)) (move_label (lb_profit_target lb) entry_close highs lows))))"

definition window_positions :: "labeler \<Rightarrow> candle list \<Rightarrow> nat list" where
  "window_positions lb candles = [MIN_CANDLES..<length candles - lb_forward lb]"

definition label_windows :: "labeler \<Rightarrow> candle list \<Rightarrow> py_error + (real list \<times> int) option list" where
  "label_windows lb candles = try_map (label_at lb candles) (window_positions lb candles)"

section \<open>The table\<close>

definition insert_sample :: "labeled_sample \<Rightarrow> labeled_sample list \<Rightarrow> labeled_sample list" where
  "insert_sample r table = (if ls_hash r \<in> ls_hash ` set table then table else table @ [r])"

definition write_samples :: "bool \<Rightarrow> labeled_sample list \<Rightarrow> labeled_sample list \<Rightarrow> labeled_sample list \<times> nat" where
  "write_samples db_ok samples table =
     (if db_ok then (fold insert_sample samples table, length samples) else (table, 0))"

definition historical_sample ::
    "(real list \<Rightarrow> string) \<Rightarrow> int \<Rightarrow> labeler \<Rightarrow> string \<Rightarrow> real list \<times> int \<Rightarrow> labeled_sample" where
  "historical_sample hash now lb symbol vl =
     \<lparr>ls_hash = hash (fst vl), ls_symbol = symbol, ls_scope = lb_scope lb, ls_features = fst vl,
      ls_label = snd vl, ls_source = ''historical'', ls_weight = 1, ls_created_at = now\<rparr>"

text \<open>
  \<open>run\<close>: the outcome is the number of samples it reports. \<open>read_ok\<close> and \<open>write_ok\<close> say whether the
  two database calls succeed; the samples of one run carry the time of the run.
\<close>

definition label_history ::
    "(real list \<Rightarrow> string) \<Rightarrow> int \<Rightarrow> bool \<Rightarrow> bool \<Rightarrow> price_row list \<Rightarrow> string \<Rightarrow> string \<Rightarrow> nat \<Rightarrow> labeler
     \<Rightarrow> labeled_sample list \<Rightarrow> labeled_sample list \<times> (py_error + nat)" where
  "label_history hash now read_ok write_ok prices symbol interval limit lb table =
     (let candles = load_candles_from_db read_ok prices symbol (lb_category lb) interval limit in
      if length candles < MIN_CANDLES + lb_forward lb + 1 then (table, Inr 0)
      else case label_windows lb candles of
          Inl e \<Rightarrow> (table, Inl e)
        | Inr found \<Rightarrow>
            let samples = map (historical_sample hash now lb symbol) (List.map_filter id found) in
            if samples = [] then (table, Inr 0)
            else let (table', written) = write_samples write_ok samples table in (table', Inr written))"

definition label_live_trade ::
    "(real list \<Rightarrow> string) \<Rightarrow> int \<Rightarrow> bool \<Rightarrow> string \<Rightarrow> real list \<Rightarrow> bool \<Rightarrow> labeler
     \<Rightarrow> labeled_sample list \<Rightarrow> labeled_sample list" where
  "label_live_trade hash now db_ok symbol features was_profitable lb table =
     (if db_ok then insert_sample
        \<lparr>ls_hash = hash features, ls_symbol = symbol, ls_scope = lb_scope lb, ls_features = features,
         ls_label = (if was_profitable then 1 else 0), ls_source = ''live_trade'',
         ls_weight = LIVE_WEIGHT_MULT, ls_created_at = now\<rparr> table
      else table)"

definition sample_of :: "labeled_sample \<Rightarrow> sample" where
  "sample_of r = (ls_features r, ls_label r, if ls_weight r \<noteq> 0 then ls_weight r else 1)"

text \<open>\<open>load_dataset\<close>: an absent or empty symbol means all of the scope, the latest first.\<close>

definition load_dataset :: "bool \<Rightarrow> string option \<Rightarrow> nat \<Rightarrow> labeler \<Rightarrow> labeled_sample list \<Rightarrow> sample list" where
  "load_dataset db_ok symbol limit lb table =
     (if \<not> db_ok then []
      else map sample_of (take limit (sort_key (\<lambda>r. - ls_created_at r)
        (filter (\<lambda>r. ls_scope r = lb_scope lb \<and> (or_empty symbol = [] \<or> ls_symbol r = or_empty symbol)) table))))"


section \<open>The rule\<close>

lemma try_map_cong: "(\<And>x. x \<in> set xs \<Longrightarrow> f x = g x) \<Longrightarrow> try_map f xs = try_map g xs"
proof (induction xs)
  case Nil
  then show ?case by simp
next
  case (Cons x xs)
  from Cons.IH [OF Cons.prems] Cons.prems [of x] show ?case by (simp split: sum.split)
qed

lemma try_map_append:
  "try_map f (xs @ ys) = Inr zs \<Longrightarrow> \<exists>us vs. try_map f xs = Inr us \<and> zs = us @ vs"
  by (induction xs arbitrary: zs) (force split: sum.splits)+

lemma candle_float_row:
  assumes "sane_row r"
  shows "candle_float ''close'' (row_candle r) = Inr (or_zero (ph_close r))"
    and "candle_float ''high'' (row_candle r) = Inr (or_zero (ph_high r))"
    and "candle_float ''low'' (row_candle r) = Inr (or_zero (ph_low r))"
  using assms
  by (cases "ph_low r"; cases "ph_close r"; cases "ph_high r";
      auto simp: candle_float_def row_candle_def sql_value_def sane_row_def)+

lemma move_label_iff:
  assumes "0 < c" and "rs \<noteq> []"
  shows "move_label t c (map h rs) (map l rs) =
    (if \<exists>r \<in> set rs. c * (1 + t) \<le> h r then Some 1 else if \<exists>r \<in> set rs. l r \<le> c * (1 - t) then Some 0 else None)"
proof -
  have "t \<le> (Max (h ` set rs) - c) / c \<longleftrightarrow> c * (1 + t) \<le> Max (h ` set rs)"
    using assms(1) by (simp add: pos_le_divide_eq algebra_simps)
  moreover have "(Min (l ` set rs) - c) / c \<le> - t \<longleftrightarrow> Min (l ` set rs) \<le> c * (1 - t)"
    using assms(1) by (simp add: pos_divide_le_eq algebra_simps)
  ultimately show ?thesis
    using assms(2) by (auto simp: move_label_def Let_def Max_ge_iff Min_le_iff)
qed

lemma window_features_rows:
  assumes "\<forall>r \<in> set rs. sane_row r" and "length rs = MIN_CANDLES"
  shows "\<exists>vec. window_features lb (map row_candle rs) = Inr (Some vec)
    \<and> length vec = (if lb_scope lb = ''futures'' then FUTURES_FEATURE_DIM else SPOT_FEATURE_DIM)"
proof -
  have ne: "rs \<noteq> []" and len: "\<not> length rs < 21" using assms(2) by (auto simp: MIN_CANDLES_def)
  then have "sane_row (last rs)" using assms(1) by simp
  then have "last (k_closes (row_columns rs)) \<noteq> 0" by (auto simp: last_columns [OF ne] sane_row_def)
  with len show ?thesis
    by (simp add: window_features_def build_futures_rows build_spot_rows futures_vector_def spot_vector_def
        FUTURES_FEATURE_DIM_def SPOT_FEATURE_DIM_def Let_def)
qed

lemma take_drop_append: "m + n \<le> length xs \<Longrightarrow> take n (drop m (xs @ ys)) = take n (drop m xs)"
  by simp

lemma label_at_append:
  assumes "i \<in> set (window_positions lb cs)"
  shows "label_at lb (cs @ ds) i = label_at lb cs i"
proof -
  have i: "MIN_CANDLES \<le> i" "i + lb_forward lb \<le> length cs" "i - 1 < length cs"
    using assms by (auto simp: window_positions_def)
  then have "i - MIN_CANDLES + MIN_CANDLES \<le> length cs" by simp
  from take_drop_append [OF this, of ds] take_drop_append [OF i(2), of ds] i(3) show ?thesis
    by (simp only: label_at_def nth_append if_True)
qed

section \<open>The table over time\<close>

datatype labeling =
    LabelHistory int bool bool "price_row list" string string nat labeler
  | LabelLive int bool string "real list" bool labeler

fun labeling_step :: "(real list \<Rightarrow> string) \<Rightarrow> labeled_sample list \<Rightarrow> labeling \<Rightarrow> labeled_sample list" where
  "labeling_step hash table (LabelHistory now read_ok write_ok prices symbol interval limit lb) =
     fst (label_history hash now read_ok write_ok prices symbol interval limit lb table)"
| "labeling_step hash table (LabelLive now db_ok symbol features was_profitable lb) =
     label_live_trade hash now db_ok symbol features was_profitable lb table"

definition feature_dim :: "string \<Rightarrow> nat" where
  "feature_dim scope = (if scope = ''futures'' then FUTURES_FEATURE_DIM else SPOT_FEATURE_DIM)"

text \<open>
  What a row is. The labelling of history builds vectors of the dimension of the scope; a live trade brings
  its vector along, and nothing checks it: it is one of the pairs of scope and vector in \<open>live\<close>.
\<close>

definition sample_typed :: "(string \<times> real list) set \<Rightarrow> (real list \<Rightarrow> string) \<Rightarrow> labeled_sample \<Rightarrow> bool" where
  "sample_typed live hash r \<longleftrightarrow> ls_hash r = hash (ls_features r) \<and> (ls_label r = 0 \<or> ls_label r = 1)
     \<and> (ls_source r = ''historical'' \<and> ls_weight r = 1 \<and> length (ls_features r) = feature_dim (ls_scope r)
        \<or> ls_source r = ''live_trade'' \<and> ls_weight r = LIVE_WEIGHT_MULT \<and> (ls_scope r, ls_features r) \<in> live)"

definition table_typed :: "(string \<times> real list) set \<Rightarrow> (real list \<Rightarrow> string) \<Rightarrow> labeled_sample list \<Rightarrow> bool" where
  "table_typed live hash table \<longleftrightarrow> distinct (map ls_hash table) \<and> (\<forall>r \<in> set table. sample_typed live hash r)"

fun live_vector :: "labeling \<Rightarrow> (string \<times> real list) set" where
  "live_vector (LabelHistory now read_ok write_ok prices symbol interval limit lb) = {}"
| "live_vector (LabelLive now db_ok symbol features was_profitable lb) = {(lb_scope lb, features)}"

text \<open>The vectors the live trades of a run were recorded with.\<close>

definition live_vectors :: "labeling list \<Rightarrow> (string \<times> real list) set" where
  "live_vectors es = \<Union> (live_vector ` set es)"

abbreviation labeling_ok :: "(string \<times> real list) set \<Rightarrow> labeling \<Rightarrow> bool" where
  "labeling_ok live e \<equiv> live_vector e \<subseteq> live"

lemma insert_typed: "table_typed live hash table \<Longrightarrow> sample_typed live hash r \<Longrightarrow> table_typed live hash (insert_sample r table)"
  by (auto simp: table_typed_def insert_sample_def)

lemma insert_grows: "set table \<subseteq> set (insert_sample r table)"
  by (auto simp: insert_sample_def)

lemma fold_insert_typed:
  "table_typed live hash table \<Longrightarrow> \<forall>r \<in> set rs. sample_typed live hash r \<Longrightarrow> table_typed live hash (fold insert_sample rs table)"
  by (induction rs arbitrary: table) (auto intro: insert_typed)

lemma fold_insert_grows: "set table \<subseteq> set (fold insert_sample rs table)"
  by (induction rs arbitrary: table) (use insert_grows in fastforce)+

lemma fold_insert_has: "r \<in> set rs \<Longrightarrow> ls_hash r \<in> ls_hash ` set (fold insert_sample rs table)"
proof (induction rs arbitrary: table)
  case Nil
  then show ?case by simp
next
  case (Cons x rs)
  have "ls_hash x \<in> ls_hash ` set (insert_sample x table)" by (auto simp: insert_sample_def)
  with fold_insert_grows [of "insert_sample x table" rs] Cons show ?case by auto
qed

lemma fold_insert_known:
  "\<forall>r \<in> set rs. ls_hash r \<in> ls_hash ` set table \<Longrightarrow> fold insert_sample rs table = table"
  by (induction rs) (auto simp: insert_sample_def)

lemma window_features_dim:
  "window_features lb window = Inr (Some vec) \<Longrightarrow> length vec = feature_dim (lb_scope lb)"
  by (auto simp: window_features_def build_futures_features_def build_spot_features_def feature_dim_def
      futures_vector_def spot_vector_def Let_def FUTURES_FEATURE_DIM_def SPOT_FEATURE_DIM_def
      split: if_splits sum.splits)

lemma move_label_binary: "move_label t c hs ls = Some l \<Longrightarrow> l = 0 \<or> l = 1"
  by (auto simp: move_label_def Let_def split: if_splits)

lemma label_at_typed:
  assumes "label_at lb cs i = Inr (Some (vec, l))"
  shows "length vec = feature_dim (lb_scope lb) \<and> (l = 0 \<or> l = 1)"
  using assms
  by (auto simp: label_at_def Let_def dest: window_features_dim move_label_binary
      split: sum.splits option.splits if_splits)

lemma label_windows_typed:
  assumes "label_windows lb cs = Inr found" and "vl \<in> set (List.map_filter id found)"
  shows "length (fst vl) = feature_dim (lb_scope lb) \<and> (snd vl = 0 \<or> snd vl = 1)"
proof -
  from assms(2) have "Some vl \<in> set found" by (auto simp: List.map_filter_def)
  moreover from assms(1) have "list_all2 (\<lambda>i y. label_at lb cs i = Inr y) (window_positions lb cs) found"
    unfolding label_windows_def by (rule try_map_Inr)
  ultimately obtain i where "label_at lb cs i = Inr (Some vl)"
    by (auto simp: list_all2_conv_all_nth in_set_conv_nth)
  with label_at_typed [of lb cs i "fst vl" "snd vl"] show ?thesis by simp
qed

lemma historical_typed:
  "length (fst vl) = feature_dim (lb_scope lb) \<and> (snd vl = 0 \<or> snd vl = 1) \<Longrightarrow>
   sample_typed live hash (historical_sample hash now lb symbol vl)"
  by (simp add: sample_typed_def historical_sample_def)

lemma historical_all:
  assumes "label_windows lb cs = Inr found"
  shows "\<forall>r \<in> set (map (historical_sample hash now lb symbol) (List.map_filter id found)). sample_typed live hash r"
proof
  fix r assume "r \<in> set (map (historical_sample hash now lb symbol) (List.map_filter id found))"
  then obtain vl where "vl \<in> set (List.map_filter id found)" "r = historical_sample hash now lb symbol vl" by auto
  with historical_typed [OF label_windows_typed [OF assms this(1)]] show "sample_typed live hash r" by simp
qed

lemma labeling_step_typed: "table_typed live hash table \<Longrightarrow> labeling_ok live e \<Longrightarrow> table_typed live hash (labeling_step hash table e)"
proof (cases e)
  case (LabelHistory now read_ok write_ok prices symbol interval limit lb)
  assume t: "table_typed live hash table"
  have "table_typed live hash (fst (write_samples write_ok (map (historical_sample hash now lb symbol) (List.map_filter id found)) table))"
    if "label_windows lb cs = Inr found" for found cs
    using fold_insert_typed [OF t historical_all [OF that]] t by (simp add: write_samples_def)
  with LabelHistory t show ?thesis
    by (auto simp: label_history_def Let_def case_prod_beta split: sum.splits)
next
  case (LabelLive now db_ok symbol features was_profitable lb)
  assume "table_typed live hash table" "labeling_ok live e"
  with LabelLive show ?thesis
    by (auto simp: label_live_trade_def sample_typed_def intro!: insert_typed)
qed

lemma labeling_step_grows: "set table \<subseteq> set (labeling_step hash table e)"
  by (cases e) (use fold_insert_grows insert_grows in
      \<open>auto simp: label_history_def label_live_trade_def write_samples_def Let_def split: sum.splits prod.splits\<close>)

interpretation labeling: guarded_run "labeling_step hash" "labeling_ok live" "table_typed live hash" for hash live
  by unfold_locales (rule labeling_step_typed)

interpretation labeling_growth: growing_run "labeling_step hash" set for hash
  by unfold_locales (rule labeling_step_grows)

section \<open>Properties\<close>

text \<open>
  The labelling rule. At each position of the window over price rows of the kind an exchange
  reports, the vector is built from the twenty-five candles before the position only; the label is
  one when one of the following candles reaches the target above the last close, zero when none
  does and one of them falls by the target, and otherwise the position gives no sample.
\<close>

theorem label_rule:
  fixes lb rs i
  assumes "\<forall>r \<in> set rs. sane_row r" and "i \<in> set (window_positions lb (map row_candle rs))" and "0 < lb_forward lb"
  defines "past \<equiv> take MIN_CANDLES (drop (i - MIN_CANDLES) rs)" and "future \<equiv> take (lb_forward lb) (drop i rs)"
    and "close \<equiv> or_zero (ph_close (rs ! (i - 1)))" and "t \<equiv> lb_profit_target lb"
  shows "\<exists>vec. window_features lb (map row_candle past) = Inr (Some vec)
    \<and> label_at lb (map row_candle rs) i = Inr
        (if \<exists>r \<in> set future. close * (1 + t) \<le> or_zero (ph_high r) then Some (vec, 1)
         else if \<exists>r \<in> set future. or_zero (ph_low r) \<le> close * (1 - t) then Some (vec, 0)
         else None)"
proof -
  from assms(2) have i: "MIN_CANDLES \<le> i" "i < length rs - lb_forward lb" by (simp_all add: window_positions_def)
  have i1: "i - 1 < length rs" "sane_row (rs ! (i - 1))" using i assms(1) by auto
  have sub: "set past \<subseteq> set rs" "set future \<subseteq> set rs"
    by (auto simp: past_def future_def dest: in_set_takeD in_set_dropD)
  have len: "length past = MIN_CANDLES" using i by (simp add: past_def)
  have fne: "future \<noteq> []" using i assms(3) by (simp add: future_def)
  have close: "0 < close" using i1(2) by (auto simp: close_def sane_row_def)
  have "\<forall>r \<in> set past. sane_row r" using sub(1) assms(1) by blast
  from window_features_rows [OF this len, of lb] obtain vec
    where vec: "window_features lb (map row_candle past) = Inr (Some vec)" by blast
  have fut: "\<And>r. r \<in> set future \<Longrightarrow> sane_row r" using sub(2) assms(1) by blast
  have hs: "try_map (candle_float ''high'') (map row_candle future) = Inr (map (\<lambda>r. or_zero (ph_high r)) future)"
    and ls: "try_map (candle_float ''low'') (map row_candle future) = Inr (map (\<lambda>r. or_zero (ph_low r)) future)"
    using fut by (induction future) (auto simp: candle_float_row)
  have eqs: "or_zero (ph_close (rs ! (i - Suc 0))) = close" "lb_profit_target lb = t" by (simp_all add: close_def t_def)
  have "label_at lb (map row_candle rs) i =
      Inr (map_option (\<lambda>l. (vec, l)) (move_label t close (map (\<lambda>r. or_zero (ph_high r)) future) (map (\<lambda>r. or_zero (ph_low r)) future)))"
    using vec hs ls fne close i1
    by (simp add: label_at_def Let_def take_map drop_map past_def [symmetric] future_def [symmetric]
        candle_float_row eqs)
  then show ?thesis
    using vec by (simp add: move_label_iff [OF close fne])
qed

abbreviation rising_rows :: "price_row list" where
  "rising_rows \<equiv> replicate 26 flat_row @ replicate 5 (flat_row\<lparr>ph_high := Some 13\<rparr>)"

theorem label_rule_witness:
  "\<exists>vec. label_at (default_labeler ''futures'') (map row_candle rising_rows) 25 = Inr (Some (vec, 1))"
proof -
  have "\<forall>r \<in> set rising_rows. sane_row r" by (auto simp: sane_row_def)
  moreover have "25 \<in> set (window_positions (default_labeler ''futures'') (map row_candle rising_rows))"
    by (simp add: window_positions_def default_labeler_def MIN_CANDLES_def FORWARD_CANDLES_def)
  moreover have "0 < lb_forward (default_labeler ''futures'')" by (simp add: default_labeler_def FORWARD_CANDLES_def)
  moreover have "\<exists>r \<in> set (take 5 (drop 25 rising_rows)). 11 * (1 + PROFIT_TARGET) \<le> or_zero (ph_high r)"
    by (simp add: PROFIT_TARGET_def eval_nat_numeral)
  ultimately show ?thesis
    using label_rule [of rising_rows 25 "default_labeler ''futures''"]
    by (auto simp: default_labeler_def FORWARD_CANDLES_def nth_append split: if_splits)
qed

text \<open>
  Later candles never revise a label. When the labelling of a history with further candles
  appended succeeds, it begins with exactly the results the labelling of the shorter history gives:
  no sample looks past the candles its label is defined on.
\<close>

theorem labels_never_revised:
  assumes "label_windows lb (cs @ ds) = Inr found"
  shows "\<exists>old new. label_windows lb cs = Inr old \<and> found = old @ new"
proof -
  obtain more where "window_positions lb (cs @ ds) = window_positions lb cs @ more"
  proof (cases "MIN_CANDLES \<le> length cs - lb_forward lb")
    case True
    then have "window_positions lb (cs @ ds) = window_positions lb cs
        @ [length cs - lb_forward lb..<length (cs @ ds) - lb_forward lb]"
      using upt_add_eq_append [OF True, of "length ds"] by (simp add: window_positions_def MIN_CANDLES_def)
    with that show ?thesis .
  next
    case False
    then have "window_positions lb cs = []" by (simp add: window_positions_def)
    with that show ?thesis by simp
  qed
  with assms have "try_map (label_at lb (cs @ ds)) (window_positions lb cs @ more) = Inr found"
    by (simp add: label_windows_def)
  from try_map_append [OF this] obtain old new
    where "try_map (label_at lb (cs @ ds)) (window_positions lb cs) = Inr old" "found = old @ new" by blast
  moreover have "try_map (label_at lb (cs @ ds)) (window_positions lb cs) = label_windows lb cs"
    unfolding label_windows_def by (rule try_map_cong) (rule label_at_append)
  ultimately show ?thesis by auto
qed

theorem labels_never_revised_witness:
  "\<exists>old new. label_windows (default_labeler ''futures'') [] = Inr old \<and> [] = old @ new"
  using labels_never_revised [of "default_labeler ''futures''" "[]" "[]" "[]"]
  by (simp add: label_windows_def window_positions_def)

text \<open>
  Labelling the same history again adds nothing and still reports every sample as written: the
  insertion ignores a known hash, and the count does not.
\<close>

theorem relabelling_counts_again:
  assumes "label_history hash now True True prices symbol interval limit lb table = (table', outcome)"
  shows "label_history hash now' True True prices symbol interval limit lb table' = (table', outcome)"
proof (cases "label_windows lb (load_candles_from_db True prices symbol (lb_category lb) interval limit)")
  case (Inl e)
  with assms show ?thesis by (auto simp: label_history_def Let_def split: if_splits)
next
  case (Inr found)
  let ?s = "\<lambda>now. map (historical_sample hash now lb symbol) (List.map_filter id found)"
  have "fold insert_sample (?s now') (fold insert_sample (?s now) table) = fold insert_sample (?s now) table"
  proof (rule fold_insert_known, rule ballI)
    fix r assume "r \<in> set (?s now')"
    then obtain vl where vl: "vl \<in> set (List.map_filter id found)" "r = historical_sample hash now' lb symbol vl" by auto
    then have "historical_sample hash now lb symbol vl \<in> set (?s now)" by simp
    from fold_insert_has [OF this, of table] vl(2)
    show "ls_hash r \<in> ls_hash ` set (fold insert_sample (?s now) table)" by (simp add: historical_sample_def)
  qed
  with assms Inr show ?thesis
    by (auto simp: label_history_def Let_def write_samples_def split: if_splits)
qed



end
