(* ===== verification/Runner_Core.thy ===== *)
theory Runner_Core
  imports Json Feature_Engine Position_Sizer Model_Registry
begin

text \<open>
  What the two runners have in common, \<open>src/botik/runners/futures_runner.py\<close> and
  \<open>src/botik/runners/spot_runner.py\<close>: reading a candle and the book of a message, the buffer of the
  last fifty candles of a symbol, and the measures of an entry signal. Both runners have the same
  text here. Messages are decoded JSON values, whatever their shape; every exception is caught by
  the loop that reads the socket, which then drops the rest of the message.
\<close>

type_synonym price_buf = "(string, (real \<times> real \<times> real) list) dict"

text \<open>\<open>topic.startswith(p)\<close> and \<open>topic.split(".")[-1]\<close>.\<close>

definition starts_with :: "string \<Rightarrow> string \<Rightarrow> bool" where
  "starts_with p s \<longleftrightarrow> take (length p) s = p"

definition topic_symbol :: "string \<Rightarrow> string" where
  "topic_symbol topic = split_last ''.'' topic"

definition read_candle :: "json \<Rightarrow> py_error + real \<times> real \<times> real" where
  "read_candle candle =
     (case json_number candle ''high'' of Inl e \<Rightarrow> Inl e | Inr h \<Rightarrow>
      case json_number candle ''low'' of Inl e \<Rightarrow> Inl e | Inr lo \<Rightarrow>
      case json_number candle ''close'' of Inl e \<Rightarrow> Inl e | Inr c \<Rightarrow> Inr (h, lo, c))"

text \<open>\<open>data if isinstance(data, list) else [data]\<close>.\<close>

definition message_candles :: "json \<Rightarrow> json list" where
  "message_candles data = (case data of JArr xs \<Rightarrow> xs | _ \<Rightarrow> [data])"

definition buffered :: "price_buf \<Rightarrow> string \<Rightarrow> (real \<times> real \<times> real) list" where
  "buffered buf symbol = (case dict_get buf symbol of None \<Rightarrow> [] | Some b \<Rightarrow> b)"

definition push_candle :: "string \<Rightarrow> real \<times> real \<times> real \<Rightarrow> price_buf \<Rightarrow> price_buf" where
  "push_candle symbol candle buf =
     (let b = buffered buf symbol @ [candle] in dict_set symbol (if length b > 50 then tl b else b) buf)"

text \<open>The best bid and ask of a message: the first level of each side, if both sides have one.\<close>

definition level_price :: "json \<Rightarrow> py_error + real" where
  "level_price side =
     (case json_index side 0 of Inl e \<Rightarrow> Inl e | Inr level \<Rightarrow>
      case json_index level 0 of Inl e \<Rightarrow> Inl e | Inr p \<Rightarrow> json_float p)"

definition read_book :: "json \<Rightarrow> py_error + (json \<times> json \<times> real \<times> real) option" where
  "read_book data =
     (case json_get data ''b'' (JArr []) of Inl e \<Rightarrow> Inl e | Inr bids \<Rightarrow>
      case json_get data ''a'' (JArr []) of Inl e \<Rightarrow> Inl e | Inr asks \<Rightarrow>
      if \<not> json_truthy bids \<or> \<not> json_truthy asks then Inr None
      else
        case level_price bids of Inl e \<Rightarrow> Inl e | Inr best_bid \<Rightarrow>
        case level_price asks of Inl e \<Rightarrow> Inl e | Inr best_ask \<Rightarrow>
        Inr (if best_bid \<le> 0 \<or> best_ask \<le> 0 then None else Some (bids, asks, best_bid, best_ask)))"

text \<open>\<open>sum(float(b[1]) for b in bids[:5])\<close>.\<close>

definition side_volume :: "json \<Rightarrow> py_error + real" where
  "side_volume side =
     (case json_head side 5 of Inl e \<Rightarrow> Inl e | Inr levels \<Rightarrow>
      case try_map (\<lambda>level. case json_index level 1 of Inl e \<Rightarrow> Inl e | Inr q \<Rightarrow> json_float q) levels of
        Inl e \<Rightarrow> Inl e | Inr qs \<Rightarrow> Inr (sum_list qs))"

definition book_imbalance :: "real \<Rightarrow> real \<Rightarrow> real" where
  "book_imbalance bid_vol ask_vol =
     (let total = bid_vol + ask_vol in if total > 0 then bid_vol / total else 1 / 2)"

text \<open>
  The measures of an entry: the average true range of the buffer, the move of the mid price in
  basis points against the close five candles back, and the imbalance of the first five levels.
  None of them exists while the buffer is short or the prices are not positive.
\<close>

record entry_measures =
  em_atr :: real
  em_spike_bps :: real
  em_imbalance :: real

definition measure_entry ::
    "(real \<times> real \<times> real) list \<Rightarrow> real \<Rightarrow> json \<Rightarrow> json \<Rightarrow> py_error + entry_measures option" where
  "measure_entry buf mid bids asks =
     (if length buf < 15 then Inr None
      else
        let highs = map fst buf; lows = map (fst \<circ> snd) buf; closes = map (snd \<circ> snd) buf in
        case calc_atr highs lows closes 14 of Inl e \<Rightarrow> Inl e | Inr atr \<Rightarrow>
        if atr \<le> 0 \<or> length closes < 5 then Inr None
        else
          let ref_price = from_end 5 closes in
          if ref_price \<le> 0 then Inr None
          else
            case side_volume bids of Inl e \<Rightarrow> Inl e | Inr bid_vol \<Rightarrow>
            case side_volume asks of Inl e \<Rightarrow> Inl e | Inr ask_vol \<Rightarrow>
            Inr (Some \<lparr>em_atr = atr, em_spike_bps = (mid - ref_price) / ref_price * 10000,
                       em_imbalance = book_imbalance bid_vol ask_vol\<rparr>))"

section \<open>The buffer\<close>

text \<open>The candles of a symbol the buffer has seen; it keeps the last fifty.\<close>

lemma buffered_push:
  "buffered (push_candle sy c buf) sy' =
     (if sy' = sy then (let b = buffered buf sy @ [c] in if length b > 50 then tl b else b) else buffered buf sy')"
  by (simp add: buffered_def push_candle_def Let_def dict_get_set)

lemma last_n_push: "0 < n \<Longrightarrow> (let b = last_n n xs @ [x] in if length b > n then tl b else b) = last_n n (xs @ [x])"
proof (cases "length xs < n")
  case True
  moreover assume "0 < n"
  ultimately show ?thesis by (simp add: last_n_def Let_def)
next
  case False
  moreover assume "0 < n"
  moreover have "drop (length xs - n) xs \<noteq> []" using False \<open>0 < n\<close> by simp
  ultimately show ?thesis
    by (simp add: last_n_def Let_def tl_append2 tl_drop Suc_diff_le)
       (metis Suc_diff_le drop_Suc tl_drop not_less)
qed

lemma buffered_window:
  "buffered buf sy = last_n 50 seen \<Longrightarrow> buffered (push_candle sy c buf) sy = last_n 50 (seen @ [c])"
  using last_n_push [of 50 seen c] by (simp add: buffered_push)

end
