(* ===== verification/Futures_Runner.thy ===== *)
theory Futures_Runner
  imports Runner_Core Futures_Paper Spike_Strategies Model_Trainer
begin

text \<open>
  The futures runner, \<open>src/botik/runners/futures_runner.py\<close>: it turns the messages of the public
  feed into calls of the futures paper engine. A candle message feeds the price buffer, lets the
  engine check the exits and hands each closed trade to the outcome learner, which may start a
  training; a book message may open a position. The handlers do not suspend, so a message is one
  atomic step, and the loop that reads the socket catches every exception of a message.

  The clock, the trade identifiers and the failures of single database calls come with each message.
  The prediction function the runner stores refers to the two models of its trainer, which change in
  place, so the state only keeps whether it has been set. The periodic line with statistics and the
  log lines are left out.
\<close>

record futures_config =
  fc_balance :: real
  fc_sizer :: position_sizer
  fc_hold_timeout_ms :: int

record retrain_env =
  re_deploy :: deploy_env
  re_rows_ok :: bool
  re_data :: "sample list"

record tick_env =
  te_now_s :: int
  te_now_ms :: int
  te_load_ok :: bool
  te_faults :: "string \<Rightarrow> bool \<times> bool"
  te_retrain :: "nat \<Rightarrow> retrain_env"

record book_env =
  be_trade_id :: string
  be_now_s :: int
  be_read_ok :: bool
  be_write_ok :: bool
  be_protect_ok :: bool

record 'm futures_runner =
  fn_strategy :: futures_strategy
  fn_trainer :: "'m trainer"
  fn_db :: futures_db
  fn_price_buf :: price_buf
  fn_last_price :: "(string, real) dict"
  fn_connected :: bool
  fn_closed_since :: nat

definition runner_strategy :: "real \<Rightarrow> int \<Rightarrow> futures_strategy" where
  "runner_strategy spike_bps max_positions =
     \<lparr>fs_spike_threshold_bps = spike_bps, fs_imbalance_threshold = 65 / 100, fs_cooldown_sec = 120,
      fs_max_open_positions = max_positions, fs_model = None, fs_last_trigger = Map.empty, fs_last_summary = []\<rparr>"

definition new_futures_runner ::
    "'m sklearn \<Rightarrow> futures_strategy \<Rightarrow> 'm trainer \<Rightarrow> string list \<Rightarrow> futures_db \<Rightarrow> 'm futures_runner" where
  "new_futures_runner sk strategy t symbols db =
     \<lparr>fn_strategy = strategy, fn_trainer = t, fn_db = db,
      fn_price_buf = fold (\<lambda>sy buf. dict_set sy [] buf) symbols [], fn_last_price = [],
      fn_connected = (get_predict_fn sk t \<noteq> None), fn_closed_since = 0\<rparr>"

section \<open>Closed trades\<close>

text \<open>
  The rows the learner reloads: the closed trades of its scope, the latest two hundred. Trades closed
  in the same second keep the order of the table.
\<close>

definition recent_outcomes :: "string \<Rightarrow> futures_db \<Rightarrow> outcome_row list" where
  "recent_outcomes scope db =
     map (\<lambda>t. (ft_net_pnl t, ft_hold_time_ms t, ft_exit_reason t))
       (take WINDOW (sort_key (\<lambda>t. - (case ft_closed_at t of None \<Rightarrow> 0 | Some s \<Rightarrow> s)) (closed_in_scope scope db)))"

definition outcome_query :: "bool \<Rightarrow> string \<Rightarrow> futures_db \<Rightarrow> outcome_row list option" where
  "outcome_query db_ok scope db = (if db_ok then Some (recent_outcomes scope db) else None)"

definition retrain_due :: "bool \<Rightarrow> nat \<Rightarrow> bool" where
  "retrain_due updated closed_since \<longleftrightarrow> updated \<or> closed_since \<ge> 50"

text \<open>The body of the loop over the closed trades; the flag says whether a training ran.\<close>

definition record_closed ::
    "'m sklearn \<Rightarrow> retrain_env \<Rightarrow> close_result \<Rightarrow> 'm futures_runner \<Rightarrow> 'm futures_runner \<times> bool" where
  "record_closed sk env trade r =
     (let (l, updated) = record_trade (cr_net_pnl trade) 0 (cr_exit_reason trade) (tt_outcome (fn_trainer r));
          t = (fn_trainer r)\<lparr>tt_outcome := l\<rparr>; n = Suc (fn_closed_since r) in
      if retrain_due updated n then
        let (t, outcome) = incremental sk (re_deploy env) (outcome_query (re_rows_ok env) (tt_scope t) (fn_db r)) (re_data env) t in
        (r\<lparr>fn_trainer := t, fn_closed_since := 0, fn_connected := fn_connected r \<or> get_predict_fn sk t \<noteq> None\<rparr>, True)
      else (r\<lparr>fn_trainer := t, fn_closed_since := n\<rparr>, False))"

fun record_all_closed ::
    "'m sklearn \<Rightarrow> (nat \<Rightarrow> retrain_env) \<Rightarrow> nat \<Rightarrow> close_result list \<Rightarrow> 'm futures_runner \<Rightarrow> 'm futures_runner \<times> bool list" where
  "record_all_closed sk env i [] r = (r, [])"
| "record_all_closed sk env i (c # cs) r =
     (let (r, b) = record_closed sk (env i) c r; (r, bs) = record_all_closed sk env (Suc i) cs r in (r, b # bs))"

section \<open>Candles\<close>

definition on_candle ::
    "'m sklearn \<Rightarrow> futures_config \<Rightarrow> tick_env \<Rightarrow> string \<Rightarrow> json \<Rightarrow> 'm futures_runner \<Rightarrow> 'm futures_runner \<times> py_error option" where
  "on_candle sk cfg env symbol candle r =
     (case read_candle candle of
        Inl e \<Rightarrow> (r, Some e)
      | Inr (h, lo, c) \<Rightarrow>
          if c \<le> 0 then (r, None)
          else
            let (db, closed) = on_futures_tick (simple_on_tick (fc_hold_timeout_ms cfg)) (te_load_ok env) (te_faults env)
                   (te_now_s env) (te_now_ms env) ''PAPER'' symbol c (fn_db r);
                r = r\<lparr>fn_price_buf := push_candle symbol (h, lo, c) (fn_price_buf r),
                      fn_last_price := dict_set symbol c (fn_last_price r), fn_db := db\<rparr> in
            (fst (record_all_closed sk (te_retrain env) 0 closed r), None))"

text \<open>A candle that raises ends the message; the candles before it have had their effect.\<close>

fun candle_loop ::
    "'m sklearn \<Rightarrow> futures_config \<Rightarrow> (nat \<Rightarrow> tick_env) \<Rightarrow> nat \<Rightarrow> string \<Rightarrow> json list \<Rightarrow> 'm futures_runner
     \<Rightarrow> 'm futures_runner \<times> py_error option" where
  "candle_loop sk cfg env i symbol [] r = (r, None)"
| "candle_loop sk cfg env i symbol (c # cs) r =
     (case on_candle sk cfg (env i) symbol c r of
        (r, Some e) \<Rightarrow> (r, Some e)
      | (r, None) \<Rightarrow> candle_loop sk cfg env (Suc i) symbol cs r)"

definition on_kline ::
    "'m sklearn \<Rightarrow> futures_config \<Rightarrow> (nat \<Rightarrow> tick_env) \<Rightarrow> string \<Rightarrow> json \<Rightarrow> 'm futures_runner
     \<Rightarrow> 'm futures_runner \<times> py_error option" where
  "on_kline sk cfg env symbol data r = candle_loop sk cfg env 0 symbol (message_candles data) r"

section \<open>Books\<close>

definition futures_signal :: "futures_strategy \<Rightarrow> entry_measures \<Rightarrow> real \<Rightarrow> real \<Rightarrow> (string \<times> real) option" where
  "futures_signal f m bid ask =
     (if em_spike_bps m < - fs_spike_threshold_bps f \<and> em_imbalance m > fs_imbalance_threshold f
      then Some (''long'', ask)
      else if em_spike_bps m > fs_spike_threshold_bps f \<and> em_imbalance m < 1 - fs_imbalance_threshold f
      then Some (''short'', bid)
      else None)"

definition enter_position ::
    "futures_config \<Rightarrow> book_env \<Rightarrow> string \<Rightarrow> string \<Rightarrow> real \<Rightarrow> real \<Rightarrow> 'm futures_runner
     \<Rightarrow> 'm futures_runner \<times> (py_error + string option)" where
  "enter_position cfg env symbol side entry atr r =
     (case calc_sl_tp (fc_sizer cfg) entry atr side None None of
        Inl e \<Rightarrow> (r, Inl e)
      | Inr (sl, tp) \<Rightarrow>
          (case calc_qty (fc_sizer cfg) (fc_balance cfg) entry sl False 0 0 0 of
             Inl e \<Rightarrow> (r, Inl e)
           | Inr qty \<Rightarrow>
               if qty \<le> 0 then (r, Inr None)
               else
                 let (db, trade_id) = open_position (be_trade_id env) (be_now_s env) (be_write_ok env)
                        ''PAPER'' ''futures'' symbol side entry qty (fn_db r) in
                 if trade_id = [] then (r\<lparr>fn_db := db\<rparr>, Inr None)
                 else (r\<lparr>fn_db := save_protection (be_protect_ok env) symbol side sl tp db\<rparr>, Inr (Some trade_id))))"

definition on_orderbook ::
    "futures_config \<Rightarrow> book_env \<Rightarrow> string \<Rightarrow> json \<Rightarrow> 'm futures_runner \<Rightarrow> 'm futures_runner \<times> (py_error + string option)" where
  "on_orderbook cfg env symbol data r =
     (case read_book data of
        Inl e \<Rightarrow> (r, Inl e)
      | Inr None \<Rightarrow> (r, Inr None)
      | Inr (Some (bids, asks, bid, ask)) \<Rightarrow>
          if get_open_positions (be_read_ok env) (Some symbol) (fn_db r) \<noteq> [] then (r, Inr None)
          else
            (case measure_entry (buffered (fn_price_buf r) symbol) ((bid + ask) / 2) bids asks of
               Inl e \<Rightarrow> (r, Inl e)
             | Inr None \<Rightarrow> (r, Inr None)
             | Inr (Some m) \<Rightarrow>
                 (case futures_signal (fn_strategy r) m bid ask of
                    None \<Rightarrow> (r, Inr None)
                  | Some (side, entry) \<Rightarrow> enter_position cfg env symbol side entry (em_atr m) r)))"

section \<open>Messages\<close>

record message_env =
  me_ticks :: "nat \<Rightarrow> tick_env"
  me_book :: book_env

definition handle_message ::
    "'m sklearn \<Rightarrow> futures_config \<Rightarrow> message_env \<Rightarrow> json \<Rightarrow> 'm futures_runner \<Rightarrow> 'm futures_runner \<times> py_error option" where
  "handle_message sk cfg env msg r =
     (case json_get msg ''topic'' (JStr []) of
        Inl e \<Rightarrow> (r, Some e)
      | Inr (JStr topic) \<Rightarrow>
          (case json_get msg ''data'' (JObj []) of
             Inl e \<Rightarrow> (r, Some e)
           | Inr data \<Rightarrow>
               if starts_with ''kline.'' topic then on_kline sk cfg (me_ticks env) (topic_symbol topic) data r
               else if starts_with ''orderbook.'' topic then
                 (case on_orderbook cfg (me_book env) (topic_symbol topic) data r of
                    (r, Inl e) \<Rightarrow> (r, Some e) | (r, Inr _) \<Rightarrow> (r, None))
               else (r, None))
      | Inr _ \<Rightarrow> (r, Some AttributeError))"

definition futures_runner_step ::
    "'m sklearn \<Rightarrow> futures_config \<Rightarrow> 'm futures_runner \<Rightarrow> message_env \<times> json \<Rightarrow> 'm futures_runner" where
  "futures_runner_step sk cfg r em = fst (handle_message sk cfg (fst em) (snd em) r)"


section \<open>Frames\<close>

lemma record_closed_frame [simp]:
  "fn_db (fst (record_closed sk env c r)) = fn_db r"
  "fn_price_buf (fst (record_closed sk env c r)) = fn_price_buf r"
  "fn_strategy (fst (record_closed sk env c r)) = fn_strategy r"
  by (simp_all add: record_closed_def case_prod_beta Let_def)

lemma record_all_frame [simp]:
  "fn_db (fst (record_all_closed sk env i cs r)) = fn_db r"
  "fn_price_buf (fst (record_all_closed sk env i cs r)) = fn_price_buf r"
  "fn_strategy (fst (record_all_closed sk env i cs r)) = fn_strategy r"
  by (induction cs arbitrary: i r) (simp_all add: case_prod_beta Let_def)

lemma save_protection_trades [simp]: "f_trades (save_protection ok sy sd sl tp db) = f_trades db"
  by (simp add: save_protection_def)

lemma enter_position_frame [simp]:
  "fn_price_buf (fst (enter_position cfg env sy sd entry atr r)) = fn_price_buf r"
  "fn_strategy (fst (enter_position cfg env sy sd entry atr r)) = fn_strategy r"
  "fn_trainer (fst (enter_position cfg env sy sd entry atr r)) = fn_trainer r"
  "fn_closed_since (fst (enter_position cfg env sy sd entry atr r)) = fn_closed_since r"
  by (simp_all add: enter_position_def case_prod_beta Let_def split: sum.split)

lemma on_orderbook_cases:
  obtains "fst (on_orderbook cfg env sy data r) = r"
  | bids asks bid ask m side entry where
    "read_book data = Inr (Some (bids, asks, bid, ask))"
    "get_open_positions (be_read_ok env) (Some sy) (fn_db r) = []"
    "measure_entry (buffered (fn_price_buf r) sy) ((bid + ask) / 2) bids asks = Inr (Some m)"
    "futures_signal (fn_strategy r) m bid ask = Some (side, entry)"
    "on_orderbook cfg env sy data r = enter_position cfg env sy side entry (em_atr m) r"
proof (cases "read_book data")
  case (Inl e)
  with that(1) show ?thesis by (simp add: on_orderbook_def)
next
  case book: (Inr b)
  show ?thesis
  proof (cases b)
    case None
    with book that(1) show ?thesis by (simp add: on_orderbook_def)
  next
    case (Some q)
    obtain bids asks bid ask where q: "q = (bids, asks, bid, ask)" by (cases q) auto
    show ?thesis
    proof (cases "get_open_positions (be_read_ok env) (Some sy) (fn_db r) = []")
      case False
      with book Some q that(1) show ?thesis by (simp add: on_orderbook_def)
    next
      case free: True
      show ?thesis
      proof (cases "measure_entry (buffered (fn_price_buf r) sy) ((bid + ask) / 2) bids asks")
        case (Inl e)
        with book Some q free that(1) show ?thesis by (simp add: on_orderbook_def)
      next
        case m: (Inr mo)
        show ?thesis
        proof (cases mo)
          case None
          with book Some q free m that(1) show ?thesis by (simp add: on_orderbook_def)
        next
          case (Some m')
          with book \<open>b = Some q\<close> q free m that show ?thesis
            by (cases "futures_signal (fn_strategy r) m' bid ask") (auto simp: on_orderbook_def)
        qed
      qed
    qed
  qed
qed

section \<open>Open trades\<close>

text \<open>What a tick does to a row: it stays as it is, or it is closed.\<close>

definition kept :: "futures_trade \<Rightarrow> futures_trade \<Rightarrow> bool" where
  "kept t t' \<longleftrightarrow> ft_symbol t' = ft_symbol t \<and> (ft_closed_at t' = None \<longrightarrow> t' = t)"

lemma kept_refl [simp]: "kept t t" by (simp add: kept_def)

lemma kept_trans: "kept t u \<Longrightarrow> kept u v \<Longrightarrow> kept t v" by (auto simp: kept_def)

lemma all_kept_refl [simp]: "list_all2 kept ts ts" by (simp add: list_all2_refl)

lemma all_kept_trans: "list_all2 kept ts us \<Longrightarrow> list_all2 kept us vs \<Longrightarrow> list_all2 kept ts vs"
  using list_all2_trans [of kept kept kept] kept_trans by blast

lemma close_position_kept:
  "list_all2 kept (f_trades db) (f_trades (fst (close_position s ms ok acc tid sy sd x q r e op db)))"
  by (simp add: close_position_def Let_def list_all2_conv_all_nth) (simp add: kept_def)

lemma tick_row_kept:
  "list_all2 kept (f_trades (fst dc)) (f_trades (fst (tick_row on_tick faults s ms acc sy m row dc)))"
  "f_protection (fst (tick_row on_tick faults s ms acc sy m row dc)) = f_protection (fst dc)"
  using close_position_kept [of "update_mark_price (fst (faults (p_trade_id (row_position sy m row)))) acc sy
      (p_side (row_position sy m row)) m (unrealized_pnl (row_position sy m row)) (fst dc)"]
  by (auto simp: tick_row_def case_prod_beta Let_def close_position_trades(2))

lemma on_futures_tick_kept:
  "list_all2 kept (f_trades db) (f_trades (fst (on_futures_tick on_tick ok faults s ms acc sy m db)))
   \<and> f_protection (fst (on_futures_tick on_tick ok faults s ms acc sy m db)) = f_protection db"
proof -
  have "list_all2 kept (f_trades (fst dc)) (f_trades (fst (fold (tick_row on_tick faults s ms acc sy m) rows dc)))
      \<and> f_protection (fst (fold (tick_row on_tick faults s ms acc sy m) rows dc)) = f_protection (fst dc)" for rows dc
  proof (induction rows arbitrary: dc)
    case Nil
    then show ?case by simp
  next
    case (Cons row rows)
    note row_kept = tick_row_kept [where dc = dc and on_tick = on_tick and faults = faults and s = s and ms = ms
        and acc = acc and sy = sy and m = m and row = row]
    from Cons [of "tick_row on_tick faults s ms acc sy m row dc"] row_kept
    show ?case by (auto intro: all_kept_trans)
  qed
  from this [of "(db, [])"] show ?thesis by (simp add: on_futures_tick_def)
qed

definition open_in :: "string \<Rightarrow> futures_trade list \<Rightarrow> futures_trade list" where
  "open_in sy ts = filter (\<lambda>t. ft_symbol t = sy \<and> ft_closed_at t = None) ts"

lemma kept_open:
  assumes "list_all2 kept ts us"
  shows "length (open_in sy us) \<le> length (open_in sy ts)"
  using assms
proof (induction rule: list_all2_induct)
  case Nil
  then show ?case by simp
next
  case (Cons t ts u us)
  show ?case
  proof (cases "ft_closed_at u = None")
    case True
    with Cons show ?thesis by (simp add: open_in_def kept_def)
  next
    case False
    with Cons show ?thesis by (auto simp: open_in_def)
  qed
qed

lemma kept_member:
  assumes "list_all2 kept ts us" and "u \<in> set us" and "ft_closed_at u = None"
  shows "u \<in> set ts"
proof -
  from assms(2) obtain n where n: "n < length us" "us ! n = u" by (auto simp: in_set_conv_nth)
  with assms(1) have "kept (ts ! n) u" "n < length ts" by (auto simp: list_all2_conv_all_nth)
  with assms(3) show ?thesis by (auto simp: kept_def)
qed

text \<open>At most one open trade per symbol, and levels stored for each open trade.\<close>

definition protected_db :: "futures_db \<Rightarrow> bool" where
  "protected_db db \<longleftrightarrow> (\<forall>sy. length (open_in sy (f_trades db)) \<le> 1)
     \<and> (\<forall>t \<in> set (f_trades db). ft_closed_at t = None \<longrightarrow> dict_get (f_protection db) (ft_symbol t, ft_side t) \<noteq> None)"

lemma tick_protected:
  assumes "protected_db db"
  shows "protected_db (fst (on_futures_tick on_tick ok faults s ms acc sy m db))"
proof -
  note k = on_futures_tick_kept [of db on_tick ok faults s ms acc sy m]
  have "length (open_in sy' (f_trades (fst (on_futures_tick on_tick ok faults s ms acc sy m db)))) \<le> 1" for sy'
    using kept_open [OF conjunct1 [OF k], of sy'] assms order_trans by (fastforce simp: protected_db_def)
  moreover have "dict_get (f_protection db) (ft_symbol t, ft_side t) \<noteq> None"
    if "t \<in> set (f_trades (fst (on_futures_tick on_tick ok faults s ms acc sy m db)))" "ft_closed_at t = None" for t
    using kept_member [OF conjunct1 [OF k] that] that(2) assms by (simp add: protected_db_def)
  ultimately show ?thesis using conjunct2 [OF k] by (simp add: protected_db_def)
qed

lemma on_candle_db:
  "fn_db (fst (on_candle sk cfg env sy candle r)) =
     (case read_candle candle of Inl e \<Rightarrow> fn_db r
      | Inr (h, lo, c) \<Rightarrow> if c \<le> 0 then fn_db r
          else fst (on_futures_tick (simple_on_tick (fc_hold_timeout_ms cfg)) (te_load_ok env) (te_faults env)
                 (te_now_s env) (te_now_ms env) ''PAPER'' sy c (fn_db r)))"
  by (simp add: on_candle_def case_prod_beta Let_def split: sum.split)

lemma on_candle_protected: "protected_db (fn_db r) \<Longrightarrow> protected_db (fn_db (fst (on_candle sk cfg env sy candle r)))"
  by (simp add: on_candle_db tick_protected split: sum.split prod.split)

lemma candle_loop_protected:
  "protected_db (fn_db r) \<Longrightarrow> protected_db (fn_db (fst (candle_loop sk cfg env i sy cs r)))"
proof (induction cs arbitrary: i r)
  case Nil
  then show ?case by simp
next
  case (Cons c cs)
  obtain r' e where step: "on_candle sk cfg (env i) sy c r = (r', e)" by fastforce
  with on_candle_protected [OF Cons.prems, of sk cfg "env i" sy c] have "protected_db (fn_db r')" by simp
  with Cons.IH [OF this] step show ?case by (cases e) simp_all
qed

text \<open>The database calls of an entry: the read of the open trades works, and the levels are stored if the trade is.\<close>

definition reliable :: "book_env \<Rightarrow> bool" where
  "reliable env \<longleftrightarrow> be_read_ok env \<and> (be_write_ok env \<longrightarrow> be_protect_ok env) \<and> be_trade_id env \<noteq> []"

lemma enter_position_trades:
  assumes "be_trade_id env \<noteq> []"
  shows "enter_position cfg env sy sd entry atr r = (r', out) \<Longrightarrow>
    (fn_db r' = fn_db r \<and> (\<forall>tid. out \<noteq> Inr (Some tid))) \<or>
    (\<exists>sl tp qty. calc_sl_tp (fc_sizer cfg) entry atr sd None None = Inr (sl, tp)
      \<and> calc_qty (fc_sizer cfg) (fc_balance cfg) entry sl False 0 0 0 = Inr qty \<and> 0 < qty
      \<and> be_write_ok env \<and> out = Inr (Some (be_trade_id env))
      \<and> f_trades (fn_db r') = f_trades (fn_db r) @ [new_trade (be_trade_id env) sy sd entry qty ''futures'' (be_now_s env)]
      \<and> f_protection (fn_db r') = (if be_protect_ok env then dict_set (sy, sd) (sl, tp) (f_protection (fn_db r)) else f_protection (fn_db r)))"
  using assms
  by (auto simp: enter_position_def open_position_def save_protection_def Let_def split: sum.splits if_splits)

lemma enter_position_protected:
  assumes "protected_db (fn_db r)" and "reliable env" and "get_open_positions (be_read_ok env) (Some sy) (fn_db r) = []"
  shows "protected_db (fn_db (fst (enter_position cfg env sy sd entry atr r)))"
proof -
  obtain r' out where e: "enter_position cfg env sy sd entry atr r = (r', out)" by fastforce
  from assms(2) have env: "be_read_ok env" "be_trade_id env \<noteq> []" by (simp_all add: reliable_def)
  from assms(3) env(1) have free: "open_in sy (f_trades (fn_db r)) = []"
    by (auto simp: get_open_positions_def open_in_def filter_empty_conv)
  from enter_position_trades [OF env(2) e] show ?thesis
  proof (elim disjE exE conjE)
    assume "fn_db r' = fn_db r"
    with e assms(1) show ?thesis by simp
  next
    fix sl tp qty
    assume "be_write_ok env"
      and ts: "f_trades (fn_db r') = f_trades (fn_db r) @ [new_trade (be_trade_id env) sy sd entry qty ''futures'' (be_now_s env)]"
      and pr: "f_protection (fn_db r') = (if be_protect_ok env then dict_set (sy, sd) (sl, tp) (f_protection (fn_db r)) else f_protection (fn_db r))"
    with assms(2) have "f_protection (fn_db r') = dict_set (sy, sd) (sl, tp) (f_protection (fn_db r))"
      by (simp add: reliable_def)
    with ts e assms(1) free show ?thesis
      by (auto simp: protected_db_def open_in_def new_trade_def dict_get_set)
  qed
qed

lemma on_orderbook_protected:
  assumes "protected_db (fn_db r)" and "reliable env"
  shows "protected_db (fn_db (fst (on_orderbook cfg env sy data r)))"
  by (rule on_orderbook_cases [of cfg env sy data r])
    (use assms enter_position_protected in \<open>auto simp del: enter_position_frame\<close>)

lemma handle_message_protected:
  assumes "protected_db (fn_db r)" and "reliable (me_book env)"
  shows "protected_db (fn_db (fst (handle_message sk cfg env msg r)))"
proof -
  have ob: "fst (case on_orderbook cfg (me_book env) sy data r of (r, Inl e) \<Rightarrow> (r, Some e) | (r, Inr _) \<Rightarrow> (r, None))
      = fst (on_orderbook cfg (me_book env) sy data r)" for sy data
    by (simp add: case_prod_beta split: sum.split)
  show ?thesis
    using assms candle_loop_protected on_orderbook_protected
    by (auto simp: handle_message_def on_kline_def ob split: sum.split json.split)
qed

interpretation protected_run: guarded_run "futures_runner_step sk cfg" "\<lambda>em. reliable (me_book (fst em))"
    "\<lambda>r. protected_db (fn_db r)" for sk cfg
  by unfold_locales (simp add: futures_runner_step_def handle_message_protected)


section \<open>Trainings\<close>

text \<open>The two counters of closed trades, the runner's and the learner's, agree.\<close>

definition counting :: "'m futures_runner \<Rightarrow> bool" where
  "counting r \<longleftrightarrow> learner_inv (tt_outcome (fn_trainer r)) \<and> ol_since_last_update (tt_outcome (fn_trainer r)) = fn_closed_since r"

lemma load_from_db_since [simp]: "ol_since_last_update (load_from_db rows l) = ol_since_last_update l"
  by (simp add: load_from_db_def Let_def split: option.split)

lemma suggest_threshold_since [simp]:
  "ol_since_last_update (fst (suggest_threshold t l)) = ol_since_last_update l"
  by (simp add: suggest_threshold_def get_outcome_stats_def case_prod_beta Let_def)

lemma incremental_learner:
  assumes "learner_inv (tt_outcome t)"
  shows "learner_inv (tt_outcome (fst (incremental sk env rows data t)))
    \<and> ol_since_last_update (tt_outcome (fst (incremental sk env rows data t))) = ol_since_last_update (tt_outcome t)"
proof -
  have "learner_inv (fst (suggest_threshold th (load_from_db rows (tt_outcome t))))" for th
    by (intro suggest_threshold_inv load_from_db_inv assms)
  with assms show ?thesis by (simp add: incremental_def case_prod_beta Let_def)
qed

lemma record_closed_counting:
  assumes "counting r"
  shows "snd (record_closed sk env c r) \<longleftrightarrow> Suc (fn_closed_since r) = 50"
    and "counting (fst (record_closed sk env c r))"
    and "fn_closed_since (fst (record_closed sk env c r)) = Suc (fn_closed_since r) mod 50"
proof -
  let ?l = "tt_outcome (fn_trainer r)"
  let ?rt = "record_trade (cr_net_pnl c) 0 (cr_exit_reason c) ?l"
  from assms have inv: "learner_inv ?l" and since: "ol_since_last_update ?l = fn_closed_since r" by (simp_all add: counting_def)
  then have lt: "fn_closed_since r < 50" by (simp add: learner_inv_def RETRAIN_EVERY_N_def)
  note rt = record_trade_inv [OF inv, of "cr_net_pnl c" 0 "cr_exit_reason c", unfolded since RETRAIN_EVERY_N_def]
  have due: "retrain_due (snd ?rt) (Suc (fn_closed_since r)) \<longleftrightarrow> Suc (fn_closed_since r) = 50"
    using rt(2) lt by (auto simp: retrain_due_def)
  show "snd (record_closed sk env c r) \<longleftrightarrow> Suc (fn_closed_since r) = 50"
    using due by (simp add: record_closed_def case_prod_beta Let_def)
  show "fn_closed_since (fst (record_closed sk env c r)) = Suc (fn_closed_since r) mod 50"
    using due lt by (auto simp: record_closed_def case_prod_beta Let_def)
  show "counting (fst (record_closed sk env c r))"
    using due rt(1,3) incremental_learner [of "(fn_trainer r)\<lparr>tt_outcome := fst ?rt\<rparr>"]
    by (simp add: record_closed_def case_prod_beta Let_def counting_def)
qed

lemma record_all_counting:
  assumes "counting r"
  shows "counting (fst (record_all_closed sk env i cs r))
    \<and> fn_closed_since (fst (record_all_closed sk env i cs r)) = (fn_closed_since r + length cs) mod 50
    \<and> snd (record_all_closed sk env i cs r) = map (\<lambda>j. (fn_closed_since r + j) mod 50 = 0) [1..<Suc (length cs)]"
  using assms
proof (induction cs arbitrary: i r)
  case Nil
  then have "fn_closed_since r < 50" by (simp add: counting_def learner_inv_def RETRAIN_EVERY_N_def)
  with Nil show ?case by simp
next
  case (Cons c cs)
  let ?r = "fst (record_closed sk (env i) c r)"
  from Cons.prems have lt: "fn_closed_since r < 50" by (simp add: counting_def learner_inv_def RETRAIN_EVERY_N_def)
  note one = record_closed_counting [OF Cons.prems, of sk "env i" c]
  have flag: "snd (record_closed sk (env i) c r) \<longleftrightarrow> (fn_closed_since r + 1) mod 50 = 0"
    using one(1) lt by presburger
  have upt: "[Suc 0..<Suc (Suc (length cs))] = Suc 0 # map Suc [Suc 0..<Suc (length cs)]"
    by (simp add: map_Suc_upt upt_conv_Cons del: upt_Suc)
  have shift: "(Suc (fn_closed_since r) mod 50 + k) mod 50 = (fn_closed_since r + Suc k) mod 50" for k
    by (metis add_Suc_shift mod_add_left_eq)
  from Cons.IH [OF one(2), of "Suc i", unfolded one(3)] flag show ?case
    by (simp add: case_prod_beta Let_def shift upt comp_def del: upt_Suc)
qed

lemma on_candle_counting:
  assumes "counting r"
  shows "counting (fst (on_candle sk cfg env sy candle r))"
proof -
  have "counting (fst (record_all_closed sk env' 0 cs (r\<lparr>fn_price_buf := b, fn_last_price := p, fn_db := db\<rparr>)))" for env' cs b p db
    using assms by (intro record_all_counting [THEN conjunct1]) (simp add: counting_def)
  with assms show ?thesis by (auto simp: on_candle_def case_prod_beta Let_def split: sum.split)
qed

lemma candle_loop_counting: "counting r \<Longrightarrow> counting (fst (candle_loop sk cfg env i sy cs r))"
proof (induction cs arbitrary: i r)
  case Nil
  then show ?case by simp
next
  case (Cons c cs)
  obtain r' e where step: "on_candle sk cfg (env i) sy c r = (r', e)" by fastforce
  with on_candle_counting [OF Cons.prems, of sk cfg "env i" sy c] have "counting r'" by simp
  with Cons.IH [OF this] step show ?case by (cases e) simp_all
qed

lemma on_orderbook_counting: "counting r \<Longrightarrow> counting (fst (on_orderbook cfg env sy data r))"
  by (rule on_orderbook_cases [of cfg env sy data r]) (auto simp: counting_def)

lemma orderbook_message [simp]:
  "fst (case on_orderbook cfg env sy data r of (r, Inl e) \<Rightarrow> (r, Some e) | (r, Inr x) \<Rightarrow> (r, None))
     = fst (on_orderbook cfg env sy data r)"
  by (simp add: case_prod_beta split: sum.split)

interpretation counting_run: guarded_run "futures_runner_step sk cfg" "\<lambda>_. True" counting for sk cfg
proof unfold_locales
  fix r :: "'a futures_runner" and em :: "message_env \<times> json"
  assume "counting r"
  then show "counting (futures_runner_step sk cfg r em)"
    by (auto simp: futures_runner_step_def handle_message_def on_kline_def candle_loop_counting on_orderbook_counting
        split: sum.split json.split)
qed

section \<open>The price buffer\<close>

text \<open>The candles of a message the runner takes in: those with a positive close before the first that raises.\<close>

fun accepted_candles :: "json list \<Rightarrow> (real \<times> real \<times> real) list" where
  "accepted_candles [] = []"
| "accepted_candles (c # cs) =
     (case read_candle c of Inl e \<Rightarrow> []
      | Inr hlc \<Rightarrow> (if snd (snd hlc) \<le> 0 then [] else [hlc]) @ accepted_candles cs)"

definition message_accepts :: "string \<Rightarrow> json \<Rightarrow> (real \<times> real \<times> real) list" where
  "message_accepts sy msg =
     (case (json_get msg ''topic'' (JStr []), json_get msg ''data'' (JObj [])) of
        (Inr (JStr topic), Inr data) \<Rightarrow>
          if starts_with ''kline.'' topic \<and> topic_symbol topic = sy then accepted_candles (message_candles data) else []
      | _ \<Rightarrow> [])"

lemma on_candle_buf:
  "fn_price_buf (fst (on_candle sk cfg env sy candle r)) =
     (case read_candle candle of Inl e \<Rightarrow> fn_price_buf r
      | Inr hlc \<Rightarrow> if snd (snd hlc) \<le> 0 then fn_price_buf r else push_candle sy hlc (fn_price_buf r))"
  "snd (on_candle sk cfg env sy candle r) = (case read_candle candle of Inl e \<Rightarrow> Some e | Inr hlc \<Rightarrow> None)"
  by (simp_all add: on_candle_def case_prod_beta Let_def split: sum.split)

lemma buffered_push_other: "sy' \<noteq> sy \<Longrightarrow> buffered (push_candle sy c buf) sy' = buffered buf sy'"
  by (simp add: buffered_push)

lemma candle_loop_buf:
  "buffered (fn_price_buf r) sy = last_n 50 seen \<Longrightarrow>
   buffered (fn_price_buf (fst (candle_loop sk cfg env i sy cs r))) sy = last_n 50 (seen @ accepted_candles cs)"
proof (induction cs arbitrary: i r seen)
  case Nil
  then show ?case by simp
next
  case (Cons c cs)
  obtain r' e where step: "on_candle sk cfg (env i) sy c r = (r', e)" by fastforce
  note buf = on_candle_buf [of sk cfg "env i" sy c r, unfolded step fst_conv snd_conv]
  show ?case
  proof (cases "read_candle c")
    case (Inl x)
    with buf Cons.prems step show ?thesis by simp
  next
    case (Inr hlc)
    let ?seen = "seen @ (if snd (snd hlc) \<le> 0 then [] else [hlc])"
    from Inr buf Cons.prems have "buffered (fn_price_buf r') sy = last_n 50 ?seen" by (simp add: buffered_window)
    from Cons.IH [OF this, of "Suc i"] Inr buf step show ?thesis by simp
  qed
qed

lemma candle_loop_buf_other:
  "sy' \<noteq> sy \<Longrightarrow> buffered (fn_price_buf (fst (candle_loop sk cfg env i sy cs r))) sy' = buffered (fn_price_buf r) sy'"
proof (induction cs arbitrary: i r)
  case Nil
  then show ?case by simp
next
  case (Cons c cs)
  obtain r' e where step: "on_candle sk cfg (env i) sy c r = (r', e)" by fastforce
  note buf = on_candle_buf [of sk cfg "env i" sy c r, unfolded step fst_conv snd_conv]
  show ?case
  proof (cases "read_candle c")
    case (Inl x)
    with buf step show ?thesis by simp
  next
    case (Inr hlc)
    from Inr buf Cons.prems have "buffered (fn_price_buf r') sy' = buffered (fn_price_buf r) sy'" by (simp add: buffered_push_other)
    with Cons.IH [OF Cons.prems, of "Suc i" r'] Inr buf step show ?thesis by simp
  qed
qed

lemma on_orderbook_buf [simp]: "fn_price_buf (fst (on_orderbook cfg env sy data r)) = fn_price_buf r"
  by (rule on_orderbook_cases [of cfg env sy data r]) simp_all

lemma handle_message_buf:
  assumes "buffered (fn_price_buf r) sy = last_n 50 seen"
  shows "buffered (fn_price_buf (fst (handle_message sk cfg env msg r))) sy = last_n 50 (seen @ message_accepts sy msg)"
proof (cases "json_get msg ''topic'' (JStr [])")
  case (Inl e)
  with assms show ?thesis by (simp add: handle_message_def message_accepts_def)
next
  case topic: (Inr v)
  show ?thesis
  proof (cases "\<exists>t. v = JStr t")
    case False
    with topic assms show ?thesis by (cases v) (simp_all add: handle_message_def message_accepts_def)
  next
    case True
    then obtain t where v: "v = JStr t" by blast
    show ?thesis
    proof (cases "json_get msg ''data'' (JObj [])")
      case (Inl e)
      with topic v assms show ?thesis by (simp add: handle_message_def message_accepts_def)
    next
      case (Inr data)
      with topic v assms show ?thesis
        by (cases "topic_symbol t = sy")
          (auto simp: handle_message_def message_accepts_def on_kline_def candle_loop_buf [OF assms] candle_loop_buf_other)
    qed
  qed
qed


lemma run_buf:
  "buffered (fn_price_buf r) sy = last_n 50 seen \<Longrightarrow>
   buffered (fn_price_buf (run (futures_runner_step sk cfg) r es)) sy = last_n 50 (seen @ concat (map (message_accepts sy \<circ> snd) es))"
proof (induction es arbitrary: r seen)
  case Nil
  then show ?case by simp
next
  case (Cons em es)
  have "buffered (fn_price_buf (futures_runner_step sk cfg r em)) sy = last_n 50 (seen @ message_accepts sy (snd em))"
    using handle_message_buf [OF Cons.prems] by (simp add: futures_runner_step_def)
  from Cons.IH [OF this] show ?case by simp
qed

section \<open>Properties\<close>

text \<open>
  C38: one protected position. Over any messages, well formed or not, and whatever database calls of
  the exits fail, as long as the read of the open trades works and the levels of an entry are stored
  when the entry is, the table has at most one open trade per symbol, and each open trade has its
  stop-loss and take-profit levels stored.
\<close>

theorem futures_one_protected_position:
  assumes "protected_db (fn_db r)" and "list_all (\<lambda>em. reliable (me_book (fst em))) es"
  shows "protected_db (fn_db (run (futures_runner_step sk cfg) r es))"
  using assms by (rule protected_run.inv_run)

abbreviation demo_sklearn :: "unit sklearn" where
  "demo_sklearn \<equiv> \<lparr>sk_new = \<lambda>_. (), sk_grow = id, sk_fit = \<lambda>m _. (m, False), sk_fit_regimes = \<lambda>m _. (m, False),
     sk_cross_val = \<lambda>_ _ _. None, sk_split = \<lambda>_. None, sk_accuracy = \<lambda>_ _. None, sk_proba = \<lambda>_ _. None,
     sk_regime = \<lambda>_ _. None\<rparr>"

abbreviation demo_trainer :: "unit trainer" where
  "demo_trainer \<equiv> new_trainer False None ''futures'' \<lparr>rg_files = [], rg_checkpoints = [], rg_runs = []\<rparr>"

abbreviation demo_runner_config :: futures_config where
  "demo_runner_config \<equiv> \<lparr>fc_balance = 10000, fc_sizer = default_sizer, fc_hold_timeout_ms = 0\<rparr>"

abbreviation demo_retrain :: retrain_env where
  "demo_retrain \<equiv> \<lparr>re_deploy = \<lparr>de_now = 0, de_ids = ([], []), de_query_ok = False, de_write_ok = (False, False)\<rparr>,
     re_rows_ok = False, re_data = []\<rparr>"

abbreviation demo_tick_env :: tick_env where
  "demo_tick_env \<equiv> \<lparr>te_now_s = 100, te_now_ms = 100000, te_load_ok = True, te_faults = (\<lambda>_. (True, True)),
     te_retrain = (\<lambda>_. demo_retrain)\<rparr>"

abbreviation demo_book_env :: book_env where
  "demo_book_env \<equiv> \<lparr>be_trade_id = ''t9'', be_now_s = 100, be_read_ok = True, be_write_ok = True, be_protect_ok = True\<rparr>"

text \<open>Fifteen candles at 100, and a book two percent lower with ten times more bids than asks.\<close>

abbreviation demo_runner :: "unit futures_runner" where
  "demo_runner \<equiv> \<lparr>fn_strategy = runner_strategy 80 3, fn_trainer = demo_trainer,
     fn_db = \<lparr>f_positions = [], f_trades = [], f_protection = []\<rparr>,
     fn_price_buf = [(''X'', replicate 15 (101, 99, 100))], fn_last_price = [], fn_connected = False, fn_closed_since = 0\<rparr>"

abbreviation demo_book :: json where
  "demo_book \<equiv> JObj [(''b'', JArr [JArr [JNum 97, JNum 10]]), (''a'', JArr [JArr [JNum 98, JNum 1]])]"

theorem futures_one_protected_position_witness:
  "protected_db (fn_db (run (futures_runner_step demo_sklearn demo_runner_config) demo_runner
     [(\<lparr>me_ticks = \<lambda>_. demo_tick_env, me_book = demo_book_env\<rparr>, JObj [(''topic'', JStr ''orderbook.50.X''), (''data'', demo_book)])]))"
  by (rule futures_one_protected_position) (simp_all add: protected_db_def reliable_def open_in_def)

text \<open>
  What an entry means. A book message opens a trade only when the buffer holds fifteen candles
  or more with a positive range, the mid price has moved against the buffer by more than the
  threshold and the book leans the other way; the trade is a long one at the ask after a fall and a
  short one at the bid after a rise, its quantity is positive and keeps within the cap on the
  position and the risk budget down to the stop, up to rounding, it is appended to the table, and
  the levels of the sizer are stored with it.
\<close>

theorem futures_entry_conditions:
  fixes cfg env
  assumes "on_orderbook cfg env sy data r = (r', Inr (Some tid))" and "be_trade_id env \<noteq> []"
    and "0 \<le> fc_balance cfg" and "0 \<le> risk_pct (fc_sizer cfg)" and "0 \<le> max_position_pct (fc_sizer cfg)"
  defines "z \<equiv> fc_sizer cfg" and "bal \<equiv> fc_balance cfg" and "thr \<equiv> fs_spike_threshold_bps (fn_strategy r)"
    and "lean \<equiv> fs_imbalance_threshold (fn_strategy r)"
  shows "\<exists>bids asks bid ask m side entry sl tp qty.
    read_book data = Inr (Some (bids, asks, bid, ask))
    \<and> measure_entry (buffered (fn_price_buf r) sy) ((bid + ask) / 2) bids asks = Inr (Some m)
    \<and> 15 \<le> length (buffered (fn_price_buf r) sy) \<and> 0 < em_atr m
    \<and> (side = ''long'' \<and> entry = ask \<and> em_spike_bps m < - thr \<and> em_imbalance m > lean
       \<or> side = ''short'' \<and> entry = bid \<and> em_spike_bps m > thr \<and> em_imbalance m < 1 - lean)
    \<and> calc_sl_tp z entry (em_atr m) side None None = Inr (sl, tp)
    \<and> 0 < qty \<and> qty * entry \<le> bal * max_position_pct z + entry / 2 / 10 ^ 8
    \<and> qty * \<bar>entry - sl\<bar> \<le> bal * risk_pct z + \<bar>entry - sl\<bar> / 2 / 10 ^ 8
    \<and> f_trades (fn_db r') = f_trades (fn_db r) @ [new_trade tid sy side entry qty ''futures'' (be_now_s env)]
    \<and> (be_protect_ok env \<longrightarrow> dict_get (f_protection (fn_db r')) (sy, side) = Some (sl, tp))"
proof (rule on_orderbook_cases [of cfg env sy data r])
  assume "fst (on_orderbook cfg env sy data r) = r"
  with assms(1) have "r' = r" by simp
  then show ?thesis using assms(1,2) by (auto simp: on_orderbook_def dest!: enter_position_trades [OF assms(2)]
      split: sum.splits option.splits prod.splits if_splits)
next
  fix bids asks bid ask m side entry
  assume book: "read_book data = Inr (Some (bids, asks, bid, ask))"
    and m: "measure_entry (buffered (fn_price_buf r) sy) ((bid + ask) / 2) bids asks = Inr (Some m)"
    and sig: "futures_signal (fn_strategy r) m bid ask = Some (side, entry)"
    and ent: "on_orderbook cfg env sy data r = enter_position cfg env sy side entry (em_atr m) r"
  have pos: "0 < bid" "0 < ask" using book by (auto simp: read_book_def split: sum.splits if_splits)
  have atr: "15 \<le> length (buffered (fn_price_buf r) sy)" "0 < em_atr m"
    using m by (auto simp: measure_entry_def Let_def split: sum.splits if_splits)
  have side: "side = ''long'' \<and> entry = ask \<and> em_spike_bps m < - thr \<and> em_imbalance m > lean
      \<or> side = ''short'' \<and> entry = bid \<and> em_spike_bps m > thr \<and> em_imbalance m < 1 - lean"
    using sig by (auto simp: futures_signal_def thr_def lean_def split: if_splits)
  with pos have entry: "0 < entry" by auto
  from ent assms(1) have "enter_position cfg env sy side entry (em_atr m) r = (r', Inr (Some tid))" by simp
  from enter_position_trades [OF assms(2) this] obtain sl tp qty where
    sltp: "calc_sl_tp z entry (em_atr m) side None None = Inr (sl, tp)"
    and qty: "calc_qty z bal entry sl False 0 0 0 = Inr qty" "0 < qty"
    and tid: "tid = be_trade_id env"
    and ts: "f_trades (fn_db r') = f_trades (fn_db r) @ [new_trade (be_trade_id env) sy side entry qty ''futures'' (be_now_s env)]"
    and pr: "f_protection (fn_db r') = (if be_protect_ok env then dict_set (sy, side) (sl, tp) (f_protection (fn_db r)) else f_protection (fn_db r))"
    unfolding z_def bal_def by auto
  from qty(1) have "qty = risk_qty z bal entry sl" by (simp add: calc_qty_def)
  with risk_qty_bounds [of bal entry z sl] assms(3-5) entry
  have caps: "qty * entry \<le> bal * max_position_pct z + entry / 2 / 10 ^ 8"
    "qty * \<bar>entry - sl\<bar> \<le> bal * risk_pct z + \<bar>entry - sl\<bar> / 2 / 10 ^ 8"
    by (simp_all add: z_def bal_def)
  have stored: "be_protect_ok env \<longrightarrow> dict_get (f_protection (fn_db r')) (sy, side) = Some (sl, tp)"
    using pr by (simp add: dict_get_set)
  show ?thesis
    using book m atr side sltp qty(2) caps ts [folded tid] stored by blast
qed


text \<open>The demonstration book is an entry.\<close>

lemma demo_entry:
  assumes "be_read_ok env = False \<or> open_in ''X'' (f_trades db) = []" and "be_write_ok env" and "be_trade_id env \<noteq> []"
    and "be_trade_id env \<notin> ft_trade_id ` set (f_trades db)"
  shows "\<exists>r'. on_orderbook demo_runner_config env ''X'' demo_book (demo_runner\<lparr>fn_db := db\<rparr>) = (r', Inr (Some (be_trade_id env)))"
proof -
  let ?m = "\<lparr>em_atr = 2, em_spike_bps = - 250, em_imbalance = 10 / 11\<rparr>"
  have book: "read_book demo_book = Inr (Some (JArr [JArr [JNum 97, JNum 10]], JArr [JArr [JNum 98, JNum 1]], 97, 98))"
    by (simp add: read_book_def level_price_def py_index_def)
  have atr: "calc_atr (replicate 15 101) (replicate 15 99) (replicate 15 100) 14 = Inr 2"
    by (simp add: calc_atr_def true_range_def py_index_def last_n_def eval_nat_numeral)
  have m: "measure_entry (replicate 15 (101, 99, 100)) (195 / 2) (JArr [JArr [JNum 97, JNum 10]]) (JArr [JArr [JNum 98, JNum 1]]) = Inr (Some ?m)"
    using atr by (simp add: measure_entry_def Let_def from_end_def side_volume_def py_index_def book_imbalance_def)
  have sig: "futures_signal (runner_strategy 80 3) ?m 97 98 = Some (''long'', 98)"
    by (simp add: futures_signal_def runner_strategy_def)
  have sltp: "calc_sl_tp default_sizer 98 2 ''long'' None None = Inr (95, 103)"
    using round_half_even_of_int [of "95 * 10 ^ 8"] round_half_even_of_int [of "103 * 10 ^ 8"]
    by (simp add: calc_sl_tp_def default_sizer_def DEFAULT_ATR_SL_MULT_def DEFAULT_ATR_TP_MULT_def MIN_RR_RATIO_def
        py_round_def Let_def py_divide_def)
  obtain q where q: "calc_qty default_sizer 10000 98 95 False 0 0 0 = Inr q" "0 < q"
  proof
    show "calc_qty default_sizer 10000 98 95 False 0 0 0 = Inr (py_round 8 (2000 / 98))"
      by (simp add: calc_qty_def risk_qty_def default_sizer_def DEFAULT_RISK_PCT_def min_def)
    show "0 < py_round 8 (2000 / 98)" using py_round_ge [of "2000 / 98" 8] by simp
  qed
  have free: "get_open_positions (be_read_ok env) (Some ''X'') db = []"
    using assms(1) by (auto simp: get_open_positions_def open_in_def filter_empty_conv)
  show ?thesis
    using assms(2-4) q
    by (simp add: on_orderbook_def book buffered_def free m sig enter_position_def sltp open_position_def)
qed

theorem futures_entry_conditions_witness:
  "\<exists>r' side entry qty. on_orderbook demo_runner_config demo_book_env ''X'' demo_book demo_runner = (r', Inr (Some ''t9''))
     \<and> f_trades (fn_db r') = [new_trade ''t9'' ''X'' side entry qty ''futures'' 100] \<and> 0 < qty"
proof -
  have "0 \<le> risk_pct default_sizer" "0 \<le> max_position_pct default_sizer"
    by (simp_all add: default_sizer_def DEFAULT_RISK_PCT_def)
  moreover obtain r' where r': "on_orderbook demo_runner_config demo_book_env ''X'' demo_book demo_runner = (r', Inr (Some ''t9''))"
    using demo_entry [of demo_book_env "\<lparr>f_positions = [], f_trades = [], f_protection = []\<rparr>"] by (auto simp: open_in_def)
  ultimately show ?thesis
    using futures_entry_conditions [OF r'] by auto
qed

text \<open>
  An entry fails open. When the read of the open trades fails, the runner takes the empty
  answer for no position: a book message that opens a trade then adds one to the open trades of the
  symbol, however many there are.
\<close>

theorem failing_read_opens_another:
  assumes "on_orderbook cfg env sy data r = (r', Inr (Some tid))" and "be_trade_id env \<noteq> []" and "\<not> be_read_ok env"
  shows "length (open_in sy (f_trades (fn_db r'))) = Suc (length (open_in sy (f_trades (fn_db r))))"
proof (rule on_orderbook_cases [of cfg env sy data r])
  assume "fst (on_orderbook cfg env sy data r) = r"
  with assms(1) show ?thesis by (auto simp: on_orderbook_def dest!: enter_position_trades [OF assms(2)]
      split: sum.splits option.splits prod.splits if_splits)
next
  fix bids asks bid ask m side entry
  assume "on_orderbook cfg env sy data r = enter_position cfg env sy side entry (em_atr m) r"
  with assms(1) have "enter_position cfg env sy side entry (em_atr m) r = (r', Inr (Some tid))" by simp
  from enter_position_trades [OF assms(2) this] show ?thesis by (auto simp: open_in_def new_trade_def)
qed

theorem failing_read_opens_another_witness:
  "\<exists>r'. on_orderbook demo_runner_config (demo_book_env\<lparr>be_read_ok := False\<rparr>) ''X'' demo_book
      (demo_runner\<lparr>fn_db := \<lparr>f_positions = [], f_trades = [new_trade ''t1'' ''X'' ''long'' 99 1 ''futures'' 90], f_protection = []\<rparr>\<rparr>)
        = (r', Inr (Some ''t9''))
    \<and> length (open_in ''X'' (f_trades (fn_db r'))) = 2"
proof -
  let ?db = "\<lparr>f_positions = [], f_trades = [new_trade ''t1'' ''X'' ''long'' 99 1 ''futures'' 90], f_protection = []\<rparr>"
  obtain r' where r': "on_orderbook demo_runner_config (demo_book_env\<lparr>be_read_ok := False\<rparr>) ''X'' demo_book
      (demo_runner\<lparr>fn_db := ?db\<rparr>) = (r', Inr (Some ''t9''))"
    using demo_entry [of "demo_book_env\<lparr>be_read_ok := False\<rparr>" ?db] by (auto simp: new_trade_def)
  from failing_read_opens_another [OF this] r' show ?thesis by (simp add: open_in_def new_trade_def)
qed

lemma new_runner_counting: "counting (new_futures_runner sk f (new_trainer db_ok rows scope g) symbols db)"
proof -
  have "tt_outcome (new_trainer db_ok rows scope g) = load_from_db rows new_outcome_learner"
    by (simp add: new_trainer_def try_load_models_def Let_def split: option.split prod.split)
  moreover have "learner_inv (load_from_db rows new_outcome_learner)" by (intro load_from_db_inv learner_inv_new)
  ultimately show ?thesis by (simp add: counting_def new_futures_runner_def new_outcome_learner_def)
qed

text \<open>
  A training every fifty trades. The runner counts closed trades and so does its learner; in
  every state a started runner reaches the two counts agree, so the two conditions that start a
  training mean the same, and of any further closed trades exactly those start one that bring the
  number since the start to a multiple of fifty.
\<close>

theorem trainings_every_fifty:
  fixes sk cfg f db_ok rows scope g symbols db es
  defines "r \<equiv> run (futures_runner_step sk cfg) (new_futures_runner sk f (new_trainer db_ok rows scope g) symbols db) es"
  shows "ol_since_last_update (tt_outcome (fn_trainer r)) = fn_closed_since r \<and> fn_closed_since r < 50
    \<and> snd (record_all_closed sk env i cs r) = map (\<lambda>j. (fn_closed_since r + j) mod 50 = 0) [1..<Suc (length cs)]
    \<and> fn_closed_since (fst (record_all_closed sk env i cs r)) = (fn_closed_since r + length cs) mod 50"
proof -
  have c: "counting r" unfolding r_def
    by (rule counting_run.inv_run [OF new_runner_counting]) (simp add: list_all_iff)
  with record_all_counting [OF c, of sk env i cs] show ?thesis
    by (simp add: counting_def learner_inv_def RETRAIN_EVERY_N_def)
qed

lemma buffered_fresh: "buffered (fold (\<lambda>sy buf. dict_set sy [] buf) symbols []) sy = []"
proof -
  have "buffered buf sy = [] \<Longrightarrow> buffered (fold (\<lambda>sy buf. dict_set sy [] buf) symbols buf) sy = []" for buf
    by (induction symbols arbitrary: buf) (auto simp: buffered_def dict_get_set)
  then show ?thesis by (simp add: buffered_def)
qed

text \<open>
  The price buffer. After any messages the buffer of a symbol holds exactly the last fifty
  candles the runner has taken in for it, in order: those with a positive close, up to the first
  candle of a message that cannot be read. Every update of the feed counts as a candle of its own.
\<close>

theorem price_buffer_is_window:
  "buffered (fn_price_buf (run (futures_runner_step sk cfg) (new_futures_runner sk f t symbols db) es)) sy
     = last_n 50 (concat (map (message_accepts sy \<circ> snd) es))"
  using run_buf [of "new_futures_runner sk f t symbols db" sy "[]" sk cfg es]
  by (simp add: new_futures_runner_def buffered_fresh last_n_def)

end
