(* ===== verification/Spot_Runner.thy ===== *)
theory Spot_Runner
  imports Runner_Core Spot_Ledger Model_Trainer
begin

text \<open>
  The spot runner, \<open>src/botik/runners/spot_runner.py\<close>: it turns the messages of the public feed into calls
  of the spot paper engine. Candles feed the price buffer and let the engine check the exit of the
  holding; books may lead to a purchase, which a trained model is meant to filter. As in the futures
  runner a message is one atomic step and the reading loop catches every exception of a message.

  The clock, identifiers, failures of single database calls and the rows the outcome learner reloads
  come with each message. The prediction function the runner stores refers to the two models of its
  trainer, so the state only keeps whether it has been set. The poller of the private account, the
  periodic line with statistics and the log lines are left out.
\<close>

definition SPOT_IMB_THRESHOLD :: real where "SPOT_IMB_THRESHOLD = 62 / 100"

record spot_config =
  sc_balance :: real
  sc_sizer :: position_sizer
  sc_hold_timeout_ms :: int
  sc_spike_bps :: real

record spot_env =
  se_trade_id :: string
  se_order_id :: string
  se_now_ms :: int
  se_write_ok :: "bool \<times> bool"
  se_deploy :: deploy_env
  se_rows :: "outcome_row list option"
  se_data :: "sample list"

record 'm spot_runner =
  sn_trainer :: "'m trainer"
  sn_engine :: spot_engine
  sn_price_buf :: price_buf
  sn_last_price :: "(string, real) dict"
  sn_connected :: bool
  sn_closed_since :: nat

definition new_spot_runner :: "'m sklearn \<Rightarrow> 'm trainer \<Rightarrow> string list \<Rightarrow> spot_engine \<Rightarrow> 'm spot_runner" where
  "new_spot_runner sk t symbols e =
     \<lparr>sn_trainer = t, sn_engine = e, sn_price_buf = fold (\<lambda>sy buf. dict_set sy [] buf) symbols [], sn_last_price = [],
      sn_connected = (get_predict_fn sk t \<noteq> None), sn_closed_since = 0\<rparr>"

section \<open>Closed trades\<close>

definition spot_record_closed :: "'m sklearn \<Rightarrow> spot_env \<Rightarrow> closed_trade \<Rightarrow> 'm spot_runner \<Rightarrow> 'm spot_runner" where
  "spot_record_closed sk env trade r =
     (let (l, updated) = record_trade (ct_net_pnl trade) (ct_hold_time_ms trade) (ct_exit_reason trade) (tt_outcome (sn_trainer r));
          t = (sn_trainer r)\<lparr>tt_outcome := l\<rparr>; n = Suc (sn_closed_since r) in
      if n \<ge> 50 then
        let (t, outcome) = incremental sk (se_deploy env) (se_rows env) (se_data env) t in
        r\<lparr>sn_trainer := t, sn_closed_since := 0, sn_connected := sn_connected r \<or> get_predict_fn sk t \<noteq> None\<rparr>
      else r\<lparr>sn_trainer := t, sn_closed_since := n\<rparr>)"

section \<open>Candles\<close>

definition spot_on_candle ::
    "'m sklearn \<Rightarrow> spot_config \<Rightarrow> spot_env \<Rightarrow> string \<Rightarrow> json \<Rightarrow> 'm spot_runner \<Rightarrow> 'm spot_runner \<times> py_error option" where
  "spot_on_candle sk cfg env symbol candle r =
     (case read_candle candle of
        Inl e \<Rightarrow> (r, Some e)
      | Inr (h, lo, c) \<Rightarrow>
          if c \<le> 0 then (r, None)
          else
            let (engine, closed) = on_price_tick (simple_on_tick (sc_hold_timeout_ms cfg)) (se_trade_id env) (se_order_id env)
                   (se_now_ms env) (fst (se_write_ok env)) (snd (se_write_ok env)) symbol c (sn_engine r);
                r = r\<lparr>sn_price_buf := push_candle symbol (h, lo, c) (sn_price_buf r),
                      sn_last_price := dict_set symbol c (sn_last_price r), sn_engine := engine\<rparr> in
            (fold (spot_record_closed sk env) closed r, None))"

fun spot_candle_loop ::
    "'m sklearn \<Rightarrow> spot_config \<Rightarrow> (nat \<Rightarrow> spot_env) \<Rightarrow> nat \<Rightarrow> string \<Rightarrow> json list \<Rightarrow> 'm spot_runner
     \<Rightarrow> 'm spot_runner \<times> py_error option" where
  "spot_candle_loop sk cfg env i symbol [] r = (r, None)"
| "spot_candle_loop sk cfg env i symbol (c # cs) r =
     (case spot_on_candle sk cfg (env i) symbol c r of
        (r, Some e) \<Rightarrow> (r, Some e)
      | (r, None) \<Rightarrow> spot_candle_loop sk cfg env (Suc i) symbol cs r)"

definition spot_on_kline ::
    "'m sklearn \<Rightarrow> spot_config \<Rightarrow> (nat \<Rightarrow> spot_env) \<Rightarrow> string \<Rightarrow> json \<Rightarrow> 'm spot_runner
     \<Rightarrow> 'm spot_runner \<times> py_error option" where
  "spot_on_kline sk cfg env symbol data r = spot_candle_loop sk cfg env 0 symbol (message_candles data) r"

section \<open>Books\<close>

text \<open>What the stored prediction function computes with the present models of the trainer.\<close>

definition model_score :: "'m sklearn \<Rightarrow> 'm trainer \<Rightarrow> real list \<Rightarrow> real" where
  "model_score sk t features =
     predictor_predict sk (tt_predictor t) features * (7 / 10) + historian_predict sk (tt_historian t) features * (3 / 10)"

definition buffer_candle :: "real \<times> real \<times> real \<Rightarrow> candle" where
  "buffer_candle hlc = (case hlc of (h, lo, c) \<Rightarrow> [(''high'', PyFloat h), (''low'', PyFloat lo), (''close'', PyFloat c)])"

text \<open>The filter: an exception in it is caught and the entry goes on.\<close>

definition model_rejects :: "'m sklearn \<Rightarrow> (real \<times> real \<times> real) list \<Rightarrow> real \<Rightarrow> 'm spot_runner \<Rightarrow> bool" where
  "model_rejects sk buf imbalance r \<longleftrightarrow> sn_connected r \<and>
     (case build_futures_features (map buffer_candle (last_n 20 buf)) imbalance of
        Inr (Some features) \<Rightarrow> model_score sk (sn_trainer r) features < pr_entry_threshold (tt_predictor (sn_trainer r))
      | _ \<Rightarrow> False)"

definition spot_enter ::
    "spot_config \<Rightarrow> spot_env \<Rightarrow> string \<Rightarrow> real \<Rightarrow> real \<Rightarrow> 'm spot_runner \<Rightarrow> 'm spot_runner \<times> (py_error + string option)" where
  "spot_enter cfg env symbol entry atr r =
     (case calc_sl_tp (sc_sizer cfg) entry atr ''long'' None None of
        Inl e \<Rightarrow> (r, Inl e)
      | Inr (sl, tp) \<Rightarrow>
          (case calc_qty (sc_sizer cfg) (sc_balance cfg) entry sl False 0 0 0 of
             Inl e \<Rightarrow> (r, Inl e)
           | Inr qty \<Rightarrow>
               if qty \<le> 0 then (r, Inr None)
               else
                 let (engine, trade_id) = buy (se_trade_id env) (se_now_ms env) (fst (se_write_ok env)) symbol qty entry sl tp
                        (sn_engine r) in
                 (r\<lparr>sn_engine := engine\<rparr>, Inr trade_id)))"

definition spot_on_orderbook ::
    "'m sklearn \<Rightarrow> spot_config \<Rightarrow> spot_env \<Rightarrow> string \<Rightarrow> json \<Rightarrow> 'm spot_runner \<Rightarrow> 'm spot_runner \<times> (py_error + string option)" where
  "spot_on_orderbook sk cfg env symbol data r =
     (case read_book data of
        Inl e \<Rightarrow> (r, Inl e)
      | Inr None \<Rightarrow> (r, Inr None)
      | Inr (Some (bids, asks, bid, ask)) \<Rightarrow>
          if get_holdings (Some symbol) (sn_engine r) \<noteq> [] then (r, Inr None)
          else
            (case measure_entry (buffered (sn_price_buf r) symbol) ((bid + ask) / 2) bids asks of
               Inl e \<Rightarrow> (r, Inl e)
             | Inr None \<Rightarrow> (r, Inr None)
             | Inr (Some m) \<Rightarrow>
                 if em_spike_bps m \<ge> - sc_spike_bps cfg \<or> em_imbalance m \<le> SPOT_IMB_THRESHOLD then (r, Inr None)
                 else if model_rejects sk (buffered (sn_price_buf r) symbol) (em_imbalance m) r then (r, Inr None)
                 else spot_enter cfg env symbol ask (em_atr m) r))"

section \<open>Messages\<close>

definition spot_handle_message ::
    "'m sklearn \<Rightarrow> spot_config \<Rightarrow> (nat \<Rightarrow> spot_env) \<Rightarrow> json \<Rightarrow> 'm spot_runner \<Rightarrow> 'm spot_runner \<times> py_error option" where
  "spot_handle_message sk cfg env msg r =
     (case json_get msg ''topic'' (JStr []) of
        Inl e \<Rightarrow> (r, Some e)
      | Inr (JStr topic) \<Rightarrow>
          (case json_get msg ''data'' (JObj []) of
             Inl e \<Rightarrow> (r, Some e)
           | Inr data \<Rightarrow>
               if starts_with ''kline.'' topic then spot_on_kline sk cfg env (topic_symbol topic) data r
               else if starts_with ''orderbook.'' topic then
                 (case spot_on_orderbook sk cfg (env 0) (topic_symbol topic) data r of
                    (r, Inl e) \<Rightarrow> (r, Some e) | (r, Inr _) \<Rightarrow> (r, None))
               else (r, None))
      | Inr _ \<Rightarrow> (r, Some AttributeError))"

definition spot_runner_step ::
    "'m sklearn \<Rightarrow> spot_config \<Rightarrow> 'm spot_runner \<Rightarrow> (nat \<Rightarrow> spot_env) \<times> json \<Rightarrow> 'm spot_runner" where
  "spot_runner_step sk cfg r em = fst (spot_handle_message sk cfg (fst em) (snd em) r)"

section \<open>What a message does to the engine\<close>

lemma spot_record_closed_engine [simp]: "sn_engine (spot_record_closed sk env c r) = sn_engine r"
  by (simp add: spot_record_closed_def case_prod_beta Let_def)

lemma spot_fold_closed_engine [simp]: "sn_engine (fold (spot_record_closed sk env) cs r) = sn_engine r"
  by (induction cs arbitrary: r) simp_all

text \<open>A run of sane engine events with the exit policy of the runner.\<close>

definition engine_run :: "spot_config \<Rightarrow> spot_engine \<Rightarrow> spot_engine \<Rightarrow> bool" where
  "engine_run cfg s s' \<longleftrightarrow>
     (\<exists>evs. list_all sane_spot evs \<and> s' = run (spot_step (simple_on_tick (sc_hold_timeout_ms cfg))) s evs)"

lemma engine_run_refl [simp]: "engine_run cfg s s"
  unfolding engine_run_def by (rule exI [of _ "[]"]) simp

lemma engine_run_trans: "engine_run cfg s t \<Longrightarrow> engine_run cfg t u \<Longrightarrow> engine_run cfg s u"
  unfolding engine_run_def by (metis list_all_append run_append)

lemma engine_run_step: "sane_spot e \<Longrightarrow> engine_run cfg s (spot_step (simple_on_tick (sc_hold_timeout_ms cfg)) s e)"
  unfolding engine_run_def by (rule exI [of _ "[e]"]) simp

lemma spot_on_candle_engine: "engine_run cfg (sn_engine r) (sn_engine (fst (spot_on_candle sk cfg env sy candle r)))"
proof (cases "read_candle candle")
  case (Inl e)
  then show ?thesis by (simp add: spot_on_candle_def)
next
  case (Inr hlc)
  obtain h lo c where hlc: "hlc = (h, lo, c)" by (cases hlc)
  let ?e = "TickEvent (se_trade_id env) (se_order_id env) (se_now_ms env) (fst (se_write_ok env)) (snd (se_write_ok env)) sy c"
  show ?thesis
  proof (cases "c \<le> 0")
    case True
    with Inr hlc show ?thesis by (simp add: spot_on_candle_def)
  next
    case False
    then have "sane_spot ?e" by simp
    from engine_run_step [OF this, of cfg "sn_engine r"] False Inr hlc show ?thesis
      by (simp add: spot_on_candle_def spot_step_def case_prod_beta Let_def)
  qed
qed

lemma spot_candle_loop_engine: "engine_run cfg (sn_engine r) (sn_engine (fst (spot_candle_loop sk cfg env i sy cs r)))"
proof (induction cs arbitrary: i r)
  case Nil
  then show ?case by simp
next
  case (Cons c cs)
  obtain r' e where step: "spot_on_candle sk cfg (env i) sy c r = (r', e)" by fastforce
  with spot_on_candle_engine [of cfg r sk "env i" sy c] have one: "engine_run cfg (sn_engine r) (sn_engine r')" by simp
  show ?case
  proof (cases e)
    case None
    from engine_run_trans [OF one Cons.IH [of r' "Suc i"]] step None show ?thesis by simp
  next
    case (Some x)
    with one step show ?thesis by simp
  qed
qed

lemma spot_enter_engine:
  assumes "0 < entry"
  shows "engine_run cfg (sn_engine r) (sn_engine (fst (spot_enter cfg env sy entry atr r)))"
proof (cases "calc_sl_tp (sc_sizer cfg) entry atr ''long'' None None")
  case (Inl e)
  then show ?thesis by (simp add: spot_enter_def)
next
  case (Inr levels)
  obtain sl tp where l: "levels = (sl, tp)" by (cases levels)
  let ?q = "risk_qty (sc_sizer cfg) (sc_balance cfg) entry sl"
  have q: "calc_qty (sc_sizer cfg) (sc_balance cfg) entry sl False 0 0 0 = Inr ?q" by (simp add: calc_qty_def)
  show ?thesis
  proof (cases "?q \<le> 0")
    case True
    with Inr l q show ?thesis by (simp add: spot_enter_def)
  next
    case False
    let ?e = "BuyEvent (se_trade_id env) (se_now_ms env) (fst (se_write_ok env)) sy ?q entry sl tp"
    have "sane_spot ?e" using False assms by simp
    from engine_run_step [OF this, of cfg "sn_engine r"] False Inr l q show ?thesis
      by (simp add: spot_enter_def spot_step_def case_prod_beta Let_def)
  qed
qed

lemma spot_on_orderbook_engine: "engine_run cfg (sn_engine r) (sn_engine (fst (spot_on_orderbook sk cfg env sy data r)))"
proof -
  have "0 < ask" if "read_book data = Inr (Some (bids, asks, bid, ask))" for bids asks bid ask
    using that by (auto simp: read_book_def split: sum.splits if_splits)
  with spot_enter_engine show ?thesis
    by (auto simp: spot_on_orderbook_def split: sum.split option.split)
qed

lemma spot_message_engine: "engine_run cfg (sn_engine r) (sn_engine (fst (spot_handle_message sk cfg env msg r)))"
proof -
  have ob: "fst (case spot_on_orderbook sk cfg env' sy data r of (r, Inl e) \<Rightarrow> (r, Some e) | (r, Inr x) \<Rightarrow> (r, None))
      = fst (spot_on_orderbook sk cfg env' sy data r)" for env' sy data
    by (simp add: case_prod_beta split: sum.split)
  show ?thesis
    using spot_candle_loop_engine spot_on_orderbook_engine
    by (auto simp: spot_handle_message_def spot_on_kline_def ob split: sum.split json.split)
qed

lemma spot_run_engine: "engine_run cfg (sn_engine r) (sn_engine (run (spot_runner_step sk cfg) r es))"
proof (induction es arbitrary: r)
  case Nil
  then show ?case by simp
next
  case (Cons em es)
  have "engine_run cfg (sn_engine r) (sn_engine (spot_runner_step sk cfg r em))"
    by (simp add: spot_runner_step_def spot_message_engine)
  from engine_run_trans [OF this Cons.IH] show ?case by simp
qed


section \<open>Properties\<close>

text \<open>
  C39: the money of the spot runner. Whatever messages arrive, well formed or not, with whatever
  failures and trainings in between, the engine moves as by a sequence of purchases and price checks
  with positive prices and quantities: its cash never goes negative, and cash plus the cost of the
  open holdings changes by exactly the profits of the sales among them.
\<close>

theorem spot_runner_money:
  fixes cfg sk es
  assumes "solvent (sn_engine r)" and "dict_ok (sp_holdings (sn_engine r))"
  defines "policy \<equiv> simple_on_tick (sc_hold_timeout_ms cfg)" and "s' \<equiv> sn_engine (run (spot_runner_step sk cfg) r es)"
  shows "\<exists>evs. list_all sane_spot evs \<and> s' = run (spot_step policy) (sn_engine r) evs \<and> 0 \<le> sp_balance s'
    \<and> book_value s' = book_value (sn_engine r) + run_total (spot_step policy) (realised policy) (sn_engine r) evs"
proof -
  from spot_run_engine [of cfg r sk es] obtain evs where evs: "list_all sane_spot evs"
    "s' = run (spot_step policy) (sn_engine r) evs"
    unfolding engine_run_def policy_def s'_def by blast
  have "solvent s'" unfolding evs(2) by (rule spot_solvency.inv_run [OF assms(1) evs(1)])
  then have "0 \<le> sp_balance s'" by (simp add: solvent_def)
  moreover have "book_value s' = book_value (sn_engine r) + run_total (spot_step policy) (realised policy) (sn_engine r) evs"
    unfolding evs(2) by (rule spot_ledger.measured_run [OF assms(2)]) (simp add: list_all_iff)
  ultimately show ?thesis using evs by blast
qed

abbreviation idle_sklearn :: "unit sklearn" where
  "idle_sklearn \<equiv> \<lparr>sk_new = \<lambda>_. (), sk_grow = id, sk_fit = \<lambda>m _. (m, False), sk_fit_regimes = \<lambda>m _. (m, False),
     sk_cross_val = \<lambda>_ _ _. None, sk_split = \<lambda>_. None, sk_accuracy = \<lambda>_ _. None, sk_proba = \<lambda>_ _. None,
     sk_regime = \<lambda>_ _. None\<rparr>"

abbreviation demo_spot_runner :: "unit spot_runner" where
  "demo_spot_runner \<equiv> new_spot_runner idle_sklearn
     (new_trainer False None ''spot'' \<lparr>rg_files = [], rg_checkpoints = [], rg_runs = []\<rparr>) [''X'']
     (new_spot_engine 0 id True 10000 empty_spot_db)"

theorem spot_runner_money_witness:
  "0 \<le> sp_balance (sn_engine (run (spot_runner_step idle_sklearn
     \<lparr>sc_balance = 10000, sc_sizer = default_sizer, sc_hold_timeout_ms = 0, sc_spike_bps = 20\<rparr>) demo_spot_runner
     [(\<lambda>_. \<lparr>se_trade_id = ''t'', se_order_id = ''o'', se_now_ms = 1, se_write_ok = (True, True),
        se_deploy = \<lparr>de_now = 0, de_ids = ([], []), de_query_ok = False, de_write_ok = (False, False)\<rparr>,
        se_rows = None, se_data = []\<rparr>, JNull)]))"
proof -
  have "solvent (sn_engine demo_spot_runner)" and "dict_ok (sp_holdings (sn_engine demo_spot_runner))"
    by (simp_all add: new_spot_runner_def new_spot_engine_def solvent_def load_holdings_from_db_def empty_spot_db_def)
  from spot_runner_money [OF this, where es = "[(\<lambda>_. \<lparr>se_trade_id = ''t'', se_order_id = ''o'', se_now_ms = 1,
      se_write_ok = (True, True),
      se_deploy = \<lparr>de_now = 0, de_ids = ([], []), de_query_ok = False, de_write_ok = (False, False)\<rparr>,
      se_rows = None, se_data = []\<rparr>, JNull)]"] show ?thesis by blast
qed

text \<open>
  The model never filters a purchase. The filter hands the last twenty candles to a function
  that needs twenty-one, so no features are built and no book message is ever rejected: what a book
  message does to the engine is the same with any trained models, any library and no model at all.
\<close>

theorem spot_filter_never_rejects:
  fixes r :: "'m spot_runner" and sk sk' :: "'m sklearn"
  shows "\<not> model_rejects sk buf imbalance r
    \<and> sn_engine (fst (spot_on_orderbook sk cfg env sy data r))
        = sn_engine (fst (spot_on_orderbook sk' cfg env sy data (r\<lparr>sn_trainer := t, sn_connected := b\<rparr>)))
    \<and> snd (spot_on_orderbook sk cfg env sy data r)
        = snd (spot_on_orderbook sk' cfg env sy data (r\<lparr>sn_trainer := t, sn_connected := b\<rparr>))"
proof -
  have never: "\<not> model_rejects sk buf imbalance r" for sk :: "'m sklearn" and buf imbalance and r :: "'m spot_runner"
  proof -
    have "length (map buffer_candle (last_n 20 buf)) < 21" by simp
    then show ?thesis by (simp add: model_rejects_def build_futures_features_def)
  qed
  have enter: "sn_engine (fst (spot_enter cfg env sy entry atr r))
        = sn_engine (fst (spot_enter cfg env sy entry atr (r\<lparr>sn_trainer := t, sn_connected := b\<rparr>)))"
    "snd (spot_enter cfg env sy entry atr r) = snd (spot_enter cfg env sy entry atr (r\<lparr>sn_trainer := t, sn_connected := b\<rparr>))"
    for entry atr
    by (simp_all add: spot_enter_def case_prod_beta Let_def split: sum.split)
  show ?thesis
    by (auto simp: spot_on_orderbook_def never enter split: sum.split option.split)
qed

end
