(* ===== verification/Market_Feed.thy ===== *)
theory Market_Feed
  imports Json Trading_State Stores
begin

text \<open>
  The client of the public market feed, \<open>src/botik/marketdata/ws_public.py\<close>: it keeps the full book of
  each symbol from snapshots and deltas, and publishes the aggregate, the sorted levels and the
  public trades to the shared market state. The socket and the JSON decoder are parameters: a message
  is a decoded value, \<open>str_of\<close> is \<open>str\<close> of a value that is no string, and \<open>now\<close> the clock. A message
  is handled without suspension; an exception leaves what was changed before it and ends the
  connection.
\<close>

section \<open>Books\<close>

type_synonym book = "(real, real) dict"

definition level_pair :: "json \<Rightarrow> py_error + real \<times> real" where
  "level_pair v =
     (case json_items v of
        Inl e \<Rightarrow> Inl e
      | Inr [p, s] \<Rightarrow> (case json_float p of Inl e \<Rightarrow> Inl e | Inr price \<Rightarrow>
                       case json_float s of Inl e \<Rightarrow> Inl e | Inr sz \<Rightarrow> Inr (price, sz))
      | Inr _ \<Rightarrow> Inl ValueError)"

definition apply_level :: "real \<times> real \<Rightarrow> book \<Rightarrow> book" where
  "apply_level ps bk = (if snd ps = 0 then dict_pop (fst ps) bk else dict_set (fst ps) (snd ps) bk)"

fun apply_delta :: "json list \<Rightarrow> book \<Rightarrow> book \<times> py_error option" where
  "apply_delta [] bk = (bk, None)"
| "apply_delta (u # us) bk =
     (case level_pair u of Inl e \<Rightarrow> (bk, Some e) | Inr ps \<Rightarrow> apply_delta us (apply_level ps bk))"

definition delta_book :: "json \<Rightarrow> book \<Rightarrow> book \<times> py_error option" where
  "delta_book updates bk =
     (case json_items updates of Inl e \<Rightarrow> (bk, Some e) | Inr us \<Rightarrow> apply_delta us bk)"

text \<open>\<open>{float(p): float(s) for p, s in raw}\<close>: a snapshot keeps levels of size zero.\<close>

definition snapshot_book :: "json \<Rightarrow> py_error + book" where
  "snapshot_book raw =
     (case json_items raw of Inl e \<Rightarrow> Inl e | Inr us \<Rightarrow>
      case try_map level_pair us of Inl e \<Rightarrow> Inl e | Inr ps \<Rightarrow> Inr (fold (\<lambda>p. dict_set (fst p) (snd p)) ps []))"

definition book_to_sorted_list :: "book \<Rightarrow> bool \<Rightarrow> levels" where
  "book_to_sorted_list bk descending =
     (if descending then sort_key (\<lambda>l. - fst l) bk else sort_key fst bk)"

definition level_gaps :: "levels \<Rightarrow> real list" where
  "level_gaps ls = filter (\<lambda>d. d > 0) (map (\<lambda>i. \<bar>fst (ls ! (i - 1)) - fst (ls ! i)\<bar>) [1..<length ls])"

definition infer_tick_size :: "levels \<Rightarrow> levels \<Rightarrow> real \<Rightarrow> real" where
  "infer_tick_size bids asks fallback =
     (let diffs = level_gaps (take 25 bids) @ level_gaps (take 25 asks) in
      if diffs = [] then max fallback (1 / 10 ^ 12) else max (Min (set diffs)) (1 / 10 ^ 12))"

definition aggregate_from_book ::
    "string \<Rightarrow> levels \<Rightarrow> levels \<Rightarrow> real \<Rightarrow> nat \<Rightarrow> int \<Rightarrow> orderbook_aggregate option" where
  "aggregate_from_book symbol bids asks tick_size top_n ts_ms =
     (case (bids, asks) of
        ((bid, bid_size) # _, (ask, ask_size) # _) \<Rightarrow>
          Some \<lparr>ob_symbol = symbol, best_bid = bid, best_ask = ask, mid = (bid + ask) / 2,
                spread_ticks = (if tick_size > 0 then round_half_even ((ask - bid) / tick_size) else 0),
                imbalance_top_n = compute_imbalance bids asks top_n,
                best_bid_size = bid_size, best_ask_size = ask_size, ob_ts_ms = ts_ms\<rparr>
      | _ \<Rightarrow> None)"

section \<open>The client\<close>

definition normalize_symbols :: "string list \<Rightarrow> string list" where
  "normalize_symbols symbols =
     fold (\<lambda>raw out. let s = str_upper (str_strip raw) in if s = [] \<or> s \<in> set out then out else out @ [s]) symbols []"

definition sanitize_category :: "string option \<Rightarrow> string" where
  "sanitize_category category =
     (let value = norm_lower category in if value \<in> {''spot'', ''linear''} then value else ''spot'')"

record market_feed =
  mf_symbols :: "string list"
  mf_depth :: nat
  mf_tick_size :: real
  mf_category :: string
  mf_bids :: "string \<rightharpoonup> book"
  mf_asks :: "string \<rightharpoonup> book"
  mf_state :: trading_state

definition new_market_feed :: "string list \<Rightarrow> nat \<Rightarrow> real \<Rightarrow> string option \<Rightarrow> trading_state \<Rightarrow> market_feed" where
  "new_market_feed symbols depth tick_size category st =
     (let syms = normalize_symbols symbols in
      \<lparr>mf_symbols = syms, mf_depth = depth, mf_tick_size = tick_size, mf_category = sanitize_category category,
       mf_bids = (\<lambda>s. if s \<in> set syms then Some [] else None),
       mf_asks = (\<lambda>s. if s \<in> set syms then Some [] else None), mf_state = st\<rparr>)"

subsection \<open>Trades\<close>

definition trade_symbol :: "(json \<Rightarrow> string) \<Rightarrow> string \<Rightarrow> (string, json) dict \<Rightarrow> string" where
  "trade_symbol str_of from_topic row =
     str_strip (str_upper (json_text str_of (json_or (json_key row ''s'') (JStr from_topic))))"

definition trade_event ::
    "(json \<Rightarrow> string) \<Rightarrow> int \<Rightarrow> json \<Rightarrow> string \<Rightarrow> (string, json) dict \<Rightarrow> py_error + public_trade_event" where
  "trade_event str_of now ts symbol row =
     (case json_int (json_or (json_key row ''T'') (json_or ts (JNum (of_int now)))) of Inl e \<Rightarrow> Inl e | Inr ts_ms \<Rightarrow>
      case json_int (json_or (json_key row ''seq'') (JNum 0)) of Inl e \<Rightarrow> Inl e | Inr seq \<Rightarrow>
      case json_float (json_or (json_key row ''p'') (JNum 0)) of Inl e \<Rightarrow> Inl e | Inr price \<Rightarrow>
      case json_float (json_or (json_key row ''v'') (JNum 0)) of Inl e \<Rightarrow> Inl e | Inr qty \<Rightarrow>
      Inr \<lparr>tr_symbol = symbol, tr_trade_id = json_text str_of (json_or (json_key row ''i'') (JStr [])),
           tr_seq = seq, tr_ts_ms = ts_ms, tr_taker_side = json_text str_of (json_or (json_key row ''S'') (JStr [])),
           tr_price = price, tr_qty = qty\<rparr>)"

fun trade_rows ::
    "(json \<Rightarrow> string) \<Rightarrow> int \<Rightarrow> json \<Rightarrow> string \<Rightarrow> json list \<Rightarrow> market_feed \<Rightarrow> market_feed \<times> py_error option" where
  "trade_rows str_of now ts from_topic [] f = (f, None)"
| "trade_rows str_of now ts from_topic (row # rows) f =
     (case row of
        JObj d \<Rightarrow>
          let symbol = trade_symbol str_of from_topic d in
          if mf_bids f symbol = None then trade_rows str_of now ts from_topic rows f
          else (case trade_event str_of now ts symbol d of
                  Inl e \<Rightarrow> (f, Some e)
                | Inr event \<Rightarrow>
                    trade_rows str_of now ts from_topic rows
                      (if tr_price event > 0 \<and> tr_qty event > 0
                       then f\<lparr>mf_state := record_public_trade event (mf_state f)\<rparr> else f))
      | _ \<Rightarrow> (f, Some AttributeError))"

definition on_trades ::
    "(json \<Rightarrow> string) \<Rightarrow> int \<Rightarrow> json \<Rightarrow> string \<Rightarrow> json \<Rightarrow> market_feed \<Rightarrow> market_feed \<times> py_error option" where
  "on_trades str_of now ts topic data f =
     (let from_topic = drop 1 (dropWhile (\<lambda>c. c \<noteq> CHR ''.'') topic) in
      case json_or data (JArr []) of
        JObj d \<Rightarrow> trade_rows str_of now ts from_topic [JObj d] f
      | rows \<Rightarrow> (case json_items rows of Inl e \<Rightarrow> (f, Some e) | Inr xs \<Rightarrow> trade_rows str_of now ts from_topic xs f))"

subsection \<open>Order books\<close>

text \<open>Replacing or updating the two sides; an error in the second keeps the change of the first.\<close>

definition store_sides ::
    "bool \<Rightarrow> string \<Rightarrow> json \<Rightarrow> json \<Rightarrow> book \<Rightarrow> book \<Rightarrow> market_feed \<Rightarrow> market_feed \<times> py_error option" where
  "store_sides is_snapshot symbol bids_raw asks_raw bids asks f =
     (if is_snapshot then
        (case snapshot_book bids_raw of
           Inl e \<Rightarrow> (f, Some e)
         | Inr b \<Rightarrow>
             let f = f\<lparr>mf_bids := (mf_bids f)(symbol \<mapsto> b)\<rparr> in
             (case snapshot_book asks_raw of
                Inl e \<Rightarrow> (f, Some e)
              | Inr a \<Rightarrow> (f\<lparr>mf_asks := (mf_asks f)(symbol \<mapsto> a)\<rparr>, None)))
      else
        (case delta_book bids_raw bids of
           (b, Some e) \<Rightarrow> (f\<lparr>mf_bids := (mf_bids f)(symbol \<mapsto> b)\<rparr>, Some e)
         | (b, None) \<Rightarrow>
             let (a, e) = delta_book asks_raw asks in
             (f\<lparr>mf_bids := (mf_bids f)(symbol \<mapsto> b), mf_asks := (mf_asks f)(symbol \<mapsto> a)\<rparr>, e)))"

definition publish_book ::
    "int \<Rightarrow> json \<Rightarrow> bool \<Rightarrow> string \<Rightarrow> book \<Rightarrow> book \<Rightarrow> market_feed \<Rightarrow> market_feed \<times> py_error option" where
  "publish_book now ts is_snapshot symbol bids asks f =
     (let bids_list = book_to_sorted_list bids True; asks_list = book_to_sorted_list asks False;
          tick = infer_tick_size bids_list asks_list (mf_tick_size f) in
      case json_int (json_or ts (JNum (of_int now))) of
        Inl e \<Rightarrow> (f, Some e)
      | Inr ts_ms \<Rightarrow>
          (case aggregate_from_book symbol bids_list asks_list tick (min 10 (mf_depth f)) ts_ms of
             None \<Rightarrow> (f, None)
           | Some agg \<Rightarrow>
               (f\<lparr>mf_state := set_orderbook now symbol agg (Some bids_list) (Some asks_list) is_snapshot (Some tick)
                    (mf_state f)\<rparr>, None)))"

definition on_book ::
    "int \<Rightarrow> json \<Rightarrow> bool \<Rightarrow> json \<Rightarrow> market_feed \<Rightarrow> market_feed \<times> py_error option" where
  "on_book now ts is_snapshot data f =
     (case data of
        JObj d \<Rightarrow>
          (case (case dict_get d ''s'' of None \<Rightarrow> JStr [] | Some v \<Rightarrow> v) of
             JStr symbol \<Rightarrow>
               (case (mf_bids f symbol, mf_asks f symbol) of
                  (None, _) \<Rightarrow> (f, None)
                | (Some bids, None) \<Rightarrow> (f, Some KeyError)
                | (Some bids, Some asks) \<Rightarrow>
                    let raw = (\<lambda>key. case dict_get d key of None \<Rightarrow> JArr [] | Some v \<Rightarrow> v) in
                    (case store_sides is_snapshot symbol (raw ''b'') (raw ''a'') bids asks f of
                       (f, Some e) \<Rightarrow> (f, Some e)
                     | (f, None) \<Rightarrow>
                         publish_book now ts is_snapshot symbol (the (mf_bids f symbol)) (the (mf_asks f symbol)) f))
           | JArr _ \<Rightarrow> (f, Some TypeError)
           | JObj _ \<Rightarrow> (f, Some TypeError)
           | _ \<Rightarrow> (f, None))
      | _ \<Rightarrow> (f, Some AttributeError))"

subsection \<open>Messages\<close>

definition begins :: "string \<Rightarrow> string \<Rightarrow> bool" where
  "begins p s \<longleftrightarrow> take (length p) s = p"

definition handle_feed_message ::
    "(json \<Rightarrow> string) \<Rightarrow> int \<Rightarrow> json \<Rightarrow> market_feed \<Rightarrow> market_feed \<times> py_error option" where
  "handle_feed_message str_of now msg f =
     (case msg of
        JObj d \<Rightarrow>
          (case json_key d ''op'' of
             JArr _ \<Rightarrow> (f, Some TypeError)
           | JObj _ \<Rightarrow> (f, Some TypeError)
           | op \<Rightarrow>
               if op = JStr ''subscribe'' \<or> op = JStr ''unsubscribe'' then (f, None)
               else (case (dict_get d ''topic'', dict_get d ''data'') of
                   (Some (JStr topic), Some data) \<Rightarrow>
                     if begins ''publicTrade.'' topic then on_trades str_of now (json_key d ''ts'') topic data f
                     else if \<not> begins ''orderbook.'' topic then (f, None)
                     else on_book now (json_key d ''ts'')
                            ((case dict_get d ''type'' of None \<Rightarrow> JStr ''delta'' | Some t \<Rightarrow> t) = JStr ''snapshot'') data f
                 | (Some _, Some _) \<Rightarrow> (f, Some AttributeError)
                 | _ \<Rightarrow> (f, None)))
      | _ \<Rightarrow> (f, Some AttributeError))"

section \<open>Subscriptions\<close>

text \<open>Topics are sent in batches of at most \<open>step\<close>.\<close>

definition topics_for_symbols :: "(nat \<Rightarrow> string) \<Rightarrow> nat \<Rightarrow> string list \<Rightarrow> string list" where
  "topics_for_symbols show_depth depth symbols =
     map (\<lambda>s. ''orderbook.'' @ show_depth depth @ ''.'' @ s) symbols @ map (\<lambda>s. ''publicTrade.'' @ s) symbols"

function batches :: "nat \<Rightarrow> 'a list \<Rightarrow> 'a list list" where
  "batches n xs = (if xs = [] then [] else take (max n 1) xs # batches n (drop (max n 1) xs))"
  by pat_completeness auto
termination
  by (relation "measure (\<lambda>(n, xs). length xs)") auto

declare batches.simps [simp del]

definition topic_batches :: "string list \<Rightarrow> string list list" where
  "topic_batches topics = batches 10 topics"

text \<open>
  \<open>update_symbols\<close>: the books of new symbols start empty, those of dropped symbols and their published
  aggregates are removed; the result says whether anything changed. What is sent to the socket is
  left out: a failing send is only logged.
\<close>

definition update_symbols :: "string list \<Rightarrow> market_feed \<Rightarrow> market_feed \<times> bool" where
  "update_symbols symbols f =
     (let new = normalize_symbols symbols; old = mf_symbols f in
      if new = [] \<or> set new = set old then (f, False)
      else
        let change = (\<lambda>books s. if s \<in> set new - set old then Some [] else if s \<in> set old - set new then None else books s) in
        (f\<lparr>mf_symbols := new, mf_bids := change (mf_bids f), mf_asks := change (mf_asks f),
           mf_state := (mf_state f)\<lparr>orderbooks :=
             (\<lambda>s. if s \<in> set old - set new then None else orderbooks (mf_state f) s)\<rparr>\<rparr>, True))"

text \<open>
  The delays of the reconnection loop: each attempt connects or not, a connection resets the delay,
  and every ended attempt waits and doubles it up to a minute.
\<close>

fun reconnect_delays :: "real \<Rightarrow> bool list \<Rightarrow> real list" where
  "reconnect_delays backoff [] = []"
| "reconnect_delays backoff (reached # attempts) =
     (let backoff = (if reached then 1 else backoff) in backoff # reconnect_delays (min (backoff * 2) 60) attempts)"


section \<open>The abstract book\<close>

text \<open>
  What the feed promises: a side is a map from prices to sizes; a level of a delta with size zero
  removes its price and any other sets it; a snapshot replaces the side.
\<close>

definition set_level :: "real \<times> real \<Rightarrow> (real \<rightharpoonup> real) \<Rightarrow> (real \<rightharpoonup> real)" where
  "set_level ps m = (if snd ps = 0 then m(fst ps := None) else m(fst ps \<mapsto> snd ps))"

definition side_after :: "bool \<Rightarrow> levels \<Rightarrow> (real \<rightharpoonup> real) \<Rightarrow> (real \<rightharpoonup> real)" where
  "side_after is_snapshot ls m =
     (if is_snapshot then fold (\<lambda>ps m. m(fst ps \<mapsto> snd ps)) ls Map.empty else fold set_level ls m)"

record book_message =
  bk_snapshot :: bool
  bk_bids :: levels
  bk_asks :: levels

definition encode_levels :: "levels \<Rightarrow> json" where
  "encode_levels ls = JArr (map (\<lambda>ps. JArr [JNum (fst ps), JNum (snd ps)]) ls)"

definition encode_book :: "string \<Rightarrow> book_message \<Rightarrow> json" where
  "encode_book symbol m = JObj
     [(''topic'', JStr (''orderbook.50.'' @ symbol)),
      (''type'', JStr (if bk_snapshot m then ''snapshot'' else ''delta'')),
      (''ts'', JNum 1),
      (''data'', JObj [(''s'', JStr symbol), (''b'', encode_levels (bk_bids m)), (''a'', encode_levels (bk_asks m))])]"

lemma level_pair_encoded [simp]: "level_pair (JArr [JNum p, JNum s]) = Inr (p, s)"
  by (simp add: level_pair_def)

lemma try_map_encoded: "try_map level_pair (map (\<lambda>ps. JArr [JNum (fst ps), JNum (snd ps)]) ls) = Inr ls"
  by (induction ls) auto

lemma apply_delta_encoded:
  "apply_delta (map (\<lambda>ps. JArr [JNum (fst ps), JNum (snd ps)]) ls) bk = (fold apply_level ls bk, None)"
  by (induction ls arbitrary: bk) auto

lemma delta_book_encoded: "delta_book (encode_levels ls) bk = (fold apply_level ls bk, None)"
  by (simp add: delta_book_def encode_levels_def apply_delta_encoded)

lemma snapshot_book_encoded: "snapshot_book (encode_levels ls) = Inr (fold (\<lambda>p. dict_set (fst p) (snd p)) ls [])"
  by (simp add: snapshot_book_def encode_levels_def try_map_encoded)

lemma apply_level_ok: "dict_ok bk \<Longrightarrow> dict_ok (apply_level ps bk)"
  by (simp add: apply_level_def)

lemma apply_level_map: "map_of (apply_level ps bk) = set_level ps (map_of bk)"
  by (rule ext) (simp add: apply_level_def set_level_def dict_get_set dict_get_pop)

lemma fold_apply_level: "dict_ok bk \<Longrightarrow> dict_ok (fold apply_level ls bk) \<and> map_of (fold apply_level ls bk) = fold set_level ls (map_of bk)"
  by (induction ls arbitrary: bk) (simp_all add: apply_level_ok apply_level_map)

lemma fold_set_levels:
  "dict_ok bk \<Longrightarrow> dict_ok (fold (\<lambda>p. dict_set (fst p) (snd p)) ls bk)
    \<and> map_of (fold (\<lambda>p. dict_set (fst p) (snd p)) ls bk) = fold (\<lambda>ps m. m(fst ps \<mapsto> snd ps)) ls (map_of bk)"
proof (induction ls arbitrary: bk)
  case Nil
  then show ?case by simp
next
  case (Cons l ls)
  have "map_of (dict_set (fst l) (snd l) bk) = (map_of bk)(fst l \<mapsto> snd l)"
    by (rule ext) (simp add: dict_get_set)
  with Cons.IH [of "dict_set (fst l) (snd l) bk"] Cons.prems show ?case by simp
qed

text \<open>The side a message leaves.\<close>

definition new_side :: "bool \<Rightarrow> levels \<Rightarrow> book \<Rightarrow> book" where
  "new_side is_snapshot ls bk =
     (if is_snapshot then fold (\<lambda>p. dict_set (fst p) (snd p)) ls [] else fold apply_level ls bk)"

lemma new_side_map:
  assumes "dict_ok bk"
  shows "dict_ok (new_side snap ls bk)" and "map_of (new_side snap ls bk) = side_after snap ls (map_of bk)"
  using fold_apply_level [OF assms, of ls] fold_set_levels [of "[]" ls]
  by (simp_all add: new_side_def side_after_def)

lemma store_sides_encoded:
  "store_sides snap sy (encode_levels bs) (encode_levels as) b a f =
     (f\<lparr>mf_bids := (mf_bids f)(sy \<mapsto> new_side snap bs b), mf_asks := (mf_asks f)(sy \<mapsto> new_side snap as a)\<rparr>, None)"
  by (simp add: store_sides_def delta_book_encoded snapshot_book_encoded new_side_def)

lemma handle_encoded:
  fixes m
  assumes "mf_bids f sy = Some b" and "mf_asks f sy = Some a"
  defines "snap \<equiv> bk_snapshot m"
  shows "handle_feed_message str_of now (encode_book sy m) f =
    publish_book now (JNum 1) snap sy (new_side snap (bk_bids m) b) (new_side snap (bk_asks m) a)
      (f\<lparr>mf_bids := (mf_bids f)(sy \<mapsto> new_side snap (bk_bids m) b), mf_asks := (mf_asks f)(sy \<mapsto> new_side snap (bk_asks m) a)\<rparr>)"
  using assms
  by (simp add: handle_feed_message_def encode_book_def json_key_def begins_def on_book_def store_sides_encoded)

section \<open>The published top\<close>

lemma sorted_desc: "sorted (map fst (rev (sort_key (\<lambda>l. - fst l) (bk :: book))))"
proof -
  have "sorted (map (\<lambda>l. - fst l) (sort_key (\<lambda>l. - fst l) bk))" by simp
  then show ?thesis by (simp add: sorted_wrt_map sorted_wrt_rev rev_map [symmetric])
qed

lemma sorted_list_facts:
  "set (book_to_sorted_list bk d) = set bk" "book_to_sorted_list bk d = [] \<longleftrightarrow> bk = []"
proof -
  show "set (book_to_sorted_list bk d) = set bk" by (simp add: book_to_sorted_list_def)
  then show "book_to_sorted_list bk d = [] \<longleftrightarrow> bk = []" by (metis set_empty)
qed

lemma top_bid:
  assumes "book_to_sorted_list bk True = (p, s) # ls"
  shows "p = Max (fst ` set bk) \<and> (p, s) \<in> set bk"
proof -
  have mem: "(p, s) \<in> set bk" using assms sorted_list_facts(1) [of bk True] by auto
  have "sorted (map (\<lambda>l. - fst l) ((p, s) # ls))"
    using assms by (metis book_to_sorted_list_def sorted_sort_key)
  then have "\<forall>l \<in> set ((p, s) # ls). fst l \<le> p" by auto
  moreover have "set bk = set ((p, s) # ls)" using assms sorted_list_facts(1) [of bk True] by simp
  ultimately have "\<forall>l \<in> set bk. fst l \<le> p" by (simp only:)
  with mem have "Max (fst ` set bk) = p" by (intro Max_eqI) force+
  with mem show ?thesis by simp
qed

lemma top_ask:
  assumes "book_to_sorted_list bk False = (p, s) # ls"
  shows "p = Min (fst ` set bk) \<and> (p, s) \<in> set bk"
proof -
  have mem: "(p, s) \<in> set bk" using assms sorted_list_facts(1) [of bk False] by auto
  have "sorted (map fst ((p, s) # ls))"
    using assms by (metis book_to_sorted_list_def sorted_sort_key)
  then have "\<forall>l \<in> set ((p, s) # ls). p \<le> fst l" by auto
  moreover have "set bk = set ((p, s) # ls)" using assms sorted_list_facts(1) [of bk False] by simp
  ultimately have "\<forall>l \<in> set bk. p \<le> fst l" by (simp only:)
  with mem have "Min (fst ` set bk) = p" by (intro Min_eqI) force+
  with mem show ?thesis by simp
qed

text \<open>The best quotes of an aggregate are the extreme prices of the two sides, with their sizes.\<close>

definition shows_top :: "orderbook_aggregate \<Rightarrow> (real \<rightharpoonup> real) \<Rightarrow> (real \<rightharpoonup> real) \<Rightarrow> bool" where
  "shows_top agg B A \<longleftrightarrow> best_bid agg = Max (dom B) \<and> best_ask agg = Min (dom A)
     \<and> B (best_bid agg) = Some (best_bid_size agg) \<and> A (best_ask agg) = Some (best_ask_size agg)"

lemma set_orderbook_books [simp]:
  "orderbooks (set_orderbook now sy agg b a snap t s) = (orderbooks s)(sy \<mapsto> agg)"
  by (simp add: set_orderbook_def Let_def)

lemma publish_book_cases:
  fixes now snap sy f
  assumes "dict_ok b" and "dict_ok a"
  defines "r \<equiv> publish_book now (JNum 1) snap sy b a f"
  shows "mf_bids (fst r) = mf_bids f \<and> mf_asks (fst r) = mf_asks f \<and> snd r = None
    \<and> (if b \<noteq> [] \<and> a \<noteq> [] then \<exists>agg. orderbooks (mf_state (fst r)) = (orderbooks (mf_state f))(sy \<mapsto> agg) \<and> shows_top agg (map_of b) (map_of a)
       else mf_state (fst r) = mf_state f)"
proof (cases "b \<noteq> [] \<and> a \<noteq> []")
  case False
  then have "book_to_sorted_list b True = [] \<or> book_to_sorted_list a False = []" by (simp add: sorted_list_facts(2))
  with False show ?thesis
    by (auto simp: r_def publish_book_def Let_def json_or_def aggregate_from_book_def split: list.split)
next
  case True
  obtain p s ls where bl: "book_to_sorted_list b True = (p, s) # ls"
    using True sorted_list_facts(2) [of b True] by (metis list.exhaust surj_pair)
  obtain q t ms where al: "book_to_sorted_list a False = (q, t) # ms"
    using True sorted_list_facts(2) [of a False] by (metis list.exhaust surj_pair)
  have b: "p = Max (dom (map_of b))" "map_of b p = Some s"
    using top_bid [OF bl] assms(1) by (auto simp: dom_map_of_conv_image_fst dict_ok_def)
  have a: "q = Min (dom (map_of a))" "map_of a q = Some t"
    using top_ask [OF al] assms(2) by (auto simp: dom_map_of_conv_image_fst dict_ok_def)
  let ?tick = "infer_tick_size ((p, s) # ls) ((q, t) # ms) (mf_tick_size f)"
  obtain agg where agg: "aggregate_from_book sy ((p, s) # ls) ((q, t) # ms) ?tick (min 10 (mf_depth f)) 1 = Some agg"
    and top: "best_bid agg = p" "best_ask agg = q" "best_bid_size agg = s" "best_ask_size agg = t"
    by (simp add: aggregate_from_book_def)
  have "r = (f\<lparr>mf_state := set_orderbook now sy agg (Some ((p, s) # ls)) (Some ((q, t) # ms)) snap (Some ?tick) (mf_state f)\<rparr>, None)"
    by (simp add: r_def publish_book_def Let_def json_or_def bl al agg py_trunc_def)
  moreover have "shows_top agg (map_of b) (map_of a)" using a b by (simp add: shows_top_def top)
  ultimately show ?thesis using True by auto
qed

section \<open>Properties\<close>

definition feed_books :: "(json \<Rightarrow> string) \<Rightarrow> int \<Rightarrow> string \<Rightarrow> market_feed \<Rightarrow> book_message \<Rightarrow> market_feed" where
  "feed_books str_of now sy f m = fst (handle_feed_message str_of now (encode_book sy m) f)"

lemma feed_books_step:
  assumes "mf_bids f sy = Some b" and "mf_asks f sy = Some a" and "dict_ok b" and "dict_ok a"
  shows "\<exists>b' a'. mf_bids (feed_books str_of now sy f m) sy = Some b' \<and> mf_asks (feed_books str_of now sy f m) sy = Some a'
    \<and> dict_ok b' \<and> dict_ok a' \<and> map_of b' = side_after (bk_snapshot m) (bk_bids m) (map_of b)
    \<and> map_of a' = side_after (bk_snapshot m) (bk_asks m) (map_of a)
    \<and> (if b' \<noteq> [] \<and> a' \<noteq> []
       then \<exists>agg. orderbooks (mf_state (feed_books str_of now sy f m)) sy = Some agg \<and> shows_top agg (map_of b') (map_of a')
       else orderbooks (mf_state (feed_books str_of now sy f m)) sy = orderbooks (mf_state f) sy)"
proof -
  let ?b = "new_side (bk_snapshot m) (bk_bids m) b" and ?a = "new_side (bk_snapshot m) (bk_asks m) a"
  let ?f = "f\<lparr>mf_bids := (mf_bids f)(sy \<mapsto> ?b), mf_asks := (mf_asks f)(sy \<mapsto> ?a)\<rparr>"
  note nb = new_side_map [OF assms(3), of "bk_snapshot m" "bk_bids m"]
    and na = new_side_map [OF assms(4), of "bk_snapshot m" "bk_asks m"]
  note pub = publish_book_cases [OF nb(1) na(1), of now "bk_snapshot m" sy ?f]
  have eq: "feed_books str_of now sy f m = fst (publish_book now (JNum 1) (bk_snapshot m) sy ?b ?a ?f)"
    by (simp add: feed_books_def handle_encoded [OF assms(1,2)])
  show ?thesis
  proof (cases "?b \<noteq> [] \<and> ?a \<noteq> []")
    case True
    with pub obtain agg where "orderbooks (mf_state (feed_books str_of now sy f m)) sy = Some agg" "shows_top agg (map_of ?b) (map_of ?a)"
      by (auto simp: eq)
    with True pub nb na show ?thesis unfolding eq by (intro exI [of _ ?b] exI [of _ ?a]) (simp add: eq)
  next
    case False
    with pub nb na show ?thesis unfolding eq by (intro exI [of _ ?b] exI [of _ ?a]) auto
  qed
qed

text \<open>
  C37: the stored book is the book of the feed. For any sequence of well-formed snapshots and deltas of
  a subscribed symbol, the two stored sides are the maps the messages define; after the last one, when
  both sides have a level, the published quotes are the highest bid and the lowest ask with their
  sizes. When a side is empty nothing is published: the shared state keeps the quotes it had before.
\<close>

theorem book_follows_feed:
  fixes str_of now ms m
  assumes "mf_bids f sy = Some b" and "mf_asks f sy = Some a" and "dict_ok b" and "dict_ok a"
  defines "f1 \<equiv> run (feed_books str_of now sy) f ms" and "f2 \<equiv> run (feed_books str_of now sy) f (ms @ [m])"
    and "B \<equiv> fold (\<lambda>m. side_after (bk_snapshot m) (bk_bids m)) (ms @ [m]) (map_of b)"
    and "A \<equiv> fold (\<lambda>m. side_after (bk_snapshot m) (bk_asks m)) (ms @ [m]) (map_of a)"
  shows "map_option map_of (mf_bids f2 sy) = Some B \<and> map_option map_of (mf_asks f2 sy) = Some A
    \<and> (B \<noteq> Map.empty \<and> A \<noteq> Map.empty \<longrightarrow> (\<exists>agg. orderbooks (mf_state f2) sy = Some agg \<and> shows_top agg B A))
    \<and> (B = Map.empty \<or> A = Map.empty \<longrightarrow> orderbooks (mf_state f2) sy = orderbooks (mf_state f1) sy)"
proof -
  have "\<exists>b' a'. mf_bids f1 sy = Some b' \<and> mf_asks f1 sy = Some a' \<and> dict_ok b' \<and> dict_ok a'
      \<and> map_of b' = fold (\<lambda>m. side_after (bk_snapshot m) (bk_bids m)) ms (map_of b)
      \<and> map_of a' = fold (\<lambda>m. side_after (bk_snapshot m) (bk_asks m)) ms (map_of a)"
    unfolding f1_def using assms(1-4)
  proof (induction ms arbitrary: f b a)
    case Nil
    then show ?case by simp
  next
    case (Cons m ms)
    from feed_books_step [OF Cons.prems, of str_of now m] obtain b' a' where
      "mf_bids (feed_books str_of now sy f m) sy = Some b'" "mf_asks (feed_books str_of now sy f m) sy = Some a'"
      "dict_ok b'" "dict_ok a'" "map_of b' = side_after (bk_snapshot m) (bk_bids m) (map_of b)"
      "map_of a' = side_after (bk_snapshot m) (bk_asks m) (map_of a)" by blast
    with Cons.IH [OF this(1-4)] show ?case by simp
  qed
  then obtain b' a' where one: "mf_bids f1 sy = Some b'" "mf_asks f1 sy = Some a'" "dict_ok b'" "dict_ok a'"
    and maps: "map_of b' = fold (\<lambda>m. side_after (bk_snapshot m) (bk_bids m)) ms (map_of b)"
      "map_of a' = fold (\<lambda>m. side_after (bk_snapshot m) (bk_asks m)) ms (map_of a)" by blast
  have f2: "f2 = feed_books str_of now sy f1 m" by (simp add: f2_def f1_def run_append)
  have "B = side_after (bk_snapshot m) (bk_bids m) (map_of b')" "A = side_after (bk_snapshot m) (bk_asks m) (map_of a')"
    by (simp_all add: B_def A_def maps)
  with feed_books_step [OF one, of str_of now m] show ?thesis
    unfolding f2 by (auto split: if_splits)
qed

theorem book_follows_feed_witness:
  "\<exists>agg. orderbooks (mf_state (run (feed_books (\<lambda>_. []) 0 ''X'') (new_market_feed [''X''] 50 1 None initial_trading_state)
      [\<lparr>bk_snapshot = True, bk_bids = [(9, 1), (8, 2)], bk_asks = [(11, 3)]\<rparr>,
       \<lparr>bk_snapshot = False, bk_bids = [(9, 0)], bk_asks = [(10, 4)]\<rparr>])) ''X'' = Some agg
    \<and> best_bid agg = 8 \<and> best_ask agg = 10"
proof -
  let ?f = "new_market_feed [''X''] 50 1 None initial_trading_state"
  have sides: "mf_bids ?f ''X'' = Some []" "mf_asks ?f ''X'' = Some []"
    by (simp_all add: new_market_feed_def normalize_symbols_def str_eval)
  let ?B = "[8 \<mapsto> 2] :: real \<rightharpoonup> real" and ?A = "[11 \<mapsto> 3, 10 \<mapsto> 4] :: real \<rightharpoonup> real"
  have "fold set_level [(9, 0)] [9 \<mapsto> 1, 8 \<mapsto> 2] = ?B" "dom ?B = {8}" "dom ?A = {10, 11}"
    by (auto simp: set_level_def)
  with book_follows_feed [OF sides, where str_of = "\<lambda>_. []" and now = 0 and ms = "[\<lparr>bk_snapshot = True, bk_bids = [(9, 1), (8, 2)], bk_asks = [(11, 3)]\<rparr>]"
      and m = "\<lparr>bk_snapshot = False, bk_bids = [(9, 0)], bk_asks = [(10, 4)]\<rparr>"]
  show ?thesis by (auto simp: side_after_def set_level_def shows_top_def map_upd_nonempty)
qed

end
