(* ===== verification/Ohlcv_Worker.thy ===== *)
theory Ohlcv_Worker
  imports Json Runs Feature_Engine
begin

text \<open>
  The downloader of price history, \<open>src/botik/marketdata/ohlcv_worker.py\<close>: pages of candles are
  requested from the exchange, parsed and inserted into the table \<open>price_history\<close>, which is unique
  by symbol, category, interval and open time.

  The exchange is a parameter: for each request of a run, counted from zero, and its arguments it
  gives the decoded body of the answer, or \<open>None\<close> when the request or the decoding raises. Whether
  the database accepts the write of that page is a second parameter. The only loop of the component
  is the paging of \<open>backfill\<close>; it is defined by its own recursion, whose termination rests on the
  guard the source calls a protection against hanging.
\<close>

definition KLINE_LIMIT :: nat where "KLINE_LIMIT = 1000"

definition interval_table :: "(string \<times> int) list" where
  "interval_table =
     [(''1'', 60000), (''3'', 180000), (''5'', 300000), (''15'', 900000), (''30'', 1800000),
      (''60'', 3600000), (''120'', 7200000), (''240'', 14400000), (''360'', 21600000),
      (''720'', 43200000), (''D'', 86400000), (''W'', 604800000)]"

definition interval_to_ms :: "string \<Rightarrow> int" where
  "interval_to_ms interval = (case dict_get interval_table interval of None \<Rightarrow> 60000 | Some ms \<Rightarrow> ms)"

section \<open>Requests\<close>

record kline_request =
  kr_symbol :: string
  kr_category :: string
  kr_interval :: string
  kr_limit :: int
  kr_start :: "int option"

type_synonym kline_exchange = "nat \<Rightarrow> kline_request \<Rightarrow> json option"

text \<open>\<open>list(reversed(v))\<close> of a value that is truthy.\<close>

fun json_reversed :: "json \<Rightarrow> py_error + json list" where
  "json_reversed (JArr xs) = Inr (rev xs)"
| "json_reversed (JStr s) = Inr (rev (map (\<lambda>c. JStr [c]) s))"
| "json_reversed (JObj d) = Inr (rev (map (JStr \<circ> fst) d))"
| "json_reversed _ = Inl TypeError"

definition kline_list :: "json \<Rightarrow> py_error + json list" where
  "kline_list data =
     (case json_get data ''retCode'' JNull of
        Inl e \<Rightarrow> Inl e
      | Inr code \<Rightarrow>
          if \<not> ret_code_ok code then Inr []
          else case json_get data ''result'' (JObj []) of Inl e \<Rightarrow> Inl e | Inr result \<Rightarrow>
               case json_get result ''list'' (JArr []) of Inl e \<Rightarrow> Inl e | Inr raw_list \<Rightarrow>
               if \<not> json_truthy raw_list then Inr [] else json_reversed raw_list)"

definition fetch_kline :: "kline_exchange \<Rightarrow> nat \<Rightarrow> kline_request \<Rightarrow> py_error + json list" where
  "fetch_kline exchange n request =
     (case exchange n request of None \<Rightarrow> Inr [] | Some data \<Rightarrow> kline_list data)"

section \<open>Saving a page\<close>

fun json_len :: "json \<Rightarrow> nat" where
  "json_len (JArr xs) = length xs"
| "json_len (JStr s) = length s"
| "json_len (JObj d) = length d"
| "json_len _ = 0"

definition candle_field :: "json \<Rightarrow> nat \<Rightarrow> py_error + real" where
  "candle_field c i = (case json_index c i of Inl e \<Rightarrow> Inl e | Inr v \<Rightarrow> json_float v)"

definition candle_time :: "json \<Rightarrow> py_error + int" where
  "candle_time c = (case json_index c 0 of Inl e \<Rightarrow> Inl e | Inr v \<Rightarrow> json_int v)"

definition candle_turnover :: "json \<Rightarrow> py_error + real" where
  "candle_turnover c = (if json_len c > 6 then candle_field c 6 else Inr 0)"

text \<open>
  The seven conversions in their order; the turnover is converted, so that it can raise, and is
  stored in a column that nothing reads and \<open>price_row\<close> leaves out.
\<close>

definition candle_row :: "string \<Rightarrow> string \<Rightarrow> string \<Rightarrow> json \<Rightarrow> py_error + price_row" where
  "candle_row symbol category interval c =
     (case candle_time c of Inl e \<Rightarrow> Inl e | Inr t \<Rightarrow>
      case candle_field c 1 of Inl e \<Rightarrow> Inl e | Inr open_p \<Rightarrow>
      case candle_field c 2 of Inl e \<Rightarrow> Inl e | Inr high \<Rightarrow>
      case candle_field c 3 of Inl e \<Rightarrow> Inl e | Inr low \<Rightarrow>
      case candle_field c 4 of Inl e \<Rightarrow> Inl e | Inr close \<Rightarrow>
      case candle_field c 5 of Inl e \<Rightarrow> Inl e | Inr volume \<Rightarrow>
      case candle_turnover c of Inl e \<Rightarrow> Inl e | Inr turnover \<Rightarrow>
      Inr \<lparr>ph_symbol = symbol, ph_category = category, ph_interval = interval, ph_open_time_ms = t,
           ph_open = Some open_p, ph_high = Some high, ph_low = Some low, ph_close = Some close,
           ph_volume = Some volume\<rparr>)"

text \<open>One turn of the parsing loop: a skipped candle, a row, or an error the handler does not name.\<close>

definition parse_candle :: "string \<Rightarrow> string \<Rightarrow> string \<Rightarrow> json \<Rightarrow> py_error + price_row option" where
  "parse_candle symbol category interval c =
     (case candle_row symbol category interval c of
        Inl e \<Rightarrow> if e \<in> {IndexError, ValueError, TypeError} then Inr None else Inl e
      | Inr r \<Rightarrow> if or_zero (ph_close r) \<le> 0 then Inr None else Inr (Some r))"

definition parse_candles :: "string \<Rightarrow> string \<Rightarrow> string \<Rightarrow> json list \<Rightarrow> py_error + price_row list" where
  "parse_candles symbol category interval candles =
     map_sum id (List.map_filter id) (try_map (parse_candle symbol category interval) candles)"

definition row_key :: "price_row \<Rightarrow> string \<times> string \<times> string \<times> int" where
  "row_key r = (ph_symbol r, ph_category r, ph_interval r, ph_open_time_ms r)"

definition insert_or_ignore :: "price_row \<Rightarrow> price_row list \<Rightarrow> price_row list" where
  "insert_or_ignore r table = (if row_key r \<in> row_key ` set table then table else table @ [r])"

text \<open>An open time that does not fit the 64 bits of the database makes the whole batch fail.\<close>

definition fits_sqlite :: "price_row \<Rightarrow> bool" where
  "fits_sqlite r \<longleftrightarrow> - (2 ^ 63) \<le> ph_open_time_ms r \<and> ph_open_time_ms r < 2 ^ 63"

definition insert_rows :: "bool \<Rightarrow> price_row list \<Rightarrow> price_row list \<Rightarrow> price_row list \<times> int" where
  "insert_rows db_ok rows table =
     (if \<not> db_ok \<or> \<not> list_all fits_sqlite rows then (table, 0)
      else let table' = fold insert_or_ignore rows table in
           (table', max 0 (int (length table') - int (length table))))"

definition save_candles ::
    "bool \<Rightarrow> string \<Rightarrow> string \<Rightarrow> string \<Rightarrow> json list \<Rightarrow> price_row list \<Rightarrow> price_row list \<times> (py_error + int)" where
  "save_candles db_ok symbol category interval candles table =
     (if candles = [] then (table, Inr 0)
      else case parse_candles symbol category interval candles of
        Inl e \<Rightarrow> (table, Inl e)
      | Inr rows \<Rightarrow>
          if rows = [] then (table, Inr 0)
          else let (table', saved) = insert_rows db_ok rows table in (table', Inr saved))"

definition get_candle_count :: "bool \<Rightarrow> string \<Rightarrow> string \<Rightarrow> string \<Rightarrow> price_row list \<Rightarrow> nat" where
  "get_candle_count db_ok symbol category interval table =
     (if db_ok then length (filter (\<lambda>r. ph_symbol r = symbol \<and> ph_category r = category \<and> ph_interval r = interval) table)
      else 0)"

section \<open>The two downloads\<close>

record kline_world =
  kw_exchange :: kline_exchange
  kw_db :: "nat \<Rightarrow> bool"

record kline_job =
  kj_symbol :: string
  kj_category :: string
  kj_interval :: string

definition page_request :: "kline_job \<Rightarrow> int \<Rightarrow> kline_request" where
  "page_request job current_start =
     \<lparr>kr_symbol = kj_symbol job, kr_category = kj_category job, kr_interval = kj_interval job,
      kr_limit = int KLINE_LIMIT, kr_start = Some current_start\<rparr>"

text \<open>
  The paging loop: \<open>n\<close> counts the requests, the result holds the table, the number of requests
  made and the returned number or the error.
\<close>

function backfill_pages ::
    "kline_world \<Rightarrow> kline_job \<Rightarrow> int \<Rightarrow> nat \<Rightarrow> int \<Rightarrow> int \<Rightarrow> price_row list
     \<Rightarrow> price_row list \<times> nat \<times> (py_error + int)" where
  "backfill_pages w job now_ms n current_start so_far table =
     (if \<not> current_start < now_ms then (table, n, Inr so_far)
      else case fetch_kline (kw_exchange w) n (page_request job current_start) of
        Inl e \<Rightarrow> (table, Suc n, Inl e)
      | Inr candles \<Rightarrow>
          if candles = [] then (table, Suc n, Inr so_far)
          else case save_candles (kw_db w n) (kj_symbol job) (kj_category job) (kj_interval job) candles table of
            (table', Inl e) \<Rightarrow> (table', Suc n, Inl e)
          | (table', Inr saved) \<Rightarrow>
              case candle_time (last candles) of
                Inl e \<Rightarrow> (table', Suc n, Inl e)
              | Inr last_ts \<Rightarrow>
                  let next_start = last_ts + interval_to_ms (kj_interval job) in
                  if next_start \<le> current_start then (table', Suc n, Inr (so_far + saved))
                  else if length candles < KLINE_LIMIT then (table', Suc n, Inr (so_far + saved))
                  else backfill_pages w job now_ms (Suc n) next_start (so_far + saved) table')"
  by pat_completeness auto
termination
  by (relation "measure (\<lambda>(w, job, now_ms, n, current_start, total, table). nat (now_ms - current_start))") auto

declare backfill_pages.simps [simp del]

definition backfill ::
    "kline_world \<Rightarrow> int \<Rightarrow> kline_job \<Rightarrow> int \<Rightarrow> price_row list \<Rightarrow> price_row list \<times> nat \<times> (py_error + int)" where
  "backfill w now_ms job days_back table =
     backfill_pages w job now_ms 0 (now_ms - days_back * 24 * 60 * 60 * 1000) 0 table"

definition fetch_recent ::
    "kline_world \<Rightarrow> nat \<Rightarrow> kline_job \<Rightarrow> int \<Rightarrow> price_row list \<Rightarrow> price_row list \<times> (py_error + int)" where
  "fetch_recent w n job limit table =
     (case fetch_kline (kw_exchange w) n
        \<lparr>kr_symbol = kj_symbol job, kr_category = kj_category job, kr_interval = kj_interval job,
         kr_limit = min limit (int KLINE_LIMIT), kr_start = None\<rparr> of
        Inl e \<Rightarrow> (table, Inl e)
      | Inr candles \<Rightarrow>
          if candles = [] then (table, Inr 0)
          else save_candles (kw_db w n) (kj_symbol job) (kj_category job) (kj_interval job) candles table)"


section \<open>The table grows at its end\<close>

text \<open>The rows are one per key, and none has a closing price that is missing or not positive.\<close>

definition price_table_ok :: "price_row list \<Rightarrow> bool" where
  "price_table_ok table \<longleftrightarrow> distinct (map row_key table) \<and> (\<forall>r \<in> set table. 0 < or_zero (ph_close r))"

definition appended :: "price_row list \<Rightarrow> price_row list \<Rightarrow> price_row list \<Rightarrow> bool" where
  "appended table new table' \<longleftrightarrow> table' = table @ new \<and> distinct (map row_key new)
     \<and> row_key ` set new \<inter> row_key ` set table = {} \<and> (\<forall>r \<in> set new. 0 < or_zero (ph_close r))"

lemma appended_Nil [simp]: "appended table [] table' \<longleftrightarrow> table' = table"
  by (auto simp: appended_def)

lemma appended_trans: "appended t xs t' \<Longrightarrow> appended t' ys t'' \<Longrightarrow> appended t (xs @ ys) t''"
  by (auto simp: appended_def)

lemma appended_ok: "appended t xs t' \<Longrightarrow> price_table_ok t \<Longrightarrow> price_table_ok t'"
  by (auto simp: appended_def price_table_ok_def)

lemma insert_appends:
  assumes "0 < or_zero (ph_close r)"
  shows "appended table (if row_key r \<in> row_key ` set table then [] else [r]) (insert_or_ignore r table)"
  using assms by (auto simp: appended_def insert_or_ignore_def)

lemma inserts_append:
  "\<forall>r \<in> set rows. 0 < or_zero (ph_close r) \<Longrightarrow> \<exists>new. appended table new (fold insert_or_ignore rows table)"
proof (induction rows arbitrary: table)
  case Nil
  have "appended table [] (fold insert_or_ignore [] table)" by simp
  then show ?case ..
next
  case (Cons r rows)
  then obtain new where "appended (insert_or_ignore r table) new (fold insert_or_ignore rows (insert_or_ignore r table))"
    by fastforce
  with appended_trans [OF insert_appends this] Cons.prems show ?case by fastforce
qed

lemma insert_keys: "row_key ` set (insert_or_ignore r table) = insert (row_key r) (row_key ` set table)"
  by (auto simp: insert_or_ignore_def)

lemma inserted_keys:
  "row_key ` set (fold insert_or_ignore rows table) = row_key ` set rows \<union> row_key ` set table"
  by (induction rows arbitrary: table) (simp_all add: insert_keys)

lemma inserts_known: "row_key ` set rows \<subseteq> row_key ` set table \<Longrightarrow> fold insert_or_ignore rows table = table"
  by (induction rows) (simp_all add: insert_or_ignore_def)

lemma insert_rows_appends:
  assumes "\<forall>r \<in> set rows. 0 < or_zero (ph_close r)"
  shows "\<exists>new. appended table new (fst (insert_rows db_ok rows table))
           \<and> snd (insert_rows db_ok rows table) = int (length new)"
proof (cases "\<not> db_ok \<or> \<not> list_all fits_sqlite rows")
  case True
  then have "appended table [] (fst (insert_rows db_ok rows table))
      \<and> snd (insert_rows db_ok rows table) = int (length [])"
    by (simp add: insert_rows_def)
  then show ?thesis by blast
next
  case False
  obtain new where new: "appended table new (fold insert_or_ignore rows table)"
    using inserts_append [OF assms] by blast
  moreover from new have "fold insert_or_ignore rows table = table @ new" by (simp add: appended_def)
  with False have "insert_rows db_ok rows table = (fold insert_or_ignore rows table, int (length new))"
    by (auto simp: insert_rows_def Let_def)
  ultimately show ?thesis by (intro exI [of _ new]) simp
qed

lemma try_map_member: "try_map f xs = Inr ys \<Longrightarrow> y \<in> set ys \<Longrightarrow> \<exists>x \<in> set xs. f x = Inr y"
  by (induction xs arbitrary: ys) (fastforce split: sum.splits)+

lemma parsed_positive:
  assumes "parse_candles s c i candles = Inr rows" "r \<in> set rows"
  shows "0 < or_zero (ph_close r)"
proof -
  from assms(1) obtain os where os: "try_map (parse_candle s c i) candles = Inr os"
      and rows: "rows = List.map_filter id os"
    by (cases "try_map (parse_candle s c i) candles") (auto simp: parse_candles_def)
  from rows assms(2) have "Some r \<in> set os" by (auto simp: List.map_filter_def)
  with try_map_member [OF os] obtain x where "parse_candle s c i x = Inr (Some r)" by blast
  then show ?thesis
    by (cases "candle_row s c i x") (simp_all add: parse_candle_def split: if_splits)
qed

lemma save_appends:
  obtains new where "appended table new (fst (save_candles db_ok s c i candles table))"
    "\<And>k. snd (save_candles db_ok s c i candles table) = Inr k \<Longrightarrow> k = int (length new)"
    "\<And>e. snd (save_candles db_ok s c i candles table) = Inl e \<Longrightarrow> new = []"
proof (cases "parse_candles s c i candles")
  case (Inl e)
  then show ?thesis by (intro that [of "[]"]) (auto simp: save_candles_def split: if_splits)
next
  case (Inr rows)
  have pos: "\<forall>r \<in> set rows. 0 < or_zero (ph_close r)" using parsed_positive [OF Inr] by blast
  show ?thesis
  proof (cases "candles = [] \<or> rows = []")
    case True
    with Inr show ?thesis by (intro that [of "[]"]) (auto simp: save_candles_def split: if_splits)
  next
    case False
    from insert_rows_appends [OF pos] obtain new where
      "appended table new (fst (insert_rows db_ok rows table))"
      "snd (insert_rows db_ok rows table) = int (length new)" by blast
    moreover from False Inr have "save_candles db_ok s c i candles table
        = (fst (insert_rows db_ok rows table), Inr (snd (insert_rows db_ok rows table)))"
      by (simp add: save_candles_def case_prod_beta)
    ultimately show ?thesis by (intro that [of new]) simp_all
  qed
qed


section \<open>The paging loop\<close>

text \<open>One turn of the loop: it ends without a request, ends after a request, or asks for another page.\<close>

lemma page_cases:
  obtains
    (idle) "\<not> current_start < now_ms"
      "backfill_pages w job now_ms n current_start so_far table = (table, n, Inr so_far)"
  | (stop) table' new out where "current_start < now_ms" "appended table new table'"
      "\<And>m. out = Inr m \<Longrightarrow> m = so_far + int (length new)"
      "backfill_pages w job now_ms n current_start so_far table = (table', Suc n, out)"
  | (more) candles t table' new where "current_start < now_ms" "appended table new table'"
      "fetch_kline (kw_exchange w) n (page_request job current_start) = Inr candles"
      "KLINE_LIMIT \<le> length candles" "candle_time (last candles) = Inr t"
      "current_start < t + interval_to_ms (kj_interval job)"
      "backfill_pages w job now_ms n current_start so_far table
       = backfill_pages w job now_ms (Suc n) (t + interval_to_ms (kj_interval job)) (so_far + int (length new)) table'"
proof (cases "current_start < now_ms")
  case False
  then show ?thesis using idle by (simp add: backfill_pages.simps [of w job now_ms n])
next
  case True
  note unfold = backfill_pages.simps [of w job now_ms n current_start so_far table] True
  show ?thesis
  proof (cases "fetch_kline (kw_exchange w) n (page_request job current_start)")
    case (Inl e)
    with unfold show ?thesis by (intro stop [of "[]" table "Inl e"]) simp_all
  next
    case (Inr candles)
    note fetched = Inr
    show ?thesis
    proof (cases "candles = []")
      case True
      with unfold fetched show ?thesis by (intro stop [of "[]" table "Inr so_far"]) simp_all
    next
      case False
      define sv where "sv = save_candles (kw_db w n) (kj_symbol job) (kj_category job) (kj_interval job) candles table"
      obtain new where new: "appended table new (fst sv)" "\<And>k. snd sv = Inr k \<Longrightarrow> k = int (length new)"
        unfolding sv_def by (rule save_appends) blast
      note unfold = unfold fetched False sv_def [symmetric]
      show ?thesis
      proof (cases "snd sv")
        case (Inl e)
        with unfold new(1) show ?thesis by (intro stop [of new "fst sv" "Inl e"]) (simp_all add: case_prod_beta)
      next
        case (Inr saved)
        with new(2) have saved: "snd sv = Inr (int (length new))" by simp
        show ?thesis
        proof (cases "candle_time (last candles)")
          case (Inl e)
          with unfold saved new(1) show ?thesis
            by (intro stop [of new "fst sv" "Inl e"]) (simp_all add: case_prod_beta)
        next
          case (Inr t)
          show ?thesis
          proof (cases "t + interval_to_ms (kj_interval job) \<le> current_start \<or> length candles < KLINE_LIMIT")
            case True
            with unfold saved Inr new(1) show ?thesis
              by (intro stop [of new "fst sv" "Inr (so_far + int (length new))"]) (auto simp: case_prod_beta Let_def)
          next
            case False
            with unfold saved Inr new(1) fetched show ?thesis
              by (intro more [of new "fst sv" candles t]) (simp_all add: case_prod_beta Let_def)
          qed
        qed
      qed
    qed
  qed
qed

lemma pages_append:
  "\<exists>new. appended table new (fst (backfill_pages w job now_ms n current_start so_far table))
     \<and> (\<forall>m. snd (snd (backfill_pages w job now_ms n current_start so_far table)) = Inr m \<longrightarrow> m = so_far + int (length new))"
proof (induction "nat (now_ms - current_start)" arbitrary: n current_start so_far table rule: less_induct)
  case less
  show ?case
  proof (cases rule: page_cases [of current_start now_ms w job n so_far table])
    case idle
    then have "appended table [] (fst (backfill_pages w job now_ms n current_start so_far table))" by simp
    with idle(2) show ?thesis by (intro exI [of _ "[]"]) simp
  next
    case (stop table' new out)
    then show ?thesis by (intro exI [of _ new]) simp
  next
    case (more candles t table' new)
    let ?s = "t + interval_to_ms (kj_interval job)"
    let ?rest = "backfill_pages w job now_ms (Suc n) ?s (so_far + int (length new)) table'"
    from more have "nat (now_ms - ?s) < nat (now_ms - current_start)" by simp
    from less [OF this] obtain new' where
      "appended table' new' (fst ?rest)"
      "\<forall>m. snd (snd ?rest) = Inr m \<longrightarrow> m = so_far + int (length new) + int (length new')"
      by blast
    with appended_trans [OF more(2)] more(7) show ?thesis
      by (intro exI [of _ "new @ new'"]) (simp add: add.assoc)
  qed
qed

text \<open>Every full page ends at least \<open>d\<close> milliseconds, its own candle included, after the requested start.\<close>

definition pages_advance :: "kline_exchange \<Rightarrow> kline_job \<Rightarrow> int \<Rightarrow> bool" where
  "pages_advance exchange job d \<longleftrightarrow> (\<forall>n s candles t.
     fetch_kline exchange n (page_request job s) = Inr candles \<longrightarrow> KLINE_LIMIT \<le> length candles
     \<longrightarrow> candle_time (last candles) = Inr t \<longrightarrow> s + d \<le> t + interval_to_ms (kj_interval job))"

lemma pages_bound:
  assumes advance: "\<And>m s candles t. fetch_kline (kw_exchange w) m (page_request job s) = Inr candles \<Longrightarrow>
       KLINE_LIMIT \<le> length candles \<Longrightarrow> candle_time (last candles) = Inr t \<Longrightarrow>
       s < t + interval_to_ms (kj_interval job) \<Longrightarrow> s + d \<le> t + interval_to_ms (kj_interval job)"
    and "0 < d"
  shows "n \<le> fst (snd (backfill_pages w job now_ms n current_start so_far table))
     \<and> d * (int (fst (snd (backfill_pages w job now_ms n current_start so_far table))) - int n)
       \<le> max 0 (now_ms - current_start + (d - 1))"
proof (induction "nat (now_ms - current_start)" arbitrary: n current_start so_far table rule: less_induct)
  case less
  show ?case
  proof (cases rule: page_cases [of current_start now_ms w job n so_far table])
    case idle
    then show ?thesis by simp
  next
    case (stop table' new out)
    then show ?thesis using \<open>0 < d\<close> by simp
  next
    case (more candles t table' new)
    let ?s = "t + interval_to_ms (kj_interval job)"
    let ?k = "fst (snd (backfill_pages w job now_ms (Suc n) ?s (so_far + int (length new)) table'))"
    from more have "nat (now_ms - ?s) < nat (now_ms - current_start)" by simp
    from less [OF this] have IH: "Suc n \<le> ?k" "d * (int ?k - int (Suc n)) \<le> max 0 (now_ms - ?s + (d - 1))"
      by blast+
    from advance [OF more(3-6)] have "current_start + d \<le> ?s" .
    with IH(2) more(1) have "d * (int ?k - int (Suc n)) + d \<le> max 0 (now_ms - current_start + (d - 1))"
      by linarith
    then have "d * (int ?k - int n) \<le> max 0 (now_ms - current_start + (d - 1))" by (simp add: algebra_simps)
    with IH(1) more(7) show ?thesis by simp
  qed
qed


section \<open>Downloading a history\<close>

text \<open>
  What the exchange promises: a request from a start time is answered with the first candles of the
  history that open at that time or later, as many as the limit allows.
\<close>

definition serves_history :: "kline_exchange \<Rightarrow> kline_job \<Rightarrow> price_row list \<Rightarrow> bool" where
  "serves_history exchange job history \<longleftrightarrow> (\<forall>n s. \<exists>candles.
     fetch_kline exchange n (page_request job s) = Inr candles
     \<and> try_map (candle_row (kj_symbol job) (kj_category job) (kj_interval job)) candles
       = Inr (take KLINE_LIMIT (filter (\<lambda>r. s \<le> ph_open_time_ms r) history)))"

definition history_ok :: "int \<Rightarrow> price_row list \<Rightarrow> bool" where
  "history_ok interval_ms history \<longleftrightarrow>
     sorted_wrt (\<lambda>a b. ph_open_time_ms a + interval_ms \<le> ph_open_time_ms b) history
     \<and> list_all (\<lambda>r. 0 < or_zero (ph_close r) \<and> fits_sqlite r) history"

lemma interval_positive: "0 < interval_to_ms interval"
  by (simp add: interval_to_ms_def interval_table_def split: option.split)

lemma candle_row_time: "candle_row s c i x = Inr r \<Longrightarrow> candle_time x = Inr (ph_open_time_ms r)"
  by (auto simp: candle_row_def split: sum.splits)

lemma parse_positive_rows:
  "try_map (candle_row s c i) candles = Inr rows \<Longrightarrow> list_all (\<lambda>r. 0 < or_zero (ph_close r)) rows
   \<Longrightarrow> parse_candles s c i candles = Inr rows"
proof (induction candles arbitrary: rows)
  case Nil
  then show ?case by (simp add: parse_candles_def List.map_filter_def)
next
  case (Cons x candles)
  then obtain r rs where x: "candle_row s c i x = Inr r" and rs: "try_map (candle_row s c i) candles = Inr rs"
      and rows: "rows = r # rs"
    by (auto split: sum.splits)
  from Cons.prems(2) rows Cons.IH [OF rs] have "parse_candles s c i candles = Inr rs" by simp
  moreover from x rows Cons.prems(2) have "parse_candle s c i x = Inr (Some r)" by (simp add: parse_candle_def)
  ultimately show ?case
    using rows by (auto simp: parse_candles_def List.map_filter_def split: sum.splits)
qed

lemma try_map_length: "try_map f xs = Inr ys \<Longrightarrow> length ys = length xs"
  by (induction xs arbitrary: ys) (auto split: sum.splits)

lemma try_map_Nil_iff: "try_map f xs = Inr [] \<longleftrightarrow> xs = []"
  by (cases xs) (auto split: sum.splits)

lemma try_map_last: "try_map f xs = Inr ys \<Longrightarrow> xs \<noteq> [] \<Longrightarrow> f (last xs) = Inr (last ys)"
  by (induction xs arbitrary: ys) (auto simp: try_map_Nil_iff split: sum.splits if_splits)

lemma inserts_keep: "set table \<subseteq> set (fold insert_or_ignore rows table)"
  by (induction rows arbitrary: table) (fastforce simp: insert_or_ignore_def)+

lemma inserted_member:
  "r \<in> set rows \<Longrightarrow> inj_on row_key (set rows) \<Longrightarrow> row_key r \<notin> row_key ` set table
   \<Longrightarrow> r \<in> set (fold insert_or_ignore rows table)"
proof (induction rows rule: rev_induct)
  case Nil
  then show ?case by simp
next
  case (snoc x rows)
  show ?case
  proof (cases "r \<in> set rows")
    case True
    with snoc have "r \<in> set (fold insert_or_ignore rows table)" by (simp add: inj_on_def)
    then show ?thesis using inserts_keep [of _ "[x]"] by auto
  next
    case False
    with snoc.prems have r: "r = x" and "\<forall>y \<in> set rows. row_key y \<noteq> row_key r" by (auto simp: inj_on_def)
    with snoc.prems(3) have "row_key r \<notin> row_key ` set (fold insert_or_ignore rows table)"
      by (auto simp: inserted_keys image_iff)
    with r show ?thesis by (simp add: insert_or_ignore_def [of x])
  qed
qed

lemma history_inj:
  assumes "history_ok d history" "0 < d"
  shows "inj_on row_key (set history)"
proof -
  from assms have "distinct (map ph_open_time_ms history)"
    unfolding history_ok_def by (induction history) fastforce+
  then show ?thesis by (auto simp: row_key_def inj_on_def distinct_map)
qed

lemma page_prefix:
  assumes "history_ok d history" "r \<in> set history" "s \<le> ph_open_time_ms r"
    and "rows = take n (filter (\<lambda>r. s \<le> ph_open_time_ms r) history)"
    and "r \<notin> set rows" "rows \<noteq> []"
  shows "n \<le> length rows" and "ph_open_time_ms (last rows) + d \<le> ph_open_time_ms r"
proof -
  let ?all = "filter (\<lambda>r. s \<le> ph_open_time_ms r) history"
  have split: "?all = rows @ drop n ?all" using assms(4) by simp
  from assms(2,3) have "r \<in> set ?all" by simp
  with assms(5) split have later: "r \<in> set (drop n ?all)" by (metis Un_iff set_append)
  then show "n \<le> length rows" using assms(4) by (metis drop_all empty_iff length_take linear list.set(1) min.absorb2 order_refl)
  from assms(1) have "sorted_wrt (\<lambda>a b. ph_open_time_ms a + d \<le> ph_open_time_ms b) (rows @ drop n ?all)"
    unfolding split [symmetric] history_ok_def by (simp add: sorted_wrt_filter)
  then show "ph_open_time_ms (last rows) + d \<le> ph_open_time_ms r"
    using later assms(6) by (auto simp: sorted_wrt_append)
qed


text \<open>What one request does under these promises.\<close>

lemma served_page:
  assumes served: "serves_history (kw_exchange w) job history"
    and history: "history_ok (interval_to_ms (kj_interval job)) history"
    and db: "\<And>n. kw_db w n"
    and "current_start < now_ms"
    and rows: "rows = take KLINE_LIMIT (filter (\<lambda>r. current_start \<le> ph_open_time_ms r) history)"
  shows "rows = [] \<Longrightarrow> backfill_pages w job now_ms n current_start so_far table = (table, Suc n, Inr so_far)"
    and "rows \<noteq> [] \<Longrightarrow> \<exists>saved. backfill_pages w job now_ms n current_start so_far table =
      (if length rows < KLINE_LIMIT then (fold insert_or_ignore rows table, Suc n, Inr (so_far + saved))
       else backfill_pages w job now_ms (Suc n) (ph_open_time_ms (last rows) + interval_to_ms (kj_interval job))
              (so_far + saved) (fold insert_or_ignore rows table))"
    and "rows \<noteq> [] \<Longrightarrow> current_start < ph_open_time_ms (last rows) + interval_to_ms (kj_interval job)"
proof -
  note unfold = backfill_pages.simps [of w job now_ms n current_start so_far table] assms(4)
  from served obtain candles where
      fetched: "fetch_kline (kw_exchange w) n (page_request job current_start) = Inr candles"
      and read: "try_map (candle_row (kj_symbol job) (kj_category job) (kj_interval job)) candles = Inr rows"
    unfolding serves_history_def rows by blast
  show "backfill_pages w job now_ms n current_start so_far table = (table, Suc n, Inr so_far)" if "rows = []"
    using read that unfold fetched by (simp add: try_map_Nil_iff)
  have sub: "set rows \<subseteq> {r \<in> set history. current_start \<le> ph_open_time_ms r}"
    unfolding rows by (auto dest: in_set_takeD)
  show later: "current_start < ph_open_time_ms (last rows) + interval_to_ms (kj_interval job)" if "rows \<noteq> []"
    using sub last_in_set [OF that] interval_positive [of "kj_interval job"] by fastforce
  show "\<exists>saved. backfill_pages w job now_ms n current_start so_far table =
      (if length rows < KLINE_LIMIT then (fold insert_or_ignore rows table, Suc n, Inr (so_far + saved))
       else backfill_pages w job now_ms (Suc n) (ph_open_time_ms (last rows) + interval_to_ms (kj_interval job))
              (so_far + saved) (fold insert_or_ignore rows table))" if "rows \<noteq> []"
  proof -
    from sub history have good: "list_all (\<lambda>r. 0 < or_zero (ph_close r)) rows" "list_all fits_sqlite rows"
      by (auto simp: history_ok_def list_all_iff)
    from read that have ne: "candles \<noteq> []" by auto
    with that parse_positive_rows [OF read good(1)] good(2) db [of n] have saved:
      "save_candles (kw_db w n) (kj_symbol job) (kj_category job) (kj_interval job) candles table =
       (fold insert_or_ignore rows table, Inr (snd (insert_rows True rows table)))"
      by (simp add: save_candles_def insert_rows_def Let_def)
    from candle_row_time [OF try_map_last [OF read ne]]
    have "candle_time (last candles) = Inr (ph_open_time_ms (last rows))" .
    with unfold fetched ne saved later [OF that] try_map_length [OF read] show ?thesis
      by (intro exI [of _ "snd (insert_rows True rows table)"]) (simp add: Let_def)
  qed
qed

lemma backfill_pages_complete:
  assumes served: "serves_history (kw_exchange w) job history"
    and history: "history_ok (interval_to_ms (kj_interval job)) history"
    and db: "\<And>n. kw_db w n"
  shows "(\<exists>m. snd (snd (backfill_pages w job now_ms n current_start so_far table)) = Inr m)
     \<and> (\<forall>r \<in> set history. current_start \<le> ph_open_time_ms r \<longrightarrow> ph_open_time_ms r < now_ms \<longrightarrow>
          row_key r \<in> row_key ` set table
          \<or> r \<in> set (fst (backfill_pages w job now_ms n current_start so_far table)))"
proof (induction "nat (now_ms - current_start)" arbitrary: n current_start so_far table rule: less_induct)
  case less
  define rows where "rows = take KLINE_LIMIT (filter (\<lambda>r. current_start \<le> ph_open_time_ms r) history)"
  define t1 where "t1 = fold insert_or_ignore rows table"
  note page = served_page [OF served history db _ rows_def]
  have inj: "inj_on row_key (set history)" using history_inj [OF history interval_positive] .
  have sub: "set rows \<subseteq> set history" unfolding rows_def by (auto dest: in_set_takeD)
  have stored: "row_key r \<in> row_key ` set table \<or> r \<in> set t1" if "r \<in> set history" "row_key r \<in> row_key ` set t1" for r
  proof (cases "row_key r \<in> row_key ` set table")
    case False
    with that(2) have "row_key r \<in> row_key ` set rows" by (simp add: t1_def inserted_keys)
    with inj that(1) sub have "r \<in> set rows" by (auto simp: inj_on_def subset_iff)
    with inserted_member [OF this inj_on_subset [OF inj sub] False] show ?thesis by (simp add: t1_def)
  qed simp
  consider "\<not> current_start < now_ms" | "current_start < now_ms" "rows = []"
    | "current_start < now_ms" "rows \<noteq> []" "length rows < KLINE_LIMIT"
    | "current_start < now_ms" "rows \<noteq> []" "\<not> length rows < KLINE_LIMIT" by blast
  then show ?case
  proof cases
    case 1
    then show ?thesis by (auto simp: backfill_pages.simps [of w job now_ms n])
  next
    case 2
    have "filter (\<lambda>r. current_start \<le> ph_open_time_ms r) history = []"
      using 2(2) by (simp add: rows_def KLINE_LIMIT_def)
    with page(1) [OF 2] show ?thesis by (auto simp: filter_empty_conv)
  next
    case 3
    from page(2) [OF 3(1,2), where n = n and so_far = so_far and table = table] 3(3) obtain m where
        r: "backfill_pages w job now_ms n current_start so_far table = (t1, Suc n, Inr m)"
      by (auto simp: t1_def)
    have "r \<in> set rows" if "r \<in> set history" "current_start \<le> ph_open_time_ms r" for r
      using page_prefix(1) [OF history that rows_def] 3(2,3) by auto
    then have "\<forall>r \<in> set history. current_start \<le> ph_open_time_ms r \<longrightarrow> row_key r \<in> row_key ` set t1"
      by (auto simp: t1_def inserted_keys)
    with stored r show ?thesis by auto
  next
    case 4
    let ?s = "ph_open_time_ms (last rows) + interval_to_ms (kj_interval job)"
    from page(2) [OF 4(1,2), where n = n and so_far = so_far and table = table] 4(3) obtain saved where
        r: "backfill_pages w job now_ms n current_start so_far table
            = backfill_pages w job now_ms (Suc n) ?s (so_far + saved) t1"
      by (auto simp: t1_def)
    from page(3) [OF 4(1,2)] 4(1) have "nat (now_ms - ?s) < nat (now_ms - current_start)" by simp
    note IH = less [OF this, where n = "Suc n" and so_far = "so_far + saved" and table = t1]
    have "row_key r \<in> row_key ` set table \<or> r \<in> set (fst (backfill_pages w job now_ms (Suc n) ?s (so_far + saved) t1))"
      if "r \<in> set history" "current_start \<le> ph_open_time_ms r" "ph_open_time_ms r < now_ms" for r
    proof (cases "?s \<le> ph_open_time_ms r")
      case True
      with IH that stored [of r] pages_append [where w = w and job = job and now_ms = now_ms and n = "Suc n" and current_start = ?s and so_far = "so_far + saved" and table = t1]
      show ?thesis by (auto simp: appended_def)
    next
      case False
      with page_prefix(2) [OF history that(1,2) rows_def _ 4(2)] have "r \<in> set rows" by auto
      with that(1) stored [of r] have "row_key r \<in> row_key ` set table \<or> r \<in> set t1"
        by (auto simp: t1_def inserted_keys)
      with pages_append [where w = w and job = job and now_ms = now_ms and n = "Suc n" and current_start = ?s and so_far = "so_far + saved" and table = t1] show ?thesis by (auto simp: appended_def)
    qed
    with IH r show ?thesis by simp
  qed
qed


section \<open>An exchange that keeps the promise\<close>

type_synonym quote = "int \<times> real \<times> real \<times> real \<times> real \<times> real"

definition quote_row :: "kline_job \<Rightarrow> quote \<Rightarrow> price_row" where
  "quote_row job x = (case x of (t, op, hi, lo, cl, v) \<Rightarrow>
     \<lparr>ph_symbol = kj_symbol job, ph_category = kj_category job, ph_interval = kj_interval job,
      ph_open_time_ms = t, ph_open = Some op, ph_high = Some hi, ph_low = Some lo, ph_close = Some cl,
      ph_volume = Some v\<rparr>)"

definition quote_json :: "quote \<Rightarrow> json" where
  "quote_json x = (case x of (t, op, hi, lo, cl, v) \<Rightarrow>
     JArr [JNum (of_int t), JNum op, JNum hi, JNum lo, JNum cl, JNum v])"

definition history_server :: "quote list \<Rightarrow> kline_exchange" where
  "history_server quotes n request = Some (JObj
     [(''retCode'', JNum 0),
      (''result'', JObj [(''list'', JArr (rev (map quote_json (take (nat (kr_limit request))
         (filter (\<lambda>x. case kr_start request of None \<Rightarrow> True | Some s \<Rightarrow> s \<le> fst x) quotes)))))])])"

lemma quote_parsed [simp]:
  "candle_row (kj_symbol job) (kj_category job) (kj_interval job) (quote_json x) = Inr (quote_row job x)"
  by (cases x) (simp add: quote_json_def quote_row_def candle_row_def candle_time_def candle_field_def
      candle_turnover_def py_index_def py_trunc_def)

lemma quote_row_time [simp]: "ph_open_time_ms (quote_row job x) = fst x"
  by (simp add: quote_row_def split: prod.split)

lemma server_list:
  "kline_list (JObj [(''retCode'', JNum 0), (''result'', JObj [(''list'', JArr (rev cs))])]) = Inr cs"
  by (simp add: kline_list_def ret_code_ok_def)

lemma server_serves: "serves_history (history_server quotes) job (map (quote_row job) quotes)"
proof -
  have "try_map (candle_row (kj_symbol job) (kj_category job) (kj_interval job)) (map quote_json xs)
      = Inr (map (quote_row job) xs)" for xs
    by (induction xs) simp_all
  then show ?thesis
    by (simp add: serves_history_def fetch_kline_def history_server_def server_list page_request_def
        filter_map take_map comp_def)
qed

section \<open>Runs of the worker\<close>

text \<open>The calls other components make, each with the exchange and the database as they behave then.\<close>

datatype worker_call =
    Backfill kline_world int kline_job int
  | FetchRecent kline_world nat kline_job int

fun worker_step :: "price_row list \<Rightarrow> worker_call \<Rightarrow> price_row list" where
  "worker_step table (Backfill w now_ms job days_back) = fst (backfill w now_ms job days_back table)"
| "worker_step table (FetchRecent w n job limit) = fst (fetch_recent w n job limit table)"

lemma recent_appends: "\<exists>new. appended table new (fst (fetch_recent w n job limit table))"
proof (cases "fetch_kline (kw_exchange w) n
    \<lparr>kr_symbol = kj_symbol job, kr_category = kj_category job, kr_interval = kj_interval job,
     kr_limit = min limit (int KLINE_LIMIT), kr_start = None\<rparr>")
  case (Inl e)
  then have "appended table [] (fst (fetch_recent w n job limit table))" by (simp add: fetch_recent_def)
  then show ?thesis ..
next
  case (Inr candles)
  obtain new where
    "appended table new (fst (save_candles (kw_db w n) (kj_symbol job) (kj_category job) (kj_interval job) candles table))"
    by (rule save_appends)
  with Inr show ?thesis by (auto simp: fetch_recent_def save_candles_def)
qed

lemma worker_step_appends: "\<exists>new. appended table new (worker_step table c)"
proof (cases c)
  case (Backfill w now_ms job days_back)
  with pages_append show ?thesis by (fastforce simp: backfill_def)
next
  case (FetchRecent w n job limit)
  with recent_appends show ?thesis by simp
qed

interpretation price_log: guarded_run worker_step "\<lambda>_. True" "\<lambda>table. \<exists>new. appended old new table"
proof
  fix table c
  assume "\<exists>new. appended old new table"
  then obtain xs where "appended old xs table" ..
  moreover obtain ys where "appended table ys (worker_step table c)" using worker_step_appends ..
  ultimately have "appended old (xs @ ys) (worker_step table c)" by (rule appended_trans)
  then show "\<exists>new. appended old new (worker_step table c)" ..
qed

section \<open>Properties\<close>

text \<open>
  C36: The price history only grows. Whatever the exchange answers and whenever the database refuses a
  write, any sequence of downloads into a well-formed table leaves the stored rows as they are, in their order, and adds rows
  with new keys and positive closing prices (the other prices are not checked); so the table keeps one row
  per symbol, category, interval and open time. A candle that is stored is never brought up to date, contrary
  to the upsert that the comment of the module promises.
\<close>

theorem price_history_append_only:
  assumes "price_table_ok table"
  shows "\<exists>new. run worker_step table calls = table @ new \<and> price_table_ok (table @ new)"
proof -
  have "\<exists>new. appended table new table" by (intro exI [of _ "[]"]) simp
  then obtain new where "appended table new (run worker_step table calls)"
    using price_log.inv_run [of table table calls] by (auto simp: list_all_iff)
  with appended_ok [OF this assms] show ?thesis by (auto simp: appended_def)
qed

definition minutes_job :: kline_job where
  "minutes_job = \<lparr>kj_symbol = ''BTCUSDT'', kj_category = ''spot'', kj_interval = ''1''\<rparr>"

definition two_minutes :: kline_world where
  "two_minutes = \<lparr>kw_exchange = history_server [(86400000, 10, 12, 9, 11, 5), (86460000, 11, 11, 8, 9, 7)],
                  kw_db = \<lambda>_. True\<rparr>"

lemma price_history_append_only_witness:
  "\<exists>new. run worker_step [] [FetchRecent two_minutes 0 minutes_job 5, Backfill two_minutes 86500000 minutes_job 1] = [] @ new
     \<and> price_table_ok ([] @ new)"
  by (rule price_history_append_only) (simp add: price_table_ok_def)

text \<open>
  C35: The backfill ends whatever the exchange answers. It makes at most one request per millisecond
  of the range; and when every full page reaches at least \<open>d\<close> milliseconds beyond its requested
  start, the number of requests is at most the length of the range divided by \<open>d\<close>, rounded up.
\<close>

theorem backfill_requests_bounded:
  fixes w now_ms job days_back table
  defines "k \<equiv> fst (snd (backfill w now_ms job days_back table))"
  shows "int k \<le> max 0 (days_back * 86400000)
    \<and> (0 < d \<longrightarrow> pages_advance (kw_exchange w) job d \<longrightarrow> d * int k \<le> max 0 (days_back * 86400000 + (d - 1)))"
proof (intro conjI impI)
  show "int k \<le> max 0 (days_back * 86400000)"
    using pages_bound [of w job 1 0 now_ms "now_ms - days_back * 24 * 60 * 60 * 1000" 0 table]
    by (simp add: k_def backfill_def)
next
  assume "0 < d" and adv: "pages_advance (kw_exchange w) job d"
  then show "d * int k \<le> max 0 (days_back * 86400000 + (d - 1))"
    using pages_bound [of w job d 0 now_ms "now_ms - days_back * 24 * 60 * 60 * 1000" 0 table]
    unfolding pages_advance_def k_def backfill_def by simp
qed

lemma backfill_requests_bounded_witness:
  "60000 * int (fst (snd (backfill two_minutes 86500000 minutes_job 1 []))) \<le> max 0 (1 * 86400000 + (60000 - 1))"
proof -
  have "pages_advance (kw_exchange two_minutes) minutes_job 60000"
    unfolding pages_advance_def
  proof (intro allI impI)
    fix n s candles t
    assume "fetch_kline (kw_exchange two_minutes) n (page_request minutes_job s) = Inr candles"
      and "KLINE_LIMIT \<le> length candles"
    then have False
      by (auto simp: two_minutes_def fetch_kline_def history_server_def server_list page_request_def
          KLINE_LIMIT_def split: if_splits)
    then show "s + 60000 \<le> t + interval_to_ms (kj_interval minutes_job)" ..
  qed
  then show ?thesis using backfill_requests_bounded [of two_minutes 86500000 minutes_job 1 "[]" 60000] by simp
qed

text \<open>
  A backfill is complete. When the exchange serves its history as documented and the database
  accepts the writes, the backfill returns, and every candle of the last days is stored, unless its
  key was stored before.
\<close>

theorem backfill_complete:
  assumes "serves_history (kw_exchange w) job history"
    and "history_ok (interval_to_ms (kj_interval job)) history"
    and "\<And>n. kw_db w n"
  shows "(\<exists>saved. snd (snd (backfill w now_ms job days_back table)) = Inr saved)
     \<and> (\<forall>r \<in> set history. now_ms - days_back * 86400000 \<le> ph_open_time_ms r \<longrightarrow> ph_open_time_ms r < now_ms \<longrightarrow>
          row_key r \<in> row_key ` set table \<or> r \<in> set (fst (backfill w now_ms job days_back table)))"
  using backfill_pages_complete [OF assms, of now_ms 0 "now_ms - days_back * 24 * 60 * 60 * 1000" 0 table]
  by (simp add: backfill_def)

lemma backfill_complete_witness:
  "quote_row minutes_job (86460000, 11, 11, 8, 9, 7) \<in> set (fst (backfill two_minutes 86500000 minutes_job 1 []))"
proof -
  have "serves_history (kw_exchange two_minutes) minutes_job
      (map (quote_row minutes_job) [(86400000, 10, 12, 9, 11, 5), (86460000, 11, 11, 8, 9, 7)])"
    unfolding two_minutes_def by (simp only: kline_world.simps server_serves)
  moreover have "history_ok (interval_to_ms (kj_interval minutes_job))
      (map (quote_row minutes_job) [(86400000, 10, 12, 9, 11, 5), (86460000, 11, 11, 8, 9, 7)])"
    by (simp add: history_ok_def minutes_job_def interval_to_ms_def interval_table_def quote_row_def fits_sqlite_def)
  moreover have "kw_db two_minutes n" for n by (simp add: two_minutes_def)
  ultimately show ?thesis
    using backfill_complete [of two_minutes minutes_job _ 86500000 1 "[]"] by fastforce
qed

end
