(* ===== verification/Data_Runner.thy ===== *)
theory Data_Runner
  imports Ohlcv_Worker Labeler
begin

text \<open>
  The data process, \<open>src/botik/runners/data_runner.py\<close>: it fills the price history of its symbols,
  trains the models of both scopes when there are enough candles, and then refreshes the latest
  candles until it is stopped. It is the composition of the downloader, the labeler and the trainer.

  The flag \<open>_running\<close> is cleared by a signal at any time: the model asks for its value at each check,
  counted from zero. The phase of refreshing is given by the list of its rounds. The rows written to
  the log table are left out.
\<close>

definition DEFAULT_SYMBOLS :: "string list" where
  "DEFAULT_SYMBOLS = [''BTCUSDT'', ''ETHUSDT'', ''SOLUSDT'']"

definition CATEGORIES :: "string list" where
  "CATEGORIES = [''linear'', ''spot'']"

definition MIN_CANDLES_FOR_BOOTSTRAP :: nat where
  "MIN_CANDLES_FOR_BOOTSTRAP = 500"

text \<open>The symbols of a comma separated setting.\<close>

fun split_commas :: "string \<Rightarrow> string list" where
  "split_commas [] = [[]]"
| "split_commas (c # cs) =
     (if c = CHR '','' then [] # split_commas cs
      else (case split_commas cs of [] \<Rightarrow> [[c]] | x # xs \<Rightarrow> (c # x) # xs))"

definition data_symbols :: "string \<Rightarrow> string list" where
  "data_symbols setting =
     (let symbols = filter (\<lambda>s. s \<noteq> []) (map str_strip (split_commas setting)) in
      if symbols = [] then DEFAULT_SYMBOLS else symbols)"

record data_config =
  dc_symbols :: "string list"
  dc_days :: int
  dc_interval :: string
  dc_skip_bootstrap :: bool

definition data_job :: "data_config \<Rightarrow> string \<Rightarrow> string \<Rightarrow> kline_job" where
  "data_job cfg symbol category =
     \<lparr>kj_symbol = symbol, kj_category = category, kj_interval = dc_interval cfg\<rparr>"

section \<open>Backfill\<close>

record backfill_env =
  bf_running :: "nat \<Rightarrow> bool"
  bf_world :: "string \<Rightarrow> string \<Rightarrow> kline_world"
  bf_now :: "string \<Rightarrow> string \<Rightarrow> int"
  bf_count_ok :: "string \<Rightarrow> string \<Rightarrow> bool"

definition already_filled :: "data_config \<Rightarrow> nat \<Rightarrow> bool" where
  "already_filled cfg existing \<longleftrightarrow> real existing \<ge> of_int (dc_days cfg * 24 * 60) * (8 / 10)"

fun backfill_categories ::
    "data_config \<Rightarrow> backfill_env \<Rightarrow> string \<Rightarrow> string list \<Rightarrow> nat \<Rightarrow> int \<Rightarrow> price_row list
     \<Rightarrow> price_row list \<times> nat \<times> (py_error + int)" where
  "backfill_categories cfg env symbol [] c so_far table = (table, c, Inr so_far)"
| "backfill_categories cfg env symbol (category # categories) c so_far table =
     (if \<not> bf_running env c then (table, Suc c, Inr so_far)
      else if already_filled cfg
          (get_candle_count (bf_count_ok env symbol category) symbol category (dc_interval cfg) table)
      then backfill_categories cfg env symbol categories (Suc c) so_far table
      else case backfill (bf_world env symbol category) (bf_now env symbol category)
                (data_job cfg symbol category) (dc_days cfg) table of
          (table', k, Inl e) \<Rightarrow> (table', Suc c, Inl e)
        | (table', k, Inr saved) \<Rightarrow> backfill_categories cfg env symbol categories (Suc c) (so_far + saved) table')"

fun backfill_symbols ::
    "data_config \<Rightarrow> backfill_env \<Rightarrow> string list \<Rightarrow> nat \<Rightarrow> int \<Rightarrow> price_row list \<Rightarrow> price_row list \<times> (py_error + int)" where
  "backfill_symbols cfg env [] c so_far table = (table, Inr so_far)"
| "backfill_symbols cfg env (symbol # symbols) c so_far table =
     (if \<not> bf_running env c then (table, Inr so_far)
      else case backfill_categories cfg env symbol CATEGORIES (Suc c) so_far table of
          (table', c', Inl e) \<Rightarrow> (table', Inl e)
        | (table', c', Inr so_far') \<Rightarrow> backfill_symbols cfg env symbols c' so_far' table')"

definition phase_backfill ::
    "data_config \<Rightarrow> backfill_env \<Rightarrow> price_row list \<Rightarrow> price_row list \<times> (py_error + int)" where
  "phase_backfill cfg env table = backfill_symbols cfg env (dc_symbols cfg) 0 0 table"

section \<open>Bootstrap\<close>

text \<open>
  What one trainer meets: whether its queries succeed, the trades its outcome learner loads, the time
  of each labelling and what the deployment needs.
\<close>

record train_env =
  tn_load_ok :: bool
  tn_rows :: "outcome_row list option"
  tn_read_ok :: "string \<Rightarrow> bool"
  tn_write_ok :: "string \<Rightarrow> bool"
  tn_time :: "string \<Rightarrow> int"
  tn_dataset_ok :: bool
  tn_deploy :: deploy_env

definition LIMIT_PER_SYMBOL :: nat where "LIMIT_PER_SYMBOL = 40000"
definition DATASET_LIMIT :: nat where "DATASET_LIMIT = 50000"

fun label_symbols ::
    "(real list \<Rightarrow> string) \<Rightarrow> train_env \<Rightarrow> price_row list \<Rightarrow> string \<Rightarrow> labeler \<Rightarrow> string list
     \<Rightarrow> labeled_sample list \<Rightarrow> labeled_sample list \<times> (py_error + nat list)" where
  "label_symbols hash env prices interval lb [] samples = (samples, Inr [])"
| "label_symbols hash env prices interval lb (symbol # symbols) samples =
     (case label_history hash (tn_time env symbol) (tn_read_ok env symbol) (tn_write_ok env symbol)
             prices symbol interval LIMIT_PER_SYMBOL lb samples of
        (samples', Inl e) \<Rightarrow> (samples', Inl e)
      | (samples', Inr n) \<Rightarrow>
          (case label_symbols hash env prices interval lb symbols samples' of
             (samples'', Inl e) \<Rightarrow> (samples'', Inl e)
           | (samples'', Inr ns) \<Rightarrow> (samples'', Inr (n # ns))))"

record 'm data_state =
  ds_prices :: "price_row list"
  ds_samples :: "labeled_sample list"
  ds_registry :: "'m registry"

text \<open>One scope: the new trainer labels, loads and trains; an exception of it is caught and logged.\<close>

definition bootstrap_scope ::
    "'m sklearn \<Rightarrow> (real list \<Rightarrow> string) \<Rightarrow> data_config \<Rightarrow> string \<Rightarrow> train_env \<Rightarrow> 'm data_state \<Rightarrow> 'm data_state" where
  "bootstrap_scope sk hash cfg scope env d =
     (let trainer = new_trainer (tn_load_ok env) (tn_rows env) scope (ds_registry d);
          lb = default_labeler scope;
          (samples, labelled) = label_symbols hash env (ds_prices d) (dc_interval cfg) lb (dc_symbols cfg) (ds_samples d) in
      case labelled of
        Inl e \<Rightarrow> d\<lparr>ds_samples := samples\<rparr>
      | Inr counts \<Rightarrow>
          let data = load_dataset (tn_dataset_ok env) None DATASET_LIMIT lb samples;
              trainer' = fst (bootstrap sk (tn_deploy env) counts data trainer) in
          d\<lparr>ds_samples := samples, ds_registry := tt_registry trainer'\<rparr>)"

definition linear_candles :: "data_config \<Rightarrow> (string \<Rightarrow> bool) \<Rightarrow> price_row list \<Rightarrow> nat" where
  "linear_candles cfg count_ok table =
     sum_list (map (\<lambda>s. get_candle_count (count_ok s) s ''linear'' (dc_interval cfg) table) (dc_symbols cfg))"

definition phase_bootstrap ::
    "'m sklearn \<Rightarrow> (real list \<Rightarrow> string) \<Rightarrow> data_config \<Rightarrow> (string \<Rightarrow> bool) \<Rightarrow> train_env \<Rightarrow> train_env
     \<Rightarrow> 'm data_state \<Rightarrow> 'm data_state" where
  "phase_bootstrap sk hash cfg count_ok env_futures env_spot d =
     (if linear_candles cfg count_ok (ds_prices d) < MIN_CANDLES_FOR_BOOTSTRAP then d
      else bootstrap_scope sk hash cfg ''spot'' env_spot (bootstrap_scope sk hash cfg ''futures'' env_futures d))"

section \<open>Refresh\<close>

record refresh_env =
  rf_running :: "nat \<Rightarrow> bool"
  rf_world :: "string \<Rightarrow> string \<Rightarrow> kline_world"

text \<open>An exception of one download is caught; what it stored before stays stored.\<close>

definition refresh_pair :: "data_config \<Rightarrow> refresh_env \<Rightarrow> string \<Rightarrow> string \<Rightarrow> price_row list \<Rightarrow> price_row list" where
  "refresh_pair cfg env symbol category table =
     fst (fetch_recent (rf_world env symbol category) 0 (data_job cfg symbol category) 5 table)"

fun refresh_symbols :: "data_config \<Rightarrow> refresh_env \<Rightarrow> string list \<Rightarrow> nat \<Rightarrow> price_row list \<Rightarrow> price_row list" where
  "refresh_symbols cfg env [] c table = table"
| "refresh_symbols cfg env (symbol # symbols) c table =
     (if \<not> rf_running env c then table
      else refresh_symbols cfg env symbols (Suc c) (fold (refresh_pair cfg env symbol) CATEGORIES table))"

text \<open>Each round starts with the check of the loop.\<close>

fun phase_refresh :: "data_config \<Rightarrow> (bool \<times> refresh_env) list \<Rightarrow> price_row list \<Rightarrow> price_row list" where
  "phase_refresh cfg [] table = table"
| "phase_refresh cfg ((running, env) # rounds) table =
     (if \<not> running then table else phase_refresh cfg rounds (refresh_symbols cfg env (dc_symbols cfg) 0 table))"

section \<open>The process\<close>

record data_plan =
  dp_backfill :: backfill_env
  dp_count_ok :: "string \<Rightarrow> bool"
  dp_futures :: train_env
  dp_spot :: train_env
  dp_rounds :: "(bool \<times> refresh_env) list"

text \<open>\<open>run\<close>; an exception of the first phase ends the process.\<close>

definition run_data ::
    "'m sklearn \<Rightarrow> (real list \<Rightarrow> string) \<Rightarrow> data_config \<Rightarrow> data_plan \<Rightarrow> 'm data_state
     \<Rightarrow> 'm data_state \<times> (py_error + unit)" where
  "run_data sk hash cfg p d =
     (let (table, filled) = phase_backfill cfg (dp_backfill p) (ds_prices d);
          d = d\<lparr>ds_prices := table\<rparr> in
      case filled of
        Inl e \<Rightarrow> (d, Inl e)
      | Inr so_far \<Rightarrow>
          let d = (if dc_skip_bootstrap cfg then d
                   else phase_bootstrap sk hash cfg (dp_count_ok p) (dp_futures p) (dp_spot p) d) in
          (d\<lparr>ds_prices := phase_refresh cfg (dp_rounds p) (ds_prices d)\<rparr>, Inr ()))"

section \<open>The tables\<close>

text \<open>\<open>table'\<close> continues \<open>table\<close>: the old rows are unchanged and the new ones have keys of their own.\<close>

definition continues :: "price_row list \<Rightarrow> price_row list \<Rightarrow> bool" where
  "continues table table' \<longleftrightarrow> (\<exists>new. appended table new table')"

lemma continues_refl [simp]: "continues table table"
  unfolding continues_def by (intro exI [of _ "[]"]) simp

lemma continues_trans [trans]: "continues a b \<Longrightarrow> continues b c \<Longrightarrow> continues a c"
  unfolding continues_def using appended_trans by blast

lemma continues_ok: "continues a b \<Longrightarrow> price_table_ok a \<Longrightarrow> price_table_ok b"
  unfolding continues_def using appended_ok by blast

lemma backfill_continues: "continues table (fst (backfill w now_ms job days table))"
  using worker_step_appends [of table "Backfill w now_ms job days"] by (simp add: continues_def)

lemma refresh_continues: "continues table (refresh_pair cfg env symbol category table)"
  using recent_appends by (simp add: refresh_pair_def continues_def)

lemma categories_continue: "continues table (fst (backfill_categories cfg env symbol cs c so_far table))"
proof (induction cs arbitrary: c so_far table)
  case Nil
  then show ?case by simp
next
  case (Cons category cs)
  have "continues table (fst (backfill (bf_world env symbol category) (bf_now env symbol category)
      (data_job cfg symbol category) (dc_days cfg) table))" by (rule backfill_continues)
  with Cons.IH show ?case
    by (auto simp: case_prod_beta split: sum.split intro: continues_trans)
qed

lemma symbols_continue: "continues table (fst (backfill_symbols cfg env symbols c so_far table))"
proof (induction symbols arbitrary: c so_far table)
  case Nil
  then show ?case by simp
next
  case (Cons symbol symbols)
  have "continues table (fst (backfill_categories cfg env symbol CATEGORIES (Suc c) so_far table))"
    by (rule categories_continue)
  with Cons.IH show ?case by (auto simp: case_prod_beta split: sum.split intro: continues_trans)
qed

lemma refreshes_continue: "continues table (refresh_symbols cfg env symbols c table)"
proof (induction symbols arbitrary: c table)
  case Nil
  then show ?case by simp
next
  case (Cons symbol symbols)
  have "continues table (fold (refresh_pair cfg env symbol) cs table)" for cs
    by (induction cs arbitrary: table) (auto intro: continues_trans refresh_continues)
  with Cons.IH show ?case by (auto intro: continues_trans)
qed

lemma rounds_continue: "continues table (phase_refresh cfg rounds table)"
proof (induction rounds arbitrary: table)
  case Nil
  then show ?case by simp
next
  case (Cons r rounds)
  then show ?case by (cases r) (auto intro: continues_trans refreshes_continue)
qed

lemma bootstrap_scope_prices [simp]: "ds_prices (bootstrap_scope sk hash cfg scope env d) = ds_prices d"
  by (simp add: bootstrap_scope_def Let_def case_prod_beta split: sum.split)

lemma phase_bootstrap_prices [simp]: "ds_prices (phase_bootstrap sk hash cfg ok ef es d) = ds_prices d"
  by (simp add: phase_bootstrap_def)


lemma run_data_continues: "continues (ds_prices d) (ds_prices (fst (run_data sk hash cfg p d)))"
proof -
  have "continues (ds_prices d) (fst (phase_backfill cfg (dp_backfill p) (ds_prices d)))"
    by (simp add: phase_backfill_def symbols_continue)
  then show ?thesis
    by (auto simp: run_data_def Let_def case_prod_beta split: sum.split
        intro: continues_trans rounds_continue)
qed

lemma linear_mono:
  assumes "continues a b"
  shows "linear_candles cfg ok a \<le> linear_candles cfg ok b"
proof -
  from assms obtain new where b: "b = a @ new" by (auto simp: continues_def appended_def)
  have "get_candle_count k s c i a \<le> get_candle_count k s c i b" for k s c i
    by (simp add: get_candle_count_def b)
  then show ?thesis unfolding linear_candles_def by (intro sum_list_mono) simp
qed

section \<open>What a refresh can bring\<close>

text \<open>Every row of a page that is stored was read from a candle of the page.\<close>

lemma inserted_rows: "r \<in> set (fold insert_or_ignore rows table) \<Longrightarrow> r \<in> set rows \<or> r \<in> set table"
proof (induction rows arbitrary: table)
  case Nil
  then show ?case by simp
next
  case (Cons a rows)
  from Cons.IH [of "insert_or_ignore a table"] Cons.prems
  have "r \<in> set rows \<or> r \<in> set (insert_or_ignore a table)" by simp
  then show ?case by (auto simp: insert_or_ignore_def split: if_splits)
qed

lemma saved_from_page:
  assumes "r \<in> set (fst (save_candles ok s c i candles table))" "r \<notin> set table"
  shows "\<exists>x \<in> set candles. candle_row s c i x = Inr r"
proof -
  from assms obtain rows where rows: "parse_candles s c i candles = Inr rows" and "r \<in> set rows"
    using inserted_rows by (fastforce simp: save_candles_def insert_rows_def Let_def case_prod_beta
        split: sum.splits if_splits)
  from rows obtain os where os: "try_map (parse_candle s c i) candles = Inr os" and "rows = List.map_filter id os"
    by (cases "try_map (parse_candle s c i) candles") (auto simp: parse_candles_def)
  with \<open>r \<in> set rows\<close> have "Some r \<in> set os" by (auto simp: List.map_filter_def)
  with try_map_member [OF os] obtain x where x: "x \<in> set candles" "parse_candle s c i x = Inr (Some r)" by blast
  then show ?thesis
    by (cases "candle_row s c i x") (auto simp: parse_candle_def split: if_splits)
qed

text \<open>The latest candles are those that open at \<open>from_ms\<close> or later.\<close>

definition latest_from :: "int \<Rightarrow> kline_exchange \<Rightarrow> bool" where
  "latest_from from_ms exchange \<longleftrightarrow> (\<forall>n request candles. kr_start request = None \<longrightarrow>
     fetch_kline exchange n request = Inr candles \<longrightarrow>
     (\<forall>x \<in> set candles. \<forall>t. candle_time x = Inr t \<longrightarrow> from_ms \<le> t))"

definition before :: "int \<Rightarrow> price_row list \<Rightarrow> price_row list" where
  "before from_ms table = filter (\<lambda>r. ph_open_time_ms r < from_ms) table"

lemma pair_before:
  assumes "latest_from T (kw_exchange (rf_world env symbol category))"
  shows "before T (refresh_pair cfg env symbol category table) = before T table"
proof -
  let ?f = "fetch_kline (kw_exchange (rf_world env symbol category)) 0
    \<lparr>kr_symbol = symbol, kr_category = category, kr_interval = dc_interval cfg, kr_limit = 5, kr_start = None\<rparr>"
  have after: "T \<le> ph_open_time_ms r"
    if r: "r \<in> set (refresh_pair cfg env symbol category table)" "r \<notin> set table" for r
  proof -
    from r obtain candles where f: "?f = Inr candles" and "r \<in> set (fst (save_candles
        (kw_db (rf_world env symbol category) 0) symbol category (dc_interval cfg) candles table))"
      by (cases ?f) (auto simp: refresh_pair_def fetch_recent_def data_job_def KLINE_LIMIT_def split: if_splits)
    with saved_from_page r(2) obtain x where x: "x \<in> set candles"
        "candle_row symbol category (dc_interval cfg) x = Inr r" by blast
    from assms [unfolded latest_from_def, rule_format, OF _ f x(1) candle_row_time [OF x(2)]]
    show ?thesis by simp
  qed
  obtain new where new: "appended table new (refresh_pair cfg env symbol category table)"
    using refresh_continues unfolding continues_def by blast
  moreover have "before T new = []"
    using new after by (fastforce simp: before_def filter_empty_conv appended_def)
  ultimately show ?thesis by (simp add: before_def appended_def)
qed

lemma rounds_before:
  assumes "\<And>running env s c. (running, env) \<in> set rounds \<Longrightarrow> latest_from T (kw_exchange (rf_world env s c))"
  shows "before T (phase_refresh cfg rounds table) = before T table"
proof -
  have symbols: "before T (refresh_symbols cfg env symbols c table) = before T table"
    if "\<And>s c. latest_from T (kw_exchange (rf_world env s c))" for env symbols c table
  proof (induction symbols arbitrary: c table)
    case Nil
    then show ?case by simp
  next
    case (Cons symbol symbols)
    have "before T (fold (refresh_pair cfg env symbol) cs table) = before T table" for cs
      using that by (induction cs arbitrary: table) (simp_all add: pair_before)
    with Cons.IH show ?case by simp
  qed
  show ?thesis using assms
  proof (induction rounds arbitrary: table)
    case Nil
    then show ?case by simp
  next
    case (Cons r rounds)
    obtain running env where r: "r = (running, env)" by (cases r)
    from Cons.prems [of running env] have "\<And>s c. latest_from T (kw_exchange (rf_world env s c))" by (simp add: r)
    then have "before T (refresh_symbols cfg env (dc_symbols cfg) 0 table) = before T table" by (rule symbols)
    moreover have "before T (phase_refresh cfg rounds table') = before T table'" for table'
      using Cons.prems by (intro Cons.IH) auto
    ultimately show ?case by (simp add: r)
  qed
qed

lemma filled_categories:
  assumes "\<And>c. c \<in> set cs \<Longrightarrow> already_filled cfg
      (get_candle_count (bf_count_ok env symbol c) symbol c (dc_interval cfg) table)"
  shows "\<exists>k. backfill_categories cfg env symbol cs c so_far table = (table, k, Inr so_far)"
  using assms by (induction cs arbitrary: c) auto

lemma filled_symbols:
  assumes "\<And>s c. s \<in> set symbols \<Longrightarrow> c \<in> set CATEGORIES \<Longrightarrow> already_filled cfg
      (get_candle_count (bf_count_ok env s c) s c (dc_interval cfg) table)"
  shows "backfill_symbols cfg env symbols c so_far table = (table, Inr so_far)"
  using assms
proof (induction symbols arbitrary: c)
  case Nil
  then show ?case by simp
next
  case (Cons symbol symbols)
  obtain k where "backfill_categories cfg env symbol CATEGORIES (Suc c) so_far table = (table, k, Inr so_far)"
    using filled_categories [of CATEGORIES cfg env symbol table "Suc c" so_far] Cons.prems by auto
  with Cons show ?case by simp
qed

section \<open>Properties\<close>

text \<open>
  A run of the data process never changes or removes a stored candle, however it ends: the price
  table after it continues the table before it, and stays free of duplicate keys. The models are
  touched only when at least 500 linear candles are stored.
\<close>

theorem data_process_keeps_prices:
  assumes "price_table_ok (ds_prices d)"
  shows "(\<exists>new. ds_prices (fst (run_data sk hash cfg p d)) = ds_prices d @ new)
     \<and> price_table_ok (ds_prices (fst (run_data sk hash cfg p d)))
     \<and> (ds_registry (fst (run_data sk hash cfg p d)) = ds_registry d
        \<or> 500 \<le> linear_candles cfg (dp_count_ok p) (ds_prices (fst (run_data sk hash cfg p d))))"
proof -
  let ?d = "fst (run_data sk hash cfg p d)"
  obtain new where new: "appended (ds_prices d) new (ds_prices ?d)"
    using run_data_continues [of d sk hash cfg p] by (auto simp: continues_def)
  have reg: "ds_registry ?d = ds_registry d \<or> 500 \<le> linear_candles cfg (dp_count_ok p) (ds_prices ?d)"
  proof (cases "snd (phase_backfill cfg (dp_backfill p) (ds_prices d))")
    case (Inl e)
    then show ?thesis by (simp add: run_data_def Let_def case_prod_beta)
  next
    case (Inr n)
    let ?t = "fst (phase_backfill cfg (dp_backfill p) (ds_prices d))"
    from Inr have "ds_prices ?d = phase_refresh cfg (dp_rounds p) ?t"
      by (simp add: run_data_def Let_def case_prod_beta)
    with linear_mono [OF rounds_continue]
    have "linear_candles cfg (dp_count_ok p) ?t \<le> linear_candles cfg (dp_count_ok p) (ds_prices ?d)" by simp
    with Inr show ?thesis
      by (auto simp: run_data_def Let_def case_prod_beta phase_bootstrap_def MIN_CANDLES_FOR_BOOTSTRAP_def)
  qed
  from new have "ds_prices ?d = ds_prices d @ new" by (simp add: appended_def)
  with appended_ok [OF new assms] reg show ?thesis by blast
qed

abbreviation demo_learner :: "unit sklearn" where
  "demo_learner \<equiv> \<lparr>sk_new = \<lambda>_. (), sk_grow = id, sk_fit = \<lambda>m _. (m, False), sk_fit_regimes = \<lambda>m _. (m, False),
     sk_cross_val = \<lambda>_ _ _. None, sk_split = \<lambda>_. None, sk_accuracy = \<lambda>_ _. None, sk_proba = \<lambda>_ _. None,
     sk_regime = \<lambda>_ _. None\<rparr>"

abbreviation one_day :: data_config where
  "one_day \<equiv> \<lparr>dc_symbols = [''BTCUSDT''], dc_days = 1, dc_interval = ''1'', dc_skip_bootstrap = False\<rparr>"

abbreviation demo_train :: train_env where
  "demo_train \<equiv> \<lparr>tn_load_ok = False, tn_rows = None, tn_read_ok = \<lambda>_. True, tn_write_ok = \<lambda>_. True, tn_time = \<lambda>_. 0,
     tn_dataset_ok = True,
     tn_deploy = \<lparr>de_now = 0, de_ids = ([], []), de_query_ok = False, de_write_ok = (False, False)\<rparr>\<rparr>"

text \<open>A process that is stopped after one refresh; the exchange knows two candles of the second day.\<close>

abbreviation demo_world :: kline_world where
  "demo_world \<equiv> \<lparr>kw_exchange = history_server [(172800000, 10, 12, 9, 11, 5), (172860000, 11, 11, 8, 9, 7)], kw_db = \<lambda>_. True\<rparr>"

abbreviation demo_plan :: data_plan where
  "demo_plan \<equiv> \<lparr>dp_backfill = \<lparr>bf_running = \<lambda>_. True, bf_world = \<lambda>_ _. demo_world, bf_now = \<lambda>_ _. 172900000,
       bf_count_ok = \<lambda>_ _. True\<rparr>,
     dp_count_ok = \<lambda>_. True, dp_futures = demo_train, dp_spot = demo_train,
     dp_rounds = [(True, \<lparr>rf_running = \<lambda>_. True, rf_world = \<lambda>_ _. demo_world\<rparr>)]\<rparr>"

abbreviation demo_data :: "price_row list \<Rightarrow> unit data_state" where
  "demo_data prices \<equiv> \<lparr>ds_prices = prices, ds_samples = [], ds_registry = \<lparr>rg_files = [], rg_checkpoints = [], rg_runs = []\<rparr>\<rparr>"

theorem data_process_keeps_prices_witness:
  "\<exists>new. ds_prices (fst (run_data demo_learner (\<lambda>_. []) one_day demo_plan (demo_data []))) = [] @ new"
  using data_process_keeps_prices [of "demo_data []" demo_learner "\<lambda>_. []" one_day demo_plan]
  by (simp add: price_table_ok_def)

text \<open>
  A hole in the history stays. When the stored candles of every symbol are as many as the skip
  rule of the backfill asks for, a run adds no candle that opens before those the refresh asks for,
  whatever is missing there: the candles of a time the process was stopped are never fetched.
\<close>

theorem history_hole_remains:
  assumes "\<And>s c. s \<in> set (dc_symbols cfg) \<Longrightarrow> c \<in> set CATEGORIES \<Longrightarrow> already_filled cfg
      (get_candle_count (bf_count_ok (dp_backfill p) s c) s c (dc_interval cfg) (ds_prices d))"
    and "\<And>running env s c. (running, env) \<in> set (dp_rounds p) \<Longrightarrow> latest_from T (kw_exchange (rf_world env s c))"
  shows "before T (ds_prices (fst (run_data sk hash cfg p d))) = before T (ds_prices d)"
  using filled_symbols [of "dc_symbols cfg" cfg "dp_backfill p" "ds_prices d" 0 0, OF assms(1)] rounds_before [OF assms(2)]
  by (simp add: run_data_def phase_backfill_def Let_def)

text \<open>1152 minutes of the first day are enough to skip the backfill: 0.8 of a day.\<close>

abbreviation first_day :: "price_row list" where
  "first_day \<equiv> concat (map (\<lambda>c. map (\<lambda>i. quote_row \<lparr>kj_symbol = ''BTCUSDT'', kj_category = c, kj_interval = ''1''\<rparr>
     (60000 * int i, 1, 1, 1, 1, 1)) [0..<1152]) CATEGORIES)"

lemma server_latest: "\<forall>x \<in> set quotes. T \<le> fst x \<Longrightarrow> latest_from T (history_server quotes)"
  unfolding latest_from_def
  by (auto simp: fetch_kline_def history_server_def server_list quote_json_def candle_time_def
      py_index_def py_trunc_def dest!: in_set_takeD split: prod.splits)

theorem history_hole_remains_witness:
  "before 172800000 (ds_prices (fst (run_data demo_learner (\<lambda>_. []) one_day demo_plan (demo_data first_day))))
   = before 172800000 first_day"
proof -
  have count: "get_candle_count True ''BTCUSDT'' c ''1'' first_day = 1152" if "c \<in> set CATEGORIES" for c
    using that by (auto simp: get_candle_count_def CATEGORIES_def quote_row_def filter_map comp_def)
  have "latest_from 172800000 (kw_exchange demo_world)" by (simp add: server_latest)
  then show ?thesis
    using count by (subst history_hole_remains) (auto simp: already_filled_def)
qed

end
