(* ===== verification/Tables.thy ===== *)
theory Tables
  imports Prelude
begin

text \<open>
  Tables with a unique key, as the stores under \<open>src/botik/storage\<close> use them: a table is the list of
  its rows in the order of insertion, \<open>INSERT .. ON CONFLICT DO UPDATE\<close> merges the new row into the one
  with its key, and \<open>INSERT .. ON CONFLICT DO NOTHING\<close> drops it. The locale states what a merge has to
  keep and proves once what an upsert does to the keys and to a lookup; each table of the program
  interprets it.
\<close>

definition upsert_row :: "('r \<Rightarrow> 'k) \<Rightarrow> ('r \<Rightarrow> 'r \<Rightarrow> 'r) \<Rightarrow> 'r \<Rightarrow> 'r list \<Rightarrow> 'r list" where
  "upsert_row key merge r table =
     (if key r \<in> key ` set table then map (\<lambda>old. if key old = key r then merge old r else old) table
      else table @ [r])"

definition insert_new_row :: "('r \<Rightarrow> 'k) \<Rightarrow> 'r \<Rightarrow> 'r list \<Rightarrow> 'r list" where
  "insert_new_row key r table = (if key r \<in> key ` set table then table else table @ [r])"

definition row_at :: "('r \<Rightarrow> 'k) \<Rightarrow> 'k \<Rightarrow> 'r list \<Rightarrow> 'r option" where
  "row_at key k table = find (\<lambda>r. key r = k) table"

lemma row_at_None: "row_at key k table = None \<longleftrightarrow> k \<notin> key ` set table"
  by (auto simp: row_at_def find_None_iff)

lemma row_at_Some: "row_at key k table = Some r \<Longrightarrow> r \<in> set table \<and> key r = k"
  by (auto simp: row_at_def find_Some_iff)

lemma row_at_unique: "distinct (map key table) \<Longrightarrow> r \<in> set table \<Longrightarrow> row_at key (key r) table = Some r"
  by (induction table) (auto simp: row_at_def)

lemma find_map_same: "(\<And>x. P (f x) = P x) \<Longrightarrow> find P (map f xs) = map_option f (find P xs)"
  by (induction xs) auto

text \<open>\<open>COALESCE(new, old)\<close>.\<close>

definition coalesce :: "'a option \<Rightarrow> 'a option \<Rightarrow> 'a option" where
  "coalesce new old = (case new of None \<Rightarrow> old | Some v \<Rightarrow> Some v)"

lemma coalesce_simps [simp]: "coalesce None old = old" "coalesce (Some v) old = Some v"
  by (simp_all add: coalesce_def)

locale keyed_rows =
  fixes key :: "'r \<Rightarrow> 'k"
    and merge :: "'r \<Rightarrow> 'r \<Rightarrow> 'r"
  assumes key_merge: "key old = key new \<Longrightarrow> key (merge old new) = key new"
begin

lemma upsert_keys: "map key (upsert_row key merge r table) =
    (if key r \<in> key ` set table then map key table else map key table @ [key r])"
  by (auto simp: upsert_row_def key_merge)

lemma upsert_key_set: "key ` set (upsert_row key merge r table) = insert (key r) (key ` set table)"
proof -
  have "set (map key (upsert_row key merge r table)) = insert (key r) (set (map key table))"
    by (auto simp: upsert_keys)
  then show ?thesis by simp
qed

lemma upsert_distinct: "distinct (map key table) \<Longrightarrow> distinct (map key (upsert_row key merge r table))"
  by (simp add: upsert_keys)

lemma upsert_lookup: "row_at key k (upsert_row key merge r table) =
    (if k = key r then Some (case row_at key k table of None \<Rightarrow> r | Some old \<Rightarrow> merge old r)
     else row_at key k table)"
proof (cases "key r \<in> key ` set table")
  case True
  have found: "row_at key k (map (\<lambda>old. if key old = key r then merge old r else old) rows) =
      (if k = key r then map_option (\<lambda>old. merge old r) (row_at key k rows) else row_at key k rows)" for rows
    by (induction rows) (auto simp: row_at_def key_merge)
  from True have "row_at key (key r) table \<noteq> None" by (simp add: row_at_None)
  with True found show ?thesis by (auto simp: upsert_row_def)
next
  case False
  then have none: "row_at key (key r) table = None" by (simp add: row_at_None)
  have "row_at key k (rows @ [r]) = (case row_at key k rows of Some x \<Rightarrow> Some x
      | None \<Rightarrow> if k = key r then Some r else None)" for rows
    by (induction rows) (auto simp: row_at_def)
  with False none show ?thesis by (auto simp: upsert_row_def split: option.split)
qed

lemma upsert_others: "r' \<in> set table \<Longrightarrow> key r' \<noteq> key r \<Longrightarrow> r' \<in> set (upsert_row key merge r table)"
  by (auto simp: upsert_row_def)

lemma upsert_origin: "r' \<in> set (upsert_row key merge r table) \<Longrightarrow>
    r' \<in> set table \<or> r' = r \<or> (\<exists>old \<in> set table. key old = key r \<and> r' = merge old r)"
  by (auto simp: upsert_row_def split: if_splits)

end

end
