(* ===== verification/Core_Store.thy ===== *)
theory Core_Store
  imports Tables
begin

text \<open>
  The shared tables of \<open>src/botik/storage/core_store.py\<close>: reconciliation runs and issues, account
  snapshots, strategy runs and the audit log. Fresh identifiers come from a counter of drawn
  identifiers and the text of each draw, an argument; the clock is an argument. The JSON texts of
  summaries, details and payloads, which nothing reads back, are left out.
\<close>

record recon_run =
  rr_id :: string
  rr_trigger :: string
  rr_status :: string
  rr_started :: int
  rr_finished :: "int option"

record recon_issue =
  ri_id :: string
  ri_run :: "string option"
  ri_type :: string
  ri_domain :: string
  ri_symbol :: "string option"
  ri_severity :: string
  ri_status :: string
  ri_created :: int
  ri_resolved :: "int option"

record account_snapshot =
  as_id :: string
  as_run :: "string option"
  as_account :: string
  as_kind :: string
  as_created :: int

record strategy_run =
  sr_id :: string
  sr_name :: string
  sr_category :: string
  sr_status :: string
  sr_started :: int
  sr_finished :: "int option"

record audit_event =
  ae_id :: string
  ae_type :: string
  ae_domain :: string
  ae_symbol :: "string option"
  ae_ref :: "string option"
  ae_created :: int

record core_db =
  cs_drawn :: nat
  cs_runs :: "recon_run list"
  cs_issues :: "recon_issue list"
  cs_snapshots :: "account_snapshot list"
  cs_strategy_runs :: "strategy_run list"
  cs_audit :: "audit_event list"

type_synonym uuids = "nat \<Rightarrow> string"

definition fresh_id :: "uuids \<Rightarrow> string \<Rightarrow> ('z) core_db_scheme \<Rightarrow> string" where
  "fresh_id uuid prefix db = prefix @ uuid (cs_drawn db)"

section \<open>Operations\<close>

definition start_reconciliation_run ::
    "uuids \<Rightarrow> int \<Rightarrow> string \<Rightarrow> ('z) core_db_scheme \<Rightarrow> ('z) core_db_scheme \<times> string" where
  "start_reconciliation_run uuid now trigger db =
     (let run_id = fresh_id uuid ''recon-'' db in
      (db\<lparr>cs_drawn := Suc (cs_drawn db),
          cs_runs := cs_runs db @ [\<lparr>rr_id = run_id, rr_trigger = trigger, rr_status = ''running'',
                                    rr_started = now, rr_finished = None\<rparr>]\<rparr>, run_id))"

definition finish_reconciliation_run ::
    "int \<Rightarrow> string \<Rightarrow> string \<Rightarrow> ('z) core_db_scheme \<Rightarrow> ('z) core_db_scheme" where
  "finish_reconciliation_run now run_id status db =
     db\<lparr>cs_runs := map (\<lambda>r. if rr_id r = run_id then r\<lparr>rr_status := status, rr_finished := Some now\<rparr> else r) (cs_runs db)\<rparr>"

definition insert_reconciliation_issue ::
    "uuids \<Rightarrow> int \<Rightarrow> string \<Rightarrow> string \<Rightarrow> string \<Rightarrow> string option \<Rightarrow> string option \<Rightarrow> string
     \<Rightarrow> ('z) core_db_scheme \<Rightarrow> ('z) core_db_scheme \<times> string" where
  "insert_reconciliation_issue uuid now issue_type domain severity symbol run_id status db =
     (let row_id = fresh_id uuid ''issue-'' db in
      (db\<lparr>cs_drawn := Suc (cs_drawn db),
          cs_issues := cs_issues db @
            [\<lparr>ri_id = row_id, ri_run = run_id, ri_type = issue_type, ri_domain = domain, ri_symbol = symbol,
              ri_severity = severity, ri_status = status, ri_created = now,
              ri_resolved = (if str_lower (str_strip status) = ''resolved'' then Some now else None)\<rparr>]\<rparr>, row_id))"

text \<open>\<open>LOWER(COALESCE(status, '')) IN ('open', 'active')\<close>; the column is never null.\<close>

definition issue_active :: "recon_issue \<Rightarrow> bool" where
  "issue_active r \<longleftrightarrow> str_lower (ri_status r) \<in> {''open'', ''active''}"

definition resolve_reconciliation_issue ::
    "int \<Rightarrow> string \<Rightarrow> ('z) core_db_scheme \<Rightarrow> ('z) core_db_scheme \<times> bool" where
  "resolve_reconciliation_issue now issue_id db =
     (db\<lparr>cs_issues := map (\<lambda>r. if ri_id r = issue_id \<and> issue_active r
                              then r\<lparr>ri_status := ''resolved'', ri_resolved := Some now\<rparr> else r) (cs_issues db)\<rparr>,
      \<exists>r \<in> set (cs_issues db). ri_id r = issue_id \<and> issue_active r)"

definition insert_account_snapshot ::
    "uuids \<Rightarrow> int \<Rightarrow> string \<Rightarrow> string \<Rightarrow> string option \<Rightarrow> ('z) core_db_scheme \<Rightarrow> ('z) core_db_scheme" where
  "insert_account_snapshot uuid now account kind run_id db =
     db\<lparr>cs_drawn := Suc (cs_drawn db),
        cs_snapshots := cs_snapshots db @
          [\<lparr>as_id = fresh_id uuid ''snap-'' db, as_run = run_id, as_account = account, as_kind = kind, as_created = now\<rparr>]\<rparr>"

definition merge_strategy_run :: "strategy_run \<Rightarrow> strategy_run \<Rightarrow> strategy_run" where
  "merge_strategy_run old new = new"

definition upsert_strategy_run ::
    "int \<Rightarrow> string \<Rightarrow> string \<Rightarrow> string \<Rightarrow> string \<Rightarrow> int option \<Rightarrow> int option \<Rightarrow> ('z) core_db_scheme \<Rightarrow> ('z) core_db_scheme" where
  "upsert_strategy_run now run_id name category status started finished db =
     db\<lparr>cs_strategy_runs := upsert_row sr_id merge_strategy_run
        \<lparr>sr_id = run_id, sr_name = name, sr_category = category, sr_status = status,
         sr_started = (case started of None \<Rightarrow> now | Some t \<Rightarrow> t), sr_finished = finished\<rparr> (cs_strategy_runs db)\<rparr>"

definition insert_event_audit ::
    "uuids \<Rightarrow> int \<Rightarrow> string \<Rightarrow> string \<Rightarrow> string option \<Rightarrow> string option \<Rightarrow> ('z) core_db_scheme \<Rightarrow> ('z) core_db_scheme" where
  "insert_event_audit uuid now event_type domain symbol ref db =
     db\<lparr>cs_drawn := Suc (cs_drawn db),
        cs_audit := cs_audit db @
          [\<lparr>ae_id = fresh_id uuid ''evt-'' db, ae_type = event_type, ae_domain = domain, ae_symbol = symbol,
            ae_ref = ref, ae_created = now\<rparr>]\<rparr>"

interpretation strategy_runs: keyed_rows sr_id merge_strategy_run
  by unfold_locales (simp add: merge_strategy_run_def)

section \<open>What the operations leave alone\<close>

lemma issues_kept [simp]:
  "cs_issues (insert_event_audit uuid now et area sy ref db) = cs_issues db"
  "cs_issues (insert_account_snapshot uuid now acc kind run_id db) = cs_issues db"
  "cs_issues (finish_reconciliation_run now rid st db) = cs_issues db"
  "cs_issues (upsert_strategy_run now rid nm cat st started finished db) = cs_issues db"
  "cs_issues (fst (start_reconciliation_run uuid now trigger db)) = cs_issues db"
  by (simp_all add: insert_event_audit_def insert_account_snapshot_def finish_reconciliation_run_def
      upsert_strategy_run_def start_reconciliation_run_def Let_def)

text \<open>The identifiers of the rows were drawn: with texts that never repeat no draw gives one of them again.\<close>

definition drawn_issues :: "uuids \<Rightarrow> ('z) core_db_scheme \<Rightarrow> bool" where
  "drawn_issues uuid db \<longleftrightarrow> distinct (map ri_id (cs_issues db))
     \<and> (\<forall>i \<in> set (map ri_id (cs_issues db)). \<exists>n < cs_drawn db. i = ''issue-'' @ uuid n)"

lemma drawn_later:
  assumes "drawn_issues uuid db" "cs_issues db' = cs_issues db" "cs_drawn db \<le> cs_drawn db'"
  shows "drawn_issues uuid db'"
  using assms unfolding drawn_issues_def by (metis order_less_le_trans)

lemma drawn_insert:
  assumes "inj uuid" "drawn_issues uuid db"
  shows "drawn_issues uuid (fst (insert_reconciliation_issue uuid now it area sev sy rid st db))"
  using assms by (fastforce simp: drawn_issues_def insert_reconciliation_issue_def fresh_id_def Let_def inj_def less_Suc_eq)

lemma resolve_ids:
  "map ri_id (cs_issues (fst (resolve_reconciliation_issue now iid db))) = map ri_id (cs_issues db)"
  by (simp add: resolve_reconciliation_issue_def)

lemma resolve_drawn [simp]: "cs_drawn (fst (resolve_reconciliation_issue now iid db)) = cs_drawn db"
  by (simp add: resolve_reconciliation_issue_def)

lemma drawn_resolve:
  "drawn_issues uuid db \<Longrightarrow> drawn_issues uuid (fst (resolve_reconciliation_issue now iid db))"
  unfolding drawn_issues_def resolve_ids resolve_drawn .

end
