(* ===== verification/Domain_Store.thy ===== *)
theory Domain_Store
  imports Core_Store Json "HOL-Library.Char_ord" "HOL-Library.List_Lexorder" "HOL-Library.Product_Lexorder"
begin

text \<open>
  The tables of the two markets: balances, holdings, orders and fills of the spot market
  (\<open>src/botik/storage/spot_store.py\<close>), positions, orders, fills, funding, protection, liquidation
  snapshots and decisions of the futures market (\<open>src/botik/storage/futures_store.py\<close>), and the older
  table of orders (\<open>src/botik/storage/sqlite_store.py\<close>). Every table is the list of its rows; the row
  an operation is given is normalised as the statement does it and merged into the row with its key.
  A value of the exchange that is stored unconverted is kept as JSON, null standing for NULL.
\<close>

section \<open>Rows\<close>

record balance_row =
  bl_account :: string
  bl_asset :: string
  bl_free :: real
  bl_locked :: real
  bl_total :: real
  bl_source :: string
  bl_created :: int
  bl_updated :: int

record holding_row =
  hr_account :: string
  hr_symbol :: string
  hr_asset :: string
  hr_free :: real
  hr_locked :: real
  hr_avg_entry :: "real option"
  hr_reason :: string
  hr_source :: string
  hr_recovered :: bool
  hr_owner :: "string option"
  hr_auto_sell :: bool
  hr_created :: int
  hr_updated :: int

record spot_order_row =
  so_account :: string
  so_symbol :: string
  so_side :: string
  so_order_id :: "string option"
  so_link :: string
  so_type :: json
  so_tif :: json
  so_price :: real
  so_qty :: real
  so_filled :: real
  so_status :: string
  so_owner :: "string option"
  so_created :: int
  so_updated :: int

record fill_row =
  fl_account :: string
  fl_symbol :: string
  fl_side :: string
  fl_exec :: string
  fl_order :: "string option"
  fl_link :: "string option"
  fl_price :: real
  fl_qty :: real
  fl_fee :: "real option"
  fl_currency :: "string option"
  fl_maker :: "bool option"
  fl_time :: "int option"
  fl_created :: int

record position_row =
  fp_account :: string
  fp_symbol :: string
  fp_side :: string
  fp_idx :: int
  fp_margin :: "string option"
  fp_leverage :: "real option"
  fp_qty :: real
  fp_entry :: "real option"
  fp_mark :: "real option"
  fp_liq :: "real option"
  fp_unrealized :: "real option"
  fp_realized :: "real option"
  fp_take :: "real option"
  fp_stop :: "real option"
  fp_trailing :: "real option"
  fp_protection :: string
  fp_source :: string
  fp_recovered :: bool
  fp_owner :: "string option"
  fp_created :: int
  fp_updated :: int

record futures_order_row =
  fo_account :: string
  fo_symbol :: string
  fo_side :: json
  fo_order_id :: "string option"
  fo_link :: string
  fo_type :: json
  fo_tif :: json
  fo_price :: "real option"
  fo_qty :: "real option"
  fo_status :: string
  fo_reduce :: "bool option"
  fo_close :: "bool option"
  fo_owner :: "string option"
  fo_created :: int
  fo_updated :: int

record protection_row =
  pt_id :: string
  pt_account :: string
  pt_symbol :: string
  pt_side :: string
  pt_idx :: int
  pt_stop :: "real option"
  pt_take :: "real option"
  pt_trailing :: "real option"
  pt_status :: string
  pt_source :: string
  pt_sl_order :: "string option"
  pt_tp_order :: "string option"
  pt_trailing_order :: "string option"
  pt_synced :: int
  pt_created :: int
  pt_updated :: int

record funding_row =
  fu_account :: string
  fu_symbol :: string
  fu_side :: "string option"
  fu_idx :: "int option"
  fu_rate :: "real option"
  fu_fee :: real
  fu_time :: int
  fu_created :: int

record liquidation_row =
  lq_account :: string
  lq_symbol :: string
  lq_side :: "string option"
  lq_idx :: "int option"
  lq_mark :: "real option"
  lq_liq :: "real option"
  lq_distance :: "real option"
  lq_margin :: "real option"
  lq_created :: int

record decision_row =
  dn_id :: string
  dn_account :: string
  dn_symbol :: string
  dn_side :: "string option"
  dn_idx :: "int option"
  dn_type :: string
  dn_reason :: string
  dn_policy :: "string option"
  dn_applied :: bool
  dn_created :: int

record intent_row =
  pi_id :: string
  pi_account :: string
  pi_symbol :: string
  pi_side :: string
  pi_qty :: real
  pi_price :: "real option"
  pi_owner :: "string option"
  pi_profile :: "string option"
  pi_signal :: "string option"
  pi_status :: string

record exit_row =
  xd_id :: string
  xd_account :: string
  xd_symbol :: string
  xd_type :: string
  xd_reason :: string
  xd_policy :: "string option"
  xd_pnl_pct :: "real option"
  xd_applied :: bool

text \<open>The older order table; prices and quantities, texts in the source, are numbers.\<close>

record legacy_order =
  lo_symbol :: string
  lo_side :: string
  lo_link :: "string option"
  lo_exchange_id :: "string option"
  lo_price :: real
  lo_qty :: real
  lo_status :: string
  lo_entry_price :: "real option"
  lo_exit_price :: "real option"

record domain_db = core_db +
  sp_balances :: "balance_row list"
  sp_holdings :: "holding_row list"
  sp_orders :: "spot_order_row list"
  sp_fills :: "fill_row list"
  sp_intents :: "intent_row list"
  sp_exits :: "exit_row list"
  fu_positions :: "position_row list"
  fu_orders :: "futures_order_row list"
  fu_fills :: "fill_row list"
  fu_funding :: "funding_row list"
  fu_protection :: "protection_row list"
  fu_liquidation :: "liquidation_row list"
  fu_decisions :: "decision_row list"
  db_legacy :: "legacy_order list"

section \<open>Spot\<close>

definition balance_key :: "balance_row \<Rightarrow> string \<times> string" where
  "balance_key r = (bl_account r, bl_asset r)"

definition merge_balance :: "balance_row \<Rightarrow> balance_row \<Rightarrow> balance_row" where
  "merge_balance old new = new\<lparr>bl_created := bl_created old\<rparr>"

definition upsert_spot_balance ::
    "int \<Rightarrow> string \<Rightarrow> string \<Rightarrow> real \<Rightarrow> real \<Rightarrow> string \<Rightarrow> domain_db \<Rightarrow> domain_db" where
  "upsert_spot_balance now account asset free locked source db =
     db\<lparr>sp_balances := upsert_row balance_key merge_balance
        \<lparr>bl_account = account, bl_asset = str_upper asset, bl_free = max free 0, bl_locked = max locked 0,
         bl_total = max free 0 + max locked 0, bl_source = source, bl_created = now, bl_updated = now\<rparr> (sp_balances db)\<rparr>"

definition SPOT_HOLD_REASONS :: "string set" where
  "SPOT_HOLD_REASONS = {''strategy_entry'', ''manual_import'', ''unknown_recovered_from_exchange'', ''dust'',
     ''rebalance_hold'', ''stale_hold''}"

definition normalize_hold_reason :: "string option \<Rightarrow> py_error + string" where
  "normalize_hold_reason v =
     (let reason = str_strip (or_empty v) in if reason \<in> SPOT_HOLD_REASONS then Inr reason else Inl ValueError)"

definition holding_key :: "holding_row \<Rightarrow> string \<times> string \<times> string" where
  "holding_key r = (hr_account r, hr_symbol r, hr_asset r)"

definition merge_holding :: "holding_row \<Rightarrow> holding_row \<Rightarrow> holding_row" where
  "merge_holding old new =
     new\<lparr>hr_avg_entry := coalesce (hr_avg_entry new) (hr_avg_entry old),
         hr_owner := coalesce (hr_owner new) (hr_owner old), hr_created := hr_created old\<rparr>"

text \<open>A string that is empty is stored as NULL where the source writes \<open>str(x) if x else None\<close>.\<close>

definition or_null :: "string option \<Rightarrow> string option" where
  "or_null v = (if or_empty v = [] then None else v)"

definition upsert_spot_holding :: "int \<Rightarrow> holding_row \<Rightarrow> domain_db \<Rightarrow> py_error + domain_db" where
  "upsert_spot_holding now r db =
     (case normalize_hold_reason (Some (hr_reason r)) of
        Inl e \<Rightarrow> Inl e
      | Inr reason \<Rightarrow> Inr (db\<lparr>sp_holdings := upsert_row holding_key merge_holding
          (r\<lparr>hr_symbol := str_upper (hr_symbol r), hr_asset := str_upper (hr_asset r), hr_free := max (hr_free r) 0,
             hr_locked := max (hr_locked r) 0, hr_reason := reason, hr_owner := or_null (hr_owner r),
             hr_created := now, hr_updated := now\<rparr>) (sp_holdings db)\<rparr>))"

definition list_spot_holdings :: "string option \<Rightarrow> domain_db \<Rightarrow> holding_row list" where
  "list_spot_holdings account db =
     sort_key hr_symbol (filter (\<lambda>r. or_empty account = [] \<or> hr_account r = or_empty account) (sp_holdings db))"

definition merge_spot_order :: "spot_order_row \<Rightarrow> spot_order_row \<Rightarrow> spot_order_row" where
  "merge_spot_order old new =
     old\<lparr>so_link := so_link new, so_order_id := coalesce (so_order_id new) (so_order_id old), so_status := so_status new,
         so_price := so_price new, so_qty := so_qty new, so_filled := so_filled new,
         so_type := (if so_type new = JNull then so_type old else so_type new),
         so_tif := (if so_tif new = JNull then so_tif old else so_tif new),
         so_owner := coalesce (so_owner new) (so_owner old), so_updated := so_updated new\<rparr>"

text \<open>A list or an object cannot be bound to a parameter of a statement.\<close>

fun sql_bindable :: "json \<Rightarrow> bool" where
  "sql_bindable (JArr xs) = False"
| "sql_bindable (JObj d) = False"
| "sql_bindable _ = True"

text \<open>Without a link an order gets a fresh one: the row is always new then.\<close>

definition upsert_spot_order ::
    "uuids \<Rightarrow> int \<Rightarrow> string option \<Rightarrow> spot_order_row \<Rightarrow> domain_db \<Rightarrow> py_error + domain_db" where
  "upsert_spot_order uuid now link r db =
     (let (link', db) = (if or_empty link \<noteq> [] then (or_empty link, db)
                         else (fresh_id uuid ''spot-local-'' db, db\<lparr>cs_drawn := Suc (cs_drawn db)\<rparr>)) in
      if \<not> sql_bindable (so_type r) \<or> \<not> sql_bindable (so_tif r) then Inl DatabaseError
      else Inr (db\<lparr>sp_orders := upsert_row so_link merge_spot_order
        (r\<lparr>so_symbol := str_upper (so_symbol r), so_link := link', so_qty := max (so_qty r) 0,
           so_filled := max (so_filled r) 0, so_created := now, so_updated := now\<rparr>) (sp_orders db)\<rparr>))"

definition stored_fill :: "int \<Rightarrow> fill_row \<Rightarrow> fill_row" where
  "stored_fill now r = r\<lparr>fl_symbol := str_upper (fl_symbol r), fl_qty := max (fl_qty r) 0, fl_created := now\<rparr>"

definition insert_spot_fill :: "int \<Rightarrow> fill_row \<Rightarrow> domain_db \<Rightarrow> domain_db" where
  "insert_spot_fill now r db = db\<lparr>sp_fills := insert_new_row fl_exec (stored_fill now r) (sp_fills db)\<rparr>"

text \<open>An identifier that is stored already raises; the caller gives one. A decision gets a fresh one.\<close>

definition insert_spot_position_intent :: "intent_row \<Rightarrow> domain_db \<Rightarrow> py_error + domain_db" where
  "insert_spot_position_intent r db =
     (if pi_id r \<in> pi_id ` set (sp_intents db) then Inl DatabaseError
      else Inr (db\<lparr>sp_intents := sp_intents db @ [r\<lparr>pi_symbol := str_upper (pi_symbol r), pi_qty := max (pi_qty r) 0\<rparr>]\<rparr>))"

definition insert_spot_exit_decision :: "uuids \<Rightarrow> exit_row \<Rightarrow> domain_db \<Rightarrow> domain_db" where
  "insert_spot_exit_decision uuid r db =
     db\<lparr>cs_drawn := Suc (cs_drawn db),
        sp_exits := sp_exits db @ [r\<lparr>xd_id := fresh_id uuid ''sp-exit-'' db, xd_symbol := str_upper (xd_symbol r)\<rparr>]\<rparr>"

record holding_counts =
  hc_total :: nat
  hc_recovered :: nat
  hc_stale :: nat
  hc_strategy :: nat
  hc_manual :: nat
  hc_dust :: nat
  hc_unknown :: nat

definition count_if :: "bool \<Rightarrow> nat" where
  "count_if b = (if b then 1 else 0)"

definition count_holding :: "holding_row \<Rightarrow> holding_counts \<Rightarrow> holding_counts" where
  "count_holding r c =
     (let reason = str_lower (str_strip (hr_reason r)); owner = str_strip (or_empty (hr_owner r)) in
      \<lparr>hc_total = hc_total c + 1, hc_recovered = hc_recovered c + count_if (hr_recovered r),
       hc_stale = hc_stale c + count_if (reason = ''stale_hold''),
       hc_strategy = hc_strategy c + count_if (reason = ''strategy_entry'' \<or> owner \<noteq> []),
       hc_manual = hc_manual c + count_if (reason = ''manual_import''), hc_dust = hc_dust c + count_if (reason = ''dust''),
       hc_unknown = hc_unknown c + count_if (reason \<notin> SPOT_HOLD_REASONS)\<rparr>)"

definition summarize_spot_holdings :: "string option \<Rightarrow> domain_db \<Rightarrow> holding_counts" where
  "summarize_spot_holdings account db =
     fold count_holding (list_spot_holdings account db)
       \<lparr>hc_total = 0, hc_recovered = 0, hc_stale = 0, hc_strategy = 0, hc_manual = 0, hc_dust = 0, hc_unknown = 0\<rparr>"

section \<open>Futures\<close>

definition FUTURES_PROTECTION_STATUSES :: "string set" where
  "FUTURES_PROTECTION_STATUSES =
     {''unknown'', ''pending'', ''protected'', ''unprotected'', ''repairing'', ''closed'', ''failed''}"

definition check_protection_status :: "string \<Rightarrow> py_error + string" where
  "check_protection_status v =
     (let status = norm_lower (Some v) in
      if status \<in> FUTURES_PROTECTION_STATUSES then Inr status else Inl ValueError)"

definition position_key :: "position_row \<Rightarrow> string \<times> string \<times> string \<times> int" where
  "position_key r = (fp_account r, fp_symbol r, fp_side r, fp_idx r)"

definition merge_position :: "position_row \<Rightarrow> position_row \<Rightarrow> position_row" where
  "merge_position old new = new\<lparr>fp_owner := coalesce (fp_owner new) (fp_owner old), fp_created := fp_created old\<rparr>"

definition upsert_futures_position :: "int \<Rightarrow> position_row \<Rightarrow> domain_db \<Rightarrow> py_error + domain_db" where
  "upsert_futures_position now r db =
     (case check_protection_status (fp_protection r) of
        Inl e \<Rightarrow> Inl e
      | Inr status \<Rightarrow> Inr (db\<lparr>fu_positions := upsert_row position_key merge_position
          (r\<lparr>fp_symbol := str_upper (fp_symbol r), fp_protection := status, fp_created := now, fp_updated := now\<rparr>)
          (fu_positions db)\<rparr>))"

definition list_futures_positions :: "string option \<Rightarrow> domain_db \<Rightarrow> position_row list" where
  "list_futures_positions account db =
     sort_key (\<lambda>r. (fp_symbol r, fp_side r, fp_idx r))
       (filter (\<lambda>r. or_empty account = [] \<or> fp_account r = or_empty account) (fu_positions db))"

definition merge_futures_order :: "futures_order_row \<Rightarrow> futures_order_row \<Rightarrow> futures_order_row" where
  "merge_futures_order old new =
     old\<lparr>fo_link := fo_link new, fo_order_id := coalesce (fo_order_id new) (fo_order_id old), fo_status := fo_status new,
         fo_side := (if fo_side new = JNull then fo_side old else fo_side new),
         fo_type := (if fo_type new = JNull then fo_type old else fo_type new),
         fo_tif := (if fo_tif new = JNull then fo_tif old else fo_tif new),
         fo_price := coalesce (fo_price new) (fo_price old), fo_qty := coalesce (fo_qty new) (fo_qty old),
         fo_reduce := coalesce (fo_reduce new) (fo_reduce old), fo_close := coalesce (fo_close new) (fo_close old),
         fo_owner := coalesce (fo_owner new) (fo_owner old), fo_updated := fo_updated new\<rparr>"

definition upsert_futures_open_order ::
    "uuids \<Rightarrow> int \<Rightarrow> string option \<Rightarrow> futures_order_row \<Rightarrow> domain_db \<Rightarrow> py_error + domain_db" where
  "upsert_futures_open_order uuid now link r db =
     (let (link', db) = (if or_empty link \<noteq> [] then (or_empty link, db)
                         else (fresh_id uuid ''fut-local-'' db, db\<lparr>cs_drawn := Suc (cs_drawn db)\<rparr>)) in
      if \<not> sql_bindable (fo_side r) \<or> \<not> sql_bindable (fo_type r) \<or> \<not> sql_bindable (fo_tif r) then Inl DatabaseError
      else Inr (db\<lparr>fu_orders := upsert_row fo_link merge_futures_order
        (r\<lparr>fo_symbol := str_upper (fo_symbol r), fo_link := link', fo_created := now, fo_updated := now\<rparr>) (fu_orders db)\<rparr>))"

definition insert_futures_fill :: "int \<Rightarrow> fill_row \<Rightarrow> domain_db \<Rightarrow> domain_db" where
  "insert_futures_fill now r db = db\<lparr>fu_fills := insert_new_row fl_exec (stored_fill now r) (fu_fills db)\<rparr>"

text \<open>A funding event is recognised by account, symbol, side, index, time and fee; the rate does not count.\<close>

definition same_funding :: "funding_row \<Rightarrow> funding_row \<Rightarrow> bool" where
  "same_funding a b \<longleftrightarrow> fu_account a = fu_account b \<and> fu_symbol a = fu_symbol b \<and> or_empty (fu_side a) = or_empty (fu_side b)
     \<and> (case fu_idx a of None \<Rightarrow> - 1 | Some i \<Rightarrow> i) = (case fu_idx b of None \<Rightarrow> - 1 | Some i \<Rightarrow> i)
     \<and> fu_time a = fu_time b \<and> fu_fee a = fu_fee b"

definition insert_futures_funding_event :: "int \<Rightarrow> funding_row \<Rightarrow> domain_db \<Rightarrow> domain_db \<times> bool" where
  "insert_futures_funding_event now r db =
     (let r = r\<lparr>fu_symbol := str_upper (fu_symbol r), fu_created := now\<rparr> in
      if list_ex (\<lambda>old. same_funding old r) (fu_funding db) then (db, False)
      else (db\<lparr>fu_funding := fu_funding db @ [r]\<rparr>, True))"

definition insert_futures_liquidation_risk_snapshot :: "int \<Rightarrow> liquidation_row \<Rightarrow> domain_db \<Rightarrow> domain_db" where
  "insert_futures_liquidation_risk_snapshot now r db =
     db\<lparr>fu_liquidation := fu_liquidation db @ [r\<lparr>lq_symbol := str_upper (lq_symbol r), lq_created := now\<rparr>]\<rparr>"

definition protection_key :: "protection_row \<Rightarrow> string \<times> string \<times> string \<times> int" where
  "protection_key r = (pt_account r, pt_symbol r, pt_side r, pt_idx r)"

definition merge_protection :: "protection_row \<Rightarrow> protection_row \<Rightarrow> protection_row" where
  "merge_protection old new =
     new\<lparr>pt_id := pt_id old, pt_sl_order := coalesce (pt_sl_order new) (pt_sl_order old),
         pt_tp_order := coalesce (pt_tp_order new) (pt_tp_order old),
         pt_trailing_order := coalesce (pt_trailing_order new) (pt_trailing_order old), pt_created := pt_created old\<rparr>"

definition upsert_futures_protection :: "uuids \<Rightarrow> int \<Rightarrow> protection_row \<Rightarrow> domain_db \<Rightarrow> py_error + domain_db" where
  "upsert_futures_protection uuid now r db =
     (case check_protection_status (pt_status r) of
        Inl e \<Rightarrow> Inl e
      | Inr status \<Rightarrow> Inr (db\<lparr>cs_drawn := Suc (cs_drawn db),
          fu_protection := upsert_row protection_key merge_protection
            (r\<lparr>pt_id := fresh_id uuid ''fut-prot-'' db, pt_symbol := str_upper (pt_symbol r), pt_status := status,
               pt_synced := now, pt_created := now, pt_updated := now\<rparr>) (fu_protection db)\<rparr>))"

definition list_unprotected_futures_symbols :: "string option \<Rightarrow> domain_db \<Rightarrow> string list" where
  "list_unprotected_futures_symbols account db =
     sorted_list_of_set (fp_symbol ` set (filter (\<lambda>r. str_lower (fp_protection r) = ''unprotected'' \<and> \<bar>fp_qty r\<bar> > 0
        \<and> (or_empty account = [] \<or> fp_account r = or_empty account) \<and> fp_symbol r \<noteq> []) (fu_positions db)))"

definition insert_futures_position_decision :: "uuids \<Rightarrow> int \<Rightarrow> decision_row \<Rightarrow> domain_db \<Rightarrow> domain_db" where
  "insert_futures_position_decision uuid now r db =
     db\<lparr>cs_drawn := Suc (cs_drawn db),
        fu_decisions := fu_decisions db @
          [r\<lparr>dn_id := fresh_id uuid ''fut-dec-'' db, dn_symbol := str_upper (dn_symbol r), dn_created := now\<rparr>]\<rparr>"

section \<open>Keys\<close>

text \<open>Every table with a unique key meets the contract of an upsert.\<close>

interpretation balances: keyed_rows balance_key merge_balance
  by unfold_locales (simp add: balance_key_def merge_balance_def)

interpretation holdings: keyed_rows holding_key merge_holding
  by unfold_locales (simp add: holding_key_def merge_holding_def)

interpretation spot_orders: keyed_rows so_link merge_spot_order
  by unfold_locales (simp add: merge_spot_order_def)

interpretation positions: keyed_rows position_key merge_position
  by unfold_locales (simp add: position_key_def merge_position_def)

interpretation futures_orders: keyed_rows fo_link merge_futures_order
  by unfold_locales (simp add: merge_futures_order_def)

interpretation protections: keyed_rows protection_key merge_protection
  by unfold_locales (simp add: protection_key_def merge_protection_def)

end
