(* ===== verification/Effects.thy ===== *)
theory Effects
  imports Prelude
begin

text \<open>
  Code that changes a state step by step and may raise in the middle: a step returns the state as it
  left it and the exception, if one was raised. The locale states that every step keeps a relation to
  the state it started from, and proves it for sequences and loops.
\<close>

type_synonym 's outcome_of = "'s \<times> py_error option"

definition and_then :: "'s outcome_of \<Rightarrow> ('s \<Rightarrow> 's outcome_of) \<Rightarrow> 's outcome_of" where
  "and_then r f = (case r of (s, None) \<Rightarrow> f s | (s, Some e) \<Rightarrow> (s, Some e))"

fun each :: "('x \<Rightarrow> 's \<Rightarrow> 's outcome_of) \<Rightarrow> 'x list \<Rightarrow> 's \<Rightarrow> 's outcome_of" where
  "each f [] s = (s, None)"
| "each f (x # xs) s = and_then (f x s) (each f xs)"

lemma and_then_simps [simp]:
  "and_then (s, None) f = f s"
  "and_then (s, Some e) f = (s, Some e)"
  by (simp_all add: and_then_def)

lemma and_then_None: "and_then r f = (s', None) \<longleftrightarrow> (\<exists>s. r = (s, None) \<and> f s = (s', None))"
  by (auto simp: and_then_def split: prod.splits option.splits)

locale keeps =
  fixes rel :: "'s \<Rightarrow> 's \<Rightarrow> bool"
  assumes rel_refl: "rel s s"
    and rel_trans: "rel a b \<Longrightarrow> rel b c \<Longrightarrow> rel a c"
begin

lemma rel_and_then: "rel s (fst r) \<Longrightarrow> (\<And>s'. rel s' (fst (f s'))) \<Longrightarrow> rel s (fst (and_then r f))"
  by (cases r; cases "snd r") (auto simp: and_then_def intro: rel_trans)

lemma rel_each: "(\<And>x s. x \<in> set xs \<Longrightarrow> rel s (fst (f x s))) \<Longrightarrow> rel s (fst (each f xs s))"
proof (induction xs arbitrary: s)
  case Nil
  show ?case by (simp add: rel_refl)
next
  case (Cons x xs)
  then show ?case by (simp add: rel_and_then)
qed

lemma rel_fold: "(\<And>x s. x \<in> set xs \<Longrightarrow> rel s (f x s)) \<Longrightarrow> rel s (fold f xs s)"
  by (induction xs arbitrary: s) (auto intro: rel_refl rel_trans)

end

text \<open>An invariant is such a relation.\<close>

interpretation implied: keeps "\<lambda>a b. P a \<longrightarrow> P b"
  by unfold_locales auto

end
