(* ===== verification/Reconciliation.thy ===== *)
theory Reconciliation
  imports Domain_Store Effects Futures_Protection
begin

text \<open>
  The comparison of the exchange with the local tables, \<open>src/botik/execution/reconciliation_service.py\<close>:
  balances and holdings, open orders, fills and positions; every conflict is an issue, and the four
  kinds of conflict that concern orders and positions lock the symbol for entries until a later run
  finds the conflict gone.

  The answers of the exchange are arguments, decoded JSON or \<open>None\<close> when the call raises; so are the
  clock of a run, the texts of fresh identifiers and the text \<open>str\<close> gives for a value that is no
  string. A run is one sequence: the service is not entered again before it ends. The database
  accepts every statement whose parameters it can bind.
\<close>

definition ENTRY_LOCK_ISSUE_TYPES :: "string set" where
  "ENTRY_LOCK_ISSUE_TYPES =
     {''orphaned_exchange_position'', ''orphaned_exchange_order'', ''local_position_missing_on_exchange'',
      ''local_order_missing_on_exchange''}"

record recon_config =
  rs_category :: string
  rs_account :: string
  rs_managed :: "string list"
  rs_limit :: int
  rs_name :: string

definition new_recon_config :: "string option \<Rightarrow> string option \<Rightarrow> string list \<Rightarrow> int \<Rightarrow> string \<Rightarrow> recon_config" where
  "new_recon_config category account managed limit name =
     \<lparr>rs_category = str_lower (str_strip (if or_empty category = [] then ''spot'' else or_empty category)),
      rs_account = str_upper (str_strip (if or_empty account = [] then ''UNIFIED'' else or_empty account)),
      rs_managed = managed, rs_limit = max limit 1, rs_name = name\<rparr>"

definition linear_market :: "recon_config \<Rightarrow> bool" where
  "linear_market cfg \<longleftrightarrow> rs_category cfg = ''linear''"

definition order_domain :: "recon_config \<Rightarrow> string" where
  "order_domain cfg = (if linear_market cfg then ''futures'' else ''spot'')"

record exchange_answers =
  xa_wallet :: "json option"
  xa_orders :: "json option"
  xa_executions :: "string \<Rightarrow> json option"
  xa_positions :: "json option"

record recon_env =
  re_uuid :: uuids
  re_now :: int
  re_str :: "json \<Rightarrow> string"
  re_answers :: exchange_answers

record recon_summary =
  sm_failed :: bool
  sm_balances :: nat
  sm_recovered :: nat
  sm_orders :: nat
  sm_orders_orphaned :: nat
  sm_positions :: nat
  sm_positions_orphaned :: nat
  sm_fills :: nat
  sm_funding :: nat
  sm_liquidation :: nat
  sm_created :: nat
  sm_resolved :: nat
  sm_released :: nat
  sm_orders_checked :: bool
  sm_positions_checked :: bool
  sm_unlocked :: "string list"

definition new_summary :: recon_summary where
  "new_summary = \<lparr>sm_failed = False, sm_balances = 0, sm_recovered = 0, sm_orders = 0, sm_orders_orphaned = 0,
     sm_positions = 0, sm_positions_orphaned = 0, sm_fills = 0, sm_funding = 0, sm_liquidation = 0, sm_created = 0,
     sm_resolved = 0, sm_released = 0, sm_orders_checked = False, sm_positions_checked = False, sm_unlocked = []\<rparr>"

type_synonym issue_key = "string \<times> string \<times> string"

text \<open>What a run works on: the database, the conflicts it has met that lock a symbol, and its summary.\<close>

record recon_state =
  rc_db :: domain_db
  rc_locks :: "issue_key list"
  rc_summary :: recon_summary

abbreviation on_summary :: "(recon_summary \<Rightarrow> recon_summary) \<Rightarrow> recon_state \<Rightarrow> recon_state" where
  "on_summary f s \<equiv> s\<lparr>rc_summary := f (rc_summary s)\<rparr>"

abbreviation on_db :: "(domain_db \<Rightarrow> domain_db) \<Rightarrow> recon_state \<Rightarrow> recon_state" where
  "on_db f s \<equiv> s\<lparr>rc_db := f (rc_db s)\<rparr>"

definition put_db :: "py_error + domain_db \<Rightarrow> recon_state \<Rightarrow> recon_state outcome_of" where
  "put_db r s = (case r of Inl e \<Rightarrow> (s, Some e) | Inr db \<Rightarrow> (s\<lparr>rc_db := db\<rparr>, None))"

section \<open>Reading answers\<close>

text \<open>\<open>_f\<close> and \<open>_i\<close>.\<close>

definition to_f :: "json \<Rightarrow> real" where
  "to_f v = (case json_float v of Inl e \<Rightarrow> 0 | Inr r \<Rightarrow> r)"

definition to_i :: "json \<Rightarrow> int" where
  "to_i v = (case json_int v of Inl e \<Rightarrow> 0 | Inr n \<Rightarrow> n)"

definition text_of :: "recon_env \<Rightarrow> json \<Rightarrow> string" where
  "text_of env v = json_text (re_str env) (json_or v (JStr []))"

definition name_of :: "recon_env \<Rightarrow> json \<Rightarrow> string" where
  "name_of env v = str_strip (str_upper (text_of env v))"

text \<open>The return code, then \<open>(resp.get("result") or {}).get("list") or []\<close>.\<close>

definition answer_ok :: "json \<Rightarrow> py_error + bool" where
  "answer_ok resp = map_sum id ret_code_ok (json_get resp ''retCode'' JNull)"

definition listed :: "json \<Rightarrow> py_error + json" where
  "listed resp =
     (case json_get resp ''result'' JNull of
        Inl e \<Rightarrow> Inl e
      | Inr result \<Rightarrow> map_sum id (\<lambda>v. json_or v (JArr [])) (json_get (json_or result (JObj [])) ''list'' JNull))"

text \<open>Running a step for each element of a decoded value, which has to be iterable.\<close>

definition each_item :: "(json \<Rightarrow> 's \<Rightarrow> 's outcome_of) \<Rightarrow> json \<Rightarrow> 's \<Rightarrow> 's outcome_of" where
  "each_item f v s = (case json_items v of Inl e \<Rightarrow> (s, Some e) | Inr xs \<Rightarrow> each f xs s)"

definition managed_symbols :: "recon_config \<Rightarrow> string list" where
  "managed_symbols cfg =
     take (nat (rs_limit cfg)) (rev (fold (\<lambda>x out. let s = str_strip (str_upper x) in
       if s \<noteq> [] \<and> s \<notin> set out then s # out else out) (rs_managed cfg) []))"

section \<open>Issues\<close>

definition issue_once ::
    "recon_env \<Rightarrow> string \<Rightarrow> string \<Rightarrow> string \<Rightarrow> string \<Rightarrow> string \<Rightarrow> recon_state \<Rightarrow> recon_state \<times> string" where
  "issue_once env run_id issue_type domain sev symbol s =
     (let kind = str_strip issue_type; area = str_strip domain; name = str_strip (str_upper symbol);
          rows = sort_key (\<lambda>r. - ri_created r) (filter (\<lambda>r. issue_active r \<and> ri_type r = kind \<and> ri_domain r = area
                   \<and> or_empty (ri_symbol r) = name) (cs_issues (rc_db s)));
          locked = (\<lambda>s. if kind \<in> ENTRY_LOCK_ISSUE_TYPES \<and> name \<noteq> []
                        then s\<lparr>rc_locks := List.insert (kind, area, name) (rc_locks s)\<rparr> else s) in
      if rows \<noteq> [] \<and> ri_id (hd rows) \<noteq> [] then (locked s, ri_id (hd rows))
      else let (db, issue_id) = insert_reconciliation_issue (re_uuid env) (re_now env) kind area sev
                 (if name = [] then None else Some name) (Some run_id) ''open'' (rc_db s) in
           (locked (s\<lparr>rc_db := db\<rparr>), issue_id))"

text \<open>An issue, the counter of created issues and the audit row that names it.\<close>

definition report ::
    "recon_env \<Rightarrow> string \<Rightarrow> string \<Rightarrow> string \<Rightarrow> string \<Rightarrow> string option \<Rightarrow> string \<Rightarrow> recon_state \<Rightarrow> recon_state" where
  "report env run_id issue_type domain sev symbol event s =
     (let (s, issue_id) = issue_once env run_id issue_type domain sev (or_empty symbol) s in
      on_db (insert_event_audit (re_uuid env) (re_now env) event domain symbol (Some issue_id))
        (on_summary (\<lambda>m. m\<lparr>sm_created := sm_created m + 1\<rparr>) s))"

definition snapshot :: "recon_config \<Rightarrow> recon_env \<Rightarrow> string \<Rightarrow> string \<Rightarrow> recon_state \<Rightarrow> recon_state" where
  "snapshot cfg env run_id kind s =
     on_db (insert_account_snapshot (re_uuid env) (re_now env) (rs_account cfg) kind (Some run_id)) s"

section \<open>The wallet\<close>

definition coin_holding :: "recon_config \<Rightarrow> string \<Rightarrow> string \<Rightarrow> real \<Rightarrow> real \<Rightarrow> holding_row" where
  "coin_holding cfg symbol coin free locked =
     \<lparr>hr_account = rs_account cfg, hr_symbol = symbol, hr_asset = coin, hr_free = free, hr_locked = locked,
      hr_avg_entry = None, hr_reason = ''unknown_recovered_from_exchange'', hr_source = ''exchange_wallet_balance'',
      hr_recovered = True, hr_owner = None, hr_auto_sell = False, hr_created = 0, hr_updated = 0\<rparr>"

text \<open>One coin of an account; the assets seen so far are a part of the state of the loop.\<close>

definition wallet_coin ::
    "recon_config \<Rightarrow> recon_env \<Rightarrow> string \<Rightarrow> holding_row list \<Rightarrow> json \<Rightarrow> recon_state \<times> string list
     \<Rightarrow> (recon_state \<times> string list) outcome_of" where
  "wallet_coin cfg env run_id local coin_info st =
     (case coin_info of
        JObj d \<Rightarrow>
          let (s, seen) = st;
              coin = name_of env (json_key d ''coin'');
              total = to_f (json_or (json_key d ''walletBalance'') (json_or (json_key d ''equity'') (JNum 0)));
              free = min (max (to_f (json_or (json_key d ''free'') (json_or (json_key d ''availableToWithdraw'') (JNum total)))) 0) total;
              locked = max (total - free) 0 in
          if coin = [] \<or> total \<le> 0 then (st, None)
          else
            let s = on_summary (\<lambda>m. m\<lparr>sm_balances := sm_balances m + 1\<rparr>)
                      (on_db (upsert_spot_balance (re_now env) (rs_account cfg) coin free locked ''exchange_wallet_balance'') s);
                seen = List.insert coin seen;
                symbol = coin @ ''USDT'' in
            if coin \<in> {''USDT'', ''USDC'', ''BUSD''} \<or> list_ex (\<lambda>r. str_upper (hr_asset r) = coin) local
            then ((s, seen), None)
            else (case upsert_spot_holding (re_now env) (coin_holding cfg symbol coin free locked) (rc_db s) of
                Inl e \<Rightarrow> ((s, seen), Some e)
              | Inr db \<Rightarrow>
                  let s = report env run_id ''spot_asset_recovered_from_exchange'' ''spot'' ''warning'' (Some symbol)
                            ''imported_recovered_holding'' (s\<lparr>rc_db := db\<rparr>) in
                  ((on_summary (\<lambda>m. m\<lparr>sm_recovered := sm_recovered m + 1\<rparr>) s, seen), None))
      | _ \<Rightarrow> (st, Some AttributeError))"

definition wallet_account ::
    "recon_config \<Rightarrow> recon_env \<Rightarrow> string \<Rightarrow> holding_row list \<Rightarrow> json \<Rightarrow> recon_state \<times> string list
     \<Rightarrow> (recon_state \<times> string list) outcome_of" where
  "wallet_account cfg env run_id local account st =
     (case account of
        JObj d \<Rightarrow> each_item (wallet_coin cfg env run_id local) (json_or (json_key d ''coin'') (JArr [])) st
      | _ \<Rightarrow> (st, Some AttributeError))"

definition stale_holding :: "holding_row \<Rightarrow> string \<Rightarrow> string \<Rightarrow> holding_row" where
  "stale_holding r symbol asset =
     r\<lparr>hr_symbol := symbol, hr_asset := asset, hr_reason := ''stale_hold'', hr_source := ''reconciliation_local_db'',
       hr_owner := or_null (hr_owner r)\<rparr>"

definition missing_holding ::
    "recon_config \<Rightarrow> recon_env \<Rightarrow> string \<Rightarrow> string list \<Rightarrow> holding_row \<Rightarrow> recon_state \<Rightarrow> recon_state outcome_of" where
  "missing_holding cfg env run_id seen r s =
     (let asset = str_upper (hr_asset r);
          symbol = (if hr_symbol r = [] then asset @ ''USDT'' else hr_symbol r) in
      if asset = [] \<or> hr_free r + hr_locked r \<le> 0 \<or> asset \<in> set seen then (s, None)
      else and_then (put_db (upsert_spot_holding (re_now env) ((stale_holding r symbol asset)\<lparr>hr_account := rs_account cfg\<rparr>) (rc_db s)) s)
        (\<lambda>s. (report env run_id ''local_holding_missing_on_exchange'' ''spot'' ''warning'' (Some symbol)
                ''reconciliation_repair_applied'' s, None)))"

definition reconcile_wallet :: "recon_config \<Rightarrow> recon_env \<Rightarrow> string \<Rightarrow> recon_state \<Rightarrow> recon_state outcome_of" where
  "reconcile_wallet cfg env run_id s =
     (case xa_wallet (re_answers env) of
        None \<Rightarrow> (s, Some ValueError)
      | Some resp \<Rightarrow>
          (case answer_ok resp of
             Inl e \<Rightarrow> (s, Some e)
           | Inr False \<Rightarrow>
               (report env run_id ''wallet_balance_api_error'' ''shared'' ''error'' None ''reconciliation_issue'' s, None)
           | Inr True \<Rightarrow>
               (case listed resp of
                  Inl e \<Rightarrow> (s, Some e)
                | Inr wallets \<Rightarrow>
                    let s = snapshot cfg env run_id ''wallet_balance'' s;
                        local = list_spot_holdings (Some (rs_account cfg)) (rc_db s) in
                    case each_item (wallet_account cfg env run_id local) wallets (s, []) of
                      ((s, seen), Some e) \<Rightarrow> (s, Some e)
                    | ((s, seen), None) \<Rightarrow> each (missing_holding cfg env run_id seen) local s)))"

section \<open>Open orders\<close>

definition known_order :: "recon_config \<Rightarrow> string \<Rightarrow> string \<Rightarrow> domain_db \<Rightarrow> bool" where
  "known_order cfg link order_id db \<longleftrightarrow>
     list_ex (\<lambda>r. link \<noteq> [] \<and> lo_link r = Some link \<or> order_id \<noteq> [] \<and> lo_exchange_id r = Some order_id) (db_legacy db)
     \<or> (if linear_market cfg
        then list_ex (\<lambda>r. link \<noteq> [] \<and> fo_link r = link \<or> order_id \<noteq> [] \<and> fo_order_id r = Some order_id) (fu_orders db)
        else list_ex (\<lambda>r. link \<noteq> [] \<and> so_link r = link \<or> order_id \<noteq> [] \<and> so_order_id r = Some order_id) (sp_orders db))"

definition status_or_new :: "recon_env \<Rightarrow> json \<Rightarrow> string" where
  "status_or_new env v = json_text (re_str env) (json_or v (JStr ''New''))"

definition store_order ::
    "recon_config \<Rightarrow> recon_env \<Rightarrow> string \<Rightarrow> string \<Rightarrow> string \<Rightarrow> (string, json) dict \<Rightarrow> domain_db \<Rightarrow> py_error + domain_db" where
  "store_order cfg env symbol link order_id d db =
     (if linear_market cfg
      then upsert_futures_open_order (re_uuid env) (re_now env) (if link = [] then None else Some link)
        \<lparr>fo_account = rs_account cfg, fo_symbol = symbol, fo_side = json_key d ''side'',
         fo_order_id = (if order_id = [] then None else Some order_id), fo_link = link, fo_type = json_key d ''orderType'',
         fo_tif = json_key d ''timeInForce'', fo_price = Some (to_f (json_key d ''price'')), fo_qty = Some (to_f (json_key d ''qty'')),
         fo_status = status_or_new env (json_key d ''orderStatus''), fo_reduce = Some (json_truthy (json_key d ''reduceOnly'')),
         fo_close = Some (json_truthy (json_key d ''closeOnTrigger'')), fo_owner = Some (rs_name cfg), fo_created = 0, fo_updated = 0\<rparr> db
      else upsert_spot_order (re_uuid env) (re_now env) (if link = [] then None else Some link)
        \<lparr>so_account = rs_account cfg, so_symbol = symbol, so_side = text_of env (json_key d ''side''),
         so_order_id = (if order_id = [] then None else Some order_id), so_link = link, so_type = json_key d ''orderType'',
         so_tif = json_key d ''timeInForce'', so_price = to_f (json_key d ''price''), so_qty = to_f (json_key d ''qty''),
         so_filled = to_f (json_key d ''cumExecQty''), so_status = status_or_new env (json_key d ''orderStatus''),
         so_owner = Some (rs_name cfg), so_created = 0, so_updated = 0\<rparr> db)"

text \<open>One order of the exchange; the links and the ids seen are a part of the state of the loop.\<close>

definition exchange_order ::
    "recon_config \<Rightarrow> recon_env \<Rightarrow> string \<Rightarrow> json \<Rightarrow> recon_state \<times> string list \<times> string list
     \<Rightarrow> (recon_state \<times> string list \<times> string list) outcome_of" where
  "exchange_order cfg env run_id order st =
     (case order of
        JObj d \<Rightarrow>
          let (s, links, ids) = st;
              symbol = name_of env (json_key d ''symbol'');
              link = str_strip (text_of env (json_key d ''orderLinkId''));
              order_id = str_strip (text_of env (json_key d ''orderId'')) in
          if symbol = [] then (st, None)
          else
            let s = on_summary (\<lambda>m. m\<lparr>sm_orders := sm_orders m + 1\<rparr>) s;
                links = (if link = [] then links else List.insert link links);
                ids = (if order_id = [] then ids else List.insert order_id ids);
                s = (if known_order cfg link order_id (rc_db s) then s
                     else on_summary (\<lambda>m. m\<lparr>sm_orders_orphaned := sm_orders_orphaned m + 1\<rparr>)
                       (report env run_id ''orphaned_exchange_order'' (order_domain cfg) ''warning'' (Some symbol)
                          ''imported_orphaned_order'' s)) in
            (case store_order cfg env symbol link order_id d (rc_db s) of
               Inl e \<Rightarrow> ((s, links, ids), Some e)
             | Inr db \<Rightarrow> ((s\<lparr>rc_db := db\<rparr>, links, ids), None))
      | _ \<Rightarrow> (st, Some AttributeError))"

definition OPEN_STATUSES :: "string set" where
  "OPEN_STATUSES = {''new'', ''partiallyfilled'', ''partially_filled''}"

definition local_orders :: "recon_config \<Rightarrow> domain_db \<Rightarrow> (string \<times> string option \<times> string) list" where
  "local_orders cfg db =
     (if linear_market cfg
      then map (\<lambda>r. (fo_link r, fo_order_id r, fo_symbol r)) (filter (\<lambda>r. str_lower (fo_status r) \<in> OPEN_STATUSES) (fu_orders db))
      else map (\<lambda>r. (so_link r, so_order_id r, so_symbol r)) (filter (\<lambda>r. str_lower (so_status r) \<in> OPEN_STATUSES) (sp_orders db)))"

definition mark_missing :: "recon_config \<Rightarrow> string \<Rightarrow> domain_db \<Rightarrow> domain_db" where
  "mark_missing cfg link db =
     (if linear_market cfg
      then db\<lparr>fu_orders := map (\<lambda>r. if fo_link r = link then r\<lparr>fo_status := ''MissingOnExchange''\<rparr> else r) (fu_orders db)\<rparr>
      else db\<lparr>sp_orders := map (\<lambda>r. if so_link r = link then r\<lparr>so_status := ''MissingOnExchange''\<rparr> else r) (sp_orders db)\<rparr>)"

definition local_order ::
    "recon_config \<Rightarrow> recon_env \<Rightarrow> string \<Rightarrow> string list \<Rightarrow> string list \<Rightarrow> string \<times> string option \<times> string
     \<Rightarrow> recon_state \<Rightarrow> recon_state" where
  "local_order cfg env run_id links ids row s =
     (case row of (link, order_id, symbol) \<Rightarrow>
        if link \<in> set links \<or> or_empty order_id \<in> set ids then s
        else report env run_id ''local_order_missing_on_exchange'' (order_domain cfg) ''warning'' (Some symbol)
               ''reconciliation_repair_applied'' (on_db (mark_missing cfg link) s))"

definition reconcile_open_orders :: "recon_config \<Rightarrow> recon_env \<Rightarrow> string \<Rightarrow> recon_state \<Rightarrow> recon_state outcome_of" where
  "reconcile_open_orders cfg env run_id s =
     (case xa_orders (re_answers env) of
        None \<Rightarrow> (s, Some ValueError)
      | Some resp \<Rightarrow>
          (case answer_ok resp of
             Inl e \<Rightarrow> (s, Some e)
           | Inr False \<Rightarrow> (s, None)
           | Inr True \<Rightarrow>
               let s = on_summary (\<lambda>m. m\<lparr>sm_orders_checked := True\<rparr>) s in
               case listed resp of
                  Inl e \<Rightarrow> (s, Some e)
                | Inr orders \<Rightarrow>
                    let s = snapshot cfg env run_id (rs_category cfg @ ''_open_orders'') s in
                    (case each_item (exchange_order cfg env run_id) orders (s, [], []) of
                       ((s, links, ids), Some e) \<Rightarrow> (s, Some e)
                     | ((s, links, ids), None) \<Rightarrow>
                         (fold (local_order cfg env run_id links ids) (local_orders cfg (rc_db s)) s, None))))"

section \<open>Fills\<close>

definition null_text :: "recon_env \<Rightarrow> json \<Rightarrow> string option" where
  "null_text env v = (if text_of env v = [] then None else Some (text_of env v))"

text \<open>\<open>value not in (None, "")\<close>.\<close>

definition given :: "json \<Rightarrow> bool" where
  "given v \<longleftrightarrow> v \<noteq> JNull \<and> v \<noteq> JStr []"

definition item_symbol :: "recon_env \<Rightarrow> string \<Rightarrow> (string, json) dict \<Rightarrow> string" where
  "item_symbol env symbol d = str_upper (json_text (re_str env) (json_or (json_key d ''symbol'') (JStr symbol)))"

definition execution_fill :: "recon_config \<Rightarrow> recon_env \<Rightarrow> string \<Rightarrow> string \<Rightarrow> (string, json) dict \<Rightarrow> fill_row" where
  "execution_fill cfg env symbol exec_id d =
     \<lparr>fl_account = rs_account cfg, fl_symbol = item_symbol env symbol d, fl_side = text_of env (json_key d ''side''),
      fl_exec = exec_id, fl_order = null_text env (json_key d ''orderId''), fl_link = null_text env (json_key d ''orderLinkId''),
      fl_price = to_f (json_or (json_key d ''execPrice'') (json_key d ''price'')),
      fl_qty = to_f (json_or (json_key d ''execQty'') (json_key d ''qty'')), fl_fee = Some (to_f (json_key d ''execFee'')),
      fl_currency = null_text env (json_key d ''feeCurrency''), fl_maker = Some (json_truthy (json_key d ''isMaker'')),
      fl_time = Some (to_i (json_key d ''execTime'')), fl_created = 0\<rparr>"

definition funding_event :: "recon_config \<Rightarrow> recon_env \<Rightarrow> string \<Rightarrow> (string, json) dict \<Rightarrow> funding_row" where
  "funding_event cfg env symbol d =
     \<lparr>fu_account = rs_account cfg, fu_symbol = item_symbol env symbol d,
      fu_side = (let t = str_strip (text_of env (json_key d ''side'')) in if t = [] then None else Some t),
      fu_idx = (if json_key d ''positionIdx'' = JNull then None else Some (to_i (json_key d ''positionIdx''))),
      fu_rate = (if given (json_key d ''fundingRate'') then Some (to_f (json_key d ''fundingRate'')) else None),
      fu_fee = to_f (json_key d ''execFee''), fu_time = to_i (json_key d ''execTime''), fu_created = 0\<rparr>"

definition execution :: "recon_config \<Rightarrow> recon_env \<Rightarrow> string \<Rightarrow> json \<Rightarrow> recon_state \<Rightarrow> recon_state outcome_of" where
  "execution cfg env symbol item s =
     (case item of
        JObj d \<Rightarrow>
          let exec_id = str_strip (text_of env (json_key d ''execId''));
              fill = execution_fill cfg env symbol exec_id d;
              kind = str_lower (str_strip (text_of env (json_key d ''execType''))) in
          if exec_id = [] then (s, None)
          else
            let s = (if \<not> linear_market cfg then on_db (insert_spot_fill (re_now env) fill) s
                     else
                       let s = on_db (insert_futures_fill (re_now env) fill) s in
                       if \<not> str_contains ''funding'' kind then s
                       else let (db, inserted) = insert_futures_funding_event (re_now env) (funding_event cfg env symbol d) (rc_db s);
                                s = s\<lparr>rc_db := db\<rparr> in
                            if inserted then on_summary (\<lambda>m. m\<lparr>sm_funding := sm_funding m + 1\<rparr>) s else s) in
            (on_summary (\<lambda>m. m\<lparr>sm_fills := sm_fills m + 1\<rparr>) s, None)
      | _ \<Rightarrow> (s, Some AttributeError))"

definition symbol_executions ::
    "recon_config \<Rightarrow> recon_env \<Rightarrow> string \<Rightarrow> string \<Rightarrow> recon_state \<Rightarrow> recon_state outcome_of" where
  "symbol_executions cfg env run_id symbol s =
     (case xa_executions (re_answers env) symbol of
        None \<Rightarrow> (s, Some ValueError)
      | Some resp \<Rightarrow>
          (case answer_ok resp of
             Inl e \<Rightarrow> (s, Some e)
           | Inr False \<Rightarrow> (s, None)
           | Inr True \<Rightarrow>
               case listed resp of
                 Inl e \<Rightarrow> (s, Some e)
               | Inr items \<Rightarrow>
                   let s = (if json_truthy items then snapshot cfg env run_id (rs_category cfg @ ''_executions'') s else s) in
                   each_item (execution cfg env symbol) items s))"

definition reconcile_fills :: "recon_config \<Rightarrow> recon_env \<Rightarrow> string \<Rightarrow> recon_state \<Rightarrow> recon_state outcome_of" where
  "reconcile_fills cfg env run_id s = each (symbol_executions cfg env run_id) (managed_symbols cfg) s"

section \<open>Positions\<close>

type_synonym position_id = "string \<times> string \<times> int"

definition local_key :: "position_row \<Rightarrow> position_id" where
  "local_key r = (str_upper (fp_symbol r), fp_side r, fp_idx r)"

text \<open>\<open>local_map\<close>, a dictionary: of rows with one key the last remains, at the place of the first.\<close>

definition local_positions :: "recon_config \<Rightarrow> domain_db \<Rightarrow> (position_id, position_row) dict" where
  "local_positions cfg db =
     fold (\<lambda>r d. dict_set (local_key r) r d) (filter (\<lambda>r. \<bar>fp_qty r\<bar> > 0) (list_futures_positions (Some (rs_account cfg)) db)) []"

definition positive_or_null :: "real \<Rightarrow> real option" where
  "positive_or_null x = (if x > 0 then Some x else None)"

definition exchange_status :: "(string, json) dict \<Rightarrow> string" where
  "exchange_status d =
     (if to_f (json_key d ''stopLoss'') > 0 \<and> to_f (json_key d ''takeProfit'') > 0 then ''protected'' else ''unprotected'')"

definition position_qty :: "(string, json) dict \<Rightarrow> real" where
  "position_qty d = to_f (json_or (json_key d ''size'') (json_key d ''qty''))"

definition exchange_position_row ::
    "recon_config \<Rightarrow> recon_env \<Rightarrow> position_id \<Rightarrow> bool \<Rightarrow> (string, json) dict \<Rightarrow> position_row" where
  "exchange_position_row cfg env key orphaned d =
     (case key of (symbol, side, idx) \<Rightarrow>
        \<lparr>fp_account = rs_account cfg, fp_symbol = symbol, fp_side = side, fp_idx = idx,
         fp_margin = Some (json_text (re_str env) (json_or (json_key d ''tradeMode'') (json_or (json_key d ''marginMode'') (JStr [])))),
         fp_leverage = Some (to_f (json_key d ''leverage'')), fp_qty = position_qty d,
         fp_entry = Some (to_f (json_or (json_key d ''avgPrice'') (json_key d ''entryPrice''))),
         fp_mark = Some (to_f (json_key d ''markPrice'')), fp_liq = Some (to_f (json_key d ''liqPrice'')),
         fp_unrealized = Some (to_f (json_or (json_key d ''unrealisedPnl'') (json_key d ''unrealizedPnl''))),
         fp_realized = Some (to_f (json_or (json_key d ''cumRealisedPnl'') (json_key d ''realizedPnl''))),
         fp_take = positive_or_null (to_f (json_key d ''takeProfit'')), fp_stop = positive_or_null (to_f (json_key d ''stopLoss'')),
         fp_trailing = positive_or_null (to_f (json_key d ''trailingStop'')), fp_protection = exchange_status d,
         fp_source = ''exchange_position_list'', fp_recovered = orphaned, fp_owner = Some (rs_name cfg),
         fp_created = 0, fp_updated = 0\<rparr>)"

definition exchange_protection_row :: "recon_config \<Rightarrow> position_id \<Rightarrow> (string, json) dict \<Rightarrow> protection_row" where
  "exchange_protection_row cfg key d =
     (case key of (symbol, side, idx) \<Rightarrow>
        \<lparr>pt_id = [], pt_account = rs_account cfg, pt_symbol = symbol, pt_side = side, pt_idx = idx,
         pt_stop = positive_or_null (to_f (json_key d ''stopLoss'')), pt_take = positive_or_null (to_f (json_key d ''takeProfit'')),
         pt_trailing = positive_or_null (to_f (json_key d ''trailingStop'')), pt_status = exchange_status d,
         pt_source = ''exchange_position_list'', pt_sl_order = None, pt_tp_order = None, pt_trailing_order = None,
         pt_synced = 0, pt_created = 0, pt_updated = 0\<rparr>)"

definition exchange_liquidation_row :: "recon_config \<Rightarrow> position_id \<Rightarrow> (string, json) dict \<Rightarrow> liquidation_row" where
  "exchange_liquidation_row cfg key d =
     (case key of (symbol, side, idx) \<Rightarrow>
        let mark_price = to_f (json_key d ''markPrice''); liq_price = to_f (json_key d ''liqPrice'') in
        \<lparr>lq_account = rs_account cfg, lq_symbol = symbol, lq_side = Some side, lq_idx = Some idx,
         lq_mark = positive_or_null mark_price, lq_liq = positive_or_null liq_price,
         lq_distance = compute_distance_to_liq_bps (Some side) (Some mark_price) (Some liq_price),
         lq_margin = (if given (json_key d ''positionMMByMp'') then Some (to_f (json_key d ''positionMMByMp'')) else None),
         lq_created = 0\<rparr>)"

definition position_id_of :: "recon_env \<Rightarrow> (string, json) dict \<Rightarrow> position_id" where
  "position_id_of env d =
     (name_of env (json_key d ''symbol''), str_strip (text_of env (json_key d ''side'')), to_i (json_key d ''positionIdx''))"

definition is_position :: "recon_env \<Rightarrow> (string, json) dict \<Rightarrow> bool" where
  "is_position env d \<longleftrightarrow>
     fst (position_id_of env d) \<noteq> [] \<and> fst (snd (position_id_of env d)) \<noteq> [] \<and> \<not> \<bar>position_qty d\<bar> \<le> 0"

text \<open>One position of the exchange; the keys seen are a part of the state of the loop.\<close>

definition exchange_position ::
    "recon_config \<Rightarrow> recon_env \<Rightarrow> string \<Rightarrow> (position_id, position_row) dict \<Rightarrow> json \<Rightarrow> recon_state \<times> position_id list
     \<Rightarrow> (recon_state \<times> position_id list) outcome_of" where
  "exchange_position cfg env run_id local item st =
     (case item of
        JObj d \<Rightarrow>
          let (s, keys) = st; key = position_id_of env d; symbol = fst key; orphaned = (dict_get local key = None) in
          if \<not> is_position env d then (st, None)
          else
            let keys = List.insert key keys;
                s = on_summary (\<lambda>m. m\<lparr>sm_positions := sm_positions m + 1\<rparr>) s in
            case upsert_futures_position (re_now env) (exchange_position_row cfg env key orphaned d) (rc_db s) of
              Inl e \<Rightarrow> ((s, keys), Some e)
            | Inr db \<Rightarrow>
                (case upsert_futures_protection (re_uuid env) (re_now env) (exchange_protection_row cfg key d) db of
                   Inl e \<Rightarrow> ((s\<lparr>rc_db := db\<rparr>, keys), Some e)
                 | Inr db \<Rightarrow>
                     let s = on_summary (\<lambda>m. m\<lparr>sm_liquidation := sm_liquidation m + 1\<rparr>)
                               (s\<lparr>rc_db := insert_futures_liquidation_risk_snapshot (re_now env) (exchange_liquidation_row cfg key d) db\<rparr>);
                         s = (if orphaned
                              then on_summary (\<lambda>m. m\<lparr>sm_positions_orphaned := sm_positions_orphaned m + 1\<rparr>)
                                (report env run_id ''orphaned_exchange_position'' ''futures'' ''error'' (Some symbol) ''imported_orphaned_position'' s)
                              else s);
                         s = (if exchange_status d = ''unprotected''
                              then report env run_id ''unprotected_position'' ''futures'' ''critical'' (Some symbol) ''protection_failure'' s
                              else s) in
                     ((s, keys), None))
      | _ \<Rightarrow> (st, Some AttributeError))"

definition missing_position ::
    "recon_env \<Rightarrow> string \<Rightarrow> position_id list \<Rightarrow> position_id \<times> position_row \<Rightarrow> recon_state \<Rightarrow> recon_state" where
  "missing_position env run_id keys kr s =
     (if fst kr \<in> set keys then s
      else report env run_id ''local_position_missing_on_exchange'' ''futures'' ''warning'' (Some (fst (fst kr)))
             ''reconciliation_issue'' s)"

definition reconcile_positions :: "recon_config \<Rightarrow> recon_env \<Rightarrow> string \<Rightarrow> recon_state \<Rightarrow> recon_state outcome_of" where
  "reconcile_positions cfg env run_id s =
     (case xa_positions (re_answers env) of
        None \<Rightarrow> (s, Some ValueError)
      | Some resp \<Rightarrow>
          (case answer_ok resp of
             Inl e \<Rightarrow> (s, Some e)
           | Inr False \<Rightarrow> (s, None)
           | Inr True \<Rightarrow>
               let s = on_summary (\<lambda>m. m\<lparr>sm_positions_checked := True\<rparr>) s in
               case listed resp of
                  Inl e \<Rightarrow> (s, Some e)
                | Inr positions \<Rightarrow>
                    let s = snapshot cfg env run_id ''futures_positions'' s;
                        local = local_positions cfg (rc_db s) in
                    (case each_item (exchange_position cfg env run_id local) positions (s, []) of
                       ((s, keys), Some e) \<Rightarrow> (s, Some e)
                     | ((s, keys), None) \<Rightarrow> (fold (missing_position env run_id keys) local s, None))))"

section \<open>Releasing locks\<close>

definition eligible_pairs :: "recon_config \<Rightarrow> recon_summary \<Rightarrow> (string \<times> string) list" where
  "eligible_pairs cfg m =
     (if sm_orders_checked m
      then [(''orphaned_exchange_order'', order_domain cfg), (''local_order_missing_on_exchange'', order_domain cfg)] else [])
     @ (if linear_market cfg \<and> sm_positions_checked m
        then [(''orphaned_exchange_position'', ''futures''), (''local_position_missing_on_exchange'', ''futures'')] else [])"

definition issue_key_of :: "recon_issue \<Rightarrow> issue_key" where
  "issue_key_of r = (str_strip (ri_type r), str_strip (ri_domain r), str_strip (str_upper (or_empty (ri_symbol r))))"

definition resolve_stale :: "recon_env \<Rightarrow> recon_issue \<Rightarrow> recon_state \<times> string list \<Rightarrow> recon_state \<times> string list" where
  "resolve_stale env r st =
     (let (s, unlocked) = st; (kind, area, name) = issue_key_of r in
      if (kind, area, name) \<in> set (rc_locks s) then st
      else
        let (db, resolved) = resolve_reconciliation_issue (re_now env) (ri_id r) (rc_db s) in
        if \<not> resolved then (s\<lparr>rc_db := db\<rparr>, unlocked)
        else
          (on_summary (\<lambda>m. m\<lparr>sm_resolved := sm_resolved m + 1\<rparr>)
             (s\<lparr>rc_db := insert_event_audit (re_uuid env) (re_now env) ''reconciliation_issue_resolved''
                 (if area = [] then ''shared'' else area) (if name = [] then None else Some name) (Some (ri_id r)) db\<rparr>),
           if name = [] then unlocked else List.insert name unlocked))"

definition resolve_stale_entry_lock_issues :: "recon_config \<Rightarrow> recon_env \<Rightarrow> recon_state \<Rightarrow> recon_state" where
  "resolve_stale_entry_lock_issues cfg env s =
     (let pairs = eligible_pairs cfg (rc_summary s);
          rows = filter (\<lambda>r. issue_active r \<and> (ri_type r, ri_domain r) \<in> set pairs) (cs_issues (rc_db s)) in
      if pairs = [] then s
      else let (s, unlocked) = fold (resolve_stale env) rows (s, []) in
           on_summary (\<lambda>m. m\<lparr>sm_released := sm_released m + length unlocked,
             sm_unlocked := (if unlocked = [] then sm_unlocked m
                             else sorted_list_of_set (set (sm_unlocked m) \<union> set unlocked))\<rparr>) s)"

section \<open>A run\<close>

text \<open>The comparisons in their order; an exception ends the run where it is raised.\<close>

definition comparisons :: "recon_config \<Rightarrow> recon_env \<Rightarrow> string \<Rightarrow> recon_state \<Rightarrow> recon_state outcome_of" where
  "comparisons cfg env run_id s =
     and_then (reconcile_wallet cfg env run_id s) (\<lambda>s.
     and_then (reconcile_open_orders cfg env run_id s) (\<lambda>s.
     and_then (reconcile_fills cfg env run_id s) (\<lambda>s.
     if linear_market cfg then reconcile_positions cfg env run_id s else (s, None))))"

definition run_steps :: "recon_config \<Rightarrow> recon_env \<Rightarrow> string \<Rightarrow> recon_state \<Rightarrow> recon_state outcome_of" where
  "run_steps cfg env run_id s =
     and_then (comparisons cfg env run_id s) (\<lambda>s. (resolve_stale_entry_lock_issues cfg env s, None))"

definition begin_run :: "recon_env \<Rightarrow> string \<Rightarrow> domain_db \<Rightarrow> recon_state \<times> string" where
  "begin_run env trigger db =
     (let (db, run_id) = start_reconciliation_run (re_uuid env) (re_now env) trigger db in
      (\<lparr>rc_db = insert_event_audit (re_uuid env) (re_now env) ''reconciliation_start'' ''shared'' None (Some run_id) db,
        rc_locks = [], rc_summary = new_summary\<rparr>, run_id))"

definition close_run :: "recon_env \<Rightarrow> string \<Rightarrow> string \<Rightarrow> string \<Rightarrow> domain_db \<Rightarrow> domain_db" where
  "close_run env run_id status event db =
     insert_event_audit (re_uuid env) (re_now env) event ''shared'' None (Some run_id)
       (finish_reconciliation_run (re_now env) run_id status db)"

definition reconcile :: "recon_config \<Rightarrow> recon_env \<Rightarrow> string \<Rightarrow> domain_db \<Rightarrow> domain_db \<times> recon_summary" where
  "reconcile cfg env trigger db =
     (let (s, run_id) = begin_run env trigger db in
      case run_steps cfg env run_id s of
        (s, None) \<Rightarrow> (close_run env run_id ''success'' ''reconciliation_end'' (rc_db s), rc_summary s)
      | (s, Some e) \<Rightarrow> (close_run env run_id ''failed'' ''reconciliation_failed'' (rc_db s),
                        (rc_summary s)\<lparr>sm_failed := True\<rparr>))"


section \<open>The table of issues\<close>

definition raw_key :: "recon_issue \<Rightarrow> issue_key" where
  "raw_key r = (ri_type r, ri_domain r, or_empty (ri_symbol r))"

definition active_keys :: "('z) core_db_scheme \<Rightarrow> issue_key set" where
  "active_keys db = raw_key ` {r \<in> set (cs_issues db). issue_active r}"

definition lockable :: "issue_key \<Rightarrow> bool" where
  "lockable k \<longleftrightarrow> fst k \<in> ENTRY_LOCK_ISSUE_TYPES \<and> snd (snd k) \<noteq> []"

text \<open>Identifiers are distinct, the columns are normalised, and no conflict has two active issues.\<close>

definition issues_ok :: "uuids \<Rightarrow> ('z) core_db_scheme \<Rightarrow> bool" where
  "issues_ok uuid db \<longleftrightarrow> drawn_issues uuid db \<and> (\<forall>r \<in> set (cs_issues db). issue_key_of r = raw_key r)
     \<and> distinct (map raw_key (filter issue_active (cs_issues db)))"

definition issue_key_for :: "string \<Rightarrow> string \<Rightarrow> string \<Rightarrow> issue_key" where
  "issue_key_for kind area symbol = (str_strip kind, str_strip area, str_strip (str_upper symbol))"

lemma sort_key_Nil: "sort_key f xs = [] \<longleftrightarrow> xs = []"
  by (simp flip: length_0_conv)

lemma drawn_id_nonempty: "drawn_issues uuid db \<Longrightarrow> r \<in> set (cs_issues db) \<Longrightarrow> ri_id r \<noteq> []"
  by (fastforce simp: drawn_issues_def)

lemma active_keys_same:
  "cs_issues db' = cs_issues db \<Longrightarrow> active_keys db' = active_keys db"
  by (simp add: active_keys_def)

lemma issues_ok_later:
  "issues_ok uuid db \<Longrightarrow> cs_issues db' = cs_issues db \<Longrightarrow> cs_drawn db \<le> cs_drawn db' \<Longrightarrow> issues_ok uuid db'"
  by (auto simp: issues_ok_def intro: drawn_later)

lemma issue_once_effect:
  fixes env run_id kind area sev symbol s
  defines "r \<equiv> issue_once env run_id kind area sev symbol s" and "key \<equiv> issue_key_for kind area symbol"
  assumes inj: "inj (re_uuid env)" and ok: "issues_ok (re_uuid env) (rc_db s)"
  shows "issues_ok (re_uuid env) (rc_db (fst r))"
    and "active_keys (rc_db (fst r)) = insert key (active_keys (rc_db s))"
    and "set (rc_locks (fst r)) = (if lockable key then insert key (set (rc_locks s)) else set (rc_locks s))"
    and "cs_drawn (rc_db s) \<le> cs_drawn (rc_db (fst r))"
proof -
  let ?rows = "filter (\<lambda>r. issue_active r \<and> ri_type r = str_strip kind \<and> ri_domain r = str_strip area
    \<and> or_empty (ri_symbol r) = str_strip (str_upper symbol)) (cs_issues (rc_db s))"
  have found: "?rows \<noteq> [] \<longleftrightarrow> key \<in> active_keys (rc_db s)"
    by (auto simp: key_def issue_key_for_def active_keys_def raw_key_def filter_empty_conv image_iff)
  have ids: "ri_id (hd (sort_key (\<lambda>r. - ri_created r) ?rows)) \<noteq> []" if "?rows \<noteq> []"
  proof -
    from that have "hd (sort_key (\<lambda>r. - ri_created r) ?rows) \<in> set (sort_key (\<lambda>r. - ri_created r) ?rows)"
      by (intro hd_in_set) (simp add: sort_key_Nil)
    then have "hd (sort_key (\<lambda>r. - ri_created r) ?rows) \<in> set (cs_issues (rc_db s))" by simp
    then show ?thesis
      using drawn_id_nonempty [of "re_uuid env" "rc_db s"] ok by (simp add: issues_ok_def)
  qed
  have rows_nil: "sort_key (\<lambda>r. - ri_created r) ?rows = [] \<longleftrightarrow> ?rows = []"
    by (rule sort_key_Nil)
  have all: "issues_ok (re_uuid env) (rc_db (fst r)) \<and> active_keys (rc_db (fst r)) = insert key (active_keys (rc_db s))
    \<and> set (rc_locks (fst r)) = (if lockable key then insert key (set (rc_locks s)) else set (rc_locks s))
    \<and> cs_drawn (rc_db s) \<le> cs_drawn (rc_db (fst r))"
  proof (cases "?rows = []")
    case True
    then have new: "key \<notin> active_keys (rc_db s)" using found by blast
    let ?i = "insert_reconciliation_issue (re_uuid env) (re_now env) (str_strip kind) (str_strip area) sev
      (if str_strip (str_upper symbol) = [] then None else Some (str_strip (str_upper symbol))) (Some run_id) ''open'' (rc_db s)"
    have db: "rc_db (fst r) = fst ?i"
      using True rows_nil by (simp add: r_def issue_once_def Let_def case_prod_beta)
    have locks: "set (rc_locks (fst r)) = (if lockable key then insert key (set (rc_locks s)) else set (rc_locks s))"
      using True rows_nil
      by (simp add: r_def issue_once_def Let_def case_prod_beta lockable_def key_def issue_key_for_def)
    obtain row where row: "cs_issues (fst ?i) = cs_issues (rc_db s) @ [row]" "issue_active row" "raw_key row = key"
        "issue_key_of row = key"
      by (auto simp: insert_reconciliation_issue_def Let_def issue_active_def raw_key_def issue_key_of_def key_def
          issue_key_for_def or_empty_def str_strip_upper str_lower_def lower_char_def)
    have keys: "active_keys (fst ?i) = insert key (active_keys (rc_db s))"
      using row by (auto simp: active_keys_def)
    from new have "key \<notin> raw_key ` set (filter issue_active (cs_issues (rc_db s)))" by (simp add: active_keys_def)
    moreover have "drawn_issues (re_uuid env) (fst ?i)"
      using drawn_insert [OF inj] ok unfolding issues_ok_def by blast
    ultimately have "issues_ok (re_uuid env) (fst ?i)" using ok row by (auto simp: issues_ok_def)
    moreover have "cs_drawn (rc_db s) \<le> cs_drawn (fst ?i)" by (simp add: insert_reconciliation_issue_def Let_def)
    ultimately show ?thesis unfolding db using keys locks by (intro conjI)
  next
    case False
    then have db: "rc_db (fst r) = rc_db s" and
        locks: "set (rc_locks (fst r)) = (if lockable key then insert key (set (rc_locks s)) else set (rc_locks s))"
      using ids rows_nil by (simp_all add: r_def issue_once_def Let_def lockable_def key_def issue_key_for_def)
    from False found have "active_keys (rc_db s) = insert key (active_keys (rc_db s))" by blast
    with locks ok show ?thesis unfolding db by blast
  qed
  then show "issues_ok (re_uuid env) (rc_db (fst r))"
    "active_keys (rc_db (fst r)) = insert key (active_keys (rc_db s))"
    "set (rc_locks (fst r)) = (if lockable key then insert key (set (rc_locks s)) else set (rc_locks s))"
    "cs_drawn (rc_db s) \<le> cs_drawn (rc_db (fst r))" by blast+
qed


section \<open>What every step keeps\<close>

text \<open>The positions the exchange reports.\<close>

definition listed_positions :: "recon_env \<Rightarrow> (string, json) dict list" where
  "listed_positions env =
     (case xa_positions (re_answers env) of None \<Rightarrow> []
      | Some resp \<Rightarrow> (case listed resp of Inl e \<Rightarrow> [] | Inr v \<Rightarrow>
          (case json_items v of Inl e \<Rightarrow> [] | Inr items \<Rightarrow>
             List.map_filter (\<lambda>x. case x of JObj d \<Rightarrow> if is_position env d then Some d else None | _ \<Rightarrow> None) items)))"

definition exchange_keys :: "recon_env \<Rightarrow> position_id set" where
  "exchange_keys env = position_id_of env ` set (listed_positions env)"

text \<open>
  A relation between the state before and the state after that every statement the service issues
  keeps is kept by its steps. The assumptions are the statements with the rows the service gives them.
\<close>

abbreviation table_conflicts :: "string set" where
  "table_conflicts \<equiv> {''spot_asset_recovered_from_exchange'', ''local_holding_missing_on_exchange'',
     ''wallet_balance_api_error'', ''orphaned_exchange_order'', ''local_order_missing_on_exchange''}"

abbreviation same_verdict :: "recon_summary \<Rightarrow> recon_summary \<Rightarrow> bool" where
  "same_verdict m m' \<equiv> sm_positions_checked m = sm_positions_checked m' \<and> sm_failed m = sm_failed m'"

locale recon_tables = keeps rel
  for rel :: "recon_state \<Rightarrow> recon_state \<Rightarrow> bool" +
  fixes cfg :: recon_config
    and env :: recon_env
  assumes on_report: "kind \<in> table_conflicts \<Longrightarrow> rel s (report env run_id kind area sv about event s)"
    and on_summary: "same_verdict m (rc_summary s) \<Longrightarrow> rel s (s\<lparr>rc_summary := m\<rparr>)"
    and on_snapshot: "rel s (snapshot cfg env run_id kind s)"
    and on_balance: "rel s (s\<lparr>rc_db := upsert_spot_balance (re_now env) account coin free locked source (rc_db s)\<rparr>)"
    and on_coin: "upsert_spot_holding (re_now env) (coin_holding cfg symbol coin free locked) (rc_db s) = Inr db
                  \<Longrightarrow> rel s (s\<lparr>rc_db := db\<rparr>)"
    and on_stale: "r \<in> set (list_spot_holdings (Some (rs_account cfg)) (rc_db s0)) \<Longrightarrow> rel s0 s
                  \<Longrightarrow> upsert_spot_holding (re_now env) ((stale_holding r symbol (str_upper (hr_asset r)))\<lparr>hr_account := rs_account cfg\<rparr>) (rc_db s) = Inr db
                  \<Longrightarrow> rel s0 (s\<lparr>rc_db := db\<rparr>)"
    and on_order: "store_order cfg env symbol link order_id d (rc_db s) = Inr db \<Longrightarrow> rel s (s\<lparr>rc_db := db\<rparr>)"
    and on_mark: "rel s (s\<lparr>rc_db := mark_missing cfg link (rc_db s)\<rparr>)"
    and on_spot_fill: "rel s (s\<lparr>rc_db := insert_spot_fill (re_now env) fill (rc_db s)\<rparr>)"
    and on_futures_fill: "rel s (s\<lparr>rc_db := insert_futures_fill (re_now env) fill (rc_db s)\<rparr>)"
    and on_funding: "rel s (s\<lparr>rc_db := fst (insert_futures_funding_event (re_now env) event' (rc_db s))\<rparr>)"
begin

lemma pairs: "keeps (\<lambda>a b. rel (fst a) (fst b))"
  by unfold_locales (auto intro: rel_refl rel_trans)

lemma rel_item:
  assumes "\<And>x st. x \<in> (case json_items v of Inl e \<Rightarrow> {} | Inr xs \<Rightarrow> set xs) \<Longrightarrow> rel (fst st) (fst (fst (f x st)))"
  shows "rel (fst st) (fst (fst (each_item f v st)))"
proof (cases "json_items v")
  case (Inl e)
  then show ?thesis by (simp add: each_item_def rel_refl)
next
  case (Inr xs)
  have "rel (fst st) (fst (fst (each f xs st)))"
    by (rule keeps.rel_each [OF pairs]) (use assms Inr in auto)
  with Inr show ?thesis by (simp add: each_item_def)
qed

lemma rel_put: "(\<And>db. q = Inr db \<Longrightarrow> rel s (s\<lparr>rc_db := db\<rparr>)) \<Longrightarrow> rel s (fst (put_db q s))"
  by (cases q) (auto simp: put_db_def rel_refl)

lemma rel_coin: "rel (fst st) (fst (fst (wallet_coin cfg env run_id local x st)))"
proof (cases x)
  case (JObj d)
  obtain s seen where st: "st = (s, seen)" by (cases st)
  let ?coin = "name_of env (json_key d ''coin'')"
  let ?total = "to_f (json_or (json_key d ''walletBalance'') (json_or (json_key d ''equity'') (JNum 0)))"
  let ?free = "min (max (to_f (json_or (json_key d ''free'') (json_or (json_key d ''availableToWithdraw'') (JNum ?total)))) 0) ?total"
  let ?b = "s\<lparr>rc_db := upsert_spot_balance (re_now env) (rs_account cfg) ?coin ?free (max (?total - ?free) 0)
      ''exchange_wallet_balance'' (rc_db s)\<rparr>"
  let ?s = "?b\<lparr>rc_summary := (rc_summary s)\<lparr>sm_balances := sm_balances (rc_summary s) + 1\<rparr>\<rparr>"
  have b: "rel s ?s" by (rule rel_trans [OF on_balance on_summary]) simp
  let ?h = "upsert_spot_holding (re_now env) (coin_holding cfg (?coin @ ''USDT'') ?coin ?free (max (?total - ?free) 0)) (rc_db ?s)"
  have rep: "rel s (on_summary (\<lambda>m. m\<lparr>sm_recovered := sm_recovered m + 1\<rparr>) (report env run_id k a sv sy ev (?s\<lparr>rc_db := db\<rparr>)))"
    if "?h = Inr db" "k \<in> table_conflicts" for db k a sv sy ev
    by (rule rel_trans [OF rel_trans [OF rel_trans [OF b on_coin [OF that(1)]] on_report [OF that(2)]] on_summary]) simp
  show ?thesis
    using b rep by (auto simp: JObj st wallet_coin_def Let_def rel_refl split: sum.split)
qed (simp_all add: wallet_coin_def rel_refl)

lemma rel_account: "rel (fst st) (fst (fst (wallet_account cfg env run_id local x st)))"
  by (cases x) (auto simp: wallet_account_def rel_refl intro!: rel_item rel_coin)

lemma rel_wallet: "rel s (fst (reconcile_wallet cfg env run_id s))"
proof -
  have listed: "rel s (fst (reconcile_wallet cfg env run_id s))"
    if ok: "xa_wallet (re_answers env) = Some resp" "answer_ok resp = Inr True" "listed resp = Inr wallets" for resp wallets
  proof -
    let ?s = "snapshot cfg env run_id ''wallet_balance'' s"
    let ?local = "list_spot_holdings (Some (rs_account cfg)) (rc_db ?s)"
    let ?r = "each_item (wallet_account cfg env run_id ?local) wallets (?s, [])"
    have s: "rel s ?s" by (rule on_snapshot)
    have r: "rel ?s (fst (fst ?r))"
      using rel_item [of wallets "wallet_account cfg env run_id ?local" "(?s, [])"] rel_account by simp
    have missing: "rel ?s (fst (each (missing_holding cfg env run_id seen) rows t))"
      if "rel ?s t" "set rows \<subseteq> set ?local" for seen rows t
      using that
    proof (induction rows arbitrary: t)
      case Nil
      then show ?case by simp
    next
      case (Cons r rows)
      let ?asset = "str_upper (hr_asset r)"
      let ?symbol = "if hr_symbol r = [] then ?asset @ ''USDT'' else hr_symbol r"
      let ?q = "upsert_spot_holding (re_now env) ((stale_holding r ?symbol ?asset)\<lparr>hr_account := rs_account cfg\<rparr>) (rc_db t)"
      have "rel ?s (fst (missing_holding cfg env run_id seen r t))"
      proof (cases ?q)
        case (Inl e)
        with Cons.prems(1) show ?thesis by (auto simp: missing_holding_def put_db_def Let_def)
      next
        case (Inr db)
        from Cons.prems(2) have "r \<in> set ?local" by simp
        from on_stale [OF this Cons.prems(1) Inr] have "rel ?s (t\<lparr>rc_db := db\<rparr>)" .
        with rel_trans [OF this on_report [of "''local_holding_missing_on_exchange''"]] Inr Cons.prems(1) show ?thesis
          by (auto simp: missing_holding_def put_db_def Let_def)
      qed
      then show ?case using Cons by (cases "missing_holding cfg env run_id seen r t"; cases "snd (missing_holding cfg env run_id seen r t)") auto
    qed
    obtain t seen oe where t: "?r = ((t, seen), oe)" by (metis prod.exhaust)
    with r have st: "rel ?s t" by simp
    show ?thesis
    proof (cases oe)
      case None
      with t have "reconcile_wallet cfg env run_id s = each (missing_holding cfg env run_id seen) ?local t"
        by (simp add: reconcile_wallet_def ok Let_def)
      with rel_trans [OF s missing [OF st order_refl]] show ?thesis by simp
    next
      case (Some e)
      with t have "reconcile_wallet cfg env run_id s = (t, Some e)"
        by (simp add: reconcile_wallet_def ok Let_def)
      with rel_trans [OF s st] show ?thesis by simp
    qed
  qed
  show ?thesis
  proof (cases "xa_wallet (re_answers env)")
    case None
    then show ?thesis by (simp add: reconcile_wallet_def rel_refl)
  next
    case (Some resp)
    note wallet = Some
    show ?thesis
    proof (cases "answer_ok resp")
      case (Inl e)
      with wallet show ?thesis by (simp add: reconcile_wallet_def rel_refl)
    next
      case (Inr b)
      show ?thesis
      proof (cases b)
        case True
        with wallet Inr listed show ?thesis
          by (cases "listed resp") (simp_all add: reconcile_wallet_def rel_refl)
      next
        case False
        with wallet Inr show ?thesis by (simp add: reconcile_wallet_def on_report)
      qed
    qed
  qed
qed

end

text \<open>The statements about positions, on top of these.\<close>

locale recon_steps = recon_tables +
  assumes on_conflict: "rel s (report env run_id kind area sv about event s)"
    and on_checked: "rel s (on_summary (\<lambda>m. m\<lparr>sm_positions_checked := True\<rparr>) s)"
    and on_position: "key \<in> exchange_keys env
                  \<Longrightarrow> upsert_futures_position (re_now env) (exchange_position_row cfg env key orphaned d) (rc_db s) = Inr db
                  \<Longrightarrow> rel s (s\<lparr>rc_db := db\<rparr>)"
    and on_protection: "upsert_futures_protection (re_uuid env) (re_now env) (exchange_protection_row cfg key d) (rc_db s) = Inr db
                  \<Longrightarrow> rel s (s\<lparr>rc_db := db\<rparr>)"
    and on_liquidation: "rel s (s\<lparr>rc_db := insert_futures_liquidation_risk_snapshot (re_now env) lrow (rc_db s)\<rparr>)"
begin

end

end
