(* ===== verification/Reconciliation_Runs.thy ===== *)
theory Reconciliation_Runs
  imports Reconciliation Exit_Rules
begin

text \<open>
  Facts about whole runs of the reconciliation service. The locale of \<open>Reconciliation\<close> is lifted to all
  steps of a run, and interpreted for the relations of interest: the table of issues and the entry
  locks, the rows of positions, the fills, and the holdings that may be sold automatically.
\<close>

context recon_tables
begin

lemma rel_orphan:
  assumes "k \<in> table_conflicts" "\<And>m. same_verdict (f m) m"
  shows "rel s (if known then s else on_summary f (report env run_id k a sv sy ev s))"
  using rel_trans [OF on_report [OF assms(1)] on_summary [OF assms(2)]] by (simp add: rel_refl)

lemma rel_exchange_order: "rel (fst st) (fst (fst (exchange_order cfg env run_id x st)))"
proof (cases x)
  case (JObj d)
  obtain s links ids where st: "st = (s, links, ids)" by (cases st)
  let ?symbol = "name_of env (json_key d ''symbol'')"
  let ?link = "str_strip (text_of env (json_key d ''orderLinkId''))"
  let ?id = "str_strip (text_of env (json_key d ''orderId''))"
  let ?s = "s\<lparr>rc_summary := (rc_summary s)\<lparr>sm_orders := sm_orders (rc_summary s) + 1\<rparr>\<rparr>"
  define t where "t = (if known_order cfg ?link ?id (rc_db ?s) then ?s
     else on_summary (\<lambda>m. m\<lparr>sm_orders_orphaned := sm_orders_orphaned m + 1\<rparr>)
       (report env run_id ''orphaned_exchange_order'' (order_domain cfg) ''warning'' (Some ?symbol) ''imported_orphaned_order'' ?s))"
  have t: "rel s t" unfolding t_def by (rule rel_trans [OF on_summary rel_orphan]) simp_all
  have eq: "exchange_order cfg env run_id x st = (if ?symbol = [] then (st, None)
      else case store_order cfg env ?symbol ?link ?id d (rc_db t) of
        Inl e \<Rightarrow> ((t, if ?link = [] then links else List.insert ?link links, if ?id = [] then ids else List.insert ?id ids), Some e)
      | Inr db \<Rightarrow> ((t\<lparr>rc_db := db\<rparr>, if ?link = [] then links else List.insert ?link links, if ?id = [] then ids else List.insert ?id ids), None))"
    by (simp only: JObj st exchange_order_def Let_def prod.case json.case t_def)
  show ?thesis
  proof (cases "store_order cfg env ?symbol ?link ?id d (rc_db t)")
    case (Inl e)
    with t show ?thesis unfolding eq by (simp add: st rel_refl)
  next
    case (Inr db)
    with rel_trans [OF t on_order [OF Inr]] show ?thesis unfolding eq by (simp add: st rel_refl)
  qed
qed (simp_all add: exchange_order_def rel_refl)

lemma rel_local_order: "rel s (local_order cfg env run_id links ids row s)"
proof (cases row)
  case (fields link order_id symbol)
  from rel_trans [OF on_mark on_report [of "''local_order_missing_on_exchange''"]] fields show ?thesis
    by (simp add: local_order_def rel_refl)
qed

lemma rel_open_orders: "rel s (fst (reconcile_open_orders cfg env run_id s))"
proof (cases "xa_orders (re_answers env)")
  case None
  then show ?thesis by (simp add: reconcile_open_orders_def rel_refl)
next
  case (Some resp)
  note orders = Some
  show ?thesis
  proof (cases "answer_ok resp")
    case (Inl e)
    with orders show ?thesis by (simp add: reconcile_open_orders_def rel_refl)
  next
    case (Inr b)
    show ?thesis
    proof (cases b)
      case False
      with orders Inr show ?thesis by (simp add: reconcile_open_orders_def rel_refl)
    next
      case True
      note yes = orders Inr True
      let ?c = "on_summary (\<lambda>m. m\<lparr>sm_orders_checked := True\<rparr>) s"
      show ?thesis
      proof (cases "listed resp")
        case (Inl e)
        with yes on_summary show ?thesis by (simp add: reconcile_open_orders_def)
      next
        case (Inr v)
        let ?s = "snapshot cfg env run_id (rs_category cfg @ ''_open_orders'') ?c"
        let ?r = "each_item (exchange_order cfg env run_id) v (?s, [], [])"
        have s: "rel s ?s" by (rule rel_trans [OF on_summary on_snapshot]) simp
        obtain t links ids oe where r: "?r = ((t, links, ids), oe)" by (metis prod.exhaust)
        have t: "rel ?s t"
          using rel_item [of v "exchange_order cfg env run_id" "(?s, [], [])"] rel_exchange_order r by simp
        have loop: "rel t (fold (local_order cfg env run_id links ids) rows t)" for rows
          by (rule rel_fold) (rule rel_local_order)
        show ?thesis
        proof (cases oe)
          case None
          with yes Inr r have "reconcile_open_orders cfg env run_id s
              = (fold (local_order cfg env run_id links ids) (local_orders cfg (rc_db t)) t, None)"
            by (simp add: reconcile_open_orders_def Let_def)
          with rel_trans [OF rel_trans [OF s t] loop] show ?thesis by simp
        next
          case (Some e)
          with yes Inr r have "reconcile_open_orders cfg env run_id s = (t, Some e)"
            by (simp add: reconcile_open_orders_def Let_def)
          with rel_trans [OF s t] show ?thesis by simp
        qed
      qed
    qed
  qed
qed

lemma rel_execution: "rel s (fst (execution cfg env symbol x s))"
proof (cases x)
  case (JObj d)
  let ?exec = "str_strip (text_of env (json_key d ''execId''))"
  let ?fill = "execution_fill cfg env symbol ?exec d"
  let ?sp = "s\<lparr>rc_db := insert_spot_fill (re_now env) ?fill (rc_db s)\<rparr>"
  let ?fu = "s\<lparr>rc_db := insert_futures_fill (re_now env) ?fill (rc_db s)\<rparr>"
  let ?ev = "insert_futures_funding_event (re_now env) (funding_event cfg env symbol d) (rc_db ?fu)"
  have sp: "rel s (?sp\<lparr>rc_summary := m\<rparr>)" if "same_verdict m (rc_summary s)" for m
    by (rule rel_trans [OF on_spot_fill on_summary]) (simp add: that)
  have fu: "rel s (?fu\<lparr>rc_summary := m\<rparr>)" if "same_verdict m (rc_summary s)" for m
    by (rule rel_trans [OF on_futures_fill on_summary]) (simp add: that)
  have ev: "rel s (?fu\<lparr>rc_db := fst ?ev, rc_summary := m\<rparr>)" if "same_verdict m (rc_summary s)" for m
    using rel_trans [OF rel_trans [OF on_futures_fill on_funding] on_summary] that by simp
  show ?thesis
    using sp fu ev by (simp add: JObj execution_def Let_def rel_refl case_prod_beta)
qed (simp_all add: execution_def rel_refl)

lemma rel_plain_item:
  "(\<And>x s. rel s (fst (f x s))) \<Longrightarrow> rel s (fst (each_item f v s))"
  by (cases "json_items v") (auto simp: each_item_def rel_refl intro: rel_each)

lemma rel_symbol: "rel s (fst (symbol_executions cfg env run_id symbol s))"
proof -
  have items: "rel t (fst (each_item (execution cfg env symbol) v t))" for v t
    by (rule rel_plain_item) (rule rel_execution)
  have snap: "rel s (fst (each_item (execution cfg env symbol) v (snapshot cfg env run_id k s)))" for v k
    using rel_trans [OF on_snapshot items] .
  show ?thesis
    by (simp add: symbol_executions_def rel_refl Let_def items snap split: option.split sum.split bool.split)
qed

lemma rel_fills: "rel s (fst (reconcile_fills cfg env run_id s))"
  unfolding reconcile_fills_def by (rule rel_each) (rule rel_symbol)

end

context recon_steps
begin

lemma rel_exchange_position:
  assumes "\<And>d. x = JObj d \<Longrightarrow> is_position env d \<Longrightarrow> position_id_of env d \<in> exchange_keys env"
  shows "rel (fst st) (fst (fst (exchange_position cfg env run_id local x st)))"
proof (cases x)
  case (JObj d)
  obtain s keys where st: "st = (s, keys)" by (cases st)
  show ?thesis
  proof (cases "is_position env d")
    case False
    then show ?thesis by (simp add: JObj st exchange_position_def Let_def rel_refl)
  next
    case True
    let ?key = "position_id_of env d"
    let ?orphaned = "dict_get local ?key = None"
    let ?s = "on_summary (\<lambda>m. m\<lparr>sm_positions := sm_positions m + 1\<rparr>) s"
    note key = assms [OF JObj True]
    have s: "rel s ?s" by (rule on_summary) simp
    show ?thesis
    proof (cases "upsert_futures_position (re_now env) (exchange_position_row cfg env ?key ?orphaned d) (rc_db ?s)")
      case (Inl e)
      with True s show ?thesis by (simp add: JObj st exchange_position_def Let_def)
    next
      case (Inr db)
      note pos = Inr
      let ?p = "?s\<lparr>rc_db := db\<rparr>"
      have p: "rel s ?p" using rel_trans [OF s on_position [OF key Inr]] .
      show ?thesis
      proof (cases "upsert_futures_protection (re_uuid env) (re_now env) (exchange_protection_row cfg ?key d) (rc_db ?p)")
        case (Inl e)
        with True p pos show ?thesis by (simp add: JObj st exchange_position_def Let_def)
      next
        case (Inr db')
        let ?q = "?p\<lparr>rc_db := db'\<rparr>"
        let ?l = "?q\<lparr>rc_db := insert_futures_liquidation_risk_snapshot (re_now env) (exchange_liquidation_row cfg ?key d) (rc_db ?q)\<rparr>"
        let ?m = "on_summary (\<lambda>m. m\<lparr>sm_liquidation := sm_liquidation m + 1\<rparr>) ?l"
        let ?o = "if \<not> ?orphaned then ?m else on_summary (\<lambda>m. m\<lparr>sm_positions_orphaned := sm_positions_orphaned m + 1\<rparr>)
          (report env run_id ''orphaned_exchange_position'' ''futures'' ''error'' (Some (fst ?key)) ''imported_orphaned_position'' ?m)"
        let ?u = "if exchange_status d = ''unprotected''
          then report env run_id ''unprotected_position'' ''futures'' ''critical'' (Some (fst ?key)) ''protection_failure'' ?o else ?o"
        have q: "rel s ?q" using rel_trans [OF p on_protection [OF Inr]] .
        have m: "rel s ?m" by (rule rel_trans [OF rel_trans [OF q on_liquidation] on_summary]) simp
        have o: "rel s ?o" using m rel_trans [OF rel_trans [OF m on_conflict] on_summary] by simp
        have u: "rel s ?u" using o rel_trans [OF o on_conflict] by simp
        have "exchange_position cfg env run_id local x st = ((?u, List.insert ?key keys), None)"
          using True pos Inr by (simp add: JObj st exchange_position_def Let_def)
        with u show ?thesis by (simp add: st)
      qed
    qed
  qed
qed (simp_all add: exchange_position_def rel_refl)


lemma listed_position:
  assumes "xa_positions (re_answers env) = Some resp" "listed resp = Inr v" "json_items v = Inr items"
    and "JObj d \<in> set items" "is_position env d"
  shows "position_id_of env d \<in> exchange_keys env"
proof -
  from assms have "d \<in> set (listed_positions env)"
    by (force simp: listed_positions_def List.map_filter_def)
  then show ?thesis by (simp add: exchange_keys_def)
qed

lemma rel_positions: "rel s (fst (reconcile_positions cfg env run_id s))"
proof (cases "xa_positions (re_answers env)")
  case None
  then show ?thesis by (simp add: reconcile_positions_def rel_refl)
next
  case (Some resp)
  note positions = Some
  show ?thesis
  proof (cases "answer_ok resp")
    case (Inl e)
    with positions show ?thesis by (simp add: reconcile_positions_def rel_refl)
  next
    case (Inr b)
    show ?thesis
    proof (cases b)
      case False
      with positions Inr show ?thesis by (simp add: reconcile_positions_def rel_refl)
    next
      case True
      note yes = positions Inr True
      let ?c = "on_summary (\<lambda>m. m\<lparr>sm_positions_checked := True\<rparr>) s"
      show ?thesis
      proof (cases "listed resp")
        case (Inl e)
        with yes on_checked show ?thesis by (simp add: reconcile_positions_def)
      next
        case (Inr v)
        let ?s = "snapshot cfg env run_id ''futures_positions'' ?c"
        let ?local = "local_positions cfg (rc_db ?s)"
        let ?r = "each_item (exchange_position cfg env run_id ?local) v (?s, [])"
        have s: "rel s ?s" using rel_trans [OF on_checked on_snapshot] .
        obtain t keys oe where r: "?r = ((t, keys), oe)" by (metis prod.exhaust)
        have step: "rel (fst st) (fst (fst (exchange_position cfg env run_id ?local x st)))"
          if "x \<in> (case json_items v of Inl e \<Rightarrow> {} | Inr xs \<Rightarrow> set xs)" for x st
        proof (rule rel_exchange_position)
          fix d
          assume "x = JObj d" "is_position env d"
          with that listed_position [OF positions Inr] show "position_id_of env d \<in> exchange_keys env"
            by (auto split: sum.splits)
        qed
        have "rel (fst (?s, [] :: position_id list)) (fst (fst ?r))" by (rule rel_item) (rule step)
        then have t: "rel ?s t" using r by simp
        have missing: "rel t (missing_position env run_id keys kr t)" for kr t
          using on_conflict by (simp add: missing_position_def rel_refl)
        have loop: "rel t (fold (missing_position env run_id keys) rows t)" for rows
          by (rule rel_fold) (rule missing)
        show ?thesis
        proof (cases oe)
          case None
          with yes Inr r have "reconcile_positions cfg env run_id s = (fold (missing_position env run_id keys) ?local t, None)"
            by (simp add: reconcile_positions_def Let_def)
          with rel_trans [OF rel_trans [OF s t] loop] show ?thesis by simp
        next
          case (Some e)
          with yes Inr r have "reconcile_positions cfg env run_id s = (t, Some e)"
            by (simp add: reconcile_positions_def Let_def)
          with rel_trans [OF s t] show ?thesis by simp
        qed
      qed
    qed
  qed
qed

lemma rel_comparisons: "rel s (fst (comparisons cfg env run_id s))"
  unfolding comparisons_def
  by (intro rel_and_then rel_wallet rel_open_orders rel_fills) (simp add: rel_positions rel_refl)

end

end
