(* ===== verification/Reconciliation_Issues.thy ===== *)
theory Reconciliation_Issues
  imports Reconciliation_Runs
begin

text \<open>
  The table of issues over whole runs: reports only add active conflicts and lock what they add, and the
  last step of a run resolves the conflicts of the compared kinds that were not met again.
\<close>

section \<open>What the statements do to the tables\<close>

definition same_issues :: "domain_db \<Rightarrow> domain_db \<Rightarrow> bool" where
  "same_issues db db' \<longleftrightarrow> cs_issues db' = cs_issues db \<and> cs_drawn db \<le> cs_drawn db'"

named_theorems issue_frame \<open>statements that leave the issues alone\<close>

lemma statement_issues [issue_frame]:
  "same_issues db (insert_event_audit uuid now event area about ref db)"
  "same_issues db (insert_account_snapshot uuid now account kind run_id db)"
  "same_issues db (upsert_spot_balance now account asset free locked source db)"
  "same_issues db (insert_spot_fill now fill db)"
  "same_issues db (insert_futures_fill now fill db)"
  "same_issues db (fst (insert_futures_funding_event now ev db))"
  "same_issues db (insert_futures_liquidation_risk_snapshot now lrow db)"
  "same_issues db (mark_missing cfg link db)"
  by (simp_all add: same_issues_def insert_event_audit_def insert_account_snapshot_def upsert_spot_balance_def
      insert_spot_fill_def insert_futures_fill_def insert_futures_funding_event_def Let_def
      insert_futures_liquidation_risk_snapshot_def mark_missing_def)

lemma upsert_issues [issue_frame]:
  "upsert_spot_holding now h db = Inr db' \<Longrightarrow> same_issues db db'"
  "upsert_futures_position now p db = Inr db' \<Longrightarrow> same_issues db db'"
  "upsert_futures_protection uuid now q db = Inr db' \<Longrightarrow> same_issues db db'"
  "upsert_spot_order uuid now lnk so db = Inr db' \<Longrightarrow> same_issues db db'"
  "upsert_futures_open_order uuid now lnk fo db = Inr db' \<Longrightarrow> same_issues db db'"
  by (auto simp: same_issues_def upsert_spot_holding_def upsert_futures_position_def upsert_futures_protection_def
      upsert_spot_order_def upsert_futures_open_order_def Let_def split: sum.splits if_splits)

lemma store_order_issues [issue_frame]: "store_order cfg env symbol link order_id d db = Inr db' \<Longrightarrow> same_issues db db'"
  unfolding store_order_def by (auto split: if_splits intro: upsert_issues)

section \<open>Issues and locks\<close>

definition grows :: "uuids \<Rightarrow> recon_state \<Rightarrow> recon_state \<Rightarrow> bool" where
  "grows uuid s s' \<longleftrightarrow> (inj uuid \<longrightarrow> issues_ok uuid (rc_db s) \<longrightarrow>
     issues_ok uuid (rc_db s') \<and> active_keys (rc_db s) \<subseteq> active_keys (rc_db s') \<and> set (rc_locks s) \<subseteq> set (rc_locks s')
     \<and> set (rc_locks s') - set (rc_locks s) \<subseteq> active_keys (rc_db s') \<inter> Collect lockable
     \<and> active_keys (rc_db s') \<inter> Collect lockable \<subseteq> active_keys (rc_db s) \<union> set (rc_locks s'))"

lemma same_issues_facts:
  assumes "same_issues db db'"
  shows "active_keys db' = active_keys db" and "issues_ok uuid db \<Longrightarrow> issues_ok uuid db'"
  using assms by (simp_all add: same_issues_def active_keys_def issues_ok_later)

lemma grows_same: "same_issues (rc_db s) (rc_db s') \<Longrightarrow> rc_locks s' = rc_locks s \<Longrightarrow> grows uuid s s'"
proof -
  assume "same_issues (rc_db s) (rc_db s')" and locks: "rc_locks s' = rc_locks s"
  note facts = same_issues_facts [OF this(1)]
  from facts locks show "grows uuid s s'" by (auto simp: grows_def)
qed

lemma same_refl [issue_frame]: "same_issues db db"
  by (simp add: same_issues_def)

lemma grows_by_key:
  assumes "inj uuid \<Longrightarrow> issues_ok uuid (rc_db s) \<Longrightarrow> issues_ok uuid (rc_db s')
      \<and> active_keys (rc_db s') = insert key (active_keys (rc_db s))
      \<and> set (rc_locks s') = (if lockable key then insert key (set (rc_locks s)) else set (rc_locks s))"
  shows "grows uuid s s'"
  unfolding grows_def
proof (intro impI)
  assume "inj uuid" "issues_ok uuid (rc_db s)"
  from assms [OF this] have ok: "issues_ok uuid (rc_db s')" and keys: "active_keys (rc_db s') = insert key (active_keys (rc_db s))"
    and locks: "set (rc_locks s') = (if lockable key then insert key (set (rc_locks s)) else set (rc_locks s))" by blast+
  from ok show "issues_ok uuid (rc_db s') \<and> active_keys (rc_db s) \<subseteq> active_keys (rc_db s') \<and> set (rc_locks s) \<subseteq> set (rc_locks s')
     \<and> set (rc_locks s') - set (rc_locks s) \<subseteq> active_keys (rc_db s') \<inter> Collect lockable
     \<and> active_keys (rc_db s') \<inter> Collect lockable \<subseteq> active_keys (rc_db s) \<union> set (rc_locks s')"
    unfolding keys locks by (cases "lockable key") auto
qed

lemma report_effect:
  fixes env run_id kind area sv about event s
  defines "s' \<equiv> report env run_id kind area sv about event s" and "key \<equiv> issue_key_for kind area (or_empty about)"
  assumes "inj (re_uuid env)" "issues_ok (re_uuid env) (rc_db s)"
  shows "issues_ok (re_uuid env) (rc_db s') \<and> active_keys (rc_db s') = insert key (active_keys (rc_db s))
    \<and> set (rc_locks s') = (if lockable key then insert key (set (rc_locks s)) else set (rc_locks s))"
proof -
  define s1 where "s1 = fst (issue_once env run_id kind area sv (or_empty about) s)"
  have s1: "issues_ok (re_uuid env) (rc_db s1)" "active_keys (rc_db s1) = insert key (active_keys (rc_db s))"
    "set (rc_locks s1) = (if lockable key then insert key (set (rc_locks s)) else set (rc_locks s))"
    unfolding s1_def key_def using issue_once_effect [OF assms(3,4)] by blast+
  have "same_issues (rc_db s1) (rc_db s')" "rc_locks s' = rc_locks s1"
    by (simp_all add: s'_def s1_def report_def Let_def case_prod_beta same_issues_def insert_event_audit_def)
  then show ?thesis using s1 same_issues_facts [of "rc_db s1" "rc_db s'"] by simp
qed

lemma grows_report: "grows (re_uuid env) s (report env run_id kind area sv about event s)"
  by (rule grows_by_key) (rule report_effect)

interpretation growth: keeps "grows uuid"
proof
  show "grows uuid s s" for s by (auto simp: grows_def)
  show "grows uuid a b \<Longrightarrow> grows uuid b c \<Longrightarrow> grows uuid a c" for a b c
    unfolding grows_def by blast
qed

interpretation locks: recon_steps "grows (re_uuid env)" cfg env
proof unfold_locales
  fix s0 s r db symbol
  assume s: "grows (re_uuid env) s0 s"
    and "upsert_spot_holding (re_now env) ((stale_holding r symbol (str_upper (hr_asset r)))\<lparr>hr_account := rs_account cfg\<rparr>) (rc_db s) = Inr db"
  then have "grows (re_uuid env) s (s\<lparr>rc_db := db\<rparr>)" by (intro grows_same) (auto intro: issue_frame)
  with s show "grows (re_uuid env) s0 (s\<lparr>rc_db := db\<rparr>)" by (rule growth.rel_trans)
qed (simp_all add: snapshot_def grows_report grows_same issue_frame)

section \<open>Releasing\<close>

definition mark_resolved :: "int \<Rightarrow> string set \<Rightarrow> recon_issue \<Rightarrow> recon_issue" where
  "mark_resolved now ids r = (if ri_id r \<in> ids \<and> issue_active r then r\<lparr>ri_status := ''resolved'', ri_resolved := Some now\<rparr> else r)"

lemma mark_fields [simp]:
  "ri_id (mark_resolved now ids r) = ri_id r" "raw_key (mark_resolved now ids r) = raw_key r"
  "issue_key_of (mark_resolved now ids r) = issue_key_of r"
  "issue_active (mark_resolved now ids r) \<longleftrightarrow> issue_active r \<and> ri_id r \<notin> ids"
  by (auto simp: mark_resolved_def raw_key_def issue_key_of_def issue_active_def str_lower_def lower_char_def)

lemma mark_mark: "mark_resolved now ids (mark_resolved now ids' r) = mark_resolved now (ids' \<union> ids) r"
  by (auto simp: mark_resolved_def issue_active_def str_lower_def lower_char_def)

definition released_ids :: "issue_key set \<Rightarrow> recon_issue list \<Rightarrow> string set" where
  "released_ids kept rows = ri_id ` {r \<in> set rows. issue_key_of r \<notin> kept}"

lemma resolve_stale_effect:
  fixes env r st
  defines "st' \<equiv> resolve_stale env r st"
  shows "cs_issues (rc_db (fst st')) = map (mark_resolved (re_now env) (released_ids (set (rc_locks (fst st))) [r])) (cs_issues (rc_db (fst st)))
    \<and> rc_locks (fst st') = rc_locks (fst st) \<and> cs_drawn (rc_db (fst st)) \<le> cs_drawn (rc_db (fst st'))"
proof -
  obtain s u where st: "st = (s, u)" by (cases st)
  obtain k a n where key: "issue_key_of r = (k, a, n)" by (metis prod.exhaust)
  have none: "map (mark_resolved now {}) xs = xs" for now xs by (simp add: mark_resolved_def map_idI)
  show ?thesis
  proof (cases "(k, a, n) \<in> set (rc_locks s)")
    case True
    then have "released_ids (set (rc_locks s)) [r] = {}" by (simp add: released_ids_def key)
    with True show ?thesis by (simp add: st'_def st resolve_stale_def key none)
  next
    case False
    then have ids: "released_ids (set (rc_locks s)) [r] = {ri_id r}" by (auto simp: released_ids_def key)
    have "map (mark_resolved (re_now env) {ri_id r}) (cs_issues (rc_db s)) = cs_issues (fst (resolve_reconciliation_issue (re_now env) (ri_id r) (rc_db s)))"
      by (simp add: resolve_reconciliation_issue_def mark_resolved_def)
    with False show ?thesis
      by (simp add: st'_def st resolve_stale_def key ids insert_event_audit_def case_prod_beta)
  qed
qed

lemma resolve_fold_effect:
  fixes env rows st
  defines "st' \<equiv> fold (resolve_stale env) rows st"
  shows "cs_issues (rc_db (fst st')) = map (mark_resolved (re_now env) (released_ids (set (rc_locks (fst st))) rows)) (cs_issues (rc_db (fst st)))
    \<and> rc_locks (fst st') = rc_locks (fst st) \<and> cs_drawn (rc_db (fst st)) \<le> cs_drawn (rc_db (fst st'))"
  unfolding st'_def
proof (induction rows arbitrary: st)
  case Nil
  then show ?case by (simp add: released_ids_def mark_resolved_def map_idI)
next
  case (Cons r rows)
  note one = resolve_stale_effect [of env r st]
  have ids: "released_ids K (r # rows) = released_ids K [r] \<union> released_ids K rows" for K
    by (auto simp: released_ids_def)
  from Cons.IH [of "resolve_stale env r st"] one show ?case
    by (simp add: ids mark_mark comp_def)
qed

lemma marked_ok:
  assumes "issues_ok uuid db" "cs_issues db' = map (mark_resolved now ids) (cs_issues db)" "cs_drawn db \<le> cs_drawn db'"
  shows "issues_ok uuid db'"
proof -
  have ids: "map ri_id (cs_issues db') = map ri_id (cs_issues db)" by (simp add: assms(2))
  have "filter issue_active (cs_issues db') = map (mark_resolved now ids) (filter (\<lambda>r. issue_active r \<and> ri_id r \<notin> ids) (cs_issues db))"
    by (simp add: assms(2) filter_map comp_def)
  then have keys: "map raw_key (filter issue_active (cs_issues db')) = map raw_key (filter (\<lambda>r. ri_id r \<notin> ids) (filter issue_active (cs_issues db)))"
    by (simp add: comp_def conj_commute)
  from assms(1) have "distinct (map raw_key (filter issue_active (cs_issues db)))" by (simp add: issues_ok_def)
  then have "distinct (map raw_key (filter issue_active (cs_issues db')))" unfolding keys by (rule distinct_map_filter)
  moreover from assms(1,3) have "drawn_issues uuid db'"
    unfolding issues_ok_def drawn_issues_def ids by (meson order_less_le_trans)
  ultimately show ?thesis using assms(1,2) by (simp add: issues_ok_def)
qed

lemma released_active:
  assumes ok: "issues_ok uuid db" and r: "r \<in> set (cs_issues db)"
    and rows: "rows = filter (\<lambda>r. issue_active r \<and> P r) (cs_issues db)"
  shows "issue_active r \<and> ri_id r \<notin> released_ids K rows \<longleftrightarrow> issue_active r \<and> (\<not> P r \<or> raw_key r \<in> K)"
proof -
  have inj: "inj_on ri_id (set (cs_issues db))" and norm: "issue_key_of x = raw_key x" if "x \<in> set (cs_issues db)" for x
    using ok that by (simp_all add: issues_ok_def drawn_issues_def distinct_map)
  show ?thesis
  proof -
    have "ri_id r \<in> released_ids K rows \<longleftrightarrow> issue_active r \<and> P r \<and> raw_key r \<notin> K"
      using r norm inj_onD [OF inj [OF r]] by (fastforce simp: released_ids_def rows)
    then show ?thesis by blast
  qed
qed

lemma resolve_effect:
  fixes cfg env s
  defines "s' \<equiv> resolve_stale_entry_lock_issues cfg env s"
  assumes ok: "issues_ok uuid (rc_db s)"
  shows "issues_ok uuid (rc_db s')
    \<and> active_keys (rc_db s') = {k \<in> active_keys (rc_db s). (fst k, fst (snd k)) \<notin> set (eligible_pairs cfg (rc_summary s)) \<or> k \<in> set (rc_locks s)}"
proof (cases "eligible_pairs cfg (rc_summary s) = []")
  case True
  then show ?thesis using ok by (simp add: s'_def resolve_stale_entry_lock_issues_def)
next
  case False
  let ?pairs = "set (eligible_pairs cfg (rc_summary s))"
  let ?rows = "filter (\<lambda>r. issue_active r \<and> (ri_type r, ri_domain r) \<in> ?pairs) (cs_issues (rc_db s))"
  note eff = resolve_fold_effect [of env ?rows "(s, [])"]
  have db: "rc_db s' = rc_db (fst (fold (resolve_stale env) ?rows (s, [])))"
    using False by (simp add: s'_def resolve_stale_entry_lock_issues_def Let_def case_prod_beta)
  let ?ids = "released_ids (set (rc_locks s)) ?rows"
  have issues: "cs_issues (rc_db s') = map (mark_resolved (re_now env) ?ids) (cs_issues (rc_db s))"
    and drawn: "cs_drawn (rc_db s) \<le> cs_drawn (rc_db s')"
    using eff unfolding db by simp_all
  have "active_keys (rc_db s') = raw_key ` {r \<in> set (cs_issues (rc_db s)). issue_active r \<and> ri_id r \<notin> ?ids}"
    unfolding active_keys_def issues by (force simp: image_iff)
  also have "\<dots> = raw_key ` {r \<in> set (cs_issues (rc_db s)). issue_active r \<and> ((ri_type r, ri_domain r) \<notin> ?pairs \<or> raw_key r \<in> set (rc_locks s))}"
    using released_active [OF ok _ refl, of _ "set (rc_locks s)" "\<lambda>r. (ri_type r, ri_domain r) \<in> ?pairs"]
    by (intro arg_cong [of _ _ "image raw_key"]) blast
  also have "\<dots> = {k \<in> active_keys (rc_db s). (fst k, fst (snd k)) \<notin> ?pairs \<or> k \<in> set (rc_locks s)}"
    by (auto simp: active_keys_def raw_key_def image_iff)
  finally show ?thesis using marked_ok [OF ok issues drawn] by blast
qed

section \<open>Whole runs\<close>

lemma begin_effect:
  "same_issues db (rc_db (fst (begin_run env trigger db)))" "rc_locks (fst (begin_run env trigger db)) = []"
  "rc_summary (fst (begin_run env trigger db)) = new_summary"
  by (simp_all add: begin_run_def Let_def case_prod_beta same_issues_def start_reconciliation_run_def insert_event_audit_def)

lemma close_effect: "same_issues db (close_run env run_id status event db)"
  by (simp add: close_run_def same_issues_def insert_event_audit_def finish_reconciliation_run_def)

lemma run_state:
  fixes cfg env trigger db
  defines "s0 \<equiv> fst (begin_run env trigger db)" and "run_id \<equiv> snd (begin_run env trigger db)"
  defines "r \<equiv> comparisons cfg env run_id s0"
  shows "same_issues (if snd r = None then rc_db (resolve_stale_entry_lock_issues cfg env (fst r)) else rc_db (fst r))
      (fst (reconcile cfg env trigger db))"
    and "sm_failed (snd (reconcile cfg env trigger db)) = False \<Longrightarrow> snd r = None"
  by (cases "begin_run env trigger db"; cases "comparisons cfg env run_id s0"; cases "snd r";
      simp add: assms reconcile_def run_steps_def close_effect)+

lemma run_issues:
  fixes cfg env trigger db
  assumes inj: "inj (re_uuid env)" and ok: "issues_ok (re_uuid env) db"
  defines "r \<equiv> comparisons cfg env (snd (begin_run env trigger db)) (fst (begin_run env trigger db))"
  shows "issues_ok (re_uuid env) (fst (reconcile cfg env trigger db))"
    and "issues_ok (re_uuid env) (rc_db (fst r))"
    and "set (rc_locks (fst r)) \<subseteq> active_keys (rc_db (fst r)) \<inter> Collect lockable"
    and "snd r = None \<Longrightarrow> active_keys (fst (reconcile cfg env trigger db)) =
      {k \<in> active_keys (rc_db (fst r)). (fst k, fst (snd k)) \<notin> set (eligible_pairs cfg (rc_summary (fst r))) \<or> k \<in> set (rc_locks (fst r))}"
proof -
  let ?s = "fst (begin_run env trigger db)"
  have start: "issues_ok (re_uuid env) (rc_db ?s)"
    by (rule same_issues_facts(2) [OF begin_effect(1) ok])
  have "grows (re_uuid env) ?s (fst r)" unfolding r_def by (rule locks.rel_comparisons)
  then show mid: "issues_ok (re_uuid env) (rc_db (fst r))"
    and "set (rc_locks (fst r)) \<subseteq> active_keys (rc_db (fst r)) \<inter> Collect lockable"
    using inj start begin_effect(2) [of env trigger db] by (simp_all add: grows_def)
  note released = resolve_effect [OF mid, of cfg env]
  note last_step = run_state(1) [of cfg env trigger db, folded r_def]
  show "issues_ok (re_uuid env) (fst (reconcile cfg env trigger db))"
    using same_issues_facts(2) [OF last_step] released mid by (simp split: if_splits)
  assume "snd r = None"
  then show "active_keys (fst (reconcile cfg env trigger db)) =
      {k \<in> active_keys (rc_db (fst r)). (fst k, fst (snd k)) \<notin> set (eligible_pairs cfg (rc_summary (fst r))) \<or> k \<in> set (rc_locks (fst r))}"
    using same_issues_facts(1) [OF last_step] released by simp
qed

end
