(* ===== verification/Reconciliation_Locks.thy ===== *)
theory Reconciliation_Locks
  imports Reconciliation_Issues
begin

text \<open>
  The entry locks a run leaves: the locks of position conflicts are exactly the differences between the
  positions of the exchange and those of the table, only a comparison releases them, and the lock of a
  position that was closed on the exchange is never released.
\<close>

section \<open>Position conflicts\<close>

abbreviation conflict :: "string \<Rightarrow> position_id \<Rightarrow> issue_key" where
  "conflict kind key \<equiv> issue_key_for kind ''futures'' (fst key)"

abbreviation ORPHANED :: string where "ORPHANED \<equiv> ''orphaned_exchange_position''"
abbreviation MISSING :: string where "MISSING \<equiv> ''local_position_missing_on_exchange''"

definition locks_of :: "issue_key set \<Rightarrow> issue_key set" where
  "locks_of K = {k \<in> K. fst k \<in> {ORPHANED, MISSING}}"

definition local_ids :: "recon_config \<Rightarrow> domain_db \<Rightarrow> position_id set" where
  "local_ids cfg db = fst ` set (local_positions cfg db)"

lemma report_locks:
  "set (rc_locks (report env run_id kind area sv about event s)) =
     set (rc_locks s) \<union> ({issue_key_for kind area (or_empty about)} \<inter> Collect lockable)"
  by (auto simp: report_def issue_once_def Let_def case_prod_beta lockable_def issue_key_for_def)

lemma report_frame [simp]:
  "sm_positions_checked (rc_summary (report env run_id kind area sv about event s)) = sm_positions_checked (rc_summary s)"
  "fu_positions (rc_db (report env run_id kind area sv about event s)) = fu_positions (rc_db s)"
  by (simp_all add: report_def issue_once_def Let_def case_prod_beta insert_event_audit_def insert_reconciliation_issue_def)

definition no_positions :: "recon_state \<Rightarrow> recon_state \<Rightarrow> bool" where
  "no_positions s s' \<longleftrightarrow> locks_of (set (rc_locks s')) = locks_of (set (rc_locks s))
     \<and> sm_positions_checked (rc_summary s') = sm_positions_checked (rc_summary s) \<and> fu_positions (rc_db s') = fu_positions (rc_db s)"

lemma strip_kinds:
  "str_strip ORPHANED = ORPHANED" "str_strip MISSING = MISSING" "str_strip ''futures'' = ''futures''"
  "kind \<in> table_conflicts \<Longrightarrow> str_strip kind = kind" "str_strip ''unprotected_position'' = ''unprotected_position''"
  by (auto simp: str_strip_def py_space_def)

lemma conflict_key: "kind \<in> {ORPHANED, MISSING} \<Longrightarrow> conflict kind key = (kind, ''futures'', str_strip (str_upper (fst key)))"
  by (auto simp: issue_key_for_def strip_kinds)

lemma no_positions_same:
  "rc_locks s' = rc_locks s \<Longrightarrow> rc_summary s' = rc_summary s \<Longrightarrow> fu_positions (rc_db s') = fu_positions (rc_db s) \<Longrightarrow> no_positions s s'"
  by (simp add: no_positions_def)

lemma no_positions_report:
  assumes "kind \<in> table_conflicts"
  shows "no_positions s (report env run_id kind area sv about event s)"
proof -
  have "kind \<notin> {ORPHANED, MISSING}" using assms by auto
  then show ?thesis
    using strip_kinds(4) [OF assms] by (auto simp: no_positions_def report_locks locks_of_def issue_key_for_def)
qed

lemma tables_positions:
  "upsert_spot_holding now h db = Inr db' \<Longrightarrow> fu_positions db' = fu_positions db"
  "upsert_spot_order uuid now lnk so db = Inr db' \<Longrightarrow> fu_positions db' = fu_positions db"
  "upsert_futures_open_order uuid now lnk fo db = Inr db' \<Longrightarrow> fu_positions db' = fu_positions db"
  "upsert_futures_protection uuid now q db = Inr db' \<Longrightarrow> fu_positions db' = fu_positions db"
  by (auto simp: upsert_spot_holding_def upsert_spot_order_def upsert_futures_open_order_def upsert_futures_protection_def
      Let_def split: sum.splits if_splits)

lemma tables_positions' [simp]:
  "fu_positions (insert_account_snapshot uuid now account kind run_id db) = fu_positions db"
  "fu_positions (upsert_spot_balance now account asset free locked source db) = fu_positions db"
  "fu_positions (insert_spot_fill now fill db) = fu_positions db"
  "fu_positions (insert_futures_fill now fill db) = fu_positions db"
  "fu_positions (fst (insert_futures_funding_event now ev db)) = fu_positions db"
  "fu_positions (insert_futures_liquidation_risk_snapshot now lrow db) = fu_positions db"
  "fu_positions (mark_missing cfg link db) = fu_positions db"
  by (simp_all add: insert_account_snapshot_def upsert_spot_balance_def insert_spot_fill_def insert_futures_fill_def
      insert_futures_funding_event_def insert_futures_liquidation_risk_snapshot_def mark_missing_def Let_def)

lemma store_order_positions: "store_order cfg env symbol link order_id d db = Inr db' \<Longrightarrow> fu_positions db' = fu_positions db"
  unfolding store_order_def by (auto split: if_splits intro: tables_positions)

interpretation position_frame: keeps no_positions
  by unfold_locales (simp_all add: no_positions_def)

interpretation before_positions: recon_tables no_positions cfg env
proof unfold_locales
  fix s0 s r db symbol
  assume "no_positions s0 s" and "upsert_spot_holding (re_now env) ((stale_holding r symbol (str_upper (hr_asset r)))\<lparr>hr_account := rs_account cfg\<rparr>) (rc_db s) = Inr db"
  then show "no_positions s0 (s\<lparr>rc_db := db\<rparr>)" by (auto simp: no_positions_def dest: tables_positions)
next
  fix m :: recon_summary and s :: recon_state
  assume "same_verdict m (rc_summary s)"
  then show "no_positions s (s\<lparr>rc_summary := m\<rparr>)" by (simp add: no_positions_def)
qed (auto simp: no_positions_report snapshot_def intro!: no_positions_same intro: tables_positions store_order_positions)

section \<open>The positions of the exchange\<close>

lemma exchange_position_effect:
  assumes "is_position env d" "exchange_position cfg env run_id local (JObj d) (s, keys) = (st, None)"
  shows "snd st = List.insert (position_id_of env d) keys
    \<and> sm_positions_checked (rc_summary (fst st)) = sm_positions_checked (rc_summary s)
    \<and> locks_of (set (rc_locks (fst st))) = locks_of (set (rc_locks s))
        \<union> (if dict_get local (position_id_of env d) = None then {conflict ORPHANED (position_id_of env d)} else {})"
proof -
  let ?key = "position_id_of env d"
  have "fst ?key \<noteq> []" using assms(1) by (simp add: is_position_def)
  then have "str_strip (str_upper (fst ?key)) \<noteq> []"
    by (simp add: position_id_of_def name_of_def str_strip_upper)
  then have lock: "lockable (conflict ORPHANED ?key)" and key: "fst (conflict ORPHANED ?key) = ORPHANED"
    by (simp_all add: lockable_def issue_key_for_def strip_kinds ENTRY_LOCK_ISSUE_TYPES_def)
  have bare: "{issue_key_for ''unprotected_position'' area name} \<inter> Collect lockable = {}" for area name
    by (simp add: lockable_def issue_key_for_def strip_kinds ENTRY_LOCK_ISSUE_TYPES_def)
  let ?orphaned = "dict_get local ?key = None"
  let ?s = "on_summary (\<lambda>m. m\<lparr>sm_positions := sm_positions m + 1\<rparr>) s"
  obtain db where db: "upsert_futures_position (re_now env) (exchange_position_row cfg env ?key ?orphaned d) (rc_db ?s) = Inr db"
    using assms by (cases "upsert_futures_position (re_now env) (exchange_position_row cfg env ?key ?orphaned d) (rc_db ?s)")
      (simp_all add: exchange_position_def Let_def)
  obtain db' where db': "upsert_futures_protection (re_uuid env) (re_now env) (exchange_protection_row cfg ?key d) db = Inr db'"
    using assms db by (cases "upsert_futures_protection (re_uuid env) (re_now env) (exchange_protection_row cfg ?key d) db")
      (simp_all add: exchange_position_def Let_def)
  define m where "m = on_summary (\<lambda>m. m\<lparr>sm_liquidation := sm_liquidation m + 1\<rparr>)
    (?s\<lparr>rc_db := insert_futures_liquidation_risk_snapshot (re_now env) (exchange_liquidation_row cfg ?key d) db'\<rparr>)"
  define w where "w = (if ?orphaned then on_summary (\<lambda>m. m\<lparr>sm_positions_orphaned := sm_positions_orphaned m + 1\<rparr>)
    (report env run_id ORPHANED ''futures'' ''error'' (Some (fst ?key)) ''imported_orphaned_position'' m) else m)"
  define u where "u = (if exchange_status d = ''unprotected''
    then report env run_id ''unprotected_position'' ''futures'' ''critical'' (Some (fst ?key)) ''protection_failure'' w else w)"
  have "exchange_position cfg env run_id local (JObj d) (s, keys) = ((u, List.insert ?key keys), None)"
    using assms(1) unfolding u_def w_def m_def
    by (simp only: exchange_position_def Let_def json.case prod.case sum.case db db' not_True_eq_False if_False)
  with assms(2) have st: "st = (u, List.insert ?key keys)" by simp
  have "set (rc_locks m) = set (rc_locks s)" "sm_positions_checked (rc_summary m) = sm_positions_checked (rc_summary s)"
    by (simp_all add: m_def)
  moreover have "set (rc_locks w) = set (rc_locks m) \<union> (if ?orphaned then {conflict ORPHANED ?key} else {})"
      "sm_positions_checked (rc_summary w) = sm_positions_checked (rc_summary m)"
    using lock by (auto simp: w_def report_locks or_empty_def)
  moreover have "set (rc_locks u) = set (rc_locks w)" "sm_positions_checked (rc_summary u) = sm_positions_checked (rc_summary w)"
    by (auto simp: u_def report_locks bare)
  ultimately show ?thesis using key by (auto simp: st locks_of_def)
qed

lemma exchange_position_skip:
  "\<not> is_position env d \<Longrightarrow> exchange_position cfg env run_id local (JObj d) st = (st, None)"
  by (cases st) (simp add: exchange_position_def Let_def)

lemma exchange_position_object:
  "exchange_position cfg env run_id local x st = (st', None) \<Longrightarrow> \<exists>d. x = JObj d"
  by (cases x) (simp_all add: exchange_position_def)

text \<open>The keys among the decoded entries.\<close>

definition position_ids :: "recon_env \<Rightarrow> json list \<Rightarrow> position_id set" where
  "position_ids env items = position_id_of env ` {d. JObj d \<in> set items \<and> is_position env d}"

lemma exchange_positions_effect:
  assumes "each (exchange_position cfg env run_id local) items (s, keys) = (st, None)"
  shows "set (snd st) = set keys \<union> position_ids env items
    \<and> sm_positions_checked (rc_summary (fst st)) = sm_positions_checked (rc_summary s)
    \<and> locks_of (set (rc_locks (fst st))) = locks_of (set (rc_locks s))
        \<union> conflict ORPHANED ` {k \<in> position_ids env items. dict_get local k = None}"
  using assms
proof (induction items arbitrary: s keys)
  case Nil
  then show ?case by (auto simp: position_ids_def)
next
  case (Cons x items)
  then obtain t where one: "exchange_position cfg env run_id local x (s, keys) = (t, None)"
      and rest: "each (exchange_position cfg env run_id local) items (fst t, snd t) = (st, None)"
    by (auto simp: and_then_None)
  obtain d where x: "x = JObj d" using exchange_position_object [OF one] by blast
  note IH = Cons.IH [OF rest]
  show ?case
  proof (cases "is_position env d")
    case True
    have "position_ids env (x # items) = insert (position_id_of env d) (position_ids env items)"
      using True by (auto simp: position_ids_def x)
    with IH exchange_position_effect [OF True one [unfolded x]] show ?thesis by auto
  next
    case False
    have "position_ids env (x # items) = position_ids env items"
      using False by (auto simp: position_ids_def x)
    with IH one False show ?thesis by (auto simp: x exchange_position_skip)
  qed
qed

lemma missing_positions_effect:
  fixes env run_id keys rows s
  defines "s' \<equiv> fold (missing_position env run_id keys) rows s"
  shows "sm_positions_checked (rc_summary s') = sm_positions_checked (rc_summary s)
    \<and> locks_of (set (rc_locks s')) = locks_of (set (rc_locks s))
        \<union> {k \<in> conflict MISSING ` (fst ` set rows - set keys). lockable k}"
  unfolding s'_def
proof (induction rows arbitrary: s)
  case Nil
  then show ?case by simp
next
  case (Cons kr rows)
  have key: "fst (conflict MISSING k) = MISSING" for k by (simp add: issue_key_for_def strip_kinds)
  have "locks_of (set (rc_locks (missing_position env run_id keys kr s))) = locks_of (set (rc_locks s))
      \<union> (if fst kr \<in> set keys then {} else {conflict MISSING (fst kr)} \<inter> Collect lockable)"
    and "sm_positions_checked (rc_summary (missing_position env run_id keys kr s)) = sm_positions_checked (rc_summary s)"
    by (auto simp: missing_position_def report_locks or_empty_def locks_of_def key)
  with Cons.IH [of "missing_position env run_id keys kr s"] show ?case by auto
qed

lemma listed_objects:
  "d \<in> set (List.map_filter (\<lambda>x. case x of JObj d \<Rightarrow> if P d then Some d else None | _ \<Rightarrow> None) items) \<longleftrightarrow> JObj d \<in> set items \<and> P d"
proof (induction items)
  case (Cons x items)
  then show ?case by (cases x) (auto simp: List.map_filter_simps)
qed (simp add: List.map_filter_simps)

lemma exchange_keys_listed:
  assumes "xa_positions (re_answers env) = Some resp" "listed resp = Inr v" "json_items v = Inr items"
  shows "exchange_keys env = position_ids env items"
  by (auto simp: exchange_keys_def position_ids_def listed_positions_def assms listed_objects)

lemma exchange_keys_positions: "exchange_keys env \<subseteq> position_id_of env ` Collect (is_position env)"
  by (auto simp: exchange_keys_def listed_positions_def listed_objects split: option.splits sum.splits)

lemma exchange_key_lockable:
  assumes "k \<in> exchange_keys env"
  shows "lockable (conflict ORPHANED k)"
proof -
  obtain d where "k = position_id_of env d" "is_position env d" using assms exchange_keys_positions by blast
  then have "str_strip (str_upper (fst k)) \<noteq> []"
    by (simp add: is_position_def position_id_of_def name_of_def str_strip_upper)
  then show ?thesis by (simp add: lockable_def conflict_key ENTRY_LOCK_ISSUE_TYPES_def)
qed

lemma reconcile_positions_effect:
  fixes cfg env run_id s
  defines "r \<equiv> reconcile_positions cfg env run_id s" and "local \<equiv> fst ` set (local_positions cfg (rc_db s))"
  assumes ok: "snd r = None" "xa_positions (re_answers env) = Some resp" "answer_ok resp = Inr True"
  shows "sm_positions_checked (rc_summary (fst r))"
    and "locks_of (set (rc_locks (fst r))) = locks_of (set (rc_locks s)) \<union> conflict ORPHANED ` (exchange_keys env - local)
      \<union> {k \<in> conflict MISSING ` (local - exchange_keys env). lockable k}"
proof -
  let ?s = "snapshot cfg env run_id ''futures_positions'' (on_summary (\<lambda>m. m\<lparr>sm_positions_checked := True\<rparr>) s)"
  let ?local = "local_positions cfg (rc_db ?s)"
  have same: "?local = local_positions cfg (rc_db s)"
    by (simp add: local_positions_def list_futures_positions_def snapshot_def)
  obtain v where v: "listed resp = Inr v"
    using ok by (cases "listed resp") (simp_all add: r_def reconcile_positions_def)
  let ?r = "each_item (exchange_position cfg env run_id ?local) v (?s, [])"
  obtain t keys oe where r: "?r = ((t, keys), oe)" by (metis prod.exhaust)
  have oe: "oe = None"
    using ok v r by (cases oe) (simp_all add: r_def reconcile_positions_def Let_def)
  have fst_r: "fst r = fold (missing_position env run_id keys) ?local t"
    using ok(2,3) v r oe by (simp add: r_def reconcile_positions_def Let_def)
  obtain items where items: "json_items v = Inr items"
    using r oe by (cases "json_items v") (auto simp: each_item_def)
  have "each (exchange_position cfg env run_id ?local) items (?s, []) = ((t, keys), None)"
    using r oe items by (simp add: each_item_def)
  note exchange = exchange_positions_effect [OF this]
  note absent = missing_positions_effect [of env run_id keys ?local t, folded fst_r]
  note E = exchange_keys_listed [OF ok(2) v items]
  show "sm_positions_checked (rc_summary (fst r))"
    using exchange absent by (simp add: snapshot_def)
  have none: "dict_get (local_positions cfg (rc_db s)) k = None \<longleftrightarrow> k \<notin> local" for k
    by (simp add: local_def map_of_eq_None_iff)
  have "{k \<in> position_ids env items. dict_get ?local k = None} = exchange_keys env - local"
    unfolding E same none by blast
  then show "locks_of (set (rc_locks (fst r))) = locks_of (set (rc_locks s)) \<union> conflict ORPHANED ` (exchange_keys env - local)
      \<union> {k \<in> conflict MISSING ` (local - exchange_keys env). lockable k}"
    using exchange absent unfolding E same by (simp add: snapshot_def local_def)
qed

section \<open>What a run leaves\<close>

lemma comparisons_positions:
  fixes cfg env run_id s
  defines "r \<equiv> comparisons cfg env run_id s"
  assumes "linear_market cfg" "snd r = None"
  shows "\<exists>t. no_positions s t \<and> r = reconcile_positions cfg env run_id t"
proof -
  have "keeps no_positions" by (rule position_frame.keeps_axioms)
  obtain a where a: "reconcile_wallet cfg env run_id s = (a, None)"
    using assms by (cases "reconcile_wallet cfg env run_id s"; cases "snd (reconcile_wallet cfg env run_id s)") (simp_all add: comparisons_def)
  obtain b where b: "reconcile_open_orders cfg env run_id a = (b, None)"
    using assms a by (cases "reconcile_open_orders cfg env run_id a"; cases "snd (reconcile_open_orders cfg env run_id a)") (simp_all add: comparisons_def)
  obtain c where c: "reconcile_fills cfg env run_id b = (c, None)"
    using assms a b by (cases "reconcile_fills cfg env run_id b"; cases "snd (reconcile_fills cfg env run_id b)") (simp_all add: comparisons_def)
  have "no_positions s a" "no_positions a b" "no_positions b c"
    using before_positions.rel_wallet [of s cfg env run_id] before_positions.rel_open_orders [of a cfg env run_id]
      before_positions.rel_fills [of b cfg env run_id] by (simp_all add: a b c)
  then have "no_positions s c" using position_frame.rel_trans by blast
  moreover have "r = reconcile_positions cfg env run_id c"
    using assms(2) by (simp add: r_def comparisons_def a b c)
  ultimately show ?thesis by blast
qed

lemma local_ids_frame: "fu_positions db' = fu_positions db \<Longrightarrow> local_ids cfg db' = local_ids cfg db"
  by (simp add: local_ids_def local_positions_def list_futures_positions_def)

lemma begin_positions [simp]: "fu_positions (rc_db (fst (begin_run env trigger db))) = fu_positions db"
  by (simp add: begin_run_def Let_def case_prod_beta start_reconciliation_run_def insert_event_audit_def)

lemma eligible_positions:
  assumes "linear_market cfg" "sm_positions_checked m"
  shows "k \<in> {ORPHANED, MISSING} \<Longrightarrow> (k, ''futures'') \<in> set (eligible_pairs cfg m)"
  using assms by (auto simp: eligible_pairs_def)

lemma locked_conflicts:
  assumes inj: "inj (re_uuid env)" and ok: "issues_ok (re_uuid env) db" and linear: "linear_market cfg"
    and success: "\<not> sm_failed (snd (reconcile cfg env trigger db))"
    and answered: "xa_positions (re_answers env) = Some resp" "answer_ok resp = Inr True"
  shows "{k \<in> active_keys (fst (reconcile cfg env trigger db)). fst k \<in> {ORPHANED, MISSING} \<and> fst (snd k) = ''futures''} =
    conflict ORPHANED ` (exchange_keys env - local_ids cfg db) \<union> {k \<in> conflict MISSING ` (local_ids cfg db - exchange_keys env). lockable k}"
proof -
  let ?s = "fst (begin_run env trigger db)" and ?id = "snd (begin_run env trigger db)"
  define r where "r = comparisons cfg env ?id ?s"
  have "snd r = None" using run_state(2) [of cfg env trigger db] success by (simp add: r_def)
  note run = run_issues(3,4) [OF inj ok, of cfg trigger, folded r_def]
  obtain t where t: "no_positions ?s t" "r = reconcile_positions cfg env ?id t"
    using comparisons_positions [OF linear, of env ?id ?s] \<open>snd r = None\<close> unfolding r_def by blast
  have none: "snd (reconcile_positions cfg env ?id t) = None" using \<open>snd r = None\<close> t(2) by simp
  note pos = reconcile_positions_effect [OF none answered, folded t(2)]
  have local: "fst ` set (local_positions cfg (rc_db t)) = local_ids cfg db"
    using t(1) local_ids_frame [of "rc_db t" db cfg] by (simp add: no_positions_def local_ids_def)
  let ?L = "conflict ORPHANED ` (exchange_keys env - local_ids cfg db) \<union> {k \<in> conflict MISSING ` (local_ids cfg db - exchange_keys env). lockable k}"
  have "locks_of (set (rc_locks t)) = {}" using t(1) by (simp add: no_positions_def begin_effect locks_of_def)
  then have L: "locks_of (set (rc_locks (fst r))) = ?L" using pos(2) unfolding local by simp
  have futures: "fst (snd k) = ''futures''" if "k \<in> ?L" for k
    using that by (auto simp: conflict_key)
  have "{k \<in> active_keys (fst (reconcile cfg env trigger db)). fst k \<in> {ORPHANED, MISSING} \<and> fst (snd k) = ''futures''}
      = {k \<in> active_keys (rc_db (fst r)). fst k \<in> {ORPHANED, MISSING} \<and> fst (snd k) = ''futures'' \<and> k \<in> set (rc_locks (fst r))}"
    unfolding run(2) [OF \<open>snd r = None\<close>] using eligible_positions [OF linear pos(1)] by force
  also have "\<dots> = {k \<in> locks_of (set (rc_locks (fst r))). fst (snd k) = ''futures''}"
    using run(1) by (auto simp: locks_of_def)
  also have "\<dots> = ?L" unfolding L using futures by blast
  finally show ?thesis .
qed

lemma keys_update: "fst ` set (dict_set k v d) = insert k (fst ` set d)"
  by (simp add: dom_update)

lemma local_ids_rows:
  "local_ids cfg db = local_key ` {r \<in> set (fu_positions db). \<bar>fp_qty r\<bar> > 0 \<and> (rs_account cfg = [] \<or> fp_account r = rs_account cfg)}"
proof -
  have keys: "fst ` set (fold (\<lambda>r d. dict_set (local_key r) r d) rows d) = local_key ` set rows \<union> fst ` set d" for rows d
    by (induction rows arbitrary: d) (simp_all add: keys_update)
  show ?thesis
    by (auto simp: local_ids_def local_positions_def keys list_futures_positions_def or_empty_def)
qed

section \<open>Rows of positions the exchange does not report\<close>

definition keeps_row :: "position_row \<Rightarrow> recon_state \<Rightarrow> recon_state \<Rightarrow> bool" where
  "keeps_row r s s' \<longleftrightarrow> r \<in> set (fu_positions (rc_db s)) \<longrightarrow> r \<in> set (fu_positions (rc_db s'))"

interpretation row_frame: keeps "keeps_row r"
  by unfold_locales (auto simp: keeps_row_def)

lemma keeps_row_same: "fu_positions (rc_db s') = fu_positions (rc_db s) \<Longrightarrow> keeps_row r s s'"
  by (simp add: keeps_row_def)

lemma keeps_row_position:
  assumes "key \<in> exchange_keys env" "(fp_symbol r, fp_side r, fp_idx r) \<notin> exchange_keys env"
    and "upsert_futures_position now (exchange_position_row cfg env key orphan d) (rc_db s) = Inr db"
  shows "keeps_row r s (s\<lparr>rc_db := db\<rparr>)"
proof -
  obtain e where "key = position_id_of env e" using assms(1) exchange_keys_positions by blast
  then have upper: "str_upper (fst key) = fst key" by (simp add: position_id_of_def name_of_def str_strip_upper)
  obtain y x i where key: "key = (y, x, i)" by (cases key)
  let ?new = "\<lambda>p. (exchange_position_row cfg env key orphan d)\<lparr>fp_symbol := str_upper y, fp_protection := p, fp_created := now, fp_updated := now\<rparr>"
  have new: "position_key r \<noteq> position_key (?new p)" for p
    using assms(1,2) upper by (auto simp: position_key_def exchange_position_row_def key)
  show ?thesis
    using assms(3) positions.upsert_others [OF _ new]
    by (auto simp: upsert_futures_position_def keeps_row_def key exchange_position_row_def split: sum.splits)
qed

lemma rows_kept:
  assumes "(fp_symbol r, fp_side r, fp_idx r) \<notin> exchange_keys env"
  shows "recon_steps (keeps_row r) cfg env"
proof unfold_locales
  fix s0 s q db symbol
  assume "keeps_row r s0 s" and "upsert_spot_holding (re_now env) ((stale_holding q symbol (str_upper (hr_asset q)))\<lparr>hr_account := rs_account cfg\<rparr>) (rc_db s) = Inr db"
  then show "keeps_row r s0 (s\<lparr>rc_db := db\<rparr>)" by (auto simp: keeps_row_def dest: tables_positions)
qed (auto simp: snapshot_def keeps_row_position [OF _ assms] intro!: keeps_row_same intro: tables_positions store_order_positions)

section \<open>Sequences of runs\<close>

definition reconcile_all :: "recon_config \<Rightarrow> (recon_env \<times> string) list \<Rightarrow> domain_db \<Rightarrow> domain_db" where
  "reconcile_all cfg runs db = fold (\<lambda>(env, trigger) db. fst (reconcile cfg env trigger db)) runs db"

lemma reconcile_all_Cons [simp]:
  "reconcile_all cfg [] db = db"
  "reconcile_all cfg (x # runs) db = reconcile_all cfg runs (fst (reconcile cfg (fst x) (snd x) db))"
  by (simp_all add: reconcile_all_def case_prod_beta)

lemma all_issues_ok:
  assumes "inj uuid" "\<forall>x \<in> set runs. re_uuid (fst x) = uuid" "issues_ok uuid db"
  shows "issues_ok uuid (reconcile_all cfg runs db)"
  using assms(2,3)
proof (induction runs arbitrary: db)
  case (Cons x runs)
  then have "issues_ok uuid (fst (reconcile cfg (fst x) (snd x) db))"
    using run_issues(1) [of "fst x"] assms(1) by simp
  with Cons show ?case by simp
qed simp

lemma row_after_run:
  assumes "(fp_symbol r, fp_side r, fp_idx r) \<notin> exchange_keys env" "r \<in> set (fu_positions db)"
  shows "r \<in> set (fu_positions (fst (reconcile cfg env trigger db)))"
proof -
  let ?s = "fst (begin_run env trigger db)"
  define c where "c = comparisons cfg env (snd (begin_run env trigger db)) ?s"
  have one: "fu_positions (rc_db (fst (resolve_stale env i st))) = fu_positions (rc_db (fst st))" for i st
    by (cases st) (auto simp: resolve_stale_def Let_def case_prod_beta resolve_reconciliation_issue_def insert_event_audit_def)
  have all: "fu_positions (rc_db (fst (fold (resolve_stale env) rows st))) = fu_positions (rc_db (fst st))" for rows st
    by (induction rows arbitrary: st) (simp_all add: one)
  have resolve: "fu_positions (rc_db (resolve_stale_entry_lock_issues cfg env s)) = fu_positions (rc_db s)" for s
    by (simp add: resolve_stale_entry_lock_issues_def Let_def case_prod_beta all)
  have "keeps_row r ?s (fst c)"
    unfolding c_def by (rule recon_steps.rel_comparisons [OF rows_kept [OF assms(1)]])
  then have "r \<in> set (fu_positions (rc_db (fst c)))" using assms(2) by (simp add: keeps_row_def)
  moreover have "fu_positions (close_run env run_id st ev d) = fu_positions d" for run_id st ev d
    by (simp add: close_run_def insert_event_audit_def finish_reconciliation_run_def)
  ultimately show ?thesis
    by (cases "begin_run env trigger db"; cases c; cases "snd c")
      (simp_all add: c_def reconcile_def run_steps_def resolve)
qed

lemma unanswered_positions:
  assumes "\<And>resp. linear_market cfg \<Longrightarrow> xa_positions (re_answers env) = Some resp \<Longrightarrow> answer_ok resp \<noteq> Inr True"
  shows "sm_positions_checked (rc_summary (fst (comparisons cfg env run_id s))) = sm_positions_checked (rc_summary s)"
proof -
  have "no_positions t (fst (if linear_market cfg then reconcile_positions cfg env run_id t else (t, None)))" for t
  proof -
    have "fst (reconcile_positions cfg env run_id t) = t" if "linear_market cfg"
      using assms that unfolding reconcile_positions_def
      by (cases "xa_positions (re_answers env)") (auto split: sum.split bool.split)
    then show ?thesis by (simp add: no_positions_def)
  qed
  then have "no_positions s (fst (comparisons cfg env run_id s))"
    unfolding comparisons_def
    by (intro position_frame.rel_and_then before_positions.rel_wallet before_positions.rel_open_orders before_positions.rel_fills)
  then show ?thesis by (simp add: no_positions_def)
qed

interpretation verdict: recon_steps "\<lambda>s s'. sm_failed (rc_summary s') = sm_failed (rc_summary s)" cfg env
  by unfold_locales (simp_all add: snapshot_def report_def issue_once_def Let_def case_prod_beta)

lemma run_verdict:
  "sm_failed (snd (reconcile cfg env trigger db)) \<longleftrightarrow>
     snd (comparisons cfg env (snd (begin_run env trigger db)) (fst (begin_run env trigger db))) \<noteq> None"
proof -
  let ?s = "fst (begin_run env trigger db)"
  define c where "c = comparisons cfg env (snd (begin_run env trigger db)) ?s"
  have one: "sm_failed (rc_summary (fst (resolve_stale env i st))) = sm_failed (rc_summary (fst st))" for i st
    by (cases st) (auto simp: resolve_stale_def Let_def case_prod_beta)
  have all: "sm_failed (rc_summary (fst (fold (resolve_stale env) rows st))) = sm_failed (rc_summary (fst st))" for rows st
    by (induction rows arbitrary: st) (simp_all add: one)
  have resolve: "sm_failed (rc_summary (resolve_stale_entry_lock_issues cfg env s)) = sm_failed (rc_summary s)" for s
    by (simp add: resolve_stale_entry_lock_issues_def Let_def case_prod_beta all)
  have "\<not> sm_failed (rc_summary (fst c))"
    using verdict.rel_comparisons [of cfg env _ ?s] begin_effect(3) [of env trigger db] by (simp add: c_def new_summary_def)
  then show ?thesis
    by (cases "begin_run env trigger db"; cases c; cases "snd c")
      (simp_all add: c_def reconcile_def run_steps_def resolve)
qed

lemma position_locks_kept:
  assumes inj: "inj (re_uuid env)" and ok: "issues_ok (re_uuid env) db"
    and unanswered: "sm_failed (snd (reconcile cfg env trigger db)) \<or> \<not> linear_market cfg
      \<or> (\<forall>resp. xa_positions (re_answers env) = Some resp \<longrightarrow> answer_ok resp \<noteq> Inr True)"
    and k: "k \<in> active_keys db" "fst k \<in> {ORPHANED, MISSING}"
  shows "k \<in> active_keys (fst (reconcile cfg env trigger db))"
proof -
  let ?s = "fst (begin_run env trigger db)"
  define r where "r = comparisons cfg env (snd (begin_run env trigger db)) ?s"
  have "grows (re_uuid env) ?s (fst r)" unfolding r_def by (rule locks.rel_comparisons)
  moreover have "issues_ok (re_uuid env) (rc_db ?s)" by (rule same_issues_facts(2) [OF begin_effect(1) ok])
  moreover have "k \<in> active_keys (rc_db ?s)" using same_issues_facts(1) [OF begin_effect(1)] k by simp
  ultimately have mid: "k \<in> active_keys (rc_db (fst r))" using inj by (auto simp: grows_def)
  show ?thesis
  proof (cases "snd r")
    case (Some e)
    then have "same_issues (rc_db (fst r)) (fst (reconcile cfg env trigger db))"
      using run_state(1) [of cfg env trigger db] by (simp add: r_def)
    with mid show ?thesis using same_issues_facts(1) by blast
  next
    case None
    then have "\<not> sm_failed (snd (reconcile cfg env trigger db))"
      using run_verdict [of cfg env trigger db] by (simp add: r_def)
    then have "\<not> (linear_market cfg \<and> sm_positions_checked (rc_summary (fst r)))"
      using unanswered unanswered_positions [of cfg env] begin_effect(3) [of env trigger db]
      by (auto simp: r_def new_summary_def)
    then have "(fst k, fst (snd k)) \<notin> set (eligible_pairs cfg (rc_summary (fst r)))"
      using k(2) by (auto simp: eligible_pairs_def)
    with mid run_issues(4) [OF inj ok, of cfg trigger, folded r_def] None show ?thesis by simp
  qed
qed


section \<open>Example inputs\<close>

definition empty_db :: domain_db where
  "empty_db = \<lparr>cs_drawn = 0, cs_runs = [], cs_issues = [], cs_snapshots = [], cs_strategy_runs = [], cs_audit = [],
     sp_balances = [], sp_holdings = [], sp_orders = [], sp_fills = [], sp_intents = [], sp_exits = [],
     fu_positions = [], fu_orders = [], fu_fills = [],
     fu_funding = [], fu_protection = [], fu_liquidation = [], fu_decisions = [], db_legacy = []\<rparr>"

definition sample_uuid :: uuids where
  "sample_uuid n = replicate n CHR ''a''"

definition sample_config :: recon_config where
  "sample_config = new_recon_config (Some ''linear'') None [] 50 ''bot''"

definition sample_answer :: "real \<Rightarrow> json list \<Rightarrow> json" where
  "sample_answer code items = JObj [(''retCode'', JNum code), (''result'', JObj [(''list'', JArr items)])]"

text \<open>Only the request for positions is granted; it lists nothing.\<close>

definition sample_env :: recon_env where
  "sample_env = \<lparr>re_uuid = sample_uuid, re_now = 1, re_str = (\<lambda>_. []),
     re_answers = \<lparr>xa_wallet = Some (sample_answer 1 []), xa_orders = Some (sample_answer 1 []),
       xa_executions = (\<lambda>_. None), xa_positions = Some (sample_answer 0 [])\<rparr>\<rparr>"

definition sample_position :: position_row where
  "sample_position = \<lparr>fp_account = ''UNIFIED'', fp_symbol = ''BTCUSDT'', fp_side = ''Buy'', fp_idx = 0, fp_margin = None,
     fp_leverage = None, fp_qty = 1, fp_entry = Some 100, fp_mark = None, fp_liq = None, fp_unrealized = None, fp_realized = None,
     fp_take = None, fp_stop = None, fp_trailing = None, fp_protection = ''protected'', fp_source = ''runtime'',
     fp_recovered = False, fp_owner = None, fp_created = 0, fp_updated = 0\<rparr>"

definition sample_issue :: recon_issue where
  "sample_issue = \<lparr>ri_id = ''issue-'', ri_run = None, ri_type = MISSING, ri_domain = ''futures'', ri_symbol = Some ''BTCUSDT'',
     ri_severity = ''warning'', ri_status = ''open'', ri_created = 0, ri_resolved = None\<rparr>"

definition sample_db :: "position_row list \<Rightarrow> recon_issue list \<Rightarrow> domain_db" where
  "sample_db rows issues = empty_db\<lparr>fu_positions := rows, cs_issues := issues, cs_drawn := 1\<rparr>"

lemma sample_inj: "inj sample_uuid"
  by (rule injI) (metis length_replicate sample_uuid_def)

lemma sample_answers:
  "xa_positions (re_answers sample_env) = Some (sample_answer 0 [])" "answer_ok (sample_answer 0 []) = Inr True"
  "answer_ok (sample_answer 1 []) = Inr False" "listed (sample_answer 0 []) = Inr (JArr [])"
  "re_uuid sample_env = sample_uuid"
  by (simp_all add: sample_env_def sample_answer_def answer_ok_def listed_def ret_code_ok_def json_or_def)

lemma sample_keys: "exchange_keys sample_env = {}"
  by (simp add: exchange_keys_def listed_positions_def sample_answers)

lemma sample_config_fields:
  "linear_market sample_config" "rs_account sample_config = ''UNIFIED''" "managed_symbols sample_config = []"
  by (simp_all add: sample_config_def new_recon_config_def linear_market_def managed_symbols_def str_eval py_space_def lower_char_def upper_char_def)

lemma sample_success: "\<not> sm_failed (snd (reconcile sample_config sample_env trigger db))"
proof -
  have answers: "xa_wallet (re_answers sample_env) = Some (sample_answer 1 [])" "xa_orders (re_answers sample_env) = Some (sample_answer 1 [])"
    by (simp_all add: sample_env_def)
  have wallet: "snd (reconcile_wallet sample_config sample_env run_id s) = None" for run_id s
    by (simp add: reconcile_wallet_def answers sample_answers)
  have orders: "reconcile_open_orders sample_config sample_env run_id s = (s, None)" for run_id s
    by (simp add: reconcile_open_orders_def answers sample_answers)
  have fills: "reconcile_fills sample_config sample_env run_id s = (s, None)" for run_id s
    by (simp add: reconcile_fills_def sample_config_fields)
  have positions: "snd (reconcile_positions sample_config sample_env run_id s) = None" for run_id s
    by (simp add: reconcile_positions_def sample_answers each_item_def Let_def)
  have "snd (comparisons sample_config sample_env run_id s) = None" for run_id s
    using wallet [of run_id s] positions
    by (cases "reconcile_wallet sample_config sample_env run_id s") (simp add: comparisons_def orders fills sample_config_fields)
  then show ?thesis by (simp add: run_verdict)
qed

lemma sample_issue_row:
  "cs_issues (sample_db rows issues) = issues" "cs_drawn (sample_db rows issues) = 1" "fu_positions (sample_db rows issues) = rows"
  "ri_id sample_issue = ''issue-'' @ sample_uuid 0" "issue_active sample_issue"
  "raw_key sample_issue = (MISSING, ''futures'', ''BTCUSDT'')"
  by (simp_all add: sample_db_def sample_issue_def sample_uuid_def issue_active_def raw_key_def str_lower_def lower_char_def or_empty_def)

lemma sample_issue_key: "issue_key_of sample_issue = raw_key sample_issue"
  by (simp add: sample_issue_def issue_key_of_def raw_key_def strip_kinds) (simp add: str_eval py_space_def upper_char_def)

lemma sample_issues:
  "issues_ok sample_uuid (sample_db rows [sample_issue])" "issues_ok sample_uuid (sample_db rows [])"
  "active_keys (sample_db rows [sample_issue]) = {(MISSING, ''futures'', ''BTCUSDT'')}"
  by (auto simp: issues_ok_def drawn_issues_def sample_issue_row sample_issue_key active_keys_def)

section \<open>Properties\<close>

text \<open>
  C30: Whatever runs follow, each conflict, a type of issue with its domain and symbol, has at most one
  active issue, every issue has an identifier of its own, and the columns stay normalised: reporting a
  conflict again reuses the active issue and a released one is opened again as a new row.
\<close>

theorem one_active_issue_per_conflict:
  assumes "inj uuid" and "\<forall>x \<in> set runs. re_uuid (fst x) = uuid" and "issues_ok uuid db"
  shows "issues_ok uuid (reconcile_all cfg runs db)
    \<and> inj_on raw_key {r \<in> set (cs_issues (reconcile_all cfg runs db)). issue_active r}"
  using all_issues_ok [OF assms, of cfg] by (auto simp: issues_ok_def distinct_map)

theorem one_active_issue_per_conflict_witness:
  "inj_on raw_key {r \<in> set (cs_issues (reconcile_all sample_config [(sample_env, ''startup'')] (sample_db [sample_position] []))). issue_active r}"
  using one_active_issue_per_conflict [of sample_uuid "[(sample_env, ''startup'')]" "sample_db [sample_position] []" sample_config]
  by (simp add: sample_inj sample_answers sample_issues)

text \<open>
  C7: After a run in the linear market that ended well and got its positions from the exchange, the
  symbols locked by a position conflict are exactly those where the two sides differ: an ORPHANED
  position for every key the exchange reports and the table does not hold, a missing position for every
  key of the table the exchange does not report.
\<close>

theorem position_locks_are_the_differences:
  assumes "inj (re_uuid env)" and "issues_ok (re_uuid env) db" and "linear_market cfg"
    and "\<not> sm_failed (snd (reconcile cfg env trigger db))"
    and "xa_positions (re_answers env) = Some resp" and "answer_ok resp = Inr True"
  defines "local \<equiv> local_key ` {r \<in> set (fu_positions db). fp_qty r \<noteq> 0 \<and> (rs_account cfg = [] \<or> fp_account r = rs_account cfg)}"
  shows "{k \<in> active_keys (fst (reconcile cfg env trigger db)). fst k \<in> {ORPHANED, MISSING} \<and> fst (snd k) = ''futures''} =
    conflict ORPHANED ` (exchange_keys env - local) \<union> {k \<in> conflict MISSING ` (local - exchange_keys env). lockable k}"
  using locked_conflicts [OF assms(1-6)] unfolding local_def local_ids_rows by simp

theorem position_locks_are_the_differences_witness:
  "{k \<in> active_keys (fst (reconcile sample_config sample_env ''startup'' (sample_db [sample_position] []))).
      fst k \<in> {ORPHANED, MISSING} \<and> fst (snd k) = ''futures''} = {(MISSING, ''futures'', ''BTCUSDT'')}"
proof -
  have rows: "{r \<in> set (fu_positions (sample_db [sample_position] [])). fp_qty r \<noteq> 0
      \<and> (rs_account sample_config = [] \<or> fp_account r = rs_account sample_config)} = {sample_position}"
    by (auto simp: sample_db_def sample_position_def sample_config_fields)
  have key: "conflict MISSING (local_key sample_position) = (MISSING, ''futures'', ''BTCUSDT'')"
    by (subst conflict_key) (simp_all add: local_key_def sample_position_def str_eval py_space_def upper_char_def)
  have "lockable (MISSING, ''futures'', ''BTCUSDT'')" by (simp add: lockable_def ENTRY_LOCK_ISSUE_TYPES_def)
  then have "{k. k = (MISSING, ''futures'', ''BTCUSDT'') \<and> lockable k} = {(MISSING, ''futures'', ''BTCUSDT'')}" by blast
  with position_locks_are_the_differences [of sample_env "sample_db [sample_position] []" sample_config "''startup''" "sample_answer 0 []"]
  show ?thesis
    unfolding rows by (simp add: sample_inj sample_answers sample_issues sample_config_fields sample_success sample_keys key)
qed

text \<open>
  C28: A lock on a position conflict is only released by a run that compared the positions: a run that
  failed, one in another market and one whose request for positions was refused all leave it active.
\<close>

theorem locks_released_only_by_comparison:
  assumes "inj (re_uuid env)" and "issues_ok (re_uuid env) db"
    and "k \<in> active_keys db" and "fst k \<in> {ORPHANED, MISSING}" and "k \<notin> active_keys (fst (reconcile cfg env trigger db))"
  shows "\<not> sm_failed (snd (reconcile cfg env trigger db)) \<and> linear_market cfg
    \<and> (\<exists>resp. xa_positions (re_answers env) = Some resp \<and> answer_ok resp = Inr True)"
  using position_locks_kept [OF assms(1,2) _ assms(3,4)] assms(5) by blast

theorem locks_released_only_by_comparison_witness:
  "(MISSING, ''futures'', ''BTCUSDT'') \<notin> active_keys (fst (reconcile sample_config sample_env ''startup'' (sample_db [] [sample_issue])))
    \<and> (\<exists>resp. xa_positions (re_answers sample_env) = Some resp \<and> answer_ok resp = Inr True)"
proof -
  have "local_ids sample_config (sample_db [] [sample_issue]) = {}" by (simp add: local_ids_rows sample_db_def)
  then have "{k \<in> active_keys (fst (reconcile sample_config sample_env ''startup'' (sample_db [] [sample_issue]))).
      fst k \<in> {ORPHANED, MISSING} \<and> fst (snd k) = ''futures''} = {}"
    using locked_conflicts [of sample_env "sample_db [] [sample_issue]" sample_config "''startup''" "sample_answer 0 []"]
    by (simp add: sample_inj sample_answers sample_issues sample_config_fields sample_success sample_keys)
  then have gone: "(MISSING, ''futures'', ''BTCUSDT'') \<notin> active_keys (fst (reconcile sample_config sample_env ''startup'' (sample_db [] [sample_issue])))"
    by auto
  with locks_released_only_by_comparison [of sample_env "sample_db [] [sample_issue]" "(MISSING, ''futures'', ''BTCUSDT'')" sample_config "''startup''"]
  show ?thesis by (simp add: sample_inj sample_answers sample_issues)
qed

lemma closed_position_step:
  assumes "inj (re_uuid env)" "issues_ok (re_uuid env) db"
    and r: "r \<in> set (fu_positions db)" "fp_qty r \<noteq> 0" "fp_account r = rs_account cfg"
      "str_strip (str_upper (fp_symbol r)) = fp_symbol r" "fp_symbol r \<noteq> []"
    and gone: "(fp_symbol r, fp_side r, fp_idx r) \<notin> exchange_keys env"
    and lock: "(MISSING, ''futures'', fp_symbol r) \<in> active_keys db"
  shows "(MISSING, ''futures'', fp_symbol r) \<in> active_keys (fst (reconcile cfg env trigger db))"
proof (cases "sm_failed (snd (reconcile cfg env trigger db)) \<or> \<not> linear_market cfg
      \<or> (\<forall>resp. xa_positions (re_answers env) = Some resp \<longrightarrow> answer_ok resp \<noteq> Inr True)")
  case True
  show ?thesis by (rule position_locks_kept [OF assms(1,2) True lock]) simp
next
  case False
  then obtain resp where answered: "xa_positions (re_answers env) = Some resp" "answer_ok resp = Inr True"
    and linear: "linear_market cfg" and fine: "\<not> sm_failed (snd (reconcile cfg env trigger db))" by blast
  from r(4) have upper: "str_upper (fp_symbol r) = fp_symbol r" by (metis str_strip_upper str_upper_idem)
  then have "local_key r = (fp_symbol r, fp_side r, fp_idx r)" by (simp add: local_key_def)
  moreover have "local_key r \<in> local_ids cfg db" unfolding local_ids_rows using r by auto
  ultimately have "(fp_symbol r, fp_side r, fp_idx r) \<in> local_ids cfg db - exchange_keys env" using gone by simp
  then have "conflict MISSING (fp_symbol r, fp_side r, fp_idx r) \<in> conflict MISSING ` (local_ids cfg db - exchange_keys env)"
    by (rule imageI)
  moreover have key: "conflict MISSING (fp_symbol r, fp_side r, fp_idx r) = (MISSING, ''futures'', fp_symbol r)"
    using conflict_key [of MISSING "(fp_symbol r, fp_side r, fp_idx r)"] r(4) by simp
  moreover have "lockable (MISSING, ''futures'', fp_symbol r)"
    using r(5) by (simp add: lockable_def ENTRY_LOCK_ISSUE_TYPES_def)
  ultimately have "(MISSING, ''futures'', fp_symbol r) \<in> {k \<in> active_keys (fst (reconcile cfg env trigger db)). fst k \<in> {ORPHANED, MISSING} \<and> fst (snd k) = ''futures''}"
    unfolding locked_conflicts [OF assms(1,2) linear fine answered] by simp
  then show ?thesis by simp
qed

text \<open>
  C16: A position that was closed on the exchange while its row says otherwise locks its symbol for good.
  No run of the service updates the row, so that every later comparison finds the conflict again: however
  many runs follow and whatever they are answered, as long as the position is not opened again the row
  keeps its size and the lock stays active.
\<close>

theorem closed_position_locks_its_symbol_forever:
  assumes "inj uuid" and "\<forall>x \<in> set runs. re_uuid (fst x) = uuid \<and> (fp_symbol r, fp_side r, fp_idx r) \<notin> exchange_keys (fst x)"
    and "issues_ok uuid db" and "r \<in> set (fu_positions db)" and "fp_qty r \<noteq> 0" and "fp_account r = rs_account cfg"
    and "str_strip (str_upper (fp_symbol r)) = fp_symbol r" and "fp_symbol r \<noteq> []"
    and "(MISSING, ''futures'', fp_symbol r) \<in> active_keys db"
  shows "r \<in> set (fu_positions (reconcile_all cfg runs db))
    \<and> (MISSING, ''futures'', fp_symbol r) \<in> active_keys (reconcile_all cfg runs db)"
  using assms(2-)
proof (induction runs arbitrary: db)
  case (Cons x runs)
  let ?db = "fst (reconcile cfg (fst x) (snd x) db)"
  have inj: "inj (re_uuid (fst x))" and ok: "issues_ok (re_uuid (fst x)) db"
    and gone: "(fp_symbol r, fp_side r, fp_idx r) \<notin> exchange_keys (fst x)" using Cons.prems assms(1) by simp_all
  have "issues_ok uuid ?db" using run_issues(1) [OF inj ok] Cons.prems(1) by simp
  moreover have "r \<in> set (fu_positions ?db)" by (rule row_after_run [OF gone Cons.prems(3)])
  moreover have "(MISSING, ''futures'', fp_symbol r) \<in> active_keys ?db"
    by (rule closed_position_step [OF inj ok Cons.prems(3-7) gone Cons.prems(8)])
  ultimately show ?case using Cons.IH [of ?db] Cons.prems by simp
qed simp

theorem closed_position_locks_its_symbol_forever_witness:
  "sample_position \<in> set (fu_positions (reconcile_all sample_config [(sample_env, ''startup''), (sample_env, ''periodic'')] (sample_db [sample_position] [sample_issue])))
    \<and> (MISSING, ''futures'', ''BTCUSDT'') \<in> active_keys (reconcile_all sample_config [(sample_env, ''startup''), (sample_env, ''periodic'')] (sample_db [sample_position] [sample_issue]))"
proof -
  have "sample_position \<in> set (fu_positions (sample_db [sample_position] [sample_issue]))" by (simp add: sample_db_def)
  moreover have "fp_symbol sample_position = ''BTCUSDT''" "fp_qty sample_position \<noteq> 0" "fp_account sample_position = rs_account sample_config"
    "str_strip (str_upper (fp_symbol sample_position)) = fp_symbol sample_position"
    by (simp_all add: sample_position_def sample_config_fields str_eval py_space_def upper_char_def)
  ultimately show ?thesis
    using closed_position_locks_its_symbol_forever [of sample_uuid "[(sample_env, ''startup''), (sample_env, ''periodic'')]" sample_position
        "sample_db [sample_position] [sample_issue]" sample_config]
    by (simp add: sample_inj sample_answers sample_issues sample_keys)
qed

end
