(* ===== verification/Entry_Gates.thy ===== *)
theory Entry_Gates
  imports Reconciliation_Locks Position_Accounting "HOL-Library.List_Lexorder" "HOL-Library.Char_ord"
begin

text \<open>
  The gates an order of a strategy passes before the risk manager sees it, and the helpers of the
  trading process they use (\<open>src/botik/main.py\<close>): the locks of the reconciliation, the policy of spot
  holdings, the risk class and the protection status of the symbol's position, and the levels the order
  has to bring. They read the tables the reconciliation writes.

  A query with \<open>LIMIT 1\<close> takes the first of the rows the order leaves equal, as they were inserted.
\<close>

section \<open>Fees\<close>

definition KNOWN_QUOTE_SUFFIXES :: "string list" where
  "KNOWN_QUOTE_SUFFIXES = [''USDT'', ''USDC'', ''BTC'', ''ETH'', ''EUR'', ''TRY'', ''BRL'', ''RUB'']"

definition ends_in :: "string \<Rightarrow> string \<Rightarrow> bool" where
  "ends_in s q \<longleftrightarrow> length q \<le> length s \<and> drop (length s - length q) s = q"

definition split_symbol_base_quote :: "string \<Rightarrow> string \<times> string" where
  "split_symbol_base_quote symbol =
     (let s = str_strip (str_upper symbol) in
      case find (\<lambda>q. ends_in s q \<and> length q < length s) KNOWN_QUOTE_SUFFIXES of
        None \<Rightarrow> (s, [])
      | Some q \<Rightarrow> (take (length s - length q) s, q))"

definition fee_to_quote :: "string \<Rightarrow> real \<Rightarrow> string \<Rightarrow> real \<Rightarrow> real" where
  "fee_to_quote symbol fee fee_currency exec_price =
     (let fee_abs = max fee 0; fee_ccy = str_strip (str_upper fee_currency) in
      if fee_abs \<le> 0 then 0
      else if fee_ccy = [] then fee_abs
      else let (base_ccy, quote_ccy) = split_symbol_base_quote symbol in
        if quote_ccy \<noteq> [] \<and> fee_ccy = quote_ccy then fee_abs
        else if base_ccy \<noteq> [] \<and> fee_ccy = base_ccy \<and> exec_price > 0 then fee_abs * exec_price
        else fee_abs)"

section \<open>The locks of the reconciliation\<close>

definition RECONCILIATION_ENTRY_LOCK_ISSUES :: "string list" where
  "RECONCILIATION_ENTRY_LOCK_ISSUES =
     [''orphaned_exchange_position'', ''orphaned_exchange_order'', ''local_position_missing_on_exchange'',
      ''local_order_missing_on_exchange'']"

definition add_lock :: "recon_issue \<Rightarrow> (string, string list) dict \<Rightarrow> (string, string list) dict" where
  "add_lock r by_symbol =
     (let symbol = str_strip (str_upper (str_upper (or_empty (ri_symbol r)))); issue = str_strip (ri_type r) in
      if symbol = [] \<or> issue = [] then by_symbol
      else dict_set symbol (List.insert issue (case dict_get by_symbol symbol of None \<Rightarrow> [] | Some issues \<Rightarrow> issues)) by_symbol)"

definition load_reconciliation_symbol_locks :: "('z) core_db_scheme \<Rightarrow> (string, string list) dict" where
  "load_reconciliation_symbol_locks db =
     (let rows = sort_key (\<lambda>r. - ri_created r) (filter (\<lambda>r. issue_active r
            \<and> ri_type r \<in> set RECONCILIATION_ENTRY_LOCK_ISSUES \<and> or_empty (ri_symbol r) \<noteq> []) (cs_issues db)) in
      map (\<lambda>(symbol, issues). (symbol, sort issues)) (fold add_lock rows []))"

definition get_reconciliation_entry_block_reason :: "string \<Rightarrow> ('z) core_db_scheme \<Rightarrow> string option" where
  "get_reconciliation_entry_block_reason symbol db =
     (let s = str_strip (str_upper symbol) in
      if s = [] then None
      else case dict_get (load_reconciliation_symbol_locks db) s of
          None \<Rightarrow> None
        | Some issues \<Rightarrow> if issues = [] then None else Some (str_join '','' issues))"

section \<open>The position of a symbol\<close>

definition latest_position :: "string \<Rightarrow> string \<Rightarrow> domain_db \<Rightarrow> position_row option" where
  "latest_position account symbol db =
     (case sort_key (\<lambda>r. - fp_updated r) (filter (\<lambda>r. fp_account r = account \<and> fp_symbol r = symbol \<and> \<bar>fp_qty r\<bar> > 0)
             (fu_positions db)) of
        [] \<Rightarrow> None
      | r # rs \<Rightarrow> Some r)"

definition get_futures_blocking_protection_status :: "string \<Rightarrow> string \<Rightarrow> domain_db \<Rightarrow> string option" where
  "get_futures_blocking_protection_status symbol account db =
     (case latest_position account (str_upper symbol) db of
        None \<Rightarrow> None
      | Some r \<Rightarrow>
          let status = normalize_protection_status (Some (str_lower (fp_protection r))) in
          if is_blocking_protection_status (Some status) then Some status else None)"

record risk_view =
  rv_symbol :: string
  rv_risk_state :: string
  rv_protection_status :: string
  rv_distance_to_liq_bps :: "real option"
  rv_unrealized_pnl_pct :: "real option"
  rv_position_side :: string
  rv_position_qty :: real
  rv_entry_price :: "real option"
  rv_mark_price :: "real option"
  rv_liq_price :: "real option"
  rv_updated :: "int option"

definition evaluate_futures_symbol_risk :: "string \<Rightarrow> string \<Rightarrow> real option \<Rightarrow> domain_db \<Rightarrow> risk_view" where
  "evaluate_futures_symbol_risk symbol account fallback_mark_price db =
     (let symbol_u = str_strip (str_upper symbol) in
      case latest_position account symbol_u db of
        None \<Rightarrow> \<lparr>rv_symbol = symbol_u, rv_risk_state = ''unknown'', rv_protection_status = [], rv_distance_to_liq_bps = None,
                 rv_unrealized_pnl_pct = None, rv_position_side = [], rv_position_qty = 0, rv_entry_price = None,
                 rv_mark_price = None, rv_liq_price = None, rv_updated = None\<rparr>
      | Some r \<Rightarrow>
          let side = fp_side r;
              qty_abs = \<bar>fp_qty r\<bar>;
              qty_signed = (if norm_lower (Some side) \<in> {''buy'', ''long''} then qty_abs else - qty_abs);
              entry_price = or_zero (fp_entry r);
              mark_price_db = or_zero (fp_mark r);
              liq_price = or_zero (fp_liq r);
              protection_status = normalize_protection_status (Some (fp_protection r));
              mark = (if mark_price_db > 0 then mark_price_db else or_zero fallback_mark_price);
              mark_price = (if mark \<le> 0 then 0 else mark);
              pnl_pct = (if qty_abs > 0 \<and> entry_price > 0 \<and> mark_price > 0
                         then unrealized_pnl_pct qty_signed entry_price mark_price else None);
              distance = compute_distance_to_liq_bps (Some side) (positive_or_null mark_price) (positive_or_null liq_price) in
          \<lparr>rv_symbol = symbol_u, rv_risk_state = classify_futures_state (Some protection_status) pnl_pct distance,
           rv_protection_status = protection_status, rv_distance_to_liq_bps = distance, rv_unrealized_pnl_pct = pnl_pct,
           rv_position_side = side, rv_position_qty = qty_abs, rv_entry_price = positive_or_null entry_price,
           rv_mark_price = positive_or_null mark_price, rv_liq_price = positive_or_null liq_price,
           rv_updated = Some (fp_updated r)\<rparr>)"

definition futures_entry_risk_gate :: "string \<Rightarrow> string \<Rightarrow> real option \<Rightarrow> domain_db \<Rightarrow> bool \<times> string \<times> risk_view" where
  "futures_entry_risk_gate symbol account fallback_mark_price db =
     (let view = evaluate_futures_symbol_risk symbol account fallback_mark_price db;
          risk_state = norm_lower (Some (rv_risk_state view)) in
      if is_entry_blocking_futures_risk_state (Some risk_state) then (False, ''symbol_risk_state_'' @ risk_state, view)
      else (True, ''ok'', view))"

definition futures_force_exit_reason_from_risk_state :: "string option \<Rightarrow> string option \<Rightarrow> string option" where
  "futures_force_exit_reason_from_risk_state current_reason risk_state =
     (let risk = norm_lower risk_state in
      if risk = ''hard_failure'' then (if or_empty current_reason = [] then Some ''futures_hard_failure'' else current_reason)
      else if risk = ''unprotected_position''
      then (if or_empty current_reason = [] then Some ''futures_unprotected_position'' else current_reason)
      else current_reason)"

section \<open>Spot holdings\<close>

definition spot_sell_blocked_by_hold_policy :: "string \<Rightarrow> string \<Rightarrow> string \<Rightarrow> domain_db \<Rightarrow> bool \<times> string" where
  "spot_sell_blocked_by_hold_policy market symbol side db =
     (if market \<noteq> ''spot'' then (False, [])
      else if norm_lower (Some side) \<noteq> ''sell'' then (False, [])
      else case find (\<lambda>r. hr_account r = ''UNIFIED'' \<and> hr_symbol r = str_upper symbol) (sp_holdings db) of
          None \<Rightarrow> (False, [])
        | Some r \<Rightarrow>
            if hr_free r + hr_locked r \<le> 0 then (False, [])
            else if can_auto_sell_hold (hr_reason r) (hr_auto_sell r) then (False, [])
            else (True, hr_reason r))"

section \<open>The gates in their order\<close>

record gate_env =
  ge_uuid :: uuids
  ge_now :: int
  ge_market :: string

definition record_futures_decision :: "gate_env \<Rightarrow> string \<Rightarrow> string \<Rightarrow> string \<Rightarrow> string \<Rightarrow> bool \<Rightarrow> domain_db \<Rightarrow> domain_db" where
  "record_futures_decision env symbol side decision_type decision_reason applied db =
     (if ge_market env \<noteq> ''linear'' then db
      else insert_futures_position_decision (ge_uuid env) (ge_now env)
        \<lparr>dn_id = [], dn_account = ''UNIFIED'', dn_symbol = str_upper symbol, dn_side = Some side, dn_idx = Some 0,
         dn_type = decision_type, dn_reason = decision_reason, dn_policy = Some ''runtime'', dn_applied = applied, dn_created = 0\<rparr> db)"

record entry_intent =
  ei_symbol :: string
  ei_side :: string
  ei_link :: string
  ei_stop_loss_pct :: "real option"
  ei_take_profit_pct :: "real option"

text \<open>The levels come from the order, else from the settings of the symbol, arguments here.\<close>

definition pass_gates ::
    "gate_env \<Rightarrow> entry_intent \<Rightarrow> real option \<Rightarrow> real \<Rightarrow> real \<Rightarrow> domain_db \<Rightarrow> domain_db \<times> string option" where
  "pass_gates env it mark symbol_sl symbol_tp db =
     (let symbol = ei_symbol it;
          rejected = (\<lambda>why. record_futures_decision env symbol (ei_side it) ''entry_rejected'' why False db) in
      case get_reconciliation_entry_block_reason symbol db of
        Some issues \<Rightarrow>
          (record_futures_decision env symbol (ei_side it) ''entry_rejected'' ''reconciliation_lock'' False
             (insert_event_audit (ge_uuid env) (ge_now env) ''entry_blocked_reconciliation_lock''
                (if ge_market env = ''linear'' then ''futures'' else ''spot'') (Some symbol) (Some (ei_link it)) db),
           Some issues)
      | None \<Rightarrow>
          if fst (spot_sell_blocked_by_hold_policy (ge_market env) symbol (ei_side it) db)
          then (db, Some (snd (spot_sell_blocked_by_hold_policy (ge_market env) symbol (ei_side it) db)))
          else if ge_market env \<noteq> ''linear'' then (db, None)
          else
            let gate = futures_entry_risk_gate symbol ''UNIFIED'' mark db in
            if \<not> fst gate then (rejected (fst (snd gate)), Some (fst (snd gate)))
            else
              case get_futures_blocking_protection_status (str_upper symbol) ''UNIFIED'' db of
                Some status \<Rightarrow>
                  (rejected (''symbol_has_blocking_protection_status:'' @ status), Some status)
              | None \<Rightarrow>
                  let levels = futures_entry_allowed
                        (Some (case ei_stop_loss_pct it of Some p \<Rightarrow> p | None \<Rightarrow> symbol_sl))
                        (Some (case ei_take_profit_pct it of Some p \<Rightarrow> p | None \<Rightarrow> symbol_tp)) False in
                  if \<not> fst levels then (rejected (snd levels), Some (snd levels)) else (db, None))"

section \<open>What locks a symbol\<close>

lemma lock_types: "set RECONCILIATION_ENTRY_LOCK_ISSUES = ENTRY_LOCK_ISSUE_TYPES"
  by (auto simp: RECONCILIATION_ENTRY_LOCK_ISSUES_def ENTRY_LOCK_ISSUE_TYPES_def)

definition lock_rows :: "('z) core_db_scheme \<Rightarrow> recon_issue set" where
  "lock_rows db = {r \<in> set (cs_issues db). issue_active r \<and> ri_type r \<in> ENTRY_LOCK_ISSUE_TYPES \<and> or_empty (ri_symbol r) \<noteq> []}"

lemma dict_get_add_lock:
  "dict_get (add_lock r d) s =
     (if str_strip (str_upper (or_empty (ri_symbol r))) = s \<and> s \<noteq> [] \<and> str_strip (ri_type r) \<noteq> []
      then Some (List.insert (str_strip (ri_type r)) (case dict_get d s of None \<Rightarrow> [] | Some issues \<Rightarrow> issues)) else dict_get d s)"
  by (simp add: add_lock_def Let_def dict_get_set)

lemma insert_nonempty: "List.insert x xs \<noteq> []"
  by (cases xs) (auto simp: List.insert_def)

lemma added_locks:
  assumes "\<forall>v. dict_get d s = Some v \<longrightarrow> v \<noteq> []"
  shows "(dict_get (fold add_lock rows d) s \<noteq> None \<longleftrightarrow> dict_get d s \<noteq> None
      \<or> (\<exists>r \<in> set rows. str_strip (str_upper (or_empty (ri_symbol r))) = s \<and> s \<noteq> [] \<and> str_strip (ri_type r) \<noteq> []))
    \<and> (\<forall>v. dict_get (fold add_lock rows d) s = Some v \<longrightarrow> v \<noteq> [])"
  using assms
proof (induction rows arbitrary: d)
  case (Cons r rows)
  have "\<forall>v. dict_get (add_lock r d) s = Some v \<longrightarrow> v \<noteq> []"
    using Cons.prems by (simp add: dict_get_add_lock insert_nonempty)
  from Cons.IH [OF this] show ?case by (auto simp: dict_get_add_lock)
qed simp

lemma sorted_issues: "sort (xs :: string list) = [] \<longleftrightarrow> xs = []"
  by (simp flip: length_0_conv)

lemma lock_type_texts: "k \<in> ENTRY_LOCK_ISSUE_TYPES \<Longrightarrow> str_strip k \<noteq> []"
  by (auto simp: ENTRY_LOCK_ISSUE_TYPES_def str_strip_def py_space_def)

lemma block_reason_rows:
  "get_reconciliation_entry_block_reason symbol db \<noteq> None \<longleftrightarrow>
     str_strip (str_upper symbol) \<noteq> []
     \<and> (\<exists>r \<in> lock_rows db. str_strip (str_upper (or_empty (ri_symbol r))) = str_strip (str_upper symbol))"
proof -
  let ?s = "str_strip (str_upper symbol)"
  define rows where "rows = sort_key (\<lambda>r. - ri_created r) (filter (\<lambda>r. issue_active r
            \<and> ri_type r \<in> set RECONCILIATION_ENTRY_LOCK_ISSUES \<and> or_empty (ri_symbol r) \<noteq> []) (cs_issues db))"
  have set_rows: "set rows = lock_rows db" by (auto simp: rows_def lock_rows_def lock_types)
  have locks: "dict_get (load_reconciliation_symbol_locks db) ?s = map_option sort (dict_get (fold add_lock rows []) ?s)"
    unfolding load_reconciliation_symbol_locks_def Let_def rows_def [symmetric] map_of_map by simp
  note added = added_locks [of "[]" ?s rows]
  have types: "str_strip (ri_type r) \<noteq> []" if "r \<in> lock_rows db" for r
    using that lock_type_texts by (simp add: lock_rows_def)
  show ?thesis
  proof (cases "dict_get (fold add_lock rows []) ?s")
    case None
    with added types set_rows show ?thesis by (auto simp: get_reconciliation_entry_block_reason_def Let_def locks)
  next
    case (Some issues)
    with added have "issues \<noteq> []" "?s \<noteq> []" "\<exists>r \<in> lock_rows db. str_strip (str_upper (or_empty (ri_symbol r))) = ?s"
      using set_rows by auto
    with Some show ?thesis by (simp add: get_reconciliation_entry_block_reason_def Let_def locks sorted_issues)
  qed
qed

lemma block_reason_keys:
  assumes "issues_ok uuid db"
  shows "get_reconciliation_entry_block_reason symbol db \<noteq> None \<longleftrightarrow>
     (\<exists>k \<in> active_keys db. lockable k \<and> snd (snd k) = str_strip (str_upper symbol))"
proof -
  have norm: "str_strip (str_upper (or_empty (ri_symbol r))) = or_empty (ri_symbol r)" if "r \<in> set (cs_issues db)" for r
    using assms that by (auto simp: issues_ok_def issue_key_of_def raw_key_def)
  show ?thesis
    unfolding block_reason_rows
    by (auto simp: active_keys_def lockable_def raw_key_def lock_rows_def norm)
qed

lemma locked_symbol_refused:
  assumes "issues_ok uuid db" "k \<in> active_keys db" "lockable k" "snd (snd k) = str_strip (str_upper (ei_symbol it))"
  shows "snd (pass_gates env it mark sl tp db) \<noteq> None"
proof -
  have "get_reconciliation_entry_block_reason (ei_symbol it) db \<noteq> None"
    unfolding block_reason_keys [OF assms(1)] using assms by blast
  then show ?thesis by (auto simp: pass_gates_def Let_def)
qed

section \<open>Properties\<close>

text \<open>
  C4: After a run of the reconciliation in the linear market that ended well and compared the
  positions, no strategy can enter a symbol the two sides disagree on: whatever the order, the levels
  and the market are, the gates refuse it.
\<close>

theorem conflicting_symbols_are_refused:
  assumes "inj (re_uuid renv)" and "issues_ok (re_uuid renv) db" and "linear_market cfg"
    and "\<not> sm_failed (snd (reconcile cfg renv trigger db))"
    and "xa_positions (re_answers renv) = Some resp" and "answer_ok resp = Inr True"
    and "key \<in> (exchange_keys renv - local_ids cfg db) \<union> (local_ids cfg db - exchange_keys renv)"
    and "str_strip (str_upper (ei_symbol it)) = str_strip (str_upper (fst key))" and "str_strip (str_upper (fst key)) \<noteq> []"
  shows "snd (pass_gates env it mark sl tp (fst (reconcile cfg renv trigger db))) \<noteq> None"
proof -
  let ?db = "fst (reconcile cfg renv trigger db)"
  note ok = run_issues(1) [OF assms(1,2), of cfg trigger]
  obtain kind where kind: "kind \<in> {ORPHANED, MISSING}" "conflict kind key \<in> conflict ORPHANED ` (exchange_keys renv - local_ids cfg db)
      \<union> conflict MISSING ` (local_ids cfg db - exchange_keys renv)"
    using assms(7) by blast
  have lock: "lockable (conflict kind key)"
    using kind(1) assms(9) by (auto simp: lockable_def conflict_key ENTRY_LOCK_ISSUE_TYPES_def)
  moreover have "conflict kind key \<in> active_keys ?db"
    using locked_conflicts [OF assms(1-6)] kind lock exchange_key_lockable by auto
  moreover have "snd (snd (conflict kind key)) = str_strip (str_upper (ei_symbol it))"
    using kind(1) assms(8) by (simp add: conflict_key)
  ultimately show ?thesis by (intro locked_symbol_refused [OF ok])
qed

theorem conflicting_symbols_are_refused_witness:
  "snd (pass_gates \<lparr>ge_uuid = sample_uuid, ge_now = 2, ge_market = ''linear''\<rparr>
     \<lparr>ei_symbol = ''btcusdt'', ei_side = ''Buy'', ei_link = ''mm-1'', ei_stop_loss_pct = Some (1 / 100), ei_take_profit_pct = Some (2 / 100)\<rparr>
     None 0 0 (fst (reconcile sample_config sample_env ''startup'' (sample_db [sample_position] [])))) \<noteq> None"
proof -
  have key: "local_key sample_position = (''BTCUSDT'', ''Buy'', 0)"
    by (simp add: local_key_def sample_position_def str_upper_def upper_char_def)
  have rows: "{r \<in> set (fu_positions (sample_db [sample_position] [])). fp_qty r \<noteq> 0
      \<and> (rs_account sample_config = [] \<or> fp_account r = rs_account sample_config)} = {sample_position}"
    by (auto simp: sample_issue_row sample_position_def sample_config_fields)
  then have ids: "local_ids sample_config (sample_db [sample_position] []) = {(''BTCUSDT'', ''Buy'', 0)}"
    by (simp add: local_ids_rows key)
  have texts: "str_strip (str_upper ''btcusdt'') = ''BTCUSDT''" "str_strip (str_upper ''BTCUSDT'') = ''BTCUSDT''"
    by (simp_all add: str_eval py_space_def upper_char_def)
  show ?thesis
    by (rule conflicting_symbols_are_refused [of _ _ _ _ "sample_answer 0 []" "(''BTCUSDT'', ''Buy'', 0)"])
      (simp_all add: sample_inj sample_answers sample_issues sample_config_fields sample_success ids sample_keys texts)
qed

lemma upper_upper: "str_upper (str_upper s) = str_upper s"
  by (rule str_upper_idem)

lemma risk_states: "norm_lower (Some (rv_risk_state (evaluate_futures_symbol_risk symbol account mark db)))
    = rv_risk_state (evaluate_futures_symbol_risk symbol account mark db)"
proof -
  have "norm_lower (Some k) = k" if "k \<in> {''unprotected_position'', ''soft_failure'', ''hard_failure'', ''unknown'', ''floating_loss'', ''healthy''}" for k
    using that by (auto simp: str_eval py_space_def lower_char_def)
  moreover have "classify_futures_state p q d \<in> {''unprotected_position'', ''soft_failure'', ''hard_failure'', ''unknown'', ''floating_loss'', ''healthy''}" for p q d
    by (simp add: classify_futures_state_def Let_def split: option.split)
  ultimately show ?thesis
    by (simp add: evaluate_futures_symbol_risk_def Let_def split: option.split)
qed

lemma risk_gate_open:
  "fst (futures_entry_risk_gate symbol account mark db) \<longleftrightarrow>
     rv_risk_state (evaluate_futures_symbol_risk symbol account mark db) \<notin> {''unprotected_position'', ''soft_failure'', ''hard_failure''}"
  by (simp add: futures_entry_risk_gate_def Let_def is_entry_blocking_futures_risk_state_def ENTRY_BLOCKING_FUTURES_RISK_STATES_def risk_states)

lemma protection_gate_open:
  "get_futures_blocking_protection_status symbol account db = None \<longleftrightarrow>
     (\<forall>r. latest_position account (str_upper symbol) db = Some r \<longrightarrow>
        norm_lower (Some (fp_protection r)) \<notin> {''pending'', ''repairing'', ''failed'', ''unprotected''})"
proof -
  have "norm_lower (Some (norm_lower (Some (str_lower p)))) = norm_lower (Some p)" for p
    by (simp add: norm_lower_def or_empty_def str_strip_lower)
  then show ?thesis
    by (simp add: get_futures_blocking_protection_status_def Let_def is_blocking_protection_status_def
        BLOCKING_PROTECTION_STATUSES_def normalize_protection_status_def split: option.split)
qed

text \<open>
  C14: An order passes the gates exactly when no active issue locks its symbol, the holding it would
  sell may be sold, and, in the linear market, neither the class nor the protection status of the
  symbol's newest open position blocks entries and both levels are positive. Passing writes nothing.
\<close>

theorem gates_open_iff:
  "(snd (pass_gates env it mark sl tp db) = None \<longleftrightarrow>
      (str_strip (str_upper (ei_symbol it)) = []
        \<or> \<not> (\<exists>r \<in> lock_rows db. str_strip (str_upper (or_empty (ri_symbol r))) = str_strip (str_upper (ei_symbol it))))
      \<and> \<not> fst (spot_sell_blocked_by_hold_policy (ge_market env) (ei_symbol it) (ei_side it) db)
      \<and> (ge_market env = ''linear'' \<longrightarrow>
           rv_risk_state (evaluate_futures_symbol_risk (ei_symbol it) ''UNIFIED'' mark db)
             \<notin> {''unprotected_position'', ''soft_failure'', ''hard_failure''}
           \<and> (\<forall>r. latest_position ''UNIFIED'' (str_upper (ei_symbol it)) db = Some r \<longrightarrow>
                norm_lower (Some (fp_protection r)) \<notin> {''pending'', ''repairing'', ''failed'', ''unprotected''})
           \<and> 0 < (case ei_stop_loss_pct it of Some p \<Rightarrow> p | None \<Rightarrow> sl)
           \<and> 0 < (case ei_take_profit_pct it of Some p \<Rightarrow> p | None \<Rightarrow> tp)))
   \<and> (snd (pass_gates env it mark sl tp db) = None \<longrightarrow> fst (pass_gates env it mark sl tp db) = db)"
proof -
  have levels: "fst (futures_entry_allowed (Some x) (Some y) False) \<longleftrightarrow> 0 < x \<and> 0 < y" for x y
    by (auto simp: futures_entry_allowed_def validate_futures_protection_params_def Let_def)
  show ?thesis
  proof (cases "get_reconciliation_entry_block_reason (ei_symbol it) db")
    case (Some issues)
    then have "get_reconciliation_entry_block_reason (ei_symbol it) db \<noteq> None" by simp
    with Some show ?thesis unfolding block_reason_rows by (simp add: pass_gates_def Let_def)
  next
    case None
    then have unlocked: "str_strip (str_upper (ei_symbol it)) = []
        \<or> \<not> (\<exists>r \<in> lock_rows db. str_strip (str_upper (or_empty (ri_symbol r))) = str_strip (str_upper (ei_symbol it)))"
      using block_reason_rows [of "ei_symbol it" db] by simp
    show ?thesis
    proof (cases "get_futures_blocking_protection_status (str_upper (ei_symbol it)) ''UNIFIED'' db")
      case (Some status)
      then have "\<not> (\<forall>r. latest_position ''UNIFIED'' (str_upper (ei_symbol it)) db = Some r \<longrightarrow>
          norm_lower (Some (fp_protection r)) \<notin> {''pending'', ''repairing'', ''failed'', ''unprotected''})"
        using protection_gate_open [of "str_upper (ei_symbol it)" "''UNIFIED''" db] by simp
      with None Some unlocked show ?thesis
        by (simp add: pass_gates_def Let_def risk_gate_open)
    next
      case None': None
      then have "\<forall>r. latest_position ''UNIFIED'' (str_upper (ei_symbol it)) db = Some r \<longrightarrow>
          norm_lower (Some (fp_protection r)) \<notin> {''pending'', ''repairing'', ''failed'', ''unprotected''}"
        using protection_gate_open [of "str_upper (ei_symbol it)" "''UNIFIED''" db] by simp
      with None None' unlocked show ?thesis
        by (simp add: pass_gates_def Let_def risk_gate_open levels)
    qed
  qed
qed

theorem gates_open_iff_witness:
  "snd (pass_gates \<lparr>ge_uuid = sample_uuid, ge_now = 2, ge_market = ''linear''\<rparr>
     \<lparr>ei_symbol = ''BTCUSDT'', ei_side = ''Buy'', ei_link = ''mm-1'', ei_stop_loss_pct = Some (1 / 100), ei_take_profit_pct = None\<rparr>
     None 0 (2 / 100) empty_db) = None"
  using gates_open_iff [of "\<lparr>ge_uuid = sample_uuid, ge_now = 2, ge_market = ''linear''\<rparr>"
     "\<lparr>ei_symbol = ''BTCUSDT'', ei_side = ''Buy'', ei_link = ''mm-1'', ei_stop_loss_pct = Some (1 / 100), ei_take_profit_pct = None\<rparr>"
     None 0 "2 / 100" empty_db]
  by (simp add: lock_rows_def empty_db_def latest_position_def evaluate_futures_symbol_risk_def Let_def
      spot_sell_blocked_by_hold_policy_def)

text \<open>
  A holding that must not be sold automatically, because it was imported or recovered, loses this
  protection as soon as one answer of the wallet does not list its asset: the row is marked as a stale
  hold, which is not among the protected reasons, and from then on the policy lets the strategy sell it.
\<close>

theorem stale_mark_lifts_sell_protection:
  assumes "rs_account cfg = ''UNIFIED''"
    and "find (\<lambda>q. hr_account q = ''UNIFIED'' \<and> hr_symbol q = str_upper symbol) (sp_holdings (rc_db s)) = Some r"
    and "str_strip (hr_reason r) \<in> set PROTECTED_HOLD_REASONS" and "\<not> hr_auto_sell r" and "0 < hr_free r + hr_locked r"
    and "hr_symbol r \<noteq> []" and "hr_asset r \<noteq> []" and "str_upper (hr_asset r) = hr_asset r" and "hr_asset r \<notin> set seen"
    and "norm_lower (Some side) = ''sell''"
  shows "spot_sell_blocked_by_hold_policy ''spot'' symbol side (rc_db s) = (True, hr_reason r)
    \<and> snd (missing_holding cfg env run_id seen r s) = None
    \<and> spot_sell_blocked_by_hold_policy ''spot'' symbol side (rc_db (fst (missing_holding cfg env run_id seen r s))) = (False, [])"
proof -
  let ?P = "\<lambda>q. hr_account q = ''UNIFIED'' \<and> hr_symbol q = str_upper symbol"
  have r: "r \<in> set (sp_holdings (rc_db s))" "hr_account r = ''UNIFIED''" "hr_symbol r = str_upper symbol"
    using assms(2) by (auto simp: find_Some_iff)
  have before: "spot_sell_blocked_by_hold_policy ''spot'' symbol side (rc_db s) = (True, hr_reason r)"
    using assms by (simp add: spot_sell_blocked_by_hold_policy_def can_auto_sell_hold_def Let_def)
  have stale: "normalize_hold_reason (Some ''stale_hold'') = Inr ''stale_hold''"
    by (simp add: normalize_hold_reason_def SPOT_HOLD_REASONS_def str_eval py_space_def)
  define new where "new = ((stale_holding r (hr_symbol r) (hr_asset r))\<lparr>hr_account := ''UNIFIED''\<rparr>)
      \<lparr>hr_symbol := str_upper (hr_symbol r), hr_asset := str_upper (hr_asset r), hr_free := max (hr_free r) 0,
       hr_locked := max (hr_locked r) 0, hr_reason := ''stale_hold'', hr_owner := or_null (hr_owner (stale_holding r (hr_symbol r) (hr_asset r))),
       hr_created := re_now env, hr_updated := re_now env\<rparr>"
  have key: "holding_key new = holding_key r"
    using r assms(8) by (simp add: new_def holding_key_def stale_holding_def upper_upper)
  have put: "upsert_spot_holding (re_now env) ((stale_holding r (hr_symbol r) (hr_asset r))\<lparr>hr_account := ''UNIFIED''\<rparr>) (rc_db s)
      = Inr ((rc_db s)\<lparr>sp_holdings := upsert_row holding_key merge_holding new (sp_holdings (rc_db s))\<rparr>)"
    by (simp add: upsert_spot_holding_def stale_holding_def stale new_def)
  let ?table = "map (\<lambda>old. if holding_key old = holding_key new then merge_holding old new else old) (sp_holdings (rc_db s))"
  have table: "upsert_row holding_key merge_holding new (sp_holdings (rc_db s)) = ?table"
    using r(1) key by (force simp: upsert_row_def)
  have "?P (if holding_key old = holding_key new then merge_holding old new else old) = ?P old" for old
    by (auto simp: holding_key_def merge_holding_def)
  then have "find ?P ?table = map_option (\<lambda>old. if holding_key old = holding_key new then merge_holding old new else old)
      (find ?P (sp_holdings (rc_db s)))" by (rule find_map_same)
  then have found: "find ?P ?table = Some (merge_holding r new)"
    using assms(2) key by simp
  have step: "missing_holding cfg env run_id seen r s
      = (report env run_id ''local_holding_missing_on_exchange'' ''spot'' ''warning'' (Some (hr_symbol r)) ''reconciliation_repair_applied''
          (s\<lparr>rc_db := (rc_db s)\<lparr>sp_holdings := ?table\<rparr>\<rparr>), None)"
    using assms put table by (simp add: missing_holding_def put_db_def Let_def not_le)
  have holdings: "sp_holdings (rc_db (report env run_id k a sv about ev t)) = sp_holdings (rc_db t)" for k a sv about ev t
    by (simp add: report_def issue_once_def Let_def case_prod_beta insert_event_audit_def insert_reconciliation_issue_def)
  have "spot_sell_blocked_by_hold_policy ''spot'' symbol side (rc_db (fst (missing_holding cfg env run_id seen r s))) = (False, [])"
    using assms(10) found
    by (simp add: step spot_sell_blocked_by_hold_policy_def holdings merge_holding_def new_def can_auto_sell_hold_def
        PROTECTED_HOLD_REASONS_def str_strip_def py_space_def)
  with before step show ?thesis by simp
qed

theorem stale_mark_lifts_sell_protection_witness:
  "\<exists>s. spot_sell_blocked_by_hold_policy ''spot'' ''BTCUSDT'' ''Sell'' (rc_db s) = (True, ''manual_import'')
    \<and> spot_sell_blocked_by_hold_policy ''spot'' ''BTCUSDT'' ''Sell''
        (rc_db (fst (missing_holding sample_config sample_env ''recon-1'' [''ETH'']
          \<lparr>hr_account = ''UNIFIED'', hr_symbol = ''BTCUSDT'', hr_asset = ''BTC'', hr_free = 1, hr_locked = 0, hr_avg_entry = None,
           hr_reason = ''manual_import'', hr_source = ''manual'', hr_recovered = False, hr_owner = None, hr_auto_sell = False,
           hr_created = 0, hr_updated = 0\<rparr> s))) = (False, [])"
proof -
  let ?r = "\<lparr>hr_account = ''UNIFIED'', hr_symbol = ''BTCUSDT'', hr_asset = ''BTC'', hr_free = 1, hr_locked = 0, hr_avg_entry = None,
           hr_reason = ''manual_import'', hr_source = ''manual'', hr_recovered = False, hr_owner = None, hr_auto_sell = False,
           hr_created = 0, hr_updated = 0\<rparr>"
  let ?s = "\<lparr>rc_db = empty_db\<lparr>sp_holdings := [?r]\<rparr>, rc_locks = [], rc_summary = new_summary\<rparr>"
  have "str_upper ''BTCUSDT'' = ''BTCUSDT''" "str_upper ''BTC'' = ''BTC''" "norm_lower (Some ''Sell'') = ''sell''"
    "str_strip ''manual_import'' = ''manual_import''"
    by (simp_all add: str_eval py_space_def upper_char_def lower_char_def)
  then have "spot_sell_blocked_by_hold_policy ''spot'' ''BTCUSDT'' ''Sell'' (rc_db ?s) = (True, hr_reason ?r)
    \<and> snd (missing_holding sample_config sample_env ''recon-1'' [''ETH''] ?r ?s) = None
    \<and> spot_sell_blocked_by_hold_policy ''spot'' ''BTCUSDT'' ''Sell''
        (rc_db (fst (missing_holding sample_config sample_env ''recon-1'' [''ETH''] ?r ?s))) = (False, [])"
    by (intro stale_mark_lifts_sell_protection) (simp_all add: sample_config_fields PROTECTED_HOLD_REASONS_def)
  then show ?thesis by (intro exI [of _ ?s]) simp
qed

end
