(* ===== verification/Protection_Loop.thy ===== *)
theory Protection_Loop
  imports Entry_Gates
begin

text \<open>
  How the trading process (\<open>src/botik/main.py\<close>) keeps a futures position protected: it asks the exchange
  for stop and target, reads the position back, writes the outcome to the tables, and closes the position
  at the market when all attempts were refused.

  The state of the process is a record of its dictionaries; a dictionary that starts with an entry for
  every configured symbol and is read with a default is a function. The exchange's answers, the clocks
  and the fresh identifiers of a call are arguments. The waits between attempts, log lines and the JSON
  payloads are left out.
\<close>

section \<open>The executor\<close>

text \<open>What the process asks of the object that talks to the exchange: the entries of \<open>capabilities\<close>
  when it is a dictionary, the attributes \<open>supports_..\<close>, and the names that can be called.\<close>

record bot_executor =
  bx_capabilities :: "(string, bool) dict option"
  bx_supports :: "string \<Rightarrow> bool option"
  bx_callable :: "string list"

definition executor_supports_capability :: "bot_executor option \<Rightarrow> string option \<Rightarrow> string option \<Rightarrow> bool" where
  "executor_supports_capability executor capability market =
     (case executor of
        None \<Rightarrow> False
      | Some ex \<Rightarrow>
          let key = norm_lower capability; callable = (\<lambda>name. name \<in> set (bx_callable ex)) in
          if key = [] then False
          else case (case bx_capabilities ex of None \<Rightarrow> None | Some caps \<Rightarrow> dict_get caps key) of
              Some b \<Rightarrow> b
            | None \<Rightarrow>
                (case bx_supports ex key of
                   Some b \<Rightarrow> b
                 | None \<Rightarrow>
                     if key = ''reconciliation'' then
                       callable ''get_wallet_balance'' \<and> callable ''get_open_orders'' \<and> callable ''get_execution_list''
                       \<and> (norm_lower market = ''linear'' \<longrightarrow> callable ''get_positions'')
                     else if key = ''protection'' then callable ''set_trading_stop'' \<and> callable ''get_positions''
                     else if key = ''positions'' then callable ''get_positions''
                     else if key = ''wallet_balance'' then callable ''get_wallet_balance''
                     else if key = ''trading_stop'' then callable ''set_trading_stop''
                     else False))"

section \<open>Reading the position back\<close>

definition item_float :: "(string, json) dict \<Rightarrow> string \<Rightarrow> string \<Rightarrow> py_error + real" where
  "item_float d key other = json_float (json_or (json_key d key) (json_or (json_key d other) (JNum 0)))"

definition item_text :: "(json \<Rightarrow> string) \<Rightarrow> (string, json) dict \<Rightarrow> string \<Rightarrow> string" where
  "item_text str d key = str_strip (json_text str (json_or (json_key d key) (JStr [])))"

definition item_index :: "(string, json) dict \<Rightarrow> py_error + int" where
  "item_index d = json_int (json_or (json_key d ''positionIdx'') (JNum 0))"

text \<open>The loop over the reported positions: the one with the side and the index wins, else the first of
  the symbol that has a size.\<close>

fun find_position ::
    "(json \<Rightarrow> string) \<Rightarrow> string \<Rightarrow> string \<Rightarrow> int \<Rightarrow> json list \<Rightarrow> (string, json) dict option
     \<Rightarrow> py_error + (string, json) dict option" where
  "find_position str symbol side idx [] candidate = Inr candidate"
| "find_position str symbol side idx (JObj d # items) candidate =
     (if str_strip (str_upper (json_text str (json_or (json_key d ''symbol'') (JStr [])))) \<noteq> symbol
      then find_position str symbol side idx items candidate
      else case item_float d ''size'' ''qty'' of
          Inl e \<Rightarrow> Inl e
        | Inr qty \<Rightarrow>
            if \<bar>qty\<bar> \<le> 0 then find_position str symbol side idx items candidate
            else case item_index d of
                Inl e \<Rightarrow> Inl e
              | Inr item_idx \<Rightarrow>
                  if item_text str d ''side'' = side \<and> item_idx = idx then Inr (Some d)
                  else find_position str symbol side idx items (if candidate = None then Some d else candidate))"
| "find_position str symbol side idx (item # items) candidate = Inl AttributeError"

definition level_status :: "(string, json) dict \<Rightarrow> py_error + string \<times> string" where
  "level_status d =
     (case json_float (json_or (json_key d ''stopLoss'') (JNum 0)) of
        Inl e \<Rightarrow> Inl e
      | Inr stop_loss \<Rightarrow>
          (case json_float (json_or (json_key d ''takeProfit'') (JNum 0)) of
             Inl e \<Rightarrow> Inl e
           | Inr take_profit \<Rightarrow>
               (case json_float (json_or (json_key d ''trailingStop'') (JNum 0)) of
                  Inl e \<Rightarrow> Inl e
                | Inr trailing \<Rightarrow>
                    if stop_loss > 0 \<and> take_profit > 0 then Inr (''protected'', ''confirmed_on_exchange'')
                    else Inr (''unprotected'', ''missing_stop_or_take_on_exchange''))))"

definition verify_futures_protection_from_exchange ::
    "(json \<Rightarrow> string) \<Rightarrow> bot_executor \<Rightarrow> json option \<Rightarrow> string \<Rightarrow> string \<Rightarrow> int \<Rightarrow> py_error + string \<times> string" where
  "verify_futures_protection_from_exchange str ex answer symbol side idx =
     (if ''get_positions'' \<notin> set (bx_callable ex) then Inr (''failed'', ''positions_api_unsupported'')
      else case answer of
          None \<Rightarrow> Inr (''failed'', ''positions_api_error'')
        | Some resp \<Rightarrow>
            (case answer_ok resp of
               Inl e \<Rightarrow> Inl e
             | Inr False \<Rightarrow> Inr (''failed'', ''positions_api_rejected'')
             | Inr True \<Rightarrow>
                 (case listed resp of
                    Inl e \<Rightarrow> Inl e
                  | Inr v \<Rightarrow>
                      (case json_items v of
                         Inl e \<Rightarrow> Inl e
                       | Inr items \<Rightarrow>
                           (case find_position str (str_strip (str_upper symbol)) (str_strip side) idx items None of
                              Inl e \<Rightarrow> Inl e
                            | Inr None \<Rightarrow> Inr (''closed'', ''position_not_found'')
                            | Inr (Some d) \<Rightarrow> level_status d)))))"

section \<open>The state of the process\<close>

record bot_config =
  bc_market :: string
  bc_strategy :: string
  bc_min_qty :: real
  bc_min_notional :: real
  bc_hold_timeout :: real
  bc_stop_loss :: real
  bc_take_profit :: real
  bc_target_profit :: real
  bc_safety_buffer :: real

text \<open>\<open>_fmt_float\<close>: eight decimals, as the exchange reads them.\<close>

definition fmt_float :: "real \<Rightarrow> real" where
  "fmt_float v = py_round 8 v"

text \<open>An order handed to the executor; a market order has price zero.\<close>

record sent_order =
  se_symbol :: string
  se_side :: string
  se_qty :: real
  se_price :: real
  se_tif :: string
  se_type :: string
  se_link :: string

record bot_state =
  bs_db :: domain_db
  bs_known :: "string list"
  bs_net :: "string \<Rightarrow> real"
  bs_avg :: "string \<Rightarrow> real"
  bs_opened_at :: "string \<Rightarrow> real option"
  bs_opened_ms :: "string \<Rightarrow> int option"
  bs_signal :: "string \<Rightarrow> string option"
  bs_hold_timeout :: "string \<Rightarrow> real"
  bs_stop_loss :: "string \<Rightarrow> real"
  bs_take_profit :: "string \<Rightarrow> real"
  bs_target_profit :: "string \<Rightarrow> real"
  bs_safety_buffer :: "string \<Rightarrow> real"
  bs_peak_bps :: "string \<Rightarrow> real"
  bs_applied_at :: "string \<Rightarrow> real"
  bs_floor :: "(string, real) dict"
  bs_notional_floor :: "(string, real) dict"
  bs_seen :: "string list"
  bs_sent :: "sent_order list"

text \<open>The keys of \<open>net_position_base\<close>, in the order of their insertion.\<close>

definition know :: "string \<Rightarrow> string list \<Rightarrow> string list" where
  "know symbol ks = (if symbol \<in> set ks then ks else ks @ [symbol])"

definition reset_symbol_runtime_state :: "bot_config \<Rightarrow> string \<Rightarrow> bot_state \<Rightarrow> bot_state" where
  "reset_symbol_runtime_state c symbol s =
     s\<lparr>bs_known := know symbol (bs_known s), bs_net := (bs_net s)(symbol := 0), bs_avg := (bs_avg s)(symbol := 0),
       bs_opened_at := (bs_opened_at s)(symbol := None), bs_opened_ms := (bs_opened_ms s)(symbol := None),
       bs_signal := (bs_signal s)(symbol := None), bs_hold_timeout := (bs_hold_timeout s)(symbol := bc_hold_timeout c),
       bs_stop_loss := (bs_stop_loss s)(symbol := bc_stop_loss c), bs_take_profit := (bs_take_profit s)(symbol := bc_take_profit c),
       bs_target_profit := (bs_target_profit s)(symbol := max (bc_target_profit c) 0),
       bs_safety_buffer := (bs_safety_buffer s)(symbol := max (bc_safety_buffer c) 0),
       bs_peak_bps := (bs_peak_bps s)(symbol := 0)\<rparr>"

text \<open>\<open>_resolve_position_floor\<close> and \<open>_resolve_position_notional_floor\<close>; the answer is \<open>None\<close> when the executor
  has no such method, raises or gives nothing.\<close>

definition resolve_position_floor :: "bot_config \<Rightarrow> real option \<Rightarrow> string \<Rightarrow> bot_state \<Rightarrow> bot_state \<times> real" where
  "resolve_position_floor c exchange_min symbol s =
     (let symbol_u = str_strip (str_upper symbol) in
      if symbol_u = [] then (s, bc_min_qty c)
      else case dict_get (bs_floor s) symbol_u of
          Some cached \<Rightarrow> (s, cached)
        | None \<Rightarrow>
            let level = (if or_zero exchange_min > 0 then max (bc_min_qty c) (or_zero exchange_min) else bc_min_qty c) in
            (s\<lparr>bs_floor := dict_set symbol_u level (bs_floor s)\<rparr>, level))"

definition position_floor :: "bot_config \<Rightarrow> string \<Rightarrow> bot_state \<Rightarrow> real" where
  "position_floor c symbol s =
     (case dict_get (bs_floor s) (str_strip (str_upper symbol)) of None \<Rightarrow> bc_min_qty c | Some level \<Rightarrow> level)"

definition resolve_position_notional_floor :: "bot_config \<Rightarrow> real option \<Rightarrow> string \<Rightarrow> bot_state \<Rightarrow> bot_state \<times> real" where
  "resolve_position_notional_floor c exchange_min symbol s =
     (let symbol_u = str_strip (str_upper symbol) in
      if symbol_u = [] then (s, bc_min_notional c)
      else case dict_get (bs_notional_floor s) symbol_u of
          Some cached \<Rightarrow> (s, cached)
        | None \<Rightarrow>
            let level = (if bc_market c = ''spot'' \<and> or_zero exchange_min > 0
                         then max (bc_min_notional c) (or_zero exchange_min) else bc_min_notional c) in
            (s\<lparr>bs_notional_floor := dict_set symbol_u level (bs_notional_floor s)\<rparr>, level))"

definition new_bot_state :: "bot_config \<Rightarrow> string list \<Rightarrow> domain_db \<Rightarrow> bot_state" where
  "new_bot_state c symbols db =
     \<lparr>bs_db = db, bs_known = fold know symbols [], bs_net = (\<lambda>_. 0), bs_avg = (\<lambda>_. 0), bs_opened_at = (\<lambda>_. None), bs_opened_ms = (\<lambda>_. None),
      bs_signal = (\<lambda>_. None), bs_hold_timeout = (\<lambda>_. bc_hold_timeout c), bs_stop_loss = (\<lambda>_. bc_stop_loss c),
      bs_take_profit = (\<lambda>_. bc_take_profit c), bs_target_profit = (\<lambda>_. max (bc_target_profit c) 0),
      bs_safety_buffer = (\<lambda>_. max (bc_safety_buffer c) 0), bs_peak_bps = (\<lambda>_. 0), bs_applied_at = (\<lambda>_. 0),
      bs_floor = fold (\<lambda>s d. dict_set s (bc_min_qty c) d) symbols [],
      bs_notional_floor = fold (\<lambda>s d. dict_set s (bc_min_notional c) d) symbols [], bs_seen = [], bs_sent = []\<rparr>"

text \<open>The dictionaries start with an entry for every configured symbol, so that for these the exchange is never asked.\<close>

lemma default_entries:
  "dict_get (fold (\<lambda>s d. dict_set s v d) symbols d) s = (if s \<in> set symbols then Some v else dict_get d s)"
  by (induction symbols arbitrary: d) (auto simp: dict_get_set)

lemma exchange_minimum_never_used:
  "str_strip (str_upper symbol) \<in> set symbols \<Longrightarrow>
     resolve_position_floor c exchange_min symbol (new_bot_state c symbols db) = (new_bot_state c symbols db, bc_min_qty c)"
  "str_strip (str_upper symbol) \<in> set symbols \<Longrightarrow>
     resolve_position_notional_floor c exchange_min symbol (new_bot_state c symbols db) = (new_bot_state c symbols db, bc_min_notional c)"
  by (simp_all add: resolve_position_floor_def resolve_position_notional_floor_def new_bot_state_def default_entries Let_def)

section \<open>Protecting a position\<close>

definition on_bot_db :: "(domain_db \<Rightarrow> domain_db) \<Rightarrow> bot_state \<Rightarrow> bot_state" where
  "on_bot_db f s = s\<lparr>bs_db := f (bs_db s)\<rparr>"

definition put_bot_db :: "(domain_db \<Rightarrow> py_error + domain_db) \<Rightarrow> bot_state \<Rightarrow> bot_state outcome_of" where
  "put_bot_db f s = (case f (bs_db s) of Inl e \<Rightarrow> (s, Some e) | Inr db \<Rightarrow> (s\<lparr>bs_db := db\<rparr>, None))"

record protect_env =
  pe_mono :: real
  pe_now :: int
  pe_uuid :: uuids
  pe_str :: "json \<Rightarrow> string"
  pe_executor :: "bot_executor option"
  pe_set_stop :: "nat \<Rightarrow> json option"
  pe_positions :: "json option"
  pe_close :: "json option"
  pe_close_id :: string

definition runtime_position_row ::
    "bot_config \<Rightarrow> string \<Rightarrow> string \<Rightarrow> real \<Rightarrow> real \<Rightarrow> protection_plan option \<Rightarrow> string \<Rightarrow> position_row" where
  "runtime_position_row c symbol side qty entry plan status =
     \<lparr>fp_account = ''UNIFIED'', fp_symbol = symbol, fp_side = side, fp_idx = 0, fp_margin = Some [], fp_leverage = None,
      fp_qty = \<bar>qty\<bar>, fp_entry = Some entry, fp_mark = None, fp_liq = None, fp_unrealized = None, fp_realized = None,
      fp_take = map_option plan_take_profit plan, fp_stop = map_option plan_stop_loss plan,
      fp_trailing = Option.bind plan plan_trailing_stop, fp_protection = status, fp_source = ''runtime'',
      fp_recovered = False, fp_owner = Some (bc_strategy c), fp_created = 0, fp_updated = 0\<rparr>"

definition runtime_protection_row :: "string \<Rightarrow> string \<Rightarrow> protection_plan option \<Rightarrow> string \<Rightarrow> protection_row" where
  "runtime_protection_row symbol side plan status =
     \<lparr>pt_id = [], pt_account = ''UNIFIED'', pt_symbol = symbol, pt_side = side, pt_idx = 0,
      pt_stop = map_option plan_stop_loss plan, pt_take = map_option plan_take_profit plan,
      pt_trailing = Option.bind plan plan_trailing_stop, pt_status = status, pt_source = ''runtime'',
      pt_sl_order = None, pt_tp_order = None, pt_trailing_order = None, pt_synced = 0, pt_created = 0, pt_updated = 0\<rparr>"

text \<open>The two rows of a position, written with one status.\<close>

definition write_protection ::
    "bot_config \<Rightarrow> protect_env \<Rightarrow> string \<Rightarrow> string \<Rightarrow> real \<Rightarrow> real \<Rightarrow> protection_plan option \<Rightarrow> string
     \<Rightarrow> bot_state \<Rightarrow> bot_state outcome_of" where
  "write_protection c env symbol side qty entry plan status s =
     and_then (put_bot_db (upsert_futures_position (pe_now env) (runtime_position_row c symbol side qty entry plan status)) s)
       (put_bot_db (upsert_futures_protection (pe_uuid env) (pe_now env) (runtime_protection_row symbol side plan status)))"

definition bot_decision :: "bot_config \<Rightarrow> protect_env \<Rightarrow> string \<Rightarrow> string \<Rightarrow> string \<Rightarrow> string \<Rightarrow> bool \<Rightarrow> bot_state \<Rightarrow> bot_state" where
  "bot_decision c env symbol side decision_type why applied =
     on_bot_db (record_futures_decision \<lparr>ge_uuid = pe_uuid env, ge_now = pe_now env, ge_market = bc_market c\<rparr>
       symbol side decision_type why applied)"

definition bot_audit :: "protect_env \<Rightarrow> string \<Rightarrow> string \<Rightarrow> bot_state \<Rightarrow> bot_state" where
  "bot_audit env event symbol = on_bot_db (insert_event_audit (pe_uuid env) (pe_now env) event ''futures'' (Some symbol) None)"

definition PROTECTION_MAX_RETRIES :: nat where
  "PROTECTION_MAX_RETRIES = 3"

text \<open>An attempt is accepted when the answer is an object with return code zero.\<close>

definition stop_accepted :: "json option \<Rightarrow> bool" where
  "stop_accepted answer \<longleftrightarrow> (case answer of Some (JObj d) \<Rightarrow> ret_code_ok (json_key d ''retCode'') | _ \<Rightarrow> False)"

definition apply_success :: "protect_env \<Rightarrow> bool" where
  "apply_success env \<longleftrightarrow> list_ex (\<lambda>i. stop_accepted (pe_set_stop env i)) [0..<PROTECTION_MAX_RETRIES]"

text \<open>The attempt to set the levels: whether it was accepted, the status it was verified with, and why.
  Attempts after an accepted one are not made.\<close>

definition apply_protection :: "bot_config \<Rightarrow> protect_env \<Rightarrow> bot_executor \<Rightarrow> string \<Rightarrow> string \<Rightarrow> py_error + bool \<times> (string \<times> string) option" where
  "apply_protection c env ex symbol side =
     (if \<not> executor_supports_capability (Some ex) (Some ''protection'') (Some (bc_market c))
      then Inr (False, Some (''failed'', ''protection_api_unsupported''))
      else if ''set_trading_stop'' \<notin> set (bx_callable ex)
      then Inr (False, Some (''failed'', ''set_trading_stop_not_callable''))
      else if apply_success env
      then map_sum id (\<lambda>v. (True, Some v)) (verify_futures_protection_from_exchange (pe_str env) ex (pe_positions env) symbol side 0)
      else Inr (False, None))"

text \<open>The order that closes the position when every attempt was refused.\<close>

definition emergency_close :: "bot_config \<Rightarrow> protect_env \<Rightarrow> string \<Rightarrow> real \<Rightarrow> bot_state \<Rightarrow> bot_state" where
  "emergency_close c env symbol qty s =
     (let symbol_u = str_upper symbol;
          order = \<lparr>se_symbol = symbol_u, se_side = (if qty > 0 then ''Sell'' else ''Buy''), se_qty = fmt_float \<bar>qty\<bar>, se_price = 0,
                   se_tif = ''GTC'', se_type = ''Market'',
                   se_link = ''prot-fail-'' @ symbol @ ''-'' @ pe_close_id env\<rparr>;
          s = s\<lparr>bs_sent := bs_sent s @ [order]\<rparr> in
      if stop_accepted (pe_close env) then reset_symbol_runtime_state c symbol s else s)"

definition protection_outcome ::
    "bot_config \<Rightarrow> protect_env \<Rightarrow> string \<Rightarrow> string \<Rightarrow> real \<Rightarrow> real \<Rightarrow> protection_plan \<Rightarrow> string \<Rightarrow> bool \<Rightarrow> (string \<times> string) option
     \<Rightarrow> bot_state \<Rightarrow> bot_state outcome_of" where
  "protection_outcome c env symbol side qty entry plan phase ok verified s =
     (let symbol_u = str_upper symbol;
          final_status = transition_protection_status (Some phase) True ok (map_option fst verified);
          refused = (final_status \<noteq> ''protected'' \<and> \<not> ok \<and> verified = None);
          verify_status = (case verified of None \<Rightarrow> if final_status \<noteq> ''protected'' then ''failed'' else [] | Some v \<Rightarrow> fst v);
          s = (if refused then emergency_close c env symbol qty s else s) in
      and_then (write_protection c env symbol_u side qty entry (Some plan) final_status s)
        (\<lambda>s. (bot_audit env (if final_status = ''protected'' then ''protection_plan_created'' else ''protection_failure'') symbol_u
           (bot_decision c env symbol side
              (if final_status = ''protected'' then ''protection_confirmed''
               else if phase = ''repairing'' then ''protection_repair_failed'' else ''protection_apply_failed'')
              (if final_status = ''protected'' then ''verify_confirmed'' else if verify_status = [] then ''failed'' else verify_status)
              (final_status = ''protected'') s), None)))"

definition ensure_futures_protection ::
    "bot_config \<Rightarrow> protect_env \<Rightarrow> string \<Rightarrow> real \<Rightarrow> real \<Rightarrow> bot_state \<Rightarrow> bot_state outcome_of" where
  "ensure_futures_protection c env symbol qty entry s =
     (case pe_executor env of
        None \<Rightarrow> (s, None)
      | Some ex \<Rightarrow>
          if bc_market c \<noteq> ''linear'' \<or> \<bar>qty\<bar> < max (position_floor c symbol s) (1 / 10 ^ 12) \<or> entry \<le> 0
             \<or> pe_mono env - bs_applied_at s symbol < 8 then (s, None)
          else
            let s = s\<lparr>bs_applied_at := (bs_applied_at s)(symbol := pe_mono env)\<rparr>;
                side = (if qty > 0 then ''Buy'' else ''Sell'');
                symbol_u = str_upper symbol;
                current = normalize_protection_status (Some
                  (case sort_key (\<lambda>r. - fp_updated r) (filter (\<lambda>r. fp_account r = ''UNIFIED'' \<and> fp_symbol r = symbol_u
                          \<and> fp_side r = side \<and> fp_idx r = 0 \<and> \<bar>fp_qty r\<bar> > 0) (fu_positions (bs_db s))) of
                     [] \<Rightarrow> ''pending'' | r # rs \<Rightarrow> str_lower (fp_protection r))) in
            (case build_futures_protection_plan entry qty (bs_stop_loss s symbol) (bs_take_profit s symbol) None of
               None \<Rightarrow>
                 let failed = transition_protection_status (Some current) True False (Some ''failed'') in
                 and_then (write_protection c env symbol_u side qty entry None failed s)
                   (\<lambda>s. (bot_audit env ''protection_failure'' symbol_u
                      (bot_decision c env symbol side ''protection_plan_failed'' ''invalid_protection_params'' False s), None))
             | Some plan \<Rightarrow>
                 let phase = (if current \<in> {''repairing'', ''unprotected'', ''failed''} then ''repairing'' else ''pending'') in
                 and_then (write_protection c env symbol_u side qty entry (Some plan) phase s)
                   (\<lambda>s. case apply_protection c env ex symbol_u side of
                      Inl e \<Rightarrow> (s, Some e)
                    | Inr (ok, verified) \<Rightarrow> protection_outcome c env symbol side qty entry plan phase ok verified s)))"

section \<open>What the search finds\<close>

lemma find_position_listed:
  "find_position str symbol side idx items candidate = Inr (Some d) \<Longrightarrow>
     candidate = Some d \<or> JObj d \<in> set items
       \<and> str_strip (str_upper (json_text str (json_or (json_key d ''symbol'') (JStr [])))) = symbol
       \<and> (\<exists>qty. item_float d ''size'' ''qty'' = Inr qty \<and> qty \<noteq> 0)"
  by (induction str symbol side idx items candidate rule: find_position.induct) (auto split: if_splits sum.splits)

text \<open>The position the exchange reports for a symbol, with both levels set.\<close>

definition reported_protected :: "(json \<Rightarrow> string) \<Rightarrow> json option \<Rightarrow> string \<Rightarrow> bool" where
  "reported_protected str answer symbol \<longleftrightarrow>
     (\<exists>resp v items d qty sl tp. answer = Some resp \<and> answer_ok resp = Inr True \<and> listed resp = Inr v \<and> json_items v = Inr items
        \<and> JObj d \<in> set items \<and> str_strip (str_upper (json_text str (json_or (json_key d ''symbol'') (JStr [])))) = symbol
        \<and> item_float d ''size'' ''qty'' = Inr qty \<and> qty \<noteq> 0
        \<and> json_float (json_or (json_key d ''stopLoss'') (JNum 0)) = Inr sl \<and> 0 < sl
        \<and> json_float (json_or (json_key d ''takeProfit'') (JNum 0)) = Inr tp \<and> 0 < tp)"

lemma level_status_protected:
  "level_status d = Inr (''protected'', why) \<Longrightarrow>
     \<exists>sl tp. json_float (json_or (json_key d ''stopLoss'') (JNum 0)) = Inr sl \<and> 0 < sl
       \<and> json_float (json_or (json_key d ''takeProfit'') (JNum 0)) = Inr tp \<and> 0 < tp"
  by (auto simp: level_status_def split: sum.splits if_splits)

lemma verified_is_reported:
  assumes "verify_futures_protection_from_exchange str ex answer symbol side idx = Inr (''protected'', why)"
  shows "reported_protected str answer (str_strip (str_upper symbol))"
proof -
  let ?find = "\<lambda>items. find_position str (str_strip (str_upper symbol)) (str_strip side) idx items None"
  obtain resp v items d where r: "answer = Some resp" "answer_ok resp = Inr True" "listed resp = Inr v" "json_items v = Inr items"
      and find: "?find items = Inr (Some d)" and level: "level_status d = Inr (''protected'', why)"
    using assms by (auto simp: verify_futures_protection_from_exchange_def split: if_splits option.splits sum.splits bool.splits)
  from find_position_listed [OF find] level_status_protected [OF level] r show ?thesis
    unfolding reported_protected_def by blast
qed

text \<open>A position on the other side, or with another index, counts as well when it is the first one listed.\<close>

lemma other_side_confirms:
  assumes "''get_positions'' \<in> set (bx_callable ex)" "answer_ok resp = Inr True" "listed resp = Inr (JArr [JObj d])"
    and "str_strip (str_upper (json_text str (json_or (json_key d ''symbol'') (JStr [])))) = str_strip (str_upper symbol)"
    and "item_float d ''size'' ''qty'' = Inr qty" "qty \<noteq> 0" "item_index d = Inr i"
    and "item_text str d ''side'' \<noteq> str_strip side"
  shows "verify_futures_protection_from_exchange str ex (Some resp) symbol side idx = level_status d"
  using assms by (simp add: verify_futures_protection_from_exchange_def)

section \<open>What the call writes\<close>

lemma statuses_valid:
  "status \<in> {''pending'', ''repairing'', ''failed'', ''unprotected'', ''protected'', ''closed''} \<Longrightarrow> check_protection_status status = Inr status"
  by (auto simp: check_protection_status_def FUTURES_PROTECTION_STATUSES_def str_eval py_space_def lower_char_def)

lemma transition_values:
  "transition_protection_status (Some phase) True ok v \<in> {''protected'', ''closed'', ''failed'', ''unprotected''}"
  by (simp add: transition_protection_status_def Let_def)

definition bot_key :: "string \<Rightarrow> string \<Rightarrow> string \<times> string \<times> string \<times> int" where
  "bot_key symbol side = (''UNIFIED'', str_upper symbol, side, 0)"

lemma write_protection_effect:
  assumes "status \<in> {''pending'', ''repairing'', ''failed'', ''unprotected'', ''protected'', ''closed''}"
  shows "\<exists>s'. write_protection c env (str_upper symbol) side qty entry plan status s = (s', None)
    \<and> (\<exists>r. row_at position_key (bot_key symbol side) (fu_positions (bs_db s')) = Some r \<and> fp_protection r = status \<and> fp_qty r = \<bar>qty\<bar>)
    \<and> s' = s\<lparr>bs_db := bs_db s'\<rparr>"
proof -
  define new where "new = (runtime_position_row c (str_upper symbol) side qty entry plan status)\<lparr>fp_symbol := str_upper symbol,
      fp_protection := status, fp_created := pe_now env, fp_updated := pe_now env\<rparr>"
  have key: "position_key new = bot_key symbol side"
    by (simp add: new_def position_key_def bot_key_def runtime_position_row_def)
  define row where "row = (case row_at position_key (bot_key symbol side) (fu_positions (bs_db s)) of None \<Rightarrow> new | Some old \<Rightarrow> merge_position old new)"
  have found: "row_at position_key (bot_key symbol side) (upsert_row position_key merge_position new (fu_positions (bs_db s))) = Some row"
    unfolding positions.upsert_lookup key row_def by simp
  have "fp_protection row = status" "fp_qty row = \<bar>qty\<bar>"
    by (simp_all add: row_def new_def merge_position_def runtime_position_row_def split: option.split)
  moreover have "upsert_futures_position (pe_now env) (runtime_position_row c (str_upper symbol) side qty entry plan status) db
      = Inr (db\<lparr>fu_positions := upsert_row position_key merge_position new (fu_positions db)\<rparr>)" for db
    using statuses_valid [OF assms] by (simp add: upsert_futures_position_def runtime_position_row_def new_def)
  ultimately show ?thesis
    using statuses_valid [OF assms] found
    by (simp add: write_protection_def put_bot_db_def upsert_futures_protection_def runtime_protection_row_def)
qed

lemma bot_frames [simp]:
  "fu_positions (bs_db (bot_audit env event symbol s)) = fu_positions (bs_db s)"
  "fu_positions (bs_db (bot_decision c env symbol side kind why applied s)) = fu_positions (bs_db s)"
  "bs_net (bot_audit env event symbol s) = bs_net s" "bs_net (bot_decision c env symbol side kind why applied s) = bs_net s"
  "bs_sent (bot_audit env event symbol s) = bs_sent s" "bs_sent (bot_decision c env symbol side kind why applied s) = bs_sent s"
  "bs_db (emergency_close c env symbol qty s) = bs_db s"
  "bs_seen (bot_audit env event symbol s) = bs_seen s" "bs_seen (bot_decision c env symbol side kind why applied s) = bs_seen s"
  "bs_seen (emergency_close c env symbol qty s) = bs_seen s"
  "bs_applied_at (bot_audit env event symbol s) = bs_applied_at s"
  "bs_applied_at (bot_decision c env symbol side kind why applied s) = bs_applied_at s"
  "bs_applied_at (emergency_close c env symbol qty s) = bs_applied_at s"
  by (simp_all add: bot_audit_def bot_decision_def on_bot_db_def insert_event_audit_def record_futures_decision_def
      insert_futures_position_decision_def emergency_close_def reset_symbol_runtime_state_def Let_def)

lemma outcome_effect:
  fixes c env symbol side qty entry plan phase ok verified s
  defines "status \<equiv> transition_protection_status (Some phase) True ok (map_option fst verified)"
  defines "t \<equiv> if \<not> ok \<and> verified = None then emergency_close c env symbol qty s else s"
  shows "\<exists>s'. protection_outcome c env symbol side qty entry plan phase ok verified s = (s', None)
    \<and> (\<exists>r. row_at position_key (bot_key symbol side) (fu_positions (bs_db s')) = Some r \<and> fp_protection r = status \<and> fp_qty r = \<bar>qty\<bar>)
    \<and> bs_net s' = bs_net t \<and> bs_sent s' = bs_sent t \<and> bs_seen s' = bs_seen s \<and> bs_applied_at s' = bs_applied_at s"
proof -
  have refused: "(status \<noteq> ''protected'' \<and> \<not> ok \<and> verified = None) = (\<not> ok \<and> verified = None)"
    by (auto simp: status_def transition_protection_status_def Let_def)
  obtain s1 where w: "write_protection c env (str_upper symbol) side qty entry (Some plan) status t = (s1, None)"
      "\<exists>r. row_at position_key (bot_key symbol side) (fu_positions (bs_db s1)) = Some r \<and> fp_protection r = status \<and> fp_qty r = \<bar>qty\<bar>"
      "s1 = t\<lparr>bs_db := bs_db s1\<rparr>"
    using write_protection_effect [of status c env symbol side qty entry "Some plan" t] transition_values [of phase ok "map_option fst verified"]
    by (auto simp: status_def)
  have same: "bs_net s1 = bs_net t" "bs_sent s1 = bs_sent t" "bs_seen s1 = bs_seen t" "bs_applied_at s1 = bs_applied_at t"
    by (subst w(3), simp)+
  then have same: "bs_net s1 = bs_net t" "bs_sent s1 = bs_sent t" "bs_seen s1 = bs_seen s" "bs_applied_at s1 = bs_applied_at s"
    by (simp_all add: t_def)
  show ?thesis
    unfolding protection_outcome_def Let_def status_def [symmetric] refused t_def [symmetric]
    using w(1,2) same by simp
qed

lemma verify_values:
  "verify_futures_protection_from_exchange str ex answer symbol side idx = Inr v
     \<Longrightarrow> fst v \<in> {''failed'', ''closed'', ''protected'', ''unprotected''}"
  by (auto simp: verify_futures_protection_from_exchange_def level_status_def split: if_splits option.splits sum.splits bool.splits)

lemma protected_outcome:
  assumes "apply_protection c env ex symbol side = Inr (ok, verified)"
    and "transition_protection_status (Some phase) True ok (map_option fst verified) = ''protected''"
  shows "apply_success env \<and> reported_protected (pe_str env) (pe_positions env) (str_strip (str_upper symbol))"
proof -
  have ok: "ok" using assms(2) by (auto simp: transition_protection_status_def Let_def split: if_splits)
  then obtain v where v: "apply_success env" "verified = Some v"
      "verify_futures_protection_from_exchange (pe_str env) ex (pe_positions env) symbol side 0 = Inr v"
    using assms(1)
    by (cases "verify_futures_protection_from_exchange (pe_str env) ex (pe_positions env) symbol side 0")
      (auto simp: apply_protection_def split: if_splits)
  have "fst v = ''protected''"
    using assms(2) ok v(2) verify_values [OF v(3)]
    by (auto simp: transition_protection_status_def Let_def normalize_protection_status_def split: if_splits)
  then have "verify_futures_protection_from_exchange (pe_str env) ex (pe_positions env) symbol side 0 = Inr (''protected'', snd v)"
    using v(3) by (cases v) simp
  with v(1) verified_is_reported show ?thesis by blast
qed

section \<open>The course of a call\<close>

text \<open>When the call does more than return at once.\<close>

definition protects_now :: "bot_config \<Rightarrow> protect_env \<Rightarrow> string \<Rightarrow> real \<Rightarrow> real \<Rightarrow> bot_state \<Rightarrow> bool" where
  "protects_now c env symbol qty entry s \<longleftrightarrow> bc_market c = ''linear'' \<and> pe_executor env \<noteq> None
     \<and> max (position_floor c symbol s) (1 / 10 ^ 12) \<le> \<bar>qty\<bar> \<and> 0 < entry \<and> 8 \<le> pe_mono env - bs_applied_at s symbol"

definition bot_plan :: "string \<Rightarrow> real \<Rightarrow> real \<Rightarrow> bot_state \<Rightarrow> protection_plan option" where
  "bot_plan symbol qty entry s = build_futures_protection_plan entry qty (bs_stop_loss s symbol) (bs_take_profit s symbol) None"

abbreviation bot_side :: "real \<Rightarrow> string" where
  "bot_side qty \<equiv> if qty > 0 then ''Buy'' else ''Sell''"

lemma ensure_cases:
  assumes "protects_now c env symbol qty entry s"
  obtains (no_plan) s1 where "bot_plan symbol qty entry s = None"
      "ensure_futures_protection c env symbol qty entry s = (bot_audit env ''protection_failure'' (str_upper symbol)
         (bot_decision c env symbol (bot_side qty) ''protection_plan_failed'' ''invalid_protection_params'' False s1), None)"
      "\<exists>r. row_at position_key (bot_key symbol (bot_side qty)) (fu_positions (bs_db s1)) = Some r \<and> fp_protection r = ''failed'' \<and> fp_qty r = \<bar>qty\<bar>"
      "bs_seen s1 = bs_seen s"
    | (plan) ex pln phase s1 where "pe_executor env = Some ex" "bot_plan symbol qty entry s = Some pln"
      "ensure_futures_protection c env symbol qty entry s = (case apply_protection c env ex (str_upper symbol) (bot_side qty) of
         Inl e \<Rightarrow> (s1, Some e)
       | Inr (ok, verified) \<Rightarrow> protection_outcome c env symbol (bot_side qty) qty entry pln phase ok verified s1)"
      "bs_net s1 = bs_net s" "bs_sent s1 = bs_sent s" "bs_seen s1 = bs_seen s" "bs_applied_at s1 symbol = pe_mono env"
proof -
  obtain ex where ex: "pe_executor env = Some ex" using assms by (auto simp: protects_now_def)
  have guards: "\<not> (bc_market c \<noteq> ''linear'' \<or> \<bar>qty\<bar> < max (position_floor c symbol s) (1 / 10 ^ 12) \<or> entry \<le> 0
      \<or> pe_mono env - bs_applied_at s symbol < 8)"
    using assms by (auto simp: protects_now_def)
  define t where "t = s\<lparr>bs_applied_at := (bs_applied_at s)(symbol := pe_mono env)\<rparr>"
  define current where "current = normalize_protection_status (Some
     (case sort_key (\<lambda>r. - fp_updated r) (filter (\<lambda>r. fp_account r = ''UNIFIED'' \<and> fp_symbol r = str_upper symbol
          \<and> fp_side r = bot_side qty \<and> fp_idx r = 0 \<and> \<bar>fp_qty r\<bar> > 0) (fu_positions (bs_db t))) of
       [] \<Rightarrow> ''pending'' | r # rs \<Rightarrow> str_lower (fp_protection r)))"
  have bplan: "build_futures_protection_plan entry qty (bs_stop_loss t symbol) (bs_take_profit t symbol) None = bot_plan symbol qty entry s"
    by (simp add: t_def bot_plan_def)
  have eq: "ensure_futures_protection c env symbol qty entry s =
     (case bot_plan symbol qty entry s of
        None \<Rightarrow> and_then (write_protection c env (str_upper symbol) (bot_side qty) qty entry None
                  (transition_protection_status (Some current) True False (Some ''failed'')) t)
                (\<lambda>s. (bot_audit env ''protection_failure'' (str_upper symbol)
                   (bot_decision c env symbol (bot_side qty) ''protection_plan_failed'' ''invalid_protection_params'' False s), None))
      | Some pln \<Rightarrow>
          and_then (write_protection c env (str_upper symbol) (bot_side qty) qty entry (Some pln)
              (if current \<in> {''repairing'', ''unprotected'', ''failed''} then ''repairing'' else ''pending'') t)
            (\<lambda>s. case apply_protection c env ex (str_upper symbol) (bot_side qty) of
               Inl e \<Rightarrow> (s, Some e)
             | Inr (ok, verified) \<Rightarrow> protection_outcome c env symbol (bot_side qty) qty entry pln
                 (if current \<in> {''repairing'', ''unprotected'', ''failed''} then ''repairing'' else ''pending'') ok verified s))"
    unfolding ensure_futures_protection_def ex option.case if_not_P [OF guards] Let_def t_def [symmetric] bplan current_def [symmetric] ..
  have failed: "transition_protection_status (Some current) True False (Some ''failed'') = ''failed''"
    by (simp add: transition_protection_status_def Let_def)
  show ?thesis
  proof (cases "bot_plan symbol qty entry s")
    case None
    from write_protection_effect [of "''failed''" c env symbol "bot_side qty" qty entry None t] obtain s1 where s1:
      "write_protection c env (str_upper symbol) (bot_side qty) qty entry None ''failed'' t = (s1, None)"
      "\<exists>r. row_at position_key (bot_key symbol (bot_side qty)) (fu_positions (bs_db s1)) = Some r \<and> fp_protection r = ''failed'' \<and> fp_qty r = \<bar>qty\<bar>"
      "s1 = t\<lparr>bs_db := bs_db s1\<rparr>"
      by auto
    have "bs_seen s1 = bs_seen s" by (subst \<open>s1 = _\<close>, simp add: t_def)
    with None s1(1,2) show ?thesis by (intro no_plan [of s1]) (simp_all add: eq failed)
  next
    case (Some pln)
    define phase where "phase = (if current \<in> {''repairing'', ''unprotected'', ''failed''} then ''repairing'' else ''pending'')"
    have "phase \<in> {''pending'', ''repairing'', ''failed'', ''unprotected'', ''protected'', ''closed''}" by (simp add: phase_def)
    from write_protection_effect [OF this, of c env symbol "bot_side qty" qty entry "Some pln" t] obtain s1 where
      s1: "write_protection c env (str_upper symbol) (bot_side qty) qty entry (Some pln) phase t = (s1, None)" "s1 = t\<lparr>bs_db := bs_db s1\<rparr>"
      by blast
    have "bs_net s1 = bs_net s" "bs_sent s1 = bs_sent s" "bs_seen s1 = bs_seen s" "bs_applied_at s1 symbol = pe_mono env"
      by (subst s1(2), simp add: t_def)+
    moreover have "ensure_futures_protection c env symbol qty entry s = (case apply_protection c env ex (str_upper symbol) (bot_side qty) of
         Inl e \<Rightarrow> (s1, Some e)
       | Inr (ok, verified) \<Rightarrow> protection_outcome c env symbol (bot_side qty) qty entry pln phase ok verified s1)"
      unfolding eq Some option.case phase_def [symmetric] s1(1) and_then_simps ..
    ultimately show ?thesis using Some ex by (intro plan [where ex = ex and pln = pln and ?s1.0 = s1 and phase = phase])
  qed
qed

lemma refused_closes:
  assumes "protects_now c env symbol qty entry s" and "bot_plan symbol qty entry s \<noteq> None" and "pe_executor env = Some ex"
    and "executor_supports_capability (Some ex) (Some ''protection'') (Some (bc_market c))"
    and "''set_trading_stop'' \<in> set (bx_callable ex)" and "\<not> apply_success env" and "stop_accepted (pe_close env)"
  shows "\<exists>s' link. ensure_futures_protection c env symbol qty entry s = (s', None) \<and> bs_net s' symbol = 0
    \<and> bs_sent s' = bs_sent s @ [\<lparr>se_symbol = str_upper symbol, se_side = (if qty > 0 then ''Sell'' else ''Buy''),
        se_qty = fmt_float \<bar>qty\<bar>, se_price = 0, se_tif = ''GTC'', se_type = ''Market'', se_link = link\<rparr>]
    \<and> (\<exists>r. row_at position_key (bot_key symbol (bot_side qty)) (fu_positions (bs_db s')) = Some r
        \<and> fp_qty r = \<bar>qty\<bar> \<and> fp_protection r = ''failed'')
    \<and> bs_seen s' = bs_seen s \<and> bs_applied_at s' symbol = pe_mono env"
  using assms(1)
proof (cases rule: ensure_cases)
  case (no_plan s1)
  then show ?thesis using assms(2) by simp
next
  case (plan ex' pln phase s1)
  then have tried: "apply_protection c env ex' (str_upper symbol) (bot_side qty) = Inr (False, None)"
    using assms by (simp add: apply_protection_def)
  have failed: "transition_protection_status (Some phase) True False None = ''failed''"
    by (simp add: transition_protection_status_def Let_def)
  from outcome_effect [of c env symbol "bot_side qty" qty entry pln phase False None s1] obtain s' where
    s': "protection_outcome c env symbol (bot_side qty) qty entry pln phase False None s1 = (s', None)"
      "\<exists>r. row_at position_key (bot_key symbol (bot_side qty)) (fu_positions (bs_db s')) = Some r \<and> fp_protection r = ''failed'' \<and> fp_qty r = \<bar>qty\<bar>"
      "bs_net s' = bs_net (emergency_close c env symbol qty s1)" "bs_sent s' = bs_sent (emergency_close c env symbol qty s1)"
      "bs_seen s' = bs_seen s1" "bs_applied_at s' = bs_applied_at s1"
    by (auto simp: failed)
  have "bs_net s' symbol = 0"
    "bs_sent s' = bs_sent s @ [\<lparr>se_symbol = str_upper symbol, se_side = (if qty > 0 then ''Sell'' else ''Buy''),
        se_qty = fmt_float \<bar>qty\<bar>, se_price = 0, se_tif = ''GTC'', se_type = ''Market'', se_link = ''prot-fail-'' @ symbol @ ''-'' @ pe_close_id env\<rparr>]"
    using s'(3,4) plan(5) assms(7) by (simp_all add: emergency_close_def reset_symbol_runtime_state_def Let_def)
  with s'(1,2,5,6) plan(3,6,7) tried show ?thesis by (intro exI [of _ s'] exI [of _ "''prot-fail-'' @ symbol @ ''-'' @ pe_close_id env"]) auto
qed

section \<open>Example inputs\<close>

definition sample_bot :: "string \<Rightarrow> bot_config" where
  "sample_bot market = \<lparr>bc_market = market, bc_strategy = ''Bot'', bc_min_qty = 1, bc_min_notional = 1, bc_hold_timeout = 60,
     bc_stop_loss = 1 / 100, bc_take_profit = 2 / 100, bc_target_profit = 0, bc_safety_buffer = 0\<rparr>"

definition sample_executor :: bot_executor where
  "sample_executor = \<lparr>bx_capabilities = None, bx_supports = (\<lambda>_. None), bx_callable = [''set_trading_stop'', ''get_positions'']\<rparr>"

text \<open>The exchange accepts or refuses every order and every level, and lists one protected position.\<close>

definition sample_protect :: "bool \<Rightarrow> protect_env" where
  "sample_protect accepts = \<lparr>pe_mono = 100, pe_now = 1, pe_uuid = sample_uuid, pe_str = (\<lambda>_. []), pe_executor = Some sample_executor,
     pe_set_stop = (\<lambda>_. if accepts then Some (JObj [(''retCode'', JNum 0)]) else None),
     pe_positions = Some (sample_answer 0 [JObj [(''symbol'', JStr ''BTCUSDT''), (''side'', JStr ''Buy''), (''size'', JNum 1),
        (''stopLoss'', JNum 99), (''takeProfit'', JNum 102)]]),
     pe_close = Some (JObj [(''retCode'', JNum 0)]), pe_close_id = ''a''\<rparr>"

definition sample_bot_state :: "string \<Rightarrow> bot_state" where
  "sample_bot_state market = new_bot_state (sample_bot market) [] empty_db"

lemma sample_protects: "protects_now (sample_bot ''linear'') (sample_protect b) ''BTCUSDT'' 1 100 (sample_bot_state ''linear'')"
  by (simp add: protects_now_def sample_bot_def sample_protect_def sample_bot_state_def new_bot_state_def position_floor_def)

lemma sample_plan: "bot_plan ''BTCUSDT'' 1 100 (sample_bot_state ''linear'') \<noteq> None"
  by (simp add: bot_plan_def sample_bot_state_def new_bot_state_def sample_bot_def build_futures_protection_plan_def
      validate_futures_protection_params_def)

lemma sample_supports: "executor_supports_capability (Some sample_executor) (Some ''protection'') market"
  by (simp add: executor_supports_capability_def sample_executor_def str_eval py_space_def lower_char_def)

lemma sample_attempt: "apply_success (sample_protect b) = b"
  by (simp add: apply_success_def sample_protect_def stop_accepted_def PROTECTION_MAX_RETRIES_def ret_code_ok_def json_key_def
      upt_rec numeral_3_eq_3)

lemma sample_verified:
  "verify_futures_protection_from_exchange (\<lambda>_. []) sample_executor
     (Some (sample_answer 0 [JObj [(''symbol'', JStr ''BTCUSDT''), (''side'', JStr ''Buy''), (''size'', JNum 1),
        (''stopLoss'', JNum 99), (''takeProfit'', JNum 102)]])) ''BTCUSDT'' ''Buy'' 0 = Inr (''protected'', ''confirmed_on_exchange'')"
proof -
  have "str_strip (str_upper ''BTCUSDT'') = ''BTCUSDT''" "str_strip ''Buy'' = ''Buy''"
    by (simp_all add: str_eval py_space_def upper_char_def)
  then show ?thesis
    by (simp add: verify_futures_protection_from_exchange_def sample_executor_def sample_answer_def answer_ok_def listed_def
        ret_code_ok_def json_or_def item_float_def item_index_def item_text_def json_key_def json_text_def level_status_def)
qed

section \<open>Properties\<close>

text \<open>
  C8: Once the process has tried to protect a position and no exception ended the attempt, its row has the size of the position and a
  final status, and it says protected only when the exchange accepted a call that sets the levels and the list
  of positions, read back, has an open position of the symbol (on whatever side and with whatever index) with a
  positive stop and a positive target. Their values are not compared with the levels that were set.
\<close>

theorem protected_rows_were_confirmed:
  assumes "protects_now c env symbol qty entry s" and "ensure_futures_protection c env symbol qty entry s = (s', None)"
  shows "\<exists>r. row_at position_key (bot_key symbol (bot_side qty)) (fu_positions (bs_db s')) = Some r \<and> fp_qty r = \<bar>qty\<bar>
    \<and> fp_protection r \<in> {''protected'', ''closed'', ''failed'', ''unprotected''}
    \<and> (fp_protection r = ''protected'' \<longrightarrow>
         apply_success env \<and> reported_protected (pe_str env) (pe_positions env) (str_strip (str_upper symbol)))"
  using assms(1)
proof (cases rule: ensure_cases)
  case (no_plan s1)
  then show ?thesis using assms(2) by auto
next
  case (plan ex pln phase s1)
  obtain ok verified where tried: "apply_protection c env ex (str_upper symbol) (bot_side qty) = Inr (ok, verified)"
    using plan(3) assms(2) by (cases "apply_protection c env ex (str_upper symbol) (bot_side qty)") auto
  let ?status = "transition_protection_status (Some phase) True ok (map_option fst verified)"
  from outcome_effect [of c env symbol "bot_side qty" qty entry pln phase ok verified s1] obtain r where
    "row_at position_key (bot_key symbol (bot_side qty)) (fu_positions (bs_db s')) = Some r" "fp_protection r = ?status" "fp_qty r = \<bar>qty\<bar>"
    using plan(3) assms(2) tried by auto
  moreover have "?status = ''protected'' \<Longrightarrow> apply_success env \<and> reported_protected (pe_str env) (pe_positions env) (str_strip (str_upper symbol))"
    using protected_outcome [OF tried] by simp
  ultimately show ?thesis using transition_values by auto
qed

theorem protected_rows_were_confirmed_witness:
  "\<exists>s' r. ensure_futures_protection (sample_bot ''linear'') (sample_protect True) ''BTCUSDT'' 1 100 (sample_bot_state ''linear'') = (s', None)
    \<and> row_at position_key (bot_key ''BTCUSDT'' ''Buy'') (fu_positions (bs_db s')) = Some r \<and> fp_qty r = 1"
proof -
  have "\<exists>s'. ensure_futures_protection (sample_bot ''linear'') (sample_protect True) ''BTCUSDT'' 1 100 (sample_bot_state ''linear'') = (s', None)"
    using sample_protects [of True]
  proof (cases rule: ensure_cases)
    case (plan ex pln phase s1)
    have "ex = sample_executor" using plan(1) by (simp add: sample_protect_def)
    moreover have "str_upper ''BTCUSDT'' = ''BTCUSDT''" by (simp add: str_upper_def upper_char_def)
    ultimately have "apply_protection (sample_bot ''linear'') (sample_protect True) ex (str_upper ''BTCUSDT'') (bot_side 1)
        = Inr (True, Some (''protected'', ''confirmed_on_exchange''))"
      using sample_supports sample_attempt [of True] sample_verified
      by (simp add: apply_protection_def) (simp add: sample_protect_def sample_executor_def)
    with plan(3) outcome_effect [of "sample_bot ''linear''" "sample_protect True" "''BTCUSDT''" "bot_side 1" 1 100 pln phase True
        "Some (''protected'', ''confirmed_on_exchange'')" s1]
    show ?thesis by auto
  qed auto
  then obtain s' where "ensure_futures_protection (sample_bot ''linear'') (sample_protect True) ''BTCUSDT'' 1 100 (sample_bot_state ''linear'') = (s', None)"
    by blast
  with protected_rows_were_confirmed [OF sample_protects this] show ?thesis by auto
qed

text \<open>
  C25: When every attempt to set the levels was refused, the position is closed by one market order of
  its size on the other side, and if that order is accepted the process forgets the position, while its
  row keeps the size, with the status failed.
\<close>

theorem refused_protection_closes_position:
  assumes "protects_now c env symbol qty entry s" and "bot_plan symbol qty entry s \<noteq> None" and "pe_executor env = Some ex"
    and "executor_supports_capability (Some ex) (Some ''protection'') (Some (bc_market c))"
    and "''set_trading_stop'' \<in> set (bx_callable ex)" and "\<not> apply_success env" and "stop_accepted (pe_close env)"
  shows "\<exists>s' link. ensure_futures_protection c env symbol qty entry s = (s', None) \<and> bs_net s' symbol = 0
    \<and> bs_sent s' = bs_sent s @ [\<lparr>se_symbol = str_upper symbol, se_side = (if qty > 0 then ''Sell'' else ''Buy''),
        se_qty = fmt_float \<bar>qty\<bar>, se_price = 0, se_tif = ''GTC'', se_type = ''Market'', se_link = link\<rparr>]
    \<and> (\<exists>r. row_at position_key (bot_key symbol (bot_side qty)) (fu_positions (bs_db s')) = Some r
        \<and> fp_qty r = \<bar>qty\<bar> \<and> fp_protection r = ''failed'')"
  using refused_closes [OF assms] by blast

theorem refused_protection_closes_position_witness:
  "\<exists>s'. fst (ensure_futures_protection (sample_bot ''linear'') (sample_protect False) ''BTCUSDT'' 1 100 (sample_bot_state ''linear'')) = s'
    \<and> bs_net s' ''BTCUSDT'' = 0 \<and> length (bs_sent s') = 1"
proof -
  have "pe_executor (sample_protect False) = Some sample_executor" "''set_trading_stop'' \<in> set (bx_callable sample_executor)"
    "stop_accepted (pe_close (sample_protect False))" "bs_sent (sample_bot_state ''linear'') = []"
    by (simp_all add: sample_protect_def sample_executor_def stop_accepted_def ret_code_ok_def json_key_def
        sample_bot_state_def new_bot_state_def)
  then show ?thesis
    using refused_protection_closes_position [OF sample_protects sample_plan _ sample_supports, of False] sample_attempt [of False]
    by auto
qed

end
