(* ===== verification/Lifecycle_Store.thy ===== *)
theory Lifecycle_Store
  imports Domain_Store Bandit
begin

text \<open>
  The tables of \<open>src/botik/storage/lifecycle_store.py\<close> the trading process works with: signals, the map
  from order links to signals, order events, executions and outcomes; and the statements of
  \<open>src/botik/storage/sqlite_store.py\<close> on the older tables of orders and fills. Columns that only describe
  the market of a signal are left out, and so is the retry of a statement on a locked database.
\<close>

record signal_row =
  sg_id :: string
  sg_symbol :: string
  sg_side :: string
  sg_profile :: string
  sg_size_base :: real
  sg_entry_price :: real
  sg_reward :: "real option"

record order_event =
  oe_symbol :: string
  oe_link :: "string option"
  oe_signal :: "string option"
  oe_side :: string
  oe_price :: real
  oe_qty :: real
  oe_status :: string

record execution_row =
  xr_id :: string
  xr_link :: "string option"
  xr_signal :: "string option"
  xr_symbol :: string
  xr_side :: string
  xr_price :: real
  xr_qty :: real
  xr_fee :: real
  xr_fee_currency :: string
  xr_time_ms :: int

record outcome_row =
  oc_signal :: string
  oc_symbol :: string
  oc_entry :: real
  oc_exit :: real
  oc_qty :: real
  oc_hold_ms :: int
  oc_gross :: real
  oc_net :: real
  oc_edge_bps :: real
  oc_filled :: bool
  oc_profitable :: bool
  oc_reason :: string

record older_fill =
  of_symbol :: string
  of_side :: string
  of_link :: "string option"
  of_price :: real
  of_qty :: real
  of_maker :: bool

record lifecycle_db =
  lf_signals :: "signal_row list"
  lf_map :: "(string, string option) dict"
  lf_events :: "order_event list"
  lf_executions :: "execution_row list"
  lf_outcomes :: "outcome_row list"
  lf_fills :: "older_fill list"
  lf_bandit :: bandit_table

definition empty_lifecycle :: lifecycle_db where
  "empty_lifecycle = \<lparr>lf_signals = [], lf_map = [], lf_events = [], lf_executions = [], lf_outcomes = [], lf_fills = [], lf_bandit = []\<rparr>"

section \<open>Statements\<close>

definition insert_signal_snapshot :: "signal_row \<Rightarrow> lifecycle_db \<Rightarrow> lifecycle_db" where
  "insert_signal_snapshot r l = l\<lparr>lf_signals := insert_new_row sg_id (r\<lparr>sg_reward := None\<rparr>) (lf_signals l)\<rparr>"

definition set_order_signal_map :: "string \<Rightarrow> string option \<Rightarrow> lifecycle_db \<Rightarrow> lifecycle_db" where
  "set_order_signal_map link signal_id l = l\<lparr>lf_map := dict_set link signal_id (lf_map l)\<rparr>"

definition get_signal_id_for_order_link :: "string option \<Rightarrow> lifecycle_db \<Rightarrow> string option" where
  "get_signal_id_for_order_link link l =
     (if or_empty link = [] then None
      else case dict_get (lf_map l) (or_empty link) of
          None \<Rightarrow> None | Some signal_id \<Rightarrow> if or_empty signal_id = [] then None else signal_id)"

definition insert_order_event :: "order_event \<Rightarrow> lifecycle_db \<Rightarrow> lifecycle_db" where
  "insert_order_event r l = l\<lparr>lf_events := lf_events l @ [r]\<rparr>"

definition insert_execution_event :: "execution_row \<Rightarrow> lifecycle_db \<Rightarrow> lifecycle_db" where
  "insert_execution_event r l = l\<lparr>lf_executions := insert_new_row xr_id r (lf_executions l)\<rparr>"

definition replace_outcome :: "outcome_row \<Rightarrow> outcome_row \<Rightarrow> outcome_row" where
  "replace_outcome old new = new"

definition upsert_outcome :: "outcome_row \<Rightarrow> lifecycle_db \<Rightarrow> lifecycle_db" where
  "upsert_outcome r l = l\<lparr>lf_outcomes := upsert_row oc_signal replace_outcome r (lf_outcomes l)\<rparr>"

definition upsert_signal_reward :: "string \<Rightarrow> real \<Rightarrow> lifecycle_db \<Rightarrow> lifecycle_db" where
  "upsert_signal_reward signal_id reward l =
     l\<lparr>lf_signals := map (\<lambda>r. if sg_id r = signal_id then r\<lparr>sg_reward := Some reward\<rparr> else r) (lf_signals l)\<rparr>"

definition insert_fill :: "older_fill \<Rightarrow> lifecycle_db \<Rightarrow> lifecycle_db" where
  "insert_fill r l = l\<lparr>lf_fills := lf_fills l @ [r]\<rparr>"

text \<open>The older orders; \<open>order_link_id\<close> is unique, so that a second row for a link raises.\<close>

definition insert_order :: "legacy_order \<Rightarrow> domain_db \<Rightarrow> py_error + domain_db" where
  "insert_order r db =
     (if lo_link r \<noteq> None \<and> lo_link r \<in> lo_link ` set (db_legacy db) then Inl DatabaseError
      else Inr (db\<lparr>db_legacy := db_legacy db @ [r\<lparr>lo_entry_price := None, lo_exit_price := None\<rparr>]\<rparr>))"

definition update_order_status :: "string \<Rightarrow> string \<Rightarrow> string option \<Rightarrow> domain_db \<Rightarrow> domain_db" where
  "update_order_status link status exchange_order_id db =
     db\<lparr>db_legacy := map (\<lambda>r. if lo_link r = Some link
        then (if or_empty exchange_order_id = [] then r\<lparr>lo_status := status\<rparr>
              else r\<lparr>lo_status := status, lo_exchange_id := exchange_order_id\<rparr>) else r) (db_legacy db)\<rparr>"

definition update_orders_entry_exit_for_signal ::
    "string \<Rightarrow> real option \<Rightarrow> real option \<Rightarrow> lifecycle_db \<Rightarrow> domain_db \<Rightarrow> domain_db" where
  "update_orders_entry_exit_for_signal signal_id entry_price exit_price l db =
     (if signal_id = [] then db
      else let links = map fst (filter (\<lambda>p. snd p = Some signal_id) (lf_map l)) in
        db\<lparr>db_legacy := map (\<lambda>r. if lo_link r \<in> Some ` set links
           then r\<lparr>lo_entry_price := entry_price, lo_exit_price := exit_price\<rparr> else r) (db_legacy db)\<rparr>)"

text \<open>\<open>policy_selector.update_reward\<close>: the bandit reads symbol and profile of the signal.\<close>

definition update_reward :: "bandit \<Rightarrow> string \<Rightarrow> real \<Rightarrow> lifecycle_db \<Rightarrow> lifecycle_db" where
  "update_reward b signal_id reward l =
     l\<lparr>lf_bandit := update_signal b (map (\<lambda>r. (sg_id r, sg_symbol r, sg_profile r)) (lf_signals l)) signal_id (Some reward) (lf_bandit l)\<rparr>"

interpretation outcomes: keyed_rows oc_signal replace_outcome
  by unfold_locales (simp add: replace_outcome_def)

end
