(* ===== verification/Execution_Sync.thy ===== *)
theory Execution_Sync
  imports Protection_Loop Lifecycle_Store
begin

text \<open>
  How the trading process (\<open>src/botik/main.py\<close>) turns the executions the exchange reports into positions,
  holdings, outcomes and rewards: \<open>refresh_positions_from_executions\<close> with its helpers, and the replay at
  the start, \<open>recover_positions_on_startup\<close>. It composes the accounting of fills, the protection of
  futures positions, the stores and the bandit.

  The executions of a symbol are worked through oldest first; an execution is one atomic step. What
  \<open>str\<close> gives for a value that is no string is an argument.
\<close>

section \<open>Outcomes of signals\<close>

definition sum_signal_fees_quote :: "string \<Rightarrow> string \<Rightarrow> lifecycle_db \<Rightarrow> real" where
  "sum_signal_fees_quote signal_id symbol l =
     sum_list (map (\<lambda>r. fee_to_quote symbol (xr_fee r) (xr_fee_currency r) (xr_price r))
       (filter (\<lambda>r. xr_signal r = Some signal_id) (lf_executions l)))"

definition load_signal_entry_basis :: "string \<Rightarrow> lifecycle_db \<Rightarrow> real \<times> real" where
  "load_signal_entry_basis signal_id l =
     (case row_at sg_id signal_id (lf_signals l) of None \<Rightarrow> (0, 0) | Some r \<Rightarrow> (sg_entry_price r, sg_size_base r))"

record signal_sums =
  su_symbol :: string
  su_buy_qty :: real
  su_buy_notional :: real
  su_sell_qty :: real
  su_sell_notional :: real
  su_fees :: real
  su_first_buy :: "int option"
  su_last_sell :: "int option"

definition add_execution :: "execution_row \<Rightarrow> signal_sums \<Rightarrow> signal_sums" where
  "add_execution r u =
     (let symbol = (let row_symbol = str_strip (str_upper (xr_symbol r)) in if row_symbol = [] then su_symbol u else row_symbol);
          side = str_lower (xr_side r); t = xr_time_ms r; u = u\<lparr>su_symbol := symbol\<rparr> in
      if xr_price r \<le> 0 \<or> xr_qty r \<le> 0 then u
      else
        let u = (if side = ''buy'' then
                   u\<lparr>su_buy_qty := su_buy_qty u + xr_qty r, su_buy_notional := su_buy_notional u + xr_price r * xr_qty r,
                     su_first_buy := (case su_first_buy u of
                        None \<Rightarrow> if t > 0 then Some t else None
                      | Some first \<Rightarrow> if t > 0 \<and> t < first then Some t else Some first)\<rparr>
                 else if side = ''sell'' then
                   u\<lparr>su_sell_qty := su_sell_qty u + xr_qty r, su_sell_notional := su_sell_notional u + xr_price r * xr_qty r,
                     su_last_sell := (case su_last_sell u of
                        None \<Rightarrow> if t > 0 then Some t else None
                      | Some latest \<Rightarrow> if t > latest \<and> t > 0 then Some t else Some latest)\<rparr>
                 else u) in
        u\<lparr>su_fees := su_fees u + fee_to_quote symbol (xr_fee r) (xr_fee_currency r) (xr_price r)\<rparr>)"

definition signal_rows :: "string \<Rightarrow> lifecycle_db \<Rightarrow> execution_row list" where
  "signal_rows signal_id l = sort_key xr_time_ms (filter (\<lambda>r. xr_signal r = Some signal_id) (lf_executions l))"

definition signal_totals :: "string \<Rightarrow> execution_row list \<Rightarrow> signal_sums" where
  "signal_totals symbol rows = fold add_execution rows
     \<lparr>su_symbol = symbol, su_buy_qty = 0, su_buy_notional = 0, su_sell_qty = 0, su_sell_notional = 0, su_fees = 0,
      su_first_buy = None, su_last_sell = None\<rparr>"

text \<open>The outcome row, its edge in basis points.\<close>

definition roundtrip_outcome :: "string \<Rightarrow> signal_sums \<Rightarrow> lifecycle_db \<Rightarrow> outcome_row" where
  "roundtrip_outcome signal_id u l =
     (let entry_vwap = su_buy_notional u / su_buy_qty u;
          exit_vwap = su_sell_notional u / su_sell_qty u;
          matched = min (su_buy_qty u) (su_sell_qty u);
          hold = (case (su_first_buy u, su_last_sell u) of
                    (Some first, Some latest) \<Rightarrow> if first \<noteq> 0 \<and> latest \<noteq> 0 \<and> latest \<ge> first then latest - first else 0
                  | _ \<Rightarrow> 0);
          gross = (exit_vwap - entry_vwap) * matched;
          net = gross - su_fees u;
          basis = load_signal_entry_basis signal_id l;
          denom = (if entry_vwap * matched \<le> 0 \<and> fst basis > 0 \<and> snd basis > 0 then fst basis * snd basis
                   else entry_vwap * matched);
          edge = (if denom > 0 then net / denom * 10000 else 0) in
      \<lparr>oc_signal = signal_id, oc_symbol = su_symbol u, oc_entry = entry_vwap, oc_exit = exit_vwap, oc_qty = matched,
       oc_hold_ms = hold, oc_gross = gross, oc_net = net, oc_edge_bps = edge,
       oc_filled = (su_sell_qty u \<ge> su_buy_qty u - 1 / 10 ^ 9), oc_profitable = (net > 0), oc_reason = ''signal_roundtrip''\<rparr>)"

text \<open>An outcome and the reward of its signal.\<close>

definition record_outcome :: "outcome_row \<Rightarrow> lifecycle_db \<Rightarrow> lifecycle_db" where
  "record_outcome r l = upsert_signal_reward (oc_signal r) (oc_edge_bps r) (upsert_outcome r l)"

definition sync_signal_outcome_from_executions ::
    "bandit \<Rightarrow> string option \<Rightarrow> string \<Rightarrow> domain_db \<times> lifecycle_db \<Rightarrow> domain_db \<times> lifecycle_db" where
  "sync_signal_outcome_from_executions b signal symbol_hint st =
     (let (db, l) = st; signal_id = or_empty signal; rows = signal_rows signal_id l in
      if signal_id = [] \<or> rows = [] then st
      else
        let symbol = str_strip (str_upper (if xr_symbol (hd rows) = [] then symbol_hint else xr_symbol (hd rows))) in
        if symbol = [] then st
        else
          let u = signal_totals symbol rows in
          if su_buy_qty u \<le> 0 \<or> su_buy_notional u \<le> 0 then st
          else
            let entry_vwap = su_buy_notional u / su_buy_qty u;
                exit_vwap = (if su_sell_qty u > 0 \<and> su_sell_notional u > 0 then Some (su_sell_notional u / su_sell_qty u) else None);
                db = update_orders_entry_exit_for_signal signal_id (Some entry_vwap) exit_vwap l db in
            if exit_vwap = None \<or> min (su_buy_qty u) (su_sell_qty u) \<le> 0 then (db, l)
            else
              let r = roundtrip_outcome signal_id u l in
              (db, update_reward b signal_id (oc_edge_bps r) (record_outcome r l)))"

section \<open>One execution\<close>

record fill_item =
  fi_id :: string
  fi_side :: string
  fi_side_text :: string
  fi_qty :: real
  fi_price :: real
  fi_link :: "string option"
  fi_order :: "string option"
  fi_fee :: real
  fi_currency :: string
  fi_time_ms :: int
  fi_maker :: bool
  fi_rate_error :: "py_error option"
  fi_value_error :: "py_error option"

definition error_of :: "py_error + 'a \<Rightarrow> py_error option" where
  "error_of r = (case r of Inl e \<Rightarrow> Some e | Inr v \<Rightarrow> None)"

definition given_text :: "(json \<Rightarrow> string) \<Rightarrow> json \<Rightarrow> string option" where
  "given_text str v = (if json_truthy v then Some (json_text str v) else None)"

definition execution_id :: "(json \<Rightarrow> string) \<Rightarrow> (string, json) dict \<Rightarrow> string" where
  "execution_id str d =
     (if json_truthy (json_key d ''execId'') then json_text str (json_key d ''execId'')
      else str_join '':'' (map (\<lambda>k. json_text str (json_key d k)) [''orderId'', ''execTime'', ''execQty'', ''symbol'']))"

text \<open>The fields of an execution; \<open>None\<close> when it is skipped.\<close>

definition read_execution :: "(json \<Rightarrow> string) \<Rightarrow> int \<Rightarrow> (string, json) dict \<Rightarrow> py_error + fill_item option" where
  "read_execution str now_ms d =
     (let side = str_lower (json_text str (json_or (json_key d ''side'') (JStr []))) in
      case item_float d ''execQty'' ''qty'' of
        Inl e \<Rightarrow> Inl e
      | Inr qty \<Rightarrow>
          (case item_float d ''execPrice'' ''price'' of
             Inl e \<Rightarrow> Inl e
           | Inr price \<Rightarrow>
               if qty \<le> 0 \<or> side \<notin> {''buy'', ''sell''} then Inr None
               else
                 (case json_float (json_or (json_key d ''execFee'') (JNum 0)) of
                    Inl e \<Rightarrow> Inl e
                  | Inr fee \<Rightarrow>
                      (case json_int (json_or (json_key d ''execTime'') (JNum 0)) of
                         Inl e \<Rightarrow> Inl e
                       | Inr t \<Rightarrow> Inr (Some
                           \<lparr>fi_id = execution_id str d, fi_side = side, fi_side_text = json_text str (json_key d ''side''), fi_qty = qty, fi_price = price,
                            fi_link = given_text str (json_key d ''orderLinkId''), fi_order = given_text str (json_key d ''orderId''),
                            fi_fee = fee, fi_currency = json_text str (json_or (json_key d ''feeCurrency'') (JStr [])),
                            fi_time_ms = (if t = 0 then now_ms else t),
                            fi_maker = (str_lower (json_text str (json_or (json_key d ''isMaker'') (JStr []))) = ''true''),
                            fi_rate_error = (if json_truthy (json_key d ''feeRate'') then error_of (json_float (json_key d ''feeRate'')) else None),
                            fi_value_error = (case json_float (json_or (json_key d ''execQty'') (JNum 0)) of
                               Inl e \<Rightarrow> Some e
                             | Inr v \<Rightarrow> if json_truthy (json_key d ''execValue'') then error_of (json_float (json_key d ''execValue'')) else None)\<rparr>)))))"

text \<open>A fee taken in the base asset changes what the wallet gains or loses.\<close>

definition effective_qty :: "string \<Rightarrow> string \<Rightarrow> real \<Rightarrow> real \<Rightarrow> string \<Rightarrow> real" where
  "effective_qty symbol side qty fee fee_currency =
     (let base = fst (split_symbol_base_quote (str_upper symbol)) in
      if base \<noteq> [] \<and> str_upper fee_currency = base
      then (if side = ''buy'' then max (qty - fee) 0 else qty + max fee 0)
      else qty)"

record sync_env =
  sv_protect :: protect_env
  sv_now_ms :: int
  sv_bandit :: bandit

record sync_state =
  sy_bot :: bot_state
  sy_life :: lifecycle_db

definition on_bot :: "(bot_state \<Rightarrow> bot_state) \<Rightarrow> sync_state \<Rightarrow> sync_state" where
  "on_bot f s = s\<lparr>sy_bot := f (sy_bot s)\<rparr>"

definition on_life :: "(lifecycle_db \<Rightarrow> lifecycle_db) \<Rightarrow> sync_state \<Rightarrow> sync_state" where
  "on_life f s = s\<lparr>sy_life := f (sy_life s)\<rparr>"

definition in_bot :: "(bot_state \<Rightarrow> bot_state outcome_of) \<Rightarrow> sync_state \<Rightarrow> sync_state outcome_of" where
  "in_bot f s = (s\<lparr>sy_bot := fst (f (sy_bot s))\<rparr>, snd (f (sy_bot s)))"

definition seen_limit :: nat where
  "seen_limit = 20000"

definition mark_seen :: "string \<Rightarrow> bot_state \<Rightarrow> bot_state" where
  "mark_seen exec_id s =
     (let seen = List.insert exec_id (bs_seen s) in s\<lparr>bs_seen := (if length seen > seen_limit then [] else seen)\<rparr>)"

definition is_effective :: "bot_config \<Rightarrow> real \<Rightarrow> real \<Rightarrow> real \<Rightarrow> real \<Rightarrow> bool" where
  "is_effective c level notional_level qty price \<longleftrightarrow>
     \<bar>qty\<bar> \<ge> level \<and> (bc_market c \<noteq> ''spot'' \<or> notional_level \<le> 0 \<or> \<bar>qty\<bar> * price \<ge> notional_level)"

definition runtime_holding :: "bot_config \<Rightarrow> string \<Rightarrow> string \<Rightarrow> real \<Rightarrow> real option \<Rightarrow> holding_row" where
  "runtime_holding c symbol base qty avg =
     \<lparr>hr_account = ''UNIFIED'', hr_symbol = symbol, hr_asset = base, hr_free = qty, hr_locked = 0, hr_avg_entry = avg,
      hr_reason = ''strategy_entry'', hr_source = ''runtime_fills'', hr_recovered = False, hr_owner = Some (bc_strategy c),
      hr_auto_sell = True, hr_created = 0, hr_updated = 0\<rparr>"

text \<open>What the tables of the market learn of the new quantity.\<close>

definition mirror_quantity ::
    "bot_config \<Rightarrow> sync_env \<Rightarrow> string \<Rightarrow> bool \<Rightarrow> real \<Rightarrow> real \<Rightarrow> real \<Rightarrow> bot_state \<Rightarrow> bot_state outcome_of" where
  "mirror_quantity c env symbol eff qty avg price s =
     (let base = fst (split_symbol_base_quote (str_upper symbol)); entry = (if avg > 0 then avg else price) in
      and_then (if bc_market c = ''linear'' \<and> eff then ensure_futures_protection c (sv_protect env) symbol qty entry s else (s, None))
        (\<lambda>s. if bc_market c = ''spot'' \<and> base \<noteq> [] then
               (if eff \<and> qty > 0 then
                  put_bot_db (upsert_spot_holding (pe_now (sv_protect env)) (runtime_holding c symbol base \<bar>qty\<bar> (Some entry))) s
                else if \<not> eff then
                  put_bot_db (upsert_spot_holding (pe_now (sv_protect env)) (runtime_holding c symbol base 0 None)) s
                else (s, None))
             else (s, None)))"


text \<open>The entry of the dictionaries for a new quantity.\<close>

definition hold_position :: "string \<Rightarrow> real \<times> real \<Rightarrow> bot_state \<Rightarrow> bot_state" where
  "hold_position symbol pos s =
     s\<lparr>bs_known := know symbol (bs_known s), bs_net := (bs_net s)(symbol := fst pos), bs_avg := (bs_avg s)(symbol := snd pos)\<rparr>"

definition open_runtime :: "sync_env \<Rightarrow> string \<Rightarrow> string option \<Rightarrow> int \<Rightarrow> bot_state \<Rightarrow> bot_state" where
  "open_runtime env symbol signal t s =
     s\<lparr>bs_opened_at := (bs_opened_at s)(symbol := Some (pe_mono (sv_protect env))), bs_opened_ms := (bs_opened_ms s)(symbol := Some t),
       bs_signal := (bs_signal s)(symbol := signal), bs_peak_bps := (bs_peak_bps s)(symbol := 0)\<rparr>"

text \<open>A position that is gone: its outcome, from the quantity and the average before the execution.\<close>

definition flat_outcome ::
    "sync_env \<Rightarrow> string \<Rightarrow> string option \<Rightarrow> fill_item \<Rightarrow> real \<Rightarrow> real \<Rightarrow> sync_state \<Rightarrow> outcome_row" where
  "flat_outcome env symbol signal it old_qty old_avg s =
     (let l = sy_life s;
          hold = (case bs_opened_at (sy_bot s) symbol of
                    Some opened \<Rightarrow> if opened \<noteq> 0 then py_trunc ((pe_mono (sv_protect env) - opened) * 1000) else 0
                  | None \<Rightarrow> 0);
          closed_qty = \<bar>old_qty\<bar>;
          entry_vwap = (if old_avg > 0 then old_avg else fi_price it);
          gross = (if closed_qty > 0 then (if old_qty > 0 then (fi_price it - entry_vwap) * closed_qty else (entry_vwap - fi_price it) * closed_qty)
                   else 0);
          signal_id = (if or_empty (bs_signal (sy_bot s) symbol) \<noteq> [] then or_empty (bs_signal (sy_bot s) symbol) else or_empty signal);
          fees = (if signal_id \<noteq> [] then sum_signal_fees_quote signal_id symbol l
                  else fee_to_quote symbol (fi_fee it) (str_upper (fi_currency it)) (fi_price it));
          net = gross - fees;
          basis = load_signal_entry_basis signal_id l;
          denom = (if entry_vwap * closed_qty \<le> 0 \<and> signal_id \<noteq> [] \<and> fst basis > 0 \<and> snd basis > 0
                   then fst basis * snd basis else entry_vwap * closed_qty);
          edge = (if denom > 0 then net / denom * 10000 else 0) in
      \<lparr>oc_signal = signal_id, oc_symbol = symbol, oc_entry = entry_vwap, oc_exit = fi_price it, oc_qty = closed_qty, oc_hold_ms = hold,
       oc_gross = gross, oc_net = net, oc_edge_bps = edge, oc_filled = True, oc_profitable = (net > 0), oc_reason = ''position_flat''\<rparr>)"

text \<open>The outcome stored, the orders of the signal updated, the bandit rewarded.\<close>

definition reward_signal :: "sync_env \<Rightarrow> outcome_row \<Rightarrow> sync_state \<Rightarrow> sync_state" where
  "reward_signal env r s =
     (if oc_signal r = [] then s
      else
        let l = record_outcome r (sy_life s) in
        s\<lparr>sy_bot := on_bot_db (update_orders_entry_exit_for_signal (oc_signal r) (Some (oc_entry r)) (Some (oc_exit r)) l) (sy_bot s),
          sy_life := update_reward (sv_bandit env) (oc_signal r) (oc_edge_bps r) l\<rparr>)"

definition closed_position_row :: "bot_config \<Rightarrow> string \<Rightarrow> string \<Rightarrow> real \<Rightarrow> real \<Rightarrow> position_row" where
  "closed_position_row c symbol side entry price =
     \<lparr>fp_account = ''UNIFIED'', fp_symbol = str_upper symbol, fp_side = side, fp_idx = 0, fp_margin = Some [], fp_leverage = None,
      fp_qty = 0, fp_entry = (if entry > 0 then Some entry else None), fp_mark = Some price, fp_liq = None,
      fp_unrealized = Some 0, fp_realized = None, fp_take = None, fp_stop = None, fp_trailing = None, fp_protection = ''closed'',
      fp_source = ''runtime_fills'', fp_recovered = False, fp_owner = Some (bc_strategy c), fp_created = 0, fp_updated = 0\<rparr>"

definition closed_protection_row :: "string \<Rightarrow> string \<Rightarrow> protection_row" where
  "closed_protection_row symbol side = (runtime_protection_row (str_upper symbol) side None ''closed'')\<lparr>pt_source := ''runtime_fills''\<rparr>"

definition close_futures_rows :: "bot_config \<Rightarrow> sync_env \<Rightarrow> string \<Rightarrow> string \<Rightarrow> real \<Rightarrow> real \<Rightarrow> bot_state \<Rightarrow> bot_state outcome_of" where
  "close_futures_rows c env symbol side entry price s =
     (let p = sv_protect env in
      and_then (put_bot_db (upsert_futures_position (pe_now p) (closed_position_row c symbol side entry price)) s)
        (\<lambda>s. and_then (put_bot_db (upsert_futures_protection (pe_uuid p) (pe_now p) (closed_protection_row symbol side)) s)
           (\<lambda>s. (bot_decision c p symbol side ''position_closed'' ''position_flat'' True s, None))))"

definition settle_flat ::
    "bot_config \<Rightarrow> sync_env \<Rightarrow> string \<Rightarrow> string option \<Rightarrow> fill_item \<Rightarrow> real \<Rightarrow> real \<Rightarrow> sync_state \<Rightarrow> sync_state outcome_of" where
  "settle_flat c env symbol signal it old_qty old_avg s =
     (let r = flat_outcome env symbol signal it old_qty old_avg s; s = reward_signal env r s in
      and_then
        (if bc_market c = ''linear''
         then in_bot (close_futures_rows c env symbol (if old_qty > 0 then ''Buy'' else ''Sell'') (oc_entry r) (fi_price it)) s
         else (s, None))
        (\<lambda>s. (on_bot (reset_symbol_runtime_state c symbol) s, None)))"

text \<open>What the tables of orders and fills learn.\<close>

definition filled_event :: "string \<Rightarrow> string option \<Rightarrow> fill_item \<Rightarrow> order_event" where
  "filled_event symbol signal it =
     \<lparr>oe_symbol = symbol, oe_link = fi_link it, oe_signal = signal, oe_side = fi_side_text it, oe_price = fi_price it,
      oe_qty = fi_qty it, oe_status = ''Filled''\<rparr>"

definition runtime_fill :: "string \<Rightarrow> fill_item \<Rightarrow> fill_row" where
  "runtime_fill symbol it =
     \<lparr>fl_account = ''UNIFIED'', fl_symbol = str_upper symbol, fl_side = (if fi_side it = ''buy'' then ''Buy'' else ''Sell''),
      fl_exec = fi_id it, fl_order = fi_order it, fl_link = fi_link it, fl_price = fi_price it, fl_qty = fi_qty it,
      fl_fee = Some (fi_fee it), fl_currency = or_null (Some (fi_currency it)), fl_maker = Some (fi_maker it),
      fl_time = Some (fi_time_ms it), fl_created = 0\<rparr>"

definition write_runtime_fill_legacy_and_domain :: "string \<Rightarrow> string \<Rightarrow> int \<Rightarrow> fill_row \<Rightarrow> domain_db \<times> lifecycle_db \<Rightarrow> domain_db \<times> lifecycle_db" where
  "write_runtime_fill_legacy_and_domain market symbol now f st =
     (let (db, l) = st in
      (if norm_lower (Some market) = ''linear'' then insert_futures_fill now f db else insert_spot_fill now f db,
       insert_fill \<lparr>of_symbol = symbol, of_side = fl_side f, of_link = fl_link f, of_price = fl_price f, of_qty = fl_qty f,
         of_maker = (fl_maker f = Some True)\<rparr> l))"

definition record_fill :: "bot_config \<Rightarrow> sync_env \<Rightarrow> string \<Rightarrow> string option \<Rightarrow> fill_item \<Rightarrow> sync_state \<Rightarrow> sync_state" where
  "record_fill c env symbol signal it s =
     (let l = insert_order_event (filled_event symbol signal it) (sy_life s);
          (db, l) = write_runtime_fill_legacy_and_domain (bc_market c) symbol (pe_now (sv_protect env)) (runtime_fill symbol it) (bs_db (sy_bot s), l);
          db = (if or_empty (fi_link it) \<noteq> [] then update_order_status (or_empty (fi_link it)) ''Filled'' (fi_order it) db else db);
          (db, l) = sync_signal_outcome_from_executions (sv_bandit env) signal symbol (db, l) in
      s\<lparr>sy_bot := (sy_bot s)\<lparr>bs_db := db\<rparr>, sy_life := l\<rparr>)"

definition execution_of :: "string \<Rightarrow> string option \<Rightarrow> fill_item \<Rightarrow> execution_row" where
  "execution_of symbol signal it =
     \<lparr>xr_id = fi_id it, xr_link = fi_link it, xr_signal = signal, xr_symbol = symbol, xr_side = fi_side_text it, xr_price = fi_price it,
      xr_qty = fi_qty it, xr_fee = fi_fee it, xr_fee_currency = fi_currency it, xr_time_ms = fi_time_ms it\<rparr>"

definition raise_if :: "py_error option \<Rightarrow> 's \<Rightarrow> 's outcome_of" where
  "raise_if e s = (s, e)"

text \<open>The levels of an execution: the quantity and the value a position of the symbol needs to count.\<close>

definition book_execution ::
    "bot_config \<Rightarrow> sync_env \<Rightarrow> string \<Rightarrow> real \<Rightarrow> real \<Rightarrow> fill_item \<Rightarrow> sync_state \<Rightarrow> sync_state outcome_of" where
  "book_execution c env symbol level notional_level it s =
     (let signal = get_signal_id_for_order_link (fi_link it) (sy_life s);
          qty = effective_qty symbol (fi_side it) (fi_qty it) (fi_fee it) (fi_currency it) in
      if qty \<le> 0 then (s, None)
      else and_then (raise_if (fi_rate_error it) s) (\<lambda>s.
        let s = on_life (insert_execution_event (execution_of symbol signal it)) s;
            old_qty = bs_net (sy_bot s) symbol; old_avg = bs_avg (sy_bot s) symbol;
            (new_qty, new_avg) = apply_fill old_qty old_avg (fi_side it) qty (fi_price it);
            eff = is_effective c level notional_level new_qty (fi_price it);
            s = on_bot (hold_position symbol (new_qty, new_avg)) s in
        and_then (in_bot (mirror_quantity c env symbol eff new_qty new_avg (fi_price it)) s) (\<lambda>s.
        and_then (if \<bar>old_qty\<bar> < level \<and> eff then (on_bot (open_runtime env symbol signal (fi_time_ms it)) s, None)
                  else if \<not> eff then settle_flat c env symbol signal it old_qty old_avg s
                  else (s, None)) (\<lambda>s.
        and_then (raise_if (fi_value_error it) s) (\<lambda>s. (record_fill c env symbol signal it s, None))))))"

definition execution_step ::
    "bot_config \<Rightarrow> sync_env \<Rightarrow> string \<Rightarrow> real \<Rightarrow> real \<Rightarrow> json \<Rightarrow> sync_state \<Rightarrow> sync_state outcome_of" where
  "execution_step c env symbol level notional_level item s =
     (case item of
        JObj d \<Rightarrow>
          let exec_id = execution_id (pe_str (sv_protect env)) d in
          if exec_id \<in> set (bs_seen (sy_bot s)) then (s, None)
          else
            let s = on_bot (mark_seen exec_id) s in
            (case read_execution (pe_str (sv_protect env)) (sv_now_ms env) d of
               Inl e \<Rightarrow> (s, Some e)
             | Inr None \<Rightarrow> (s, None)
             | Inr (Some it) \<Rightarrow> book_execution c env symbol level notional_level it s)
      | _ \<Rightarrow> (s, Some AttributeError))"

section \<open>A refresh\<close>

text \<open>The executions of one symbol, reversed: the exchange lists the newest first.\<close>

definition symbol_executions_sync ::
    "bot_config \<Rightarrow> sync_env \<Rightarrow> string \<Rightarrow> real \<Rightarrow> real \<Rightarrow> json list \<Rightarrow> sync_state \<Rightarrow> sync_state outcome_of" where
  "symbol_executions_sync c env symbol level notional_level items s =
     each (execution_step c env symbol level notional_level) (rev items) s"

definition push_symbol :: "string \<Rightarrow> string list \<Rightarrow> string list" where
  "push_symbol symbol selected =
     (let s = str_strip (str_upper symbol) in if s = [] \<or> s \<in> set selected then selected else selected @ [s])"

fun push_until :: "int \<Rightarrow> string list \<Rightarrow> string list \<Rightarrow> string list" where
  "push_until limit [] selected = selected"
| "push_until limit (s # symbols) selected =
     (if int (length selected) \<ge> limit then selected else push_until limit symbols (push_symbol s selected))"

text \<open>A negative limit, which Python's slice counts from the end, does not occur: the setting is at least one.\<close>

definition ordered_symbols_for_execution_sync ::
    "bot_config \<Rightarrow> nat \<Rightarrow> string list \<Rightarrow> string list \<Rightarrow> string list \<Rightarrow> bot_state \<Rightarrow> string list" where
  "ordered_symbols_for_execution_sync c limit open_order_symbols active configured s =
     (let held = filter (\<lambda>k. \<bar>bs_net s k\<bar> \<ge> position_floor c k s) (bs_known s);
          selected = fold push_symbol active (fold push_symbol open_order_symbols (fold push_symbol held [])) in
      take limit (push_until (int limit) configured selected))"

record refresh_env =
  rf_sync :: sync_env
  rf_interval :: real
  rf_limit :: nat
  rf_active :: "string list"
  rf_configured :: "string list"
  rf_min_qty :: "string \<Rightarrow> real option"
  rf_min_notional :: "string \<Rightarrow> real option"
  rf_answer :: "string \<Rightarrow> json option"

definition refresh_symbol :: "bot_config \<Rightarrow> refresh_env \<Rightarrow> string \<Rightarrow> sync_state \<Rightarrow> sync_state outcome_of" where
  "refresh_symbol c env symbol s =
     (let (b, level) = resolve_position_floor c (rf_min_qty env symbol) symbol (sy_bot s);
          (b, notional_level) = resolve_position_notional_floor c (rf_min_notional env symbol) symbol b;
          s = s\<lparr>sy_bot := b\<rparr> in
      case rf_answer env symbol of
        None \<Rightarrow> (s, None)
      | Some resp \<Rightarrow>
          if \<not> json_truthy resp then (s, None)
          else
            (case answer_ok resp of
               Inl e \<Rightarrow> (s, Some e)
             | Inr False \<Rightarrow> (s, None)
             | Inr True \<Rightarrow>
                 (case listed resp of
                    Inl e \<Rightarrow> (s, Some e)
                  | Inr v \<Rightarrow>
                      (case json_items v of
                         Inl e \<Rightarrow> (s, Some e)
                       | Inr items \<Rightarrow> symbol_executions_sync c (rf_sync env) symbol level notional_level items s))))"

text \<open>The state beside the time of the last refresh.\<close>

definition refresh_positions_from_executions ::
    "bot_config \<Rightarrow> refresh_env \<Rightarrow> string list \<Rightarrow> bool \<Rightarrow> real \<times> sync_state \<Rightarrow> (real \<times> sync_state) outcome_of" where
  "refresh_positions_from_executions c env open_order_symbols force ts =
     (let (last_sync, s) = ts; now = pe_mono (sv_protect (rf_sync env));
          symbols = ordered_symbols_for_execution_sync c (rf_limit env) open_order_symbols (rf_active env) (rf_configured env) (sy_bot s) in
      if pe_executor (sv_protect (rf_sync env)) = None \<or> (\<not> force \<and> now - last_sync < rf_interval env) then (ts, None)
      else if symbols = [] then ((now, s), None)
      else map_prod (Pair now) id (each (refresh_symbol c env) symbols s))"

section \<open>The replay at the start\<close>

text \<open>What an execution adds in the replay: nothing when it is malformed.\<close>

definition replay_fill :: "string \<Rightarrow> string \<Rightarrow> real \<Rightarrow> real \<Rightarrow> real \<Rightarrow> string \<Rightarrow> bot_state \<Rightarrow> bot_state" where
  "replay_fill symbol side qty price fee fee_currency s =
     (let eff = effective_qty symbol side qty fee fee_currency in
      if eff \<le> 0 then s
      else hold_position symbol (apply_fill (bs_net s symbol) (bs_avg s symbol) side eff price) s)"

definition see :: "string \<Rightarrow> bot_state \<Rightarrow> bot_state" where
  "see exec_id s = s\<lparr>bs_seen := List.insert exec_id (bs_seen s)\<rparr>"

definition replay_row :: "execution_row \<Rightarrow> bot_state \<Rightarrow> bot_state" where
  "replay_row r s =
     (if xr_id r = [] then s
      else
        let s = see (xr_id r) s in
        if xr_symbol r = [] \<or> xr_side r = [] \<or> xr_qty r \<le> 0 \<or> str_lower (xr_side r) \<notin> {''buy'', ''sell''} then s
        else replay_fill (xr_symbol r) (str_lower (xr_side r)) (xr_qty r) (xr_price r) (xr_fee r) (xr_fee_currency r) s)"

text \<open>The rows of the last 24 hours, oldest first.\<close>

definition replay_rows :: "int \<Rightarrow> lifecycle_db \<Rightarrow> execution_row list" where
  "replay_rows now_ms l = sort_key xr_time_ms (filter (\<lambda>r. xr_time_ms r > now_ms - 86400000) (lf_executions l))"

definition replay_database :: "int \<Rightarrow> lifecycle_db \<Rightarrow> bot_state \<Rightarrow> bot_state" where
  "replay_database now_ms l s = fold replay_row (replay_rows now_ms l) s"

text \<open>An execution the exchange lists; the fee is read after the check of side and quantity.\<close>

definition replay_item :: "(json \<Rightarrow> string) \<Rightarrow> string \<Rightarrow> json \<Rightarrow> bot_state \<Rightarrow> bot_state outcome_of" where
  "replay_item str symbol item s =
     (case item of
        JObj d \<Rightarrow>
          let exec_id = execution_id str d; side = str_lower (json_text str (json_or (json_key d ''side'') (JStr []))) in
          if exec_id \<in> set (bs_seen s) then (s, None)
          else
            let s = see exec_id s in
            (case item_float d ''execQty'' ''qty'' of
               Inl e \<Rightarrow> (s, Some e)
             | Inr qty \<Rightarrow>
                 (case item_float d ''execPrice'' ''price'' of
                    Inl e \<Rightarrow> (s, Some e)
                  | Inr price \<Rightarrow>
                      if qty \<le> 0 \<or> side \<notin> {''buy'', ''sell''} then (s, None)
                      else (case json_float (json_or (json_key d ''execFee'') (JNum 0)) of
                          Inl e \<Rightarrow> (s, Some e)
                        | Inr fee \<Rightarrow>
                            (replay_fill symbol side qty price fee (json_text str (json_or (json_key d ''feeCurrency'') (JStr []))) s, None))))
      | _ \<Rightarrow> (s, Some AttributeError))"

definition replay_symbol :: "(json \<Rightarrow> string) \<Rightarrow> (string \<Rightarrow> json option) \<Rightarrow> string \<Rightarrow> bot_state \<Rightarrow> bot_state outcome_of" where
  "replay_symbol str answer symbol s =
     (case answer symbol of
        None \<Rightarrow> (s, None)
      | Some resp \<Rightarrow>
          (case answer_ok resp of
             Inl e \<Rightarrow> (s, Some e)
           | Inr False \<Rightarrow> (s, None)
           | Inr True \<Rightarrow>
               (case listed resp of
                  Inl e \<Rightarrow> (s, Some e)
                | Inr v \<Rightarrow>
                    (case json_items v of
                       Inl e \<Rightarrow> (s, Some e)
                     | Inr items \<Rightarrow> each (replay_item str symbol) (rev items) s))))"

text \<open>A coin of the wallet the replay knows less than half of; an exception ends the check, not the start.\<close>

definition recovered_wallet_holding :: "string \<Rightarrow> string \<Rightarrow> real \<Rightarrow> holding_row" where
  "recovered_wallet_holding symbol coin qty =
     \<lparr>hr_account = ''UNIFIED'', hr_symbol = symbol, hr_asset = coin, hr_free = qty, hr_locked = 0, hr_avg_entry = None,
      hr_reason = ''unknown_recovered_from_exchange'', hr_source = ''startup_wallet_recovery'', hr_recovered = True, hr_owner = None,
      hr_auto_sell = False, hr_created = 0, hr_updated = 0\<rparr>"

definition recover_coin :: "protect_env \<Rightarrow> json \<Rightarrow> bot_state \<Rightarrow> bot_state outcome_of" where
  "recover_coin p item s =
     (case item of
        JObj d \<Rightarrow>
          let coin = str_strip (str_upper (json_text (pe_str p) (json_or (json_key d ''coin'') (JStr [])))); symbol = coin @ ''USDT'' in
          if coin = [] \<or> coin \<in> {''USDT'', ''USDC'', ''BUSD''} then (s, None)
          else
            (case json_float (json_or (json_key d ''walletBalance'') (JNum 0)) of
               Inl e \<Rightarrow> (s, Some e)
             | Inr qty \<Rightarrow>
                 if qty \<le> 0 \<or> \<bar>bs_net s symbol\<bar> \<ge> qty * (1 / 2) then (s, None)
                 else put_bot_db (upsert_spot_holding (pe_now p) (recovered_wallet_holding symbol coin qty)) s)
      | _ \<Rightarrow> (s, Some AttributeError))"

definition recover_account :: "protect_env \<Rightarrow> json \<Rightarrow> bot_state \<Rightarrow> bot_state outcome_of" where
  "recover_account p account s =
     (case json_get account ''coin'' JNull of
        Inl e \<Rightarrow> (s, Some e)
      | Inr v \<Rightarrow> each_item (recover_coin p) (json_or v (JArr [])) s)"

definition recover_wallet :: "protect_env \<Rightarrow> json option \<Rightarrow> bot_state \<Rightarrow> bot_state" where
  "recover_wallet p answer s =
     (case answer of
        None \<Rightarrow> s
      | Some resp \<Rightarrow>
          (case answer_ok resp of
             Inl e \<Rightarrow> s
           | Inr False \<Rightarrow> s
           | Inr True \<Rightarrow> (case listed resp of Inl e \<Rightarrow> s | Inr v \<Rightarrow> fst (each_item (recover_account p) v s))))"

text \<open>Positions that were found count as opened now.\<close>

definition mark_recovered :: "bot_config \<Rightarrow> real \<Rightarrow> string \<Rightarrow> bot_state \<Rightarrow> bot_state" where
  "mark_recovered c now symbol s =
     (if \<bar>bs_net s symbol\<bar> \<ge> position_floor c symbol s \<and> bs_opened_at s symbol = None
      then s\<lparr>bs_opened_at := (bs_opened_at s)(symbol := Some now), bs_peak_bps := (bs_peak_bps s)(symbol := 0)\<rparr>
      else s)"

record recovery_env =
  rv_protect :: protect_env
  rv_now_ms :: int
  rv_configured :: "string list"
  rv_order :: "string list \<Rightarrow> string list"
  rv_answer :: "string \<Rightarrow> json option"
  rv_wallet :: "json option"

text \<open>The symbols asked for form a set; \<open>rv_order\<close> is the order Python takes them in.\<close>

definition recover_positions_on_startup :: "bot_config \<Rightarrow> recovery_env \<Rightarrow> lifecycle_db \<Rightarrow> bot_state \<Rightarrow> bot_state outcome_of" where
  "recover_positions_on_startup c env l s =
     (let p = rv_protect env; s = replay_database (rv_now_ms env) l s;
          symbols = rv_order env (remdups (rv_configured env @ filter (\<lambda>k. \<bar>bs_net s k\<bar> > 0) (bs_known s))) in
      and_then (if pe_executor p = None then (s, None) else each (replay_symbol (pe_str p) (rv_answer env)) symbols s)
        (\<lambda>s. let s = (if pe_executor p = None then s else recover_wallet p (rv_wallet env) s) in
             (fold (mark_recovered c (pe_mono p)) (bs_known s) s, None)))"

section \<open>What stays\<close>

interpretation seen: keeps "\<lambda>s s'. bs_seen s' = bs_seen s"
  by unfold_locales simp_all

interpretation seen_sync: keeps "\<lambda>s s'. bs_seen (sy_bot s') = bs_seen (sy_bot s)"
  by unfold_locales simp_all

lemma put_bot_db_seen: "bs_seen (fst (put_bot_db f s)) = bs_seen s"
  by (simp add: put_bot_db_def split: sum.split)

lemma write_protection_seen: "bs_seen (fst (write_protection c env symbol side qty entry plan status s)) = bs_seen s"
  unfolding write_protection_def by (rule seen.rel_and_then) (simp_all add: put_bot_db_seen)

lemma protection_outcome_seen: "bs_seen (fst (protection_outcome c env symbol side qty entry plan phase ok verified s)) = bs_seen s"
  using outcome_effect [of c env symbol side qty entry plan phase ok verified s] by auto

lemma ensure_seen: "bs_seen (fst (ensure_futures_protection c env symbol qty entry s)) = bs_seen s"
proof (cases "protects_now c env symbol qty entry s")
  case True
  then show ?thesis
  proof (cases rule: ensure_cases)
    case (plan ex pln phase s1)
    then show ?thesis by (simp add: protection_outcome_seen split: sum.split prod.split)
  qed simp
next
  case False
  then show ?thesis by (auto simp: protects_now_def ensure_futures_protection_def split: option.split)
qed

lemma mirror_seen: "bs_seen (fst (mirror_quantity c env symbol eff qty avg price s)) = bs_seen s"
  unfolding mirror_quantity_def Let_def
  by (rule seen.rel_and_then) (auto simp: ensure_seen put_bot_db_seen)

lemma close_futures_rows_ok:
  "\<exists>db. close_futures_rows c env symbol side entry price s = (s\<lparr>bs_db := db\<rparr>, None)"
  using statuses_valid [of "''closed''"]
  by (simp add: Let_def close_futures_rows_def put_bot_db_def upsert_futures_position_def upsert_futures_protection_def
      closed_position_row_def closed_protection_row_def runtime_protection_row_def bot_decision_def on_bot_db_def) blast+

lemma reward_signal_keeps: "\<exists>db l. reward_signal env r s = s\<lparr>sy_bot := (sy_bot s)\<lparr>bs_db := db\<rparr>, sy_life := l\<rparr>"
proof (cases "oc_signal r = []")
  case True
  then have "reward_signal env r s = s\<lparr>sy_bot := (sy_bot s)\<lparr>bs_db := bs_db (sy_bot s)\<rparr>, sy_life := sy_life s\<rparr>"
    by (simp add: reward_signal_def)
  then show ?thesis by blast
next
  case False
  then show ?thesis by (simp add: reward_signal_def Let_def on_bot_db_def) blast
qed

lemma settle_flat_ok:
  "\<exists>db l. settle_flat c env symbol signal it old_qty old_avg s =
     (s\<lparr>sy_bot := reset_symbol_runtime_state c symbol ((sy_bot s)\<lparr>bs_db := db\<rparr>), sy_life := l\<rparr>, None)"
proof -
  define r where "r = flat_outcome env symbol signal it old_qty old_avg s"
  obtain db l where r1: "reward_signal env r s = s\<lparr>sy_bot := (sy_bot s)\<lparr>bs_db := db\<rparr>, sy_life := l\<rparr>"
    using reward_signal_keeps by blast
  from close_futures_rows_ok [of c env symbol "if old_qty > 0 then ''Buy'' else ''Sell''" "oc_entry r" "fi_price it" "(sy_bot s)\<lparr>bs_db := db\<rparr>"]
  obtain db' where "close_futures_rows c env symbol (if old_qty > 0 then ''Buy'' else ''Sell'') (oc_entry r) (fi_price it) ((sy_bot s)\<lparr>bs_db := db\<rparr>)
      = ((sy_bot s)\<lparr>bs_db := db'\<rparr>, None)" by auto
  then have "settle_flat c env symbol signal it old_qty old_avg s =
      (s\<lparr>sy_bot := reset_symbol_runtime_state c symbol ((sy_bot s)\<lparr>bs_db := if bc_market c = ''linear'' then db' else db\<rparr>), sy_life := l\<rparr>, None)"
    unfolding settle_flat_def Let_def r_def [symmetric] r1
    by (simp add: in_bot_def on_bot_def)
  then show ?thesis by blast
qed

lemma record_fill_bot: "sy_bot (record_fill c env symbol signal it s) = (sy_bot s)\<lparr>bs_db := bs_db (sy_bot (record_fill c env symbol signal it s))\<rparr>"
  by (simp add: record_fill_def Let_def split: prod.split)

lemma record_fill_frame [simp]:
  "bs_net (sy_bot (record_fill c env symbol signal it s)) = bs_net (sy_bot s)"
  "bs_seen (sy_bot (record_fill c env symbol signal it s)) = bs_seen (sy_bot s)"
  by (subst record_fill_bot, simp)+

lemma strategy_hold_reason: "normalize_hold_reason (Some ''strategy_entry'') = Inr ''strategy_entry''"
  by (simp add: normalize_hold_reason_def SPOT_HOLD_REASONS_def str_eval py_space_def)

text \<open>The row of the holding after the statement.\<close>

definition holding_is :: "string \<Rightarrow> string \<Rightarrow> real \<Rightarrow> domain_db \<Rightarrow> bool" where
  "holding_is symbol base qty db \<longleftrightarrow> (\<exists>r. row_at holding_key (''UNIFIED'', str_upper symbol, str_upper base) (sp_holdings db) = Some r
     \<and> hr_free r = qty \<and> hr_locked r = 0 \<and> hr_auto_sell r \<and> \<not> hr_recovered r \<and> hr_source r = ''runtime_fills'')"

lemma holding_written:
  assumes "0 \<le> qty"
  shows "\<exists>db'. upsert_spot_holding now (runtime_holding c symbol base qty avg) db = Inr db' \<and> holding_is symbol base qty db'"
proof -
  define new where "new = (runtime_holding c symbol base qty avg)\<lparr>hr_symbol := str_upper symbol, hr_asset := str_upper base,
      hr_free := max qty 0, hr_locked := 0, hr_reason := ''strategy_entry'', hr_owner := or_null (Some (bc_strategy c)),
      hr_created := now, hr_updated := now\<rparr>"
  have key: "holding_key new = (''UNIFIED'', str_upper symbol, str_upper base)"
    by (simp add: new_def holding_key_def runtime_holding_def)
  have "upsert_spot_holding now (runtime_holding c symbol base qty avg) db
      = Inr (db\<lparr>sp_holdings := upsert_row holding_key merge_holding new (sp_holdings db)\<rparr>)"
    by (simp add: upsert_spot_holding_def runtime_holding_def strategy_hold_reason new_def)
  moreover have "holding_is symbol base qty (db\<lparr>sp_holdings := upsert_row holding_key merge_holding new (sp_holdings db)\<rparr>)"
    using assms by (simp add: holding_is_def holdings.upsert_lookup key)
      (simp add: new_def merge_holding_def runtime_holding_def split: option.split)
  ultimately show ?thesis by blast
qed

text \<open>In the spot market only the tables change.\<close>

lemma mirror_spot:
  assumes "bc_market c = ''spot''"
  shows "\<exists>db. mirror_quantity c env symbol eff qty avg price s = (s\<lparr>bs_db := db\<rparr>, None)
    \<and> (fst (split_symbol_base_quote (str_upper symbol)) \<noteq> [] \<and> (eff \<longrightarrow> 0 < qty) \<longrightarrow>
         holding_is symbol (fst (split_symbol_base_quote (str_upper symbol))) (if eff then qty else 0) db)
    \<and> (eff \<and> qty \<le> 0 \<longrightarrow> db = bs_db s)"
proof -
  let ?base = "fst (split_symbol_base_quote (str_upper symbol))"
  let ?now = "pe_now (sv_protect env)"
  from holding_written [of "\<bar>qty\<bar>"] obtain f where
    f: "upsert_spot_holding ?now (runtime_holding c symbol ?base \<bar>qty\<bar> avg') db = Inr (f avg' db)" "holding_is symbol ?base \<bar>qty\<bar> (f avg' db)" for avg' db
    by (metis abs_ge_zero)
  from holding_written [of 0] obtain g where
    g: "upsert_spot_holding ?now (runtime_holding c symbol ?base 0 None) db = Inr (g db)" "holding_is symbol ?base 0 (g db)" for db
    by (metis order_refl)
  have same: "s = s\<lparr>bs_db := bs_db s\<rparr>" by simp
  show ?thesis
    using assms f [of "Some (if avg > 0 then avg else price)" "bs_db s"] g [of "bs_db s"]
    by (cases "?base = []"; cases "eff"; cases "0 < qty") (auto simp: mirror_quantity_def Let_def put_bot_db_def intro: exI [of _ "bs_db s"])
qed

lemma mirror_not_effective: "\<exists>db. mirror_quantity c env symbol False qty avg price s = (s\<lparr>bs_db := db\<rparr>, None)"
proof (cases "bc_market c = ''spot''")
  case True
  from mirror_spot [OF this, of env symbol False qty avg price s] show ?thesis by blast
next
  case False
  then have "mirror_quantity c env symbol False qty avg price s = (s\<lparr>bs_db := bs_db s\<rparr>, None)"
    by (simp add: mirror_quantity_def Let_def)
  then show ?thesis by blast
qed

section \<open>What an execution does\<close>

text \<open>The quantity an execution moves, and the state with it.\<close>

definition item_qty :: "string \<Rightarrow> fill_item \<Rightarrow> real" where
  "item_qty symbol it = effective_qty symbol (fi_side it) (fi_qty it) (fi_fee it) (fi_currency it)"

definition filled_position :: "string \<Rightarrow> fill_item \<Rightarrow> bot_state \<Rightarrow> real \<times> real" where
  "filled_position symbol it b = apply_fill (bs_net b symbol) (bs_avg b symbol) (fi_side it) (item_qty symbol it) (fi_price it)"

definition filled_state :: "string \<Rightarrow> fill_item \<Rightarrow> sync_state \<Rightarrow> sync_state" where
  "filled_state symbol it s =
     on_bot (hold_position symbol (filled_position symbol it (sy_bot s)))
       (on_life (insert_execution_event (execution_of symbol (get_signal_id_for_order_link (fi_link it) (sy_life s)) it)) s)"

definition now_effective :: "bot_config \<Rightarrow> string \<Rightarrow> real \<Rightarrow> real \<Rightarrow> fill_item \<Rightarrow> bot_state \<Rightarrow> bool" where
  "now_effective c symbol level notional_level it b = is_effective c level notional_level (fst (filled_position symbol it b)) (fi_price it)"

lemma filled_state_simps [simp]:
  "bs_net (sy_bot (filled_state symbol it s)) symbol = fst (filled_position symbol it (sy_bot s))"
  "bs_avg (sy_bot (filled_state symbol it s)) symbol = snd (filled_position symbol it (sy_bot s))"
  "bs_seen (sy_bot (filled_state symbol it s)) = bs_seen (sy_bot s)"
  "bs_db (sy_bot (filled_state symbol it s)) = bs_db (sy_bot s)"
  "bs_applied_at (sy_bot (filled_state symbol it s)) = bs_applied_at (sy_bot s)"
  "bs_signal (sy_bot (filled_state symbol it s)) = bs_signal (sy_bot s)"
  "sy_life (filled_state symbol it s) =
     insert_execution_event (execution_of symbol (get_signal_id_for_order_link (fi_link it) (sy_life s)) it) (sy_life s)"
  by (simp_all add: filled_state_def on_bot_def on_life_def hold_position_def)

lemma book_unfold:
  assumes "0 < item_qty symbol it" and "fi_rate_error it = None"
  shows "book_execution c env symbol level notional_level it s =
     (let signal = get_signal_id_for_order_link (fi_link it) (sy_life s); eff = now_effective c symbol level notional_level it (sy_bot s);
          pos = filled_position symbol it (sy_bot s) in
      and_then (in_bot (mirror_quantity c env symbol eff (fst pos) (snd pos) (fi_price it)) (filled_state symbol it s)) (\<lambda>s'.
      and_then (if \<bar>bs_net (sy_bot s) symbol\<bar> < level \<and> eff then (on_bot (open_runtime env symbol signal (fi_time_ms it)) s', None)
                else if \<not> eff then settle_flat c env symbol signal it (bs_net (sy_bot s) symbol) (bs_avg (sy_bot s) symbol) s'
                else (s', None)) (\<lambda>s'.
      and_then (raise_if (fi_value_error it) s') (\<lambda>s'. (record_fill c env symbol signal it s', None)))))"
proof -
  have frame: "sy_bot (on_life f s) = sy_bot s" for f by (simp add: on_life_def)
  have go: "and_then (raise_if None s) f = f s" for f by (simp add: raise_if_def)
  obtain n a where p: "apply_fill (bs_net (sy_bot s) symbol) (bs_avg (sy_bot s) symbol) (fi_side it) (item_qty symbol it) (fi_price it) = (n, a)"
    by fastforce
  show ?thesis
    unfolding book_execution_def Let_def item_qty_def [symmetric] assms(2) go frame p prod.case filled_state_def filled_position_def
      now_effective_def fst_conv snd_conv
    using assms(1) by simp
qed

lemma raise_frame: "fst (and_then (raise_if e s) (\<lambda>s. (f s, None))) = (if e = None then f s else s)"
  "snd (and_then (raise_if e s) (\<lambda>s. (f s, None))) = e"
  by (cases e; simp add: raise_if_def)+

text \<open>An execution after which the position does not count leaves nothing of it.\<close>

lemma book_flat:
  assumes "0 < item_qty symbol it" and "fi_rate_error it = None" and "\<not> now_effective c symbol level notional_level it (sy_bot s)"
  shows "bs_net (sy_bot (fst (book_execution c env symbol level notional_level it s))) symbol = 0"
proof -
  let ?pos = "filled_position symbol it (sy_bot s)"
  define s0 where "s0 = filled_state symbol it s"
  obtain db where m: "in_bot (mirror_quantity c env symbol False (fst ?pos) (snd ?pos) (fi_price it)) s0
      = (s0\<lparr>sy_bot := (sy_bot s0)\<lparr>bs_db := db\<rparr>\<rparr>, None)"
    using mirror_not_effective by (metis in_bot_def fst_conv snd_conv)
  define s1 where "s1 = s0\<lparr>sy_bot := (sy_bot s0)\<lparr>bs_db := db\<rparr>\<rparr>"
  obtain db' l where f: "settle_flat c env symbol (get_signal_id_for_order_link (fi_link it) (sy_life s)) it
        (bs_net (sy_bot s) symbol) (bs_avg (sy_bot s) symbol) s1
      = (s1\<lparr>sy_bot := reset_symbol_runtime_state c symbol ((sy_bot s1)\<lparr>bs_db := db'\<rparr>), sy_life := l\<rparr>, None)"
    using settle_flat_ok by blast
  show ?thesis
    unfolding book_unfold [OF assms(1,2)] Let_def s0_def [symmetric]
    using assms(3) by (simp add: m s1_def [symmetric] f raise_frame reset_symbol_runtime_state_def)
qed

lemma book_seen: "bs_seen (sy_bot (fst (book_execution c env symbol level notional_level it s))) = bs_seen (sy_bot s)"
proof (cases "0 < item_qty symbol it \<and> fi_rate_error it = None")
  case True
  let ?eff = "now_effective c symbol level notional_level it (sy_bot s)"
  let ?pos = "filled_position symbol it (sy_bot s)"
  let ?sg = "get_signal_id_for_order_link (fi_link it) (sy_life s)"
  define s0 where "s0 = filled_state symbol it s"
  have same: "bs_seen (sy_bot s0) = bs_seen (sy_bot s)" by (simp add: s0_def)
  have m: "bs_seen (sy_bot (fst (in_bot (mirror_quantity c env symbol ?eff (fst ?pos) (snd ?pos) (fi_price it)) s0))) = bs_seen (sy_bot s0)"
    by (simp add: in_bot_def mirror_seen)
  have flat: "bs_seen (sy_bot (fst (settle_flat c env symbol sg it q a s'))) = bs_seen (sy_bot s')" for sg q a s'
    using settle_flat_ok [of c env symbol sg it q a s'] by (auto simp: reset_symbol_runtime_state_def)
  show ?thesis
    unfolding book_unfold [OF conjunct1 [OF True] conjunct2 [OF True]] Let_def s0_def [symmetric]
  proof (rule trans [OF seen_sync.rel_and_then [OF m] same])
    fix s'
    show "bs_seen (sy_bot (fst (and_then
        (if \<bar>bs_net (sy_bot s) symbol\<bar> < level \<and> ?eff then (on_bot (open_runtime env symbol (?sg) (fi_time_ms it)) s', None)
         else if \<not> ?eff then settle_flat c env symbol ?sg it (bs_net (sy_bot s) symbol) (bs_avg (sy_bot s) symbol) s'
         else (s', None)) (\<lambda>s'. and_then (raise_if (fi_value_error it) s') (\<lambda>s'. (record_fill c env symbol ?sg it s', None)))))) = bs_seen (sy_bot s')"
      by (rule seen_sync.rel_and_then) (simp_all add: flat on_bot_def open_runtime_def raise_frame)
  qed
next
  case False
  then show ?thesis by (cases "fi_rate_error it") (auto simp: book_execution_def item_qty_def Let_def raise_if_def)
qed

section \<open>Identifiers that were seen\<close>

definition is_seen :: "(json \<Rightarrow> string) \<Rightarrow> bot_state \<Rightarrow> json \<Rightarrow> bool" where
  "is_seen str b item \<longleftrightarrow> (case item of JObj d \<Rightarrow> execution_id str d \<in> set (bs_seen b) | _ \<Rightarrow> False)"

lemma seen_skipped: "is_seen (pe_str (sv_protect env)) (sy_bot s) item \<Longrightarrow> execution_step c env symbol level notional_level item s = (s, None)"
  by (simp add: is_seen_def execution_step_def Let_def split: json.splits)

lemma all_seen_skipped:
  "list_all (is_seen (pe_str (sv_protect env)) (sy_bot s)) items \<Longrightarrow>
     each (execution_step c env symbol level notional_level) items s = (s, None)"
  by (induction items) (simp_all add: seen_skipped)

lemma mark_seen_room:
  "length (bs_seen b) < seen_limit \<Longrightarrow> bs_seen (mark_seen x b) = List.insert x (bs_seen b)"
  by (simp add: mark_seen_def Let_def List.insert_def)

text \<open>Below the limit an execution that was worked through is seen, and nothing is forgotten.\<close>

lemma step_marks:
  assumes "execution_step c env symbol level notional_level item s = (s', None)" and "length (bs_seen (sy_bot s)) < seen_limit"
  shows "is_seen (pe_str (sv_protect env)) (sy_bot s') item \<and> set (bs_seen (sy_bot s)) \<subseteq> set (bs_seen (sy_bot s'))
    \<and> length (bs_seen (sy_bot s')) \<le> Suc (length (bs_seen (sy_bot s)))"
proof (cases item)
  case (JObj d)
  define x where "x = execution_id (pe_str (sv_protect env)) d"
  show ?thesis
  proof (cases "x \<in> set (bs_seen (sy_bot s))")
    case True
    with assms(1) JObj show ?thesis by (simp add: execution_step_def Let_def x_def is_seen_def)
  next
    case False
    define s1 where "s1 = on_bot (mark_seen x) s"
    have s1: "bs_seen (sy_bot s1) = List.insert x (bs_seen (sy_bot s))"
      using mark_seen_room [OF assms(2)] by (simp add: s1_def on_bot_def)
    have step: "execution_step c env symbol level notional_level item s =
        (case read_execution (pe_str (sv_protect env)) (sv_now_ms env) d of
           Inl e \<Rightarrow> (s1, Some e) | Inr None \<Rightarrow> (s1, None)
         | Inr (Some it) \<Rightarrow> book_execution c env symbol level notional_level it s1)"
      unfolding execution_step_def Let_def s1_def x_def JObj using False by (simp add: x_def)
    have "bs_seen (sy_bot s') = bs_seen (sy_bot s1)"
    proof (cases "read_execution (pe_str (sv_protect env)) (sv_now_ms env) d")
      case (Inr r)
      with step assms(1) show ?thesis
        using book_seen [of c env symbol level notional_level "the r" s1] by (cases r) (simp, simp, metis fst_conv)
    qed (use step assms(1) in simp)
    then show ?thesis
      using JObj by (auto simp: is_seen_def x_def [symmetric] s1 List.insert_def)
  qed
qed (use assms in \<open>simp_all add: execution_step_def\<close>)

lemma each_marks:
  assumes "each (execution_step c env symbol level notional_level) items s = (s', None)"
    and "length (bs_seen (sy_bot s)) + length items \<le> seen_limit"
  shows "list_all (is_seen (pe_str (sv_protect env)) (sy_bot s')) items \<and> set (bs_seen (sy_bot s)) \<subseteq> set (bs_seen (sy_bot s'))"
  using assms
proof (induction items arbitrary: s)
  case (Cons item items)
  from Cons.prems(1) obtain s1 where s1: "execution_step c env symbol level notional_level item s = (s1, None)"
      "each (execution_step c env symbol level notional_level) items s1 = (s', None)"
    by (auto simp: and_then_None)
  from step_marks [OF s1(1)] Cons.prems(2) have
    m: "is_seen (pe_str (sv_protect env)) (sy_bot s1) item" "set (bs_seen (sy_bot s)) \<subseteq> set (bs_seen (sy_bot s1))"
      "length (bs_seen (sy_bot s1)) + length items \<le> seen_limit" by auto
  from Cons.IH [OF s1(2) m(3)] m(1,2) show ?case by (auto simp: is_seen_def split: json.splits)
qed simp

section \<open>Holdings of the spot market\<close>

lemma entry_exit_holdings: "sp_holdings (update_orders_entry_exit_for_signal sg p q l db) = sp_holdings db"
  by (simp add: update_orders_entry_exit_for_signal_def Let_def)

lemma settle_flat_holdings:
  "bc_market c = ''spot'' \<Longrightarrow>
     sp_holdings (bs_db (sy_bot (fst (settle_flat c env symbol signal it q a s)))) = sp_holdings (bs_db (sy_bot s))"
  by (simp add: settle_flat_def Let_def reward_signal_def on_bot_def on_bot_db_def reset_symbol_runtime_state_def entry_exit_holdings)

lemma sync_outcome_holdings:
  "sp_holdings (fst (sync_signal_outcome_from_executions b signal hint (db, l))) = sp_holdings db"
  by (simp add: sync_signal_outcome_from_executions_def Let_def entry_exit_holdings)

lemma record_fill_holdings: "sp_holdings (bs_db (sy_bot (record_fill c env symbol signal it s))) = sp_holdings (bs_db (sy_bot s))"
  by (simp add: record_fill_def Let_def write_runtime_fill_legacy_and_domain_def insert_spot_fill_def insert_futures_fill_def
      update_order_status_def split: prod.split) (auto dest!: arg_cong [where f = fst] simp: sync_outcome_holdings)

text \<open>The position after an execution, and the row that mirrors it.\<close>

definition counted_qty :: "bot_config \<Rightarrow> string \<Rightarrow> real \<Rightarrow> real \<Rightarrow> fill_item \<Rightarrow> bot_state \<Rightarrow> real" where
  "counted_qty c symbol level notional_level it b =
     (if now_effective c symbol level notional_level it b then fst (filled_position symbol it b) else 0)"

lemma book_spot:
  assumes "bc_market c = ''spot''" and "0 < item_qty symbol it" and "fi_rate_error it = None"
  shows "\<exists>s'. book_execution c env symbol level notional_level it s = (s', fi_value_error it)
    \<and> bs_net (sy_bot s') symbol = counted_qty c symbol level notional_level it (sy_bot s)
    \<and> (fst (split_symbol_base_quote (str_upper symbol)) \<noteq> [] \<and> 0 \<le> counted_qty c symbol level notional_level it (sy_bot s) \<and> 0 < level \<longrightarrow>
        holding_is symbol (fst (split_symbol_base_quote (str_upper symbol))) (counted_qty c symbol level notional_level it (sy_bot s))
          (bs_db (sy_bot s')))
    \<and> (counted_qty c symbol level notional_level it (sy_bot s) < 0 \<longrightarrow> sp_holdings (bs_db (sy_bot s')) = sp_holdings (bs_db (sy_bot s)))"
proof -
  let ?eff = "now_effective c symbol level notional_level it (sy_bot s)"
  let ?pos = "filled_position symbol it (sy_bot s)"
  let ?sg = "get_signal_id_for_order_link (fi_link it) (sy_life s)"
  let ?base = "fst (split_symbol_base_quote (str_upper symbol))"
  let ?counted = "counted_qty c symbol level notional_level it (sy_bot s)"
  define s0 where "s0 = filled_state symbol it s"
  obtain db where m: "mirror_quantity c env symbol ?eff (fst ?pos) (snd ?pos) (fi_price it) (sy_bot s0) = ((sy_bot s0)\<lparr>bs_db := db\<rparr>, None)"
      "?base \<noteq> [] \<and> (?eff \<longrightarrow> 0 < fst ?pos) \<longrightarrow> holding_is symbol ?base (if ?eff then fst ?pos else 0) db"
      "?eff \<and> fst ?pos \<le> 0 \<longrightarrow> db = bs_db (sy_bot s0)"
    using mirror_spot [OF assms(1)] by blast
  define s1 where "s1 = s0\<lparr>sy_bot := (sy_bot s0)\<lparr>bs_db := db\<rparr>\<rparr>"
  obtain t where flat: "settle_flat c env symbol ?sg it (bs_net (sy_bot s) symbol) (bs_avg (sy_bot s) symbol) s1 = (t, None)"
    "bs_net (sy_bot t) symbol = 0"
    using settle_flat_ok [of c env symbol ?sg it "bs_net (sy_bot s) symbol" "bs_avg (sy_bot s) symbol" s1]
    by (auto simp: reset_symbol_runtime_state_def)
  define s2 where "s2 = (if \<bar>bs_net (sy_bot s) symbol\<bar> < level \<and> ?eff then on_bot (open_runtime env symbol ?sg (fi_time_ms it)) s1
     else if \<not> ?eff then t else s1)"
  have net: "bs_net (sy_bot s2) symbol = ?counted"
    using flat(2) by (simp add: s2_def counted_qty_def on_bot_def open_runtime_def s1_def s0_def)
  have held: "sp_holdings (bs_db (sy_bot s2)) = sp_holdings db"
    using settle_flat_holdings [OF assms(1), of env symbol ?sg it "bs_net (sy_bot s) symbol" "bs_avg (sy_bot s) symbol" s1] flat(1)
    by (simp add: s2_def on_bot_def open_runtime_def s1_def)
  define s3 where "s3 = (if fi_value_error it = None then record_fill c env symbol ?sg it s2 else s2)"
  have "book_execution c env symbol level notional_level it s =
      and_then (raise_if (fi_value_error it) s2) (\<lambda>s'. (record_fill c env symbol ?sg it s', None))"
    unfolding book_unfold [OF assms(2,3)] Let_def s0_def [symmetric] in_bot_def m(1) fst_conv snd_conv and_then_simps s1_def [symmetric] s2_def flat(1)
    by simp
  then have "book_execution c env symbol level notional_level it s = (s3, fi_value_error it)"
    by (simp add: raise_frame s3_def prod_eq_iff)
  moreover have "bs_net (sy_bot s3) symbol = ?counted" using net by (simp add: s3_def)
  moreover have "holding_is symbol ?base ?counted (bs_db (sy_bot s3))" if "?base \<noteq> []" "0 \<le> ?counted" "0 < level"
  proof -
    have "?eff \<longrightarrow> 0 < fst ?pos" using that(2,3) by (auto simp: counted_qty_def now_effective_def is_effective_def)
    with m(2) that(1) have "holding_is symbol ?base ?counted db" by (simp add: counted_qty_def)
    then show ?thesis by (simp add: holding_is_def s3_def record_fill_holdings held)
  qed
  moreover have "sp_holdings (bs_db (sy_bot s3)) = sp_holdings (bs_db (sy_bot s))" if "?counted < 0"
  proof -
    have "db = bs_db (sy_bot s0)" using m(3) that by (auto simp: counted_qty_def split: if_splits)
    then show ?thesis by (simp add: s3_def record_fill_holdings held s0_def)
  qed
  ultimately show ?thesis by blast
qed

section \<open>Booking a listed execution\<close>

lemma step_books:
  assumes "read_execution (pe_str (sv_protect env)) (sv_now_ms env) d = Inr (Some it)"
    and "execution_id (pe_str (sv_protect env)) d \<notin> set (bs_seen (sy_bot s))"
  shows "execution_step c env symbol level notional_level (JObj d) s =
    book_execution c env symbol level notional_level it (on_bot (mark_seen (execution_id (pe_str (sv_protect env)) d)) s)"
  using assms by (simp add: execution_step_def Let_def)

lemma mark_seen_frame [simp]:
  "bs_net (mark_seen x b) = bs_net b" "bs_avg (mark_seen x b) = bs_avg b" "bs_applied_at (mark_seen x b) = bs_applied_at b"
  "bs_signal (mark_seen x b) = bs_signal b" "bs_db (mark_seen x b) = bs_db b"
  by (simp_all add: mark_seen_def Let_def)

lemma on_bot_simps [simp]: "sy_bot (on_bot f s) = f (sy_bot s)" "sy_life (on_bot f s) = sy_life s"
  by (simp_all add: on_bot_def)

text \<open>The memory of identifiers is emptied when one more than its limit is stored.\<close>

lemma mark_seen_full:
  assumes "length (bs_seen b) = seen_limit" and "x \<notin> set (bs_seen b)"
  shows "bs_seen (mark_seen x b) = []"
  using assms by (simp add: mark_seen_def Let_def)

lemma side_norms [simp]: "str_lower ''buy'' = ''buy''" "str_lower ''sell'' = ''sell''"
  by (simp_all add: str_lower_def lower_char_def)

lemma filled_buy:
  assumes "fi_side it = ''buy''" "0 < item_qty symbol it" "0 < fi_price it" "0 \<le> bs_net b symbol"
  shows "fst (filled_position symbol it b) = bs_net b symbol + item_qty symbol it"
  using assms by (auto simp: filled_position_def apply_fill_def Let_def)

lemma filled_from_nothing:
  assumes "fi_side it \<in> {''buy'', ''sell''}" "0 < item_qty symbol it" "0 < fi_price it" "bs_net b symbol = 0"
  shows "fst (filled_position symbol it b) = (if fi_side it = ''buy'' then item_qty symbol it else - item_qty symbol it)"
  using assms by (auto simp: filled_position_def apply_fill_def Let_def)

text \<open>In the futures market, when the last attempt to protect the symbol is less than eight seconds old.\<close>

lemma book_linear_quiet:
  assumes "bc_market c = ''linear''" and "0 < item_qty symbol it" and "fi_rate_error it = None" and "fi_value_error it = None"
    and "now_effective c symbol level notional_level it (sy_bot s)"
    and "pe_mono (sv_protect env) - bs_applied_at (sy_bot s) symbol < 8"
  shows "\<exists>s'. book_execution c env symbol level notional_level it s = (s', None)
    \<and> bs_net (sy_bot s') symbol = fst (filled_position symbol it (sy_bot s))"
proof -
  let ?pos = "filled_position symbol it (sy_bot s)"
  let ?sg = "get_signal_id_for_order_link (fi_link it) (sy_life s)"
  define s0 where "s0 = filled_state symbol it s"
  have "bs_applied_at (sy_bot s0) = bs_applied_at (sy_bot s)" by (simp add: s0_def)
  then have quiet: "ensure_futures_protection c (sv_protect env) symbol (fst ?pos) e (sy_bot s0) = (sy_bot s0, None)" for e
    using assms(6) by (simp add: ensure_futures_protection_def split: option.split)
  have m: "mirror_quantity c env symbol True (fst ?pos) (snd ?pos) (fi_price it) (sy_bot s0) = (sy_bot s0, None)"
    unfolding mirror_quantity_def Let_def quiet using assms(1) by simp
  have same: "s0\<lparr>sy_bot := sy_bot s0\<rparr> = s0" by simp
  define s2 where "s2 = (if \<bar>bs_net (sy_bot s) symbol\<bar> < level then on_bot (open_runtime env symbol ?sg (fi_time_ms it)) s0 else s0)"
  have "book_execution c env symbol level notional_level it s = (record_fill c env symbol ?sg it s2, None)"
    unfolding book_unfold [OF assms(2,3)] Let_def s0_def [symmetric] in_bot_def
    using assms(4,5) by (simp add: m same raise_if_def s2_def)
  moreover have "bs_net (sy_bot s2) symbol = fst ?pos" by (simp add: s2_def s0_def open_runtime_def)
  ultimately show ?thesis by simp
qed

section \<open>How often a signal is rewarded\<close>

definition signal_arms :: "lifecycle_db \<Rightarrow> (string, string \<times> string) dict" where
  "signal_arms l = map (\<lambda>r. (sg_id r, sg_symbol r, sg_profile r)) (lf_signals l)"

lemma update_reward_arm:
  assumes "dict_get (signal_arms l) signal_id = Some (sy, pr)" and "str_strip (str_upper sy) \<noteq> []" and "str_strip pr \<noteq> []"
  shows "arm_n (load_state (lf_bandit (update_reward b signal_id reward l)) (str_strip (str_upper sy)) (str_strip pr))
    = Suc (arm_n (load_state (lf_bandit l) (str_strip (str_upper sy)) (str_strip pr)))"
  using assms
  by (simp add: update_reward_def update_signal_def signal_arms_def Let_def update_arm_def upsert_state_def load_state_def dict_get_set
      split: option.split)

lemma record_outcome_frame [simp]:
  "lf_bandit (record_outcome r l) = lf_bandit l" "lf_executions (record_outcome r l) = lf_executions l"
  "lf_map (record_outcome r l) = lf_map l" "signal_arms (record_outcome r l) = signal_arms l"
  by (simp_all add: record_outcome_def upsert_signal_reward_def upsert_outcome_def signal_arms_def comp_def if_distrib cong: if_cong)

lemma update_reward_frame [simp]:
  "lf_executions (update_reward b sg e l) = lf_executions l" "lf_map (update_reward b sg e l) = lf_map l"
  "signal_arms (update_reward b sg e l) = signal_arms l"
  by (simp_all add: update_reward_def signal_arms_def)

lemma fold_at_least:
  fixes f :: "'s \<Rightarrow> real"
  shows "(\<And>x u. f u \<le> f (g x u)) \<Longrightarrow> f u \<le> f (fold g xs u)"
  by (induction xs arbitrary: u) (auto intro: order_trans)

lemma fold_grows:
  fixes f :: "'s \<Rightarrow> real"
  assumes "\<And>x u. f u \<le> f (g x u)" and "x \<in> set xs" and "\<And>u. f u < f (g x u)"
  shows "f u < f (fold g xs u)"
  using assms(2)
proof (induction xs arbitrary: u)
  case (Cons y ys)
  show ?case
  proof (cases "x = y")
    case True
    have "f u < f (g x u)" by (rule assms(3))
    also have "... \<le> f (fold g ys (g x u))" by (rule fold_at_least) (rule assms(1))
    finally show ?thesis using True by simp
  next
    case False
    with Cons have "f (g y u) < f (fold g ys (g y u))" by simp
    with assms(1) [of u y] show ?thesis by simp
  qed
qed simp

lemma add_execution_mono:
  "su_buy_qty u \<le> su_buy_qty (add_execution r u)" "su_buy_notional u \<le> su_buy_notional (add_execution r u)"
  "su_sell_qty u \<le> su_sell_qty (add_execution r u)" "su_sell_notional u \<le> su_sell_notional (add_execution r u)"
  by (simp_all add: add_execution_def Let_def)

lemma add_execution_grows:
  "str_lower (xr_side r) = ''buy'' \<Longrightarrow> 0 < xr_price r \<Longrightarrow> 0 < xr_qty r \<Longrightarrow> su_buy_qty u < su_buy_qty (add_execution r u)"
  "str_lower (xr_side r) = ''buy'' \<Longrightarrow> 0 < xr_price r \<Longrightarrow> 0 < xr_qty r \<Longrightarrow> su_buy_notional u < su_buy_notional (add_execution r u)"
  "str_lower (xr_side r) = ''sell'' \<Longrightarrow> 0 < xr_price r \<Longrightarrow> 0 < xr_qty r \<Longrightarrow> su_sell_qty u < su_sell_qty (add_execution r u)"
  "str_lower (xr_side r) = ''sell'' \<Longrightarrow> 0 < xr_price r \<Longrightarrow> 0 < xr_qty r \<Longrightarrow> su_sell_notional u < su_sell_notional (add_execution r u)"
  by (simp_all add: add_execution_def Let_def)

lemma totals_grow:
  assumes "r \<in> set rows" and "0 < xr_price r" and "0 < xr_qty r"
  shows "str_lower (xr_side r) = ''buy'' \<Longrightarrow> 0 < su_buy_qty (signal_totals sy rows)"
    and "str_lower (xr_side r) = ''buy'' \<Longrightarrow> 0 < su_buy_notional (signal_totals sy rows)"
    and "str_lower (xr_side r) = ''sell'' \<Longrightarrow> 0 < su_sell_qty (signal_totals sy rows)"
    and "str_lower (xr_side r) = ''sell'' \<Longrightarrow> 0 < su_sell_notional (signal_totals sy rows)"
proof -
  let ?zero = "\<lparr>su_symbol = sy, su_buy_qty = 0, su_buy_notional = 0, su_sell_qty = 0, su_sell_notional = 0, su_fees = 0,
      su_first_buy = None, su_last_sell = None\<rparr>"
  show "0 < su_buy_qty (signal_totals sy rows)" if "str_lower (xr_side r) = ''buy''"
    using fold_grows [where f = su_buy_qty and g = add_execution and x = r and xs = rows and u = ?zero,
        OF add_execution_mono(1) assms(1) add_execution_grows(1) [OF that assms(2,3)]]
    by (simp add: signal_totals_def)
  show "0 < su_buy_notional (signal_totals sy rows)" if "str_lower (xr_side r) = ''buy''"
    using fold_grows [where f = su_buy_notional and g = add_execution and x = r and xs = rows and u = ?zero,
        OF add_execution_mono(2) assms(1) add_execution_grows(2) [OF that assms(2,3)]]
    by (simp add: signal_totals_def)
  show "0 < su_sell_qty (signal_totals sy rows)" if "str_lower (xr_side r) = ''sell''"
    using fold_grows [where f = su_sell_qty and g = add_execution and x = r and xs = rows and u = ?zero,
        OF add_execution_mono(3) assms(1) add_execution_grows(3) [OF that assms(2,3)]]
    by (simp add: signal_totals_def)
  show "0 < su_sell_notional (signal_totals sy rows)" if "str_lower (xr_side r) = ''sell''"
    using fold_grows [where f = su_sell_notional and g = add_execution and x = r and xs = rows and u = ?zero,
        OF add_execution_mono(4) assms(1) add_execution_grows(4) [OF that assms(2,3)]]
    by (simp add: signal_totals_def)
qed

text \<open>An execution that counts for the outcome of a signal.\<close>

definition counts_for :: "string \<Rightarrow> string \<Rightarrow> lifecycle_db \<Rightarrow> bool" where
  "counts_for signal_id side l \<longleftrightarrow>
     (\<exists>r \<in> set (lf_executions l). xr_signal r = Some signal_id \<and> str_lower (xr_side r) = side \<and> 0 < xr_price r \<and> 0 < xr_qty r)"

lemma sync_rewards:
  assumes "signal_id \<noteq> []" and "counts_for signal_id ''buy'' l" and "counts_for signal_id ''sell'' l"
    and "\<forall>r \<in> set (lf_executions l). xr_signal r = Some signal_id \<longrightarrow> str_strip (str_upper (xr_symbol r)) \<noteq> []"
  shows "\<exists>db' l' e. sync_signal_outcome_from_executions b (Some signal_id) hint (db, l) = (db', update_reward b signal_id e l')
    \<and> lf_bandit l' = lf_bandit l \<and> signal_arms l' = signal_arms l"
proof -
  define rows where "rows = signal_rows signal_id l"
  have rows: "set rows = {r \<in> set (lf_executions l). xr_signal r = Some signal_id}" by (simp add: rows_def signal_rows_def)
  obtain r1 where r1: "r1 \<in> set rows" "str_lower (xr_side r1) = ''buy''" "0 < xr_price r1" "0 < xr_qty r1"
    using assms(2) by (auto simp: counts_for_def rows)
  obtain r2 where r2: "r2 \<in> set rows" "str_lower (xr_side r2) = ''sell''" "0 < xr_price r2" "0 < xr_qty r2"
    using assms(3) by (auto simp: counts_for_def rows)
  from r1(1) have ne: "rows \<noteq> []" by auto
  then have "hd rows \<in> set rows" by simp
  with rows assms(4) have sy: "str_strip (str_upper (xr_symbol (hd rows))) \<noteq> []" by auto
  then have named: "xr_symbol (hd rows) \<noteq> []" by (auto simp: str_upper_def str_strip_def)
  define u where "u = signal_totals (str_strip (str_upper (xr_symbol (hd rows)))) rows"
  have pos: "0 < su_buy_qty u" "0 < su_buy_notional u" "0 < su_sell_qty u" "0 < su_sell_notional u"
    using totals_grow(1,2) [OF r1(1,3,4,2)] totals_grow(3,4) [OF r2(1,3,4,2)] by (simp_all add: u_def)
  define oc where "oc = roundtrip_outcome signal_id u l"
  have "sync_signal_outcome_from_executions b (Some signal_id) hint (db, l) =
      (update_orders_entry_exit_for_signal signal_id (Some (su_buy_notional u / su_buy_qty u)) (Some (su_sell_notional u / su_sell_qty u)) l db,
       update_reward b signal_id (oc_edge_bps oc) (record_outcome oc l))"
    using assms(1) ne named sy pos
    by (simp add: sync_signal_outcome_from_executions_def Let_def rows_def [symmetric] u_def [symmetric] oc_def [symmetric] or_empty_def)
  then show ?thesis by (metis record_outcome_frame(1,4))
qed

lemma record_fill_life:
  "\<exists>db l. sy_life (record_fill c env symbol signal it s) = snd (sync_signal_outcome_from_executions (sv_bandit env) signal symbol (db, l))
    \<and> lf_executions l = lf_executions (sy_life s) \<and> lf_bandit l = lf_bandit (sy_life s) \<and> signal_arms l = signal_arms (sy_life s)"
proof -
  define l where "l = insert_fill \<lparr>of_symbol = symbol, of_side = fl_side (runtime_fill symbol it), of_link = fl_link (runtime_fill symbol it),
      of_price = fl_price (runtime_fill symbol it), of_qty = fl_qty (runtime_fill symbol it), of_maker = (fl_maker (runtime_fill symbol it) = Some True)\<rparr>
      (insert_order_event (filled_event symbol signal it) (sy_life s))"
  have "\<exists>db. sy_life (record_fill c env symbol signal it s) = snd (sync_signal_outcome_from_executions (sv_bandit env) signal symbol (db, l))"
    unfolding record_fill_def Let_def write_runtime_fill_legacy_and_domain_def prod.case case_prod_beta fst_conv snd_conv
      l_def [symmetric]
    by (simp split del: if_split) blast
  moreover have "lf_executions l = lf_executions (sy_life s)" "lf_bandit l = lf_bandit (sy_life s)" "signal_arms l = signal_arms (sy_life s)"
    by (simp_all add: l_def insert_fill_def insert_order_event_def signal_arms_def)
  ultimately show ?thesis by blast
qed

lemma settle_flat_rewards:
  fixes c env symbol it q a s
  assumes "bc_market c = ''spot''" and "signal_id \<noteq> []" and "bs_signal (sy_bot s) symbol = Some signal_id"
  shows "\<exists>e l. sy_life (fst (settle_flat c env symbol sg it q a s)) = update_reward (sv_bandit env) signal_id e l
    \<and> lf_bandit l = lf_bandit (sy_life s) \<and> signal_arms l = signal_arms (sy_life s) \<and> lf_executions l = lf_executions (sy_life s)"
proof -
  define r where "r = flat_outcome env symbol sg it q a s"
  have r: "oc_signal r = signal_id" using assms by (simp add: r_def flat_outcome_def Let_def or_empty_def)
  have "sy_life (fst (settle_flat c env symbol sg it q a s)) =
      update_reward (sv_bandit env) signal_id (oc_edge_bps r) (record_outcome r (sy_life s))"
    unfolding settle_flat_def Let_def r_def [symmetric]
    using assms(1,2) by (simp add: reward_signal_def r Let_def)
  then show ?thesis by (intro exI [of _ "oc_edge_bps r"] exI [of _ "record_outcome r (sy_life s)"]) simp
qed

section \<open>What a replay adds up to\<close>

text \<open>What a stored execution moves; nothing when it is malformed.\<close>

definition row_qty :: "execution_row \<Rightarrow> real" where
  "row_qty r =
     (let side = str_lower (xr_side r); eff = effective_qty (xr_symbol r) side (xr_qty r) (xr_fee r) (xr_fee_currency r) in
      if xr_id r = [] \<or> xr_symbol r = [] \<or> xr_qty r \<le> 0 \<or> xr_price r \<le> 0 \<or> eff \<le> 0 then 0
      else if side = ''buy'' then eff else if side = ''sell'' then - eff else 0)"

lemma apply_fill_qty:
  "side = ''buy'' \<or> side = ''sell'' \<Longrightarrow> fst (apply_fill q a side n p) = q + (if n \<le> 0 \<or> p \<le> 0 then 0 else if side = ''buy'' then n else - n)"
  using fill_step_qty [of "(q, a)" "\<lparr>fill_side = side, fill_qty = n, fill_price = p\<rparr>"] by (auto simp: fill_step_def signed_qty_def)

lemma replay_row_net: "bs_net (replay_row r s) symbol = bs_net s symbol + (if xr_symbol r = symbol then row_qty r else 0)"
proof (cases "xr_id r = [] \<or> xr_symbol r = [] \<or> xr_side r = [] \<or> xr_qty r \<le> 0 \<or> str_lower (xr_side r) \<notin> {''buy'', ''sell''}")
  case True
  then show ?thesis by (auto simp: replay_row_def row_qty_def see_def Let_def str_lower_def)
next
  case False
  then have "str_lower (xr_side r) = ''buy'' \<or> str_lower (xr_side r) = ''sell''" by simp
  from apply_fill_qty [OF this] False show ?thesis
    by (auto simp: replay_row_def row_qty_def see_def Let_def replay_fill_def hold_position_def)
qed

lemma replay_rows_net:
  "bs_net (fold replay_row rows s) symbol = bs_net s symbol + sum_list (map row_qty (filter (\<lambda>r. xr_symbol r = symbol) rows))"
  by (induction rows arbitrary: s) (simp_all add: replay_row_net)

lemma sum_list_insort:
  fixes f :: "'a \<Rightarrow> real" and key :: "'a \<Rightarrow> int"
  shows "sum_list (map f (filter P (insort_key key x xs))) = (if P x then f x else 0) + sum_list (map f (filter P xs))"
  by (induction xs) auto

lemma sum_list_sorted:
  fixes f :: "'a \<Rightarrow> real" and key :: "'a \<Rightarrow> int"
  shows "sum_list (map f (filter P (sort_key key xs))) = sum_list (map f (filter P xs))"
  by (induction xs) (simp_all add: sum_list_insort)

section \<open>Example inputs\<close>

definition sample_sync :: "bool \<Rightarrow> sync_env" where
  "sample_sync accepts = \<lparr>sv_protect = sample_protect accepts, sv_now_ms = 5, sv_bandit = new_bandit [''p''] 0 1\<rparr>"

definition sample_listed :: "string \<Rightarrow> string \<Rightarrow> real \<Rightarrow> (string, json) dict" where
  "sample_listed i side qty = [(''execId'', JStr i), (''side'', JStr side), (''execQty'', JNum qty), (''execPrice'', JNum 100)]"

definition sample_item :: "string \<Rightarrow> string \<Rightarrow> string \<Rightarrow> real \<Rightarrow> fill_item" where
  "sample_item i side side_text qty = \<lparr>fi_id = i, fi_side = side, fi_side_text = side_text, fi_qty = qty, fi_price = 100, fi_link = None, fi_order = None,
     fi_fee = 0, fi_currency = [], fi_time_ms = 5, fi_maker = False, fi_rate_error = None, fi_value_error = None\<rparr>"

definition sample_sync_state :: "string \<Rightarrow> sync_state" where
  "sample_sync_state market = \<lparr>sy_bot = sample_bot_state market, sy_life = empty_lifecycle\<rparr>"

lemma sample_str: "pe_str (sv_protect (sample_sync b)) = (\<lambda>_. [])" "sv_now_ms (sample_sync b) = 5"
  by (simp_all add: sample_sync_def sample_protect_def)

lemma sample_side: "str_lower ''Buy'' = ''buy''" "str_lower ''Sell'' = ''sell''"
  by code_simp+

lemma sample_read:
  assumes "0 < qty" and "str_lower side_text = side" and "side \<in> {''buy'', ''sell''}" and "i \<noteq> []"
  shows "read_execution (\<lambda>_. []) 5 (sample_listed i side_text qty) = Inr (Some (sample_item i side side_text qty))"
proof -
  have "str_lower [] = []" "str_lower ''true'' = ''true''" by (simp_all add: str_lower_def lower_char_def)
  moreover have "side_text \<noteq> []" using assms(2,3) by (auto simp: str_lower_def)
  ultimately show ?thesis
    using assms by (auto simp: read_execution_def sample_listed_def sample_item_def json_key_def json_or_def json_text_def item_float_def
        given_text_def execution_id_def py_trunc_def)
qed

lemma sample_id: "i \<noteq> [] \<Longrightarrow> execution_id (\<lambda>_. []) (sample_listed i side_text qty) = i"
  by (simp add: execution_id_def sample_listed_def json_key_def json_text_def)

lemma sample_base: "split_symbol_base_quote ''BTCUSDT'' = (''BTC'', ''USDT'')" "str_upper ''BTCUSDT'' = ''BTCUSDT''"
  by (simp_all add: split_symbol_base_quote_def KNOWN_QUOTE_SUFFIXES_def ends_in_def str_eval py_space_def upper_char_def)

lemma sample_qty: "item_qty ''BTCUSDT'' (sample_item i side side_text qty) = qty"
proof -
  have "str_upper [] = []" by (simp add: str_upper_def)
  then show ?thesis by (simp add: item_qty_def effective_qty_def sample_item_def sample_base)
qed

lemma sample_net: "bs_net (sy_bot (sample_sync_state m)) = (\<lambda>_. 0)" "bs_seen (sy_bot (sample_sync_state m)) = []"
  "bc_market (sample_bot m) = m"
  by (simp_all add: sample_sync_state_def sample_bot_state_def new_bot_state_def sample_bot_def)

lemma sample_item_simps [simp]:
  "fi_side (sample_item i side tx q) = side" "fi_price (sample_item i side tx q) = 100" "fi_rate_error (sample_item i side tx q) = None"
  "fi_value_error (sample_item i side tx q) = None" "fi_id (sample_item i side tx q) = i"
  by (simp_all add: sample_item_def)

text \<open>A purchase of two, in the spot market.\<close>

lemma sample_purchase:
  assumes "bs_net (sy_bot s) ''BTCUSDT'' = 0"
  shows "\<exists>s'. book_execution (sample_bot ''spot'') (sample_sync True) ''BTCUSDT'' 1 0 (sample_item ''a'' ''buy'' ''Buy'' 2) s = (s', None)
    \<and> bs_net (sy_bot s') ''BTCUSDT'' = 2"
proof -
  have "fst (filled_position ''BTCUSDT'' (sample_item ''a'' ''buy'' ''Buy'' 2) (sy_bot s)) = 2"
    using filled_buy [of "sample_item ''a'' ''buy'' ''Buy'' 2" "''BTCUSDT''" "sy_bot s"] sample_qty assms by simp
  then have "counted_qty (sample_bot ''spot'') ''BTCUSDT'' 1 0 (sample_item ''a'' ''buy'' ''Buy'' 2) (sy_bot s) = 2"
    by (simp add: counted_qty_def now_effective_def is_effective_def)
  with book_spot [of "sample_bot ''spot''" "''BTCUSDT''" "sample_item ''a'' ''buy'' ''Buy'' 2" "sample_sync True" 1 0 s]
  show ?thesis using sample_qty sample_net by auto
qed

text \<open>A sale of two, from nothing.\<close>

lemma sample_sale:
  assumes "bs_net (sy_bot s) ''BTCUSDT'' = 0"
  shows "\<exists>s'. book_execution (sample_bot ''spot'') (sample_sync True) ''BTCUSDT'' 1 0 (sample_item ''a'' ''sell'' ''Sell'' 2) s = (s', None)
    \<and> bs_net (sy_bot s') ''BTCUSDT'' = - 2"
proof -
  have "fst (filled_position ''BTCUSDT'' (sample_item ''a'' ''sell'' ''Sell'' 2) (sy_bot s)) = - 2"
    using filled_from_nothing [of "sample_item ''a'' ''sell'' ''Sell'' 2" "''BTCUSDT''" "sy_bot s"] sample_qty assms by simp
  then have "counted_qty (sample_bot ''spot'') ''BTCUSDT'' 1 0 (sample_item ''a'' ''sell'' ''Sell'' 2) (sy_bot s) = - 2"
    by (simp add: counted_qty_def now_effective_def is_effective_def)
  with book_spot [of "sample_bot ''spot''" "''BTCUSDT''" "sample_item ''a'' ''sell'' ''Sell'' 2" "sample_sync True" 1 0 s]
  show ?thesis using sample_qty sample_net by auto
qed

section \<open>Properties\<close>

text \<open>
  C5: As long as the memory of identifiers is not full, working through the same answer of the exchange
  again changes nothing, whatever the clock, the levels and the other answers are by then.
\<close>

theorem executions_are_booked_once:
  assumes "symbol_executions_sync c env symbol level notional_level items s = (s', None)"
    and "length (bs_seen (sy_bot s)) + length items \<le> seen_limit"
    and "pe_str (sv_protect env') = pe_str (sv_protect env)"
  shows "symbol_executions_sync c env' symbol level' notional_level' items s' = (s', None)"
proof -
  have "list_all (is_seen (pe_str (sv_protect env)) (sy_bot s')) (rev items)"
    using each_marks [of c env symbol level notional_level "rev items" s s'] assms(1,2) by (simp add: symbol_executions_sync_def)
  then show ?thesis
    unfolding symbol_executions_sync_def by (intro all_seen_skipped) (simp add: assms(3))
qed

theorem executions_are_booked_once_witness:
  "\<exists>s'. symbol_executions_sync (sample_bot ''spot'') (sample_sync True) ''BTCUSDT'' 1 0 [JObj (sample_listed ''a'' ''Buy'' 2)]
        (sample_sync_state ''spot'') = (s', None)
     \<and> bs_net (sy_bot s') ''BTCUSDT'' = 2
     \<and> symbol_executions_sync (sample_bot ''spot'') (sample_sync False) ''BTCUSDT'' 2 7 [JObj (sample_listed ''a'' ''Buy'' 2)] s' = (s', None)"
proof -
  have "read_execution (pe_str (sv_protect (sample_sync True))) (sv_now_ms (sample_sync True)) (sample_listed ''a'' ''Buy'' 2)
      = Inr (Some (sample_item ''a'' ''buy'' ''Buy'' 2))"
    using sample_read [of 2 "''Buy''" "''buy''" "''a''"] sample_side by (simp add: sample_str)
  note step = step_books [OF this, of "sample_sync_state ''spot''" "sample_bot ''spot''" "''BTCUSDT''" 1 0]
  obtain s' where s': "symbol_executions_sync (sample_bot ''spot'') (sample_sync True) ''BTCUSDT'' 1 0 [JObj (sample_listed ''a'' ''Buy'' 2)]
        (sample_sync_state ''spot'') = (s', None)" "bs_net (sy_bot s') ''BTCUSDT'' = 2"
    using step sample_purchase [of "on_bot (mark_seen ''a'') (sample_sync_state ''spot'')"]
    by (auto simp: symbol_executions_sync_def sample_net sample_str sample_id)
  from executions_are_booked_once [OF s'(1), of "sample_sync False" 2 7]
  have "symbol_executions_sync (sample_bot ''spot'') (sample_sync False) ''BTCUSDT'' 2 7 [JObj (sample_listed ''a'' ''Buy'' 2)] s' = (s', None)"
    by (simp add: sample_str seen_limit_def sample_net)
  with s' show ?thesis by blast
qed

text \<open>The fills of an answer that are each below the level of the symbol.\<close>

definition below_level :: "(json \<Rightarrow> string) \<Rightarrow> int \<Rightarrow> string \<Rightarrow> real \<Rightarrow> json \<Rightarrow> bool" where
  "below_level str now_ms symbol level item \<longleftrightarrow>
     (\<forall>d it. item = JObj d \<and> read_execution str now_ms d = Inr (Some it) \<longrightarrow> item_qty symbol it < level)"

lemma filled_from_flat:
  "0 < item_qty symbol it \<Longrightarrow> bs_net b symbol = 0 \<Longrightarrow> \<bar>fst (filled_position symbol it b)\<bar> \<le> item_qty symbol it"
  by (simp add: filled_position_def apply_fill_def Let_def)

lemma dust_step:
  assumes "bs_net (sy_bot s) symbol = 0" and "below_level (pe_str (sv_protect env)) (sv_now_ms env) symbol level item"
  shows "bs_net (sy_bot (fst (execution_step c env symbol level notional_level item s))) symbol = 0"
proof (cases item)
  case (JObj d)
  define s1 where "s1 = on_bot (mark_seen (execution_id (pe_str (sv_protect env)) d)) s"
  have s1: "bs_net (sy_bot s1) symbol = 0" using assms(1) by (simp add: s1_def on_bot_def mark_seen_def Let_def)
  have booked: "bs_net (sy_bot (fst (book_execution c env symbol level notional_level it s1))) symbol = 0"
    if "read_execution (pe_str (sv_protect env)) (sv_now_ms env) d = Inr (Some it)" for it
  proof (cases "0 < item_qty symbol it \<and> fi_rate_error it = None")
    case True
    have "item_qty symbol it < level" using assms(2) that JObj by (auto simp: below_level_def)
    with filled_from_flat [of symbol it "sy_bot s1"] True s1
    have "\<not> now_effective c symbol level notional_level it (sy_bot s1)" by (auto simp: now_effective_def is_effective_def)
    with True show ?thesis by (intro book_flat) auto
  next
    case False
    then show ?thesis using s1
      by (cases "fi_rate_error it") (auto simp: book_execution_def item_qty_def Let_def raise_if_def)
  qed
  show ?thesis
    using JObj s1 assms(1) booked
    by (auto simp: execution_step_def Let_def s1_def [symmetric] split: sum.split option.split)
qed (use assms(1) in \<open>simp_all add: execution_step_def\<close>)

text \<open>
  Fills that are each below the level of the symbol never become a position, however many of them
  there are and whatever they add up to: each of them is taken for the end of a position.
\<close>

theorem small_fills_never_add_up:
  assumes "bs_net (sy_bot s) symbol = 0"
    and "\<forall>item \<in> set items. below_level (pe_str (sv_protect env)) (sv_now_ms env) symbol level item"
  shows "bs_net (sy_bot (fst (symbol_executions_sync c env symbol level notional_level items s))) symbol = 0"
proof -
  have "bs_net (sy_bot s) symbol = 0 \<longrightarrow> bs_net (sy_bot (fst (each (execution_step c env symbol level notional_level) (rev items) s))) symbol = 0"
    using dust_step assms(2) by (intro implied.rel_each) auto
  with assms(1) show ?thesis by (simp add: symbol_executions_sync_def)
qed

theorem small_fills_never_add_up_witness:
  "bs_net (sy_bot (fst (symbol_executions_sync (sample_bot ''spot'') (sample_sync True) ''BTCUSDT'' 1 0
      [JObj (sample_listed ''c'' ''Buy'' (3 / 5)), JObj (sample_listed ''b'' ''Buy'' (3 / 5)), JObj (sample_listed ''a'' ''Buy'' (3 / 5))]
      (sample_sync_state ''spot'')))) ''BTCUSDT'' = 0 \<and> 1 < (3 / 5 + 3 / 5 + 3 / 5 :: real)"
proof -
  have small: "below_level (\<lambda>_. []) 5 ''BTCUSDT'' 1 (JObj (sample_listed i ''Buy'' (3 / 5)))" if "i \<noteq> []" for i
    using sample_read [of "3 / 5" "''Buy''" "''buy''" i] sample_side that by (auto simp: below_level_def sample_qty)
  show ?thesis
    using small_fills_never_add_up [of "sample_sync_state ''spot''" "''BTCUSDT''"
      "[JObj (sample_listed ''c'' ''Buy'' (3 / 5)), JObj (sample_listed ''b'' ''Buy'' (3 / 5)), JObj (sample_listed ''a'' ''Buy'' (3 / 5))]"
      "sample_sync True" 1 "sample_bot ''spot''" 0]
    by (simp add: small sample_str sample_net)
qed

text \<open>
  C24: In the spot market the table follows what the process tracks, except for a short position: an execution
  of a positive quantity that is booked without an exception, in a symbol with a positive level whose base asset is
  known, leaves the row of the holding with the quantity the process takes for its position, whatever the row held before, and
  says that it may be sold and was not recovered. When the execution takes the tracked quantity below zero, no
  row of the table is written: the row keeps the quantity it had.
\<close>

theorem holding_mirrors_position:
  assumes "bc_market c = ''spot''" and "book_execution c env symbol level notional_level it s = (s', None)"
    and "0 < item_qty symbol it" and "0 < level" and "fst (split_symbol_base_quote (str_upper symbol)) = base" and "base \<noteq> []"
  shows "if 0 \<le> bs_net (sy_bot s') symbol
    then \<exists>r. row_at holding_key (''UNIFIED'', str_upper symbol, str_upper base) (sp_holdings (bs_db (sy_bot s'))) = Some r
      \<and> hr_free r = bs_net (sy_bot s') symbol \<and> hr_auto_sell r \<and> \<not> hr_recovered r
    else sp_holdings (bs_db (sy_bot s')) = sp_holdings (bs_db (sy_bot s))"
proof -
  have "fi_rate_error it = None"
    using assms(2,3) by (cases "fi_rate_error it") (auto simp: book_execution_def item_qty_def Let_def raise_if_def)
  from book_spot [OF assms(1,3) this, of env level notional_level s] assms(2)
  have "bs_net (sy_bot s') symbol = counted_qty c symbol level notional_level it (sy_bot s)"
    "0 \<le> counted_qty c symbol level notional_level it (sy_bot s) \<longrightarrow>
       holding_is symbol base (counted_qty c symbol level notional_level it (sy_bot s)) (bs_db (sy_bot s'))"
    "counted_qty c symbol level notional_level it (sy_bot s) < 0 \<longrightarrow> sp_holdings (bs_db (sy_bot s')) = sp_holdings (bs_db (sy_bot s))"
    using assms(4-6) by auto
  then show ?thesis by (auto simp: holding_is_def)
qed

text \<open>A purchase of two, whose row is written; and a sale of two from nothing, which leaves the table empty.\<close>

theorem holding_mirrors_position_witness:
  "(\<exists>s'. book_execution (sample_bot ''spot'') (sample_sync True) ''BTCUSDT'' 1 0 (sample_item ''a'' ''buy'' ''Buy'' 2) (sample_sync_state ''spot'') = (s', None)
      \<and> (\<exists>r. row_at holding_key (''UNIFIED'', ''BTCUSDT'', ''BTC'') (sp_holdings (bs_db (sy_bot s'))) = Some r \<and> hr_free r = 2 \<and> hr_auto_sell r))
   \<and> (\<exists>s'. book_execution (sample_bot ''spot'') (sample_sync True) ''BTCUSDT'' 1 0 (sample_item ''a'' ''sell'' ''Sell'' 2) (sample_sync_state ''spot'') = (s', None)
      \<and> bs_net (sy_bot s') ''BTCUSDT'' = - 2 \<and> sp_holdings (bs_db (sy_bot s')) = [])"
proof -
  have base: "str_upper ''BTC'' = ''BTC''" by (simp add: str_upper_def upper_char_def)
  from sample_purchase [of "sample_sync_state ''spot''"] obtain s' where s': "book_execution (sample_bot ''spot'') (sample_sync True) ''BTCUSDT'' 1 0
      (sample_item ''a'' ''buy'' ''Buy'' 2) (sample_sync_state ''spot'') = (s', None)" "bs_net (sy_bot s') ''BTCUSDT'' = 2" using sample_net by auto
  from sample_sale [of "sample_sync_state ''spot''"] obtain s2 where s2: "book_execution (sample_bot ''spot'') (sample_sync True) ''BTCUSDT'' 1 0
      (sample_item ''a'' ''sell'' ''Sell'' 2) (sample_sync_state ''spot'') = (s2, None)" "bs_net (sy_bot s2) ''BTCUSDT'' = - 2" using sample_net by auto
  have "sp_holdings (bs_db (sy_bot (sample_sync_state ''spot''))) = []"
    by (simp add: sample_sync_state_def sample_bot_state_def new_bot_state_def empty_db_def)
  with holding_mirrors_position [OF _ s'(1), of "''BTC''"] holding_mirrors_position [OF _ s2(1), of "''BTC''"] s' s2 base show ?thesis
    by (simp add: sample_net sample_base sample_qty) blast
qed

text \<open>
  Once the memory of identifiers is full, an execution the exchange lists again is booked again: a buy
  seen in two refreshes counts twice.
\<close>

theorem forgotten_identifiers_book_twice:
  assumes "bc_market c = ''spot''" and "read_execution (pe_str (sv_protect env)) (sv_now_ms env) d = Inr (Some it)"
    and "fi_side it = ''buy''" and "0 < fi_price it" and "fi_rate_error it = None" and "fi_value_error it = None"
    and "0 < level" and "level \<le> item_qty symbol it" and "notional_level \<le> 0"
    and "length (bs_seen (sy_bot s)) = seen_limit" and "execution_id (pe_str (sv_protect env)) d \<notin> set (bs_seen (sy_bot s))"
    and "0 \<le> bs_net (sy_bot s) symbol"
  shows "\<exists>s1 s2. symbol_executions_sync c env symbol level notional_level [JObj d] s = (s1, None)
    \<and> symbol_executions_sync c env symbol level notional_level [JObj d] s1 = (s2, None)
    \<and> bs_net (sy_bot s2) symbol = bs_net (sy_bot s) symbol + 2 * item_qty symbol it"
proof -
  let ?x = "execution_id (pe_str (sv_protect env)) d"
  have q: "0 < item_qty symbol it" using assms(7,8) by simp
  have booked: "\<exists>t'. execution_step c env symbol level notional_level (JObj d) t = (t', None)
      \<and> bs_net (sy_bot t') symbol = bs_net (sy_bot t) symbol + item_qty symbol it \<and> bs_seen (sy_bot t') = bs_seen (mark_seen ?x (sy_bot t))"
    if "?x \<notin> set (bs_seen (sy_bot t))" "0 \<le> bs_net (sy_bot t) symbol" for t
  proof -
    define t1 where "t1 = on_bot (mark_seen ?x) t"
    have net: "fst (filled_position symbol it (sy_bot t1)) = bs_net (sy_bot t) symbol + item_qty symbol it"
      using filled_buy [OF assms(3) q assms(4)] that(2) by (simp add: t1_def)
    then have "now_effective c symbol level notional_level it (sy_bot t1)"
      using assms(7-9) that(2) by (simp add: now_effective_def is_effective_def)
    with net have "counted_qty c symbol level notional_level it (sy_bot t1) = bs_net (sy_bot t) symbol + item_qty symbol it"
      by (simp add: counted_qty_def)
    with book_spot [OF assms(1) q assms(5), of env level notional_level t1] assms(6)
      book_seen [of c env symbol level notional_level it t1] step_books [OF assms(2) that(1), of c symbol level notional_level]
    show ?thesis by (auto simp: t1_def)
  qed
  from booked [OF assms(11,12)] obtain s1 where s1: "execution_step c env symbol level notional_level (JObj d) s = (s1, None)"
      "bs_net (sy_bot s1) symbol = bs_net (sy_bot s) symbol + item_qty symbol it" "bs_seen (sy_bot s1) = []"
    using mark_seen_full [OF assms(10,11)] by auto
  from booked [of s1] s1 q assms(12) obtain s2 where "execution_step c env symbol level notional_level (JObj d) s1 = (s2, None)"
      "bs_net (sy_bot s2) symbol = bs_net (sy_bot s) symbol + 2 * item_qty symbol it" by auto
  with s1(1) show ?thesis by (simp add: symbol_executions_sync_def)
qed

theorem forgotten_identifiers_book_twice_witness:
  "\<exists>s1 s2. symbol_executions_sync (sample_bot ''spot'') (sample_sync True) ''BTCUSDT'' 1 0 [JObj (sample_listed ''a'' ''Buy'' 2)]
        ((sample_sync_state ''spot'')\<lparr>sy_bot := (sample_bot_state ''spot'')\<lparr>bs_seen := replicate seen_limit ''z''\<rparr>\<rparr>) = (s1, None)
     \<and> symbol_executions_sync (sample_bot ''spot'') (sample_sync True) ''BTCUSDT'' 1 0 [JObj (sample_listed ''a'' ''Buy'' 2)] s1 = (s2, None)
     \<and> bs_net (sy_bot s2) ''BTCUSDT'' = 4"
proof -
  let ?s = "(sample_sync_state ''spot'')\<lparr>sy_bot := (sample_bot_state ''spot'')\<lparr>bs_seen := replicate seen_limit ''z''\<rparr>\<rparr>"
  have "read_execution (pe_str (sv_protect (sample_sync True))) (sv_now_ms (sample_sync True)) (sample_listed ''a'' ''Buy'' 2)
      = Inr (Some (sample_item ''a'' ''buy'' ''Buy'' 2))"
    using sample_read [of 2 "''Buy''" "''buy''" "''a''"] sample_side by (simp add: sample_str)
  moreover have "bs_net (sy_bot ?s) ''BTCUSDT'' = 0" by (simp add: sample_bot_state_def new_bot_state_def)
  ultimately show ?thesis
    using forgotten_identifiers_book_twice [of "sample_bot ''spot''" "sample_sync True" "sample_listed ''a'' ''Buy'' 2" "sample_item ''a'' ''buy'' ''Buy'' 2"
      1 "''BTCUSDT''" 0 ?s]
    by (simp add: sample_net sample_qty sample_str sample_id)
qed

text \<open>
  C17: In the futures market, after the market order that closes an unprotected position was accepted, the process
  has already forgotten the position. The first execution after that of a fill on the closing side, when it is
  read less than eight seconds after the attempt to protect the position, is booked as a new position on the other
  side: a fill of the quantity x, at or above the level of the symbol, makes a short position of x if the closed
  one was long, and a long one of x if it was short, whether x is the whole quantity or a part of it.
\<close>

theorem closing_fill_opens_opposite_position:
  assumes "protects_now c p symbol qty entry (sy_bot s)" and "bot_plan symbol qty entry (sy_bot s) \<noteq> None" and "pe_executor p = Some ex"
    and "executor_supports_capability (Some ex) (Some ''protection'') (Some (bc_market c))"
    and "''set_trading_stop'' \<in> set (bx_callable ex)" and "\<not> apply_success p" and "stop_accepted (pe_close p)"
    and "read_execution (pe_str (sv_protect env)) (sv_now_ms env) d = Inr (Some it)" and "fi_side it = (if 0 < qty then ''sell'' else ''buy'')"
    and "0 < item_qty symbol it" and "0 < fi_price it" and "fi_rate_error it = None" and "fi_value_error it = None"
    and "level \<le> item_qty symbol it"
    and "execution_id (pe_str (sv_protect env)) d \<notin> set (bs_seen (sy_bot s))" and "pe_mono (sv_protect env) < pe_mono p + 8"
  shows "\<exists>b s'. ensure_futures_protection c p symbol qty entry (sy_bot s) = (b, None) \<and> bs_net b symbol = 0
    \<and> execution_step c env symbol level notional_level (JObj d) (s\<lparr>sy_bot := b\<rparr>) = (s', None)
    \<and> bs_net (sy_bot s') symbol = (if 0 < qty then - item_qty symbol it else item_qty symbol it)"
proof -
  from refused_closes [OF assms(1-7)] obtain b where b: "ensure_futures_protection c p symbol qty entry (sy_bot s) = (b, None)"
      "bs_net b symbol = 0" "bs_seen b = bs_seen (sy_bot s)" "bs_applied_at b symbol = pe_mono p" by blast
  define t where "t = on_bot (mark_seen (execution_id (pe_str (sv_protect env)) d)) (s\<lparr>sy_bot := b\<rparr>)"
  have linear: "bc_market c = ''linear''" using assms(1) by (simp add: protects_now_def)
  have net: "fst (filled_position symbol it (sy_bot t)) = (if 0 < qty then - item_qty symbol it else item_qty symbol it)"
    using filled_from_nothing [OF _ assms(10,11), of "sy_bot t"] b(2) assms(9) by (simp add: t_def)
  moreover have "now_effective c symbol level notional_level it (sy_bot t)"
    using net linear assms(10,14) by (simp add: now_effective_def is_effective_def)
  ultimately obtain s' where "book_execution c env symbol level notional_level it t = (s', None)"
      "bs_net (sy_bot s') symbol = (if 0 < qty then - item_qty symbol it else item_qty symbol it)"
    using book_linear_quiet [OF linear assms(10,12,13), of level notional_level t env] assms(16) b(4) by (auto simp: t_def)
  then show ?thesis
    using b assms(15) step_books [OF assms(8), of "s\<lparr>sy_bot := b\<rparr>" c symbol level notional_level] by (auto simp: t_def)
qed

theorem closing_fill_opens_opposite_position_witness:
  "\<exists>b s'. ensure_futures_protection (sample_bot ''linear'') (sample_protect False) ''BTCUSDT'' 1 100 (sample_bot_state ''linear'') = (b, None)
    \<and> bs_net b ''BTCUSDT'' = 0
    \<and> execution_step (sample_bot ''linear'') (sample_sync False) ''BTCUSDT'' (1 / 4) 0 (JObj (sample_listed ''a'' ''Sell'' (1 / 2)))
        ((sample_sync_state ''linear'')\<lparr>sy_bot := b\<rparr>) = (s', None)
    \<and> bs_net (sy_bot s') ''BTCUSDT'' = - (1 / 2)"
proof -
  have state: "sy_bot (sample_sync_state ''linear'') = sample_bot_state ''linear''" by (simp add: sample_sync_state_def)
  have seen: "bs_seen (sample_bot_state ''linear'') = []" by (simp add: sample_bot_state_def new_bot_state_def)
  have "read_execution (pe_str (sv_protect (sample_sync False))) (sv_now_ms (sample_sync False)) (sample_listed ''a'' ''Sell'' (1 / 2))
      = Inr (Some (sample_item ''a'' ''sell'' ''Sell'' (1 / 2)))"
    using sample_read [of "1 / 2" "''Sell''" "''sell''" "''a''"] sample_side by (simp add: sample_str)
  moreover have "pe_executor (sample_protect False) = Some sample_executor" "''set_trading_stop'' \<in> set (bx_callable sample_executor)"
    "stop_accepted (pe_close (sample_protect False))" "pe_mono (sv_protect (sample_sync False)) < pe_mono (sample_protect False) + 8"
    by (simp_all add: sample_protect_def sample_executor_def stop_accepted_def ret_code_ok_def json_key_def sample_sync_def)
  ultimately show ?thesis
    using closing_fill_opens_opposite_position [of "sample_bot ''linear''" "sample_protect False" "''BTCUSDT''" 1 100 "sample_sync_state ''linear''"
      sample_executor "sample_sync False" "sample_listed ''a'' ''Sell'' (1 / 2)" "sample_item ''a'' ''sell'' ''Sell'' (1 / 2)" "1 / 4" 0]
      sample_protects [of False] sample_plan sample_supports sample_attempt [of False]
    by (simp add: state sample_qty sample_str sample_id seen)
qed

text \<open>
  The execution that ends a position rewards its signal twice: once for the position, and once more
  for the executions of the signal, so that every closed trade counts as two observations of its profile.
\<close>

theorem closing_fill_rewards_twice:
  assumes "bc_market c = ''spot''" and "0 < item_qty symbol it" and "fi_rate_error it = None" and "fi_value_error it = None"
    and "\<not> now_effective c symbol level notional_level it (sy_bot s)"
    and "signal_id \<noteq> []" and "bs_signal (sy_bot s) symbol = Some signal_id"
    and "get_signal_id_for_order_link (fi_link it) (sy_life s) = Some signal_id"
    and "counts_for signal_id ''buy'' (sy_life s)" and "str_lower (fi_side_text it) = ''sell''" and "0 < fi_price it" and "0 < fi_qty it"
    and "fi_id it \<notin> xr_id ` set (lf_executions (sy_life s))"
    and "\<forall>r \<in> set (lf_executions (sy_life s)). xr_signal r = Some signal_id \<longrightarrow> xr_symbol r = symbol" and "str_strip (str_upper symbol) \<noteq> []"
    and "dict_get (signal_arms (sy_life s)) signal_id = Some (sy, pr)" and "str_strip (str_upper sy) \<noteq> []" and "str_strip pr \<noteq> []"
  shows "arm_n (load_state (lf_bandit (sy_life (fst (book_execution c env symbol level notional_level it s)))) (str_strip (str_upper sy)) (str_strip pr))
    = arm_n (load_state (lf_bandit (sy_life s)) (str_strip (str_upper sy)) (str_strip pr)) + 2"
proof -
  let ?pos = "filled_position symbol it (sy_bot s)" and ?arm = "\<lambda>l. arm_n (load_state (lf_bandit l) (str_strip (str_upper sy)) (str_strip pr))"
  define x where "x = execution_of symbol (Some signal_id) it"
  define s0 where "s0 = filled_state symbol it s"
  have life0: "sy_life s0 = insert_execution_event x (sy_life s)" by (simp add: s0_def x_def assms(8))
  have "xr_id x = fi_id it" by (simp add: x_def execution_of_def)
  then have exec0: "lf_executions (sy_life s0) = lf_executions (sy_life s) @ [x]"
    using assms(13) by (simp add: life0 insert_execution_event_def insert_new_row_def)
  have same0: "lf_bandit (sy_life s0) = lf_bandit (sy_life s)" "signal_arms (sy_life s0) = signal_arms (sy_life s)"
    by (simp_all add: life0 insert_execution_event_def signal_arms_def)
  obtain db where m: "in_bot (mirror_quantity c env symbol False (fst ?pos) (snd ?pos) (fi_price it)) s0
      = (s0\<lparr>sy_bot := (sy_bot s0)\<lparr>bs_db := db\<rparr>\<rparr>, None)"
    using mirror_not_effective by (metis in_bot_def fst_conv snd_conv)
  define s1 where "s1 = s0\<lparr>sy_bot := (sy_bot s0)\<lparr>bs_db := db\<rparr>\<rparr>"
  have s1: "sy_life s1 = sy_life s0" "bs_signal (sy_bot s1) symbol = Some signal_id" using assms(7) by (simp_all add: s1_def s0_def)
  obtain t where t: "settle_flat c env symbol (Some signal_id) it (bs_net (sy_bot s) symbol) (bs_avg (sy_bot s) symbol) s1 = (t, None)"
    using settle_flat_ok by blast
  obtain e l where l: "sy_life t = update_reward (sv_bandit env) signal_id e l" "lf_bandit l = lf_bandit (sy_life s1)"
      "signal_arms l = signal_arms (sy_life s1)" "lf_executions l = lf_executions (sy_life s1)"
    using settle_flat_rewards [OF assms(1,6) s1(2), of env "Some signal_id" it "bs_net (sy_bot s) symbol" "bs_avg (sy_bot s) symbol"] t by auto
  have once: "?arm (sy_life t) = Suc (?arm (sy_life s))"
    unfolding l(1) using update_reward_arm [of l signal_id sy pr "sv_bandit env" e] assms(16-18) l(2,3) s1(1) same0 by simp
  obtain db' l' where l': "sy_life (record_fill c env symbol (Some signal_id) it t)
        = snd (sync_signal_outcome_from_executions (sv_bandit env) (Some signal_id) symbol (db', l'))"
      "lf_executions l' = lf_executions (sy_life t)" "lf_bandit l' = lf_bandit (sy_life t)" "signal_arms l' = signal_arms (sy_life t)"
    using record_fill_life by blast
  have execs: "lf_executions l' = lf_executions (sy_life s) @ [x]" by (simp add: l'(2) l(1,4) s1(1) exec0)
  have "counts_for signal_id ''buy'' l'" "counts_for signal_id ''sell'' l'"
    using assms(9-12) by (auto simp: counts_for_def execs x_def execution_of_def)
  moreover have "\<forall>r \<in> set (lf_executions l'). xr_signal r = Some signal_id \<longrightarrow> str_strip (str_upper (xr_symbol r)) \<noteq> []"
    using assms(14,15) by (auto simp: execs x_def execution_of_def)
  ultimately obtain db2 l2 e2 where l2: "sync_signal_outcome_from_executions (sv_bandit env) (Some signal_id) symbol (db', l')
        = (db2, update_reward (sv_bandit env) signal_id e2 l2)" "lf_bandit l2 = lf_bandit l'" "signal_arms l2 = signal_arms l'"
    using sync_rewards [OF assms(6)] by blast
  have "?arm (sy_life (record_fill c env symbol (Some signal_id) it t)) = Suc (?arm (sy_life t))"
    using update_reward_arm [of l2 signal_id sy pr "sv_bandit env" e2] assms(16-18) l2 l'
    by (simp add: l(1,3) s1(1) same0)
  moreover have "book_execution c env symbol level notional_level it s = (record_fill c env symbol (Some signal_id) it t, None)"
    unfolding book_unfold [OF assms(2,3)] Let_def s0_def [symmetric] assms(8)
    using assms(4,5) by (simp add: m s1_def [symmetric] t raise_if_def)
  ultimately show ?thesis using once by simp
qed

theorem closing_fill_rewards_twice_witness:
  "let x = \<lparr>xr_id = ''a'', xr_link = Some ''k'', xr_signal = Some ''s'', xr_symbol = ''BTCUSDT'', xr_side = ''buy'', xr_price = 90, xr_qty = 1,
         xr_fee = 0, xr_fee_currency = [], xr_time_ms = 1\<rparr>;
       l = empty_lifecycle\<lparr>lf_signals := [\<lparr>sg_id = ''s'', sg_symbol = ''B'', sg_side = ''buy'', sg_profile = ''p'', sg_size_base = 1,
         sg_entry_price = 90, sg_reward = None\<rparr>], lf_map := [(''k'', Some ''s'')], lf_executions := [x]\<rparr>;
       b = (sample_bot_state ''spot'')\<lparr>bs_net := (\<lambda>_. 1), bs_avg := (\<lambda>_. 90), bs_signal := (\<lambda>_. Some ''s'')\<rparr>;
       it = (sample_item ''b'' ''sell'' ''sell'' 1)\<lparr>fi_link := Some ''k''\<rparr> in
    arm_n (load_state (lf_bandit (sy_life (fst (book_execution (sample_bot ''spot'') (sample_sync True) ''BTCUSDT'' 1 0 it \<lparr>sy_bot = b, sy_life = l\<rparr>)))) ''B'' ''p'') = 2"
proof -
  define x where "x = \<lparr>xr_id = ''a'', xr_link = Some ''k'', xr_signal = Some ''s'', xr_symbol = ''BTCUSDT'', xr_side = ''buy'', xr_price = 90, xr_qty = (1::real),
         xr_fee = 0, xr_fee_currency = [], xr_time_ms = 1\<rparr>"
  define l where "l = empty_lifecycle\<lparr>lf_signals := [\<lparr>sg_id = ''s'', sg_symbol = ''B'', sg_side = ''buy'', sg_profile = ''p'', sg_size_base = 1,
         sg_entry_price = 90, sg_reward = None\<rparr>], lf_map := [(''k'', Some ''s'')], lf_executions := [x]\<rparr>"
  define b where "b = (sample_bot_state ''spot'')\<lparr>bs_net := (\<lambda>_. 1), bs_avg := (\<lambda>_. 90), bs_signal := (\<lambda>_. Some ''s'')\<rparr>"
  define it where "it = (sample_item ''b'' ''sell'' ''sell'' 1)\<lparr>fi_link := Some ''k''\<rparr>"
  define s where "s = \<lparr>sy_bot = b, sy_life = l\<rparr>"
  have qty: "item_qty ''BTCUSDT'' it = 1"
    using sample_qty [of "''b''" "''sell''" "''sell''" 1] by (simp add: it_def item_qty_def sample_item_def)
  have "fst (filled_position ''BTCUSDT'' it b) = 0"
    by (simp add: filled_position_def qty apply_fill_def Let_def) (simp add: it_def b_def)
  then have flat: "\<not> now_effective (sample_bot ''spot'') ''BTCUSDT'' 1 0 it (sy_bot s)"
    by (simp add: now_effective_def is_effective_def s_def)
  have bought: "counts_for ''s'' ''buy'' (sy_life s)" by (simp add: counts_for_def s_def l_def x_def)
  have strip: "str_strip (str_upper ''B'') = ''B''" "str_strip ''p'' = ''p''" "str_strip (str_upper ''BTCUSDT'') \<noteq> []"
    by (simp_all add: str_eval py_space_def upper_char_def)
  have "arm_n (load_state (lf_bandit (sy_life (fst (book_execution (sample_bot ''spot'') (sample_sync True) ''BTCUSDT'' 1 0 it s)))) ''B'' ''p'')
      = arm_n (load_state (lf_bandit (sy_life s)) ''B'' ''p'') + 2"
    using closing_fill_rewards_twice [of "sample_bot ''spot''" "''BTCUSDT''" it 1 0 s "''s''" "''B''" "''p''" "sample_sync True"] flat bought strip qty
    by (simp add: sample_net) (simp add: it_def s_def b_def l_def x_def sample_item_def get_signal_id_for_order_link_def or_empty_def signal_arms_def)
  then have "arm_n (load_state (lf_bandit (sy_life (fst (book_execution (sample_bot ''spot'') (sample_sync True) ''BTCUSDT'' 1 0 it s)))) ''B'' ''p'') = 2"
    by (simp add: s_def l_def empty_lifecycle_def load_state_def)
  then show ?thesis unfolding Let_def by (simp add: s_def b_def l_def x_def it_def)
qed

text \<open>
  C33: The replay of the database at the start finds for a symbol what its executions of the last day add
  up to, over the quantity it starts from: a trade opened before that and closed within is found as a
  position on the other side.
\<close>

theorem database_replay_is_sum_of_a_day:
  "bs_net (replay_database now_ms l s) symbol = bs_net s symbol +
     sum_list (map row_qty (filter (\<lambda>r. xr_time_ms r > now_ms - 86400000 \<and> xr_symbol r = symbol) (lf_executions l)))"
proof -
  have "bs_net (replay_database now_ms l s) symbol = bs_net s symbol +
      sum_list (map row_qty (filter (\<lambda>r. xr_symbol r = symbol) (filter (\<lambda>r. xr_time_ms r > now_ms - 86400000) (lf_executions l))))"
    unfolding replay_database_def replay_rows_def replay_rows_net sum_list_sorted ..
  then show ?thesis by (simp add: conj_commute)
qed

end
