(* ===== verification/Exit_Orders.thy ===== *)
theory Exit_Orders
  imports Execution_Sync Exit_Rules Risk_Manager Trading_State
begin

text \<open>
  How the trading process (\<open>src/botik/main.py\<close>) leaves a position: \<open>maybe_force_exit\<close> applies the exit rules
  and sends an order for the whole position, \<open>maybe_place_position_exit_quote\<close> keeps a resting order at the
  planned price.

  A call reads the monotonic clock several times; one value stands for all of them. The answers of the
  exchange and the fresh identifiers of a call are arguments, given per symbol.
\<close>

section \<open>Settings and state\<close>

record exit_settings =
  xs_bot :: bot_config
  xs_rules :: exit_config
  xs_enabled :: bool
  xs_tif :: string
  xs_use_market :: bool
  xs_taker :: bool
  xs_cooldown :: real
  xs_dust_cooldown :: real
  xs_maker_fee :: real
  xs_tick :: real
  xs_reprice :: bool
  xs_max_book_age_ms :: int
  xs_tick_offset :: int

record runtime =
  rt_sync :: sync_state
  rt_suppressed :: "string \<Rightarrow> real"
  rt_last_exit :: "string \<Rightarrow> real"
  rt_risk :: risk_manager
  rt_cancelled :: "(string \<times> string) list"

record exit_env =
  xe_sync :: sync_env
  xe_state :: trading_state
  xe_min_qty :: "string \<Rightarrow> real option"
  xe_min_notional :: "string \<Rightarrow> real option"
  xe_exit_id :: "string \<Rightarrow> string"
  xe_exit_answer :: "string \<Rightarrow> json option"
  xe_quote_id :: "string \<Rightarrow> string"
  xe_quote_answer :: "string \<Rightarrow> json option"

abbreviation xe_protect :: "exit_env \<Rightarrow> protect_env" where
  "xe_protect env \<equiv> sv_protect (xe_sync env)"

abbreviation xe_now :: "exit_env \<Rightarrow> real" where
  "xe_now env \<equiv> pe_mono (xe_protect env)"

abbreviation rt_bot :: "runtime \<Rightarrow> bot_state" where
  "rt_bot r \<equiv> sy_bot (rt_sync r)"

definition on_rt_bot :: "(bot_state \<Rightarrow> bot_state) \<Rightarrow> runtime \<Rightarrow> runtime" where
  "on_rt_bot f r = r\<lparr>rt_sync := on_bot f (rt_sync r)\<rparr>"

definition on_rt_db :: "(domain_db \<Rightarrow> domain_db) \<Rightarrow> runtime \<Rightarrow> runtime" where
  "on_rt_db f = on_rt_bot (on_bot_db f)"

definition on_rt_life :: "(lifecycle_db \<Rightarrow> lifecycle_db) \<Rightarrow> runtime \<Rightarrow> runtime" where
  "on_rt_life f r = r\<lparr>rt_sync := on_life f (rt_sync r)\<rparr>"

section \<open>What is written down\<close>

text \<open>\<open>write_spot_position_intent_safe\<close> and \<open>write_spot_exit_decision_safe\<close>: a statement that raises is logged only.\<close>

definition write_spot_position_intent_safe ::
    "bot_config \<Rightarrow> string \<Rightarrow> string \<Rightarrow> real \<Rightarrow> real \<Rightarrow> string \<Rightarrow> string option \<Rightarrow> string \<Rightarrow> domain_db \<Rightarrow> domain_db" where
  "write_spot_position_intent_safe c symbol side qty price link profile signal db =
     (case insert_spot_position_intent
        \<lparr>pi_id = ''sp-intent-'' @ link, pi_account = ''UNIFIED'', pi_symbol = str_upper symbol, pi_side = side, pi_qty = \<bar>qty\<bar>,
         pi_price = Some price, pi_owner = Some (bc_strategy c), pi_profile = profile, pi_signal = Some signal,
         pi_status = ''accepted_for_send''\<rparr> db of
        Inl e \<Rightarrow> db | Inr db' \<Rightarrow> db')"

definition write_spot_exit_decision_safe ::
    "protect_env \<Rightarrow> string \<Rightarrow> string \<Rightarrow> string \<Rightarrow> real option \<Rightarrow> bool \<Rightarrow> domain_db \<Rightarrow> domain_db" where
  "write_spot_exit_decision_safe p symbol decision_type why pnl_pct applied =
     insert_spot_exit_decision (pe_uuid p)
       \<lparr>xd_id = [], xd_account = ''UNIFIED'', xd_symbol = str_upper symbol, xd_type = decision_type, xd_reason = why,
        xd_policy = Some ''runtime'', xd_pnl_pct = pnl_pct, xd_applied = applied\<rparr>"

text \<open>The decision of the market at hand.\<close>

definition note_exit ::
    "bot_config \<Rightarrow> protect_env \<Rightarrow> string \<Rightarrow> string \<Rightarrow> string \<Rightarrow> string \<Rightarrow> real option \<Rightarrow> bool \<Rightarrow> runtime \<Rightarrow> runtime" where
  "note_exit c p symbol side decision_type why pnl_pct applied =
     (if bc_market c = ''spot'' then on_rt_db (write_spot_exit_decision_safe p symbol decision_type why pnl_pct applied)
      else on_rt_bot (bot_decision c p symbol side decision_type why applied))"

definition exit_audit :: "bot_config \<Rightarrow> protect_env \<Rightarrow> string \<Rightarrow> string \<Rightarrow> string option \<Rightarrow> runtime \<Rightarrow> runtime" where
  "exit_audit c p event symbol ref =
     on_rt_db (insert_event_audit (pe_uuid p) (pe_now p) event (if bc_market c = ''linear'' then ''futures'' else ''spot'') (Some symbol) ref)"

text \<open>The order in the older table, which may raise, and in the table of its market.\<close>

definition domain_order ::
    "bot_config \<Rightarrow> protect_env \<Rightarrow> sent_order \<Rightarrow> string option \<Rightarrow> domain_db \<Rightarrow> py_error + domain_db" where
  "domain_order c p ord order_id db =
     (if norm_lower (Some (bc_market c)) = ''linear'' then
        upsert_futures_open_order (pe_uuid p) (pe_now p) (or_null (Some (se_link ord)))
          \<lparr>fo_account = ''UNIFIED'', fo_symbol = str_upper (se_symbol ord), fo_side = JStr (se_side ord), fo_order_id = order_id,
           fo_link = [], fo_type = JStr (se_type ord), fo_tif = JStr (se_tif ord), fo_price = Some (se_price ord),
           fo_qty = Some (se_qty ord), fo_status = ''New'', fo_reduce = (if take 3 (se_link ord) = ''px-'' then Some True else None),
           fo_close = None, fo_owner = Some (bc_strategy c), fo_created = 0, fo_updated = 0\<rparr> db
      else
        upsert_spot_order (pe_uuid p) (pe_now p) (or_null (Some (se_link ord)))
          \<lparr>so_account = ''UNIFIED'', so_symbol = str_upper (se_symbol ord), so_side = se_side ord, so_order_id = order_id,
           so_link = [], so_type = JStr (se_type ord), so_tif = JStr (se_tif ord), so_price = se_price ord, so_qty = se_qty ord,
           so_filled = 0, so_status = ''New'', so_owner = Some (bc_strategy c), so_created = 0, so_updated = 0\<rparr> db)"

definition write_runtime_order_legacy_and_domain ::
    "bot_config \<Rightarrow> protect_env \<Rightarrow> sent_order \<Rightarrow> string option \<Rightarrow> domain_db \<Rightarrow> py_error + domain_db" where
  "write_runtime_order_legacy_and_domain c p ord order_id db =
     (case insert_order
        \<lparr>lo_symbol = se_symbol ord, lo_side = se_side ord, lo_link = Some (se_link ord), lo_exchange_id = order_id,
         lo_price = fmt_float (se_price ord), lo_qty = fmt_float (se_qty ord), lo_status = ''New'', lo_entry_price = None, lo_exit_price = None\<rparr>
        db of
        Inl e \<Rightarrow> Inl e
      | Inr db \<Rightarrow> Inr (case domain_order c p ord order_id db of Inl e \<Rightarrow> db | Inr db' \<Rightarrow> db'))"

definition new_order_event :: "sent_order \<Rightarrow> string option \<Rightarrow> order_event" where
  "new_order_event ord signal =
     \<lparr>oe_symbol = se_symbol ord, oe_link = Some (se_link ord), oe_signal = signal, oe_side = se_side ord, oe_price = se_price ord,
      oe_qty = se_qty ord, oe_status = ''New''\<rparr>"

text \<open>\<open>(ret.get("result") or {}).get("orderId")\<close>.\<close>

definition answered_order_id :: "(json \<Rightarrow> string) \<Rightarrow> json \<Rightarrow> py_error + string option" where
  "answered_order_id str ret =
     (case json_get ret ''result'' JNull of
        Inl e \<Rightarrow> Inl e
      | Inr result \<Rightarrow>
          map_sum id (\<lambda>v. if v = JNull then None else Some (json_text str v)) (json_get (json_or result (JObj [])) ''orderId'' JNull))"

text \<open>An accepted order: counted, stored, tied to the signal of the position.\<close>

definition record_order ::
    "bot_config \<Rightarrow> protect_env \<Rightarrow> sent_order \<Rightarrow> string option \<Rightarrow> json \<Rightarrow> runtime \<Rightarrow> runtime outcome_of" where
  "record_order c p ord signal ret r =
     (let r = r\<lparr>rt_risk := register_order_placed (pe_mono p) (rt_risk r)\<rparr> in
      case answered_order_id (pe_str p) ret of
        Inl e \<Rightarrow> (r, Some e)
      | Inr order_id \<Rightarrow>
          (case write_runtime_order_legacy_and_domain c p ord order_id (bs_db (rt_bot r)) of
             Inl e \<Rightarrow> (r, Some e)
           | Inr db \<Rightarrow>
               (on_rt_life (\<lambda>l. insert_order_event (new_order_event ord signal) (set_order_signal_map (se_link ord) signal l))
                  (on_rt_db (\<lambda>_. db) r), None)))"

text \<open>Handing an order to the executor.\<close>

definition send_order :: "sent_order \<Rightarrow> runtime \<Rightarrow> runtime" where
  "send_order ord = on_rt_bot (\<lambda>b. b\<lparr>bs_sent := bs_sent b @ [ord]\<rparr>)"

definition treat_as_dust :: "exit_settings \<Rightarrow> real \<Rightarrow> string \<Rightarrow> runtime \<Rightarrow> runtime" where
  "treat_as_dust xs now symbol r =
     on_rt_bot (reset_symbol_runtime_state (xs_bot xs) symbol) (r\<lparr>rt_suppressed := (rt_suppressed r)(symbol := now + xs_dust_cooldown xs)\<rparr>)"

text \<open>The return code \<open>-2\<close> with its message.\<close>

definition invalid_qty :: "(string, json) dict \<Rightarrow> (json \<Rightarrow> string) \<Rightarrow> bool" where
  "invalid_qty d str \<longleftrightarrow> json_key d ''retCode'' = JNum (- 2)
     \<and> json_text str (json_or (json_key d ''retMsg'') (JStr [])) = ''invalid_qty_after_normalization''"

section \<open>The forced exit\<close>

definition reducing_side :: "real \<Rightarrow> string" where
  "reducing_side qty = (if qty > 0 then ''Sell'' else ''Buy'')"

definition exit_price :: "real \<Rightarrow> orderbook_aggregate \<Rightarrow> real" where
  "exit_price qty ob = (if qty > 0 then best_bid ob else best_ask ob)"

definition exit_rules_of :: "exit_settings \<Rightarrow> string \<Rightarrow> bot_state \<Rightarrow> exit_config" where
  "exit_rules_of xs symbol b =
     (xs_rules xs)\<lparr>hold_timeout_sec := max (bs_hold_timeout b symbol) 1, stop_loss_pct := max (bs_stop_loss b symbol) 0,
       take_profit_pct := max (bs_take_profit b symbol) 0\<rparr>"

text \<open>The first time a position is seen its clock starts; without an entry price it counts as timed out.\<close>

definition start_clock :: "exit_settings \<Rightarrow> real \<Rightarrow> string \<Rightarrow> bot_state \<Rightarrow> bot_state" where
  "start_clock xs now symbol b =
     (case bs_opened_at b symbol of
        Some t \<Rightarrow> b
      | None \<Rightarrow> b\<lparr>bs_opened_at := (bs_opened_at b)(symbol :=
          Some (if bs_avg b symbol \<le> 0 then now - bc_hold_timeout (xs_bot xs) - 1 else now))\<rparr>)"

text \<open>The reason to exit: the rules, then the risk state of the futures position. The peak is kept, the risk state noted.\<close>

definition exit_reason :: "exit_settings \<Rightarrow> exit_env \<Rightarrow> string \<Rightarrow> orderbook_aggregate \<Rightarrow> runtime \<Rightarrow> runtime \<times> string option \<times> real option" where
  "exit_reason xs env symbol ob r =
     (let c = xs_bot xs; b = rt_bot r; qty = bs_net b symbol; mark = exit_price qty ob;
          pnl_pct = unrealized_pnl_pct qty (bs_avg b symbol) mark;
          age = xe_now env - (case bs_opened_at b symbol of None \<Rightarrow> xe_now env | Some t \<Rightarrow> t);
          (why, peak) = decide_exit_reason (exit_rules_of xs symbol b) pnl_pct age (bs_peak_bps b symbol);
          r = on_rt_bot (\<lambda>b. b\<lparr>bs_peak_bps := (bs_peak_bps b)(symbol := peak)\<rparr>) r in
      if bc_market c \<noteq> ''linear'' then (r, why, pnl_pct)
      else
        let risk_state = norm_lower (Some (rv_risk_state (evaluate_futures_symbol_risk symbol ''UNIFIED'' (Some mark) (bs_db (rt_bot r)))));
            r = (if risk_state \<noteq> [] \<and> risk_state \<noteq> ''unknown''
                 then on_rt_bot (bot_decision c (xe_protect env) symbol (reducing_side qty) ''risk_state_observed'' risk_state False) r else r) in
        (r, futures_force_exit_reason_from_risk_state why (Some risk_state), pnl_pct))"

definition force_order :: "exit_settings \<Rightarrow> exit_env \<Rightarrow> string \<Rightarrow> real \<Rightarrow> orderbook_aggregate \<Rightarrow> string \<Rightarrow> sent_order" where
  "force_order xs env symbol qty ob why =
     \<lparr>se_symbol = symbol, se_side = reducing_side qty, se_qty = fmt_float \<bar>qty\<bar>, se_price = fmt_float (exit_price qty ob),
      se_tif = (if xs_taker xs then xs_tif xs else ''PostOnly''),
      se_type = (if xs_use_market xs \<and> why \<in> {''stop_loss'', ''fallback_stoploss'', ''hold_timeout''} then ''Market'' else ''Limit''),
      se_link = ''force-exit-'' @ symbol @ ''-'' @ xe_exit_id env symbol\<rparr>"

text \<open>What follows the answer: the symbol stays blocked unless the quantity was refused as too small.\<close>

definition after_force_exit ::
    "exit_settings \<Rightarrow> exit_env \<Rightarrow> string \<Rightarrow> sent_order \<Rightarrow> string \<Rightarrow> real option \<Rightarrow> (string, json) dict \<Rightarrow> runtime \<Rightarrow> runtime \<times> (py_error + bool)" where
  "after_force_exit xs env symbol ord why pnl_pct d r =
     (let c = xs_bot xs; p = xe_protect env; signal = bs_signal (rt_bot r) symbol in
      if \<not> ret_code_ok (json_key d ''retCode'') then
        if invalid_qty d (pe_str p) then (treat_as_dust xs (xe_now env) symbol r, Inr False)
        else (note_exit c p symbol (se_side ord) ''forced_exit_submission_failed'' why pnl_pct False
                (exit_audit c p ''forced_exit_submission_failed'' symbol (Some (se_link ord)) r), Inr True)
      else
        case record_order c p ord signal (JObj d) r of
          (r, Some e) \<Rightarrow> (r, Inl e)
        | (r, None) \<Rightarrow>
            (note_exit c p symbol (se_side ord) ''forced_exit_submitted'' why pnl_pct True
               (exit_audit c p ''forced_exit_submitted'' symbol (Some (se_link ord)) r), Inr True))"

definition submit_exit ::
    "exit_settings \<Rightarrow> exit_env \<Rightarrow> string \<Rightarrow> orderbook_aggregate \<Rightarrow> string \<Rightarrow> real option \<Rightarrow> runtime \<Rightarrow> runtime \<times> (py_error + bool)" where
  "submit_exit xs env symbol ob why pnl_pct r =
     (let ord = force_order xs env symbol (bs_net (rt_bot r) symbol) ob why; r = send_order ord r in
      case xe_exit_answer env symbol of
        None \<Rightarrow> (r, Inl DatabaseError)
      | Some ret \<Rightarrow>
          let r = r\<lparr>rt_last_exit := (rt_last_exit r)(symbol := xe_now env)\<rparr> in
          (case ret of
             JObj d \<Rightarrow> after_force_exit xs env symbol ord why pnl_pct d r
           | _ \<Rightarrow> (r, Inl AttributeError)))"

definition below_notional :: "exit_settings \<Rightarrow> real \<Rightarrow> real \<Rightarrow> bool" where
  "below_notional xs level notional \<longleftrightarrow> bc_market (xs_bot xs) = ''spot'' \<and> level > 0 \<and> notional < level"

definition decide_exit :: "exit_settings \<Rightarrow> exit_env \<Rightarrow> string \<Rightarrow> real \<Rightarrow> runtime \<Rightarrow> runtime \<times> (py_error + bool)" where
  "decide_exit xs env symbol notional_level r =
     (let c = xs_bot xs; p = xe_protect env; r = on_rt_bot (start_clock xs (xe_now env) symbol) r; qty = bs_net (rt_bot r) symbol in
      case get_orderbook (xe_state env) symbol of
        None \<Rightarrow> (r, Inr True)
      | Some ob \<Rightarrow>
          if below_notional xs notional_level (\<bar>qty\<bar> * exit_price qty ob) then (treat_as_dust xs (xe_now env) symbol r, Inr False)
          else
            (case exit_reason xs env symbol ob r of
               (r, None, pnl_pct) \<Rightarrow> (r, Inr True)
             | (r, Some why, pnl_pct) \<Rightarrow>
                 let r = note_exit c p symbol (reducing_side qty) ''forced_exit_decision'' why pnl_pct False
                       (exit_audit c p ''forced_exit_decision'' symbol (bs_signal (rt_bot r) symbol) r) in
                 if \<not> xs_enabled xs then
                   (if bc_market c = ''spot''
                    then note_exit c p symbol (reducing_side qty) ''forced_exit_skipped'' ''force_exit_disabled'' pnl_pct False r else r, Inr True)
                 else if xe_now env - rt_last_exit r symbol < xs_cooldown xs then (r, Inr True)
                 else submit_exit xs env symbol ob why pnl_pct r))"

text \<open>The floors are looked up, and remembered, on the way.\<close>

definition resolve_floors :: "exit_settings \<Rightarrow> exit_env \<Rightarrow> string \<Rightarrow> runtime \<Rightarrow> runtime \<times> real \<times> real" where
  "resolve_floors xs env symbol r =
     (let (b, level) = resolve_position_floor (xs_bot xs) (xe_min_qty env symbol) symbol (rt_bot r);
          (b', notional_level) = resolve_position_notional_floor (xs_bot xs) (xe_min_notional env symbol) symbol b in
      (on_rt_bot (\<lambda>_. if \<bar>bs_net (rt_bot r) symbol\<bar> < level then b else b') r, level, notional_level))"

definition maybe_force_exit :: "exit_settings \<Rightarrow> exit_env \<Rightarrow> string \<Rightarrow> runtime \<Rightarrow> runtime \<times> (py_error + bool)" where
  "maybe_force_exit xs env symbol r =
     (if pe_executor (xe_protect env) = None \<or> xe_now env < rt_suppressed r symbol then (r, Inr False)
      else
        let (r, level, notional_level) = resolve_floors xs env symbol r; b = rt_bot r; qty = bs_net b symbol in
        if \<bar>qty\<bar> < level then (r, Inr False)
        else if max (bs_avg b symbol) 0 > 0 \<and> below_notional xs notional_level (\<bar>qty\<bar> * max (bs_avg b symbol) 0)
        then (treat_as_dust xs (xe_now env) symbol r, Inr False)
        else decide_exit xs env symbol notional_level r)"

section \<open>The resting exit\<close>

definition planned_exit_price :: "exit_settings \<Rightarrow> string \<Rightarrow> real \<Rightarrow> orderbook_aggregate \<Rightarrow> bot_state \<Rightarrow> real option" where
  "planned_exit_price xs symbol qty ob b =
     (let entry = (if bs_avg b symbol \<le> 0 then mid ob else bs_avg b symbol) in
      if entry \<le> 0 then None
      else
        let required = max (bs_target_profit b symbol) 0 + max (bs_safety_buffer b symbol) 0 + 2 * max (xs_maker_fee xs) 0;
            raw = (if qty > 0 then max (entry * (1 + required)) (best_ask ob) else min (entry * (1 - required)) (best_bid ob)) in
        if raw \<le> 0 then None else Some raw)"

definition tick_of :: "exit_settings \<Rightarrow> exit_env \<Rightarrow> string \<Rightarrow> real" where
  "tick_of xs env symbol =
     max (case get_tick_size (xe_state env) symbol of None \<Rightarrow> xs_tick xs | Some t \<Rightarrow> if t = 0 then xs_tick xs else t) (1 / 10 ^ 12)"

definition snap_price :: "real \<Rightarrow> real \<Rightarrow> real" where
  "snap_price tick price = of_int (round_half_even (price / tick)) * tick"

definition crossed_book :: "orderbook_aggregate \<Rightarrow> bool" where
  "crossed_book ob \<longleftrightarrow> best_bid ob \<le> 0 \<or> best_ask ob \<le> 0 \<or> best_ask ob \<le> best_bid ob"

definition quote_price :: "real \<Rightarrow> real \<Rightarrow> orderbook_aggregate \<Rightarrow> real \<Rightarrow> real" where
  "quote_price qty tick ob planned =
     (let price = snap_price tick planned;
          price = (if qty > 0 \<and> price \<le> best_bid ob then best_ask ob else price) in
      if qty < 0 \<and> price \<ge> best_ask ob then best_bid ob else price)"

text \<open>An order that rests at the planned price already.\<close>

definition rests_already :: "(json \<Rightarrow> string) \<Rightarrow> real \<Rightarrow> real \<Rightarrow> real \<Rightarrow> string \<Rightarrow> real \<Rightarrow> (string, json) dict \<Rightarrow> py_error + bool" where
  "rests_already str tick level price side qty d =
     (if str_lower (str_strip (json_text str (json_or (json_key d ''side'') (JStr [])))) \<noteq> str_lower side then Inr False
      else case json_float (json_or (json_key d ''price'') (JNum 0)) of
          Inl e \<Rightarrow> Inl e
        | Inr ex_price \<Rightarrow>
            (case json_float (json_or (json_key d ''qty'') (JNum 0)) of
               Inl e \<Rightarrow> Inl e
             | Inr ex_qty \<Rightarrow> Inr (\<bar>ex_price - price\<bar> \<le> tick \<and> \<bar>ex_qty - qty\<bar> \<le> max level (1 / 10 ^ 9))))"

fun any_rests :: "((string, json) dict \<Rightarrow> py_error + bool) \<Rightarrow> (string, json) dict list \<Rightarrow> py_error + bool" where
  "any_rests f [] = Inr False"
| "any_rests f (d # ds) = (case f d of Inl e \<Rightarrow> Inl e | Inr True \<Rightarrow> Inr True | Inr False \<Rightarrow> any_rests f ds)"

definition cancel_resting :: "(json \<Rightarrow> string) \<Rightarrow> string \<Rightarrow> (string, json) dict \<Rightarrow> (string \<times> string) list" where
  "cancel_resting str symbol d =
     (let link = str_strip (json_text str (json_or (json_key d ''orderLinkId'') (JStr [])));
          ex_symbol = str_upper (str_strip (json_text str (json_or (json_key d ''symbol'') (JStr symbol)))) in
      if link = [] then [] else [(if ex_symbol = [] then symbol else ex_symbol, link)])"

definition place_exit_quote ::
    "exit_settings \<Rightarrow> exit_env \<Rightarrow> string \<Rightarrow> real \<Rightarrow> real \<Rightarrow> (string, json) dict list \<Rightarrow> runtime \<Rightarrow> runtime \<times> (py_error + bool)" where
  "place_exit_quote xs env symbol qty price existing r =
     (let p = xe_protect env;
          r = r\<lparr>rt_cancelled := rt_cancelled r @ concat (map (cancel_resting (pe_str p) symbol) existing)\<rparr>;
          ord = \<lparr>se_symbol = symbol, se_side = reducing_side qty, se_qty = fmt_float \<bar>qty\<bar>, se_price = fmt_float price,
                 se_tif = ''PostOnly'', se_type = ''Limit'', se_link = ''px-'' @ symbol @ ''-'' @ xe_quote_id env symbol\<rparr>;
          r = send_order ord r in
      case xe_quote_answer env symbol of
        None \<Rightarrow> (r, Inl DatabaseError)
      | Some (JObj d) \<Rightarrow>
          if \<not> ret_code_ok (json_key d ''retCode'')
          then (if invalid_qty d (pe_str p) then treat_as_dust xs (xe_now env) symbol r else r, Inr False)
          else (case record_order (xs_bot xs) p ord (bs_signal (rt_bot r) symbol) (JObj d) r of
              (r, Some e) \<Rightarrow> (r, Inl e) | (r, None) \<Rightarrow> (r, Inr True))
      | Some ret \<Rightarrow> (r, Inl AttributeError))"

definition maybe_place_position_exit_quote ::
    "exit_settings \<Rightarrow> exit_env \<Rightarrow> string \<Rightarrow> (string \<Rightarrow> (string, json) dict list) \<Rightarrow> runtime \<Rightarrow> runtime \<times> (py_error + bool)" where
  "maybe_place_position_exit_quote xs env symbol open_orders r =
     (if pe_executor (xe_protect env) = None \<or> xe_now env - rt_last_exit r symbol < xs_cooldown xs then (r, Inr False)
      else
        let (r, level, notional_level) = resolve_floors xs env symbol r; qty = bs_net (rt_bot r) symbol in
        if \<bar>qty\<bar> < level then (r, Inr False)
        else case get_orderbook (xe_state env) symbol of
            None \<Rightarrow> (r, Inr False)
          | Some ob \<Rightarrow>
              if crossed_book ob then (r, Inr False)
              else (case planned_exit_price xs symbol qty ob (rt_bot r) of
                  None \<Rightarrow> (r, Inr False)
                | Some planned \<Rightarrow>
                    let tick = tick_of xs env symbol; price = quote_price qty tick ob planned in
                    if price \<le> 0 then (r, Inr False)
                    else if below_notional xs notional_level (\<bar>qty\<bar> * price) then (treat_as_dust xs (xe_now env) symbol r, Inr False)
                    else (case any_rests (rests_already (pe_str (xe_protect env)) tick level price (reducing_side qty) \<bar>qty\<bar>) (open_orders symbol) of
                        Inl e \<Rightarrow> (r, Inl e)
                      | Inr True \<Rightarrow> (r, Inr False)
                      | Inr False \<Rightarrow> place_exit_quote xs env symbol qty price (open_orders symbol) r)))"

section \<open>What the notes leave alone\<close>

text \<open>Notes change the tables, the peak and the counter of orders; what the exits go by stays.\<close>

definition same_exits :: "runtime \<Rightarrow> runtime \<Rightarrow> bool" where
  "same_exits r r' \<longleftrightarrow> bs_net (rt_bot r') = bs_net (rt_bot r) \<and> bs_avg (rt_bot r') = bs_avg (rt_bot r)
     \<and> bs_opened_at (rt_bot r') = bs_opened_at (rt_bot r) \<and> bs_hold_timeout (rt_bot r') = bs_hold_timeout (rt_bot r)
     \<and> bs_floor (rt_bot r') = bs_floor (rt_bot r) \<and> bs_notional_floor (rt_bot r') = bs_notional_floor (rt_bot r)
     \<and> bs_sent (rt_bot r') = bs_sent (rt_bot r) \<and> rt_suppressed r' = rt_suppressed r \<and> rt_last_exit r' = rt_last_exit r"

lemma same_exits_refl [simp]: "same_exits r r"
  by (simp add: same_exits_def)

lemma same_exits_trans: "same_exits r r' \<Longrightarrow> same_exits r' r'' \<Longrightarrow> same_exits r r''"
  by (simp add: same_exits_def)

lemma same_exits_db [simp]: "same_exits r (on_rt_db f r)" "same_exits r (on_rt_life g r)"
  by (simp_all add: same_exits_def on_rt_db_def on_rt_bot_def on_bot_db_def on_rt_life_def on_life_def)

lemma same_exits_note [simp]:
  "same_exits r (note_exit c p symbol side kind why pnl applied r)" "same_exits r (exit_audit c p event symbol ref r)"
  "same_exits r (on_rt_bot (bot_decision c p symbol side kind why applied) r)"
  by (simp_all add: note_exit_def exit_audit_def) (simp_all add: same_exits_def on_rt_bot_def bot_decision_def on_bot_db_def)

lemma same_exits_peak [simp]: "same_exits r (on_rt_bot (\<lambda>b. b\<lparr>bs_peak_bps := f b\<rparr>) r)"
  by (simp add: same_exits_def on_rt_bot_def)

lemma same_exits_risk [simp]: "same_exits r (r\<lparr>rt_risk := m\<rparr>)"
  by (simp add: same_exits_def)

lemma same_exits_record: "same_exits r (fst (record_order c p ord signal ret r))"
proof -
  have "same_exits r (on_rt_life g (on_rt_db f (r\<lparr>rt_risk := m\<rparr>)))" for g f m
    by (rule same_exits_trans [OF same_exits_risk same_exits_trans [OF same_exits_db(1) same_exits_db(2)]])
  then show ?thesis by (simp add: record_order_def Let_def split: sum.split)
qed

lemma same_exits_reason: "same_exits r (fst (exit_reason xs env symbol ob r))"
  unfolding exit_reason_def Let_def
  by (simp add: same_exits_trans [OF same_exits_peak same_exits_note(3)] split: prod.split)

section \<open>What is sent\<close>

lemma sent_order_sent: "bs_sent (rt_bot (send_order ord r)) = bs_sent (rt_bot r) @ [ord]"
  by (simp add: send_order_def on_rt_bot_def)

lemma dust_sends_nothing: "bs_sent (rt_bot (treat_as_dust xs now symbol r)) = bs_sent (rt_bot r)"
  by (simp add: treat_as_dust_def on_rt_bot_def reset_symbol_runtime_state_def)

lemma after_force_exit_sent: "bs_sent (rt_bot (fst (after_force_exit xs env symbol ord why pnl d r))) = bs_sent (rt_bot r)"
proof -
  have "bs_sent (rt_bot (fst (record_order c p ord signal ret r))) = bs_sent (rt_bot r)" for c p signal ret
    using same_exits_record by (simp add: same_exits_def)
  moreover have "bs_sent (rt_bot (note_exit c p symbol side kind why pnl applied (exit_audit c p event symbol ref r'))) = bs_sent (rt_bot r')"
    for c p side kind applied event ref r'
    using same_exits_trans [OF same_exits_note(2) same_exits_note(1)] by (simp add: same_exits_def)
  ultimately show ?thesis
    by (auto simp: after_force_exit_def Let_def dust_sends_nothing split: prod.split option.split) (metis fst_conv)+
qed

lemma submit_exit_sent:
  "bs_sent (rt_bot (fst (submit_exit xs env symbol ob why pnl r)))
     = bs_sent (rt_bot r) @ [force_order xs env symbol (bs_net (rt_bot r) symbol) ob why]"
  by (simp add: submit_exit_def Let_def after_force_exit_sent sent_order_sent split: option.split json.split)

lemma start_clock_frame [simp]:
  "bs_sent (start_clock xs now symbol b) = bs_sent b" "bs_net (start_clock xs now symbol b) = bs_net b"
  by (simp_all add: start_clock_def split: option.split)

lemma on_rt_bot_simps [simp]: "rt_bot (on_rt_bot f r) = f (rt_bot r)" "rt_last_exit (on_rt_bot f r) = rt_last_exit r"
  "rt_suppressed (on_rt_bot f r) = rt_suppressed r"
  by (simp_all add: on_rt_bot_def)

text \<open>The position after its clock was started, and after the decision was noted.\<close>

lemma decide_exit_sends:
  "bs_sent (rt_bot (fst (decide_exit xs env symbol nl r))) = bs_sent (rt_bot r)
   \<or> (\<exists>ob why. get_orderbook (xe_state env) symbol = Some ob \<and> xs_enabled xs \<and> xs_cooldown xs \<le> xe_now env - rt_last_exit r symbol
      \<and> bs_sent (rt_bot (fst (decide_exit xs env symbol nl r))) = bs_sent (rt_bot r) @ [force_order xs env symbol (bs_net (rt_bot r) symbol) ob why])"
proof (cases "get_orderbook (xe_state env) symbol")
  case None
  then show ?thesis by (simp add: decide_exit_def Let_def)
next
  case (Some ob)
  define r1 where "r1 = on_rt_bot (start_clock xs (xe_now env) symbol) r"
  obtain r2 why pnl where e: "exit_reason xs env symbol ob r1 = (r2, why, pnl)" by (cases "exit_reason xs env symbol ob r1")
  have r2: "same_exits r1 r2" using same_exits_reason [of r1 xs env symbol ob] e by simp
  define r3 where "r3 = (\<lambda>w. note_exit (xs_bot xs) (xe_protect env) symbol (reducing_side (bs_net (rt_bot r1) symbol)) ''forced_exit_decision'' w pnl False
      (exit_audit (xs_bot xs) (xe_protect env) ''forced_exit_decision'' symbol (bs_signal (rt_bot r2) symbol) r2))"
  have r3: "same_exits r1 (r3 w)" for w
    unfolding r3_def by (rule same_exits_trans [OF r2 same_exits_trans [OF same_exits_note(2) same_exits_note(1)]])
  have sent: "bs_sent (rt_bot (note_exit (xs_bot xs) (xe_protect env) symbol side kind w pnl applied (r3 v))) = bs_sent (rt_bot r)" for side kind w applied v
    using same_exits_trans [OF r3 same_exits_note(1)] by (simp add: same_exits_def r1_def)
  show ?thesis
  proof (cases why)
    case None
    then show ?thesis
      using r2 by (simp add: decide_exit_def Let_def Some r1_def [symmetric] e dust_sends_nothing) (simp add: r1_def same_exits_def)
  next
    case (Some w)
    have eq: "decide_exit xs env symbol nl r =
        (if below_notional xs nl (\<bar>bs_net (rt_bot r1) symbol\<bar> * exit_price (bs_net (rt_bot r1) symbol) ob)
         then (treat_as_dust xs (xe_now env) symbol r1, Inr False)
         else if \<not> xs_enabled xs then
           (if bc_market (xs_bot xs) = ''spot''
            then note_exit (xs_bot xs) (xe_protect env) symbol (reducing_side (bs_net (rt_bot r1) symbol)) ''forced_exit_skipped''
                   ''force_exit_disabled'' pnl False (r3 w) else r3 w, Inr True)
         else if xe_now env - rt_last_exit (r3 w) symbol < xs_cooldown xs then (r3 w, Inr True)
         else submit_exit xs env symbol ob w pnl (r3 w))"
      unfolding decide_exit_def Let_def \<open>get_orderbook (xe_state env) symbol = Some ob\<close> r1_def [symmetric] option.case e prod.case
        \<open>why = Some w\<close> r3_def ..
    have same: "bs_sent (rt_bot (r3 w)) = bs_sent (rt_bot r)" "bs_net (rt_bot (r3 w)) = bs_net (rt_bot r)" "rt_last_exit (r3 w) = rt_last_exit r"
      using r3 [of w] by (simp_all add: same_exits_def r1_def)
    show ?thesis
      unfolding eq using same \<open>get_orderbook (xe_state env) symbol = Some ob\<close>
      by (auto simp: submit_exit_sent dust_sends_nothing sent) (auto simp: r1_def)
  qed
qed

lemma resolve_position_floor_frame:
  "bs_sent (fst (resolve_position_floor c m symbol b)) = bs_sent b \<and> bs_net (fst (resolve_position_floor c m symbol b)) = bs_net b"
  by (simp add: resolve_position_floor_def Let_def split: option.split)

lemma resolve_notional_floor_frame:
  "bs_sent (fst (resolve_position_notional_floor c m symbol b)) = bs_sent b \<and> bs_net (fst (resolve_position_notional_floor c m symbol b)) = bs_net b"
  by (simp add: resolve_position_notional_floor_def Let_def split: option.split)

lemma resolve_floors_frame:
  "bs_sent (rt_bot (fst (resolve_floors xs env symbol r))) = bs_sent (rt_bot r)"
  "bs_net (rt_bot (fst (resolve_floors xs env symbol r))) = bs_net (rt_bot r)"
  "rt_last_exit (fst (resolve_floors xs env symbol r)) = rt_last_exit r"
  by (simp_all add: resolve_floors_def case_prod_beta resolve_position_floor_frame resolve_notional_floor_frame)

text \<open>Known floors change nothing.\<close>

lemma resolve_floors_known:
  assumes "str_strip (str_upper symbol) \<noteq> []" and "dict_get (bs_floor (rt_bot r)) (str_strip (str_upper symbol)) = Some level"
    and "dict_get (bs_notional_floor (rt_bot r)) (str_strip (str_upper symbol)) = Some nl"
  shows "resolve_floors xs env symbol r = (r, level, nl)"
  using assms by (simp add: resolve_floors_def resolve_position_floor_def resolve_position_notional_floor_def on_rt_bot_def on_bot_def)

lemma timed_out_has_reason:
  "hold_timeout_sec rules \<le> age \<Longrightarrow> fst (decide_exit_reason rules pnl age peak) \<noteq> None"
  by (simp add: decide_exit_reason_def Let_def)

lemma risk_keeps_reason: "why \<noteq> None \<Longrightarrow> futures_force_exit_reason_from_risk_state why st \<noteq> None"
  by (auto simp: futures_force_exit_reason_from_risk_state_def Let_def)

lemma exit_reason_timed_out:
  assumes "bs_opened_at (rt_bot r) symbol = Some t" and "max (bs_hold_timeout (rt_bot r) symbol) 1 \<le> xe_now env - t"
  shows "\<exists>r2 why pnl. exit_reason xs env symbol ob r = (r2, Some why, pnl)"
proof -
  let ?b = "rt_bot r"
  obtain why peak where d: "decide_exit_reason (exit_rules_of xs symbol ?b)
      (unrealized_pnl_pct (bs_net ?b symbol) (bs_avg ?b symbol) (exit_price (bs_net ?b symbol) ob)) (xe_now env - t) (bs_peak_bps ?b symbol) = (why, peak)"
    by fastforce
  have "hold_timeout_sec (exit_rules_of xs symbol ?b) \<le> xe_now env - t" using assms(2) by (simp add: exit_rules_of_def)
  from timed_out_has_reason [OF this] d have "why \<noteq> None" by (metis fst_conv)
  with risk_keeps_reason obtain w where w: "why = Some w" by blast
  show ?thesis
    unfolding exit_reason_def Let_def assms(1) option.case d prod.case
    using risk_keeps_reason [OF \<open>why \<noteq> None\<close>] by (simp add: w)
qed

text \<open>
  A position of either market that the exits handle: exits are enabled, its floors are known, it is not below its
  level, nor, at its average, below the value the exchange asks for; its clock runs since t.
\<close>

definition overdue :: "exit_settings \<Rightarrow> string \<Rightarrow> runtime \<Rightarrow> real \<Rightarrow> bool" where
  "overdue xs symbol r t \<longleftrightarrow> xs_enabled xs \<and> str_strip (str_upper symbol) \<noteq> []
     \<and> (\<exists>level nl. dict_get (bs_floor (rt_bot r)) (str_strip (str_upper symbol)) = Some level
          \<and> dict_get (bs_notional_floor (rt_bot r)) (str_strip (str_upper symbol)) = Some nl \<and> level \<le> \<bar>bs_net (rt_bot r) symbol\<bar>
          \<and> \<not> (max (bs_avg (rt_bot r) symbol) 0 > 0 \<and> below_notional xs nl (\<bar>bs_net (rt_bot r) symbol\<bar> * max (bs_avg (rt_bot r) symbol) 0)))
     \<and> bs_opened_at (rt_bot r) symbol = Some t"

text \<open>At the book of the moment the position is worth at least what the exchange asks for; in the futures market it always is.\<close>

definition worth_selling :: "exit_settings \<Rightarrow> exit_env \<Rightarrow> string \<Rightarrow> runtime \<Rightarrow> bool" where
  "worth_selling xs env symbol r \<longleftrightarrow>
     (\<forall>ob nl. get_orderbook (xe_state env) symbol = Some ob \<and> dict_get (bs_notional_floor (rt_bot r)) (str_strip (str_upper symbol)) = Some nl \<longrightarrow>
        \<not> below_notional xs nl (\<bar>bs_net (rt_bot r) symbol\<bar> * exit_price (bs_net (rt_bot r) symbol) ob))"

text \<open>An exchange that accepts the order.\<close>

definition accepts_exit :: "exit_env \<Rightarrow> string \<Rightarrow> bool" where
  "accepts_exit env symbol \<longleftrightarrow> pe_executor (xe_protect env) \<noteq> None \<and> get_orderbook (xe_state env) symbol \<noteq> None
     \<and> (\<exists>d. xe_exit_answer env symbol = Some (JObj d) \<and> ret_code_ok (json_key d ''retCode''))"

lemma accepted_exit_state:
  assumes "ret_code_ok (json_key d ''retCode'')"
  shows "same_exits r (fst (after_force_exit xs env symbol ord why pnl d r))"
proof -
  obtain r2 e where rec: "record_order (xs_bot xs) (xe_protect env) ord (bs_signal (rt_bot r) symbol) (JObj d) r = (r2, e)" by fastforce
  have "same_exits r r2" using same_exits_record rec by (metis fst_conv)
  then show ?thesis
    unfolding after_force_exit_def Let_def rec prod.case
    using assms by (cases e) (auto intro: same_exits_trans [OF _ same_exits_trans [OF same_exits_note(2) same_exits_note(1)]])
qed

lemma overdue_exit_sent:
  assumes "overdue xs symbol r t" and "accepts_exit env symbol" and "worth_selling xs env symbol r" and "max (bs_hold_timeout (rt_bot r) symbol) 1 \<le> xe_now env - t"
    and "rt_suppressed r symbol \<le> xe_now env" and "rt_last_exit r symbol + xs_cooldown xs \<le> xe_now env"
  obtains ord where "bs_sent (rt_bot (fst (maybe_force_exit xs env symbol r))) = bs_sent (rt_bot r) @ [ord]"
    and "se_side ord = reducing_side (bs_net (rt_bot r) symbol)" and "se_qty ord = fmt_float \<bar>bs_net (rt_bot r) symbol\<bar>"
    and "overdue xs symbol (fst (maybe_force_exit xs env symbol r)) t"
    and "bs_net (rt_bot (fst (maybe_force_exit xs env symbol r))) = bs_net (rt_bot r)"
    and "bs_hold_timeout (rt_bot (fst (maybe_force_exit xs env symbol r))) = bs_hold_timeout (rt_bot r)"
    and "bs_notional_floor (rt_bot (fst (maybe_force_exit xs env symbol r))) = bs_notional_floor (rt_bot r)"
    and "rt_suppressed (fst (maybe_force_exit xs env symbol r)) = rt_suppressed r"
    and "rt_last_exit (fst (maybe_force_exit xs env symbol r)) symbol = xe_now env"
proof -
  from assms(1) obtain level nl where o: "xs_enabled xs" "str_strip (str_upper symbol) \<noteq> []"
      "dict_get (bs_floor (rt_bot r)) (str_strip (str_upper symbol)) = Some level"
      "dict_get (bs_notional_floor (rt_bot r)) (str_strip (str_upper symbol)) = Some nl" "level \<le> \<bar>bs_net (rt_bot r) symbol\<bar>"
      "\<not> (max (bs_avg (rt_bot r) symbol) 0 > 0 \<and> below_notional xs nl (\<bar>bs_net (rt_bot r) symbol\<bar> * max (bs_avg (rt_bot r) symbol) 0))"
      "bs_opened_at (rt_bot r) symbol = Some t" unfolding overdue_def by blast
  from assms(2) obtain ex ob d where a: "pe_executor (xe_protect env) = Some ex" "get_orderbook (xe_state env) symbol = Some ob"
      "xe_exit_answer env symbol = Some (JObj d)" "ret_code_ok (json_key d ''retCode'')" by (auto simp: accepts_exit_def)
  have worth: "\<not> below_notional xs nl (\<bar>bs_net (rt_bot r) symbol\<bar> * exit_price (bs_net (rt_bot r) symbol) ob)"
    using assms(3) a(2) o(4) by (simp add: worth_selling_def)
  have clock: "on_rt_bot (start_clock xs (xe_now env) symbol) r = r"
    using o(7) by (simp add: on_rt_bot_def on_bot_def start_clock_def)
  obtain r2 why pnl where e: "exit_reason xs env symbol ob r = (r2, Some why, pnl)"
    using exit_reason_timed_out [OF o(7) assms(4)] by blast
  let ?side = "reducing_side (bs_net (rt_bot r) symbol)"
  define r3 where "r3 = note_exit (xs_bot xs) (xe_protect env) symbol ?side ''forced_exit_decision'' why pnl False
      (exit_audit (xs_bot xs) (xe_protect env) ''forced_exit_decision'' symbol (bs_signal (rt_bot r2) symbol) r2)"
  have "same_exits r r2" using same_exits_reason [of r xs env symbol ob] e by simp
  then have r3: "same_exits r r3"
    unfolding r3_def by (rule same_exits_trans [OF _ same_exits_trans [OF same_exits_note(2) same_exits_note(1)]])
  then have r3_last: "rt_last_exit r3 symbol = rt_last_exit r symbol" by (simp add: same_exits_def)
  define ord where "ord = force_order xs env symbol (bs_net (rt_bot r3) symbol) ob why"
  define r4 where "r4 = (send_order ord r3)\<lparr>rt_last_exit := (rt_last_exit (send_order ord r3))(symbol := xe_now env)\<rparr>"
  have "decide_exit xs env symbol nl r = submit_exit xs env symbol ob why pnl r3"
    unfolding decide_exit_def Let_def clock a(2) option.case e prod.case r3_def [symmetric]
    using o(1) worth r3_last assms(6) by simp
  then have m: "maybe_force_exit xs env symbol r = after_force_exit xs env symbol ord why pnl d r4"
    unfolding maybe_force_exit_def Let_def resolve_floors_known [OF o(2-4)] prod.case if_not_P [OF o(6)] submit_exit_def a(3) option.case json.case
      ord_def [symmetric] r4_def [symmetric]
    using o(5) a(1) assms(5) by (simp add: submit_exit_def Let_def a(3) ord_def r4_def)
  from accepted_exit_state [OF a(4), of r4 xs env symbol ord why pnl]
  have s: "same_exits r4 (fst (maybe_force_exit xs env symbol r))" by (simp add: m)
  have r4: "bs_sent (rt_bot r4) = bs_sent (rt_bot r) @ [ord]" "bs_net (rt_bot r4) = bs_net (rt_bot r)"
    "bs_avg (rt_bot r4) = bs_avg (rt_bot r)" "bs_hold_timeout (rt_bot r4) = bs_hold_timeout (rt_bot r)" "rt_suppressed r4 = rt_suppressed r" "rt_last_exit r4 symbol = xe_now env"
    "bs_floor (rt_bot r4) = bs_floor (rt_bot r)" "bs_notional_floor (rt_bot r4) = bs_notional_floor (rt_bot r)"
    "bs_opened_at (rt_bot r4) = bs_opened_at (rt_bot r)"
    using r3 by (simp_all add: r4_def send_order_def same_exits_def on_rt_bot_def)
  have "se_side ord = ?side" "se_qty ord = fmt_float \<bar>bs_net (rt_bot r) symbol\<bar>"
    using r3 by (simp_all add: ord_def force_order_def same_exits_def)
  moreover have "overdue xs symbol (fst (maybe_force_exit xs env symbol r)) t"
    using assms(1) s r4 unfolding overdue_def same_exits_def by simp
  ultimately show thesis
    using s r4 by (intro that [of ord]) (simp_all add: same_exits_def)
qed

section \<open>The price of the resting exit\<close>

lemma snap_near: "0 < tick \<Longrightarrow> \<bar>snap_price tick x - x\<bar> \<le> tick / 2"
proof -
  assume t: "0 < tick"
  have "snap_price tick x - x = (of_int (round_half_even (x / tick)) - x / tick) * tick"
    using t by (simp add: snap_price_def left_diff_distrib)
  then have "\<bar>snap_price tick x - x\<bar> = \<bar>of_int (round_half_even (x / tick)) - x / tick\<bar> * tick"
    using t by (simp add: abs_mult)
  with mult_right_mono [OF round_half_even_near [of "x / tick"], of tick] t show ?thesis by simp
qed

section \<open>Example inputs\<close>

definition sample_settings :: exit_settings where
  "sample_settings = \<lparr>xs_bot = sample_bot ''linear'', xs_rules = sample_exit_config, xs_enabled = True, xs_tif = ''IOC'', xs_use_market = False,
     xs_taker = True, xs_cooldown = 10, xs_dust_cooldown = 60, xs_maker_fee = 1 / 1000, xs_tick = 1 / 100, xs_reprice = True,
     xs_max_book_age_ms = 1000, xs_tick_offset = 1\<rparr>"

definition sample_book :: orderbook_aggregate where
  "sample_book = \<lparr>ob_symbol = ''BTCUSDT'', best_bid = 99, best_ask = 101, mid = 100, spread_ticks = 200, imbalance_top_n = 0,
     best_bid_size = 1, best_ask_size = 1, ob_ts_ms = 0\<rparr>"

definition sample_exit_env :: "real \<Rightarrow> exit_env" where
  "sample_exit_env now = \<lparr>xe_sync = \<lparr>sv_protect = (sample_protect True)\<lparr>pe_mono := now\<rparr>, sv_now_ms = 0, sv_bandit = new_bandit [''p''] 0 1\<rparr>,
     xe_state = initial_trading_state\<lparr>orderbooks := [''BTCUSDT'' \<mapsto> sample_book]\<rparr>, xe_min_qty = (\<lambda>_. None), xe_min_notional = (\<lambda>_. None),
     xe_exit_id = (\<lambda>_. ''a''), xe_exit_answer = (\<lambda>_. Some (JObj [(''retCode'', JNum 0)])), xe_quote_id = (\<lambda>_. ''b''),
     xe_quote_answer = (\<lambda>_. None)\<rparr>"

text \<open>A long position of two, opened at time zero.\<close>

definition sample_runtime :: runtime where
  "sample_runtime = \<lparr>rt_sync = \<lparr>sy_bot = (new_bot_state (sample_bot ''linear'') [''BTCUSDT''] empty_db)\<lparr>bs_net := (\<lambda>_. 2), bs_avg := (\<lambda>_. 100),
       bs_opened_at := (\<lambda>_. Some 0)\<rparr>, sy_life = empty_lifecycle\<rparr>,
     rt_suppressed = (\<lambda>_. 0), rt_last_exit = (\<lambda>_. 0), rt_risk = new_risk_manager sample_risk_config, rt_cancelled = []\<rparr>"

lemma sample_accepts: "accepts_exit (sample_exit_env now) ''BTCUSDT''"
  by (simp add: accepts_exit_def sample_exit_env_def sample_protect_def get_orderbook_def ret_code_ok_def json_key_def)

section \<open>Properties\<close>

text \<open>
  C10: A call of the forced exit sends at most one order, and that order closes exactly the tracked
  position; it is sent only when exits are enabled, the symbol has a book, the last exit order is a
  cooldown old, and the position is not below its level.
\<close>

theorem forced_exit_closes_position:
  "bs_sent (rt_bot (fst (maybe_force_exit xs env symbol r))) = bs_sent (rt_bot r)
   \<or> (\<exists>ord. bs_sent (rt_bot (fst (maybe_force_exit xs env symbol r))) = bs_sent (rt_bot r) @ [ord]
      \<and> se_symbol ord = symbol \<and> se_side ord = reducing_side (bs_net (rt_bot r) symbol) \<and> se_qty ord = fmt_float \<bar>bs_net (rt_bot r) symbol\<bar>
      \<and> xs_enabled xs \<and> get_orderbook (xe_state env) symbol \<noteq> None \<and> xs_cooldown xs \<le> xe_now env - rt_last_exit r symbol
      \<and> fst (snd (resolve_floors xs env symbol r)) \<le> \<bar>bs_net (rt_bot r) symbol\<bar>)"
proof -
  obtain r1 level nl where f: "resolve_floors xs env symbol r = (r1, level, nl)" by (cases "resolve_floors xs env symbol r")
  have r1: "bs_sent (rt_bot r1) = bs_sent (rt_bot r)" "bs_net (rt_bot r1) = bs_net (rt_bot r)" "rt_last_exit r1 = rt_last_exit r"
    using resolve_floors_frame [of xs env symbol r] by (simp_all add: f)
  have shape: "se_symbol (force_order xs env symbol q ob why) = symbol" "se_side (force_order xs env symbol q ob why) = reducing_side q"
    "se_qty (force_order xs env symbol q ob why) = fmt_float \<bar>q\<bar>" for q ob why
    by (simp_all add: force_order_def)
  show ?thesis
    using decide_exit_sends [of xs env symbol nl r1] r1 shape
    by (auto simp: maybe_force_exit_def f Let_def dust_sends_nothing)
qed

text \<open>
  C26: As long as no execution is booked, the exit of a position that is past its time is sent again after every
  cooldown, each time for the whole position, whatever became of the orders before: after n calls that far apart,
  orders for n times the position were accepted. This holds in both markets, when exits are enabled and not
  suppressed, the symbol has a book, the exchange accepts the orders, the floors of the symbol are known and the
  position is not below them; the floor of the value, which only the spot market has, counts at the average and
  at every book.
\<close>

theorem overdue_exit_is_sent_again:
  assumes "overdue xs symbol r t"
    and "\<forall>env \<in> set envs. accepts_exit env symbol \<and> worth_selling xs env symbol r \<and> max (bs_hold_timeout (rt_bot r) symbol) 1 \<le> xe_now env - t
      \<and> rt_suppressed r symbol \<le> xe_now env \<and> rt_last_exit r symbol + xs_cooldown xs \<le> xe_now env"
    and "sorted_wrt (\<lambda>e e'. xe_now e + xs_cooldown xs \<le> xe_now e') envs"
  shows "\<exists>ords. bs_sent (rt_bot (fold (\<lambda>env r. fst (maybe_force_exit xs env symbol r)) envs r)) = bs_sent (rt_bot r) @ ords
    \<and> length ords = length envs
    \<and> (\<forall>ord \<in> set ords. se_side ord = reducing_side (bs_net (rt_bot r) symbol) \<and> se_qty ord = fmt_float \<bar>bs_net (rt_bot r) symbol\<bar>)"
  using assms
proof (induction envs arbitrary: r)
  case (Cons env envs)
  let ?r = "fst (maybe_force_exit xs env symbol r)"
  obtain ord where ord: "bs_sent (rt_bot ?r) = bs_sent (rt_bot r) @ [ord]" "se_side ord = reducing_side (bs_net (rt_bot r) symbol)"
      "se_qty ord = fmt_float \<bar>bs_net (rt_bot r) symbol\<bar>" and r: "overdue xs symbol ?r t" "bs_net (rt_bot ?r) = bs_net (rt_bot r)"
      "bs_hold_timeout (rt_bot ?r) = bs_hold_timeout (rt_bot r)"
      "bs_notional_floor (rt_bot ?r) = bs_notional_floor (rt_bot r)" "rt_suppressed ?r = rt_suppressed r" "rt_last_exit ?r symbol = xe_now env"
    using overdue_exit_sent [of xs symbol r t env] Cons.prems by auto
  have "\<forall>e \<in> set envs. accepts_exit e symbol \<and> worth_selling xs e symbol ?r \<and> max (bs_hold_timeout (rt_bot ?r) symbol) 1 \<le> xe_now e - t
      \<and> rt_suppressed ?r symbol \<le> xe_now e \<and> rt_last_exit ?r symbol + xs_cooldown xs \<le> xe_now e"
    using Cons.prems(2,3) r by (auto simp: worth_selling_def)
  from Cons.IH [OF r(1) this] Cons.prems(3) obtain ords where
    "bs_sent (rt_bot (fold (\<lambda>env r. fst (maybe_force_exit xs env symbol r)) envs ?r)) = bs_sent (rt_bot ?r) @ ords" "length ords = length envs"
    "\<forall>ord \<in> set ords. se_side ord = reducing_side (bs_net (rt_bot r) symbol) \<and> se_qty ord = fmt_float \<bar>bs_net (rt_bot r) symbol\<bar>"
    using r(2) by auto
  with ord show ?case by (intro exI [of _ "ord # ords"]) auto
qed simp

text \<open>In the spot market, with a floor of ten for the value of an order.\<close>

definition sample_spot_settings :: exit_settings where
  "sample_spot_settings = sample_settings\<lparr>xs_bot := sample_bot ''spot''\<rparr>"

definition sample_spot_runtime :: runtime where
  "sample_spot_runtime = on_rt_bot (\<lambda>b. b\<lparr>bs_floor := [(''BTCUSDT'', 1)], bs_notional_floor := [(''BTCUSDT'', 10)]\<rparr>) sample_runtime"

theorem overdue_exit_is_sent_again_witness:
  "\<exists>ords. bs_sent (rt_bot (fold (\<lambda>env r. fst (maybe_force_exit sample_spot_settings env ''BTCUSDT'' r)) [sample_exit_env 100, sample_exit_env 110] sample_spot_runtime))
       = bs_sent (rt_bot sample_spot_runtime) @ ords \<and> length ords = 2 \<and> (\<forall>ord \<in> set ords. se_side ord = ''Sell'' \<and> se_qty ord = fmt_float 2)"
proof -
  have symbol: "str_strip (str_upper ''BTCUSDT'') = ''BTCUSDT''" by (simp add: str_eval py_space_def upper_char_def)
  have state: "bs_net (rt_bot sample_spot_runtime) ''BTCUSDT'' = 2" "bs_avg (rt_bot sample_spot_runtime) ''BTCUSDT'' = 100"
    "bs_hold_timeout (rt_bot sample_spot_runtime) ''BTCUSDT'' = 60" "bs_opened_at (rt_bot sample_spot_runtime) ''BTCUSDT'' = Some 0"
    "bs_floor (rt_bot sample_spot_runtime) = [(''BTCUSDT'', 1)]" "bs_notional_floor (rt_bot sample_spot_runtime) = [(''BTCUSDT'', 10)]"
    "rt_suppressed sample_spot_runtime ''BTCUSDT'' = 0" "rt_last_exit sample_spot_runtime ''BTCUSDT'' = 0"
    by (simp_all add: sample_spot_runtime_def sample_runtime_def new_bot_state_def sample_bot_def)
  have settings: "xs_cooldown sample_spot_settings = 10" "xs_enabled sample_spot_settings" "xe_now (sample_exit_env t) = t"
    "get_orderbook (xe_state (sample_exit_env t)) ''BTCUSDT'' = Some sample_book" for t
    by (simp_all add: sample_spot_settings_def sample_settings_def sample_exit_env_def get_orderbook_def)
  have "overdue sample_spot_settings ''BTCUSDT'' sample_spot_runtime 0"
    by (simp add: overdue_def symbol state settings below_notional_def)
  moreover have "worth_selling sample_spot_settings (sample_exit_env t) ''BTCUSDT'' sample_spot_runtime" for t
    by (simp add: worth_selling_def symbol state settings below_notional_def exit_price_def sample_book_def)
  ultimately show ?thesis
    using overdue_exit_is_sent_again [of sample_spot_settings "''BTCUSDT''" sample_spot_runtime 0 "[sample_exit_env 100, sample_exit_env 110]"] sample_accepts
    by (simp add: reducing_side_def numeral_2_eq_2 state settings)
qed

text \<open>
  The price of the resting exit stays on its side of the book, and is at least the entry plus the
  target, the buffer and both fees, up to half a tick; for a short position it is at most the entry less
  these.
\<close>

theorem resting_exit_covers_its_costs:
  assumes "planned_exit_price xs symbol qty ob b = Some planned" and "0 < tick" and "0 < bs_avg b symbol" and "\<not> crossed_book ob" and "qty \<noteq> 0"
  shows "(if 0 < qty
     then best_bid ob < quote_price qty tick ob planned
       \<and> bs_avg b symbol * (1 + max (bs_target_profit b symbol) 0 + max (bs_safety_buffer b symbol) 0 + 2 * max (xs_maker_fee xs) 0) - tick / 2
           \<le> quote_price qty tick ob planned
     else quote_price qty tick ob planned < best_ask ob
       \<and> quote_price qty tick ob planned
           \<le> bs_avg b symbol * (1 - (max (bs_target_profit b symbol) 0 + max (bs_safety_buffer b symbol) 0 + 2 * max (xs_maker_fee xs) 0)) + tick / 2)"
proof -
  let ?q = "max (bs_target_profit b symbol) 0 + max (bs_safety_buffer b symbol) 0 + 2 * max (xs_maker_fee xs) 0"
  have near: "snap_price tick planned \<le> planned + tick / 2" "planned - tick / 2 \<le> snap_price tick planned"
    using snap_near [OF assms(2), of planned] by linarith+
  show ?thesis
  proof (cases "0 < qty")
    case True
    then have "planned = max (bs_avg b symbol * (1 + ?q)) (best_ask ob)"
      using assms(1,3) by (simp add: planned_exit_price_def Let_def split: if_splits)
    then have p: "bs_avg b symbol * (1 + ?q) \<le> planned" "best_ask ob \<le> planned" by simp_all
    with True near assms(2,4) show ?thesis
      by (auto simp: quote_price_def Let_def crossed_book_def add.assoc)
  next
    case False
    then have "planned = min (bs_avg b symbol * (1 - ?q)) (best_bid ob)"
      using assms(1,3) by (simp add: planned_exit_price_def Let_def split: if_splits)
    then have p: "planned \<le> bs_avg b symbol * (1 - ?q)" "planned \<le> best_bid ob" by simp_all
    with False near assms(2,4,5) show ?thesis
      by (auto simp: quote_price_def Let_def crossed_book_def)
  qed
qed

theorem resting_exit_covers_its_costs_witness:
  "planned_exit_price sample_settings ''BTCUSDT'' 2 sample_book (rt_bot sample_runtime) = Some 101
   \<and> 99 < quote_price 2 (1 / 100) sample_book 101 \<and> 100 + 195 / 1000 \<le> quote_price 2 (1 / 100) sample_book 101"
proof -
  have plan: "planned_exit_price sample_settings ''BTCUSDT'' 2 sample_book (rt_bot sample_runtime) = Some 101"
    by (simp add: planned_exit_price_def sample_settings_def sample_book_def sample_runtime_def new_bot_state_def sample_bot_def Let_def)
  moreover have "0 < bs_avg (rt_bot sample_runtime) ''BTCUSDT''" "\<not> crossed_book sample_book"
    by (simp_all add: sample_runtime_def crossed_book_def sample_book_def)
  ultimately show ?thesis
    using resting_exit_covers_its_costs [OF plan, of "1 / 100"]
    by (simp add: sample_runtime_def sample_settings_def new_bot_state_def sample_bot_def sample_book_def)
qed

end
