(* ===== verification/Trading_Loop.thy ===== *)
theory Trading_Loop
  imports Exit_Orders Pair_Admission
begin

text \<open>
  An iteration of the trading loop (\<open>main.py\<close>, \<open>trading_loop\<close>): the reconciliation when it is due, the open
  orders, the executions, the exits, and then the entries the strategy asks for, each through the gates, the
  risk manager and the guarded placement.

  The answers of the exchange, the identifiers and the strategy are arguments. An entry's link is unique, so its
  answer is given by the link. Sets are iterated in the order of their insertion. An executor that raises while it
  cancels an order is left out; \<open>str\<close> of a value that is no string is an argument.
\<close>

section \<open>Settings and state\<close>

record loop_settings =
  ts_exit :: exit_settings
  ts_admission :: admission_config
  ts_strict :: bool
  ts_spike :: bool
  ts_leverage :: py_value
  ts_symbols :: "string list"
  ts_scanner :: bool
  ts_recon_interval :: real

text \<open>What an iteration keeps while it works through the intents: exposures, and the symbols it placed orders in.\<close>

record round_state =
  rd_run :: runtime
  rd_state :: trading_state
  rd_total :: real
  rd_symbol :: "(string, real) dict"
  rd_new :: "string list"

record round_env =
  lp_protect :: protect_env
  lp_autocalib :: snapshot
  lp_meta :: "string \<Rightarrow> snapshot"
  lp_now_ms :: int
  lp_answer :: "string \<Rightarrow> json option"
  lp_blocked :: "string list"
  lp_open :: "string list"
  lp_wallet :: "string list"

definition on_run :: "(runtime \<Rightarrow> runtime) \<Rightarrow> round_state \<Rightarrow> round_state" where
  "on_run f rd = rd\<lparr>rd_run := f (rd_run rd)\<rparr>"

text \<open>How working through an intent ends: with the next one, with the end of the loop, or with an exception.\<close>

datatype flow = Next | Halt | Raise py_error

section \<open>Before an entry is sent\<close>

definition resolve_risk_leverage :: "string \<Rightarrow> py_value \<Rightarrow> real" where
  "resolve_risk_leverage market v =
     (if norm_lower (Some market) \<noteq> ''linear'' then 1
      else case value_float v of Inl e \<Rightarrow> 1 | Inr r \<Rightarrow> max r 1)"

text \<open>The price of an entry from the book at hand; \<open>None\<close> when the book is missing, crossed or old.\<close>

definition target_price :: "bool \<Rightarrow> string \<Rightarrow> real \<Rightarrow> orderbook_aggregate \<Rightarrow> real" where
  "target_price maker_only side tick ob =
     (if str_upper side = ''BUY'' then
        (if maker_only then (if best_bid ob + tick \<ge> best_ask ob then best_bid ob else best_bid ob + tick) else best_ask ob + tick)
      else
        (if maker_only then (if best_ask ob - tick \<le> best_bid ob then best_ask ob else best_ask ob - tick) else best_bid ob - tick))"

definition entry_offset :: "exit_settings \<Rightarrow> order_intent \<Rightarrow> int" where
  "entry_offset xs it =
     max (case oi_entry_tick_offset it of None \<Rightarrow> xs_tick_offset xs | Some n \<Rightarrow> if n = 0 then xs_tick_offset xs else n) 0"

definition tick_size_of :: "exit_settings \<Rightarrow> trading_state \<Rightarrow> string \<Rightarrow> real" where
  "tick_size_of xs st symbol =
     max (case get_tick_size st symbol of None \<Rightarrow> xs_tick xs | Some t \<Rightarrow> if t = 0 then xs_tick xs else t) (1 / 10 ^ 12)"

definition prepare_intent_for_send :: "exit_settings \<Rightarrow> trading_state \<Rightarrow> int \<Rightarrow> bool \<Rightarrow> order_intent \<Rightarrow> order_intent option" where
  "prepare_intent_for_send xs st now_ms maker_only it =
     (if \<not> xs_reprice xs then Some it
      else case get_orderbook st (oi_symbol it) of
          None \<Rightarrow> None
        | Some ob \<Rightarrow>
            if crossed_book ob then None
            else (case last_book_update_ms st (oi_symbol it) of
                None \<Rightarrow> None
              | Some ts \<Rightarrow>
                  if now_ms - ts > xs_max_book_age_ms xs then None
                  else
                    let tick_size = tick_size_of xs st (oi_symbol it);
                        price = snap_price tick_size
                          (target_price maker_only (oi_side it) (tick_size * of_int (entry_offset xs it)) ob) in
                    if price \<le> 0 then None else Some (it\<lparr>oi_price := price\<rparr>)))"

text \<open>The numbers a signal's row is made of are read from the snapshot of the pair filter and may not be numbers.\<close>

definition signal_keys :: "string list" where
  "signal_keys = [''depth_bid_quote'', ''depth_ask_quote'', ''slippage_buy_bps'', ''slippage_sell_bps'', ''trades_per_min'',
     ''p95_trade_gap_ms'', ''vol_1s_bps'', ''impulse_bps'', ''spike_direction'', ''spike_strength_bps'', ''min_required_spread_bps'']"

fun snapshot_error :: "snapshot \<Rightarrow> string list \<Rightarrow> py_error option" where
  "snapshot_error pair [] = None"
| "snapshot_error pair (k # ks) =
     (case dict_get pair k of
        None \<Rightarrow> snapshot_error pair ks
      | Some v \<Rightarrow>
          if k = ''spike_direction'' \<and> v \<in> {PyNone, PyStr []} then snapshot_error pair ks
          else (case value_float v of Inl e \<Rightarrow> Some e | Inr r \<Rightarrow> snapshot_error pair ks))"

definition signal_error :: "snapshot \<Rightarrow> snapshot \<Rightarrow> py_error option" where
  "signal_error pair meta =
     (case snapshot_error pair signal_keys of
        Some e \<Rightarrow> Some e
      | None \<Rightarrow> snapshot_error (filter (\<lambda>kv. snd kv \<noteq> PyNone) meta) [''pred_open_prob'', ''pred_exp_edge_bps''])"

definition signal_id_of :: "order_intent \<Rightarrow> string" where
  "signal_id_of it = ''sig-'' @ oi_order_link_id it"

definition signal_of :: "order_intent \<Rightarrow> signal_row" where
  "signal_of it =
     \<lparr>sg_id = signal_id_of it, sg_symbol = oi_symbol it, sg_side = oi_side it, sg_profile = or_empty (oi_profile_id it),
      sg_size_base = oi_qty it, sg_entry_price = oi_price it, sg_reward = None\<rparr>"

text \<open>The signal is stored before any gate is asked, and in the spot market the intent beside it.\<close>

definition note_signal :: "bot_config \<Rightarrow> order_intent \<Rightarrow> round_state \<Rightarrow> round_state" where
  "note_signal c it rd =
     on_run (\<lambda>r. (if bc_market c = ''spot''
              then on_rt_db (write_spot_position_intent_safe c (oi_symbol it) (oi_side it) (oi_qty it) (oi_price it) (oi_order_link_id it)
                (if or_empty (oi_profile_id it) = [] then None else oi_profile_id it) (signal_id_of it))
              else id) (on_rt_life (insert_signal_snapshot (signal_of it)) r)) rd"

text \<open>The gates of the tables, with the levels of the symbol.\<close>

definition gates_of :: "bot_config \<Rightarrow> protect_env \<Rightarrow> order_intent \<Rightarrow> round_state \<Rightarrow> domain_db \<times> string option" where
  "gates_of c p it rd =
     (let b = rt_bot (rd_run rd); symbol = oi_symbol it in
      pass_gates \<lparr>ge_uuid = pe_uuid p, ge_now = pe_now p, ge_market = bc_market c\<rparr>
        \<lparr>ei_symbol = symbol, ei_side = oi_side it, ei_link = oi_order_link_id it, ei_stop_loss_pct = oi_stop_loss_pct it,
         ei_take_profit_pct = oi_take_profit_pct it\<rparr>
        (case get_orderbook (rd_state rd) symbol of None \<Rightarrow> None | Some ob \<Rightarrow> if mid ob > 0 then Some (mid ob) else None)
        (bs_stop_loss b symbol) (bs_take_profit b symbol) (bs_db b))"

text \<open>The other symbols the process is in: its positions, open orders, coins of the wallet, and orders of this iteration.\<close>

definition other_symbols :: "bot_config \<Rightarrow> round_env \<Rightarrow> string \<Rightarrow> round_state \<Rightarrow> string list" where
  "other_symbols c env symbol rd =
     (let b = rt_bot (rd_run rd) in
      remdups (filter (\<lambda>s. s \<noteq> symbol)
        (filter (\<lambda>s. \<bar>bs_net b s\<bar> \<ge> position_floor c s b) (bs_known b) @ lp_open env @ map (\<lambda>coin. coin @ ''USDT'') (lp_wallet env) @ rd_new rd)))"

definition entry_check :: "loop_settings \<Rightarrow> round_env \<Rightarrow> order_intent \<Rightarrow> round_state \<Rightarrow> risk_manager \<times> risk_check_result" where
  "entry_check ts env it rd =
     (let c = xs_bot (ts_exit ts) in
      check_order (pe_mono (lp_protect env)) (oi_price it) (oi_qty it) (rd_total rd)
        (case dict_get (rd_symbol rd) (oi_symbol it) of None \<Rightarrow> 0 | Some v \<Rightarrow> v)
        (int (length (other_symbols c env (oi_symbol it) rd))) (Some (resolve_risk_leverage (bc_market c) (ts_leverage ts)))
        (rt_risk (rd_run rd)))"

section \<open>The guarded placement\<close>

definition value_truthy :: "py_value \<Rightarrow> bool" where
  "value_truthy v = (case v of PyNone \<Rightarrow> False | PyBool b \<Rightarrow> b | PyInt n \<Rightarrow> n \<noteq> 0 | PyFloat r \<Rightarrow> r \<noteq> 0 | PyStr s \<Rightarrow> s \<noteq> [])"

definition guard_answer :: "int \<Rightarrow> string \<Rightarrow> json" where
  "guard_answer code msg = JObj [(''retCode'', JNum (of_int code)), (''retMsg'', JStr msg)]"

definition status_passes :: "snapshot \<Rightarrow> bool" where
  "status_passes pair = (case dict_get pair ''status'' of Some (PyStr s) \<Rightarrow> str_upper s = ''PASS'' | _ \<Rightarrow> False)"

definition crosses :: "string \<Rightarrow> order_intent \<Rightarrow> orderbook_aggregate \<Rightarrow> bool" where
  "crosses tif it ob \<longleftrightarrow> tif = ''PostOnly''
     \<and> (oi_side it = ''Buy'' \<and> oi_price it \<ge> best_ask ob \<or> oi_side it = ''Sell'' \<and> oi_price it \<le> best_bid ob)"

text \<open>The last checks, on the book as it is now; \<open>None\<close> lets the order pass.\<close>

definition guard_book :: "pair_decision \<Rightarrow> string \<Rightarrow> order_intent \<Rightarrow> trading_state \<Rightarrow> py_error + json option" where
  "guard_book live tif it st =
     (case get_orderbook st (oi_symbol it) of
        None \<Rightarrow> Inr (Some (guard_answer 90005 ''NO_ORDERBOOK''))
      | Some ob \<Rightarrow>
          if mid ob \<le> 0 then Inr (Some (guard_answer 90005 ''NO_ORDERBOOK''))
          else (case value_float (case dict_get (pd_metrics live) ''min_required_spread_bps'' of None \<Rightarrow> PyFloat 0 | Some v \<Rightarrow> v) of
              Inl e \<Rightarrow> Inl e
            | Inr required \<Rightarrow>
                if (best_ask ob - best_bid ob) / mid ob * 10000 < required then Inr (Some (guard_answer 90006 ''SPREAD_BELOW_REQUIRED''))
                else if crosses tif it ob then Inr (Some (guard_answer 90007 ''POSTONLY_WOULD_TAKE''))
                else Inr None))"

definition guard_entry ::
    "loop_settings \<Rightarrow> round_env \<Rightarrow> string \<Rightarrow> order_intent \<Rightarrow> trading_state \<Rightarrow> trading_state \<times> (py_error + json option)" where
  "guard_entry ts env tif it st =
     (if \<not> ts_strict ts then (st, Inr None)
      else case get_pair_filter_snapshot st (oi_symbol it) of
          None \<Rightarrow> (st, Inr (Some (guard_answer 90001 ''PAIR_FILTER_MISSING'')))
        | Some pair \<Rightarrow>
            if pair = [] then (st, Inr (Some (guard_answer 90001 ''PAIR_FILTER_MISSING'')))
            else if \<not> status_passes pair then (st, Inr (Some (guard_answer 90002 ''PAIR_FILTER_NOT_PASS'')))
            else if (case dict_get pair ''stale_data'' of None \<Rightarrow> False | Some v \<Rightarrow> value_truthy v)
            then (st, Inr (Some (guard_answer 90003 ''STALE_DATA'')))
            else (case evaluate_pair_admission (ts_admission ts) (lp_autocalib env) (oi_symbol it) (lp_now_ms env) st of
                (st, Inl e) \<Rightarrow> (st, Inl e)
              | (st, Inr live) \<Rightarrow>
                  if pd_status live \<noteq> ''PASS'' then (st, Inr (Some (guard_answer 90004 (''LIVE_FILTER_'' @ pd_status live))))
                  else (st, guard_book live tif it st)))"

text \<open>The order as it is sent: eight decimals.\<close>

definition entry_order_of :: "string \<Rightarrow> order_intent \<Rightarrow> sent_order" where
  "entry_order_of tif it =
     \<lparr>se_symbol = oi_symbol it, se_side = oi_side it, se_qty = fmt_float (oi_qty it), se_price = fmt_float (oi_price it),
      se_tif = tif, se_type = ''Limit'', se_link = oi_order_link_id it\<rparr>"

definition guarded_place_order :: "loop_settings \<Rightarrow> round_env \<Rightarrow> string \<Rightarrow> order_intent \<Rightarrow> round_state \<Rightarrow> round_state \<times> (py_error + json)" where
  "guarded_place_order ts env tif it rd =
     (case guard_entry ts env tif it (rd_state rd) of
        (st, Inl e) \<Rightarrow> (rd\<lparr>rd_state := st\<rparr>, Inl e)
      | (st, Inr (Some refusal)) \<Rightarrow> (rd\<lparr>rd_state := st\<rparr>, Inr refusal)
      | (st, Inr None) \<Rightarrow>
          (on_run (send_order (entry_order_of tif it)) (rd\<lparr>rd_state := st\<rparr>),
           case lp_answer env (oi_order_link_id it) of None \<Rightarrow> Inl DatabaseError | Some ret \<Rightarrow> Inr ret))"

section \<open>An accepted entry\<close>

text \<open>The settings of the symbol follow the order.\<close>

definition adopt_settings :: "order_intent \<Rightarrow> bot_state \<Rightarrow> bot_state" where
  "adopt_settings it b =
     (let s = oi_symbol it;
          put = (\<lambda>m v. case v of None \<Rightarrow> m | Some x \<Rightarrow> m(s := x)) in
      b\<lparr>bs_hold_timeout := put (bs_hold_timeout b) (map_option (\<lambda>n. of_int (max n 1)) (oi_hold_timeout_sec it)),
        bs_stop_loss := put (bs_stop_loss b) (map_option (\<lambda>x. max x 0) (oi_stop_loss_pct it)),
        bs_take_profit := put (bs_take_profit b) (map_option (\<lambda>x. max x 0) (oi_take_profit_pct it)),
        bs_target_profit := put (bs_target_profit b) (map_option (\<lambda>x. max x 0) (oi_target_profit it)),
        bs_safety_buffer := put (bs_safety_buffer b) (map_option (\<lambda>x. max x 0) (oi_safety_buffer it))\<rparr>)"

definition add_exposure :: "order_intent \<Rightarrow> round_state \<Rightarrow> round_state" where
  "add_exposure it rd =
     rd\<lparr>rd_new := List.insert (oi_symbol it) (rd_new rd), rd_total := rd_total rd + oi_price it * oi_qty it,
        rd_symbol := dict_set (oi_symbol it)
          ((case dict_get (rd_symbol rd) (oi_symbol it) of None \<Rightarrow> 0 | Some v \<Rightarrow> v) + oi_price it * oi_qty it) (rd_symbol rd)\<rparr>"

text \<open>In the linear market the planned levels are stored as pending.\<close>

definition plan_protection :: "bot_config \<Rightarrow> protect_env \<Rightarrow> order_intent \<Rightarrow> bot_state \<Rightarrow> bot_state outcome_of" where
  "plan_protection c p it b =
     (let symbol = oi_symbol it; side = (if str_lower (oi_side it) = ''buy'' then ''Buy'' else ''Sell'');
          sl = (case oi_stop_loss_pct it of Some v \<Rightarrow> v | None \<Rightarrow> bs_stop_loss b symbol);
          tp = (case oi_take_profit_pct it of Some v \<Rightarrow> v | None \<Rightarrow> bs_take_profit b symbol) in
      and_then
        (case build_futures_protection_plan (oi_price it) (if side = ''Buy'' then oi_qty it else - oi_qty it) sl tp None of
           None \<Rightarrow> (b, None)
         | Some planned \<Rightarrow>
             and_then (put_bot_db (upsert_futures_protection (pe_uuid p) (pe_now p)
                 ((runtime_protection_row (str_upper symbol) side (Some planned) ''pending'')\<lparr>pt_source := ''strategy_entry_plan''\<rparr>)) b)
               (\<lambda>b. (bot_decision c p symbol side ''protection_plan_created'' ''entry_order_placed'' False b, None)))
        (\<lambda>b. (bot_decision c p symbol side ''entry_submitted'' ''entry_order_accepted'' True b, None)))"

definition flow_of :: "py_error option \<Rightarrow> flow" where
  "flow_of e = (case e of None \<Rightarrow> Next | Some err \<Rightarrow> Raise err)"

definition accept_entry :: "loop_settings \<Rightarrow> round_env \<Rightarrow> string \<Rightarrow> order_intent \<Rightarrow> json \<Rightarrow> round_state \<Rightarrow> round_state \<times> flow" where
  "accept_entry ts env tif it ret rd =
     (let c = xs_bot (ts_exit ts); p = lp_protect env;
          rd = on_run (on_rt_bot (adopt_settings it)) (add_exposure it rd);
          ord = (entry_order_of tif it)\<lparr>se_price := oi_price it, se_qty := oi_qty it\<rparr> in
      case record_order c p ord (Some (signal_id_of it)) ret (rd_run rd) of
        (r, Some e) \<Rightarrow> (rd\<lparr>rd_run := r\<rparr>, Raise e)
      | (r, None) \<Rightarrow>
          if bc_market c \<noteq> ''linear'' then (rd\<lparr>rd_run := r\<rparr>, Next)
          else (case plan_protection c p it (rt_bot r) of
              (b, e) \<Rightarrow> (rd\<lparr>rd_run := on_rt_bot (\<lambda>_. b) r\<rparr>, flow_of e)))"

section \<open>An intent\<close>

definition maker_entry :: "loop_settings \<Rightarrow> order_intent \<Rightarrow> bool" where
  "maker_entry ts it = (case oi_maker_only it of Some b \<Rightarrow> b | None \<Rightarrow> \<not> ts_spike ts)"

definition entry_tif :: "loop_settings \<Rightarrow> order_intent \<Rightarrow> string" where
  "entry_tif ts it = (if maker_entry ts it then ''PostOnly'' else ''IOC'')"

definition submit_entry :: "loop_settings \<Rightarrow> round_env \<Rightarrow> string \<Rightarrow> order_intent \<Rightarrow> round_state \<Rightarrow> round_state \<times> flow" where
  "submit_entry ts env tif it rd =
     (case guarded_place_order ts env tif it rd of
        (rd, Inl e) \<Rightarrow> (rd, Raise e)
      | (rd, Inr (JObj d)) \<Rightarrow>
          if json_key d ''retCode'' = JNum 10004 then (rd\<lparr>rd_state := set_paused True (rd_state rd)\<rparr>, Halt)
          else if \<not> ret_code_ok (json_key d ''retCode'') then (rd, Next)
          else accept_entry ts env tif it (JObj d) rd
      | (rd, Inr _) \<Rightarrow> (rd, Raise AttributeError))"

text \<open>From the signal on, with the intent as it will be sent.\<close>

definition try_entry :: "loop_settings \<Rightarrow> round_env \<Rightarrow> string \<Rightarrow> order_intent \<Rightarrow> round_state \<Rightarrow> round_state \<times> flow" where
  "try_entry ts env tif it rd =
     (let c = xs_bot (ts_exit ts);
          pair = (case get_pair_filter_snapshot (rd_state rd) (oi_symbol it) of None \<Rightarrow> [] | Some s \<Rightarrow> s) in
      case signal_error pair (lp_meta env (oi_symbol it)) of
        Some e \<Rightarrow> (rd, Raise e)
      | None \<Rightarrow>
          let rd = note_signal c it rd; gates = gates_of c (lp_protect env) it rd;
              rd = on_run (on_rt_db (\<lambda>_. fst gates)) rd in
          if snd gates \<noteq> None then (rd, Next)
          else
            let risk = entry_check ts env it rd; rd = on_run (\<lambda>r. r\<lparr>rt_risk := fst risk\<rparr>) rd in
            if \<not> allowed (snd risk) then (rd, Next) else submit_entry ts env tif it rd)"

definition process_intent :: "loop_settings \<Rightarrow> round_env \<Rightarrow> order_intent \<Rightarrow> round_state \<Rightarrow> round_state \<times> flow" where
  "process_intent ts env it rd =
     (if oi_symbol it \<in> set (lp_blocked env) then (rd, Next)
      else case prepare_intent_for_send (ts_exit ts) (rd_state rd) (lp_now_ms env) (maker_entry ts it) it of
          None \<Rightarrow> (rd, Next)
        | Some it' \<Rightarrow>
            try_entry ts env (entry_tif ts it)
              (if oi_maker_only it' = None then it'\<lparr>oi_maker_only := Some (maker_entry ts it)\<rparr> else it') rd)"

fun process_intents :: "loop_settings \<Rightarrow> round_env \<Rightarrow> order_intent list \<Rightarrow> round_state \<Rightarrow> round_state \<times> flow" where
  "process_intents ts env [] rd = (rd, Next)"
| "process_intents ts env (it # its) rd =
     (case process_intent ts env it rd of
        (rd, Next) \<Rightarrow> process_intents ts env its rd
      | (rd, f) \<Rightarrow> (rd, f))"


section \<open>The wallet\<close>

definition held_coin :: "(json \<Rightarrow> string) \<Rightarrow> json \<Rightarrow> py_error + string option" where
  "held_coin str item =
     (case item of
        JObj d \<Rightarrow>
          let coin = str_strip (str_upper (json_text str (json_or (json_key d ''coin'') (JStr [])))) in
          if coin = [] \<or> coin \<in> {''USDT'', ''USDC'', ''BUSD''} then Inr None
          else map_sum id (\<lambda>balance. if balance > 0 then Some coin else None) (json_float (json_or (json_key d ''walletBalance'') (JNum 0)))
      | _ \<Rightarrow> Inl AttributeError)"

definition account_coins :: "(json \<Rightarrow> string) \<Rightarrow> json \<Rightarrow> py_error + string option list" where
  "account_coins str account =
     (case json_get account ''coin'' JNull of
        Inl e \<Rightarrow> Inl e
      | Inr v \<Rightarrow> (case json_items (json_or v (JArr [])) of Inl e \<Rightarrow> Inl e | Inr items \<Rightarrow> try_map (held_coin str) items))"

definition wallet_coins :: "(json \<Rightarrow> string) \<Rightarrow> json \<Rightarrow> py_error + string list" where
  "wallet_coins str resp =
     (case listed resp of
        Inl e \<Rightarrow> Inl e
      | Inr v \<Rightarrow>
          (case json_items v of
             Inl e \<Rightarrow> Inl e
           | Inr accounts \<Rightarrow> map_sum id (\<lambda>found. remdups (List.map_filter id (concat found))) (try_map (account_coins str) accounts)))"

section \<open>An iteration\<close>

record process =
  pr_run :: runtime
  pr_state :: trading_state
  pr_last_sync :: real
  pr_last_wallet :: real
  pr_wallet :: "string list"
  pr_last_recon :: real
  pr_cancel_all :: nat

record iteration_env =
  it_exit :: exit_env
  it_refresh :: refresh_env
  it_candidates :: "string list list"
  it_recon :: "(recon_config \<times> recon_env) option"
  it_orders :: "json option"
  it_wallet :: "json option"
  it_autocalib :: snapshot
  it_meta :: "string \<Rightarrow> snapshot"
  it_now_ms :: int
  it_answer :: "string \<Rightarrow> json option"
  it_strategy :: "trading_state \<Rightarrow> trading_state \<times> (py_error + order_intent list)"

abbreviation it_protect :: "iteration_env \<Rightarrow> protect_env" where
  "it_protect env \<equiv> xe_protect (it_exit env)"

abbreviation it_now :: "iteration_env \<Rightarrow> real" where
  "it_now env \<equiv> pe_mono (it_protect env)"

definition on_process :: "(runtime \<Rightarrow> runtime) \<Rightarrow> process \<Rightarrow> process" where
  "on_process f pr = pr\<lparr>pr_run := f (pr_run pr)\<rparr>"

datatype loop_end = Continue | Stop | Restart

text \<open>The newest list of candidates the scanner has queued; without one, the active symbols stay.\<close>

definition choose_symbols :: "loop_settings \<Rightarrow> iteration_env \<Rightarrow> process \<Rightarrow> process" where
  "choose_symbols ts env pr =
     (let active = (if get_active_symbols (pr_state pr) = [] then ts_symbols ts else get_active_symbols (pr_state pr)) in
      if ts_scanner ts
      then pr\<lparr>pr_state := set_active_symbols (if it_candidates env = [] then active else List.last (it_candidates env)) (pr_state pr)\<rparr>
      else pr)"

definition run_reconciliation_scheduled_if_due :: "loop_settings \<Rightarrow> iteration_env \<Rightarrow> process \<Rightarrow> process" where
  "run_reconciliation_scheduled_if_due ts env pr =
     (case it_recon env of
        None \<Rightarrow> pr
      | Some (cfg, renv) \<Rightarrow>
          if it_now env - pr_last_recon pr < ts_recon_interval ts then pr
          else (on_process (on_rt_db (\<lambda>db. fst (reconcile cfg renv ''scheduled'' db))) pr)\<lparr>pr_last_recon := it_now env\<rparr>)"

definition refresh_wallet_balance :: "iteration_env \<Rightarrow> process \<Rightarrow> process" where
  "refresh_wallet_balance env pr =
     (if pe_executor (it_protect env) = None \<or> it_now env - pr_last_wallet pr < 15 then pr
      else
        let pr = pr\<lparr>pr_last_wallet := it_now env\<rparr> in
        case it_wallet env of
          None \<Rightarrow> pr
        | Some resp \<Rightarrow>
            (case answer_ok resp of
               Inl e \<Rightarrow> pr
             | Inr False \<Rightarrow> pr
             | Inr True \<Rightarrow>
                 (case wallet_coins (pe_str (it_protect env)) resp of Inl e \<Rightarrow> pr | Inr coins \<Rightarrow> pr\<lparr>pr_wallet := coins\<rparr>)))"

record open_order =
  op_symbol :: string
  op_notional :: real
  op_link :: string
  op_data :: "(string, json) dict"

definition open_symbol :: "(json \<Rightarrow> string) \<Rightarrow> json \<Rightarrow> py_error + string option" where
  "open_symbol str item =
     (case item of
        JObj d \<Rightarrow> let s = json_text str (json_or (json_key d ''symbol'') (JStr [])) in Inr (if str_strip s = [] then None else Some (str_upper s))
      | _ \<Rightarrow> Inl AttributeError)"

definition read_open_order :: "(json \<Rightarrow> string) \<Rightarrow> json \<Rightarrow> py_error + open_order" where
  "read_open_order str item =
     (case item of
        JObj d \<Rightarrow>
          (case json_float (json_or (json_key d ''price'') (JNum 0)) of
             Inl e \<Rightarrow> Inl e
           | Inr price \<Rightarrow>
               (case json_float (json_or (json_key d ''qty'') (JNum 0)) of
                  Inl e \<Rightarrow> Inl e
                | Inr qty \<Rightarrow>
                    (case json_or (json_key d ''orderLinkId'') (JStr []) of
                       JStr link \<Rightarrow> Inr \<lparr>op_symbol = (case dict_get d ''symbol'' of None \<Rightarrow> [] | Some v \<Rightarrow> json_text str v),
                         op_notional = price * qty, op_link = link, op_data = d\<rparr>
                     | _ \<Rightarrow> Inl AttributeError)))
      | _ \<Rightarrow> Inl AttributeError)"

text \<open>What the open orders tie up, all of them, also those this iteration cancels.\<close>

definition order_exposure :: "open_order list \<Rightarrow> (string, real) dict" where
  "order_exposure os = fold (\<lambda>ord d. dict_set (op_symbol ord) ((case dict_get d (op_symbol ord) of None \<Rightarrow> 0 | Some v \<Rightarrow> v) + op_notional ord) d) os []"

definition own_quote :: "open_order \<Rightarrow> bool" where
  "own_quote ord \<longleftrightarrow> take 3 (op_link ord) = ''mm-'' \<or> take 4 (op_link ord) = ''spk-''"

definition position_orders :: "open_order list \<Rightarrow> string \<Rightarrow> (string, json) dict list" where
  "position_orders os symbol =
     map op_data (filter (\<lambda>ord. \<not> own_quote ord \<and> take 3 (op_link ord) = ''px-'' \<and> op_symbol ord = symbol) os)"

definition managed_list :: "loop_settings \<Rightarrow> bot_state \<Rightarrow> string list" where
  "managed_list ts b =
     remdups (ts_symbols ts @ filter (\<lambda>s. \<bar>bs_net b s\<bar> \<ge> position_floor (xs_bot (ts_exit ts)) s b) (bs_known b))"

text \<open>A call per symbol; the symbols whose call answers true are collected.\<close>

fun for_symbols :: "(string \<Rightarrow> runtime \<Rightarrow> runtime \<times> (py_error + bool)) \<Rightarrow> string list \<Rightarrow> runtime \<Rightarrow> runtime \<times> (py_error + string list)" where
  "for_symbols f [] r = (r, Inr [])"
| "for_symbols f (s # ss) r =
     (case f s r of
        (r, Inl e) \<Rightarrow> (r, Inl e)
      | (r, Inr b) \<Rightarrow> (case for_symbols f ss r of (r, Inl e) \<Rightarrow> (r, Inl e) | (r, Inr found) \<Rightarrow> (r, Inr (if b then s # found else found))))"

text \<open>The entries of an iteration, from the intents of the strategy.\<close>

definition entry_round ::
    "loop_settings \<Rightarrow> iteration_env \<Rightarrow> open_order list \<Rightarrow> string list \<Rightarrow> string list \<Rightarrow> process \<Rightarrow> process \<times> loop_end" where
  "entry_round ts env os open_syms blocked pr =
     (case it_strategy env (pr_state pr) of
        (st, Inl e) \<Rightarrow> (pr\<lparr>pr_state := st\<rparr>, Continue)
      | (st, Inr intents) \<Rightarrow>
          (case process_intents ts
              \<lparr>lp_protect = it_protect env, lp_autocalib = it_autocalib env, lp_meta = it_meta env, lp_now_ms = it_now_ms env,
               lp_answer = it_answer env, lp_blocked = blocked, lp_open = open_syms, lp_wallet = pr_wallet pr\<rparr>
              intents
              \<lparr>rd_run = pr_run pr, rd_state = st, rd_total = sum_list (map op_notional os), rd_symbol = order_exposure os, rd_new = []\<rparr> of
             (rd, f) \<Rightarrow> (pr\<lparr>pr_run := rd_run rd, pr_state := rd_state rd\<rparr>, if f = Halt then Stop else Continue)))"

definition trade_round ::
    "loop_settings \<Rightarrow> iteration_env \<Rightarrow> json list \<Rightarrow> process \<Rightarrow> process \<times> loop_end" where
  "trade_round ts env items pr =
     (let xs = ts_exit ts; str = pe_str (it_protect env) in
      case try_map (open_symbol str) items of
        Inl e \<Rightarrow> (pr, Continue)
      | Inr found \<Rightarrow>
          let open_syms = remdups (List.map_filter id found) in
          (case refresh_positions_from_executions (xs_bot xs)
              ((it_refresh env)\<lparr>rf_active := get_active_symbols (pr_state pr), rf_configured := ts_symbols ts\<rparr>) open_syms False (pr_last_sync pr, rt_sync (pr_run pr)) of
             ((t, s), Some e) \<Rightarrow> (pr\<lparr>pr_run := (pr_run pr)\<lparr>rt_sync := s\<rparr>, pr_last_sync := t\<rparr>, Continue)
           | ((t, s), None) \<Rightarrow>
               let pr = refresh_wallet_balance env (pr\<lparr>pr_run := (pr_run pr)\<lparr>rt_sync := s\<rparr>, pr_last_sync := t\<rparr>) in
               (case try_map (read_open_order str) items of
                  Inl e \<Rightarrow> (pr, Continue)
                | Inr os \<Rightarrow>
                    let pr = on_process (\<lambda>r. r\<lparr>rt_cancelled := rt_cancelled r @ map (\<lambda>ord. (op_symbol ord, op_link ord)) (filter own_quote os)\<rparr>) pr;
                        managed = managed_list ts (rt_bot (pr_run pr)); xenv = (it_exit env)\<lparr>xe_state := pr_state pr\<rparr> in
                    (case for_symbols (maybe_force_exit xs xenv) managed (pr_run pr) of
                       (r, Inl e) \<Rightarrow> (pr\<lparr>pr_run := r\<rparr>, Continue)
                     | (r, Inr blocked) \<Rightarrow>
                         (case for_symbols (\<lambda>symbol. maybe_place_position_exit_quote xs xenv symbol (position_orders os)) managed r of
                            (r, Inl e) \<Rightarrow> (pr\<lparr>pr_run := r\<rparr>, Continue)
                          | (r, Inr quotes) \<Rightarrow> entry_round ts env os open_syms blocked (pr\<lparr>pr_run := r\<rparr>))))))"

text \<open>An exception inside ends the iteration, not the loop.\<close>

definition trading_iteration :: "loop_settings \<Rightarrow> iteration_env \<Rightarrow> process \<Rightarrow> process \<times> loop_end" where
  "trading_iteration ts env pr =
     (if restart_requested (pr_state pr) then (pr, Restart)
      else
        let pr = run_reconciliation_scheduled_if_due ts env (choose_symbols ts env pr) in
        if panic_requested (pr_state pr)
        then (pr\<lparr>pr_cancel_all := Suc (pr_cancel_all pr), pr_state := set_panic_requested False (pr_state pr)\<rparr>, Continue)
        else if paused (pr_state pr) then (pr, Continue)
        else case it_orders env of
            Some (JObj d) \<Rightarrow>
              if json_key d ''retCode'' = JNum 10004 then (pr\<lparr>pr_state := set_paused True (pr_state pr)\<rparr>, Stop)
              else if \<not> ret_code_ok (json_key d ''retCode'') then (pr, Continue)
              else (case listed (JObj d) of
                  Inl e \<Rightarrow> (pr, Continue)
                | Inr v \<Rightarrow> (case json_items v of Inl e \<Rightarrow> (pr, Continue) | Inr items \<Rightarrow> trade_round ts env items pr))
          | _ \<Rightarrow> (pr, Continue))"


section \<open>What an intent leaves alone\<close>

abbreviation rd_sent :: "round_state \<Rightarrow> sent_order list" where
  "rd_sent rd \<equiv> bs_sent (rt_bot (rd_run rd))"

abbreviation rd_db :: "round_state \<Rightarrow> domain_db" where
  "rd_db rd \<equiv> bs_db (rt_bot (rd_run rd))"

text \<open>The limits and the issues stay, whatever happens to an intent.\<close>

definition same_rules :: "round_state \<Rightarrow> round_state \<Rightarrow> bool" where
  "same_rules rd rd' \<longleftrightarrow> rm_config (rt_risk (rd_run rd')) = rm_config (rt_risk (rd_run rd)) \<and> cs_issues (rd_db rd') = cs_issues (rd_db rd)"

definition same_money :: "round_state \<Rightarrow> round_state \<Rightarrow> bool" where
  "same_money rd rd' \<longleftrightarrow> rd_total rd' = rd_total rd \<and> rd_symbol rd' = rd_symbol rd \<and> rd_new rd' = rd_new rd"

lemma same_rules_refl [simp]: "same_rules rd rd"
  by (simp add: same_rules_def)

lemma same_rules_trans: "same_rules a b \<Longrightarrow> same_rules b c \<Longrightarrow> same_rules a c"
  by (simp add: same_rules_def)

lemma run_simps [simp]:
  "rt_bot (on_rt_db f r) = on_bot_db f (rt_bot r)" "rt_bot (on_rt_life g r) = rt_bot r" "rt_risk (on_rt_db f r) = rt_risk r"
  "rt_risk (on_rt_life g r) = rt_risk r" "rt_risk (on_rt_bot h r) = rt_risk r" "bs_db (on_bot_db f b) = f (bs_db b)" "bs_sent (on_bot_db f b) = bs_sent b"
  by (simp_all add: on_rt_db_def on_rt_life_def on_life_def on_rt_bot_def on_bot_db_def on_bot_def)

lemma on_run_simps [simp]:
  "rd_run (on_run f rd) = f (rd_run rd)" "rd_state (on_run f rd) = rd_state rd" "rd_total (on_run f rd) = rd_total rd"
  "rd_symbol (on_run f rd) = rd_symbol rd" "rd_new (on_run f rd) = rd_new rd"
  by (simp_all add: on_run_def)

lemma spot_rows_issues [simp]:
  "cs_issues (write_spot_position_intent_safe c symbol side qty price link profile signal db) = cs_issues db"
  by (auto simp: write_spot_position_intent_safe_def insert_spot_position_intent_def split: sum.split)

lemma decision_issues [simp]:
  "cs_issues (record_futures_decision env symbol side kind why applied db) = cs_issues db"
  by (simp add: record_futures_decision_def insert_futures_position_decision_def Let_def)

lemma gates_issues: "cs_issues (fst (pass_gates env it mark sl tp db)) = cs_issues db"
  by (simp add: pass_gates_def Let_def split: option.split)

lemma note_signal_frame [simp]:
  "rd_sent (note_signal c it rd) = rd_sent rd" "rd_state (note_signal c it rd) = rd_state rd" "same_rules rd (note_signal c it rd)"
  "same_money rd (note_signal c it rd)"
  by (simp_all add: note_signal_def same_rules_def same_money_def)

text \<open>What the risk manager is asked does not depend on the tables.\<close>

lemma entry_check_frame:
  assumes "same_money rd rd'" and "rt_risk (rd_run rd') = rt_risk (rd_run rd)"
    and "bs_net (rt_bot (rd_run rd')) = bs_net (rt_bot (rd_run rd))" and "bs_known (rt_bot (rd_run rd')) = bs_known (rt_bot (rd_run rd))"
    and "bs_floor (rt_bot (rd_run rd')) = bs_floor (rt_bot (rd_run rd))"
  shows "entry_check ts env it rd' = entry_check ts env it rd"
  using assms by (simp add: entry_check_def other_symbols_def position_floor_def same_money_def Let_def cong: filter_cong)

lemma order_issues:
  "domain_order c p ord order_id db = Inr db' \<Longrightarrow> cs_issues db' = cs_issues db"
  "insert_order o' db = Inr db' \<Longrightarrow> cs_issues db' = cs_issues db"
  by (auto simp: domain_order_def upsert_futures_open_order_def upsert_spot_order_def insert_order_def Let_def split: if_splits option.splits)

lemma record_order_rules:
  "record_order c p ord signal ret r = (r', e) \<Longrightarrow>
     rm_config (rt_risk r') = rm_config (rt_risk r) \<and> cs_issues (bs_db (rt_bot r')) = cs_issues (bs_db (rt_bot r)) \<and> bs_sent (rt_bot r') = bs_sent (rt_bot r)"
  using same_exits_record [of r c p ord signal ret]
  by (auto simp: record_order_def write_runtime_order_legacy_and_domain_def same_exits_def register_order_placed_def
      order_issues Let_def split: sum.splits)


lemma plan_protection_frame:
  "plan_protection c p it b = (b', e) \<Longrightarrow> bs_sent b' = bs_sent b \<and> cs_issues (bs_db b') = cs_issues (bs_db b)"
  by (auto simp: plan_protection_def put_bot_db_def bot_decision_def upsert_futures_protection_def and_then_def Let_def
      split: option.splits sum.splits if_splits prod.splits)

lemma adopt_settings_frame [simp]: "bs_sent (adopt_settings it b) = bs_sent b" "bs_db (adopt_settings it b) = bs_db b"
  by (simp_all add: adopt_settings_def Let_def)

lemma add_exposure_frame [simp]: "rd_run (add_exposure it rd) = rd_run rd" "rd_state (add_exposure it rd) = rd_state rd"
  by (simp_all add: add_exposure_def)

lemma same_money_add: "same_money (add_exposure it rd) rd' \<Longrightarrow> rd_total rd' = rd_total rd + oi_price it * oi_qty it
    \<and> (\<forall>s. (case dict_get (rd_symbol rd') s of None \<Rightarrow> 0 | Some v \<Rightarrow> v)
         = (case dict_get (rd_symbol rd) s of None \<Rightarrow> 0 | Some v \<Rightarrow> v) + (if s = oi_symbol it then oi_price it * oi_qty it else 0))"
  by (simp add: same_money_def add_exposure_def dict_get_set)

lemma accept_entry_frame:
  assumes "accept_entry ts env tif it ret rd = (rd', f)"
  shows "rd_sent rd' = rd_sent rd" and "same_rules rd rd'" and "same_money (add_exposure it rd) rd'"
proof -
  define rd1 where "rd1 = on_run (on_rt_bot (adopt_settings it)) (add_exposure it rd)"
  have rd1: "rd_sent rd1 = rd_sent rd" "same_rules rd rd1" "same_money (add_exposure it rd) rd1"
    by (simp_all add: rd1_def same_rules_def same_money_def)
  obtain r e where r: "record_order (xs_bot (ts_exit ts)) (lp_protect env) ((entry_order_of tif it)\<lparr>se_price := oi_price it, se_qty := oi_qty it\<rparr>)
      (Some (signal_id_of it)) ret (rd_run rd1) = (r, e)"
    by (cases "record_order (xs_bot (ts_exit ts)) (lp_protect env) ((entry_order_of tif it)\<lparr>se_price := oi_price it, se_qty := oi_qty it\<rparr>)
      (Some (signal_id_of it)) ret (rd_run rd1)")
  note rec = record_order_rules [OF r]
  obtain b e' where b: "plan_protection (xs_bot (ts_exit ts)) (lp_protect env) it (rt_bot r) = (b, e')"
    by (cases "plan_protection (xs_bot (ts_exit ts)) (lp_protect env) it (rt_bot r)")
  have "rd' = rd1\<lparr>rd_run := r\<rparr> \<or> rd' = rd1\<lparr>rd_run := on_rt_bot (\<lambda>_. b) r\<rparr>"
    using assms by (auto simp: accept_entry_def Let_def rd1_def [symmetric] r b split: option.splits if_splits)
  with rec plan_protection_frame [OF b] rd1
  show "rd_sent rd' = rd_sent rd" and "same_rules rd rd'" and "same_money (add_exposure it rd) rd'"
    by (auto simp: same_rules_def same_money_def)
qed

text \<open>The checks an entry has to pass.\<close>

definition entry_permitted :: "loop_settings \<Rightarrow> round_env \<Rightarrow> string \<Rightarrow> order_intent \<Rightarrow> round_state \<Rightarrow> bool" where
  "entry_permitted ts env tif it rd \<longleftrightarrow>
     snd (gates_of (xs_bot (ts_exit ts)) (lp_protect env) it (note_signal (xs_bot (ts_exit ts)) it rd)) = None
     \<and> allowed (snd (entry_check ts env it rd)) \<and> snd (guard_entry ts env tif it (rd_state rd)) = Inr None"

lemma guard_entry_refusals:
  assumes "guard_entry ts env tif it st = (st', Inr (Some ret))"
  obtains code msg where "ret = guard_answer code msg" and "90001 \<le> code \<and> code \<le> 90007"
  using assms
  by (auto simp: guard_entry_def guard_book_def split: if_splits option.splits sum.splits prod.splits)

lemma submit_entry_refused:
  assumes "guard_entry ts env tif it (rd_state rd) = (st, Inr (Some ret))"
  shows "submit_entry ts env tif it rd = (rd\<lparr>rd_state := st\<rparr>, Next)"
proof -
  obtain code msg where ret: "ret = guard_answer code msg" "90001 \<le> code \<and> code \<le> 90007" using assms by (rule guard_entry_refusals)
  then have "code \<noteq> 10004" "code \<noteq> 0" by simp_all
  then have "(of_int code :: real) \<noteq> 10004" "(of_int code :: real) \<noteq> 0" by linarith+
  with ret(1) show ?thesis
    by (simp add: submit_entry_def guarded_place_order_def assms guard_answer_def json_key_def ret_code_ok_def)
qed

lemma submit_entry_effect:
  assumes "submit_entry ts env tif it rd = (rd', f)"
  shows "same_rules rd rd'"
    and "(rd_sent rd' = rd_sent rd \<and> same_money rd rd')
      \<or> (snd (guard_entry ts env tif it (rd_state rd)) = Inr None \<and> rd_sent rd' = rd_sent rd @ [entry_order_of tif it]
          \<and> (same_money rd rd' \<or> same_money (add_exposure it rd) rd'))"
proof -
  obtain st g where g: "guard_entry ts env tif it (rd_state rd) = (st, g)" by (cases "guard_entry ts env tif it (rd_state rd)")
  define rd1 where "rd1 = on_run (send_order (entry_order_of tif it)) (rd\<lparr>rd_state := st\<rparr>)"
  have rd1: "same_rules rd rd1" "same_money rd rd1" "rd_sent rd1 = rd_sent rd @ [entry_order_of tif it]"
    by (simp_all add: rd1_def same_rules_def same_money_def send_order_def)
  have quiet: "same_rules a (a\<lparr>rd_state := v\<rparr>)" "same_money a (a\<lparr>rd_state := v\<rparr>)" "rd_sent (a\<lparr>rd_state := v\<rparr>) = rd_sent a" for a v
    by (simp_all add: same_rules_def same_money_def)
  have add: "same_money (add_exposure it rd1) rd' \<Longrightarrow> same_money (add_exposure it rd) rd'"
    by (simp add: same_money_def add_exposure_def rd1_def)
  have "same_rules rd rd' \<and> ((rd_sent rd' = rd_sent rd \<and> same_money rd rd')
      \<or> (g = Inr None \<and> rd_sent rd' = rd_sent rd @ [entry_order_of tif it] \<and> (same_money rd rd' \<or> same_money (add_exposure it rd) rd')))"
  proof (cases "g = Inr None")
    case True
    have sub: "submit_entry ts env tif it rd =
        (case lp_answer env (oi_order_link_id it) of None \<Rightarrow> (rd1, Raise DatabaseError)
         | Some (JObj d) \<Rightarrow>
             if json_key d ''retCode'' = JNum 10004 then (rd1\<lparr>rd_state := set_paused True (rd_state rd1)\<rparr>, Halt)
             else if \<not> ret_code_ok (json_key d ''retCode'') then (rd1, Next)
             else accept_entry ts env tif it (JObj d) rd1
         | Some ret \<Rightarrow> (rd1, Raise AttributeError))"
      by (simp add: submit_entry_def guarded_place_order_def g True rd1_def [symmetric] split: option.split json.split)
    consider "rd' = rd1" | v where "rd' = rd1\<lparr>rd_state := v\<rparr>" | d where "accept_entry ts env tif it (JObj d) rd1 = (rd', f)"
      using assms unfolding sub by (auto split: option.splits json.splits if_splits)
    then show ?thesis
    proof cases
      case 3
      from accept_entry_frame [OF this] rd1 add True show ?thesis by (auto simp: same_rules_def)
    qed (use rd1 quiet True in \<open>auto simp: same_rules_def same_money_def\<close>)
  next
    case False
    have "rd' = rd\<lparr>rd_state := st\<rparr>"
    proof (cases g)
      case (Inl e)
      then show ?thesis using assms by (simp add: submit_entry_def guarded_place_order_def g)
    next
      case (Inr answer)
      with False obtain ret where "g = Inr (Some ret)" by (cases answer) auto
      then show ?thesis using assms submit_entry_refused [of ts env tif it rd st ret] g by simp
    qed
    then show ?thesis using quiet by simp
  qed
  then show "same_rules rd rd'" "(rd_sent rd' = rd_sent rd \<and> same_money rd rd')
      \<or> (snd (guard_entry ts env tif it (rd_state rd)) = Inr None \<and> rd_sent rd' = rd_sent rd @ [entry_order_of tif it]
          \<and> (same_money rd rd' \<or> same_money (add_exposure it rd) rd'))" by (simp_all add: g)
qed

definition sent_intent :: "loop_settings \<Rightarrow> round_env \<Rightarrow> order_intent \<Rightarrow> round_state \<Rightarrow> order_intent option" where
  "sent_intent ts env it rd =
     (if oi_symbol it \<in> set (lp_blocked env) then None
      else map_option (\<lambda>it'. if oi_maker_only it' = None then it'\<lparr>oi_maker_only := Some (maker_entry ts it)\<rparr> else it')
        (prepare_intent_for_send (ts_exit ts) (rd_state rd) (lp_now_ms env) (maker_entry ts it) it))"

lemma gates_of_frame: "rd_run a = rd_run b \<Longrightarrow> rd_state a = rd_state b \<Longrightarrow> gates_of c p it a = gates_of c p it b"
  by (simp add: gates_of_def)

text \<open>The steps of an entry: refused by the gates, refused by the risk manager, or handed to the placement.\<close>

lemma try_entry_steps:
  obtains rd2 rd3 where "same_rules rd rd2" "same_money rd rd2" "rd_sent rd2 = rd_sent rd"
    and "same_rules rd rd3" "same_money rd rd3" "rd_sent rd3 = rd_sent rd" "rd_state rd3 = rd_state rd"
    and "try_entry ts env tif it rd =
      (case signal_error (case get_pair_filter_snapshot (rd_state rd) (oi_symbol it) of None \<Rightarrow> [] | Some s \<Rightarrow> s) (lp_meta env (oi_symbol it)) of
         Some e \<Rightarrow> (rd, Raise e)
       | None \<Rightarrow>
           if snd (gates_of (xs_bot (ts_exit ts)) (lp_protect env) it (note_signal (xs_bot (ts_exit ts)) it rd)) \<noteq> None then (rd2, Next)
           else if \<not> allowed (snd (entry_check ts env it rd)) then (rd3, Next) else submit_entry ts env tif it rd3)"
proof -
  define c where "c = xs_bot (ts_exit ts)"
  define rd1 where "rd1 = note_signal c it rd"
  define gates where "gates = gates_of c (lp_protect env) it rd1"
  define rd2 where "rd2 = on_run (on_rt_db (\<lambda>_. fst gates)) rd1"
  define risk where "risk = entry_check ts env it rd2"
  define rd3 where "rd3 = on_run (\<lambda>r. r\<lparr>rt_risk := fst risk\<rparr>) rd2"
  have "cs_issues (fst gates) = cs_issues (rd_db rd1)" by (simp add: gates_def gates_of_def gates_issues Let_def)
  then have rd2: "same_rules rd rd2" "same_money rd rd2" "rd_sent rd2 = rd_sent rd" "rd_state rd2 = rd_state rd"
    using note_signal_frame(3,4) [of rd c it] note_signal_frame(1,2) [of c it rd] by (simp_all add: rd2_def same_rules_def same_money_def rd1_def)
  have run2: "rt_risk (rd_run rd2) = rt_risk (rd_run rd)" "bs_net (rt_bot (rd_run rd2)) = bs_net (rt_bot (rd_run rd))"
    "bs_known (rt_bot (rd_run rd2)) = bs_known (rt_bot (rd_run rd))" "bs_floor (rt_bot (rd_run rd2)) = bs_floor (rt_bot (rd_run rd))"
    by (simp_all add: rd2_def rd1_def note_signal_def on_bot_db_def)
  have risk: "risk = entry_check ts env it rd" unfolding risk_def by (rule entry_check_frame) (use rd2 run2 in simp_all)
  have "rm_config (fst risk) = rm_config (rt_risk (rd_run rd2))"
    using check_order_manager by (metis risk_def entry_check_def prod.collapse)
  then have rd3: "same_rules rd rd3" "same_money rd rd3" "rd_sent rd3 = rd_sent rd" "rd_state rd3 = rd_state rd"
    using rd2 by (simp_all add: rd3_def same_rules_def same_money_def)
  show ?thesis
  proof (rule that [of rd2 rd3])
    show "try_entry ts env tif it rd =
      (case signal_error (case get_pair_filter_snapshot (rd_state rd) (oi_symbol it) of None \<Rightarrow> [] | Some s \<Rightarrow> s) (lp_meta env (oi_symbol it)) of
         Some e \<Rightarrow> (rd, Raise e)
       | None \<Rightarrow>
           if snd (gates_of (xs_bot (ts_exit ts)) (lp_protect env) it (note_signal (xs_bot (ts_exit ts)) it rd)) \<noteq> None then (rd2, Next)
           else if \<not> allowed (snd (entry_check ts env it rd)) then (rd3, Next) else submit_entry ts env tif it rd3)"
      unfolding try_entry_def Let_def c_def [symmetric] rd1_def [symmetric] gates_def [symmetric] rd2_def [symmetric]
        risk_def [symmetric] rd3_def [symmetric] risk [symmetric] ..
  qed (use rd2 rd3 in simp_all)
qed

lemma try_entry_effect:
  assumes "try_entry ts env tif it rd = (rd', f)"
  shows "same_rules rd rd'"
    and "(rd_sent rd' = rd_sent rd \<and> same_money rd rd')
      \<or> (entry_permitted ts env tif it rd \<and> rd_sent rd' = rd_sent rd @ [entry_order_of tif it]
          \<and> (same_money rd rd' \<or> same_money (add_exposure it rd) rd'))"
proof -
  obtain rd2 rd3 where rd2: "same_rules rd rd2" "same_money rd rd2" "rd_sent rd2 = rd_sent rd"
    and rd3: "same_rules rd rd3" "same_money rd rd3" "rd_sent rd3 = rd_sent rd" "rd_state rd3 = rd_state rd"
    and "(rd', f) = (case signal_error (case get_pair_filter_snapshot (rd_state rd) (oi_symbol it) of None \<Rightarrow> [] | Some s \<Rightarrow> s)
        (lp_meta env (oi_symbol it)) of Some e \<Rightarrow> (rd, Raise e)
      | None \<Rightarrow>
          if snd (gates_of (xs_bot (ts_exit ts)) (lp_protect env) it (note_signal (xs_bot (ts_exit ts)) it rd)) \<noteq> None then (rd2, Next)
          else if \<not> allowed (snd (entry_check ts env it rd)) then (rd3, Next) else submit_entry ts env tif it rd3)"
    unfolding assms [symmetric] by (rule try_entry_steps)
  then consider "rd' = rd" | "rd' = rd2" | "rd' = rd3"
    | "snd (gates_of (xs_bot (ts_exit ts)) (lp_protect env) it (note_signal (xs_bot (ts_exit ts)) it rd)) = None"
      "allowed (snd (entry_check ts env it rd))" "submit_entry ts env tif it rd3 = (rd', f)"
    by (auto split: option.splits if_splits)
  then have "same_rules rd rd' \<and> ((rd_sent rd' = rd_sent rd \<and> same_money rd rd')
      \<or> (entry_permitted ts env tif it rd \<and> rd_sent rd' = rd_sent rd @ [entry_order_of tif it]
          \<and> (same_money rd rd' \<or> same_money (add_exposure it rd) rd')))"
  proof cases
    case 4
    have "same_money (add_exposure it rd3) rd' \<Longrightarrow> same_money (add_exposure it rd) rd'"
      using rd3(2) by (simp add: same_money_def add_exposure_def)
    with submit_entry_effect [OF 4(3)] rd3 4 show ?thesis by (auto simp: same_rules_def same_money_def entry_permitted_def)
  qed (use rd2 rd3 in \<open>simp_all add: same_money_def\<close>)
  then show "same_rules rd rd'" "(rd_sent rd' = rd_sent rd \<and> same_money rd rd')
      \<or> (entry_permitted ts env tif it rd \<and> rd_sent rd' = rd_sent rd @ [entry_order_of tif it]
          \<and> (same_money rd rd' \<or> same_money (add_exposure it rd) rd'))" by simp_all
qed

lemma process_intent_sent:
  "process_intent ts env it rd =
     (case sent_intent ts env it rd of None \<Rightarrow> (rd, Next) | Some it' \<Rightarrow> try_entry ts env (entry_tif ts it) it' rd)"
  unfolding process_intent_def sent_intent_def by (simp split: option.split)

lemma process_intent_effect:
  assumes "process_intent ts env it rd = (rd', f)"
  shows "same_rules rd rd'"
    and "(rd_sent rd' = rd_sent rd \<and> same_money rd rd')
      \<or> (\<exists>it'. sent_intent ts env it rd = Some it' \<and> entry_permitted ts env (entry_tif ts it) it' rd
          \<and> rd_sent rd' = rd_sent rd @ [entry_order_of (entry_tif ts it) it'] \<and> (same_money rd rd' \<or> same_money (add_exposure it' rd) rd'))"
proof -
  consider "sent_intent ts env it rd = None" "rd' = rd"
    | it' where "sent_intent ts env it rd = Some it'" "try_entry ts env (entry_tif ts it) it' rd = (rd', f)"
    using assms unfolding process_intent_sent by (cases "sent_intent ts env it rd") simp_all
  then have "same_rules rd rd' \<and> ((rd_sent rd' = rd_sent rd \<and> same_money rd rd')
      \<or> (\<exists>it'. sent_intent ts env it rd = Some it' \<and> entry_permitted ts env (entry_tif ts it) it' rd
          \<and> rd_sent rd' = rd_sent rd @ [entry_order_of (entry_tif ts it) it'] \<and> (same_money rd rd' \<or> same_money (add_exposure it' rd) rd')))"
  proof cases
    case 1
    then show ?thesis by (simp add: same_money_def)
  next
    case 2
    then show ?thesis using try_entry_effect [OF 2(2)] by auto
  qed
  then show "same_rules rd rd'" "(rd_sent rd' = rd_sent rd \<and> same_money rd rd')
      \<or> (\<exists>it'. sent_intent ts env it rd = Some it' \<and> entry_permitted ts env (entry_tif ts it) it' rd
          \<and> rd_sent rd' = rd_sent rd @ [entry_order_of (entry_tif ts it) it'] \<and> (same_money rd rd' \<or> same_money (add_exposure it' rd) rd'))"
    by simp_all
qed

lemma prepared_cases:
  "prepare_intent_for_send xs st now maker it \<in> insert None (range (\<lambda>p. Some (it\<lparr>oi_price := p\<rparr>)))"
proof (cases "xs_reprice xs")
  case True
  have priced: "Some (it\<lparr>oi_price := p\<rparr>) \<in> insert None (range (\<lambda>p. Some (it\<lparr>oi_price := p\<rparr>)))" for p by blast
  with True show ?thesis
    unfolding prepare_intent_for_send_def Let_def
    by (simp only: not_True_eq_False if_False insertI1 priced split: if_split option.split) simp
next
  case False
  then have "prepare_intent_for_send xs st now maker it = Some (it\<lparr>oi_price := oi_price it\<rparr>)" by (simp add: prepare_intent_for_send_def)
  then show ?thesis by blast
qed

lemma prepared_price:
  assumes "prepare_intent_for_send xs st now maker it = Some it'"
  obtains p where "it' = it\<lparr>oi_price := p\<rparr>"
  using prepared_cases [of xs st now maker it] assms by auto

lemma sent_intent_same:
  assumes "sent_intent ts env it rd = Some it'"
  shows "oi_symbol it \<notin> set (lp_blocked env)" and "\<exists>p m. it' = it\<lparr>oi_price := p, oi_maker_only := m\<rparr>"
proof -
  show free: "oi_symbol it \<notin> set (lp_blocked env)" using assms by (simp add: sent_intent_def split: if_split_asm)
  with assms obtain it0 where it0: "prepare_intent_for_send (ts_exit ts) (rd_state rd) (lp_now_ms env) (maker_entry ts it) it = Some it0"
      "(if oi_maker_only it0 = None then it0\<lparr>oi_maker_only := Some (maker_entry ts it)\<rparr> else it0) = it'"
    unfolding sent_intent_def by (simp only: if_False map_option_eq_Some) (elim exE conjE, rule that)
  from it0(1) obtain p where p: "it0 = it\<lparr>oi_price := p\<rparr>" by (rule prepared_price)
  have "it' = it\<lparr>oi_price := p, oi_maker_only := (if oi_maker_only it = None then Some (maker_entry ts it) else oi_maker_only it)\<rparr>"
    unfolding it0(2) [symmetric] p by (cases it) simp
  then show "\<exists>p m. it' = it\<lparr>oi_price := p, oi_maker_only := m\<rparr>" by blast
qed

lemma process_intents_rule [consumes 2, case_names intent]:
  assumes "process_intents ts env its rd = (rd', f)" and "P rd"
    and "\<And>it a b g. it \<in> set its \<Longrightarrow> P a \<Longrightarrow> process_intent ts env it a = (b, g) \<Longrightarrow> P b"
  shows "P rd'"
  using assms
proof (induction its arbitrary: rd)
  case (Cons it its)
  obtain a g where a: "process_intent ts env it rd = (a, g)" by (cases "process_intent ts env it rd")
  have "P a" using Cons.prems(3) [OF _ Cons.prems(2) a] by simp
  with a Cons.prems Cons.IH [of a] show ?case by (cases g) auto
qed simp

text \<open>What the exposure of a symbol is taken for.\<close>

definition exposure_in :: "string \<Rightarrow> round_state \<Rightarrow> real" where
  "exposure_in s rd = (case dict_get (rd_symbol rd) s of None \<Rightarrow> 0 | Some v \<Rightarrow> v)"

lemma leverage_at_least_one: "1 \<le> effective_leverage (Some (resolve_risk_leverage market v))"
  by (simp add: effective_leverage_def)

lemma permitted_exposure:
  assumes "allowed (snd (entry_check ts env it rd))"
  shows "rd_total rd + oi_price it * oi_qty it \<le> max_total_exposure_usdt (rt_risk (rd_run rd))"
    and "exposure_in (oi_symbol it) rd + oi_price it * oi_qty it \<le> max_symbol_exposure_usdt (rt_risk (rd_run rd))"
    and "0 < oi_price it * oi_qty it"
proof -
  define l where "l = effective_leverage (Some (resolve_risk_leverage (bc_market (xs_bot (ts_exit ts))) (ts_leverage ts)))"
  have l: "1 \<le> l" unfolding l_def by (rule leverage_at_least_one)
  have all: "0 < oi_price it * oi_qty it * l" "rd_total rd + oi_price it * oi_qty it * l \<le> max_total_exposure_usdt (rt_risk (rd_run rd))"
    "exposure_in (oi_symbol it) rd + oi_price it * oi_qty it * l \<le> max_symbol_exposure_usdt (rt_risk (rd_run rd))"
    using assms by (simp_all add: entry_check_def check_order_allowed_iff Let_def l_def exposure_in_def)
  from all(1) l show pos: "0 < oi_price it * oi_qty it" by (simp add: zero_less_mult_iff)
  have "oi_price it * oi_qty it \<le> oi_price it * oi_qty it * l"
    using mult_left_mono [OF l, of "oi_price it * oi_qty it"] pos by simp
  with all show "rd_total rd + oi_price it * oi_qty it \<le> max_total_exposure_usdt (rt_risk (rd_run rd))"
    and "exposure_in (oi_symbol it) rd + oi_price it * oi_qty it \<le> max_symbol_exposure_usdt (rt_risk (rd_run rd))" by linarith+
qed

lemma limits_frame:
  "same_rules a b \<Longrightarrow> max_total_exposure_usdt (rt_risk (rd_run b)) = max_total_exposure_usdt (rt_risk (rd_run a))
     \<and> max_symbol_exposure_usdt (rt_risk (rd_run b)) = max_symbol_exposure_usdt (rt_risk (rd_run a))"
  by (simp add: same_rules_def max_total_exposure_usdt_def max_symbol_exposure_usdt_def)

lemma exposure_step:
  assumes "process_intent ts env it a = (b, g)"
  shows "rd_total b \<le> max (rd_total a) (max_total_exposure_usdt (rt_risk (rd_run a)))"
    and "exposure_in s b \<le> max (exposure_in s a) (max_symbol_exposure_usdt (rt_risk (rd_run a)))"
    and "rd_total a \<le> rd_total b"
proof -
  consider "same_money a b"
    | it' where "entry_permitted ts env (entry_tif ts it) it' a" "same_money (add_exposure it' a) b"
    using process_intent_effect(2) [OF assms] by blast
  then have "rd_total b \<le> max (rd_total a) (max_total_exposure_usdt (rt_risk (rd_run a)))
      \<and> exposure_in s b \<le> max (exposure_in s a) (max_symbol_exposure_usdt (rt_risk (rd_run a))) \<and> rd_total a \<le> rd_total b"
  proof cases
    case 1
    then show ?thesis by (simp add: same_money_def exposure_in_def)
  next
    case 2
    then have ok: "allowed (snd (entry_check ts env it' a))" by (simp add: entry_permitted_def)
    from permitted_exposure [OF ok] same_money_add [OF 2(2)] show ?thesis by (auto simp: exposure_in_def max_def)
  qed
  then show "rd_total b \<le> max (rd_total a) (max_total_exposure_usdt (rt_risk (rd_run a)))"
    "exposure_in s b \<le> max (exposure_in s a) (max_symbol_exposure_usdt (rt_risk (rd_run a)))" "rd_total a \<le> rd_total b" by simp_all
qed

text \<open>
  C9: Whatever the strategy asks for in an iteration, the exposure the loop counts, in all and in any one
  symbol, ends within the limit of the risk manager, or where it was when the open orders alone are beyond
  it; and accepted entries only ever add to it. A leverage above one makes the limit stricter, never wider.
\<close>

theorem entry_exposure_bounded:
  assumes "process_intents ts env its rd = (rd', f)"
  shows "rd_total rd' \<le> max (rd_total rd) (max_total_exposure_usdt (rt_risk (rd_run rd)))
    \<and> exposure_in s rd' \<le> max (exposure_in s rd) (max_symbol_exposure_usdt (rt_risk (rd_run rd)))
    \<and> rd_total rd \<le> rd_total rd'"
proof -
  define P where "P b \<longleftrightarrow> same_rules rd b \<and> rd_total b \<le> max (rd_total rd) (max_total_exposure_usdt (rt_risk (rd_run rd)))
    \<and> exposure_in s b \<le> max (exposure_in s rd) (max_symbol_exposure_usdt (rt_risk (rd_run rd))) \<and> rd_total rd \<le> rd_total b" for b
  have "P rd'" using assms
  proof (rule process_intents_rule)
    fix it a b g
    assume a: "P a" and b: "process_intent ts env it a = (b, g)"
    from process_intent_effect(1) [OF b] a have "same_rules rd b" by (auto simp: P_def intro: same_rules_trans)
    with exposure_step(1,3) [OF b] exposure_step(2) [OF b, of s] limits_frame [of rd a] a show "P b" by (auto simp: P_def)
  qed (simp add: P_def)
  then show ?thesis by (simp add: P_def)
qed

lemma block_reason_frame:
  "cs_issues a = cs_issues b \<Longrightarrow> get_reconciliation_entry_block_reason symbol a = get_reconciliation_entry_block_reason symbol b"
  by (simp add: get_reconciliation_entry_block_reason_def load_reconciliation_symbol_locks_def Let_def)

lemma blocked_gates:
  assumes "get_reconciliation_entry_block_reason (oi_symbol it) (rd_db rd) \<noteq> None"
  shows "snd (gates_of c p it rd) \<noteq> None"
  using assms by (auto simp: gates_of_def pass_gates_def Let_def)

text \<open>
  C15: While a conflict of one of the four types that lock a symbol (orphaned_exchange_position,
  orphaned_exchange_order, local_position_missing_on_exchange, local_order_missing_on_exchange) is active on a
  symbol, in a well-formed table of issues, no intent of the strategy sends an order in it: all orders that working through the intents sends are
  in other symbols, also when earlier intents of the iteration failed or changed the tables. The other types of
  conflicts lock nothing.
\<close>

theorem locked_symbol_never_entered:
  assumes "process_intents ts env its rd = (rd', f)"
    and "issues_ok uuid (rd_db rd)" and "k \<in> active_keys (rd_db rd)" and "lockable k"
  shows "\<exists>os. rd_sent rd' = rd_sent rd @ os \<and> (\<forall>ord \<in> set os. str_strip (str_upper (se_symbol ord)) \<noteq> snd (snd k))"
proof -
  define P where "P b \<longleftrightarrow> same_rules rd b
    \<and> (\<exists>os. rd_sent b = rd_sent rd @ os \<and> (\<forall>ord \<in> set os. str_strip (str_upper (se_symbol ord)) \<noteq> snd (snd k)))" for b
  have "P rd'" using assms(1)
  proof (rule process_intents_rule)
    fix it a b g
    assume a: "P a" and b: "process_intent ts env it a = (b, g)"
    from process_intent_effect(1) [OF b] a have rules: "same_rules rd b" by (auto simp: P_def intro: same_rules_trans)
    from a obtain os where os: "rd_sent a = rd_sent rd @ os" "\<forall>ord \<in> set os. str_strip (str_upper (se_symbol ord)) \<noteq> snd (snd k)"
      by (auto simp: P_def)
    consider "rd_sent b = rd_sent a"
      | it' where "entry_permitted ts env (entry_tif ts it) it' a" "rd_sent b = rd_sent a @ [entry_order_of (entry_tif ts it) it']"
      using process_intent_effect(2) [OF b] by blast
    then show "P b"
    proof cases
      case 1
      with os rules show ?thesis by (auto simp: P_def)
    next
      case 2
      define a1 where "a1 = note_signal (xs_bot (ts_exit ts)) it' a"
      have issues: "cs_issues (rd_db a1) = cs_issues (rd_db rd)"
        using a note_signal_frame(3) [of a "xs_bot (ts_exit ts)" it'] by (simp add: P_def a1_def same_rules_def)
      have gates: "snd (gates_of (xs_bot (ts_exit ts)) (lp_protect env) it' a1) = None" using 2(1) by (simp add: entry_permitted_def a1_def)
      have "snd (snd k) \<noteq> str_strip (str_upper (oi_symbol it'))"
      proof
        assume "snd (snd k) = str_strip (str_upper (oi_symbol it'))"
        then have "get_reconciliation_entry_block_reason (oi_symbol it') (rd_db rd) \<noteq> None"
          unfolding block_reason_keys [OF assms(2)] using assms(3,4) by blast
        with blocked_gates [of it' a1] gates show False unfolding block_reason_frame [OF issues] by blast
      qed
      then have "str_strip (str_upper (se_symbol (entry_order_of (entry_tif ts it) it'))) \<noteq> snd (snd k)" by (auto simp: entry_order_of_def)
      with os rules 2(2) show ?thesis by (auto simp: P_def)
    qed
  qed (simp add: P_def)
  then show ?thesis by (simp add: P_def)
qed

text \<open>
  An iteration of a loop that is paused, asked to panic or asked to restart sends no order and cancels
  no quote, though a scheduled reconciliation may still run; the panic asks the exchange once to cancel all
  orders and is then over.
\<close>

theorem idle_iteration_sends_nothing:
  assumes "trading_iteration ts env pr = (pr', e)"
    and "paused (pr_state pr) \<or> panic_requested (pr_state pr) \<or> restart_requested (pr_state pr)"
  shows "bs_sent (rt_bot (pr_run pr')) = bs_sent (rt_bot (pr_run pr))" and "rt_cancelled (pr_run pr') = rt_cancelled (pr_run pr)"
    and "\<not> restart_requested (pr_state pr) \<and> panic_requested (pr_state pr)
      \<Longrightarrow> pr_cancel_all pr' = Suc (pr_cancel_all pr) \<and> \<not> panic_requested (pr_state pr')"
proof -
  define pr1 where "pr1 = run_reconciliation_scheduled_if_due ts env (choose_symbols ts env pr)"
  have pr1: "bs_sent (rt_bot (pr_run pr1)) = bs_sent (rt_bot (pr_run pr))" "rt_cancelled (pr_run pr1) = rt_cancelled (pr_run pr)"
    "paused (pr_state pr1) = paused (pr_state pr)" "panic_requested (pr_state pr1) = panic_requested (pr_state pr)"
    "pr_cancel_all pr1 = pr_cancel_all pr"
    by (simp_all add: pr1_def run_reconciliation_scheduled_if_due_def choose_symbols_def set_active_symbols_def on_process_def Let_def
        on_rt_db_def on_rt_bot_def split: option.split prod.split)
  have "(pr', e) = (if restart_requested (pr_state pr) then (pr, Restart)
      else if panic_requested (pr_state pr1)
      then (pr1\<lparr>pr_cancel_all := Suc (pr_cancel_all pr1), pr_state := set_panic_requested False (pr_state pr1)\<rparr>, Continue) else (pr1, Continue))"
    using assms(2) pr1 unfolding assms(1) [symmetric] trading_iteration_def Let_def pr1_def [symmetric] by auto
  with pr1 show "bs_sent (rt_bot (pr_run pr')) = bs_sent (rt_bot (pr_run pr))" "rt_cancelled (pr_run pr') = rt_cancelled (pr_run pr)"
    "\<not> restart_requested (pr_state pr) \<and> panic_requested (pr_state pr)
      \<Longrightarrow> pr_cancel_all pr' = Suc (pr_cancel_all pr) \<and> \<not> panic_requested (pr_state pr')"
    by (auto simp: set_panic_requested_def split: if_split_asm)
qed

text \<open>What the strict placement saw when it let an order pass.\<close>

definition book_admits :: "loop_settings \<Rightarrow> round_env \<Rightarrow> string \<Rightarrow> order_intent \<Rightarrow> trading_state \<Rightarrow> bool" where
  "book_admits ts env tif it st \<longleftrightarrow>
     (\<exists>st' live ob required.
        evaluate_pair_admission (ts_admission ts) (lp_autocalib env) (oi_symbol it) (lp_now_ms env) st = (st', Inr live)
        \<and> pd_status live = ''PASS'' \<and> get_orderbook st (oi_symbol it) = Some ob \<and> 0 < mid ob
        \<and> value_float (case dict_get (pd_metrics live) ''min_required_spread_bps'' of None \<Rightarrow> PyFloat 0 | Some v \<Rightarrow> v) = Inr required
        \<and> required \<le> (best_ask ob - best_bid ob) / mid ob * 10000 \<and> \<not> crosses tif it ob)"

lemma admission_keeps_books:
  "evaluate_pair_admission c autocalib symbol now st = (st', r) \<Longrightarrow> get_orderbook st' s = get_orderbook st s"
  by (auto simp: evaluate_pair_admission_def Let_def get_orderbook_def set_pair_filter_snapshot_def set_pair_gate_state_def
      split: sum.splits prod.splits)

lemma guard_book_passed:
  assumes "guard_book live tif it st = Inr None"
  obtains ob required where "get_orderbook st (oi_symbol it) = Some ob" and "0 < mid ob"
    and "value_float (case dict_get (pd_metrics live) ''min_required_spread_bps'' of None \<Rightarrow> PyFloat 0 | Some v \<Rightarrow> v) = Inr required"
    and "required \<le> (best_ask ob - best_bid ob) / mid ob * 10000" and "\<not> crosses tif it ob"
  using assms unfolding guard_book_def
  by (auto simp: not_le not_less split: option.split_asm sum.split_asm if_split_asm)

lemma guard_entry_passed:
  assumes "snd (guard_entry ts env tif it st) = Inr None" and "ts_strict ts"
  shows "book_admits ts env tif it st"
proof -
  obtain st' r where ev: "evaluate_pair_admission (ts_admission ts) (lp_autocalib env) (oi_symbol it) (lp_now_ms env) st = (st', r)"
    by (cases "evaluate_pair_admission (ts_admission ts) (lp_autocalib env) (oi_symbol it) (lp_now_ms env) st")
  obtain live where live: "r = Inr live" "pd_status live = ''PASS''" "guard_book live tif it st' = Inr None"
    using assms ev by (auto simp: guard_entry_def split: option.split_asm if_split_asm sum.split_asm)
  from live(3) admission_keeps_books [OF ev] ev live(1,2) show ?thesis
    unfolding book_admits_def by (elim guard_book_passed) auto
qed

lemma prepared_fresh:
  assumes "prepare_intent_for_send xs st now maker it = Some it'" and "xs_reprice xs"
  shows "0 < oi_price it' \<and> (\<exists>t. last_book_update_ms st (oi_symbol it) = Some t \<and> now - t \<le> xs_max_book_age_ms xs)"
proof -
  have "case prepare_intent_for_send xs st now maker it of None \<Rightarrow> True | Some it' \<Rightarrow>
      0 < oi_price it' \<and> (\<exists>t. last_book_update_ms st (oi_symbol it) = Some t \<and> now - t \<le> xs_max_book_age_ms xs)"
    using assms(2) by (simp add: prepare_intent_for_send_def Let_def not_le not_less split: option.split)
  with assms(1) show ?thesis by simp
qed

lemma sent_intent_fresh:
  assumes "sent_intent ts env it rd = Some it'" and "xs_reprice (ts_exit ts)"
  shows "0 < oi_price it' \<and> (\<exists>t. last_book_update_ms (rd_state rd) (oi_symbol it) = Some t \<and> lp_now_ms env - t \<le> xs_max_book_age_ms (ts_exit ts))"
proof -
  obtain it0 where it0: "prepare_intent_for_send (ts_exit ts) (rd_state rd) (lp_now_ms env) (maker_entry ts it) it = Some it0"
      "(if oi_maker_only it0 = None then it0\<lparr>oi_maker_only := Some (maker_entry ts it)\<rparr> else it0) = it'"
    using assms(1) sent_intent_same(1) [OF assms(1)] unfolding sent_intent_def
    by (simp only: if_False map_option_eq_Some) (elim exE conjE, rule that)
  have "oi_price it' = oi_price it0" unfolding it0(2) [symmetric] by simp
  with prepared_fresh [OF it0(1) assms(2)] show ?thesis by simp
qed

text \<open>
  C6: When an intent leads to an order, it is exactly one, the intent's own with a new price at most; the
  symbol had no forced exit in the iteration; the gates of the tables are open and the risk manager allows
  it with the exposures and symbols counted so far; with repricing, the book was no older than allowed and
  the price is positive; and the strict placement, asked again at the last moment, found the pair
  admitted, a book wide enough for the costs, and a resting order that does not cross it.
\<close>

theorem entries_pass_every_check:
  assumes "process_intent ts env it rd = (rd', f)" and "rd_sent rd' \<noteq> rd_sent rd"
  shows "\<exists>it'. rd_sent rd' = rd_sent rd @ [entry_order_of (entry_tif ts it) it']
     \<and> (\<exists>p m. it' = it\<lparr>oi_price := p, oi_maker_only := m\<rparr>) \<and> oi_symbol it \<notin> set (lp_blocked env)
     \<and> snd (gates_of (xs_bot (ts_exit ts)) (lp_protect env) it' (note_signal (xs_bot (ts_exit ts)) it' rd)) = None
     \<and> allowed (snd (entry_check ts env it' rd))
     \<and> (xs_reprice (ts_exit ts) \<longrightarrow> 0 < oi_price it'
          \<and> (\<exists>t. last_book_update_ms (rd_state rd) (oi_symbol it) = Some t \<and> lp_now_ms env - t \<le> xs_max_book_age_ms (ts_exit ts)))
     \<and> (ts_strict ts \<longrightarrow> book_admits ts env (entry_tif ts it) it' (rd_state rd))"
proof -
  obtain it' where it': "sent_intent ts env it rd = Some it'" "entry_permitted ts env (entry_tif ts it) it' rd"
      "rd_sent rd' = rd_sent rd @ [entry_order_of (entry_tif ts it) it']"
    using process_intent_effect(2) [OF assms(1)] assms(2) by blast
  with sent_intent_same [OF it'(1)] sent_intent_fresh [OF it'(1)] guard_entry_passed [of ts env "entry_tif ts it" it' "rd_state rd"]
  show ?thesis by (intro exI [of _ it']) (simp add: entry_permitted_def)
qed

section \<open>Example inputs\<close>

definition sample_loop :: loop_settings where
  "sample_loop = \<lparr>ts_exit = sample_settings\<lparr>xs_bot := sample_bot ''spot''\<rparr>, ts_admission = sample_admission, ts_strict = False, ts_spike = False,
     ts_leverage = PyInt 1, ts_symbols = [''BTCUSDT''], ts_scanner = False, ts_recon_interval = 60\<rparr>"

definition sample_wish :: order_intent where
  "sample_wish = \<lparr>oi_symbol = ''BTCUSDT'', oi_side = ''Buy'', oi_price = 99, oi_qty = 1, oi_order_link_id = ''mm-1'', oi_profile_id = None,
     oi_model_version = None, oi_entry_tick_offset = None, oi_order_qty_base = None, oi_target_profit = None, oi_safety_buffer = None,
     oi_min_top_book_qty = None, oi_stop_loss_pct = None, oi_take_profit_pct = None, oi_hold_timeout_sec = None, oi_maker_only = None\<rparr>"

definition sample_round_env :: round_env where
  "sample_round_env = \<lparr>lp_protect = sample_protect True, lp_autocalib = [], lp_meta = (\<lambda>_. []), lp_now_ms = 500,
     lp_answer = (\<lambda>_. Some (JObj [(''retCode'', JNum 0)])), lp_blocked = [], lp_open = [], lp_wallet = []\<rparr>"

definition sample_round :: round_state where
  "sample_round = \<lparr>rd_run = sample_runtime, rd_state = initial_trading_state\<lparr>orderbooks := [''BTCUSDT'' \<mapsto> Exit_Orders.sample_book],
       last_book_update_ms := [''BTCUSDT'' \<mapsto> 0]\<rparr>, rd_total = 0, rd_symbol = [], rd_new = []\<rparr>"

lemma sample_sent: "sent_intent sample_loop sample_round_env sample_wish sample_round
    = Some (sample_wish\<lparr>oi_price := 9901 / 100, oi_maker_only := Some True\<rparr>)"
  by (simp add: sent_intent_def prepare_intent_for_send_def sample_loop_def sample_settings_def sample_round_env_def sample_wish_def
      sample_round_def get_orderbook_def crossed_book_def Exit_Orders.sample_book_def tick_size_of_def get_tick_size_def
      initial_trading_state_def entry_offset_def target_price_def maker_entry_def snap_price_def Let_def str_eval upper_char_def round_half_even_def)

abbreviation sample_sent_entry :: order_intent where
  "sample_sent_entry \<equiv> sample_wish\<lparr>oi_price := 9901 / 100, oi_maker_only := Some True\<rparr>"

lemma sample_gates:
  assumes "rd_db rd = rd_db sample_round" and "rd_state rd = rd_state sample_round"
  shows "snd (gates_of (sample_bot ''spot'') p sample_sent_entry (note_signal (sample_bot ''spot'') sample_sent_entry rd)) = None"
proof -
  have "cs_issues (rd_db (note_signal (sample_bot ''spot'') sample_sent_entry rd)) = cs_issues empty_db"
    using note_signal_frame(3) [of rd "sample_bot ''spot''" sample_sent_entry] assms(1)
    by (simp add: same_rules_def sample_round_def sample_runtime_def new_bot_state_def)
  then have "get_reconciliation_entry_block_reason ''BTCUSDT'' (rd_db (note_signal (sample_bot ''spot'') sample_sent_entry rd))
      = get_reconciliation_entry_block_reason ''BTCUSDT'' empty_db"
    by (rule block_reason_frame)
  moreover have "get_reconciliation_entry_block_reason ''BTCUSDT'' empty_db = None"
    using block_reason_rows [of "''BTCUSDT''" empty_db] by (auto simp: lock_rows_def empty_db_def)
  ultimately show ?thesis
    by (simp add: gates_of_def pass_gates_def spot_sell_blocked_by_hold_policy_def sample_bot_def sample_wish_def Let_def
        str_eval norm_lower_def lower_char_def py_space_def del: run_simps)
qed

lemma sample_check: "allowed (snd (entry_check sample_loop sample_round_env sample_sent_entry sample_round))"
  by (simp add: entry_check_def check_order_allowed_iff sample_loop_def sample_settings_def sample_round_env_def sample_wish_def
      sample_round_def sample_runtime_def sample_bot_def sample_risk_config_def new_risk_manager_def prune_timestamps_def
      resolve_risk_leverage_def effective_leverage_def max_total_exposure_usdt_def max_symbol_exposure_usdt_def
      other_symbols_def new_bot_state_def position_floor_def know_def str_eval norm_lower_def lower_char_def py_space_def Let_def)

lemma sample_submit:
  assumes "rd_sent rd = rd_sent sample_round"
  shows "rd_sent (fst (submit_entry sample_loop sample_round_env tif sample_sent_entry rd)) = rd_sent sample_round @ [entry_order_of tif sample_sent_entry]"
proof -
  have "guard_entry sample_loop sample_round_env tif sample_sent_entry (rd_state rd) = (rd_state rd, Inr None)"
    by (simp add: guard_entry_def sample_loop_def)
  moreover have "lp_answer sample_round_env link = Some (JObj [(''retCode'', JNum 0)])" for link by (simp add: sample_round_env_def)
  ultimately have "submit_entry sample_loop sample_round_env tif sample_sent_entry rd =
      accept_entry sample_loop sample_round_env tif sample_sent_entry (JObj [(''retCode'', JNum 0)]) (on_run (send_order (entry_order_of tif sample_sent_entry)) rd)"
    by (simp add: submit_entry_def guarded_place_order_def json_key_def ret_code_ok_def)
  then show ?thesis
    using accept_entry_frame(1) [of sample_loop sample_round_env tif sample_sent_entry "JObj [(''retCode'', JNum 0)]"
        "on_run (send_order (entry_order_of tif sample_sent_entry)) rd", OF prod.collapse [symmetric]] assms
    by (simp add: send_order_def)
qed

lemma sample_entered: "rd_sent (fst (process_intent sample_loop sample_round_env sample_wish sample_round))
    = rd_sent sample_round @ [entry_order_of ''PostOnly'' sample_sent_entry]"
proof -
  have tif: "entry_tif sample_loop sample_wish = ''PostOnly''"
    by (simp add: sample_loop_def entry_tif_def maker_entry_def sample_wish_def)
  have gates: "snd (gates_of (xs_bot (ts_exit sample_loop)) (lp_protect sample_round_env) sample_sent_entry
      (note_signal (xs_bot (ts_exit sample_loop)) sample_sent_entry sample_round)) = None"
    using sample_gates by (simp add: sample_loop_def)
  have quiet: "signal_error (case get_pair_filter_snapshot (rd_state sample_round) s of None \<Rightarrow> [] | Some x \<Rightarrow> x) (lp_meta sample_round_env s) = None" for s
    by (simp add: signal_error_def signal_keys_def sample_round_def sample_round_env_def get_pair_filter_snapshot_def initial_trading_state_def)
  obtain rd3 where "rd_sent rd3 = rd_sent sample_round"
      "try_entry sample_loop sample_round_env ''PostOnly'' sample_sent_entry sample_round
        = submit_entry sample_loop sample_round_env ''PostOnly'' sample_sent_entry rd3"
    using try_entry_steps [of sample_round sample_loop sample_round_env "''PostOnly''" sample_sent_entry] gates sample_check quiet by auto
  then show ?thesis by (simp add: process_intent_sent sample_sent tif sample_submit)
qed

theorem entries_pass_every_check_witness:
  "\<exists>it'. rd_sent (fst (process_intent sample_loop sample_round_env sample_wish sample_round)) = [entry_order_of ''PostOnly'' it']
     \<and> oi_price it' > 0"
proof -
  have none: "rd_sent sample_round = []" by (simp add: sample_round_def sample_runtime_def new_bot_state_def)
  have "xs_reprice (ts_exit sample_loop)" "entry_tif sample_loop sample_wish = ''PostOnly''"
    by (simp_all add: sample_loop_def sample_settings_def entry_tif_def maker_entry_def sample_wish_def)
  with entries_pass_every_check [of sample_loop sample_round_env sample_wish sample_round, OF prod.collapse [symmetric]]
  show ?thesis by (auto simp: sample_entered none)
qed

theorem entry_exposure_bounded_witness:
  "rd_total (fst (process_intents sample_loop sample_round_env [sample_wish, sample_wish] sample_round)) \<le> 500
   \<and> exposure_in ''BTCUSDT'' (fst (process_intents sample_loop sample_round_env [sample_wish, sample_wish] sample_round)) \<le> 200"
proof -
  have limits: "max_total_exposure_usdt (rt_risk (rd_run sample_round)) = 500" "max_symbol_exposure_usdt (rt_risk (rd_run sample_round)) = 200"
    "rd_total sample_round = 0" "exposure_in ''BTCUSDT'' sample_round = 0"
    by (simp_all add: max_total_exposure_usdt_def max_symbol_exposure_usdt_def sample_round_def sample_runtime_def sample_risk_config_def
        new_risk_manager_def exposure_in_def)
  from entry_exposure_bounded [of sample_loop sample_round_env "[sample_wish, sample_wish]" sample_round, OF prod.collapse [symmetric],
      of "''BTCUSDT''"] show ?thesis by (simp only: limits) simp
qed

definition sample_locked_round :: round_state where
  "sample_locked_round = sample_round\<lparr>rd_run := on_rt_db (\<lambda>_. sample_db [] [sample_issue]) (rd_run sample_round)\<rparr>"

theorem locked_symbol_never_entered_witness:
  "''BTCUSDT'' \<notin> (\<lambda>ord. str_strip (str_upper (se_symbol ord)))
     ` set (rd_sent (fst (process_intents sample_loop sample_round_env [sample_wish] sample_locked_round)))"
proof -
  have db: "rd_db sample_locked_round = sample_db [] [sample_issue]" "rd_sent sample_locked_round = []"
    by (simp_all add: sample_locked_round_def sample_round_def sample_runtime_def new_bot_state_def)
  have key: "lockable (MISSING, ''futures'', ''BTCUSDT'')" by (simp add: lockable_def ENTRY_LOCK_ISSUE_TYPES_def)
  obtain os where "rd_sent (fst (process_intents sample_loop sample_round_env [sample_wish] sample_locked_round)) = [] @ os"
      "\<forall>ord \<in> set os. str_strip (str_upper (se_symbol ord)) \<noteq> ''BTCUSDT''"
    using locked_symbol_never_entered [of sample_loop sample_round_env "[sample_wish]" sample_locked_round, OF prod.collapse [symmetric],
        of sample_uuid "(MISSING, ''futures'', ''BTCUSDT'')"] key by (auto simp: db sample_issues)
  then show ?thesis by auto
qed

definition sample_iteration :: iteration_env where
  "sample_iteration = \<lparr>it_exit = sample_exit_env 100, it_refresh = \<lparr>rf_sync = xe_sync (sample_exit_env 100), rf_interval = 10, rf_limit = 50, rf_active = [], rf_configured = [''BTCUSDT''],
       rf_min_qty = (\<lambda>_. None), rf_min_notional = (\<lambda>_. None), rf_answer = (\<lambda>_. None)\<rparr>, it_candidates = [],
     it_recon = None, it_orders = None, it_wallet = None, it_autocalib = [], it_meta = (\<lambda>_. []), it_now_ms = 500, it_answer = (\<lambda>_. None),
     it_strategy = (\<lambda>st. (st, Inr [sample_wish]))\<rparr>"

definition sample_process :: process where
  "sample_process = \<lparr>pr_run = sample_runtime, pr_state = set_panic_requested True initial_trading_state, pr_last_sync = 0, pr_last_wallet = 0,
     pr_wallet = [], pr_last_recon = 0, pr_cancel_all = 0\<rparr>"

theorem idle_iteration_sends_nothing_witness:
  "bs_sent (rt_bot (pr_run (fst (trading_iteration sample_loop sample_iteration sample_process)))) = []
   \<and> pr_cancel_all (fst (trading_iteration sample_loop sample_iteration sample_process)) = 1"
proof -
  have panic: "panic_requested (pr_state sample_process)" "\<not> restart_requested (pr_state sample_process)"
    "bs_sent (rt_bot (pr_run sample_process)) = []" "pr_cancel_all sample_process = 0"
    by (simp_all add: sample_process_def set_panic_requested_def initial_trading_state_def sample_runtime_def new_bot_state_def)
  note idle = idle_iteration_sends_nothing [of sample_loop sample_iteration sample_process, OF prod.collapse [symmetric]]
  from idle(1,3) panic show ?thesis by simp
qed

end
