(* ===== verification/Decimals.thy ===== *)
theory Decimals
  imports Json
begin

text \<open>
  The numbers of Python's \<open>decimal\<close> module, as \<open>execution/bybit_rest.py\<close> uses them: a coefficient with an
  exponent of ten, arithmetic rounded to 28 digits, and the text of a number.

  Infinities, NaN, a negative zero and the limits of the exponent (a million digits) are left out.
\<close>

section \<open>Digits\<close>

fun nat_digits :: "nat \<Rightarrow> string" where
  "nat_digits n = (if n < 10 then [char_of (48 + n)] else nat_digits (n div 10) @ [char_of (48 + n mod 10)])"

declare nat_digits.simps [simp del]

definition digit_chars :: "string \<Rightarrow> bool" where
  "digit_chars s \<longleftrightarrow> list_all (\<lambda>c. digit_value c \<noteq> None) s"

definition digits_from :: "nat \<Rightarrow> string \<Rightarrow> nat" where
  "digits_from v s = foldl (\<lambda>v c. 10 * v + (of_char c - 48)) v s"

lemma digit_value_of: "d < 10 \<Longrightarrow> digit_value (char_of (48 + d)) = Some d"
  by (simp add: digit_value_def)

lemma digit_valueD: "digit_value c = Some d \<Longrightarrow> of_char c - 48 = d \<and> d < 10"
  by (auto simp: digit_value_def split: if_splits)

lemma digit_chars_simps [simp]:
  "digit_chars []" "digit_chars (c # s) \<longleftrightarrow> digit_value c \<noteq> None \<and> digit_chars s"
  "digit_chars (s @ t) \<longleftrightarrow> digit_chars s \<and> digit_chars t"
  by (simp_all add: digit_chars_def)

lemma digit_value_zero [simp]: "digit_value (CHR ''0'') = Some 0"
  by (simp add: digit_value_def)

lemma digits_from_simps [simp]:
  "digits_from v [] = v" "digits_from v (c # s) = digits_from (10 * v + (of_char c - 48)) s"
  "digits_from v (s @ t) = digits_from (digits_from v s) t"
  by (simp_all add: digits_from_def)

lemma digits_from_shift: "digits_from v s = v * 10 ^ length s + digits_from 0 s"
proof (induction s arbitrary: v rule: rev_induct)
  case (snoc c s)
  show ?case by (simp add: snoc [of v] algebra_simps)
qed simp

lemma digits_from_zeros [simp]: "digits_from v (replicate k CHR ''0'') = v * 10 ^ k"
  by (induction k arbitrary: v) (simp_all add: algebra_simps)

lemma digit_chars_zeros [simp]: "digit_chars (replicate k CHR ''0'')"
  by (induction k) simp_all

lemma nat_digits_facts: "digit_chars (nat_digits n) \<and> nat_digits n \<noteq> [] \<and> digits_from 0 (nat_digits n) = n"
proof (induction n rule: nat_digits.induct)
  case (1 n)
  then show ?case
    by (cases "n < 10") (simp_all add: nat_digits.simps [of n] digit_value_of)
qed

lemmas nat_digits_simps [simp] = nat_digits_facts [THEN conjunct1] nat_digits_facts [THEN conjunct2, THEN conjunct1]
  nat_digits_facts [THEN conjunct2, THEN conjunct2]

text \<open>A number has as many digits as its powers of ten say.\<close>

lemma nat_digits_length: "0 < n \<Longrightarrow> 10 ^ (length (nat_digits n) - 1) \<le> n \<and> n < 10 ^ length (nat_digits n)"
proof (induction n rule: nat_digits.induct)
  case (1 n)
  show ?case
  proof (cases "n < 10")
    case True
    with 1 show ?thesis by (simp add: nat_digits.simps)
  next
    case False
    then have ih: "10 ^ (length (nat_digits (n div 10)) - 1) \<le> n div 10" "n div 10 < 10 ^ length (nat_digits (n div 10))"
      using 1 by simp_all
    have len: "length (nat_digits n) = Suc (length (nat_digits (n div 10)))" using False by (simp add: nat_digits.simps [of n])
    obtain m where m: "length (nat_digits (n div 10)) = Suc m"
      by (cases "length (nat_digits (n div 10))") simp_all
    have "10 ^ Suc m \<le> n" "n < 10 ^ Suc (Suc m)" using ih by (simp_all add: m)
    then show ?thesis by (simp add: len m)
  qed
qed

lemma nat_digits_le: "0 < n \<Longrightarrow> n < 10 ^ k \<Longrightarrow> length (nat_digits n) \<le> k"
proof -
  assume "0 < n" "n < 10 ^ k"
  then have "(10::nat) ^ (length (nat_digits n) - 1) < 10 ^ k" using nat_digits_length [of n] by linarith
  then show ?thesis by (simp add: power_strict_increasing_iff)
qed

section \<open>Reading text\<close>

lemma read_digits_append:
  "digit_chars s \<Longrightarrow> s \<noteq> [] \<Longrightarrow> read_digits (s @ t) (v, n, r) = read_digits t (digits_from v s, n + length s, [])"
proof (induction s arbitrary: v n r)
  case (Cons c s)
  then obtain d where d: "digit_value c = Some d" by auto
  with Cons show ?case by (cases "s = []") (simp_all add: digit_valueD)
qed simp

lemma read_digits_stop: "s = [] \<or> digit_value (hd s) = None \<Longrightarrow> read_digits s (v, n, []) = (v, n, s)"
  by (cases s) auto

lemma digit_no_space: "digit_value c \<noteq> None \<Longrightarrow> \<not> py_space c"
  by (auto simp: digit_value_def py_space_def)

lemma no_space_strip: "\<forall>c \<in> set s. \<not> py_space c \<Longrightarrow> str_strip s = s"
proof -
  assume s: "\<forall>c \<in> set s. \<not> py_space c"
  have "dropWhile py_space t = t" if "set t \<subseteq> set s" for t
    using that s by (cases t) auto
  then show ?thesis by (simp add: str_strip_def)
qed

lemma digit_no_sign: "digit_value c \<noteq> None \<Longrightarrow> read_sign (c # s) = (False, c # s)"
  by (auto simp: digit_value_def read_sign_def)

text \<open>The number a text of digits, with or without a fraction, stands for.\<close>

lemma digit_chars_set: "digit_chars s \<longleftrightarrow> (\<forall>c \<in> set s. digit_value c \<noteq> None)"
  by (simp add: digit_chars_def list_all_iff)

lemma py_float_whole:
  assumes "digit_chars s" and "s \<noteq> []"
  shows "py_float s = Inr (real (digits_from 0 s))"
proof -
  obtain c cs where s: "s = c # cs" using assms(2) by (cases s) auto
  have "str_strip s = s" by (rule no_space_strip) (use assms(1) digit_no_space in \<open>auto simp: digit_chars_set\<close>)
  moreover have "read_sign s = (False, s)" using assms(1) digit_no_sign by (simp add: s)
  moreover have "read_digits s (0, 0, []) = (digits_from 0 s, length s, [])"
    using read_digits_append [OF assms, of "[]"] by simp
  ultimately show ?thesis using assms(2) by (simp add: py_float_def read_exponent_def scale10_def)
qed

lemma py_float_fraction:
  assumes "digit_chars s" and "s \<noteq> []" and "digit_chars t" and "t \<noteq> []"
  shows "py_float (s @ CHR ''.'' # t) = Inr (real (digits_from 0 (s @ t)) / 10 ^ length t)"
proof -
  obtain c cs where s: "s = c # cs" using assms(2) by (cases s) auto
  let ?x = "s @ CHR ''.'' # t"
  have "str_strip ?x = ?x"
    by (rule no_space_strip) (use assms digit_no_space in \<open>auto simp: digit_chars_set py_space_def\<close>)
  moreover have "read_sign ?x = (False, ?x)" using assms(1) digit_no_sign by (simp add: s)
  moreover have "read_digits ?x (0, 0, []) = (digits_from 0 s, length s, CHR ''.'' # t)"
    using read_digits_append [OF assms(1,2)] by (simp add: digit_value_def)
  moreover have "read_digits t (digits_from 0 s, 0, []) = (digits_from (digits_from 0 s) t, length t, [])"
    using read_digits_append [OF assms(3,4), of "[]"] by simp
  ultimately show ?thesis using assms(2,4) by (simp add: py_float_def read_exponent_def scale10_def)
qed


section \<open>Numbers\<close>

text \<open>The coefficient carries the sign.\<close>

datatype decimal = Dec (dc_coeff: int) (dc_exp: int)

definition dec_value :: "decimal \<Rightarrow> real" where
  "dec_value d = scale10 (of_int (dc_coeff d)) (dc_exp d)"

definition PRECISION :: nat where
  "PRECISION = 28"

text \<open>\<open>Decimal(text)\<close>: \<open>InvalidOperation\<close> is \<open>None\<close>.\<close>

definition dec_of_text :: "string \<Rightarrow> decimal option" where
  "dec_of_text text =
     (let (neg, s) = read_sign (str_strip text);
          (v, n, rest) = read_digits s (0, 0, []);
          (w, m, tail) = (case rest of [] \<Rightarrow> (v, 0, [])
             | c # cs \<Rightarrow> if c = CHR ''.'' then read_digits cs (v, 0, []) else (v, 0, rest))
      in if n + m = 0 then None
         else map_option (\<lambda>e. Dec ((if neg then - 1 else 1) * int w) (e - int m)) (read_exponent tail))"

text \<open>Rounding to the precision: half to even.\<close>

definition dec_fix :: "decimal \<Rightarrow> decimal" where
  "dec_fix d =
     (let c = nat \<bar>dc_coeff d\<bar>; n = length (nat_digits c); k = n - PRECISION; q = c div 10 ^ k; r = c mod 10 ^ k;
          q = (if 2 * r > 10 ^ k \<or> 2 * r = 10 ^ k \<and> odd q then q + 1 else q) in
      if n \<le> PRECISION then d
      else if q = 10 ^ PRECISION then Dec (sgn (dc_coeff d) * 10 ^ (PRECISION - 1)) (dc_exp d + int k + 1)
      else Dec (sgn (dc_coeff d) * int q) (dc_exp d + int k))"

definition dec_mult :: "decimal \<Rightarrow> decimal \<Rightarrow> decimal" where
  "dec_mult a b = dec_fix (Dec (dc_coeff a * dc_coeff b) (dc_exp a + dc_exp b))"

text \<open>An exact quotient is brought as near to the ideal exponent as its zeros allow.\<close>

function drop_zeros :: "nat \<Rightarrow> int \<Rightarrow> int \<Rightarrow> nat \<times> int" where
  "drop_zeros c e ideal = (if e < ideal \<and> c mod 10 = 0 then drop_zeros (c div 10) (e + 1) ideal else (c, e))"
  by pat_completeness auto
termination by (relation "measure (\<lambda>(c, e, ideal). nat (ideal - e))") auto

declare drop_zeros.simps [simp del]

text \<open>The quotient; the code divides by positive numbers only.\<close>

definition dec_divide :: "decimal \<Rightarrow> decimal \<Rightarrow> decimal" where
  "dec_divide a b =
     (let x = nat \<bar>dc_coeff a\<bar>; y = nat \<bar>dc_coeff b\<bar>; s = sgn (dc_coeff a) * sgn (dc_coeff b); ideal = dc_exp a - dc_exp b;
          shift = int (length (nat_digits y)) - int (length (nat_digits x)) + int PRECISION + 1;
          num = (if shift \<ge> 0 then x * 10 ^ nat shift else x);
          den = (if shift \<ge> 0 then y else y * 10 ^ nat (- shift));
          c = num div den in
      if x = 0 then dec_fix (Dec 0 ideal)
      else if num mod den \<noteq> 0 then dec_fix (Dec (s * int (if c mod 5 = 0 then c + 1 else c)) (ideal - shift))
      else (case drop_zeros c (ideal - shift) ideal of (c, e) \<Rightarrow> dec_fix (Dec (s * int c) e)))"

text \<open>\<open>to_integral_value\<close> with \<open>ROUND_DOWN\<close> (towards zero) or \<open>ROUND_UP\<close> (away from it).\<close>

definition dec_integral :: "bool \<Rightarrow> decimal \<Rightarrow> decimal" where
  "dec_integral up d =
     (if dc_exp d \<ge> 0 then d
      else
        let c = nat \<bar>dc_coeff d\<bar>; p = 10 ^ nat (- dc_exp d); q = c div p in
        Dec (sgn (dc_coeff d) * int (if up \<and> c mod p \<noteq> 0 then q + 1 else q)) 0)"

text \<open>\<open>format(d, "f")\<close>.\<close>

definition dec_format :: "decimal \<Rightarrow> string" where
  "dec_format d =
     (let s = nat_digits (nat \<bar>dc_coeff d\<bar>); n = length s; e = dc_exp d; k = nat (- e);
          body = (if e \<ge> 0 then (if dc_coeff d = 0 then s else s @ replicate (nat e) CHR ''0'')
                  else if n > k then take (n - k) s @ CHR ''.'' # drop (n - k) s
                  else CHR ''0'' # CHR ''.'' # replicate (k - n) CHR ''0'' @ s) in
      if dc_coeff d < 0 then CHR ''-'' # body else body)"

definition rstrip_char :: "char \<Rightarrow> string \<Rightarrow> string" where
  "rstrip_char c s = rev (dropWhile (\<lambda>x. x = c) (rev s))"

lemmas dec_simps = dec_divide_def dec_mult_def dec_fix_def dec_integral_def dec_format_def dec_of_text_def nat_digits.simps drop_zeros.simps
  PRECISION_def Let_def

lemma digit_texts:
  "char_of (48 :: nat) = CHR ''0''" "char_of (49 :: nat) = CHR ''1''" "char_of (50 :: nat) = CHR ''2''" "char_of (51 :: nat) = CHR ''3''"
  "char_of (52 :: nat) = CHR ''4''" "char_of (53 :: nat) = CHR ''5''" "char_of (54 :: nat) = CHR ''6''" "char_of (55 :: nat) = CHR ''7''"
  "char_of (56 :: nat) = CHR ''8''" "char_of (57 :: nat) = CHR ''9''"
  by code_simp+

lemma dec_text_eval:
  "dec_format (Dec 5 (- 3)) = ''0.005''" "dec_format (Dec (- 125) (- 1)) = ''-12.5''" "dec_format (Dec 12 2) = ''1200''"
  "dec_of_text ''12.50'' = Some (Dec 1250 (- 2))" "dec_of_text ''1e2'' = Some (Dec 1 2)" "dec_of_text ''x'' = None"
  by (simp_all add: dec_simps float_eval numeral_2_eq_2 digit_texts)

section \<open>The value of a result\<close>

lemma scale10_minus: "scale10 (- x) e = - scale10 x e"
  by (simp add: scale10_def)

lemma dec_of_text_value: "py_float text = (case dec_of_text text of None \<Rightarrow> Inl ValueError | Some d \<Rightarrow> Inr (dec_value d))"
  by (simp add: py_float_def dec_of_text_def dec_value_def scale10_minus Let_def split: prod.split option.split list.split)

lemma dec_value_pos [simp]: "0 < dec_value d \<longleftrightarrow> 0 < dc_coeff d"
  by (simp add: dec_value_def scale10_def zero_less_mult_iff zero_less_divide_iff)


lemma scale10_powi: "scale10 x e = x * 10 powi e"
  by (cases "0 \<le> e") (simp_all add: scale10_def power_int_def field_simps)

lemma dec_value_powi: "dec_value (Dec c e) = of_int c * 10 powi e"
  by (simp add: dec_value_def scale10_powi)

lemma ten_powi_pos [simp]: "0 < (10::real) powi e"
  by (simp add: zero_less_power_int)

lemma ten_powi_nat: "(10::real) powi int k = 10 ^ k"
  by (simp add: power_int_def)

lemma ten_powi_add: "(10::real) powi (e + f) = 10 powi e * 10 powi f"
  by (simp add: power_int_add)

text \<open>The rounding of a positive number: within a relative \<open>10\<^sup>-\<^sup>2\<^sup>7\<close>.\<close>

definition ROUNDING :: real where
  "ROUNDING = 1 / 10 ^ 27"

lemma round_quotient:
  fixes c p q :: nat
  assumes "0 < p" and "q = (if 2 * (c mod p) > p \<or> 2 * (c mod p) = p \<and> odd (c div p) then c div p + 1 else c div p)"
  shows "\<bar>real q * real p - real c\<bar> \<le> real p / 2"
proof -
  have c: "real c = real (c div p) * real p + real (c mod p)" by (metis of_nat_add of_nat_mult div_mult_mod_eq)
  have m: "real (c mod p) < real p" using assms(1) by simp
  consider "q = c div p" "2 * real (c mod p) \<le> real p" | "q = c div p + 1" "real p \<le> 2 * real (c mod p)"
    using assms(2) by (auto split: if_splits)
  then show ?thesis
  proof cases
    case 1
    have "\<bar>real q * real p - real c\<bar> = real (c mod p)" unfolding c 1(1) by simp
    with 1(2) show ?thesis by simp
  next
    case 2
    have "real q * real p - real c = real p - real (c mod p)" unfolding c 2(1) by (simp add: algebra_simps)
    with 2(2) m show ?thesis by simp
  qed
qed

lemma dec_fix_near:
  assumes "0 < c"
  shows "\<bar>dec_value (dec_fix (Dec c e)) - dec_value (Dec c e)\<bar> \<le> dec_value (Dec c e) * (ROUNDING / 2) \<and> 0 < dc_coeff (dec_fix (Dec c e))"
proof -
  let ?c = "nat \<bar>c\<bar>" and ?n = "length (nat_digits (nat \<bar>c\<bar>))"
  define k where "k = ?n - 28"
  define q where "q = (if 2 * (?c mod 10 ^ k) > 10 ^ k \<or> 2 * (?c mod 10 ^ k) = 10 ^ k \<and> odd (?c div 10 ^ k) then ?c div 10 ^ k + 1 else ?c div 10 ^ k)"
  show ?thesis
  proof (cases "?n \<le> 28")
    case True
    with assms show ?thesis by (simp add: dec_fix_def PRECISION_def Let_def dec_value_powi ROUNDING_def)
  next
    case False
    then have n: "?n = 28 + k" by (simp add: k_def)
    have big: "10 ^ (27 + k) \<le> ?c" using nat_digits_length [of ?c, unfolded n] assms by simp
    have near: "\<bar>real q * 10 ^ k - real ?c\<bar> \<le> 10 ^ k / 2" using round_quotient [of "10 ^ k" q ?c] by (simp add: q_def)
    have q0: "0 < q"
    proof -
      have "10 ^ k \<le> ?c" by (rule order_trans [OF power_increasing big]) simp_all
      then have "0 < ?c div 10 ^ k" by (simp only: div_greater_zero_iff) simp
      then show ?thesis by (simp add: q_def)
    qed
    have fixed: "dec_fix (Dec c e) = (if q = 10 ^ 28 then Dec (10 ^ 27) (e + int k + 1) else Dec (int q) (e + int k))"
      unfolding dec_fix_def Let_def PRECISION_def decimal.sel k_def [symmetric] q_def [symmetric] using False assms by simp
    have val: "dec_value (dec_fix (Dec c e)) = real q * 10 ^ k * 10 powi e"
      by (simp add: fixed dec_value_powi ten_powi_add ten_powi_nat)
    have "\<bar>dec_value (dec_fix (Dec c e)) - dec_value (Dec c e)\<bar> = \<bar>real q * 10 ^ k - real ?c\<bar> * 10 powi e"
      using assms by (simp add: val dec_value_powi left_diff_distrib [symmetric] abs_mult)
    also have "\<dots> \<le> 10 ^ k / 2 * 10 powi e" using near by (simp add: mult_right_mono)
    also have "\<dots> \<le> real ?c * (ROUNDING / 2) * 10 powi e"
    proof -
      have "(10::real) ^ (27 + k) \<le> real ?c" using big by (metis of_nat_le_iff of_nat_power of_nat_numeral)
      then have "(10::real) ^ k \<le> real ?c * ROUNDING" by (simp add: ROUNDING_def power_add field_simps)
      then show ?thesis by (intro mult_right_mono) (simp_all add: less_imp_le)
    qed
    also have "\<dots> = dec_value (Dec c e) * (ROUNDING / 2)" using assms by (simp add: dec_value_powi)
    finally show ?thesis using q0 by (auto simp: fixed)
  qed
qed


text \<open>Relations that allow for rounding: equal, and at most, up to the relative error of an operation.\<close>

lemma drop_zeros_value: "drop_zeros c e ideal = (c', e') \<Longrightarrow> real c * 10 powi e = real c' * 10 powi e' \<and> (0 < c \<longrightarrow> 0 < c')"
proof (induction c e ideal rule: drop_zeros.induct)
  case (1 c e ideal)
  show ?case
  proof (cases "e < ideal \<and> c mod 10 = 0")
    case True
    then have rec: "drop_zeros (c div 10) (e + 1) ideal = (c', e')" using 1(2) by (simp add: drop_zeros.simps [of c])
    have c: "c = c div 10 * 10" using True by (metis div_mult_mod_eq add_0_right)
    have "real c * 10 powi e = real (c div 10) * 10 powi (e + 1)"
      by (subst c) (simp add: ten_powi_add)
    moreover have "0 < c \<Longrightarrow> 0 < c div 10" using c by (cases "c div 10") auto
    ultimately show ?thesis using 1(1) [OF True rec] by auto
  next
    case False
    with 1(2) show ?thesis by (simp add: drop_zeros.simps [of c])
  qed
qed

lemma quotient_size:
  assumes "0 < x" and "0 < y" and "shift = int (length (nat_digits y)) - int (length (nat_digits x)) + int 28 + 1"
    and "num = (if shift \<ge> 0 then x * 10 ^ nat shift else x)" and "den = (if shift \<ge> 0 then y else y * 10 ^ nat (- shift))"
  shows "10 ^ 28 \<le> num div den" and "0 < den" and "real num / real den = real x / real y * 10 powi shift"
proof -
  let ?lx = "length (nat_digits x)" and ?ly = "length (nat_digits y)"
  have lx: "0 < ?lx" and ly: "0 < ?ly" by simp_all
  note x = nat_digits_length [OF assms(1)] and y = nat_digits_length [OF assms(2)]
  show den: "0 < den" using assms(2,5) by simp
  have "10 ^ 28 * den \<le> num"
  proof (cases "shift \<ge> 0")
    case True
    have e: "?lx - 1 + nat shift = ?ly + 28" using lx True assms(3) by linarith
    have "10 ^ 28 * den \<le> 10 ^ 28 * 10 ^ ?ly" using y True assms(5) by simp
    also have "\<dots> = 10 ^ (?lx - 1) * 10 ^ nat shift" by (metis e power_add add.commute)
    also have "\<dots> \<le> num" using x True assms(4) by simp
    finally show ?thesis .
  next
    case False
    have e: "28 + ?ly + nat (- shift) = ?lx - 1" using lx False assms(3) by linarith
    have "10 ^ 28 * den \<le> 10 ^ 28 * (10 ^ ?ly * 10 ^ nat (- shift))" using y False assms(5) by simp
    also have "\<dots> = 10 ^ (?lx - 1)" by (metis e power_add add.assoc)
    also have "\<dots> \<le> num" using x False assms(4) by simp
    finally show ?thesis .
  qed
  then show "10 ^ 28 \<le> num div den" using den by (simp add: less_eq_div_iff_mult_less_eq)
  show "real num / real den = real x / real y * 10 powi shift"
    using assms(2,4,5) by (auto simp: power_int_def field_simps)
qed

lemma dec_divide_near:
  assumes "0 < dc_coeff a" and "0 < dc_coeff b"
  shows "\<bar>dec_value (dec_divide a b) - dec_value a / dec_value b\<bar> \<le> dec_value a / dec_value b * ROUNDING" and "0 < dc_coeff (dec_divide a b)"
proof -
  obtain x y where xy: "dc_coeff a = int x" "dc_coeff b = int y" "0 < x" "0 < y"
    using assms by (metis zero_less_imp_eq_int of_nat_0_less_iff)
  define shift num den c ideal
    where "shift = int (length (nat_digits y)) - int (length (nat_digits x)) + int 28 + 1"
      and "num = (if shift \<ge> 0 then x * 10 ^ nat shift else x)" and "den = (if shift \<ge> 0 then y else y * 10 ^ nat (- shift))"
      and "c = num div den" and "ideal = dc_exp a - dc_exp b"
  note size = quotient_size [OF xy(3,4) shift_def num_def den_def, folded c_def]
  let ?q = "dec_value a / dec_value b"
  have q: "?q = real num / real den * 10 powi (ideal - shift)"
  proof -
    have "?q = real x / real y * 10 powi ideal"
      by (cases a, cases b) (use xy in \<open>simp add: dec_value_powi ideal_def power_int_diff\<close>)
    also have "10 powi ideal = (10::real) powi shift * 10 powi (ideal - shift)" by (simp add: ten_powi_add [symmetric])
    finally show ?thesis by (simp add: size(3))
  qed
  have q0: "0 < ?q" using assms by simp
  obtain v e where v: "dec_divide a b = dec_fix (Dec (int v) e)" "0 < v" "\<bar>real v * 10 powi e - ?q\<bar> \<le> ?q / 10 ^ 28"
  proof (cases "num mod den = 0")
    case True
    obtain c' e' where d: "drop_zeros c (ideal - shift) ideal = (c', e')" by (cases "drop_zeros c (ideal - shift) ideal")
    have "dec_divide a b = dec_fix (Dec (int c') e')"
      unfolding dec_divide_def Let_def PRECISION_def xy(1,2) abs_of_nat nat_int shift_def [symmetric] num_def [symmetric] den_def [symmetric]
        c_def [symmetric] ideal_def [symmetric] by (use True xy(3,4) d in simp)
    moreover have "0 < c" using size(1) by (metis not_gr0 not_one_le_zero power_eq_0_iff le_zero_eq zero_neq_numeral)
    moreover have "real c = real num / real den" using True size(2) unfolding c_def by (simp add: real_of_nat_div mod_eq_0_iff_dvd)
    ultimately show ?thesis using drop_zeros_value [OF d] q q0 by (intro that [of c' e']) auto
  next
    case False
    define v where "v = (if c mod 5 = 0 then c + 1 else c)"
    have "dec_divide a b = dec_fix (Dec (int v) (ideal - shift))"
      unfolding dec_divide_def Let_def PRECISION_def xy(1,2) abs_of_nat nat_int shift_def [symmetric] num_def [symmetric] den_def [symmetric]
        c_def [symmetric] ideal_def [symmetric] by (use False xy(3,4) in \<open>simp add: v_def\<close>)
    moreover have "0 < v" using size(1) by (auto simp: v_def intro: Nat.gr0I)
    moreover have "\<bar>real v * 10 powi (ideal - shift) - ?q\<bar> \<le> ?q / 10 ^ 28"
    proof -
      have "real c \<le> real num / real den" "real num / real den < real c + 1"
      proof -
        have "real num = real c * real den + real (num mod den)" unfolding c_def by (metis of_nat_add of_nat_mult div_mult_mod_eq)
        moreover have "0 \<le> real (num mod den)" "real (num mod den) < real den" using size(2) by simp_all
        ultimately show "real c \<le> real num / real den" "real num / real den < real c + 1" using size(2) by (simp_all add: field_simps)
      qed
      then have "\<bar>real v - real num / real den\<bar> \<le> 1" by (auto simp: v_def)
      also have "1 \<le> real num / real den / 10 ^ 28"
      proof -
        have "(10::real) ^ 28 \<le> real c" using size(1) by (metis of_nat_le_iff of_nat_power of_nat_numeral)
        with \<open>real c \<le> real num / real den\<close> show ?thesis by (simp add: field_simps)
      qed
      finally have "\<bar>real v - real num / real den\<bar> * 10 powi (ideal - shift) \<le> real num / real den / 10 ^ 28 * 10 powi (ideal - shift)"
        by (intro mult_right_mono) (simp_all add: less_imp_le)
      moreover have "real v * 10 powi (ideal - shift) - ?q = (real v - real num / real den) * 10 powi (ideal - shift)"
        unfolding q by (simp add: left_diff_distrib)
      ultimately show ?thesis unfolding q by (simp add: abs_mult mult.commute)
    qed
    ultimately show ?thesis by (rule that)
  qed
  have fixed: "\<bar>dec_value (dec_divide a b) - dec_value (Dec (int v) e)\<bar> \<le> dec_value (Dec (int v) e) * (ROUNDING / 2)" "0 < dc_coeff (dec_divide a b)"
    using dec_fix_near [of "int v" e] v(1,2) by simp_all
  have "dec_value (Dec (int v) e) \<le> ?q * (1 + 1 / 10 ^ 28)" using v(3) by (simp add: dec_value_powi algebra_simps abs_le_iff)
  then have "dec_value (Dec (int v) e) * (ROUNDING / 2) \<le> ?q * (1 + 1 / 10 ^ 28) * (ROUNDING / 2)" by (simp add: ROUNDING_def)
  moreover have "\<bar>dec_value (Dec (int v) e) - ?q\<bar> \<le> ?q / 10 ^ 28" using v(3) by (simp add: dec_value_powi)
  ultimately have "\<bar>dec_value (dec_divide a b) - ?q\<bar> \<le> ?q / 10 ^ 28 + ?q * (1 + 1 / 10 ^ 28) * (ROUNDING / 2)"
    using fixed(1) by linarith
  also have "\<dots> \<le> ?q * ROUNDING" using q0 by (simp add: ROUNDING_def field_simps)
  finally show "\<bar>dec_value (dec_divide a b) - ?q\<bar> \<le> ?q * ROUNDING" .
  show "0 < dc_coeff (dec_divide a b)" by (rule fixed(2))
qed


lemma real_div_mod: "real c = real (c div 10 ^ k) * 10 ^ k + real (c mod 10 ^ k)"
proof -
  have "real (c div 10 ^ k * 10 ^ k + c mod 10 ^ k) = real (c div 10 ^ k) * 10 ^ k + real (c mod 10 ^ k)"
    by (simp only: of_nat_add of_nat_mult of_nat_power of_nat_numeral)
  then show ?thesis by (simp only: div_mult_mod_eq)
qed

lemma dec_mult_near:
  assumes "0 < dc_coeff a" and "0 < dc_coeff b"
  shows "\<bar>dec_value (dec_mult a b) - dec_value a * dec_value b\<bar> \<le> dec_value a * dec_value b * ROUNDING" and "0 < dc_coeff (dec_mult a b)"
proof -
  have v: "dec_value (Dec (dc_coeff a * dc_coeff b) (dc_exp a + dc_exp b)) = dec_value a * dec_value b"
    by (cases a, cases b) (simp add: dec_value_powi ten_powi_add)
  have "0 < dec_value a * dec_value b" using assms by simp
  then have "dec_value a * dec_value b * (ROUNDING / 2) \<le> dec_value a * dec_value b * ROUNDING" by (simp add: ROUNDING_def)
  then show "\<bar>dec_value (dec_mult a b) - dec_value a * dec_value b\<bar> \<le> dec_value a * dec_value b * ROUNDING"
    using dec_fix_near [of "dc_coeff a * dc_coeff b" "dc_exp a + dc_exp b", THEN conjunct1, OF mult_pos_pos [OF assms]]
    unfolding dec_mult_def v by linarith
  show "0 < dc_coeff (dec_mult a b)"
    using dec_fix_near [of "dc_coeff a * dc_coeff b" "dc_exp a + dc_exp b"] assms by (simp add: dec_mult_def)
qed

lemma dec_mult_zero: "dc_coeff a = 0 \<Longrightarrow> dc_coeff (dec_mult a b) = 0"
  by (simp add: dec_mult_def dec_fix_def Let_def nat_digits.simps PRECISION_def)

text \<open>Integral values: below when rounded down, above when rounded up.\<close>

lemma dec_integral_value:
  assumes "0 < dc_coeff d"
  shows "0 \<le> dc_coeff (dec_integral up d)" and "dec_value (dec_integral False d) \<le> dec_value d" and "dec_value d \<le> dec_value (dec_integral True d)"
    and "0 < dc_coeff (dec_integral True d)"
proof -
  obtain c e where d: "d = Dec (int c) e" "0 < c" by (cases d) (use assms zero_less_imp_eq_int in auto)
  show "0 \<le> dc_coeff (dec_integral up d)" using d by (simp add: dec_integral_def Let_def)
  have p: "e < 0 \<Longrightarrow> (10::real) powi e = 1 / 10 ^ nat (- e)" by (simp add: power_int_def field_simps)
  show "dec_value (dec_integral False d) \<le> dec_value d"
  proof (cases "e < 0")
    case True
    have "real (c div 10 ^ nat (- e)) \<le> real c / real (10 ^ nat (- e))"
      using floor_divide_of_nat_eq [of c "10 ^ nat (- e)", where ?'a = real] by linarith
    with True d show ?thesis by (simp add: dec_integral_def Let_def dec_value_powi p)
  qed (use d in \<open>simp add: dec_integral_def\<close>)
  have up: "e < 0 \<Longrightarrow> real c / 10 ^ nat (- e) \<le> real (if c mod 10 ^ nat (- e) \<noteq> 0 then c div 10 ^ nat (- e) + 1 else c div 10 ^ nat (- e))"
  proof -
    have "real c = real (c div 10 ^ nat (- e)) * 10 ^ nat (- e) + real (c mod 10 ^ nat (- e))"
      by (rule real_div_mod)
    moreover have "real (c mod 10 ^ nat (- e)) < 10 ^ nat (- e)"
      using of_nat_less_iff [of "c mod 10 ^ nat (- e)" "10 ^ nat (- e)", where ?'a = real] by simp
    ultimately show ?thesis by (auto simp: field_simps)
  qed
  then show "dec_value d \<le> dec_value (dec_integral True d)"
    using d by (simp add: dec_integral_def Let_def dec_value_powi p)
  let ?q = "if c mod 10 ^ nat (- e) \<noteq> 0 then c div 10 ^ nat (- e) + 1 else c div 10 ^ nat (- e)"
  have "0 < ?q" if "e < 0"
  proof -
    have "0 < real c / 10 ^ nat (- e)" using d by simp
    with up [OF that] have "0 < real ?q" by linarith
    then show ?thesis by (simp only: of_nat_0_less_iff)
  qed
  then show "0 < dc_coeff (dec_integral True d)"
    using d by (auto simp: dec_integral_def Let_def)
qed

section \<open>The value of a text\<close>

lemma rstrip_split:
  obtains k where "s = rstrip_char c s @ replicate k c" and "rstrip_char c s = [] \<or> last (rstrip_char c s) \<noteq> c"
proof -
  let ?t = "takeWhile (\<lambda>x. x = c) (rev s)"
  have "?t = replicate (length ?t) c" by (metis (mono_tags, lifting) replicate_length_same set_takeWhileD)
  then have "rev ?t = replicate (length ?t) c" by (metis rev_replicate)
  then have "s = rstrip_char c s @ replicate (length ?t) c"
    by (metis rstrip_char_def rev_append rev_rev_ident takeWhile_dropWhile_id)
  moreover have "rstrip_char c s = [] \<or> last (rstrip_char c s) \<noteq> c"
    by (cases "dropWhile (\<lambda>x. x = c) (rev s) = []") (use hd_dropWhile [of "\<lambda>x. x = c" "rev s"] in \<open>auto simp: rstrip_char_def last_rev\<close>)
  ultimately show ?thesis by (rule that)
qed

lemma rstrip_noop: "s \<noteq> [] \<Longrightarrow> last s \<noteq> c \<Longrightarrow> rstrip_char c s = s"
  by (cases s rule: rev_cases) (simp_all add: rstrip_char_def)

lemma rstrip_append: "t = [] \<or> last t \<noteq> c \<Longrightarrow> rstrip_char c (t @ replicate k c) = (if t = [] then [] else t)"
  by (cases t rule: rev_cases) (simp_all add: rstrip_char_def dropWhile_append3)

lemma digit_no_point: "digit_chars s \<Longrightarrow> s \<noteq> [] \<Longrightarrow> last s \<noteq> CHR ''.''"
  by (auto simp: digit_chars_set digit_value_def dest!: bspec [OF _ last_in_set])


text \<open>The zeros at the end of a text of digits.\<close>

lemma rstrip_zeros:
  assumes "digit_chars s" and "0 < digits_from 0 s"
  obtains t j where "rstrip_char CHR ''0'' s = t" and "digit_chars t" and "t \<noteq> []" and "digits_from 0 s = digits_from 0 t * 10 ^ j"
    and "s = t @ replicate j CHR ''0''" and "digits_from 0 t mod 10 \<noteq> 0"
proof -
  obtain j where j: "s = rstrip_char CHR ''0'' s @ replicate j CHR ''0''" "rstrip_char CHR ''0'' s = [] \<or> last (rstrip_char CHR ''0'' s) \<noteq> CHR ''0''"
    by (rule rstrip_split)
  define t where "t = rstrip_char CHR ''0'' s"
  note j = j [folded t_def]
  have dt: "digit_chars t" using assms(1) j(1) by (metis digit_chars_simps(3))
  have v: "digits_from 0 s = digits_from 0 t * 10 ^ j" by (subst j(1)) simp
  have ne: "t \<noteq> []" using v assms(2) by auto
  then obtain u c where t: "t = u @ [c]" by (cases t rule: rev_cases) auto
  obtain d where d: "digit_value c = Some d" using dt by (auto simp: t)
  have "d \<noteq> 0"
  proof
    assume "d = 0"
    then have "(of_char c :: nat) = 48" using d by (auto simp: digit_value_def split: if_splits)
    then have "char_of (of_char c :: nat) = CHR ''0''" by (simp only: digit_texts)
    then show False using j(2) ne by (simp add: t)
  qed
  moreover have "digits_from 0 t = 10 * digits_from 0 u + d" using digit_valueD [OF d] by (simp add: t)
  ultimately have "digits_from 0 t mod 10 \<noteq> 0" using digit_valueD [OF d] by presburger
  with that [OF t_def [symmetric] dt ne v j(1)] show ?thesis .
qed


text \<open>
  The text of a positive number with its zeros and then its point removed from the end, which is how
  \<open>_fmt_decimal\<close> and \<open>_fmt_float\<close> shorten it. With a negative exponent it still stands for the number; without
  one, the zeros removed are digits of the number itself.
\<close>

lemma stripped_fraction:
  assumes "0 < c" and "e < 0"
  shows "py_float (rstrip_char CHR ''.'' (rstrip_char CHR ''0'' (dec_format (Dec c e)))) = Inr (dec_value (Dec c e))"
    and "rstrip_char CHR ''.'' (rstrip_char CHR ''0'' (dec_format (Dec c e))) \<noteq> []"
proof -
  obtain n where n: "c = int n" "0 < n" using assms(1) zero_less_imp_eq_int by auto
  define k where "k = nat (- e)"
  obtain a b where ab: "dec_format (Dec c e) = a @ CHR ''.'' # b" "digit_chars a" "a \<noteq> []" "digit_chars b" "length b = k"
    "digits_from 0 (a @ b) = n"
  proof (cases "length (nat_digits n) > k")
    case True
    define a b where "a = take (length (nat_digits n) - k) (nat_digits n)" and "b = drop (length (nat_digits n) - k) (nat_digits n)"
    have ab: "nat_digits n = a @ b" "length b = k" "a \<noteq> []" using True by (simp_all add: a_def b_def)
    have "digit_chars (a @ b)" "digits_from 0 (a @ b) = n" by (simp_all only: ab(1) [symmetric] nat_digits_simps)
    moreover have "dec_format (Dec c e) = a @ CHR ''.'' # b"
      unfolding a_def b_def using True assms(2) n by (simp add: dec_format_def k_def [symmetric] Let_def)
    ultimately show ?thesis using ab by (intro that [of a b]) auto
  next
    case False
    then show ?thesis using assms(2) n
      by (intro that [of "''0''" "replicate (k - length (nat_digits n)) CHR ''0'' @ nat_digits n"])
        (simp_all add: dec_format_def k_def [symmetric] Let_def)
  qed
  have k: "0 < k" using assms(2) by (simp add: k_def)
  have worth: "dec_value (Dec c e) = real n / 10 ^ k" using assms(2) n by (simp add: dec_value_def scale10_def k_def)
  obtain j where j: "b = rstrip_char CHR ''0'' b @ replicate j CHR ''0''" "rstrip_char CHR ''0'' b = [] \<or> last (rstrip_char CHR ''0'' b) \<noteq> CHR ''0''"
    by (rule rstrip_split)
  define t where "t = rstrip_char CHR ''0'' b"
  note j = j [folded t_def]
  have dt: "digit_chars t" using ab(4) j(1) by (metis digit_chars_simps(3))
  have lk: "k = length t + j" using ab(5) j(1) by (metis length_append length_replicate)
  have val: "n = digits_from 0 (a @ t) * 10 ^ j" using ab(6) by (subst (asm) j(1)) simp
  have strip0: "rstrip_char CHR ''0'' (dec_format (Dec c e)) = a @ CHR ''.'' # t"
  proof -
    have "dec_format (Dec c e) = (a @ CHR ''.'' # t) @ replicate j CHR ''0''" using ab(1) j(1) by (metis append_Cons append_assoc)
    moreover have "last (a @ CHR ''.'' # t) \<noteq> CHR ''0''" using j(2) by auto
    ultimately show ?thesis using rstrip_append [of "a @ CHR ''.'' # t" "CHR ''0''" j] by simp
  qed
  have "py_float (rstrip_char CHR ''.'' (a @ CHR ''.'' # t)) = Inr (dec_value (Dec c e)) \<and> rstrip_char CHR ''.'' (a @ CHR ''.'' # t) \<noteq> []"
  proof (cases "t = []")
    case True
    have "rstrip_char CHR ''.'' (a @ [CHR ''.'']) = a"
      using rstrip_append [of a "CHR ''.''" 1] digit_no_point [OF ab(2,3)] ab(3) by simp
    moreover have "real n / 10 ^ k = real (digits_from 0 a)" using True lk val by simp
    ultimately show ?thesis using py_float_whole [OF ab(2,3)] True ab(3) by (simp add: worth)
  next
    case False
    have "rstrip_char CHR ''.'' (a @ CHR ''.'' # t) = a @ CHR ''.'' # t"
      by (rule rstrip_noop) (use digit_no_point [OF dt False] False in auto)
    moreover have "real n / 10 ^ k = real (digits_from 0 (a @ t)) / 10 ^ length t" using lk val by (simp add: power_add)
    ultimately show ?thesis using py_float_fraction [OF ab(2,3) dt False] by (simp add: worth)
  qed
  then show "py_float (rstrip_char CHR ''.'' (rstrip_char CHR ''0'' (dec_format (Dec c e)))) = Inr (dec_value (Dec c e))"
    "rstrip_char CHR ''.'' (rstrip_char CHR ''0'' (dec_format (Dec c e))) \<noteq> []" by (simp_all add: strip0)
qed

lemma stripped_whole:
  assumes "0 < c" and "0 \<le> e"
  obtains m j where "py_float (rstrip_char CHR ''.'' (rstrip_char CHR ''0'' (dec_format (Dec c e)))) = Inr (real m)"
    and "dec_value (Dec c e) = real m * 10 ^ j" and "m mod 10 \<noteq> 0"
    and "rstrip_char CHR ''.'' (rstrip_char CHR ''0'' (dec_format (Dec c e))) \<noteq> []"
proof -
  obtain n where n: "c = int n" "0 < n" using assms(1) zero_less_imp_eq_int by auto
  have f: "dec_format (Dec c e) = nat_digits n @ replicate (nat e) CHR ''0''" using assms n by (simp add: dec_format_def Let_def)
  have d: "digit_chars (nat_digits n @ replicate (nat e) CHR ''0'')" "0 < digits_from 0 (nat_digits n @ replicate (nat e) CHR ''0'')"
    using n by simp_all
  obtain t j where t: "rstrip_char CHR ''0'' (dec_format (Dec c e)) = t" "digit_chars t" "t \<noteq> []"
      "digits_from 0 (nat_digits n @ replicate (nat e) CHR ''0'') = digits_from 0 t * 10 ^ j" "digits_from 0 t mod 10 \<noteq> 0"
    using rstrip_zeros [OF d] f by metis
  have "real (n * 10 ^ nat e) = real (digits_from 0 t * 10 ^ j)" using t(4) by simp
  then have "dec_value (Dec c e) = real (digits_from 0 t) * 10 ^ j" using assms n by (simp add: dec_value_def scale10_def)
  moreover have "rstrip_char CHR ''.'' t = t" by (rule rstrip_noop) (use digit_no_point t in auto)
  ultimately show ?thesis using py_float_whole [OF t(2,3)] t(1,3,5) by (intro that [of "digits_from 0 t" j]) simp_all
qed

end
