(* ===== verification/Exchange_Client.thy ===== *)
theory Exchange_Client
  imports Decimals
begin

text \<open>
  The REST client of the exchange (\<open>execution/bybit_rest.py\<close>): signed requests with their retries, the
  filters of a symbol, the text of an order's quantity, and the requests of the trading process.

  The exchange answers a request by a function of everything that was sent so far. The signature itself, the
  query string and log lines are left out; a request keeps the clock offset its timestamp is made with.
\<close>

section \<open>Requests\<close>

text \<open>What comes back: a decoded answer, a failure of the transport (with the name of its class), or text that is no JSON.\<close>

datatype wire = Reply json | Transport_Error string | Failure py_error

record request =
  rq_method :: string
  rq_path :: string
  rq_data :: "(string, json) dict"
  rq_offset :: int

record lot =
  lt_step :: decimal
  lt_min :: decimal
  lt_amt :: decimal

record client =
  cl_category :: string
  cl_offset :: int
  cl_lots :: "(string, lot) dict"
  cl_log :: "request list"

record exchange =
  ex_net :: "request list \<Rightarrow> wire"
  ex_clock :: "request list \<Rightarrow> int \<times> int"
  ex_str :: "json \<Rightarrow> string"
  ex_float_text :: "real \<Rightarrow> string"

definition sanitize_category :: "string option \<Rightarrow> string" where
  "sanitize_category category = (let v = norm_lower category in if v \<in> {''spot'', ''linear''} then v else ''spot'')"

definition new_client :: "string option \<Rightarrow> client" where
  "new_client category = \<lparr>cl_category = sanitize_category category, cl_offset = 0, cl_lots = [], cl_log = []\<rparr>"

definition send :: "exchange \<Rightarrow> request \<Rightarrow> client \<Rightarrow> client \<times> wire" where
  "send x r c = (c\<lparr>cl_log := cl_log c @ [r]\<rparr>, ex_net x (cl_log c @ [r]))"

text \<open>The time of the server, in milliseconds.\<close>

definition server_time :: "(json \<Rightarrow> string) \<Rightarrow> (string, json) dict \<Rightarrow> py_error + int option" where
  "server_time str out =
     (case json_or (json_key out ''result'') (JObj []) of
        JObj d \<Rightarrow>
          if json_truthy (json_key d ''timeNano'') then map_sum id Some (py_int (take 13 (json_text str (json_key d ''timeNano''))))
          else if json_truthy (json_key d ''timeSecond'') then map_sum id (\<lambda>s. Some (s * 1000)) (json_int (json_key d ''timeSecond''))
          else if json_truthy (json_key out ''time'') then map_sum id Some (json_int (json_key out ''time''))
          else Inr None
      | _ \<Rightarrow> Inl AttributeError)"

datatype sync_error = No_Answer | Refused | No_Timestamp | Malformed py_error

definition sync_server_time :: "exchange \<Rightarrow> client \<Rightarrow> client \<times> (sync_error + int)" where
  "sync_server_time x c =
     (let (c, w) = send x \<lparr>rq_method = ''GET'', rq_path = ''/v5/market/time'', rq_data = [], rq_offset = 0\<rparr> c;
          (t0, t1) = ex_clock x (cl_log c) in
      case w of
        Transport_Error e \<Rightarrow> (c, Inl No_Answer)
      | Failure e \<Rightarrow> (c, Inl (Malformed e))
      | Reply (JObj out) \<Rightarrow>
          if \<not> ret_code_ok (json_key out ''retCode'') then (c, Inl Refused)
          else (case server_time (ex_str x) out of
              Inl e \<Rightarrow> (c, Inl (Malformed e))
            | Inr None \<Rightarrow> (c, Inl No_Timestamp)
            | Inr (Some ms) \<Rightarrow> (c\<lparr>cl_offset := ms - (t0 + t1) div 2\<rparr>, Inr (ms - (t0 + t1) div 2)))
      | Reply _ \<Rightarrow> (c, Inl (Malformed AttributeError)))"

text \<open>
  A request: after a failure of the transport only a reading request is sent again, once; after an answer that
  says the clocks differ (10002) the clock is set and the request sent again, with both retries of the transport
  open but not this one.
\<close>

definition transport_failed :: "string \<Rightarrow> (string, json) dict" where
  "transport_failed e = [(''retCode'', JNum (- 1)), (''retMsg'', JStr (''transport_error:'' @ e)), (''result'', JObj [])]"

definition time_skew :: "(string, json) dict \<Rightarrow> bool" where
  "time_skew out \<longleftrightarrow> json_key out ''retCode'' = JNum 10002"

function request_json ::
    "exchange \<Rightarrow> string \<Rightarrow> string \<Rightarrow> (string, json) dict \<Rightarrow> bool \<Rightarrow> bool \<Rightarrow> client \<Rightarrow> client \<times> (py_error + (string, json) dict)" where
  "request_json x verb path data skew transport c =
     (let (c, w) = send x \<lparr>rq_method = verb, rq_path = path, rq_data = data, rq_offset = cl_offset c\<rparr> c in
      case w of
        Transport_Error e \<Rightarrow>
          if str_upper verb = ''GET'' \<and> transport then request_json x verb path data skew False c
          else (c, Inr (transport_failed e))
      | Failure e \<Rightarrow> (c, Inl e)
      | Reply (JObj out) \<Rightarrow>
          if ret_code_ok (json_key out ''retCode'') then (c, Inr out)
          else if time_skew out \<and> skew then
            (case sync_server_time x c of
               (c, Inl e) \<Rightarrow> (c, Inr out)
             | (c, Inr ms) \<Rightarrow> request_json x verb path data False True c)
          else (c, Inr out)
      | Reply _ \<Rightarrow> (c, Inl AttributeError))"
  by pat_completeness auto
termination
  by (relation "measure (\<lambda>(x, verb, path, data, skew, transport, c). (if skew then 2 else 0) + (if transport then 1 else 0))") auto

declare request_json.simps [simp del]

section \<open>The filters of a symbol\<close>

definition dec_less :: "decimal \<Rightarrow> decimal \<Rightarrow> bool" where
  "dec_less a b \<longleftrightarrow> dec_value a < dec_value b"

text \<open>\<open>Decimal(str(v))\<close>, and the filters an answer describes; \<open>None\<close> when a number is not one.\<close>

definition dec_of_json :: "(json \<Rightarrow> string) \<Rightarrow> json \<Rightarrow> decimal option" where
  "dec_of_json str v = dec_of_text (json_text str v)"

definition read_lot :: "(json \<Rightarrow> string) \<Rightarrow> (string, json) dict \<Rightarrow> lot option" where
  "read_lot str d =
     (let given = (\<lambda>k. json_key d k) in
      case dec_of_json str (json_or (json_or (given ''qtyStep'') (given ''basePrecision'')) (JStr ''0.000001'')) of
        None \<Rightarrow> None
      | Some qty_step \<Rightarrow>
          (case (if json_truthy (given ''minOrderQty'') then dec_of_json str (given ''minOrderQty'') else Some qty_step) of
             None \<Rightarrow> None
           | Some min_qty \<Rightarrow>
               (case dec_of_json str (json_or (json_or (given ''minOrderAmt'') (given ''minNotionalValue'')) (JStr ''0'')) of
                  None \<Rightarrow> None
                | Some min_amt \<Rightarrow>
                    let qty_step = (if dc_coeff qty_step \<le> 0 then Dec 1 (- 6) else qty_step) in
                    Some \<lparr>lt_step = qty_step, lt_min = (if dc_coeff min_qty \<le> 0 then qty_step else min_qty),
                          lt_amt = (if dc_coeff min_amt < 0 then Dec 0 0 else min_amt)\<rparr>)))"

definition listed_lot :: "(json \<Rightarrow> string) \<Rightarrow> (string, json) dict \<Rightarrow> py_error + lot option" where
  "listed_lot str out =
     (case json_get (json_or (json_key out ''result'') (JObj [])) ''list'' JNull of
        Inl e \<Rightarrow> Inl e
      | Inr items \<Rightarrow>
          if \<not> json_truthy items then Inr None
          else (case json_index items 0 of
              Inl e \<Rightarrow> Inl e
            | Inr item \<Rightarrow>
                (case json_get (json_or item (JObj [])) ''lotSizeFilter'' JNull of
                   Inl e \<Rightarrow> Inl e
                 | Inr lot_size \<Rightarrow> (case json_or lot_size (JObj []) of JObj d \<Rightarrow> Inr (read_lot str d) | _ \<Rightarrow> Inl AttributeError))))"

definition get_lot_filters :: "exchange \<Rightarrow> string \<Rightarrow> client \<Rightarrow> client \<times> (py_error + lot option)" where
  "get_lot_filters x symbol c =
     (let symbol_u = str_strip (str_upper symbol) in
      if symbol_u = [] then (c, Inr None)
      else case dict_get (cl_lots c) symbol_u of
          Some l \<Rightarrow> (c, Inr (Some l))
        | None \<Rightarrow>
            (case request_json x ''GET'' ''/v5/market/instruments-info''
               [(''category'', JStr (cl_category c)), (''symbol'', JStr symbol_u)] False True c of
               (c, Inl e) \<Rightarrow> (c, Inl e)
             | (c, Inr out) \<Rightarrow>
                 if \<not> ret_code_ok (json_key out ''retCode'') then (c, Inr None)
                 else (case listed_lot (ex_str x) out of
                     Inl e \<Rightarrow> (c, Inl e)
                   | Inr None \<Rightarrow> (c, Inr None)
                   | Inr (Some l) \<Rightarrow> (c\<lparr>cl_lots := dict_set symbol_u l (cl_lots c)\<rparr>, Inr (Some l)))))"

definition get_symbol_min_qty :: "exchange \<Rightarrow> string \<Rightarrow> client \<Rightarrow> client \<times> (py_error + real option)" where
  "get_symbol_min_qty x symbol c = map_prod id (map_sum id (map_option (\<lambda>l. dec_value (lt_min l)))) (get_lot_filters x symbol c)"

definition get_symbol_min_notional_quote :: "exchange \<Rightarrow> string \<Rightarrow> client \<Rightarrow> client \<times> (py_error + real option)" where
  "get_symbol_min_notional_quote x symbol c = map_prod id (map_sum id (map_option (\<lambda>l. dec_value (lt_amt l)))) (get_lot_filters x symbol c)"

section \<open>The quantity of an order\<close>

definition fmt_decimal :: "decimal \<Rightarrow> string" where
  "fmt_decimal d =
     (let s = rstrip_char CHR ''.'' (rstrip_char CHR ''0'' (dec_format d)) in if s = [] then ''0'' else s)"

definition quantize_down :: "decimal \<Rightarrow> decimal \<Rightarrow> decimal" where
  "quantize_down v s = (if dc_coeff s \<le> 0 then v else dec_mult (dec_integral False (dec_divide v s)) s)"

definition quantize_up :: "decimal \<Rightarrow> decimal \<Rightarrow> decimal" where
  "quantize_up v s = (if dc_coeff s \<le> 0 then v else dec_mult (dec_integral True (dec_divide v s)) s)"

text \<open>The quantity raised to the minimum and cut to the step; a sale in the spot market is never raised.\<close>

definition fit_minimum :: "bool \<Rightarrow> lot \<Rightarrow> decimal \<Rightarrow> decimal option" where
  "fit_minimum strict l qty =
     (if dec_less qty (lt_min l) \<and> strict then None
      else
        let qty = quantize_down (if dec_less qty (lt_min l) then lt_min l else qty) (lt_step l) in
        if dec_less qty (lt_min l) then (if strict then None else Some (quantize_up (lt_min l) (lt_step l))) else Some qty)"

definition fit_notional :: "bool \<Rightarrow> lot \<Rightarrow> decimal \<Rightarrow> decimal \<Rightarrow> decimal option" where
  "fit_notional strict l price qty =
     (if dc_coeff (lt_amt l) > 0 \<and> dc_coeff price > 0 \<and> dec_less (dec_mult qty price) (lt_amt l)
      then (if strict then None else Some (quantize_up (dec_divide (lt_amt l) price) (lt_step l)))
      else Some qty)"

text \<open>The guard: the value of the order is at most three times the value asked for.\<close>

definition inflated :: "decimal \<Rightarrow> decimal \<Rightarrow> decimal \<Rightarrow> bool" where
  "inflated asked price qty \<longleftrightarrow>
     (let original = (if dc_coeff price > 0 then dec_mult asked price else Dec 0 0) in
      dc_coeff price > 0 \<and> dc_coeff original > 0 \<and> dec_value (dec_divide (dec_mult qty price) original) > 3)"

definition fit_lot :: "string \<Rightarrow> string \<Rightarrow> lot \<Rightarrow> decimal \<Rightarrow> decimal \<Rightarrow> decimal option" where
  "fit_lot category side l price asked =
     (let strict = (category = ''spot'' \<and> str_strip (str_upper side) = ''SELL'') in
      case fit_minimum strict l asked of
        None \<Rightarrow> None
      | Some qty \<Rightarrow>
          (case fit_notional strict l price qty of
             None \<Rightarrow> None
           | Some qty \<Rightarrow> if dc_coeff qty \<le> 0 \<or> inflated asked price qty then None else Some qty))"

definition normalize_order_qty ::
    "exchange \<Rightarrow> string \<Rightarrow> string \<Rightarrow> string \<Rightarrow> string \<Rightarrow> client \<Rightarrow> client \<times> (py_error + string option)" where
  "normalize_order_qty x symbol side qty price c =
     (case (dec_of_text qty, dec_of_text price) of
        (Some asked, Some price_dec) \<Rightarrow>
          if dc_coeff asked \<le> 0 then (c, Inr None)
          else
            (case get_lot_filters x symbol c of
               (c, Inl e) \<Rightarrow> (c, Inl e)
             | (c, Inr None) \<Rightarrow> (c, Inr (Some (fmt_decimal asked)))
             | (c, Inr (Some l)) \<Rightarrow> (c, Inr (map_option fmt_decimal (fit_lot (cl_category c) side l price_dec asked))))
      | _ \<Rightarrow> (c, Inr None))"

section \<open>The requests of the trading process\<close>

definition invalid_quantity :: "(string, json) dict" where
  "invalid_quantity = [(''retCode'', JNum (- 2)), (''retMsg'', JStr ''invalid_qty_after_normalization''), (''result'', JObj [])]"

definition order_body :: "client \<Rightarrow> string \<Rightarrow> string \<Rightarrow> string \<Rightarrow> string \<Rightarrow> string \<Rightarrow> string \<Rightarrow> string \<Rightarrow> (string, json) dict" where
  "order_body c symbol side qty price link tif order_type =
     [(''category'', JStr (cl_category c)), (''symbol'', JStr symbol), (''side'', JStr side), (''orderType'', JStr order_type),
      (''qty'', JStr qty), (''timeInForce'', JStr tif), (''orderLinkId'', JStr link)]
     @ (if order_type = ''Limit'' then [(''price'', JStr price)] else [])"

definition place_order ::
    "exchange \<Rightarrow> string \<Rightarrow> string \<Rightarrow> string \<Rightarrow> string \<Rightarrow> string \<Rightarrow> string \<Rightarrow> string \<Rightarrow> client \<Rightarrow> client \<times> (py_error + (string, json) dict)" where
  "place_order x symbol side qty price link tif order_type c =
     (case normalize_order_qty x symbol side qty price c of
        (c, Inl e) \<Rightarrow> (c, Inl e)
      | (c, Inr None) \<Rightarrow> (c, Inr invalid_quantity)
      | (c, Inr (Some t)) \<Rightarrow>
          if t = [] then (c, Inr invalid_quantity)
          else request_json x ''POST'' ''/v5/order/create'' (order_body c symbol side t price link tif order_type) True True c)"

definition optional_text :: "string \<Rightarrow> string option \<Rightarrow> (string, json) dict" where
  "optional_text k v = (if or_empty v = [] then [] else [(k, JStr (or_empty v))])"

definition cancel_order :: "exchange \<Rightarrow> string \<Rightarrow> string option \<Rightarrow> string option \<Rightarrow> client \<Rightarrow> client \<times> (py_error + (string, json) dict)" where
  "cancel_order x symbol link order_id c =
     request_json x ''POST'' ''/v5/order/cancel''
       ([(''category'', JStr (cl_category c)), (''symbol'', JStr symbol)] @ optional_text ''orderId'' order_id @ optional_text ''orderLinkId'' link)
       True True c"

text \<open>Without a symbol, the linear market needs the settlement coin.\<close>

definition symbol_or_coin :: "string \<Rightarrow> string option \<Rightarrow> (string, json) dict" where
  "symbol_or_coin category symbol =
     (''category'', JStr category) #
     (if or_empty symbol \<noteq> [] then [(''symbol'', JStr (or_empty symbol))]
      else if category = ''linear'' then [(''settleCoin'', JStr ''USDT'')] else [])"

definition cancel_all_orders :: "exchange \<Rightarrow> string option \<Rightarrow> client \<Rightarrow> client \<times> (py_error + (string, json) dict)" where
  "cancel_all_orders x symbol c = request_json x ''POST'' ''/v5/order/cancel-all'' (symbol_or_coin (cl_category c) symbol) True True c"

definition get_open_orders :: "exchange \<Rightarrow> string option \<Rightarrow> client \<Rightarrow> client \<times> (py_error + (string, json) dict)" where
  "get_open_orders x symbol c = request_json x ''GET'' ''/v5/order/realtime'' (symbol_or_coin (cl_category c) symbol) True True c"

definition get_order :: "exchange \<Rightarrow> string \<Rightarrow> string option \<Rightarrow> string option \<Rightarrow> client \<Rightarrow> client \<times> (py_error + (string, json) dict)" where
  "get_order x symbol link order_id c =
     request_json x ''GET'' ''/v5/order/realtime''
       ([(''category'', JStr (cl_category c)), (''symbol'', JStr symbol)] @ optional_text ''orderLinkId'' link @ optional_text ''orderId'' order_id)
       True True c"

definition get_wallet_balance :: "exchange \<Rightarrow> string \<Rightarrow> client \<Rightarrow> client \<times> (py_error + (string, json) dict)" where
  "get_wallet_balance x account c = request_json x ''GET'' ''/v5/account/wallet-balance'' [(''accountType'', JStr account)] True True c"

definition get_execution_list ::
    "exchange \<Rightarrow> string \<Rightarrow> string option \<Rightarrow> string option \<Rightarrow> int \<Rightarrow> client \<Rightarrow> client \<times> (py_error + (string, json) dict)" where
  "get_execution_list x symbol order_id link limit c =
     request_json x ''GET'' ''/v5/execution/list''
       ([(''category'', JStr (cl_category c)), (''symbol'', JStr symbol), (''limit'', JNum (of_int limit))]
        @ optional_text ''orderId'' order_id @ optional_text ''orderLinkId'' link) True True c"

definition get_positions :: "exchange \<Rightarrow> string option \<Rightarrow> client \<Rightarrow> client \<times> (py_error + (string, json) dict)" where
  "get_positions x symbol c = request_json x ''GET'' ''/v5/position/list'' (symbol_or_coin (cl_category c) symbol) True True c"

definition stop_level :: "exchange \<Rightarrow> string \<Rightarrow> real option \<Rightarrow> (string, json) dict" where
  "stop_level x k v = (case v of None \<Rightarrow> [] | Some r \<Rightarrow> [(k, JStr (ex_float_text x r))])"

definition refused_stop :: "string \<Rightarrow> (string, json) dict" where
  "refused_stop why = [(''retCode'', JNum (- 2)), (''retMsg'', JStr why), (''result'', JObj [])]"

definition set_trading_stop ::
    "exchange \<Rightarrow> string \<Rightarrow> int \<Rightarrow> real option \<Rightarrow> real option \<Rightarrow> real option \<Rightarrow> client \<Rightarrow> client \<times> (py_error + (string, json) dict)" where
  "set_trading_stop x symbol idx take_profit stop_loss trailing c =
     (let levels = stop_level x ''takeProfit'' take_profit @ stop_level x ''stopLoss'' stop_loss @ stop_level x ''trailingStop'' trailing in
      if cl_category c \<noteq> ''linear'' then (c, Inr (refused_stop ''set_trading_stop_supported_for_linear_only''))
      else if levels = [] then (c, Inr (refused_stop ''empty_protection_payload''))
      else request_json x ''POST'' ''/v5/position/trading-stop''
        ([(''category'', JStr (cl_category c)), (''symbol'', JStr symbol), (''positionIdx'', JNum (of_int idx))] @ levels) True True c)"


section \<open>What a request sends\<close>

text \<open>The requests a call adds, and what they were for.\<close>

definition refused_by_clock :: "wire \<Rightarrow> bool" where
  "refused_by_clock w \<longleftrightarrow> (\<exists>out. w = Reply (JObj out) \<and> time_skew out)"

lemma send_simps [simp]: "cl_log (fst (send x r c)) = cl_log c @ [r]" "snd (send x r c) = ex_net x (cl_log c @ [r])"
  "cl_lots (fst (send x r c)) = cl_lots c" "cl_category (fst (send x r c)) = cl_category c" "cl_offset (fst (send x r c)) = cl_offset c"
  by (simp_all add: send_def)

lemma sync_adds:
  obtains c' e where "sync_server_time x c = (c', e)" and "\<exists>ts. cl_log c' = cl_log c @ [ts] \<and> rq_path ts = ''/v5/market/time''"
    and "cl_lots c' = cl_lots c" and "cl_category c' = cl_category c"
proof -
  let ?r = "\<lparr>rq_method = ''GET'', rq_path = ''/v5/market/time'', rq_data = [], rq_offset = 0\<rparr>"
  obtain c1 w where s: "send x ?r c = (c1, w)" by (cases "send x ?r c")
  have f: "cl_log c1 = cl_log c @ [?r]" "cl_lots c1 = cl_lots c" "cl_category c1 = cl_category c"
    using send_simps [of x ?r c] by (simp_all add: s)
  have "fst (sync_server_time x c) = c1 \<or> (\<exists>v. fst (sync_server_time x c) = c1\<lparr>cl_offset := v\<rparr>)"
    by (auto simp: sync_server_time_def s split: wire.split json.split sum.split option.split prod.split)
  then show ?thesis using f by (intro that [OF prod.collapse [symmetric]]) auto
qed

lemma post_sends:
  assumes "request_json x ''POST'' path data skew transport c = (c', res)"
  obtains (once) r where "rq_path r = path" and "cl_log c' = cl_log c @ [r]" and "cl_lots c' = cl_lots c"
  | (clock) r ts where "skew" and "rq_path r = path" and "rq_path ts = ''/v5/market/time''" and "refused_by_clock (ex_net x (cl_log c @ [r]))"
      and "cl_log c' = cl_log c @ [r, ts]" and "cl_lots c' = cl_lots c"
  | (twice) r ts r' where "skew" and "rq_path r = path" and "rq_path r' = path" and "rq_data r' = rq_data r"
      and "rq_path ts = ''/v5/market/time''" and "refused_by_clock (ex_net x (cl_log c @ [r]))"
      and "cl_log c' = cl_log c @ [r, ts, r']" and "cl_lots c' = cl_lots c"
proof -
  have get: "str_upper ''POST'' \<noteq> ''GET''" by code_simp
  have single: "\<exists>r. rq_path r = path \<and> rq_data r = data \<and> cl_log c' = cl_log c @ [r] \<and> cl_lots c' = cl_lots c"
    if "request_json x ''POST'' path data False transport c = (c', res)" for c c' res transport
    using that by (subst (asm) request_json.simps)
      (auto simp: send_def get Let_def split: wire.splits json.splits if_splits)
  define r where "r = \<lparr>rq_method = ''POST'', rq_path = path, rq_data = data, rq_offset = cl_offset c\<rparr>"
  define c1 where "c1 = fst (send x r c)"
  have s: "send x r c = (c1, ex_net x (cl_log c @ [r]))" by (simp add: c1_def send_def)
  have c1: "cl_log c1 = cl_log c @ [r]" "cl_lots c1 = cl_lots c" by (simp_all add: c1_def)
  have rp: "rq_path r = path" "rq_data r = data" by (simp_all add: r_def)
  show ?thesis
  proof (cases "skew \<and> refused_by_clock (ex_net x (cl_log c @ [r]))")
    case False
    then have "c' = c1" using assms
      by (subst (asm) request_json.simps)
        (auto simp: r_def [symmetric] s get refused_by_clock_def Let_def split: wire.splits json.splits if_splits)
    with once [OF rp(1)] c1 show ?thesis by simp
  next
    case True
    then obtain out where out: "ex_net x (cl_log c @ [r]) = Reply (JObj out)" "time_skew out" by (auto simp: refused_by_clock_def)
    then have bad: "\<not> ret_code_ok (json_key out ''retCode'')" by (simp add: time_skew_def ret_code_ok_def)
    have step: "(case sync_server_time x c1 of (c, Inl e) \<Rightarrow> (c, Inr out) | (c, Inr ms) \<Rightarrow> request_json x ''POST'' path data False True c) = (c', res)"
      using assms True by (subst (asm) request_json.simps) (simp add: r_def [symmetric] s out bad)
    obtain c2 e where sync: "sync_server_time x c1 = (c2, e)" and ts: "\<exists>ts. cl_log c2 = cl_log c1 @ [ts] \<and> rq_path ts = ''/v5/market/time''"
        and l: "cl_lots c2 = cl_lots c1" by (rule sync_adds)
    obtain ts where ts: "cl_log c2 = cl_log c1 @ [ts]" "rq_path ts = ''/v5/market/time''" using ts by blast
    show ?thesis
    proof (cases e)
      case (Inl err)
      then have "c' = c2" using step by (simp add: sync)
      with clock [of r ts] True rp ts c1 l show ?thesis by simp
    next
      case (Inr ms)
      then have "request_json x ''POST'' path data False True c2 = (c', res)" using step by (simp add: sync)
      from single [OF this] obtain r' where "rq_path r' = path" "rq_data r' = data" "cl_log c' = cl_log c2 @ [r']" "cl_lots c' = cl_lots c2" by blast
      with twice [of r r' ts] True rp ts c1 l show ?thesis by simp
    qed
  qed
qed


text \<open>Every request ends, after at most five messages, all to its path or to ask for the time.\<close>

definition messages :: "bool \<Rightarrow> bool \<Rightarrow> nat" where
  "messages skew transport = (if skew then 3 else 0) + (if transport then 1 else 0) + 1"

lemma request_adds:
  "request_json x verb path data skew transport c = (c', res) \<Longrightarrow>
     \<exists>rs. cl_log c' = cl_log c @ rs \<and> length rs \<le> messages skew transport \<and> (\<forall>r \<in> set rs. rq_path r \<in> {path, ''/v5/market/time''})
       \<and> cl_lots c' = cl_lots c \<and> cl_category c' = cl_category c
       \<and> rs \<noteq> [] \<and> hd rs = \<lparr>rq_method = verb, rq_path = path, rq_data = data, rq_offset = cl_offset c\<rparr>"
proof (induction x verb path data skew transport c arbitrary: c' res rule: request_json.induct)
  case (1 x verb path data skew transport c)
  define r where "r = \<lparr>rq_method = verb, rq_path = path, rq_data = data, rq_offset = cl_offset c\<rparr>"
  define c1 where "c1 = fst (send x r c)"
  have s: "send x r c = (c1, ex_net x (cl_log c @ [r]))" by (simp add: c1_def send_def)
  have c1: "cl_log c1 = cl_log c @ [r]" "cl_lots c1 = cl_lots c" "cl_category c1 = cl_category c" "rq_path r = path"
    by (simp_all add: c1_def r_def)
  note ih = "1.IH" [unfolded r_def [symmetric], OF s [symmetric]]
  note this_step = trans [OF request_json.simps [of x verb path data skew transport c, symmetric] "1.prems", folded r_def,
      unfolded s Let_def prod.case]
  show ?case
  proof (cases "c' = c1")
    case True
    then show ?thesis using c1 by (intro exI [of _ "[r]"]) (simp add: messages_def r_def)
  next
    case False
    then consider (retry) e where "ex_net x (cl_log c @ [r]) = Transport_Error e" "str_upper verb = ''GET'' \<and> transport"
        "request_json x verb path data skew False c1 = (c', res)"
      | (clock) out where "ex_net x (cl_log c @ [r]) = Reply (JObj out)" "\<not> ret_code_ok (json_key out ''retCode'')" "time_skew out \<and> skew"
        "(case sync_server_time x c1 of (c, Inl e) \<Rightarrow> (c, Inr out) | (c, Inr ms) \<Rightarrow> request_json x verb path data False True c) = (c', res)"
      using this_step by (auto split: wire.splits json.splits if_splits)
    then show ?thesis
    proof cases
      case retry
      from ih(2) [OF refl retry] c1 obtain rs where rs: "cl_log c' = cl_log c1 @ rs" "length rs \<le> messages skew False"
          "\<forall>r \<in> set rs. rq_path r \<in> {path, ''/v5/market/time''}" "cl_lots c' = cl_lots c1" "cl_category c' = cl_category c1" by blast
      with retry(2) c1 show ?thesis by (intro exI [of _ "r # rs"]) (simp add: messages_def r_def)
    next
      case clock
      obtain c2 e ts where sync: "sync_server_time x c1 = (c2, e)" "cl_log c2 = cl_log c1 @ [ts]" "rq_path ts = ''/v5/market/time''"
          "cl_lots c2 = cl_lots c1" "cl_category c2 = cl_category c1" by (rule sync_adds) blast
      show ?thesis
      proof (cases e)
        case (Inl err)
        with clock sync have "c' = c2" by simp
        with sync c1 clock(3) show ?thesis by (intro exI [of _ "[r, ts]"]) (simp add: messages_def r_def)
      next
        case (Inr ms)
        with clock(4) sync have again: "request_json x verb path data False True c2 = (c', res)" by simp
        from ih(1) [OF refl clock(1) refl clock(2,3) sync(1) [symmetric] Inr again]
        obtain rs where rs: "cl_log c' = cl_log c2 @ rs" "length rs \<le> messages False True"
          "\<forall>r \<in> set rs. rq_path r \<in> {path, ''/v5/market/time''}" "cl_lots c' = cl_lots c2" "cl_category c' = cl_category c2" by auto
        with sync c1 clock(3) show ?thesis by (intro exI [of _ "r # ts # rs"]) (simp add: messages_def r_def)
      qed
    qed
  qed
qed

text \<open>Looking up the filters asks for the symbol only.\<close>

lemma filters_add:
  assumes "get_lot_filters x symbol c = (c', res)"
  obtains rs where "cl_log c' = cl_log c @ rs" and "\<forall>r \<in> set rs. rq_path r \<in> {''/v5/market/instruments-info'', ''/v5/market/time''}"
    and "cl_category c' = cl_category c" and "length rs \<le> 5"
proof -
  consider "c' = c" | c1 res1 where "request_json x ''GET'' ''/v5/market/instruments-info''
      [(''category'', JStr (cl_category c)), (''symbol'', JStr (str_strip (str_upper symbol)))] False True c = (c1, res1)"
      "cl_log c' = cl_log c1" "cl_category c' = cl_category c1"
    using assms by (auto simp: get_lot_filters_def Let_def split: if_splits option.splits prod.splits sum.splits)
  then show ?thesis
  proof cases
    case 1
    then show ?thesis by (intro that [of "[]"]) simp_all
  next
    case 2
    from request_adds [OF 2(1)] 2 show ?thesis by (auto simp: messages_def intro: that)
  qed
qed

lemma quantity_adds:
  assumes "normalize_order_qty x symbol side qty price c = (c', res)"
  obtains rs where "cl_log c' = cl_log c @ rs" and "\<forall>r \<in> set rs. rq_path r \<in> {''/v5/market/instruments-info'', ''/v5/market/time''}"
proof -
  obtain c1 res1 where f: "get_lot_filters x symbol c = (c1, res1)" by (cases "get_lot_filters x symbol c")
  have "c' = c \<or> c' = c1"
    using assms by (auto simp: normalize_order_qty_def f split: option.splits if_splits sum.splits)
  then show ?thesis
  proof
    assume "c' = c"
    then show ?thesis by (intro that [of "[]"]) simp_all
  next
    assume "c' = c1"
    with filters_add [OF f] show ?thesis by (metis that)
  qed
qed


section \<open>Properties\<close>

text \<open>
  The requests that change something at the exchange: creating an order, cancelling one or all, setting the levels
  of a position. Such a request is not repeated if the call sends at most one, or sends it once more because the
  exchange refused the first as its clock differed.
\<close>

definition changing :: "request \<Rightarrow> bool" where
  "changing r \<longleftrightarrow> rq_path r \<in> {''/v5/order/create'', ''/v5/order/cancel'', ''/v5/order/cancel-all'', ''/v5/position/trading-stop''}"

definition not_repeated :: "exchange \<Rightarrow> client \<Rightarrow> client \<Rightarrow> bool" where
  "not_repeated x c c' \<longleftrightarrow>
     (let new = drop (length (cl_log c)) (cl_log c') in
      length (filter changing new) \<le> 1
      \<or> (\<exists>before r ts r'. new = before @ [r, ts, r'] \<and> filter changing new = [r, r'] \<and> rq_path r' = rq_path r
           \<and> rq_data r' = rq_data r \<and> refused_by_clock (ex_net x (cl_log c @ before @ [r]))))"

lemma reads_then_post:
  assumes before: "cl_log c1 = cl_log c @ before" "filter changing before = []"
    and send: "request_json x ''POST'' path data skew transport c1 = (c', res)"
    and path: "path \<in> {''/v5/order/create'', ''/v5/order/cancel'', ''/v5/order/cancel-all'', ''/v5/position/trading-stop''}"
  shows "not_repeated x c c'"
proof (cases rule: post_sends [OF send])
  case (1 r)
  then show ?thesis using before by (simp add: not_repeated_def changing_def)
next
  case (2 r ts)
  then show ?thesis using before by (simp add: not_repeated_def changing_def)
next
  case (3 r ts r')
  have "changing r" "changing r'" "\<not> changing ts" using 3 path by (simp_all add: changing_def)
  with 3 before show ?thesis unfolding not_repeated_def Let_def
    by (intro disjI2 exI [of _ before] exI [of _ r] exI [of _ ts] exI [of _ r']) simp
qed

lemma post_not_repeated:
  assumes "path \<in> {''/v5/order/create'', ''/v5/order/cancel'', ''/v5/order/cancel-all'', ''/v5/position/trading-stop''}"
  shows "not_repeated x c (fst (request_json x ''POST'' path data skew transport c))"
  by (rule reads_then_post [OF _ _ prod.collapse [symmetric] assms, of c c "[]"]) simp_all

lemma levels_not_repeated: "not_repeated x c (fst (set_trading_stop x symbol idx take_profit stop_loss trailing c))"
proof -
  have "fst (set_trading_stop x symbol idx take_profit stop_loss trailing c) = c
      \<or> (\<exists>data. fst (set_trading_stop x symbol idx take_profit stop_loss trailing c)
            = fst (request_json x ''POST'' ''/v5/position/trading-stop'' data True True c))"
    by (auto simp: set_trading_stop_def Let_def)
  moreover have "not_repeated x c c" by (simp add: not_repeated_def)
  ultimately show ?thesis using post_not_repeated by (metis insertI1 insertI2)
qed

lemma placing_not_repeated: "not_repeated x c (fst (place_order x symbol side qty price link tif order_type c))"
proof -
  obtain c1 res1 where q: "normalize_order_qty x symbol side qty price c = (c1, res1)" by (cases "normalize_order_qty x symbol side qty price c")
  obtain before where before: "cl_log c1 = cl_log c @ before" "\<forall>r \<in> set before. rq_path r \<in> {''/v5/market/instruments-info'', ''/v5/market/time''}"
    using quantity_adds [OF q] by blast
  have none: "filter changing before = []" using before(2) by (auto simp: filter_empty_conv changing_def)
  show ?thesis
  proof (cases "\<exists>t. res1 = Inr (Some t) \<and> t \<noteq> []")
    case False
    then have "fst (place_order x symbol side qty price link tif order_type c) = c1"
      by (auto simp: place_order_def q split: sum.split option.split)
    with before(1) none show ?thesis by (simp add: not_repeated_def)
  next
    case True
    then obtain t where t: "res1 = Inr (Some t)" "t \<noteq> []" by blast
    have "fst (place_order x symbol side qty price link tif order_type c)
        = fst (request_json x ''POST'' ''/v5/order/create'' (order_body c1 symbol side t price link tif order_type) True True c1)"
      by (simp add: place_order_def q t)
    then show ?thesis using reads_then_post [OF before(1) none prod.collapse [symmetric]] by simp
  qed
qed

text \<open>
  C11: Each of the four calls that change something at the exchange (creating an order, cancelling one, cancelling
  all, setting the levels of a position) sends at most one such request, unless the exchange refused that request
  because its clock differed: then the same request, with the same data, is sent once more and no third time. A
  request whose fate is unknown, because the transport failed or the answer was no JSON, is never sent again.
\<close>

theorem orders_resent_only_when_refused:
  "not_repeated x c (fst (place_order x symbol side qty price link tif order_type c))
   \<and> not_repeated x c (fst (cancel_order x symbol ref_link ref_id c))
   \<and> not_repeated x c (fst (cancel_all_orders x scope c))
   \<and> not_repeated x c (fst (set_trading_stop x symbol idx take_profit stop_loss trailing c))"
proof (intro conjI)
  show "not_repeated x c (fst (cancel_order x symbol ref_link ref_id c))"
    unfolding cancel_order_def by (rule post_not_repeated) simp
  show "not_repeated x c (fst (cancel_all_orders x scope c))"
    unfolding cancel_all_orders_def by (rule post_not_repeated) simp
  show "not_repeated x c (fst (set_trading_stop x symbol idx take_profit stop_loss trailing c))"
    by (rule levels_not_repeated)
qed (rule placing_not_repeated)

text \<open>
  C31: Every call of the exchange comes back, after at most five requests, and changes neither the filters nor
  the market of the client.
\<close>

theorem requests_bounded:
  "\<exists>rs. cl_log (fst (request_json x verb path data skew transport c)) = cl_log c @ rs \<and> length rs \<le> 5
     \<and> set (map rq_path rs) \<subseteq> {path, ''/v5/market/time''}
     \<and> cl_lots (fst (request_json x verb path data skew transport c)) = cl_lots c
     \<and> cl_category (fst (request_json x verb path data skew transport c)) = cl_category c"
proof -
  obtain c' res where r: "request_json x verb path data skew transport c = (c', res)"
    by (cases "request_json x verb path data skew transport c")
  have "messages skew transport \<le> 5" by (simp add: messages_def)
  with request_adds [OF r] show ?thesis unfolding r fst_conv by (fastforce intro: order_trans)
qed

end
