(* ===== verification/Order_Quantity.thy ===== *)
theory Order_Quantity
  imports Exchange_Client Protection_Loop
begin

text \<open>
  The quantity an order carries (\<open>_normalize_order_qty\<close>, \<open>_fmt_decimal\<close> of \<open>execution/bybit_rest.py\<close> and
  \<open>_fmt_float\<close> of \<open>main.py\<close>): what the exchange reads in its text.
\<close>

section \<open>The filters\<close>

definition lot_ok :: "lot \<Rightarrow> bool" where
  "lot_ok l \<longleftrightarrow> 0 < dc_coeff (lt_step l) \<and> 0 < dc_coeff (lt_min l) \<and> 0 \<le> dc_coeff (lt_amt l)"

definition lots_ok :: "client \<Rightarrow> bool" where
  "lots_ok c \<longleftrightarrow> (\<forall>l \<in> snd ` set (cl_lots c). lot_ok l)"

lemma read_lot_ok: "read_lot str d = Some l \<Longrightarrow> lot_ok l"
  by (auto simp: read_lot_def lot_ok_def Let_def split: option.splits if_splits)

lemma lots_ok_new [simp]: "lots_ok (new_client category)"
  by (simp add: lots_ok_def new_client_def)

lemma snd_dict_set: "snd ` set (dict_set k v d) \<subseteq> insert v (snd ` set d)"
  by (induction d) auto

lemma filters_ok:
  assumes "lots_ok c" and "get_lot_filters x symbol c = (c', res)"
  shows "lots_ok c'" and "res = Inr (Some l) \<Longrightarrow> lot_ok l"
proof -
  define u where "u = str_strip (str_upper symbol)"
  obtain c1 r where req: "request_json x ''GET'' ''/v5/market/instruments-info''
      [(''category'', JStr (cl_category c)), (''symbol'', JStr u)] False True c = (c1, r)"
    by (cases "request_json x ''GET'' ''/v5/market/instruments-info'' [(''category'', JStr (cl_category c)), (''symbol'', JStr u)] False True c")
  have lots: "cl_lots c1 = cl_lots c" using request_adds [OF req] by blast
  have listed: "lot_ok l" if "listed_lot (ex_str x) out = Inr (Some l)" for out l
    using that by (auto simp: listed_lot_def intro: read_lot_ok split: sum.splits if_splits json.splits)
  have cached: "lot_ok k" if "dict_get (cl_lots c) u = Some k" for k
    using assms(1) map_of_SomeD [OF that] by (force simp: lots_ok_def)
  have kept: "lots_ok (c1\<lparr>cl_lots := dict_set u k (cl_lots c1)\<rparr>)" if "lot_ok k" for k
    using assms(1) subsetD [OF snd_dict_set [of u k "cl_lots c"]] lots that unfolding lots_ok_def by fastforce
  have c1: "lots_ok c1" using assms(1) lots by (simp add: lots_ok_def)
  have "lots_ok c' \<and> (\<forall>k. res = Inr (Some k) \<longrightarrow> lot_ok k)"
    using assms(1,2) cached listed kept c1
    by (auto simp: get_lot_filters_def Let_def u_def [symmetric] req split: if_splits option.splits sum.splits dest: sym)
  then show "lots_ok c'" and "res = Inr (Some l) \<Longrightarrow> lot_ok l" by auto
qed

section \<open>Bounds of the arithmetic\<close>

definition SLACK :: real where
  "SLACK = 1 / 10 ^ 26"

lemma dec_value_nonneg [simp]: "0 \<le> dec_value d \<longleftrightarrow> 0 \<le> dc_coeff d"
  by (cases d) (simp add: dec_value_powi zero_le_mult_iff ten_powi_pos [THEN not_le [THEN iffD2]])

lemma near_bounds: "\<bar>x - q\<bar> \<le> q * r \<Longrightarrow> x \<le> q * (1 + r) \<and> q * (1 - r) \<le> x" for q :: real
  by (simp add: abs_le_iff algebra_simps)

lemma dec_value_zero: "dc_coeff d = 0 \<Longrightarrow> dec_value d = 0"
  by (simp add: dec_value_def scale10_def)

lemma rounding_small: "0 \<le> ROUNDING" "(1 + ROUNDING) * (1 + ROUNDING) \<le> 1 + SLACK"
  "(1 + ROUNDING) \<le> (1 - ROUNDING) * (1 - ROUNDING) * (1 + SLACK)" "ROUNDING < 1"
  by (simp_all add: ROUNDING_def SLACK_def)

lemma quantize_down_value:
  assumes "0 < dc_coeff v" and "0 < dc_coeff s"
  shows "0 \<le> dc_coeff (quantize_down v s) \<and> dec_value (quantize_down v s) \<le> dec_value v * (1 + SLACK)"
proof -
  let ?i = "dec_integral False (dec_divide v s)"
  have q: "dec_value (dec_divide v s) \<le> dec_value v / dec_value s * (1 + ROUNDING)" "0 < dc_coeff (dec_divide v s)"
    using near_bounds [OF dec_divide_near(1) [OF assms]] dec_divide_near(2) [OF assms] by simp_all
  have i: "0 \<le> dc_coeff ?i" "dec_value ?i \<le> dec_value (dec_divide v s)" using dec_integral_value [OF q(2)] by simp_all
  have v0: "0 < dec_value v" and s0: "0 < dec_value s" and sne: "dec_value s \<noteq> 0" using assms by (simp_all add: less_imp_neq [symmetric])
  have qd: "quantize_down v s = dec_mult ?i s" using assms(2) by (simp add: quantize_down_def)
  show ?thesis
  proof (cases "dc_coeff ?i = 0")
    case True
    then have "dc_coeff (quantize_down v s) = 0" by (simp add: qd dec_mult_zero)
    with v0 show ?thesis by (simp add: dec_value_zero SLACK_def)
  next
    case False
    with i have i0: "0 < dc_coeff ?i" by simp
    have "dec_value (quantize_down v s) \<le> dec_value ?i * dec_value s * (1 + ROUNDING)"
      using dec_mult_near(1) [OF i0 assms(2)] by (simp add: qd abs_le_iff algebra_simps)
    also have "\<dots> \<le> dec_value v / dec_value s * (1 + ROUNDING) * dec_value s * (1 + ROUNDING)"
      using order_trans [OF i(2) q(1)] less_imp_le [OF s0] rounding_small(1) by (intro mult_right_mono) simp_all
    also have "\<dots> = dec_value v * ((1 + ROUNDING) * (1 + ROUNDING))" using sne by simp
    also have "\<dots> \<le> dec_value v * (1 + SLACK)" using v0 rounding_small(2) by (intro mult_left_mono) simp_all
    finally show ?thesis using dec_mult_near(2) [OF i0 assms(2)] by (simp add: qd)
  qed
qed

lemma inflated_bound:
  assumes "0 < dc_coeff asked" and "0 < dc_coeff price" and "0 < dc_coeff qty" and "\<not> inflated asked price qty"
  shows "dec_value qty \<le> 3 * dec_value asked * (1 + SLACK)"
proof -
  define Q A P where "Q = dec_value qty" and "A = dec_value asked" and "P = dec_value price"
  have pos: "0 < Q" "0 < A" "0 < P" using assms by (simp_all add: Q_def A_def P_def)
  define F G where "F = dec_value (dec_mult qty price)" and "G = dec_value (dec_mult asked price)"
  have F: "Q * P * (1 - ROUNDING) \<le> F" "0 < dc_coeff (dec_mult qty price)"
    using dec_mult_near [OF assms(3,2)] by (simp_all add: F_def Q_def P_def abs_le_iff algebra_simps)
  have G: "G \<le> A * P * (1 + ROUNDING)" "0 < dc_coeff (dec_mult asked price)"
    using dec_mult_near [OF assms(1,2)] by (simp_all add: G_def A_def P_def abs_le_iff algebra_simps)
  have G0: "0 < G" using G(2) by (simp add: G_def)
  have "F / G * (1 - ROUNDING) \<le> dec_value (dec_divide (dec_mult qty price) (dec_mult asked price))"
    using near_bounds [OF dec_divide_near(1) [OF F(2) G(2)]] by (simp add: F_def G_def)
  also have "\<dots> \<le> 3" using assms(2,4) G(2) by (simp add: inflated_def Let_def)
  finally have "F * (1 - ROUNDING) \<le> 3 * G" using G0 by (simp add: field_simps)
  moreover have "Q * P * (1 - ROUNDING) * (1 - ROUNDING) \<le> F * (1 - ROUNDING)"
    using F(1) rounding_small(4) by (intro mult_right_mono) simp_all
  ultimately have "Q * P * (1 - ROUNDING) * (1 - ROUNDING) \<le> 3 * (A * P * (1 + ROUNDING))" using G(1) by linarith
  then have "P * (Q * ((1 - ROUNDING) * (1 - ROUNDING))) \<le> P * (3 * A * (1 + ROUNDING))" by (simp add: algebra_simps)
  then have "Q * ((1 - ROUNDING) * (1 - ROUNDING)) \<le> 3 * A * (1 + ROUNDING)" using pos(3) by (simp add: mult_le_cancel_left_pos)
  also have "\<dots> \<le> 3 * A * ((1 - ROUNDING) * (1 - ROUNDING) * (1 + SLACK))"
    using pos(2) rounding_small(3) by (intro mult_left_mono) simp_all
  finally have "(1 - ROUNDING) * (1 - ROUNDING) * Q \<le> (1 - ROUNDING) * (1 - ROUNDING) * (3 * A * (1 + SLACK))" by (simp add: algebra_simps)
  then have "Q \<le> 3 * A * (1 + SLACK)" using rounding_small(4) by (simp add: mult_le_cancel_left_pos)
  then show ?thesis by (simp add: Q_def A_def)
qed

section \<open>The text\<close>

lemma fmt_decimal_reads:
  assumes "0 < dc_coeff d"
  shows "\<exists>v. py_float (fmt_decimal d) = Inr v \<and> 0 < v \<and> v \<le> dec_value d"
proof -
  obtain c e where d: "d = Dec c e" by (cases d)
  show ?thesis
  proof (cases "e < 0")
    case True
    with assms d stripped_fraction [of c e] show ?thesis by (simp add: fmt_decimal_def Let_def)
  next
    case False
    then have "0 < c" "0 \<le> e" using assms d by simp_all
    then obtain m j where m: "py_float (rstrip_char CHR ''.'' (rstrip_char CHR ''0'' (dec_format (Dec c e)))) = Inr (real m)"
      "dec_value (Dec c e) = real m * 10 ^ j" "m mod 10 \<noteq> 0" "rstrip_char CHR ''.'' (rstrip_char CHR ''0'' (dec_format (Dec c e))) \<noteq> []"
      by (rule stripped_whole)
    have "0 < m" using m(3) by (cases m) auto
    moreover have "real m * 1 \<le> real m * 10 ^ j" by (intro mult_left_mono) simp_all
    ultimately show ?thesis using m d by (simp add: fmt_decimal_def Let_def)
  qed
qed


text \<open>What the steps of the normalisation guarantee.\<close>

lemma fit_lot_bounds:
  assumes "lot_ok l" and "0 < dc_coeff asked" and "fit_lot category side l price asked = Some qty"
  shows "0 < dc_coeff qty"
    and "category = ''spot'' \<Longrightarrow> str_strip (str_upper side) = ''SELL'' \<Longrightarrow> dec_value qty \<le> dec_value asked * (1 + SLACK)"
    and "0 < dc_coeff price \<Longrightarrow> dec_value qty \<le> 3 * dec_value asked * (1 + SLACK)"
proof -
  show pos: "0 < dc_coeff qty"
    using assms(3) by (auto simp: fit_lot_def Let_def split: option.splits if_splits)
  have "\<not> inflated asked price qty"
    using assms(3) by (auto simp: fit_lot_def Let_def split: option.splits if_splits)
  then show "0 < dc_coeff price \<Longrightarrow> dec_value qty \<le> 3 * dec_value asked * (1 + SLACK)"
    using inflated_bound [OF assms(2) _ pos] by blast
  assume "category = ''spot''" "str_strip (str_upper side) = ''SELL''"
  then have "qty = quantize_down asked (lt_step l)"
    using assms(3) by (auto simp: fit_lot_def fit_minimum_def fit_notional_def Let_def split: option.splits if_splits)
  with quantize_down_value [of asked "lt_step l"] assms(1,2) show "dec_value qty \<le> dec_value asked * (1 + SLACK)"
    by (simp add: lot_ok_def)
qed

section \<open>Whole quantities\<close>

lemma drop_zeros_exact: "drop_zeros (c * 10 ^ j) (i - int j) i = (c, i)"
proof (induction j)
  case 0
  show ?case by (simp add: drop_zeros.simps)
next
  case (Suc j)
  have "c * 10 ^ Suc j mod 10 = 0" "c * 10 ^ Suc j div 10 = c * 10 ^ j" by (simp_all add: mult.commute)
  then show ?case using Suc by (subst drop_zeros.simps) (simp add: add.commute)
qed

lemma dec_fix_short: "length (nat_digits (nat \<bar>c\<bar>)) \<le> PRECISION \<Longrightarrow> dec_fix (Dec c e) = Dec c e"
  by (simp add: dec_fix_def)

text \<open>A whole number of at most 28 digits, divided by a power of ten and multiplied with it, is what it was, without a fraction.\<close>

lemma quantize_whole:
  assumes "0 < n" and "n < 10 ^ 28"
  shows "quantize_down (Dec (int n) 0) (Dec 1 (- int k)) = Dec (int n) 0"
proof -
  define len where "len = length (nat_digits n)"
  have len: "len \<le> 28" using nat_digits_le [OF assms] by (simp add: len_def)
  have one: "length (nat_digits (Suc 0)) = 1" by (simp add: nat_digits.simps)
  have short: "dec_fix (Dec (int n) e) = Dec (int n) e" for e
    using len by (intro dec_fix_short) (simp add: PRECISION_def len_def)
  have "dec_divide (Dec (int n) 0) (Dec 1 (- int k)) = Dec (int n) (int k)"
  proof -
    have "30 - int len = int (30 - len)" using len by (simp add: of_nat_diff)
    then obtain j where j: "30 - int len = int j" by blast
    have "drop_zeros (n * 10 ^ j) (int k - int j) (int k) = (n, int k)" by (rule drop_zeros_exact)
    then show ?thesis using assms(1) by (simp add: dec_divide_def Let_def PRECISION_def one len_def [symmetric] j short)
  qed
  moreover have "dec_mult (Dec (int n) (int k)) (Dec 1 (- int k)) = Dec (int n) 0" by (simp add: dec_mult_def short)
  ultimately show ?thesis by (simp add: quantize_down_def dec_integral_def)
qed


text \<open>\<open>_fmt_float\<close>: eight decimals, shortened.\<close>

definition fmt_float_text :: "real \<Rightarrow> string" where
  "fmt_float_text v =
     rstrip_char CHR ''.'' (rstrip_char CHR ''0'' (dec_format (Dec (round_half_even (v * 10 ^ 8)) (- 8))))"

lemma nat_digits_ten: "0 < n \<Longrightarrow> nat_digits (n * 10 ^ k) = nat_digits n @ replicate k CHR ''0''"
proof (induction k)
  case (Suc k)
  have "nat_digits (n * 10 ^ Suc k) = nat_digits (n * 10 ^ k) @ [CHR ''0'']"
    using Suc(2) by (subst nat_digits.simps) (simp add: mult.commute digit_texts)
  with Suc show ?case by (simp add: replicate_append_same)
qed simp

lemma fmt_float_text_whole: "0 < n \<Longrightarrow> fmt_float_text (real n) = nat_digits n"
proof -
  assume n: "0 < n"
  have "round_half_even (real n * 10 ^ 8) = int (n * 10 ^ 8)"
    using round_half_even_of_int [of "int (n * 10 ^ 8)"] by simp
  then have f: "fmt_float_text (real n) = rstrip_char CHR ''.'' (rstrip_char CHR ''0'' (dec_format (Dec (int (n * 10 ^ 8)) (- 8))))"
    by (simp add: fmt_float_text_def)
  have "dec_format (Dec (int (n * 10 ^ 8)) (- 8)) = (nat_digits n @ [CHR ''.'']) @ replicate 8 CHR ''0''"
    unfolding dec_format_def Let_def decimal.sel abs_of_nat nat_int nat_digits_ten [OF n] using n by simp
  then have "rstrip_char CHR ''0'' (dec_format (Dec (int (n * 10 ^ 8)) (- 8))) = nat_digits n @ [CHR ''.'']"
    using rstrip_append [of "nat_digits n @ [CHR ''.'']" "CHR ''0''" 8] by (simp only:) simp
  moreover have "rstrip_char CHR ''.'' (nat_digits n @ replicate 1 CHR ''.'') = nat_digits n"
    by (subst rstrip_append) (use digit_no_point [of "nat_digits n"] in auto)
  ultimately show ?thesis by (simp add: f)
qed

lemma dec_of_text_whole: "dec_of_text (nat_digits n) = Some (Dec (int n) 0)"
proof -
  let ?s = "nat_digits n"
  obtain c cs where s: "?s = c # cs" by (cases ?s) (use nat_digits_simps(2) in auto)
  have d: "digit_chars ?s" "?s \<noteq> []" by simp_all
  have "str_strip ?s = ?s" by (rule no_space_strip) (use d(1) digit_no_space in \<open>auto simp: digit_chars_set\<close>)
  moreover have "read_sign ?s = (False, ?s)" using d(1) digit_no_sign by (simp add: s)
  moreover have "read_digits ?s (0, 0, []) = (n, length ?s, [])" using read_digits_append [OF d, of "[]"] by simp
  ultimately show ?thesis by (simp add: dec_of_text_def read_exponent_def)
qed

lemma whole_text_loses_zeros:
  assumes "0 < n" and "n mod 10 = 0"
  shows "\<exists>v. py_float (fmt_decimal (Dec (int n) 0)) = Inr v \<and> v \<le> real n / 10"
proof -
  have n0: "0 < int n" "0 \<le> (0 :: int)" using assms(1) by simp_all
  obtain m j where m: "py_float (rstrip_char CHR ''.'' (rstrip_char CHR ''0'' (dec_format (Dec (int n) 0)))) = Inr (real m)"
    "dec_value (Dec (int n) 0) = real m * 10 ^ j" "m mod 10 \<noteq> 0" "rstrip_char CHR ''.'' (rstrip_char CHR ''0'' (dec_format (Dec (int n) 0))) \<noteq> []"
    by (rule stripped_whole [OF n0])
  have "n = m * 10 ^ j" using m(2) by (simp add: dec_value_def scale10_def) (metis of_nat_eq_iff of_nat_mult of_nat_numeral of_nat_power)
  then obtain i where i: "j = Suc i" using assms(2) m(3) by (cases j) auto
  have "real m * 10 \<le> real m * 10 ^ j" by (intro mult_left_mono) (simp_all add: i)
  then have "real m \<le> real n / 10" using \<open>n = m * 10 ^ j\<close> by simp
  with m(1,4) show ?thesis by (simp add: fmt_decimal_def Let_def)
qed


lemma whole_normalized:
  assumes "0 < n" and "n < 10 ^ 28" and "str_strip (str_upper symbol) \<noteq> []"
    and "dict_get (cl_lots c) (str_strip (str_upper symbol)) = Some l" and "lt_step l = Dec 1 (- int k)" and "dec_value (lt_min l) \<le> real n"
    and "dec_of_text price = Some limit" and "0 < dc_coeff limit \<longrightarrow> \<not> dec_less (dec_mult (Dec (int n) 0) limit) (lt_amt l)"
  shows "normalize_order_qty x symbol side (fmt_float_text (real n)) price c = (c, Inr (Some (fmt_decimal (Dec (int n) 0))))"
proof -
  have n0: "0 < dc_coeff (Dec (int n) 0)" using assms(1) by simp
  have step: "quantize_down (Dec (int n) 0) (lt_step l) = Dec (int n) 0" using quantize_whole [OF assms(1,2)] assms(5) by simp
  have nv: "dec_value (Dec (int n) 0) = real n" by (simp add: dec_value_def scale10_def)
  then have "\<not> dec_less (Dec (int n) 0) (lt_min l)" using assms(6) by (simp add: dec_less_def)
  then have min: "fit_minimum strict l (Dec (int n) 0) = Some (Dec (int n) 0)" for strict by (simp add: fit_minimum_def step)
  have notional: "fit_notional strict l limit (Dec (int n) 0) = Some (Dec (int n) 0)" for strict using assms(8) by (auto simp: fit_notional_def)
  have "\<not> inflated (Dec (int n) 0) limit (Dec (int n) 0)"
  proof (cases "0 < dc_coeff limit")
    case True
    let ?p = "dec_mult (Dec (int n) 0) limit"
    have p: "0 < dc_coeff ?p" using dec_mult_near(2) [OF n0 True] .
    then have one: "dec_value ?p / dec_value ?p = 1" using dec_value_pos [of ?p] by (simp del: dec_value_pos)
    have "dec_value (dec_divide ?p ?p) \<le> 1 * (1 + ROUNDING)" using near_bounds [OF dec_divide_near(1) [OF p p]] by (simp only: one)
    with rounding_small(4) show ?thesis by (simp add: inflated_def Let_def)
  qed (simp add: inflated_def Let_def)
  then have "fit_lot (cl_category c) side l limit (Dec (int n) 0) = Some (Dec (int n) 0)"
    using n0 by (simp add: fit_lot_def min notional Let_def)
  moreover have "get_lot_filters x symbol c = (c, Inr (Some l))" using assms(3,4) by (simp add: get_lot_filters_def)
  ultimately show ?thesis using assms(1,7) by (simp add: normalize_order_qty_def fmt_float_text_whole dec_of_text_whole)
qed

text \<open>A coin that is traded in whole units, from one.\<close>

definition sample_lot :: lot where
  "sample_lot = \<lparr>lt_step = Dec 1 0, lt_min = Dec 1 0, lt_amt = Dec 1 0\<rparr>"

definition sample_client :: client where
  "sample_client = \<lparr>cl_category = ''linear'', cl_offset = 0, cl_lots = [(''DOGEUSDT'', sample_lot)], cl_log = []\<rparr>"

definition sample_exchange :: exchange where
  "sample_exchange = \<lparr>ex_net = (\<lambda>_. Reply (JObj [(''retCode'', JNum 0)])), ex_clock = (\<lambda>_. (0, 0)), ex_str = (\<lambda>_. []), ex_float_text = (\<lambda>_. [])\<rparr>"

lemma sample_client_simps [simp]: "dict_get (cl_lots sample_client) ''DOGEUSDT'' = Some sample_lot" "lt_step sample_lot = Dec 1 (- int 0)"
  "dec_value (lt_min sample_lot) = 1" "lots_ok sample_client"
  by (simp_all add: sample_client_def sample_lot_def dec_value_def scale10_def lots_ok_def lot_ok_def)

lemma sample_symbol [simp]: "str_strip (str_upper ''DOGEUSDT'') = ''DOGEUSDT''"
  by (simp add: str_eval py_space_def upper_char_def)

lemma zero_price [simp]: "dec_of_text ''0'' = Some (Dec 0 0)"
  using dec_of_text_whole [of 0] by (simp add: nat_digits.simps digit_texts)

section \<open>Properties\<close>

text \<open>
  C19: When the filters known for a symbol are sound and an order's quantity is not refused, its text is a positive
  number for the exchange. A sale in the spot market is never for more than was asked, and, whenever a positive
  price is given, no order is for more than three times the quantity asked for, both up to the rounding of the
  arithmetic. (Nothing is claimed of the steps and minima of the exchange: the text can lose the zeros of a whole
  quantity.)
\<close>

theorem sent_quantity_bounded:
  assumes "lots_ok c" and "dec_of_text qty = Some asked" and "dec_of_text price = Some limit"
    and "normalize_order_qty x symbol side qty price c = (c', Inr (Some t))"
  shows "\<exists>v. py_float t = Inr v \<and> 0 < v
    \<and> (cl_category c = ''spot'' \<longrightarrow> str_strip (str_upper side) = ''SELL'' \<longrightarrow> v \<le> dec_value asked * (1 + SLACK))
    \<and> (0 < dec_value limit \<longrightarrow> v \<le> 3 * dec_value asked * (1 + SLACK))"
proof -
  obtain c1 res where f: "get_lot_filters x symbol c = (c1, res)" by (cases "get_lot_filters x symbol c")
  have cat: "cl_category c1 = cl_category c" by (rule filters_add [OF f])
  have a0: "0 < dc_coeff asked" using assms(2-4) by (auto simp: normalize_order_qty_def f split: if_splits)
  then have v0: "0 < dec_value asked" by simp
  consider "t = fmt_decimal asked" | l d where "res = Inr (Some l)" "fit_lot (cl_category c) side l limit asked = Some d" "t = fmt_decimal d"
    using assms(2-4) a0 cat by (auto simp: normalize_order_qty_def f split: sum.splits option.splits)
  then show ?thesis
  proof cases
    case 1
    have "dec_value asked * 1 \<le> dec_value asked * (1 + SLACK)" using v0 by (intro mult_left_mono) (simp_all add: SLACK_def)
    moreover obtain v where "py_float t = Inr v" "0 < v" "v \<le> dec_value asked" using fmt_decimal_reads [OF a0] 1 by blast
    ultimately show ?thesis using v0 by (intro exI [of _ v] conjI impI) (assumption | linarith)+
  next
    case 2
    note bounds = fit_lot_bounds [OF filters_ok(2) [OF assms(1) f 2(1)] a0 2(2)]
    from fmt_decimal_reads [OF bounds(1)] 2(3) bounds(2,3) show ?thesis by fastforce
  qed
qed

theorem sent_quantity_bounded_witness:
  "\<exists>v. py_float (fmt_decimal (Dec 125 0)) = Inr v \<and> 0 < v \<and> v \<le> 3 * 125 * (1 + SLACK)"
proof -
  have number: "dec_value (Dec (int k) 0) = real k" for k by (simp add: dec_value_def scale10_def)
  have price: "dec_of_text ''2'' = Some (Dec 2 0)" using dec_of_text_whole [of 2] by (simp add: nat_digits.simps digit_texts)
  have "dec_mult (Dec 125 0) (Dec 2 0) = Dec 250 0" by code_simp
  then have "\<not> dec_less (dec_mult (Dec (int 125) 0) (Dec 2 0)) (lt_amt sample_lot)"
    using number [of 250] number [of 1] by (simp add: dec_less_def sample_lot_def)
  then have "normalize_order_qty x ''DOGEUSDT'' ''Sell'' (fmt_float_text (real 125)) ''2'' sample_client
      = (sample_client, Inr (Some (fmt_decimal (Dec (int 125) 0))))" for x
    by (intro whole_normalized [where l = sample_lot and k = 0 and limit = "Dec 2 0"]) (simp_all add: price)
  moreover have "dec_of_text (fmt_float_text (real 125)) = Some (Dec (int 125) 0)"
    by (subst fmt_float_text_whole) (simp, rule dec_of_text_whole)
  moreover have "0 < dec_value (Dec 2 0)" "dec_value (Dec 125 0) = 125" using number [of 2] number [of 125] by simp_all
  ultimately show ?thesis
    using price sent_quantity_bounded [of sample_client "fmt_float_text (real 125)" "Dec (int 125) 0" "''2''" "Dec 2 0" sample_exchange "''DOGEUSDT''" "''Sell''"]
    by auto
qed

text \<open>
  C20: A whole quantity that ends in a zero is sent for at most a tenth of it: the zeros at its end are removed
  like zeros behind the point. A position of 150 coins is closed by an order for 15.
\<close>

theorem whole_quantities_lose_zeros:
  assumes "0 < n" and "n mod 10 = 0" and "n < 10 ^ 28" and "str_strip (str_upper symbol) \<noteq> []"
    and "dict_get (cl_lots c) (str_strip (str_upper symbol)) = Some l" and "lt_step l = Dec 1 (- int k)" and "dec_value (lt_min l) \<le> real n"
    and "dec_of_text price = Some limit" and "0 < dc_coeff limit \<longrightarrow> \<not> dec_less (dec_mult (Dec (int n) 0) limit) (lt_amt l)"
  shows "\<exists>r rest t v. cl_log (fst (place_order x symbol side (fmt_float_text (real n)) price link tif order_type c)) = cl_log c @ r # rest
    \<and> rq_path r = ''/v5/order/create'' \<and> json_key (rq_data r) ''qty'' = JStr t \<and> py_float t = Inr v \<and> v \<le> real n / 10"
proof -
  let ?t = "fmt_decimal (Dec (int n) 0)"
  obtain c' res where r: "request_json x ''POST'' ''/v5/order/create'' (order_body c symbol side ?t price link tif order_type) True True c = (c', res)"
    by (cases "request_json x ''POST'' ''/v5/order/create'' (order_body c symbol side ?t price link tif order_type) True True c")
  have "?t \<noteq> []" by (simp add: fmt_decimal_def Let_def)
  then have p: "fst (place_order x symbol side (fmt_float_text (real n)) price link tif order_type c) = c'"
    using whole_normalized [OF assms(1,3-9), of x side] r by (simp add: place_order_def)
  from request_adds [OF r] obtain rs where rs: "cl_log c' = cl_log c @ rs" "rs \<noteq> []" "rq_path (hd rs) = ''/v5/order/create''"
      "rq_data (hd rs) = order_body c symbol side ?t price link tif order_type" by fastforce
  obtain v where v: "py_float ?t = Inr v" "v \<le> real n / 10" using whole_text_loses_zeros [OF assms(1,2)] by blast
  have "json_key (rq_data (hd rs)) ''qty'' = JStr ?t" by (simp add: rs(4) order_body_def json_key_def)
  with rs v show ?thesis unfolding p by (intro exI [of _ "hd rs"] exI [of _ "tl rs"] exI [of _ ?t] exI [of _ v]) simp
qed

theorem whole_quantities_lose_zeros_witness:
  "\<exists>r rest t v. cl_log (fst (place_order sample_exchange ''DOGEUSDT'' ''Sell'' (fmt_float_text (real 150)) ''0'' ''l'' ''GTC'' ''Market'' sample_client)) = r # rest
    \<and> json_key (rq_data r) ''qty'' = JStr t \<and> py_float t = Inr v \<and> v \<le> 15"
proof -
  have "cl_log sample_client = []" by (simp add: sample_client_def)
  with whole_quantities_lose_zeros [of 150 "''DOGEUSDT''" sample_client sample_lot 0 "''0''" "Dec 0 0" sample_exchange "''Sell''" "''l''" "''GTC''" "''Market''"]
  show ?thesis by (auto simp: divide_simps)
qed

text \<open>
  The text the trading process makes of a quantity or a price stands for the number rounded to eight
  decimals, as long as that is positive.
\<close>

theorem fmt_float_reads_back:
  assumes "0 < fmt_float v"
  shows "py_float (fmt_float_text v) = Inr (fmt_float v)"
proof -
  have "0 < round_half_even (v * 10 ^ 8)" using assms by (simp add: fmt_float_def py_round_def zero_less_divide_iff)
  then have "py_float (fmt_float_text v) = Inr (dec_value (Dec (round_half_even (v * 10 ^ 8)) (- 8)))"
    unfolding fmt_float_text_def by (rule stripped_fraction(1)) simp
  then show ?thesis by (simp add: dec_value_def scale10_def fmt_float_def py_round_def)
qed

theorem fmt_float_reads_back_witness: "py_float (fmt_float_text (5 / 2)) = Inr (5 / 2)"
proof -
  have "fmt_float (5 / 2) = 5 / 2" using round_half_even_of_int [of 250000000] by (simp add: fmt_float_def py_round_def)
  with fmt_float_reads_back [of "5 / 2"] show ?thesis by simp
qed

end
