(* ===== verification/Backtest.thy ===== *)
theory Backtest
  imports Feature_Engine Position_Sizer Futures_Paper Spot_Ledger
begin

text \<open>
  The backtester (\<open>backtest/backtest_runner.py\<close>, \<open>backtest/backtest_result.py\<close>): stored candles are replayed, one
  position at a time is opened and closed in memory, and the closed trades are summed up.

  Floats are exact reals. The environment, the clock and the texts of times are arguments, the closing times,
  which are only displayed, one text for a whole run; the random trade identifiers, which nothing reads, and the log
  lines are left out. The lemmas show that the drawdown is the largest fall of the equity curve, that a result adds up
  the trades that were made, that the holding time is never used, and that the profits are those of the paper
  engines.
\<close>

section \<open>Statistics\<close>

text \<open>The loop over the equity curve: the peak so far and the largest fall from it.\<close>

definition drawdown_step :: "real \<times> real \<Rightarrow> real \<Rightarrow> real \<times> real" where
  "drawdown_step pd val =
     (let peak = (if val > fst pd then val else fst pd); dd = peak - val in
      (peak, if dd > snd pd then dd else snd pd))"

definition calc_max_drawdown :: "real list \<Rightarrow> real \<times> real" where
  "calc_max_drawdown curve =
     (if length curve < 2 then (0, 0)
      else
        let initial = (if hd curve \<noteq> 0 then hd curve else 1);
            max_dd = snd (foldl drawdown_step (hd curve, 0) curve) in
        (max_dd, if initial \<noteq> 0 then max_dd / \<bar>initial\<bar> * 100 else 0))"

definition calc_sharpe :: "real list \<Rightarrow> real" where
  "calc_sharpe pnls =
     (if length pnls < 5 then 0
      else
        let n = real (length pnls); mean = sum_list pnls / n;
            variance = sum_list (map (\<lambda>x. (x - mean)\<^sup>2) pnls) / n in
        if variance \<le> 0 then 0 else mean / sqrt variance * sqrt 252)"

text \<open>\<open>Infinite\<close> stands for \<open>float('inf')\<close>.\<close>

datatype factor = Finite real | Infinite

definition calc_profit_factor :: "real list \<Rightarrow> real list \<Rightarrow> factor" where
  "calc_profit_factor wins losses =
     (let total_wins = sum_list wins; total_losses = sum_list losses in
      if total_losses = 0 then (if total_wins > 0 then Infinite else Finite 0)
      else if \<bar>total_losses\<bar> = 0 then Infinite
      else Finite (total_wins / \<bar>total_losses\<bar>))"

section \<open>Settings\<close>

datatype bt_kind = Futures | Spot

definition bt_scope :: "bt_kind \<Rightarrow> string" where
  "bt_scope k = (case k of Futures \<Rightarrow> ''futures'' | Spot \<Rightarrow> ''spot'')"

definition bt_category :: "bt_kind \<Rightarrow> string" where
  "bt_category k = (case k of Futures \<Rightarrow> ''linear'' | Spot \<Rightarrow> ''spot'')"

definition imbalance_threshold :: "bt_kind \<Rightarrow> real" where
  "imbalance_threshold k = (case k of Futures \<Rightarrow> 65 / 100 | Spot \<Rightarrow> 67 / 100)"

record bt_options =
  bo_balance :: "real option"
  bo_risk_pct :: "real option"
  bo_atr_sl_mult :: "real option"
  bo_atr_tp_mult :: "real option"
  bo_max_pos_pct :: "real option"
  bo_spike_bps :: "real option option"
  bo_hold_timeout_h :: "real option option"

record bt_config =
  bt_runner :: bt_kind
  bt_symbol :: string
  bt_interval :: string
  bt_days_back :: int
  bt_balance :: real
  bt_sizer :: position_sizer
  bt_spike_bps :: real
  bt_hold_timeout_h :: real

type_synonym environment = "string \<Rightarrow> string option"

definition env_float :: "environment \<Rightarrow> string \<Rightarrow> string \<Rightarrow> py_error + real" where
  "env_float env name preset = py_float (case env name of None \<Rightarrow> preset | Some t \<Rightarrow> t)"

definition given_or :: "real option \<Rightarrow> py_error + real \<Rightarrow> py_error + real" where
  "given_or v preset = (case v of Some x \<Rightarrow> Inr x | None \<Rightarrow> preset)"

text \<open>A keyword that is not passed at all gets the preset of the spot runner; one passed as \<open>None\<close> does not.\<close>

definition spot_keyword :: "bt_kind \<Rightarrow> real option option \<Rightarrow> py_error + real \<Rightarrow> py_error + real option" where
  "spot_keyword k v preset =
     (case v of Some x \<Rightarrow> Inr x | None \<Rightarrow> if k = Spot then map_sum id Some preset else Inr None)"

definition new_backtest :: "bt_kind \<Rightarrow> string \<Rightarrow> string \<Rightarrow> int \<Rightarrow> bt_options \<Rightarrow> environment \<Rightarrow> py_error + bt_config" where
  "new_backtest k symbol interval days opts env =
     (case spot_keyword k (bo_spike_bps opts) (env_float env ''SPOT_SPIKE_BPS'' ''80'') of Inl e \<Rightarrow> Inl e | Inr spike_opt \<Rightarrow>
      case spot_keyword k (bo_hold_timeout_h opts) (env_float env ''SPOT_HOLD_TIMEOUT_H'' ''8'') of Inl e \<Rightarrow> Inl e | Inr hold_opt \<Rightarrow>
      case given_or (bo_balance opts) (env_float env ''FUTURES_BALANCE'' ''10000'') of Inl e \<Rightarrow> Inl e | Inr balance \<Rightarrow>
      case given_or (bo_risk_pct opts) (map_sum id (\<lambda>x. x / 100) (env_float env ''FUTURES_RISK_PCT'' ''1.0'')) of Inl e \<Rightarrow> Inl e | Inr risk \<Rightarrow>
      case given_or (bo_atr_sl_mult opts) (env_float env ''FUTURES_ATR_SL_MULT'' ''1.5'') of Inl e \<Rightarrow> Inl e | Inr sl_mult \<Rightarrow>
      case given_or (bo_atr_tp_mult opts) (env_float env ''FUTURES_ATR_TP_MULT'' ''2.5'') of Inl e \<Rightarrow> Inl e | Inr tp_mult \<Rightarrow>
      case given_or (bo_max_pos_pct opts) (map_sum id (\<lambda>x. x / 100) (env_float env ''FUTURES_MAX_POS_PCT'' ''15'')) of Inl e \<Rightarrow> Inl e | Inr max_pos \<Rightarrow>
      case given_or spike_opt (env_float env ''FUTURES_SPIKE_BPS'' ''80'') of Inl e \<Rightarrow> Inl e | Inr spike \<Rightarrow>
      case given_or hold_opt (env_float env ''FUTURES_HOLD_TIMEOUT_H'' ''4'') of Inl e \<Rightarrow> Inl e | Inr hold \<Rightarrow>
      Inr \<lparr>bt_runner = k, bt_symbol = symbol, bt_interval = interval, bt_days_back = days, bt_balance = balance,
        bt_sizer = \<lparr>risk_pct = risk, atr_sl_mult = sl_mult, atr_tp_mult = tp_mult, max_position_pct = max_pos\<rparr>,
        bt_spike_bps = spike, bt_hold_timeout_h = hold\<rparr>)"

section \<open>Positions\<close>

record bt_position =
  bp_symbol :: string
  bp_side :: string
  bp_entry :: real
  bp_qty :: real
  bp_entry_fee :: real
  bp_stop_loss :: real
  bp_take_profit :: real
  bp_open_time :: string

record bt_exit =
  be_side :: string
  be_entry :: real
  be_exit :: real
  be_qty :: real
  be_net_pnl :: real
  be_reason :: string
  be_open_time :: string

text \<open>The futures runner keeps no fee of the entry; the spot runner buys only.\<close>

definition open_trade :: "bt_kind \<Rightarrow> string \<Rightarrow> string \<Rightarrow> real \<Rightarrow> real \<Rightarrow> real \<Rightarrow> real \<Rightarrow> string \<Rightarrow> bt_position option \<Rightarrow> bt_position option" where
  "open_trade k symbol side entry qty sl tp open_time p =
     (if p \<noteq> None then p
      else case k of
          Futures \<Rightarrow> Some \<lparr>bp_symbol = symbol, bp_side = side, bp_entry = entry, bp_qty = qty, bp_entry_fee = 0, bp_stop_loss = sl,
            bp_take_profit = tp, bp_open_time = open_time\<rparr>
        | Spot \<Rightarrow>
            if side \<noteq> ''long'' then None
            else Some \<lparr>bp_symbol = symbol, bp_side = ''long'', bp_entry = entry, bp_qty = qty, bp_entry_fee = entry * qty * (1 / 1000),
              bp_stop_loss = sl, bp_take_profit = tp, bp_open_time = open_time\<rparr>)"

definition level_hit :: "string \<Rightarrow> real \<Rightarrow> real \<Rightarrow> real \<Rightarrow> string option" where
  "level_hit side sl tp price =
     (if side = ''long'' then (if price \<le> sl then Some ''sl_hit'' else if price \<ge> tp then Some ''tp_hit'' else None)
      else (if price \<ge> sl then Some ''sl_hit'' else if price \<le> tp then Some ''tp_hit'' else None))"

definition net_pnl_at :: "bt_kind \<Rightarrow> bt_position \<Rightarrow> real \<Rightarrow> real" where
  "net_pnl_at k p price =
     (case k of
        Futures \<Rightarrow>
          (if bp_side p = ''long'' then (price - bp_entry p) * bp_qty p else (bp_entry p - price) * bp_qty p) - price * bp_qty p * (55 / 100000)
      | Spot \<Rightarrow> price * bp_qty p - price * bp_qty p * (1 / 1000) - (bp_entry p * bp_qty p + bp_entry_fee p))"

definition tick :: "bt_kind \<Rightarrow> string \<Rightarrow> real \<Rightarrow> bt_position option \<Rightarrow> bt_position option \<times> bt_exit list" where
  "tick k symbol price p =
     (case p of
        None \<Rightarrow> (p, [])
      | Some q \<Rightarrow>
          if bp_symbol q \<noteq> symbol then (p, [])
          else (case level_hit (case k of Futures \<Rightarrow> bp_side q | Spot \<Rightarrow> ''long'') (bp_stop_loss q) (bp_take_profit q) price of
              None \<Rightarrow> (p, [])
            | Some why \<Rightarrow>
                (None, [\<lparr>be_side = (case k of Futures \<Rightarrow> bp_side q | Spot \<Rightarrow> ''long''), be_entry = bp_entry q, be_exit = price, be_qty = bp_qty q,
                   be_net_pnl = net_pnl_at k q price, be_reason = why, be_open_time = bp_open_time q\<rparr>])))"

definition has_open_position :: "string \<Rightarrow> bt_position option \<Rightarrow> bool" where
  "has_open_position symbol p = (case p of None \<Rightarrow> False | Some q \<Rightarrow> bp_symbol q = symbol)"

section \<open>The loop over the candles\<close>

record bt_trade =
  bd_open_time :: string
  bd_close_time :: string
  bd_side :: string
  bd_entry :: real
  bd_exit :: real
  bd_pnl :: real
  bd_reason :: string

record bt_state =
  st_equity :: real
  st_curve :: "real list"
  st_trades :: "bt_trade list"
  st_highs :: "real list"
  st_lows :: "real list"
  st_closes :: "real list"
  st_position :: "bt_position option"

definition MIN_CANDLES_FOR_TRADE :: nat where
  "MIN_CANDLES_FOR_TRADE = 20"

definition start_state :: "bt_config \<Rightarrow> bt_state" where
  "start_state c = \<lparr>st_equity = bt_balance c, st_curve = [bt_balance c], st_trades = [], st_highs = [], st_lows = [], st_closes = [],
     st_position = None\<rparr>"

text \<open>A column without a value is no number.\<close>

definition row_float :: "real option \<Rightarrow> py_error + real" where
  "row_float v = (case v of None \<Rightarrow> Inl TypeError | Some x \<Rightarrow> Inr x)"

definition row_numbers :: "price_row \<Rightarrow> py_error + (real \<times> real \<times> real)" where
  "row_numbers r =
     (case row_float (ph_open r) of Inl e \<Rightarrow> Inl e | Inr x \<Rightarrow>
      case row_float (ph_high r) of Inl e \<Rightarrow> Inl e | Inr h \<Rightarrow>
      case row_float (ph_low r) of Inl e \<Rightarrow> Inl e | Inr l \<Rightarrow>
      case row_float (ph_close r) of Inl e \<Rightarrow> Inl e | Inr c \<Rightarrow>
      case row_float (ph_volume r) of Inl e \<Rightarrow> Inl e | Inr v \<Rightarrow> Inr (h, l, c))"

text \<open>A closed trade: the equity moves by the exact profit, the list keeps it rounded.\<close>

definition note_exit :: "string \<Rightarrow> bt_state \<Rightarrow> bt_exit \<Rightarrow> bt_state" where
  "note_exit now s x =
     s\<lparr>st_equity := st_equity s + be_net_pnl x, st_curve := st_curve s @ [st_equity s + be_net_pnl x],
       st_trades := st_trades s @ [\<lparr>bd_open_time = be_open_time x, bd_close_time = now, bd_side = be_side x, bd_entry = be_entry x,
         bd_exit = be_exit x, bd_pnl = py_round 4 (be_net_pnl x), bd_reason = be_reason x\<rparr>]\<rparr>"

definition take_candle :: "bt_config \<Rightarrow> string \<Rightarrow> real \<times> real \<times> real \<Rightarrow> bt_state \<Rightarrow> bt_state" where
  "take_candle cf now n s =
     (let (h, l, c) = n;
          s = s\<lparr>st_highs := st_highs s @ [h], st_lows := st_lows s @ [l], st_closes := st_closes s @ [c]\<rparr>;
          (p, outs) = tick (bt_runner cf) (bt_symbol cf) c (st_position s) in
      foldl (note_exit now) (s\<lparr>st_position := p\<rparr>) outs)"

definition ref_price :: "real list \<Rightarrow> real" where
  "ref_price closes = (if length closes \<ge> 6 then closes ! (length closes - 6) else hd closes)"

definition signal_side :: "bt_config \<Rightarrow> real \<Rightarrow> string option" where
  "signal_side cf spike_bps =
     (let imb = imbalance_threshold (bt_runner cf) in
      if spike_bps < - bt_spike_bps cf \<and> imb > 1 / 2 then Some ''long''
      else if spike_bps > bt_spike_bps cf \<and> imb < 1 / 2 then Some ''short'' else None)"

text \<open>Side, levels and quantity of a new position.\<close>

definition entry_plan :: "bt_config \<Rightarrow> real \<Rightarrow> bt_state \<Rightarrow> py_error + (string \<times> real \<times> real \<times> real) option" where
  "entry_plan cf c s =
     (if length (st_closes s) < MIN_CANDLES_FOR_TRADE \<or> has_open_position (bt_symbol cf) (st_position s) then Inr None
      else case calc_atr (last_n 50 (st_highs s)) (last_n 50 (st_lows s)) (last_n 50 (st_closes s)) 14 of
          Inl e \<Rightarrow> Inl e
        | Inr atr \<Rightarrow>
            if atr \<le> 0 \<or> length (st_closes s) < 5 then Inr None
            else
              let ref = ref_price (st_closes s) in
              if ref \<le> 0 then Inr None
              else case signal_side cf ((c - ref) / ref * 10000) of
                  None \<Rightarrow> Inr None
                | Some side \<Rightarrow>
                    (case calc_sl_tp (bt_sizer cf) c atr side None None of
                       Inl e \<Rightarrow> Inl e
                     | Inr (sl, tp) \<Rightarrow>
                         (case calc_qty (bt_sizer cf) (st_equity s) c sl False 0 0 0 of
                            Inl e \<Rightarrow> Inl e
                          | Inr qty \<Rightarrow> if qty \<le> 0 then Inr None else Inr (Some (side, sl, tp, qty)))))"

definition candle_step :: "bt_config \<Rightarrow> string \<Rightarrow> (int \<Rightarrow> string) \<Rightarrow> price_row \<Rightarrow> bt_state \<Rightarrow> py_error + bt_state" where
  "candle_step cf now iso_text r s =
     (case row_numbers r of
        Inl e \<Rightarrow> Inl e
      | Inr (h, l, c) \<Rightarrow>
          let s = take_candle cf now (h, l, c) s in
          case entry_plan cf c s of
            Inl e \<Rightarrow> Inl e
          | Inr None \<Rightarrow> Inr s
          | Inr (Some (side, sl, tp, qty)) \<Rightarrow>
              Inr (s\<lparr>st_position := open_trade (bt_runner cf) (bt_symbol cf) side c qty sl tp (iso_text (ph_open_time_ms r)) (st_position s)\<rparr>))"

fun simulate :: "bt_config \<Rightarrow> string \<Rightarrow> (int \<Rightarrow> string) \<Rightarrow> price_row list \<Rightarrow> bt_state \<Rightarrow> py_error + bt_state" where
  "simulate cf now iso_text [] s = Inr s"
| "simulate cf now iso_text (r # rs) s =
     (case candle_step cf now iso_text r s of Inl e \<Rightarrow> Inl e | Inr s \<Rightarrow> simulate cf now iso_text rs s)"

section \<open>The result\<close>

record bt_result =
  rs_symbol :: string
  rs_scope :: string
  rs_interval :: string
  rs_start :: string
  rs_end :: string
  rs_candles :: nat
  rs_trades :: nat
  rs_wins :: nat
  rs_losses :: nat
  rs_win_rate :: real
  rs_total_pnl :: real
  rs_max_drawdown :: real
  rs_max_drawdown_pct :: real
  rs_sharpe :: real
  rs_avg_win :: real
  rs_avg_loss :: real
  rs_profit_factor :: factor
  rs_list :: "bt_trade list"

definition mean_or_zero :: "real list \<Rightarrow> real" where
  "mean_or_zero xs = (if xs = [] then 0 else sum_list xs / real (length xs))"

definition build_result :: "bt_config \<Rightarrow> nat \<Rightarrow> string \<Rightarrow> string \<Rightarrow> bt_trade list \<Rightarrow> real list \<Rightarrow> bt_result" where
  "build_result cf candles start end_date trades curve =
     (let pnls = map bd_pnl trades; wins = filter (\<lambda>x. x > 0) pnls; losses = filter (\<lambda>x. x \<le> 0) pnls;
          (max_dd, max_dd_pct) = calc_max_drawdown curve in
      \<lparr>rs_symbol = bt_symbol cf, rs_scope = bt_scope (bt_runner cf), rs_interval = bt_interval cf, rs_start = start, rs_end = end_date, rs_candles = candles, rs_trades = length trades,
       rs_wins = length wins, rs_losses = length losses,
       rs_win_rate = py_round 2 (if length trades > 0 then real (length wins) / real (length trades) * 100 else 0),
       rs_total_pnl = py_round 4 (sum_list pnls), rs_max_drawdown = py_round 4 max_dd, rs_max_drawdown_pct = py_round 4 max_dd_pct,
       rs_sharpe = py_round 4 (calc_sharpe pnls), rs_avg_win = py_round 4 (mean_or_zero wins), rs_avg_loss = py_round 4 (mean_or_zero losses),
       rs_profit_factor = calc_profit_factor wins losses, rs_list = trades\<rparr>)"

definition empty_result :: "bt_config \<Rightarrow> bt_result" where
  "empty_result cf =
     \<lparr>rs_symbol = bt_symbol cf, rs_scope = bt_scope (bt_runner cf), rs_interval = bt_interval cf, rs_start = [], rs_end = [], rs_candles = 0, rs_trades = 0, rs_wins = 0, rs_losses = 0,
      rs_win_rate = 0, rs_total_pnl = 0, rs_max_drawdown = 0, rs_max_drawdown_pct = 0, rs_sharpe = 0, rs_avg_win = 0, rs_avg_loss = 0,
      rs_profit_factor = Finite 0, rs_list = []\<rparr>"

text \<open>The rows of the table, \<open>None\<close> when it cannot be read.\<close>

definition load_backtest_candles :: "bt_config \<Rightarrow> real \<Rightarrow> price_row list option \<Rightarrow> price_row list" where
  "load_backtest_candles cf now_s table =
     (case table of
        None \<Rightarrow> []
      | Some rows \<Rightarrow>
          sort_key ph_open_time_ms (filter (\<lambda>r. ph_symbol r = bt_symbol cf \<and> ph_category r = bt_category (bt_runner cf)
            \<and> ph_interval r = bt_interval cf \<and> ph_open_time_ms r \<ge> py_trunc ((now_s - of_int (bt_days_back cf) * 86400) * 1000)) rows))"

definition run_backtest :: "bt_config \<Rightarrow> real \<Rightarrow> string \<Rightarrow> (int \<Rightarrow> string) \<Rightarrow> price_row list option \<Rightarrow> py_error + bt_result" where
  "run_backtest cf now_s now iso_text table =
     (let candles = load_backtest_candles cf now_s table in
      if candles = [] then Inr (empty_result cf)
      else case simulate cf now iso_text candles (start_state cf) of
          Inl e \<Rightarrow> Inl e
        | Inr s \<Rightarrow> Inr (build_result cf (length candles) (iso_text (ph_open_time_ms (hd candles)))
            (iso_text (ph_open_time_ms (List.last candles))) (st_trades s) (st_curve s)))"

section \<open>The drawdown\<close>

text \<open>All falls of the curve, from an earlier point or the same to a later one.\<close>

definition falls :: "real list \<Rightarrow> real set" where
  "falls ys = {ys ! i - ys ! j |i j. i \<le> j \<and> j < length ys}"

lemma falls_snoc: "falls (ys @ [x]) = falls ys \<union> (\<lambda>y. y - x) ` set (ys @ [x])"
proof (intro equalityI subsetI)
  fix d assume "d \<in> falls (ys @ [x])"
  then obtain i j where d: "d = (ys @ [x]) ! i - (ys @ [x]) ! j" "i \<le> j" "j < Suc (length ys)" by (auto simp: falls_def)
  show "d \<in> falls ys \<union> (\<lambda>y. y - x) ` set (ys @ [x])"
  proof (cases "j = length ys")
    case True
    with d have "d = (ys @ [x]) ! i - x" "i < length (ys @ [x])" by simp_all
    then show ?thesis by (metis UnI2 imageI nth_mem)
  next
    case False
    with d have "d = ys ! i - ys ! j" "i \<le> j" "j < length ys" by (simp_all add: nth_append)
    then show ?thesis by (auto simp: falls_def)
  qed
next
  fix d assume "d \<in> falls ys \<union> (\<lambda>y. y - x) ` set (ys @ [x])"
  then show "d \<in> falls (ys @ [x])"
  proof
    assume "d \<in> falls ys"
    then obtain i j where d: "d = ys ! i - ys ! j" "i \<le> j" "j < length ys" by (auto simp: falls_def)
    then have "d = (ys @ [x]) ! i - (ys @ [x]) ! j" by (simp add: nth_append)
    with d show ?thesis unfolding falls_def by (intro CollectI exI [of _ i] exI [of _ j]) simp
  next
    assume "d \<in> (\<lambda>y. y - x) ` set (ys @ [x])"
    then obtain i where "d = (ys @ [x]) ! i - x" "i < length (ys @ [x])" by (metis (no_types, lifting) imageE in_set_conv_nth)
    then show ?thesis unfolding falls_def by (intro CollectI exI [of _ i] exI [of _ "length ys"]) simp
  qed
qed

lemma falls_finite: "finite (falls ys)"
proof -
  have "falls ys \<subseteq> (\<lambda>(i, j). ys ! i - ys ! j) ` ({..<length ys} \<times> {..<length ys})" by (force simp: falls_def)
  then show ?thesis by (rule finite_subset) simp
qed

lemma falls_zero: "ys \<noteq> [] \<Longrightarrow> 0 \<in> falls ys"
  unfolding falls_def by (intro CollectI exI [of _ 0]) simp

lemma Max_minus:
  fixes x :: real
  assumes "finite A" "A \<noteq> {}"
  shows "Max ((\<lambda>y. y - x) ` A) = Max A - x"
proof (rule Max_eqI)
  show "Max A - x \<in> (\<lambda>y. y - x) ` A" using Max_in [OF assms] by blast
qed (use assms in auto)

lemma drawdown_step_max: "drawdown_step (p, d) x = (max p x, max d (max p x - x))"
  by (auto simp: drawdown_step_def Let_def)

lemma drawdown_fold:
  "foldl drawdown_step (b, 0) xs = (Max (set (b # xs)), Max (falls (b # xs)))"
proof (induction xs rule: rev_induct)
  case Nil
  have "falls [b] = {0}" by (auto simp: falls_def)
  then show ?case by simp
next
  case (snoc x xs)
  have top: "Max (set (b # xs @ [x])) = max (Max (set (b # xs))) x"
    using Max_insert [of "set (b # xs)" x] by (simp add: insert_commute max.commute)
  have "falls (b # xs @ [x]) = falls (b # xs) \<union> (\<lambda>y. y - x) ` set (b # xs @ [x])" using falls_snoc [of "b # xs" x] by simp
  moreover have "falls (b # xs) \<noteq> {}" using falls_zero [of "b # xs"] by auto
  ultimately have "Max (falls (b # xs @ [x])) = max (Max (falls (b # xs))) (Max ((\<lambda>y. y - x) ` set (b # xs @ [x])))"
    by (simp add: Max_Un falls_finite del: image_insert)
  then have "Max (falls (b # xs @ [x])) = max (Max (falls (b # xs))) (Max (set (b # xs @ [x])) - x)"
    by (simp only: Max_minus [OF finite_set] list.distinct not_False_eq_True set_empty)
  then show ?case
    unfolding foldl_append foldl.simps snoc.IH drawdown_step_max top by simp
qed

lemma drawdown_first: "drawdown_step (b, 0) b = (b, 0)"
  by (simp add: drawdown_step_def)

text \<open>
  The drawdown of an equity curve, which one pass with a running peak computes, is the largest fall from
  any point of the curve to any later one.
\<close>

theorem drawdown_is_largest_fall:
  assumes "curve \<noteq> []"
  shows "fst (calc_max_drawdown curve) = Max {curve ! i - curve ! j |i j. i \<le> j \<and> j < length curve}"
proof (cases "length curve < 2")
  case True
  with assms obtain b where b: "curve = [b]" by (cases curve) auto
  have "{curve ! i - curve ! j |i j. i \<le> j \<and> j < length curve} = {0}" by (auto simp: b)
  with True show ?thesis by (simp only: calc_max_drawdown_def) simp
next
  case False
  obtain b xs where b: "curve = b # xs" using assms by (cases curve) auto
  have "snd (foldl drawdown_step (b, 0) curve) = Max (falls curve)"
    by (simp add: b drawdown_first drawdown_fold)
  with False show ?thesis by (simp add: calc_max_drawdown_def b falls_def Let_def)
qed

theorem drawdown_is_largest_fall_witness:
  "Max {[100, 120, 90, 110] ! i - [100, 120, 90, 110 :: real] ! j |i j. i \<le> j \<and> j < length [100, 120, 90, 110 :: real]} = 30"
  using drawdown_is_largest_fall [of "[100, 120, 90, 110]"] by (simp add: calc_max_drawdown_def drawdown_step_def)

section \<open>What a run books\<close>

text \<open>The equity after each of the profits.\<close>

fun running :: "real \<Rightarrow> real list \<Rightarrow> real list" where
  "running b [] = [b]"
| "running b (x # xs) = b # running (b + x) xs"

lemma running_snoc: "running b (xs @ [x]) = running b xs @ [b + sum_list xs + x]"
  by (induction xs arbitrary: b) (simp_all add: add.assoc)

text \<open>A trade of the list was a position bought at its entry, closed by one of its levels, for this profit.\<close>

definition booked :: "bt_kind \<Rightarrow> bt_trade \<Rightarrow> real \<Rightarrow> bool" where
  "booked k t net \<longleftrightarrow>
     (\<exists>p. 0 < bp_qty p \<and> bp_side p = ''long'' \<and> bp_entry_fee p = (if k = Spot then bp_entry p * bp_qty p * (1 / 1000) else 0)
        \<and> bd_side t = ''long'' \<and> bd_entry t = bp_entry p \<and> net = net_pnl_at k p (bd_exit t) \<and> bd_pnl t = py_round 4 net
        \<and> level_hit ''long'' (bp_stop_loss p) (bp_take_profit p) (bd_exit t) = Some (bd_reason t))"

definition bought :: "bt_kind \<Rightarrow> bt_position \<Rightarrow> bool" where
  "bought k p \<longleftrightarrow> 0 < bp_qty p \<and> bp_side p = ''long'' \<and> bp_entry_fee p = (if k = Spot then bp_entry p * bp_qty p * (1 / 1000) else 0)"

definition books_ok :: "bt_config \<Rightarrow> bt_state \<Rightarrow> bool" where
  "books_ok cf s \<longleftrightarrow> (\<forall>p. st_position s = Some p \<longrightarrow> bought (bt_runner cf) p)
     \<and> (\<exists>nets. list_all2 (booked (bt_runner cf)) (st_trades s) nets \<and> st_curve s = running (bt_balance cf) nets
          \<and> st_equity s = bt_balance cf + sum_list nets)"

lemma tick_cases:
  assumes "tick k symbol c p = (p', outs)"
  obtains "p' = p" "outs = []"
    | q x why where "p = Some q" "p' = None" "outs = [x]" "be_entry x = bp_entry q" "be_exit x = c" "be_net_pnl x = net_pnl_at k q c"
        "be_reason x = why" "be_side x = (case k of Futures \<Rightarrow> bp_side q | Spot \<Rightarrow> ''long'')"
        "level_hit (case k of Futures \<Rightarrow> bp_side q | Spot \<Rightarrow> ''long'') (bp_stop_loss q) (bp_take_profit q) c = Some why"
  using assms by (auto simp: tick_def split: option.splits if_splits)

lemma take_candle_ok:
  assumes "books_ok cf s"
  shows "books_ok cf (take_candle cf now n s)"
proof -
  obtain h l c where n: "n = (h, l, c)" by (cases n)
  obtain p outs where t: "tick (bt_runner cf) (bt_symbol cf) c (st_position s) = (p, outs)"
    by (cases "tick (bt_runner cf) (bt_symbol cf) c (st_position s)")
  obtain nets where nets: "list_all2 (booked (bt_runner cf)) (st_trades s) nets" "st_curve s = running (bt_balance cf) nets"
      "st_equity s = bt_balance cf + sum_list nets"
    using assms by (auto simp: books_ok_def)
  from t show ?thesis
  proof (cases rule: tick_cases)
    case 1
    with assms show ?thesis by (simp add: take_candle_def n t books_ok_def)
  next
    case (2 q x why)
    from assms 2(1) have q: "bought (bt_runner cf) q" by (simp add: books_ok_def)
    then have side: "(case bt_runner cf of Futures \<Rightarrow> bp_side q | Spot \<Rightarrow> ''long'') = ''long''" by (simp add: bought_def split: bt_kind.split)
    define trade where "trade = \<lparr>bd_open_time = be_open_time x, bd_close_time = now, bd_side = be_side x, bd_entry = be_entry x,
         bd_exit = be_exit x, bd_pnl = py_round 4 (be_net_pnl x), bd_reason = be_reason x\<rparr>"
    have "booked (bt_runner cf) trade (be_net_pnl x)"
      unfolding booked_def using 2 q side by (intro exI [of _ q]) (simp add: trade_def bought_def)
    then have "list_all2 (booked (bt_runner cf)) (st_trades s @ [trade]) (nets @ [be_net_pnl x])"
      using nets(1) by (simp add: list_all2_appendI)
    moreover have "take_candle cf now n s = s\<lparr>st_highs := st_highs s @ [h], st_lows := st_lows s @ [l], st_closes := st_closes s @ [c],
        st_position := None, st_equity := st_equity s + be_net_pnl x, st_curve := st_curve s @ [st_equity s + be_net_pnl x],
        st_trades := st_trades s @ [trade]\<rparr>"
      using 2(2,3) by (simp add: take_candle_def n t note_exit_def trade_def)
    ultimately show ?thesis
      using nets by (auto simp: books_ok_def running_snoc intro!: exI [of _ "nets @ [be_net_pnl x]"])
  qed
qed

text \<open>With the constant imbalance only purchases are ever planned.\<close>

lemma entry_plan_long: "entry_plan cf c s = Inr (Some (side, sl, tp, qty)) \<Longrightarrow> side = ''long'' \<and> 0 < qty"
  by (auto simp: entry_plan_def signal_side_def imbalance_threshold_def Let_def
      split: if_splits sum.splits option.splits prod.splits bt_kind.splits)

lemma candle_step_ok:
  assumes "books_ok cf s" and "candle_step cf now iso_text r s = Inr s'"
  shows "books_ok cf s'"
proof -
  obtain n where n: "row_numbers r = Inr n" using assms(2) by (cases "row_numbers r") (simp_all add: candle_step_def)
  obtain h l c where hlc: "n = (h, l, c)" by (cases n)
  define s1 where "s1 = take_candle cf now n s"
  have s1: "books_ok cf s1" unfolding s1_def by (rule take_candle_ok [OF assms(1)])
  consider "s' = s1"
    | side sl tp qty where "entry_plan cf c s1 = Inr (Some (side, sl, tp, qty))"
        "s' = s1\<lparr>st_position := open_trade (bt_runner cf) (bt_symbol cf) side c qty sl tp (iso_text (ph_open_time_ms r)) (st_position s1)\<rparr>"
    using assms(2) unfolding candle_step_def n hlc sum.case prod.case Let_def s1_def [unfolded hlc, symmetric]
    by (auto split: sum.splits option.splits)
  then show ?thesis
  proof cases
    case 2
    from entry_plan_long [OF 2(1)] s1 show ?thesis
      by (auto simp: 2(2) books_ok_def open_trade_def bought_def split: bt_kind.splits if_splits)
  qed (use s1 in simp)
qed

lemma simulate_ok: "simulate cf now iso_text rs s = Inr s' \<Longrightarrow> books_ok cf s \<Longrightarrow> books_ok cf s'"
  by (induction rs arbitrary: s) (auto split: sum.splits dest: candle_step_ok)

lemma start_ok: "books_ok cf (start_state cf)"
  by (auto simp: books_ok_def start_state_def intro!: exI [of _ "[]"])

lemma running_nonempty [simp]: "running b xs \<noteq> []"
  by (cases xs) simp_all

text \<open>
  Whatever the candles are, a backtest that ends reports trades that were all purchases, each closed by
  its stop or its target at the close of a candle: the short side and the holding time are never used. The
  profits it lists are those of the trades, rounded one by one; wins and losses are all trades; and the
  drawdown it reports is that of the equity after each exact profit.
\<close>

theorem backtest_reports_its_trades:
  assumes "run_backtest cf now_s now iso_text table = Inr r"
  shows "\<exists>nets. list_all2 (booked (bt_runner cf)) (rs_list r) nets \<and> rs_trades r = length nets \<and> rs_wins r + rs_losses r = length nets
     \<and> rs_total_pnl r = py_round 4 (sum_list (map (py_round 4) nets))
     \<and> rs_max_drawdown r = py_round 4 (fst (calc_max_drawdown (running (bt_balance cf) nets)))"
proof (cases "load_backtest_candles cf now_s table = []")
  case True
  with assms have "r = empty_result cf" by (simp add: run_backtest_def)
  moreover have "py_round 4 0 = 0" by (simp add: py_round_def round_half_even_def)
  ultimately show ?thesis by (intro exI [of _ "[]"]) (simp add: empty_result_def calc_max_drawdown_def)
next
  case False
  with assms obtain s start end_date where s: "simulate cf now iso_text (load_backtest_candles cf now_s table) (start_state cf) = Inr s"
      "r = build_result cf (length (load_backtest_candles cf now_s table)) start end_date (st_trades s) (st_curve s)"
    by (auto simp: run_backtest_def Let_def split: sum.splits)
  obtain nets where nets: "list_all2 (booked (bt_runner cf)) (st_trades s) nets" "st_curve s = running (bt_balance cf) nets"
    using simulate_ok [OF s(1) start_ok] by (auto simp: books_ok_def)
  from nets(1) have pnls: "map bd_pnl (st_trades s) = map (py_round 4) nets" "length (st_trades s) = length nets"
    by (induction rule: list_all2_induct) (auto simp: booked_def)
  have parts: "length (filter (\<lambda>x. x > 0) ps) + length (filter (\<lambda>x. x \<le> 0) ps) = length ps" for ps :: "real list"
    by (induction ps) auto
  with nets pnls parts [of "map (py_round 4) nets"] show ?thesis
    by (intro exI [of _ nets]) (simp add: s(2) build_result_def Let_def case_prod_beta)
qed

text \<open>
  The holding time of a backtest is read from its settings and then never used: whatever it is, the same
  trades are made, and a position no level of which is reached stays open to the end and is not reported.
\<close>

theorem holding_time_never_used:
  "run_backtest (cf\<lparr>bt_hold_timeout_h := hours\<rparr>) now_s now iso_text table = run_backtest cf now_s now iso_text table"
proof -
  let ?cf = "cf\<lparr>bt_hold_timeout_h := hours\<rparr>"
  have fields: "bt_sizer ?cf = bt_sizer cf" "bt_spike_bps ?cf = bt_spike_bps cf" "bt_symbol ?cf = bt_symbol cf" "bt_runner ?cf = bt_runner cf"
    "bt_interval ?cf = bt_interval cf" "bt_days_back ?cf = bt_days_back cf" "bt_balance ?cf = bt_balance cf" by simp_all
  have take: "take_candle ?cf = take_candle cf" by (intro ext) (simp only: take_candle_def fields)
  have side: "signal_side ?cf = signal_side cf" by (intro ext) (simp only: signal_side_def fields)
  have plan: "entry_plan ?cf = entry_plan cf" by (intro ext) (simp only: entry_plan_def side fields)
  have "candle_step ?cf = candle_step cf" by (intro ext) (simp only: candle_step_def take plan fields)
  then have sim: "simulate ?cf now iso_text rs s = simulate cf now iso_text rs s" for rs s
    by (induction rs arbitrary: s) (simp_all split: sum.split)
  have load: "load_backtest_candles ?cf = load_backtest_candles cf" by (intro ext) (simp only: load_backtest_candles_def fields)
  have start: "start_state ?cf = start_state cf" by (simp only: start_state_def fields)
  have results: "empty_result ?cf = empty_result cf" "build_result ?cf = build_result cf"
    by (simp only: empty_result_def fields, intro ext, simp only: build_result_def fields)
  show ?thesis by (simp only: run_backtest_def sim load start results)
qed

section \<open>Example inputs\<close>

definition sample_backtest :: bt_config where
  "sample_backtest = \<lparr>bt_runner = Futures, bt_symbol = ''A'', bt_interval = ''1'', bt_days_back = 1, bt_balance = 10000,
     bt_sizer = default_sizer, bt_spike_bps = 80, bt_hold_timeout_h = 4\<rparr>"

definition sample_candle :: "int \<Rightarrow> real \<Rightarrow> price_row" where
  "sample_candle t c = \<lparr>ph_symbol = ''A'', ph_category = ''linear'', ph_interval = ''1'', ph_open_time_ms = t, ph_open = Some c,
     ph_high = Some (c + 1), ph_low = Some (c - 1), ph_close = Some c, ph_volume = Some 1\<rparr>"

lemma quiet_candles:
  assumes "length (st_closes s) + length cs < 20" and "st_position s = None"
  shows "simulate cf now iso_text (map (\<lambda>tc. sample_candle (fst tc) (snd tc)) cs) s
    = Inr (s\<lparr>st_highs := st_highs s @ map (\<lambda>tc. snd tc + 1) cs, st_lows := st_lows s @ map (\<lambda>tc. snd tc - 1) cs, st_closes := st_closes s @ map snd cs\<rparr>)"
  using assms
proof (induction cs arbitrary: s)
  case (Cons tc cs)
  let ?s = "s\<lparr>st_highs := st_highs s @ [snd tc + 1], st_lows := st_lows s @ [snd tc - 1], st_closes := st_closes s @ [snd tc]\<rparr>"
  have same: "?s\<lparr>st_position := None\<rparr> = ?s" using Cons.prems(2) by (cases s) simp
  have "candle_step cf now iso_text (sample_candle (fst tc) (snd tc)) s = Inr ?s"
    using Cons.prems same by (simp add: candle_step_def row_numbers_def row_float_def sample_candle_def take_candle_def tick_def
        entry_plan_def MIN_CANDLES_FOR_TRADE_def)
  with Cons.IH [of ?s] Cons.prems show ?case by simp
qed simp

text \<open>Nineteen quiet candles, one ten percent lower, and one twenty percent higher.\<close>

lemma simulate_append:
  "simulate cf now iso_text (rs @ qs) s = (case simulate cf now iso_text rs s of Inl e \<Rightarrow> Inl e | Inr s \<Rightarrow> simulate cf now iso_text qs s)"
  by (induction rs arbitrary: s) (simp_all split: sum.split)

definition sample_table :: "price_row list" where
  "sample_table = map (\<lambda>tc. sample_candle (fst tc) (snd tc)) (map (\<lambda>i. (int i, 100)) [0..<19]) @ [sample_candle 19 90, sample_candle 20 120]"

lemma sample_loaded: "load_backtest_candles sample_backtest 0 (Some sample_table) = sample_table"
proof -
  have t: "py_trunc ((0 - of_int 1 * 86400) * 1000) = - 86400000" by (simp add: py_trunc_def)
  have rows: "ph_symbol r = ''A'' \<and> ph_category r = ''linear'' \<and> ph_interval r = ''1'' \<and> - 86400000 \<le> ph_open_time_ms r"
    if "r \<in> set sample_table" for r
    using that by (auto simp: sample_table_def sample_candle_def)
  have "sorted (map ph_open_time_ms sample_table)"
    by (simp add: sample_table_def sample_candle_def comp_def sorted_append upt_rec)
  with rows t show ?thesis
    by (simp add: load_backtest_candles_def sample_backtest_def bt_category_def filter_True sort_key_id_if_sorted)
qed

definition quiet_state :: bt_state where
  "quiet_state = (start_state sample_backtest)\<lparr>st_highs := replicate 19 101, st_lows := replicate 19 99, st_closes := replicate 19 100\<rparr>"

lemma sample_quiet: "simulate sample_backtest now iso_text (map (\<lambda>tc. sample_candle (fst tc) (snd tc)) (map (\<lambda>i. (int i, 100)) [0..<19]))
    (start_state sample_backtest) = Inr quiet_state"
  by (subst quiet_candles)
    (simp_all add: start_state_def quiet_state_def comp_def map_replicate_const)

definition fallen_state :: bt_state where
  "fallen_state = take_candle sample_backtest [] (91, 89, 90) quiet_state"

lemma fallen_fields:
  "st_highs fallen_state = replicate 19 101 @ [91]" "st_lows fallen_state = replicate 19 99 @ [89]" "st_closes fallen_state = replicate 19 100 @ [90]"
  "st_position fallen_state = None" "st_equity fallen_state = 10000" "st_trades fallen_state = []"
  by (simp_all add: fallen_state_def take_candle_def tick_def quiet_state_def start_state_def sample_backtest_def)

lemma sample_atr: "calc_atr (last_n 50 (replicate 19 101 @ [91])) (last_n 50 (replicate 19 99 @ [89])) (last_n 50 (replicate 19 100 @ [90])) 14 = Inr (37 / 14)"
  by (simp add: calc_atr_def last_n_def true_range_def py_index_def numeral_nat upt_rec)

lemma sample_entry_plan: "\<exists>sl tp qty. entry_plan sample_backtest 90 fallen_state = Inr (Some (''long'', sl, tp, qty)) \<and> sl < 90 \<and> tp < 120 \<and> 0 < qty"
proof -
  have side: "signal_side sample_backtest ((90 - 100) / 100 * 10000) = Some ''long''"
    by (simp add: signal_side_def sample_backtest_def imbalance_threshold_def)
  have levels: "calc_sl_tp (bt_sizer sample_backtest) 90 (37 / 14) ''long'' None None = Inr (8603571429 / 100000000, 9660714286 / 100000000)"
    by (simp add: calc_sl_tp_def sample_backtest_def default_sizer_def DEFAULT_ATR_SL_MULT_def DEFAULT_ATR_TP_MULT_def MIN_RR_RATIO_def py_divide_def
        py_round_def round_half_even_def Let_def)
  have qty: "calc_qty (bt_sizer sample_backtest) 10000 90 (8603571429 / 100000000) False 0 0 0 = Inr (1111111111 / 50000000)"
    by (simp add: calc_qty_def risk_qty_def sample_backtest_def default_sizer_def DEFAULT_RISK_PCT_def py_round_def round_half_even_def Let_def)
  have ref: "ref_price (replicate 19 100 @ [90 :: real]) = 100" by (simp add: ref_price_def nth_append)
  have "entry_plan sample_backtest 90 fallen_state = Inr (Some (''long'', 8603571429 / 100000000, 9660714286 / 100000000, 1111111111 / 50000000))"
    using qty levels side by (simp add: entry_plan_def fallen_fields MIN_CANDLES_FOR_TRADE_def has_open_position_def sample_atr ref Let_def)
  then show ?thesis by (intro exI conjI) (assumption, simp_all)
qed

lemma sample_simulated: "\<exists>s. simulate sample_backtest [] iso_text sample_table (start_state sample_backtest) = Inr s \<and> length (st_trades s) = 1"
proof -
  obtain sl tp qty where plan: "entry_plan sample_backtest 90 fallen_state = Inr (Some (''long'', sl, tp, qty))" "sl < 90" "tp < 120"
    using sample_entry_plan by blast
  define held where "held = fallen_state\<lparr>st_position := open_trade Futures ''A'' ''long'' 90 qty sl tp (iso_text 19) None\<rparr>"
  have numbers: "row_numbers (sample_candle t c) = Inr (c + 1, c - 1, c)" for t c
    by (simp add: row_numbers_def row_float_def sample_candle_def)
  have fallen: "candle_step sample_backtest [] iso_text (sample_candle 19 90) quiet_state = Inr held"
    unfolding candle_step_def numbers sum.case prod.case Let_def
    by (simp add: plan(1) fallen_fields held_def sample_candle_def fallen_state_def [symmetric]) (simp add: sample_backtest_def)
  define s where "s = take_candle sample_backtest [] (121, 119, 120) held"
  have closed: "st_position s = None" "length (st_trades s) = 1" "st_closes s = replicate 19 100 @ [90, 120]"
    using plan(2,3) by (simp_all add: s_def held_def take_candle_def tick_def open_trade_def sample_backtest_def level_hit_def
        note_exit_def fallen_fields)
  have ref: "ref_price (replicate 19 100 @ [90, 120 :: real]) = 100" by (simp add: ref_price_def nth_append)
  have none: "signal_side sample_backtest 2000 = None"
    by (simp add: signal_side_def sample_backtest_def imbalance_threshold_def)
  have "st_highs s = replicate 19 101 @ [91, 121]" "st_lows s = replicate 19 99 @ [89, 119]"
    using plan(2,3) by (simp_all add: s_def held_def take_candle_def tick_def open_trade_def sample_backtest_def level_hit_def
        note_exit_def fallen_fields)
  then have "calc_atr (last_n 50 (st_highs s)) (last_n 50 (st_lows s)) (last_n 50 (st_closes s)) 14 = Inr (66 / 14)"
    by (simp add: closed calc_atr_def last_n_def true_range_def py_index_def numeral_nat upt_rec)
  then have "entry_plan sample_backtest 120 s = Inr None"
    by (auto simp: entry_plan_def closed ref none MIN_CANDLES_FOR_TRADE_def has_open_position_def Let_def)
  then have "candle_step sample_backtest [] iso_text (sample_candle 20 120) held = Inr s"
    unfolding candle_step_def numbers sum.case prod.case Let_def by (simp add: s_def)
  with fallen closed sample_quiet show ?thesis
    by (simp add: sample_table_def simulate_append)
qed

theorem backtest_reports_its_trades_witness:
  "\<exists>r net. run_backtest sample_backtest 0 [] (\<lambda>_. []) (Some sample_table) = Inr r \<and> rs_trades r = 1 \<and> rs_wins r + rs_losses r = 1
     \<and> rs_total_pnl r = py_round 4 (py_round 4 net)"
proof -
  obtain s where s: "simulate sample_backtest [] (\<lambda>_. []) sample_table (start_state sample_backtest) = Inr s" "length (st_trades s) = 1"
    using sample_simulated [of "\<lambda>_. []"] by blast
  obtain r where r: "run_backtest sample_backtest 0 [] (\<lambda>_. []) (Some sample_table) = Inr r" "rs_trades r = 1"
  proof
    have "sample_table \<noteq> []" by (simp add: sample_table_def)
    then show "run_backtest sample_backtest 0 [] (\<lambda>_. []) (Some sample_table)
        = Inr (build_result sample_backtest (length sample_table) [] [] (st_trades s) (st_curve s))"
      by (simp add: run_backtest_def sample_loaded s(1))
    show "rs_trades (build_result sample_backtest (length sample_table) [] [] (st_trades s) (st_curve s)) = 1"
      by (simp add: build_result_def Let_def case_prod_beta s(2))
  qed
  obtain nets where "length nets = 1" "rs_wins r + rs_losses r = length nets" "rs_total_pnl r = py_round 4 (sum_list (map (py_round 4) nets))"
    using backtest_reports_its_trades [OF r(1)] r(2) by auto
  then show ?thesis using r by (cases nets) auto
qed

text \<open>
  The profit a backtest gives a trade is the profit the paper engines book for the same trade: that of the
  futures engine for side, entry and quantity, and that of the spot engine for a holding with the same
  entry, quantity and fee. Neither futures side counts a fee for the entry.
\<close>

theorem backtest_profit_is_paper_profit:
  assumes "dict_get (sp_holdings s) symbol = Some h"
    and "h_qty h = bp_qty p" and "h_avg_entry_price h = bp_entry p" and "h_entry_fee h = bp_entry_fee p"
  shows "net_pnl_at Futures p price = net_pnl (bp_side p) (bp_entry p) price (bp_qty p)
    \<and> map_option ct_net_pnl (snd (sell exec_id order_id now_ms db_ok symbol price why s)) = Some (net_pnl_at Spot p price)"
  using assms by (simp add: net_pnl_at_def net_pnl_def gross_pnl_def TAKER_FEE_def sell_def Let_def SPOT_FEE_RATE_def)

definition sample_purchase :: bt_position where
  "sample_purchase = \<lparr>bp_symbol = ''A'', bp_side = ''long'', bp_entry = 100, bp_qty = 2, bp_entry_fee = 2 / 10, bp_stop_loss = 90,
     bp_take_profit = 110, bp_open_time = []\<rparr>"

definition sample_holding :: holding where
  "sample_holding = \<lparr>h_trade_id = [], h_symbol = ''A'', h_base_asset = ''A'', h_qty = 2, h_avg_entry_price = 100, h_current_price = 100,
     h_entry_fee = 2 / 10, h_purchase_value_usdt = 200, h_opened_at_ms = 0\<rparr>"

theorem backtest_profit_is_paper_profit_witness:
  "\<exists>s. map_option ct_net_pnl (snd (sell [] [] 0 True ''A'' 110 [] s)) = Some (net_pnl_at Spot sample_purchase 110)
     \<and> net_pnl_at Futures sample_purchase 110 = net_pnl ''long'' 100 110 2"
proof -
  define s where "s = (new_spot_engine 0 (\<lambda>_. ''u'') True 10000 empty_spot_db)\<lparr>sp_holdings := [(''A'', sample_holding)]\<rparr>"
  have "dict_get (sp_holdings s) ''A'' = Some sample_holding" by (simp add: s_def)
  from backtest_profit_is_paper_profit [OF this, of sample_purchase 110 "[]" "[]" 0 True "[]"] show ?thesis
    by (auto simp: sample_purchase_def sample_holding_def)
qed

end
