(* ===== verification/Spec2Isabelle.thy ===== *)
theory Spec2Isabelle
  imports Position_Accounting Exit_Rules Risk_Manager Futures_Protection Trading_State Position_Sizer
    Paper_Client Position_Policy Spot_Paper Spot_Ledger Futures_Paper Event_Publisher Job_Lifecycle
    Bandit Micro_Spread Pair_Admission Spike_Strategies Symbol_Scanner Model_Trainer Labeler
    Futures_Runner Spot_Runner Market_Feed Data_Runner
    Reconciliation_Locks Trading_Loop Order_Quantity Backtest
begin

text \<open>
  Botik is a trading bot for a crypto exchange, written in Python. Market data reaches a shared state;
  strategies turn the state into order intents; a risk manager lets them pass or not; paper engines
  keep cash, holdings and positions in a database and ask an exit policy at every price; runners
  drive the engines from the messages of the exchange; learned models are trained from labelled
  history and from closed trades; and an application service runs background jobs for the desktop
  client. This development models the core logic of these parts and proves what makes each correct,
  or, where the code does not do what it means to, what it does instead.

  Paths below are relative to \<open>src/src/botik\<close>, those of the service to
  \<open>src/app-service/src/botik_app_service\<close>.

  \<^item> Foundations. \<open>Prelude\<close>: Python idioms (ASCII strings, rounding, decimal literals, truthiness,
    dictionaries as association lists with distinct keys, exceptions as values). \<open>Runs\<close>: runs of a
    component and the locales that lift a step property to every run. \<open>Stores\<close>, \<open>Windows\<close>: the
    contracts of keyed stores and of queues pruned from the front. \<open>Json\<close>: decoded JSON values.
  \<^item> Risk. \<open>Position_Accounting\<close> (\<open>risk/position.py\<close>), \<open>Exit_Rules\<close> (\<open>risk/exit_rules.py\<close>,
    \<open>risk/spot_rules.py\<close>), \<open>Risk_Manager\<close> (\<open>risk/manager.py\<close> with its call in the loop of \<open>main.py\<close>),
    \<open>Futures_Protection\<close> (\<open>risk/futures_protection.py\<close>, \<open>risk/futures_rules.py\<close>).
  \<^item> Market. \<open>Trading_State\<close> (\<open>state/state.py\<close>), \<open>Market_Feed\<close> (\<open>marketdata/ws_public.py\<close>),
    \<open>Ohlcv_Worker\<close> (\<open>marketdata/ohlcv_worker.py\<close>).
  \<^item> Positions and engines. \<open>Position_Policy\<close> (\<open>position/base_policy.py\<close>, \<open>position/simple_exit.py\<close>),
    \<open>Position_Sizer\<close> (\<open>position/sizer.py\<close>), \<open>Paper_Client\<close> (\<open>execution/paper.py\<close>), \<open>Spot_Paper\<close> and
    \<open>Spot_Ledger\<close> (\<open>execution/spot_paper.py\<close>: cache, cash and tables, then the tables over a run and
    across a restart), \<open>Futures_Paper\<close> (\<open>execution/futures_paper.py\<close>).
  \<^item> Storage and reconciliation. \<open>Tables\<close>: tables with a unique key and the contract of an upsert;
    \<open>Core_Store\<close> (\<open>storage/core_store.py\<close>), \<open>Domain_Store\<close> (\<open>storage/spot_store.py\<close>,
    \<open>storage/futures_store.py\<close>): rows and statements. \<open>Effects\<close>: steps that may raise in the middle, and the
    locale of the relations they keep. \<open>Reconciliation\<close> (\<open>execution/reconciliation_service.py\<close>): all
    comparisons, issues and locks; \<open>Reconciliation_Runs\<close> lifts a relation kept by every statement to a run,
    \<open>Reconciliation_Issues\<close> and \<open>Reconciliation_Locks\<close> instantiate it for the table of issues and for the
    locks of positions.
  \<^item> Trading process (\<open>main.py\<close>). \<open>Lifecycle_Store\<close> (\<open>storage/lifecycle_store.py\<close>,
    \<open>storage/sqlite_store.py\<close>): signals, executions, outcomes and rewards. \<open>Entry_Gates\<close>: the locks and risk gates
    an entry has to pass; \<open>Protection_Loop\<close>: the state of the process and the protection of a futures position,
    read back from the exchange; \<open>Execution_Sync\<close>: the booking of executions, outcomes of signals and the
    recovery at the start; \<open>Exit_Orders\<close>: forced exits and resting exit quotes; \<open>Trading_Loop\<close>: an iteration of
    the loop, from the choice of symbols over panic, pause and reconciliation to the exits, the exposures and the
    entries of the strategy with their signal, gates, risk check and guarded placement.
  \<^item> Exchange client (\<open>execution/bybit_rest.py\<close>). \<open>Decimals\<close>: the decimal numbers of the language, with their texts,
    quotients and rounding to 28 digits; \<open>Exchange_Client\<close>: requests and their retries, the clock, the filters of a
    symbol and every call; \<open>Order_Quantity\<close>: what becomes of the quantity of an order on its way to the exchange.
  \<^item> Strategies. \<open>Strategy_Base\<close> and \<open>Micro_Spread\<close> (\<open>strategy/spread_scanner.py\<close>,
    \<open>strategy/micro_spread.py\<close>), \<open>Pair_Admission\<close> (\<open>strategy/pair_admission.py\<close>), \<open>Symbol_Scanner\<close>
    (\<open>strategy/symbol_scanner.py\<close>), \<open>Spike_Strategies\<close> (\<open>strategy/spike_reversal.py\<close>,
    \<open>strategy/futures_spike_reversal.py\<close>), \<open>Bandit\<close> (\<open>learning/bandit.py\<close>).
  \<^item> Learning. \<open>Feature_Engine\<close> (\<open>ml/feature_engine.py\<close>), \<open>Labeler\<close> (\<open>ml/labeler.py\<close>),
    \<open>Outcome_Learner\<close> (\<open>ml/outcome_learner.py\<close>), \<open>Model_Registry\<close> (\<open>ml/registry.py\<close>),
    \<open>Model_Trainer\<close> (\<open>ml/base_model.py\<close>, \<open>ml/historian.py\<close>, \<open>ml/predictor.py\<close>, \<open>ml/trainer.py\<close>).
  \<^item> Backtests. \<open>Backtest\<close> (\<open>backtest/backtest_runner.py\<close>, \<open>backtest/backtest_result.py\<close>): stored candles replayed over
    the levels and the sizer of the runners.
  \<^item> Runners. \<open>Runner_Core\<close>, \<open>Futures_Runner\<close> (\<open>runners/futures_runner.py\<close>), \<open>Spot_Runner\<close>
    (\<open>runners/spot_runner.py\<close>), \<open>Data_Runner\<close> (\<open>runners/data_runner.py\<close>: downloads, labels and trains).
  \<^item> Application service. \<open>Event_Publisher\<close> (\<open>jobs/event_publisher.py\<close>), \<open>Job_Store\<close>
    (\<open>contracts/jobs.py\<close>, \<open>jobs/store.py\<close>, \<open>jobs/registry.py\<close>), \<open>Job_Supervisor\<close> and
    \<open>Job_Lifecycle\<close> (\<open>jobs/supervisor.py\<close>, \<open>jobs/manager.py\<close>: the handlers, then their interleavings).

  How the code is modelled. An object is a record of its fields, an operation a function that takes
  the state and returns it updated, with the result or the exception (\<open>Inl\<close>) beside it; a branch that
  returns early or raises is a branch of the function. A loop over a list is structural recursion or a
  fold. Where the recursion is not structural a measure shows that it ends: the cutting of a list into batches by
  the length of the rest, a replacement in a text by the rest of the text, the paging of the backfill by the time left
  to fetch, the retries of a request by the retries left, and the digits of a number by the number or the exponent.
  No definition uses fuel.
  A table is a list of rows or a dictionary by its unique key, and a
  transaction commits or leaves the tables unchanged, which a flag of the call says. Clocks, fresh
  identifiers, random draws, the JSON decoder, child processes and the classifiers of the learning
  library are arguments. Handlers between two suspension points are atomic steps; events of different
  sources interleave freely as lists of steps, and invariants hold for every such list. Floats are
  exact reals: the rounding of the binary format, infinities and NaN are outside the model, so a bound
  that depends on \<open>round\<close> of the source states the half unit the rounding can add. Text is ASCII.

  What the lemmas show. The locales of \<open>Runs\<close> are interpreted for each component with its step
  function, so that an invariant proved for one step (\<open>market\<close>, \<open>spot_ledger\<close>, \<open>spot_solvency\<close>,
  \<open>learner\<close>, \<open>labeling\<close>, \<open>protected_run\<close>, \<open>counting_run\<close> and others) holds for every run; the
  properties of a component follow from these facts. The refinements relate the code to an abstract
  contract: the jobs to their life cycle, the stored books to the maps a feed defines, the tick loop of
  the futures engine to one pass over the table, the spot runner to a sequence of engine operations, the entry locks of the reconciliation to the
  difference of the two sets of positions.
  The locale of position policies states what an engine may rely on, and the policy of the code is an
  instance of it.

  Not modelled: the start-up of \<open>main.py\<close> and its configuration, the schemas and migrations under
  \<open>storage\<close>, the pollers of the account, the chat and desktop interfaces, the read-only queries and the runtime
  control of the service, its worker scripts, the offline training service and the command line tools: input and
  output around a remote service, a database, processes or a user. Inside the modelled files, log lines, alerts, and
  columns that are only displayed are left out, as each theory says.
\<close>

end
